(* ===== verification/Prelude.thy ===== *)
theory Prelude
  imports Main "HOL-Library.List_Lexorder" "HOL-Library.Char_ord"
begin

text \<open>
  What every component of the model shares: the HTTP exceptions the services throw, the
  state-and-exception operations they are written in, the JavaScript string functions
  the code calls, decimal printing and parsing of BigInt values, and the address functions of
  the viem package, which are a parameter of the model.

  Strings are lists of code units below 256 (Latin-1).  Message texts of exceptions are not
  modelled; their class, their machine-readable code and the \<open>retryable\<close> flag are.
\<close>

section \<open>Exceptions\<close>

datatype exn =
    BadRequest string
  | Unauthorized string
  | Forbidden string
  | NotFound string
  | Conflict string
  | Gone string
  | Unprocessable string bool
  | ServiceUnavailable string bool
  | TooManyRequests string bool
  | VerificationError string bool
  | DbError string
  | PlainError string

type_synonym 'a res = "exn + 'a"

section \<open>Operations on a state that may throw\<close>

text \<open>
  A service method takes the stored state and gives back a result or an exception together
  with the state it leaves behind.  A statement that has run before an exception is thrown stays
  in force, unless it ran inside a database transaction (\<open>transaction\<close>).
\<close>

type_synonym ('s, 'a) op = "'s \<Rightarrow> 'a res \<times> 's"

definition ok :: "'a \<Rightarrow> ('s, 'a) op" where
  "ok x s = (Inr x, s)"

definition throw :: "exn \<Rightarrow> ('s, 'a) op" where
  "throw e s = (Inl e, s)"

definition andThen :: "('s, 'a) op \<Rightarrow> ('a \<Rightarrow> ('s, 'b) op) \<Rightarrow> ('s, 'b) op" where
  "andThen m f s = (case m s of (Inl e, t) \<Rightarrow> (Inl e, t) | (Inr x, t) \<Rightarrow> f x t)"

definition catching :: "('s, 'a) op \<Rightarrow> (exn \<Rightarrow> ('s, 'a) op) \<Rightarrow> ('s, 'a) op" where
  "catching m h s = (case m s of (Inl e, t) \<Rightarrow> h e t | (Inr x, t) \<Rightarrow> (Inr x, t))"

definition ensure :: "bool \<Rightarrow> exn \<Rightarrow> ('s, unit) op" where
  "ensure b e s = (if b then Inr () else Inl e, s)"

definition lift :: "'a res \<Rightarrow> ('s, 'a) op" where
  "lift r s = (r, s)"

definition query :: "('s \<Rightarrow> 'a) \<Rightarrow> ('s, 'a) op" where
  "query f s = (Inr (f s), s)"

definition transaction :: "('s, 'a) op \<Rightarrow> ('s, 'a) op" where
  "transaction m s = (case m s of (Inl e, t) \<Rightarrow> (Inl e, s) | (Inr x, t) \<Rightarrow> (Inr x, t))"

definition bindR :: "'a res \<Rightarrow> ('a \<Rightarrow> 'b res) \<Rightarrow> 'b res" where
  "bindR r f = (case r of Inl e \<Rightarrow> Inl e | Inr x \<Rightarrow> f x)"

definition ensureR :: "bool \<Rightarrow> exn \<Rightarrow> unit res" where
  "ensureR b e = (if b then Inr () else Inl e)"

definition fromSome :: "exn \<Rightarrow> 'a option \<Rightarrow> 'a res" where
  "fromSome e x = (case x of None \<Rightarrow> Inl e | Some y \<Rightarrow> Inr y)"

named_theorems op_defs "the combinators of state-and-exception operations"

lemmas [op_defs] =
  ok_def throw_def andThen_def catching_def ensure_def lift_def query_def transaction_def

named_theorems res_defs "the combinators of results"

lemmas [res_defs] = bindR_def ensureR_def fromSome_def

lemma bindR_Inr_iff [simp]:
  "bindR r f = Inr y \<longleftrightarrow> (\<exists>x. r = Inr x \<and> f x = Inr y)"
  by (cases r) (auto simp: bindR_def)

lemma bindR_Inl_iff:
  "bindR r f = Inl e \<longleftrightarrow> r = Inl e \<or> (\<exists>x. r = Inr x \<and> f x = Inl e)"
  by (cases r) (auto simp: bindR_def)

lemma bindR_simps [simp]: "bindR (Inr x) f = f x" "bindR (Inl e) f = Inl e"
  by (simp_all add: bindR_def)

text \<open>With these as congruence rules the simplifier reduces the first step before it looks at the rest.\<close>

lemma bindR_first: "r = r' \<Longrightarrow> bindR r f = bindR r' f"
  by simp

lemma andThen_first: "m s = m' s \<Longrightarrow> s = s' \<Longrightarrow> andThen m f s = andThen m' f s'"
  by (simp add: andThen_def)

lemma ensureR_simps [simp]:
  "ensureR b e = Inr u \<longleftrightarrow> b" "ensureR b e = Inl e' \<longleftrightarrow> \<not> b \<and> e = e'"
  by (auto simp: ensureR_def)

lemma fromSome_simps [simp]:
  "fromSome e x = Inr y \<longleftrightarrow> x = Some y" "fromSome e x = Inl e' \<longleftrightarrow> x = None \<and> e = e'"
  by (auto simp: fromSome_def split: option.splits)

lemma ok_eq [simp]: "ok x s = (Inr y, t) \<longleftrightarrow> x = y \<and> s = t" "ok x s \<noteq> (Inl e, t)"
  by (auto simp: ok_def)

lemma throw_eq [simp]: "throw e s = (Inl e', t) \<longleftrightarrow> e = e' \<and> s = t" "throw e s \<noteq> (Inr y, t)"
  by (auto simp: throw_def)

lemma andThen_Inr_iff:
  "andThen m f s = (Inr y, u) \<longleftrightarrow> (\<exists>x t. m s = (Inr x, t) \<and> f x t = (Inr y, u))"
  by (auto simp: andThen_def split: prod.splits sum.splits)

lemma andThen_Inl_iff:
  "andThen m f s = (Inl e, u) \<longleftrightarrow>
     m s = (Inl e, u) \<or> (\<exists>x t. m s = (Inr x, t) \<and> f x t = (Inl e, u))"
  by (auto simp: andThen_def split: prod.splits sum.splits)

lemma andThen_run:
  "m s = (Inr x, t) \<Longrightarrow> andThen m f s = f x t" "m s = (Inl e, t) \<Longrightarrow> andThen m f s = (Inl e, t)"
  by (simp_all add: andThen_def)

lemma andThen_ensure: "andThen (ensure b e) f s = (if b then f () s else (Inl e, s))"
  by (simp add: andThen_def ensure_def)

lemma ensure_eq [simp]:
  "ensure b e s = (Inr u, t) \<longleftrightarrow> b \<and> s = t"
  "ensure b e s = (Inl e', t) \<longleftrightarrow> \<not> b \<and> e = e' \<and> s = t"
  by (auto simp: ensure_def)

lemma query_eq [simp]:
  "query f s = (Inr y, t) \<longleftrightarrow> f s = y \<and> s = t" "query f s \<noteq> (Inl e, t)"
  by (auto simp: query_def)

lemma lift_eq [simp]: "lift r s = (r', t) \<longleftrightarrow> r = r' \<and> s = t"
  by (auto simp: lift_def)

lemma transaction_Inr: "transaction m s = (Inr x, t) \<longleftrightarrow> m s = (Inr x, t)"
  by (auto simp: transaction_def split: prod.splits sum.splits)

text \<open>An operation preserves a relation when every outcome, thrown or returned, does.\<close>

definition keeps :: "('s \<Rightarrow> 's \<Rightarrow> bool) \<Rightarrow> ('s, 'a) op \<Rightarrow> bool" where
  "keeps R m \<longleftrightarrow> (\<forall>s. R s (snd (m s)))"

lemma keepsI: "(\<And>s r t. m s = (r, t) \<Longrightarrow> R s t) \<Longrightarrow> keeps R m"
  by (metis keeps_def prod.collapse)

lemma keepsD: "keeps R m \<Longrightarrow> m s = (r, t) \<Longrightarrow> R s t"
  by (metis keeps_def snd_conv)

lemma keeps_ok [intro!]: "reflp R \<Longrightarrow> keeps R (ok x)"
  by (simp add: keeps_def ok_def reflpD)

lemma keeps_throw [intro!]: "reflp R \<Longrightarrow> keeps R (throw e)"
  by (simp add: keeps_def throw_def reflpD)

lemma keeps_query [intro!]: "reflp R \<Longrightarrow> keeps R (query f)"
  by (simp add: keeps_def query_def reflpD)

lemma keeps_ensure [intro!]: "reflp R \<Longrightarrow> keeps R (ensure b e)"
  by (simp add: keeps_def ensure_def reflpD)

lemma keeps_lift [intro!]: "reflp R \<Longrightarrow> keeps R (lift r)"
  by (simp add: keeps_def lift_def reflpD)

lemma keeps_andThen:
  assumes "transp R" "keeps R m" "\<And>x. keeps R (f x)"
  shows "keeps R (andThen m f)"
proof (rule keepsI)
  fix s r t
  assume "andThen m f s = (r, t)"
  then show "R s t"
    using assms by (auto simp: andThen_def dest: keepsD split: prod.splits sum.splits)
      (meson keepsD transpD)
qed

lemma keeps_catching:
  assumes "transp R" "keeps R m" "\<And>e. keeps R (h e)"
  shows "keeps R (catching m h)"
proof (rule keepsI)
  fix s r t
  assume "catching m h s = (r, t)"
  then show "R s t"
    using assms by (auto simp: catching_def dest: keepsD split: prod.splits sum.splits)
      (meson keepsD transpD)
qed

lemma keeps_transaction:
  assumes "reflp R" "keeps R m"
  shows "keeps R (transaction m)"
proof (rule keepsI)
  fix s r t
  assume "transaction m s = (r, t)"
  then show "R s t"
    using assms by (auto simp: transaction_def reflpD dest: keepsD split: prod.splits sum.splits)
qed

lemma keeps_if: "keeps R a \<Longrightarrow> keeps R b \<Longrightarrow> keeps R (if c then a else b)"
  by simp

lemma keeps_option:
  "keeps R a \<Longrightarrow> (\<And>x. keeps R (f x)) \<Longrightarrow> keeps R (case opt of None \<Rightarrow> a | Some x \<Rightarrow> f x)"
  by (cases opt) auto

lemma keeps_prod: "(\<And>x y. keeps R (f x y)) \<Longrightarrow> keeps R (case p of (x, y) \<Rightarrow> f x y)"
  by (cases p) auto

lemmas keeps_split = keeps_if keeps_option keeps_prod

lemma rtranclp_reflp: "reflp r\<^sup>*\<^sup>*"
  by (simp add: reflp_def)

lemma rtranclp_transp: "transp r\<^sup>*\<^sup>*"
  by (meson transpI rtranclp_trans)

text \<open>The exceptions a computation can end with.\<close>

definition fails_in :: "exn set \<Rightarrow> 'a res \<Rightarrow> bool" where
  "fails_in S r \<longleftrightarrow> (\<forall>e. r = Inl e \<longrightarrow> e \<in> S)"

lemma fails_inD: "fails_in S r \<Longrightarrow> r = Inl e \<Longrightarrow> e \<in> S"
  by (simp add: fails_in_def)

lemma fails_bindR: "fails_in S r \<Longrightarrow> (\<And>x. fails_in S (f x)) \<Longrightarrow> fails_in S (bindR r f)"
  by (cases r) (auto simp: fails_in_def)

lemma fails_basic:
  "e \<in> S \<Longrightarrow> fails_in S (ensureR b e)" "e \<in> S \<Longrightarrow> fails_in S (fromSome e x)"
  "fails_in S (Inr y)" "e \<in> S \<Longrightarrow> fails_in S (Inl e)"
  by (auto simp: fails_in_def ensureR_def fromSome_def split: option.splits)

lemma fails_if: "fails_in S a \<Longrightarrow> fails_in S b \<Longrightarrow> fails_in S (if c then a else b)"
  by simp

lemmas fails_rules = fails_bindR fails_basic fails_if

section \<open>Characters and JavaScript strings\<close>

definition is_space :: "char \<Rightarrow> bool" where
  "is_space c \<longleftrightarrow> (let n = (of_char c :: nat) in (9 \<le> n \<and> n \<le> 13) \<or> n = 32 \<or> n = 160)"

definition js_trim :: "string \<Rightarrow> string" where
  "js_trim s = rev (dropWhile is_space (rev (dropWhile is_space s)))"

definition lower_char :: "char \<Rightarrow> char" where
  "lower_char c = (let n = (of_char c :: nat) in
     if (65 \<le> n \<and> n \<le> 90) \<or> (192 \<le> n \<and> n \<le> 222 \<and> n \<noteq> 215) then char_of (n + 32) else c)"

definition toLowerCase :: "string \<Rightarrow> string" where
  "toLowerCase s = map lower_char s"

definition is_digit :: "char \<Rightarrow> bool" where
  "is_digit c \<longleftrightarrow> 48 \<le> (of_char c :: nat) \<and> (of_char c :: nat) \<le> 57"

definition is_hex :: "char \<Rightarrow> bool" where
  "is_hex c \<longleftrightarrow> (let n = (of_char c :: nat) in
     (48 \<le> n \<and> n \<le> 57) \<or> (65 \<le> n \<and> n \<le> 70) \<or> (97 \<le> n \<and> n \<le> 102))"

definition hex_val :: "char \<Rightarrow> nat" where
  "hex_val c = (let n = (of_char c :: nat) in
     if n \<le> 57 then n - 48 else if n \<le> 70 then n - 55 else n - 87)"

definition hex_char :: "nat \<Rightarrow> char" where
  "hex_char n = (if n < 10 then char_of (48 + n) else char_of (87 + n))"

text \<open>\<open>s.includes(pat)\<close>.\<close>

fun contains :: "string \<Rightarrow> string \<Rightarrow> bool" where
  "contains pat [] \<longleftrightarrow> pat = []"
| "contains pat (c # cs) \<longleftrightarrow> take (length pat) (c # cs) = pat \<or> contains pat cs"

text \<open>The regular expression \<open>/^0x[0-9a-fA-F]{n}$/\<close>.\<close>

definition is_hex_string :: "nat \<Rightarrow> string \<Rightarrow> bool" where
  "is_hex_string n s \<longleftrightarrow> take 2 s = ''0x'' \<and> length s = n + 2 \<and> list_all is_hex (drop 2 s)"

abbreviation is_hash :: "string \<Rightarrow> bool" where
  "is_hash \<equiv> is_hex_string 64"

abbreviation is_hex_address :: "string \<Rightarrow> bool" where
  "is_hex_address \<equiv> is_hex_string 40"

lemma lower_char_idem [simp]: "lower_char (lower_char c) = lower_char c"
proof -
  have "(of_char c :: nat) < 256" by simp
  then show ?thesis by (auto simp: lower_char_def Let_def)
qed

lemma toLowerCase_idem [simp]: "toLowerCase (toLowerCase s) = toLowerCase s"
  by (simp add: toLowerCase_def)

lemma length_toLowerCase [simp]: "length (toLowerCase s) = length s"
  by (simp add: toLowerCase_def)

lemma is_hex_lower [simp]: "is_hex (lower_char c) = is_hex c"
  by (auto simp: is_hex_def lower_char_def Let_def)

lemma is_hex_string_lower:
  assumes "is_hex_string n s"
  shows "is_hex_string n (toLowerCase s)"
proof -
  have "map lower_char (take 2 s) = ''0x''"
    using assms by (simp add: is_hex_string_def lower_char_def)
  then show ?thesis
    using assms by (simp add: is_hex_string_def toLowerCase_def take_map drop_map list_all_length)
qed

section \<open>Decimal numerals\<close>

definition digit_char :: "nat \<Rightarrow> char" where
  "digit_char d = char_of (48 + d)"

definition digit_val :: "char \<Rightarrow> nat" where
  "digit_val c = of_char c - 48"

fun show_nat :: "nat \<Rightarrow> string" where
  "show_nat n = (if n < 10 then [digit_char n] else show_nat (n div 10) @ [digit_char (n mod 10)])"

declare show_nat.simps [simp del]

definition read_nat :: "string \<Rightarrow> nat" where
  "read_nat s = foldl (\<lambda>a c. 10 * a + digit_val c) 0 s"

text \<open>The regular expressions \<open>/^(0|[1-9][0-9]*)$/\<close> and \<open>/^[1-9]\d*$/\<close>.\<close>

definition canonical_uint :: "string \<Rightarrow> bool" where
  "canonical_uint s \<longleftrightarrow> s = ''0'' \<or>
     (case s of [] \<Rightarrow> False | c # cs \<Rightarrow> is_digit c \<and> c \<noteq> CHR ''0'' \<and> list_all is_digit cs)"

definition positive_uint :: "string \<Rightarrow> bool" where
  "positive_uint s \<longleftrightarrow>
     (case s of [] \<Rightarrow> False | c # cs \<Rightarrow> is_digit c \<and> c \<noteq> CHR ''0'' \<and> list_all is_digit cs)"

lemma digit_val_char [simp]: "d < 10 \<Longrightarrow> digit_val (digit_char d) = d"
  by (simp add: digit_val_def digit_char_def)

lemma is_digit_char [simp]: "d < 10 \<Longrightarrow> is_digit (digit_char d)"
  by (simp add: is_digit_def digit_char_def)

lemma digit_char_val [simp]: "is_digit c \<Longrightarrow> digit_char (digit_val c) = c"
  by (simp add: is_digit_def digit_val_def digit_char_def)

lemma digit_val_less: "is_digit c \<Longrightarrow> digit_val c < 10"
  by (simp add: is_digit_def digit_val_def) arith

lemma digit_val_0: "is_digit c \<Longrightarrow> digit_val c = 0 \<longleftrightarrow> c = CHR ''0''"
proof -
  assume "is_digit c"
  then have "digit_val c = 0 \<longleftrightarrow> (of_char c :: nat) = of_char (CHR ''0'')"
    by (auto simp: is_digit_def digit_val_def)
  then show ?thesis by (simp only: of_char_eq_iff)
qed

lemma digit_char_zero [simp]: "digit_char 0 = CHR ''0''"
  by (simp add: digit_char_def) code_simp

lemma digit_char_0: "d < 10 \<Longrightarrow> digit_char d = CHR ''0'' \<longleftrightarrow> d = 0"
  by (metis digit_val_0 digit_val_char is_digit_char)

lemma read_nat_snoc: "read_nat (s @ [c]) = 10 * read_nat s + digit_val c"
  by (simp add: read_nat_def)

lemma read_show [simp]: "read_nat (show_nat n) = n"
proof (induction n rule: show_nat.induct)
  case (1 n)
  show ?case
  proof (cases "n < 10")
    case True
    then show ?thesis by (simp add: show_nat.simps [of n] read_nat_def)
  next
    case False
    with 1 show ?thesis by (simp add: show_nat.simps [of n] read_nat_snoc)
  qed
qed

lemma show_nat_inj [simp]: "show_nat m = show_nat n \<longleftrightarrow> m = n"
  by (metis read_show)

lemma show_nat_digits: "list_all is_digit (show_nat n)"
proof (induction n rule: show_nat.induct)
  case (1 n)
  show ?case
  proof (cases "n < 10")
    case True
    then show ?thesis by (simp add: show_nat.simps [of n])
  next
    case False
    with 1 show ?thesis by (simp add: show_nat.simps [of n])
  qed
qed

lemma show_nat_nonempty [simp]: "show_nat n \<noteq> []"
  by (subst show_nat.simps) simp

lemma show_nat_head: "0 < n \<Longrightarrow> hd (show_nat n) \<noteq> CHR ''0''"
proof (induction n rule: show_nat.induct)
  case (1 n)
  show ?case
  proof (cases "n < 10")
    case True
    with 1 show ?thesis by (simp add: show_nat.simps [of n] digit_char_0)
  next
    case False
    with 1 have "hd (show_nat (n div 10)) \<noteq> CHR ''0''" by simp
    with False show ?thesis by (simp add: show_nat.simps [of n])
  qed
qed

lemma show_nat_canonical: "canonical_uint (show_nat n)"
proof (cases "n = 0")
  case True
  then show ?thesis by (simp add: show_nat.simps canonical_uint_def)
next
  case False
  then have "hd (show_nat n) \<noteq> CHR ''0''" by (simp add: show_nat_head)
  with show_nat_digits [of n] show ?thesis
    by (auto simp: canonical_uint_def split: list.splits)
qed

lemma positive_show: "positive_uint (show_nat n) \<longleftrightarrow> 0 < n"
proof (cases "n = 0")
  case True
  then show ?thesis by (simp add: show_nat.simps positive_uint_def)
next
  case False
  with show_nat_head [of n] show_nat_digits [of n] show ?thesis
    by (auto simp: positive_uint_def split: list.splits)
qed

text \<open>A canonical numeral is the printed form of the number it reads as.\<close>

lemma read_nat_pos:
  assumes "list_all is_digit s" "s \<noteq> []" "hd s \<noteq> CHR ''0''"
  shows "0 < read_nat s"
  using assms
proof (induction s rule: rev_induct)
  case Nil
  then show ?case by simp
next
  case (snoc c s)
  show ?case
  proof (cases "s = []")
    case True
    with snoc.prems have "digit_val c \<noteq> 0" by (simp add: digit_val_0)
    with True show ?thesis by (simp add: read_nat_def)
  next
    case False
    with snoc show ?thesis by (simp add: read_nat_snoc)
  qed
qed

lemma show_read_nonzero:
  assumes "list_all is_digit s" "s \<noteq> []" "hd s \<noteq> CHR ''0''"
  shows "show_nat (read_nat s) = s"
  using assms
proof (induction s rule: rev_induct)
  case Nil
  then show ?case by simp
next
  case (snoc c s)
  from snoc.prems have c: "is_digit c" by simp
  show ?case
  proof (cases "s = []")
    case True
    with c show ?thesis by (simp add: read_nat_def show_nat.simps digit_val_less)
  next
    case False
    with snoc have IH: "show_nat (read_nat s) = s" by simp
    have pos: "0 < read_nat s" using False snoc.prems by (intro read_nat_pos) simp_all
    have "read_nat (s @ [c]) div 10 = read_nat s" "read_nat (s @ [c]) mod 10 = digit_val c"
      using digit_val_less [OF c] by (simp_all add: read_nat_snoc)
    with pos IH c show ?thesis
      by (subst show_nat.simps) (simp add: read_nat_snoc)
  qed
qed

lemma show_read [simp]: "canonical_uint s \<Longrightarrow> show_nat (read_nat s) = s"
proof (cases "s = ''0''")
  case True
  then show ?thesis by (simp add: read_nat_def show_nat.simps digit_val_def)
next
  case False
  assume "canonical_uint s"
  with False show ?thesis
    by (intro show_read_nonzero) (auto simp: canonical_uint_def split: list.splits)
qed

lemma positive_uint_canonical: "positive_uint s \<Longrightarrow> canonical_uint s"
  by (simp add: positive_uint_def canonical_uint_def)

lemma show_read_positive [simp]: "positive_uint s \<Longrightarrow> show_nat (read_nat s) = s"
  by (simp add: positive_uint_canonical)

lemma read_positive: "positive_uint s \<Longrightarrow> 0 < read_nat s"
  by (intro read_nat_pos) (auto simp: positive_uint_def split: list.splits)

section \<open>The address functions of viem\<close>

text \<open>
  \<open>isAddress\<close>, \<open>getAddress\<close>, \<open>isAddressEqual\<close> and the hash functions come from packages that
  are not part of the repository: they are the fields of a record, an argument of every definition
  that calls them.  \<open>getAddress\<close> and \<open>isAddressEqual\<close> are \<open>None\<close> where viem throws.
  \<open>evm_laws\<close> states what viem documents: \<open>getAddress\<close> accepts exactly the 20-byte
  hexadecimal strings and gives back their checksummed spelling, which differs in case only;
  \<open>isAddressEqual\<close> compares two addresses without regard to case; \<open>isHex\<close> accepts the hexadecimal
  strings with the prefix 0x.
\<close>

record evm =
  isAddress :: "string \<Rightarrow> bool"
  getAddress :: "string \<Rightarrow> string option"
  isAddressEqual :: "string \<Rightarrow> string \<Rightarrow> bool option"
  isHex :: "string \<Rightarrow> bool"
  keccak256 :: "string \<Rightarrow> string"
  sha256 :: "string \<Rightarrow> string"

definition zeroAddress :: string where
  "zeroAddress = ''0x'' @ replicate 40 (CHR ''0'')"

definition evm_laws :: "evm \<Rightarrow> bool" where
  "evm_laws E \<longleftrightarrow>
     (\<forall>a. getAddress E a \<noteq> None \<longleftrightarrow> is_hex_address a) \<and>
     (\<forall>a c. getAddress E a = Some c \<longrightarrow>
        toLowerCase c = toLowerCase a \<and> isAddress E c \<and> is_hex_address c) \<and>
     (\<forall>a b. is_hex_address a \<and> is_hex_address b \<and> toLowerCase a = toLowerCase b \<longrightarrow>
        getAddress E a = getAddress E b) \<and>
     (\<forall>a. isAddress E a \<longrightarrow> is_hex_address a) \<and>
     (\<forall>a b. isAddressEqual E a b =
        (if is_hex_address a \<and> is_hex_address b then Some (toLowerCase a = toLowerCase b) else None)) \<and>
     (\<forall>v. isHex E v \<longleftrightarrow> take 2 v = ''0x'' \<and> list_all is_hex (drop 2 v))"

text \<open>
  A concrete instance with lower-case spelling as the canonical one, on which the
  theorems are exercised.  Its hashes are stand-ins of the right shape.
\<close>

definition lower_evm :: evm where
  "lower_evm =
     \<lparr>isAddress = is_hex_address,
      getAddress = (\<lambda>a. if is_hex_address a then Some (toLowerCase a) else None),
      isAddressEqual = (\<lambda>a b. if is_hex_address a \<and> is_hex_address b
         then Some (toLowerCase a = toLowerCase b) else None),
      isHex = (\<lambda>v. take 2 v = ''0x'' \<and> list_all is_hex (drop 2 v)),
      keccak256 = (\<lambda>s. ''0x'' @ replicate 64 (CHR ''a'')),
      sha256 = (\<lambda>s. s)\<rparr>"

lemma lower_evm_laws: "evm_laws lower_evm"
  by (auto simp: evm_laws_def lower_evm_def is_hex_string_lower)

lemma getAddress_defined:
  assumes "evm_laws E"
  shows "getAddress E a = None \<longleftrightarrow> \<not> is_hex_address a"
  using assms [unfolded evm_laws_def, THEN conjunct1] by blast

lemma getAddress_Some:
  assumes "evm_laws E" "getAddress E a = Some c"
  shows "toLowerCase c = toLowerCase a" "isAddress E c" "is_hex_address c" "is_hex_address a"
proof -
  show "toLowerCase c = toLowerCase a" "isAddress E c" "is_hex_address c"
    using assms(1) [unfolded evm_laws_def, THEN conjunct2, THEN conjunct1] assms(2) by blast+
  show "is_hex_address a" using getAddress_defined [OF assms(1), of a] assms(2) by simp
qed

lemma getAddress_same:
  assumes "evm_laws E" "is_hex_address a" "is_hex_address b" "toLowerCase a = toLowerCase b"
  shows "getAddress E a = getAddress E b"
  using assms(1) [unfolded evm_laws_def, THEN conjunct2, THEN conjunct2, THEN conjunct1] assms(2-)
  by blast

lemma isAddress_hex:
  assumes "evm_laws E" "isAddress E a"
  shows "is_hex_address a"
  using assms(1) [unfolded evm_laws_def, THEN conjunct2, THEN conjunct2, THEN conjunct2, THEN conjunct1]
    assms(2) by blast

lemma isAddressEqual_eq:
  assumes "evm_laws E"
  shows "isAddressEqual E a b =
    (if is_hex_address a \<and> is_hex_address b then Some (toLowerCase a = toLowerCase b) else None)"
  using assms [unfolded evm_laws_def, THEN conjunct2, THEN conjunct2, THEN conjunct2, THEN conjunct2,
      THEN conjunct1]
  by blast

lemma isHex_eq:
  assumes "evm_laws E"
  shows "isHex E v \<longleftrightarrow> take 2 v = ''0x'' \<and> list_all is_hex (drop 2 v)"
  using assms [unfolded evm_laws_def, THEN conjunct2, THEN conjunct2, THEN conjunct2, THEN conjunct2,
      THEN conjunct2]
  by blast

lemma isAddressEqual_iff:
  "evm_laws E \<Longrightarrow> isAddressEqual E a b = Some r \<longleftrightarrow>
     is_hex_address a \<and> is_hex_address b \<and> r = (toLowerCase a = toLowerCase b)"
  by (auto simp: isAddressEqual_eq)

lemma getAddress_canonical:
  assumes "evm_laws E" "getAddress E a = Some c"
  shows "getAddress E c = Some c"
  using getAddress_same [OF assms(1), of c a] getAddress_Some [OF assms] assms(2) by simp

lemma getAddress_unique:
  assumes "evm_laws E" "getAddress E a = Some c" "getAddress E b = Some d"
    "toLowerCase a = toLowerCase b"
  shows "c = d"
  using getAddress_same [OF assms(1), of a b] getAddress_Some [OF assms(1)] assms(2-) by fastforce

text \<open>On checksummed addresses \<open>isAddressEqual\<close> is equality.\<close>

lemma isAddressEqual_canonical:
  assumes "evm_laws E" "getAddress E a = Some a" "getAddress E b = Some b"
  shows "isAddressEqual E a b = Some (a = b)"
proof -
  have "is_hex_address a" "is_hex_address b"
    using getAddress_Some(4) assms by blast+
  moreover have "toLowerCase a = toLowerCase b \<Longrightarrow> a = b"
    using getAddress_unique assms by blast
  ultimately show ?thesis
    using isAddressEqual_eq [OF assms(1)] by auto
qed

section \<open>Sample addresses and hashes\<close>

definition addr :: "char \<Rightarrow> string" where
  "addr c = ''0x'' @ replicate 40 c"

definition hash_of :: "char \<Rightarrow> string" where
  "hash_of c = ''0x'' @ replicate 64 c"

lemma addr_facts [simp]:
  "is_hex c \<Longrightarrow> is_hex_address (addr c)" "is_hex c \<Longrightarrow> is_hash (hash_of c)"
  "lower_char c = c \<Longrightarrow> toLowerCase (addr c) = addr c" "lower_char c = c \<Longrightarrow> toLowerCase (hash_of c) = hash_of c"
  by (simp_all add: is_hex_string_def addr_def hash_of_def toLowerCase_def list_all_length lower_char_def)

lemma hex_digits [simp]:
  "is_hex (CHR ''a'')" "is_hex (CHR ''c'')" "lower_char (CHR ''c'') = CHR ''c''" "is_hex (CHR ''b'')" "is_hex (CHR ''5'')" "is_hex (CHR ''1'')"
  "lower_char (CHR ''a'') = CHR ''a''" "lower_char (CHR ''b'') = CHR ''b''"
  "lower_char (CHR ''5'') = CHR ''5''" "lower_char (CHR ''1'') = CHR ''1''"
  by (simp_all add: is_hex_def lower_char_def)

lemma addr_inj [simp]: "addr c = addr d \<longleftrightarrow> c = d" "hash_of c = hash_of d \<longleftrightarrow> c = d"
  by (simp_all add: addr_def hash_of_def replicate_eq_replicate)

lemma addr_nonempty [simp]: "addr c \<noteq> []" "hash_of c \<noteq> []"
  by (simp_all add: addr_def hash_of_def)

end
