(* ===== verification/Table.thy ===== *)
theory Table
  imports Prelude
begin

text \<open>
  Database tables.  A table is the list of its rows in insertion order; the statements the services
  send through Prisma are \<open>findUnique\<close> / \<open>findFirst\<close> (\<open>find_row\<close>), \<open>updateMany\<close> with a where clause
  (\<open>update_rows\<close>, which also counts the rows it hits) and \<open>create\<close> (append, refused on a violated
  unique constraint).  One statement is one atomic step.

  The locale \<open>row_evolution\<close> is the interface between a component's rows and everything that runs
  over its table: a preorder on rows that keeps the row's id.  Whoever shows that each of its
  statements moves rows up the preorder gets, for whole tables and for any number of operations,
  that no row is lost and that every row has evolved.
\<close>

definition find_row :: "('r \<Rightarrow> bool) \<Rightarrow> 'r list \<Rightarrow> 'r option" where
  "find_row p T = List.find p T"

definition update_rows :: "('r \<Rightarrow> bool) \<Rightarrow> ('r \<Rightarrow> 'r) \<Rightarrow> 'r list \<Rightarrow> 'r list" where
  "update_rows p f T = map (\<lambda>r. if p r then f r else r) T"

definition count_rows :: "('r \<Rightarrow> bool) \<Rightarrow> 'r list \<Rightarrow> nat" where
  "count_rows p T = length (filter p T)"

definition updateMany :: "('r \<Rightarrow> bool) \<Rightarrow> ('r \<Rightarrow> 'r) \<Rightarrow> ('r list, nat) op" where
  "updateMany p f T = (Inr (count_rows p T), update_rows p f T)"

text \<open>A statement that would break a unique constraint fails with P2002 and changes nothing.\<close>

definition updateManyUnique ::
  "('r list \<Rightarrow> bool) \<Rightarrow> ('r \<Rightarrow> bool) \<Rightarrow> ('r \<Rightarrow> 'r) \<Rightarrow> ('r list, nat) op" where
  "updateManyUnique uniq p f T =
     (if uniq (update_rows p f T) then (Inr (count_rows p T), update_rows p f T)
      else (Inl (DbError ''P2002''), T))"

definition insertUnique :: "('r list \<Rightarrow> bool) \<Rightarrow> 'r \<Rightarrow> ('r list, 'r) op" where
  "insertUnique uniq r T =
     (if uniq (T @ [r]) then (Inr r, T @ [r]) else (Inl (DbError ''P2002''), T))"

text \<open>The values of a nullable unique column are distinct.\<close>

definition unique_col :: "('r \<Rightarrow> 'v option) \<Rightarrow> 'r list \<Rightarrow> bool" where
  "unique_col c T \<longleftrightarrow> distinct (List.map_filter c T)"

lemma find_row_simps [simp]:
  "find_row p [] = None" "find_row p (r # T) = (if p r then Some r else find_row p T)"
  by (simp_all add: find_row_def)

lemma find_row_Some: "find_row p T = Some r \<Longrightarrow> r \<in> set T \<and> p r"
  by (auto simp: find_row_def find_Some_iff)

lemma find_row_None: "find_row p T = None \<longleftrightarrow> (\<forall>r\<in>set T. \<not> p r)"
  by (auto simp: find_row_def find_None_iff)

lemma find_row_append:
  "find_row p (T @ U) = (case find_row p T of None \<Rightarrow> find_row p U | Some r \<Rightarrow> Some r)"
  by (induction T) simp_all

lemma find_row_unique:
  assumes "distinct (map k T)" "r \<in> set T" "k r = i"
  shows "find_row (\<lambda>r. k r = i) T = Some r"
  using assms by (induction T) (auto intro: rev_image_eqI)

lemma find_update:
  assumes "\<And>r. p r \<Longrightarrow> k (f r) = k r"
  shows "find_row (\<lambda>r. k r = i) (update_rows p f T) =
    map_option (\<lambda>r. if p r then f r else r) (find_row (\<lambda>r. k r = i) T)"
  using assms by (induction T) (auto simp: update_rows_def)

lemma map_update [simp]: "(\<And>r. p r \<Longrightarrow> k (f r) = k r) \<Longrightarrow> map k (update_rows p f T) = map k T"
  by (simp add: update_rows_def comp_def)

lemma count_unique:
  assumes "distinct (map k T)"
  shows "count_rows (\<lambda>r. k r = i \<and> q r) T =
    (case find_row (\<lambda>r. k r = i) T of None \<Rightarrow> 0 | Some r \<Rightarrow> if q r then 1 else 0)"
  using assms
proof (induction T)
  case Nil
  then show ?case by (simp add: count_rows_def)
next
  case (Cons r T)
  show ?case
  proof (cases "k r = i")
    case True
    have "k r \<notin> k ` set T" using Cons.prems by simp
    then have "\<forall>s\<in>set T. k s \<noteq> i" using True by (metis imageI)
    then have "filter (\<lambda>s. k s = i \<and> q s) T = []" by (auto simp: filter_empty_conv)
    with True show ?thesis by (simp add: count_rows_def)
  next
    case False
    with Cons show ?thesis by (simp add: count_rows_def)
  qed
qed

lemma update_none: "\<forall>r\<in>set T. \<not> p r \<Longrightarrow> update_rows p f T = T"
  by (simp add: update_rows_def map_idI)

lemma count_zero: "count_rows p T = 0 \<longleftrightarrow> (\<forall>r\<in>set T. \<not> p r)"
  by (simp add: count_rows_def filter_empty_conv)

lemma map_filter_append: "List.map_filter c (T @ U) = List.map_filter c T @ List.map_filter c U"
  by (simp add: map_filter_def)

section \<open>Tables evolve\<close>

definition table_evolves :: "('r \<Rightarrow> 'r \<Rightarrow> bool) \<Rightarrow> 'r list \<Rightarrow> 'r list \<Rightarrow> bool" where
  "table_evolves R T U \<longleftrightarrow> length T \<le> length U \<and> list_all2 R T (take (length T) U)"

text \<open>A row that was read once is still there, in a state it can have evolved to.\<close>

definition known :: "('s \<Rightarrow> 'r list) \<Rightarrow> ('r \<Rightarrow> 'r \<Rightarrow> bool) \<Rightarrow> 'r \<Rightarrow> 's \<Rightarrow> bool" where
  "known get evolves r s \<longleftrightarrow> (\<exists>x\<in>set (get s). evolves r x)"

lemma table_evolves_member:
  assumes "table_evolves R T U" "r \<in> set T"
  shows "\<exists>x\<in>set U. R r x"
proof -
  obtain n where n: "n < length T" "r = T ! n" using assms(2) by (auto simp: in_set_conv_nth)
  with assms(1) have "R r (U ! n)" "n < length U"
    by (auto simp: table_evolves_def list_all2_conv_all_nth)
  then show ?thesis by auto
qed

locale row_evolution =
  fixes rid :: "'r \<Rightarrow> 'k" and evolves :: "'r \<Rightarrow> 'r \<Rightarrow> bool"
  assumes evolves_refl: "evolves r r"
    and evolves_trans: "evolves r s \<Longrightarrow> evolves s t \<Longrightarrow> evolves r t"
    and evolves_id: "evolves r s \<Longrightarrow> rid s = rid r"
begin

lemma evolves_transp: "transp evolves"
  by (auto intro: transpI evolves_trans)

lemma table_refl: "reflp (table_evolves evolves)"
  by (auto simp: reflp_def table_evolves_def intro: list_all2_refl evolves_refl)

lemma table_trans: "transp (table_evolves evolves)"
proof (rule transpI)
  fix S T U
  assume ST: "table_evolves evolves S T" and TU: "table_evolves evolves T U"
  have "list_all2 evolves (take (length S) T) (take (length S) (take (length T) U))"
    using TU by (intro list_all2_takeI) (simp add: table_evolves_def)
  moreover have "take (length S) (take (length T) U) = take (length S) U"
    using ST by (simp add: table_evolves_def min_absorb1)
  ultimately have upper: "list_all2 evolves (take (length S) T) (take (length S) U)" by simp
  have lower: "list_all2 evolves S (take (length S) T)" using ST by (simp add: table_evolves_def)
  have "list_all2 evolves S (take (length S) U)"
    by (rule list_all2_trans [OF _ lower upper]) (rule evolves_trans)
  then show "table_evolves evolves S U"
    using ST TU by (simp add: table_evolves_def)
qed

lemma table_update:
  assumes "\<And>r. r \<in> set T \<Longrightarrow> p r \<Longrightarrow> evolves r (f r)"
  shows "table_evolves evolves T (update_rows p f T)"
  using assms by (auto simp: table_evolves_def update_rows_def list_all2_conv_all_nth evolves_refl)

lemma table_append: "table_evolves evolves T (T @ U)"
  by (auto simp: table_evolves_def intro: list_all2_refl evolves_refl)

lemma table_find:
  assumes "table_evolves evolves T U" "find_row (\<lambda>r. rid r = i) T = Some r"
  shows "\<exists>s. find_row (\<lambda>r. rid r = i) U = Some s \<and> evolves r s"
proof -
  have "list_all2 evolves T V \<Longrightarrow> find_row (\<lambda>r. rid r = i) T = Some r \<Longrightarrow>
      \<exists>s. find_row (\<lambda>r. rid r = i) V = Some s \<and> evolves r s" for V
    by (induction T V rule: list_all2_induct) (auto dest: evolves_id split: if_splits)
  with assms obtain s where
    "find_row (\<lambda>r. rid r = i) (take (length T) U) = Some s" "evolves r s"
    unfolding table_evolves_def by blast
  moreover from this have "find_row (\<lambda>r. rid r = i) (take (length T) U @ drop (length T) U) = Some s"
    by (simp only: find_row_append option.simps)
  ultimately show ?thesis by auto
qed

lemma keeps_updateMany:
  "(\<And>r. p r \<Longrightarrow> evolves r (f r)) \<Longrightarrow> keeps (table_evolves evolves) (updateMany p f)"
  by (auto simp: keeps_def updateMany_def intro: table_update)

lemma keeps_updateManyUnique:
  "(\<And>r. p r \<Longrightarrow> evolves r (f r)) \<Longrightarrow> keeps (table_evolves evolves) (updateManyUnique u p f)"
  using table_refl by (auto simp: keeps_def updateManyUnique_def reflp_def intro: table_update)

lemma keeps_insertUnique: "keeps (table_evolves evolves) (insertUnique u r)"
  using table_refl by (auto simp: keeps_def insertUnique_def reflp_def intro: table_append)

lemma known_read: "r \<in> set (get s) \<Longrightarrow> known get evolves r s"
  using evolves_refl by (auto simp: known_def)

lemma known_evolves: "known get evolves r s \<Longrightarrow> table_evolves evolves (get s) (get t) \<Longrightarrow> known get evolves r t"
  unfolding known_def by (meson evolves_trans table_evolves_member)

lemma known_mono: "known get evolves r s \<Longrightarrow> evolves q r \<Longrightarrow> known get evolves q s"
  unfolding known_def by (meson evolves_trans)

lemmas keeps_rules = keeps_ok [OF table_refl] keeps_throw [OF table_refl]
  keeps_query [OF table_refl] keeps_ensure [OF table_refl] keeps_lift [OF table_refl]
  keeps_andThen [OF table_trans] keeps_catching [OF table_trans]
  keeps_transaction [OF table_refl] keeps_updateMany keeps_updateManyUnique keeps_insertUnique

end

text \<open>
  Many statements, of one request or of several in any interleaving, are the reflexive transitive
  closure of a relation \<open>writes\<close> between tables.
\<close>

locale table_writes = row_evolution rid evolves
  for rid :: "'r \<Rightarrow> 'k" and evolves :: "'r \<Rightarrow> 'r \<Rightarrow> bool" +
  fixes writes :: "'r list \<Rightarrow> 'r list \<Rightarrow> bool"
  assumes writes_evolve: "writes T U \<Longrightarrow> table_evolves evolves T U"
begin

lemma run_evolves: "writes\<^sup>*\<^sup>* T U \<Longrightarrow> table_evolves evolves T U"
proof (induction rule: rtranclp_induct)
  case base
  show ?case using table_refl by (simp add: reflp_def)
next
  case (step U V)
  then show ?case using table_trans writes_evolve by (meson transpD)
qed

lemma run_find:
  "writes\<^sup>*\<^sup>* T U \<Longrightarrow> find_row (\<lambda>r. rid r = i) T = Some r \<Longrightarrow>
     \<exists>s. find_row (\<lambda>r. rid r = i) U = Some s \<and> evolves r s"
  by (blast intro: table_find run_evolves)

end

end
