(* ===== verification/Json.thy ===== *)
theory Json
  imports Prelude
begin

text \<open>
  JavaScript values as they cross the API, and their serialisation by \<open>JSON.stringify\<close>, which the
  fingerprints of the execution intents and the payroll batch digests are computed from
  (\<open>stableJson\<close> in \<open>execution-intent.service.ts\<close>).  The main lemma is that serialisation loses
  nothing: \<open>serialize\<close> is a prefix code on values without \<open>undefined\<close>.

  Numbers are the non-negative integers the code serialises (array indices).  Keys are sorted by
  \<open>localeCompare\<close>, which on the ASCII letters of the keys used compares without regard to case.
\<close>

datatype js =
    JUndefined
  | JNull
  | JBool bool
  | JNum nat
  | JStr string
  | JArr "js list"
  | JObj "(string \<times> js) list"

section \<open>Serialisation\<close>

definition escape_char :: "char \<Rightarrow> string" where
  "escape_char c = (let n = (of_char c :: nat) in
     if n = 34 then [CHR 0x5C, CHR 0x22]
     else if n = 92 then [CHR 0x5C, CHR 0x5C]
     else if n = 8 then [CHR 0x5C, CHR ''b'']
     else if n = 9 then [CHR 0x5C, CHR ''t'']
     else if n = 10 then [CHR 0x5C, CHR ''n'']
     else if n = 12 then [CHR 0x5C, CHR ''f'']
     else if n = 13 then [CHR 0x5C, CHR ''r'']
     else if n < 32 then [CHR 0x5C, CHR ''u'', CHR ''0'', CHR ''0'', hex_char (n div 16), hex_char (n mod 16)]
     else [c])"

fun escape :: "string \<Rightarrow> string" where
  "escape [] = []"
| "escape (c # cs) = escape_char c @ escape cs"

definition quote :: "string \<Rightarrow> string" where
  "quote s = CHR 0x22 # escape s @ [CHR 0x22]"

fun join_comma :: "string list \<Rightarrow> string" where
  "join_comma [] = []"
| "join_comma [s] = s"
| "join_comma (s # t # ts) = s @ CHR '','' # join_comma (t # ts)"

definition array_text :: "string option list \<Rightarrow> string" where
  "array_text ts = CHR ''['' # join_comma (map (\<lambda>t. case t of None \<Rightarrow> ''null'' | Some u \<Rightarrow> u) ts) @ '']''"

definition entry_text :: "string \<times> string option \<Rightarrow> string option" where
  "entry_text e = (case snd e of None \<Rightarrow> None | Some t \<Rightarrow> Some (quote (fst e) @ CHR '':'' # t))"

definition object_text :: "(string \<times> string option) list \<Rightarrow> string" where
  "object_text es = CHR 0x7B # join_comma (List.map_filter entry_text es) @ [CHR 0x7D]"

primrec serialize :: "js \<Rightarrow> string option" where
  "serialize JUndefined = None"
| "serialize JNull = Some ''null''"
| "serialize (JBool b) = Some (if b then ''true'' else ''false'')"
| "serialize (JNum n) = Some (show_nat n)"
| "serialize (JStr s) = Some (quote s)"
| "serialize (JArr xs) = Some (array_text (map serialize xs))"
| "serialize (JObj es) = Some (object_text (map (map_prod id serialize) es))"

text \<open>The replacer of \<open>stableJson\<close> sorts the keys of every object.\<close>

primrec sort_keys :: "js \<Rightarrow> js" where
  "sort_keys JUndefined = JUndefined"
| "sort_keys JNull = JNull"
| "sort_keys (JBool b) = JBool b"
| "sort_keys (JNum n) = JNum n"
| "sort_keys (JStr s) = JStr s"
| "sort_keys (JArr xs) = JArr (map sort_keys xs)"
| "sort_keys (JObj es) =
     JObj (sort_key (\<lambda>e. toLowerCase (fst e)) (map (map_prod id sort_keys) es))"

definition stableJson :: "js \<Rightarrow> string res" where
  "stableJson v = fromSome (PlainError ''NOT_SERIALIZABLE'') (serialize (sort_keys v))"

section \<open>Serialisation is injective\<close>

lemma hex_char_inj: "m < 16 \<Longrightarrow> n < 16 \<Longrightarrow> hex_char m = hex_char n \<Longrightarrow> m = n"
proof -
  assume m: "m < 16" and n: "n < 16" and eq: "hex_char m = hex_char n"
  from eq have "(of_char (hex_char m) :: nat) = of_char (hex_char n)" by simp
  with m n show "m = n" by (auto simp: hex_char_def split: if_splits)
qed

lemma of_char_cong: "(of_char c :: nat) = k \<Longrightarrow> (of_char d :: nat) = k \<Longrightarrow> c = d"
  by (metis of_char_eq_iff)

lemma control_inj:
  assumes "(of_char c :: nat) < 32" "(of_char d :: nat) < 32"
    "hex_char (of_char c div 16) = hex_char (of_char d div 16)"
    "hex_char (of_char c mod 16) = hex_char (of_char d mod 16)"
  shows "c = d"
proof -
  have "(of_char c :: nat) div 16 = of_char d div 16" "(of_char c :: nat) mod 16 = of_char d mod 16"
    using assms by (auto intro!: hex_char_inj)
  then have "(of_char c :: nat) = of_char d" by (metis div_mult_mod_eq)
  then show ?thesis by simp
qed

lemma escape_char_cases:
  obtains (raw) "escape_char c = [c]" "c \<noteq> CHR 0x5C" "c \<noteq> CHR 0x22"
  | (short) d where "escape_char c = [CHR 0x5C, d]" "d \<noteq> CHR ''u''"
  | (control) "(of_char c :: nat) < 32"
      "escape_char c = [CHR 0x5C, CHR ''u'', CHR ''0'', CHR ''0'',
         hex_char (of_char c div 16), hex_char (of_char c mod 16)]"
proof (cases "(of_char c :: nat) \<in> {34, 92, 8, 9, 10, 12, 13}")
  case True
  then have "\<exists>d. escape_char c = [CHR 0x5C, d] \<and> d \<noteq> CHR ''u''"
    by (auto simp: escape_char_def)
  then show ?thesis using short by blast
next
  case False
  show ?thesis
  proof (cases "(of_char c :: nat) < 32")
    case True
    with False show ?thesis by (intro control) (auto simp: escape_char_def Let_def)
  next
    case c: False
    then have "escape_char c = [c]" using False by (auto simp: escape_char_def Let_def)
    moreover have "c \<noteq> CHR 0x5C" "c \<noteq> CHR 0x22" using False by auto
    ultimately show ?thesis by (rule raw)
  qed
qed

lemma escape_char_short:
  "escape_char c = [CHR 0x5C, e] \<Longrightarrow> escape_char d = [CHR 0x5C, e] \<Longrightarrow> c = d"
  by (auto simp: escape_char_def Let_def split: if_splits intro: of_char_cong)

lemma escape_char_prefix:
  assumes "escape_char c @ x = escape_char d @ y"
  shows "c = d \<and> x = y"
proof (cases c rule: escape_char_cases)
  case raw
  then show ?thesis using assms by (cases d rule: escape_char_cases) auto
next
  case (short e)
  then show ?thesis using assms
    by (cases d rule: escape_char_cases) (auto dest: escape_char_short)
next
  case control
  then show ?thesis using assms
    by (cases d rule: escape_char_cases) (auto dest: control_inj)
qed

lemma escape_char_no_quote: "escape_char c @ x \<noteq> CHR 0x22 # y"
  by (cases c rule: escape_char_cases) auto

lemma escape_prefix:
  "escape s @ CHR 0x22 # x = escape t @ CHR 0x22 # y \<Longrightarrow> s = t \<and> x = y"
proof (induction s arbitrary: t)
  case Nil
  then show ?case
    by (cases t) (auto dest: escape_char_no_quote [THEN notE] sym)
next
  case (Cons c s)
  show ?case
  proof (cases t)
    case Nil
    with Cons.prems show ?thesis by (auto dest: escape_char_no_quote [THEN notE])
  next
    case (Cons d u)
    with Cons.prems have "escape_char c @ (escape s @ CHR 0x22 # x) =
        escape_char d @ (escape u @ CHR 0x22 # y)" by simp
    from escape_char_prefix [OF this] Cons.IH [of u] Cons show ?thesis by simp
  qed
qed

lemma quote_prefix: "quote s @ x = quote t @ y \<Longrightarrow> s = t \<and> x = y"
  by (auto simp: quote_def dest: escape_prefix)

text \<open>A numeral ends where a character that is no digit follows.\<close>

definition ends :: "string \<Rightarrow> bool" where
  "ends r \<longleftrightarrow> (case r of [] \<Rightarrow> True | c # _ \<Rightarrow> c \<in> {CHR '','', CHR '']'', CHR 0x7D})"

lemma ends_not_digit: "ends (c # r) \<Longrightarrow> \<not> is_digit c"
  by (auto simp: ends_def is_digit_def)

lemma digits_prefix:
  "list_all is_digit s \<Longrightarrow> list_all is_digit t \<Longrightarrow> ends x \<Longrightarrow> ends y \<Longrightarrow>
     s @ x = t @ y \<Longrightarrow> s = t \<and> x = y"
proof (induction s arbitrary: t)
  case Nil
  then show ?case by (cases t) (auto dest: ends_not_digit)
next
  case (Cons c s)
  then show ?case by (cases t) (auto dest: ends_not_digit)
qed

primrec defined :: "js \<Rightarrow> bool" where
  "defined JUndefined = False"
| "defined JNull = True"
| "defined (JBool b) = True"
| "defined (JNum n) = True"
| "defined (JStr s) = True"
| "defined (JArr xs) = list_all id (map defined xs)"
| "defined (JObj es) = list_all snd (map (map_prod id defined) es)"

definition text_of :: "js \<Rightarrow> string" where
  "text_of v = (case serialize v of None \<Rightarrow> [] | Some t \<Rightarrow> t)"

lemma serialize_defined: "defined v \<Longrightarrow> serialize v = Some (text_of v)"
  by (cases v) (simp_all add: text_of_def)

lemma text_of_arr:
  "defined (JArr xs) \<Longrightarrow> text_of (JArr xs) = CHR ''['' # join_comma (map text_of xs) @ '']''"
proof -
  assume "defined (JArr xs)"
  then have "map (\<lambda>t. case t of None \<Rightarrow> ''null'' | Some u \<Rightarrow> u) (map serialize xs) = map text_of xs"
    by (auto simp: list_all_iff serialize_defined)
  then have "array_text (map serialize xs) = CHR ''['' # join_comma (map text_of xs) @ '']''"
    unfolding array_text_def by (simp only:)
  then show ?thesis by (simp add: text_of_def)
qed

definition member_text :: "string \<times> js \<Rightarrow> string" where
  "member_text e = quote (fst e) @ CHR '':'' # text_of (snd e)"

lemma text_of_obj:
  "defined (JObj es) \<Longrightarrow>
     text_of (JObj es) = CHR 0x7B # join_comma (map member_text es) @ [CHR 0x7D]"
proof -
  assume "defined (JObj es)"
  then have "List.map_filter entry_text (map (map_prod id serialize) es) = map member_text es"
  proof (induction es)
    case Nil
    then show ?case by simp
  next
    case (Cons e es)
    then show ?case
      by (cases e) (simp add: entry_text_def member_text_def serialize_defined)
  qed
  then show ?thesis by (simp add: text_of_def object_text_def)
qed

lemma text_of_simps [simp]:
  "text_of JNull = ''null''" "text_of (JBool b) = (if b then ''true'' else ''false'')"
  "text_of (JNum n) = show_nat n" "text_of (JStr s) = quote s"
  by (simp_all add: text_of_def)

lemma show_nat_Cons: obtains c cs where "show_nat n = c # cs" "is_digit c"
proof (cases "show_nat n")
  case Nil
  then show ?thesis by simp
next
  case (Cons c cs)
  moreover from this show_nat_digits [of n] have "is_digit c" by simp
  ultimately show ?thesis using that by blast
qed

lemma not_digit [simp]:
  "\<not> is_digit (CHR ''n'')" "\<not> is_digit (CHR ''t'')" "\<not> is_digit (CHR ''f'')"
  "\<not> is_digit (CHR 0x22)" "\<not> is_digit (CHR ''['')" "\<not> is_digit (CHR 0x7B)"
  "\<not> is_digit (CHR '']'')" "\<not> is_digit (CHR 0x7D)" "\<not> is_digit (CHR '','')"
  by (simp_all add: is_digit_def)

text \<open>The first character of a serialised value tells which constructor it has.\<close>

definition lead :: "js \<Rightarrow> char \<Rightarrow> bool" where
  "lead v c = (case v of JUndefined \<Rightarrow> False | JNull \<Rightarrow> c = CHR ''n''
     | JBool b \<Rightarrow> c = (if b then CHR ''t'' else CHR ''f'') | JNum n \<Rightarrow> is_digit c
     | JStr s \<Rightarrow> c = CHR 0x22 | JArr xs \<Rightarrow> c = CHR ''['' | JObj es \<Rightarrow> c = CHR 0x7B)"

lemma text_lead: "defined v \<Longrightarrow> \<exists>c cs. text_of v = c # cs \<and> lead v c"
proof (cases v)
  case (JNum n)
  obtain c cs where "show_nat n = c # cs" "is_digit c" by (rule show_nat_Cons)
  with JNum show ?thesis by (simp add: lead_def)
qed (auto simp: lead_def quote_def text_of_arr text_of_obj simp del: defined.simps,
     auto simp: lead_def)

lemma lead_not_closing: "lead v c \<Longrightarrow> c \<noteq> CHR '']'' \<and> c \<noteq> CHR 0x7D \<and> c \<noteq> CHR '',''"
  by (auto simp: lead_def split: js.splits if_splits)

definition tail_text :: "string list \<Rightarrow> string" where
  "tail_text ts = concat (map (\<lambda>t. CHR '','' # t) ts)"

lemma join_comma_Cons: "join_comma (s # ts) = s @ tail_text ts"
  by (induction ts arbitrary: s) (simp_all add: tail_text_def)

text \<open>
  A list of texts, each of which is recognised in front of a separator, is recognised in front of
  its closing bracket.
\<close>

definition separates :: "('a \<Rightarrow> string) \<Rightarrow> 'a set \<Rightarrow> ('a \<Rightarrow> bool) \<Rightarrow> bool" where
  "separates f A Q \<longleftrightarrow> (\<forall>a\<in>A. \<forall>b x y. Q b \<longrightarrow> ends x \<longrightarrow> ends y \<longrightarrow>
     f a @ x = f b @ y \<longrightarrow> a = b \<and> x = y)"

lemma ends_tail: "c \<in> {CHR '']'', CHR 0x7D} \<Longrightarrow> ends (tail_text ts @ c # x)"
  by (cases ts) (auto simp: tail_text_def ends_def)

lemma tail_prefix:
  assumes "c \<in> {CHR '']'', CHR 0x7D}" "separates f (set xs) Q" "list_all Q ys"
    "tail_text (map f xs) @ c # x = tail_text (map f ys) @ c # y"
  shows "xs = ys \<and> x = y"
  using assms(2-)
proof (induction xs arbitrary: ys)
  case Nil
  then show ?case using assms(1) by (cases ys) (auto simp: tail_text_def)
next
  case (Cons a xs)
  show ?case
  proof (cases ys)
    case Nil
    with Cons.prems assms(1) show ?thesis by (auto simp: tail_text_def)
  next
    case (Cons b zs)
    with Cons.prems have eq: "f a @ (tail_text (map f xs) @ c # x) = f b @ (tail_text (map f zs) @ c # y)"
      by (simp add: tail_text_def)
    have "\<And>u v. Q b \<Longrightarrow> ends u \<Longrightarrow> ends v \<Longrightarrow> f a @ u = f b @ v \<Longrightarrow> a = b \<and> u = v"
      using Cons.prems(1) unfolding separates_def by simp
    from this [OF _ _ _ eq] have "a = b \<and> tail_text (map f xs) @ c # x = tail_text (map f zs) @ c # y"
      using Cons.prems(2) Cons ends_tail [OF assms(1)] by simp
    with Cons.IH [of zs] Cons.prems Cons show ?thesis by (auto simp: separates_def)
  qed
qed

lemma join_prefix:
  assumes c: "c \<in> {CHR '']'', CHR 0x7D}" and sep: "separates f (set xs) Q" and Q: "list_all Q ys"
    and lead: "\<forall>a \<in> set xs \<union> set ys. \<exists>d ds. f a = d # ds \<and> d \<noteq> c"
    and eq: "join_comma (map f xs) @ c # x = join_comma (map f ys) @ c # y"
  shows "xs = ys \<and> x = y"
proof (cases xs)
  case Nil
  with lead eq show ?thesis by (cases ys) (auto simp: join_comma_Cons)
next
  case xs: (Cons a as)
  show ?thesis
  proof (cases ys)
    case Nil
    with xs lead eq show ?thesis by (auto simp: join_comma_Cons)
  next
    case (Cons b bs)
    with xs eq have "tail_text (map f (a # as)) @ c # x = tail_text (map f (b # bs)) @ c # y"
      by (simp add: join_comma_Cons tail_text_def)
    with tail_prefix [OF c] sep Q xs Cons show ?thesis by metis
  qed
qed

lemma lead_common:
  assumes "defined v" "defined w" "text_of v @ x = text_of w @ y"
  shows "\<exists>c. lead v c \<and> lead w c"
proof -
  obtain c cs where "text_of v = c # cs" "lead v c" using text_lead [OF assms(1)] by blast
  moreover obtain d ds where "text_of w = d # ds" "lead w d" using text_lead [OF assms(2)] by blast
  ultimately show ?thesis using assms(3) by auto
qed

theorem text_of_prefix:
  "defined v \<Longrightarrow> defined w \<Longrightarrow> ends x \<Longrightarrow> ends y \<Longrightarrow> text_of v @ x = text_of w @ y \<Longrightarrow> v = w \<and> x = y"
proof (induction v arbitrary: w x y)
  case JUndefined
  then show ?case by simp
next
  case JNull
  have "w = JNull"
    using lead_common [OF JNull.prems(1,2,5)] JNull.prems(2)
    by (cases w) (auto simp: lead_def split: if_splits)
  with JNull show ?case by simp
next
  case (JBool b)
  have "w = JBool b"
    using lead_common [OF JBool.prems(1,2,5)] JBool.prems(2)
    by (cases w) (auto simp: lead_def split: if_splits)
  with JBool show ?case by simp
next
  case (JNum n)
  have "\<exists>m. w = JNum m"
    using lead_common [OF JNum.prems(1,2,5)] JNum.prems(2)
    by (cases w) (auto simp: lead_def split: if_splits)
  then obtain m where w: "w = JNum m" by blast
  with JNum.prems(5) have "show_nat n @ x = show_nat m @ y" by simp
  from digits_prefix [OF show_nat_digits show_nat_digits JNum.prems(3,4) this] w show ?case by simp
next
  case (JStr s)
  have "\<exists>t. w = JStr t"
    using lead_common [OF JStr.prems(1,2,5)] JStr.prems(2)
    by (cases w) (auto simp: lead_def split: if_splits)
  then obtain t where w: "w = JStr t" by blast
  with JStr.prems(5) have "quote s @ x = quote t @ y" by simp
  from quote_prefix [OF this] w show ?case by simp
next
  case (JArr xs)
  have "\<exists>ys. w = JArr ys"
    using lead_common [OF JArr.prems(1,2,5)] JArr.prems(2)
    by (cases w) (auto simp: lead_def split: if_splits)
  then obtain ys where w: "w = JArr ys" by blast
  have sep: "separates text_of (set xs) defined"
    unfolding separates_def using JArr.IH JArr.prems(1) by (auto simp: list_all_iff)
  have ys: "list_all defined ys" using JArr.prems w by (simp add: list_all_iff)
  have lead: "\<forall>a \<in> set xs \<union> set ys. \<exists>d ds. text_of a = d # ds \<and> d \<noteq> CHR '']''"
    using JArr.prems(1) ys text_lead lead_not_closing by (fastforce simp: list_all_iff)
  have "join_comma (map text_of xs) @ CHR '']'' # x = join_comma (map text_of ys) @ CHR '']'' # y"
    using JArr.prems w by (simp add: text_of_arr del: defined.simps)
  from join_prefix [OF _ sep ys lead this] w show ?case by simp
next
  case (JObj es)
  have "\<exists>ds. w = JObj ds"
    using lead_common [OF JObj.prems(1,2,5)] JObj.prems(2)
    by (cases w) (auto simp: lead_def split: if_splits)
  then obtain ds where w: "w = JObj ds" by blast
  have sep: "separates member_text (set es) (\<lambda>e. defined (snd e))"
    unfolding separates_def
  proof (intro ballI allI impI)
    fix a b u v
    assume a: "a \<in> set es" and b: "defined (snd b)" "ends u" "ends v"
      and eq: "member_text a @ u = member_text b @ v"
    have "defined (snd a)" using a JObj.prems(1) by (auto simp: list_all_iff)
    moreover have "fst a = fst b \<and> text_of (snd a) @ u = text_of (snd b) @ v"
      using eq by (auto simp: member_text_def dest: quote_prefix)
    ultimately show "a = b \<and> u = v"
      using JObj.IH [OF a, of "snd a" "snd b" u v] b by (auto simp: prod_eq_iff snds.simps)
  qed
  have ds: "list_all (\<lambda>e. defined (snd e)) ds" using JObj.prems w by (auto simp: list_all_iff)
  have lead: "\<forall>a \<in> set es \<union> set ds. \<exists>d u. member_text a = d # u \<and> d \<noteq> CHR 0x7D"
    by (simp add: member_text_def quote_def)
  have "join_comma (map member_text es) @ CHR 0x7D # x = join_comma (map member_text ds) @ CHR 0x7D # y"
    using JObj.prems w by (simp add: text_of_obj del: defined.simps)
  from join_prefix [OF _ sep ds lead this] w show ?case by simp
qed

lemma serialize_inj:
  assumes "defined v" "defined w" "serialize v = serialize w"
  shows "v = w"
  using text_of_prefix [of v w "[]" "[]"] assms by (simp add: ends_def text_of_def)

end
