(* ===== verification/PaymentRouting.thy ===== *)
theory PaymentRouting
  imports Json
begin

text \<open>
  \<open>PaymentRoutingService\<close> (\<open>apps/backend/src/routing/payment-routing.service.ts\<close>): the tokens the
  selected Arc network supports, the route decided for a pair of tokens, and the check that a route
  can be executed.  The constructor reads the configuration once; the service is the record it
  leaves.  The network registry \<open>@wizpay/arc-network\<close> has one network.
\<close>

datatype token_symbol = USDC | EURC

datatype payment_operation = SEND | PAYROLL | INVOICE | PAYMENT_LINK

datatype route_kind = DIRECT_TRANSFER | CROSS_TOKEN_ATOMIC | CROSS_TOKEN_DISABLED

datatype provider = UNISWAP_V4

datatype capability =
    Cap_send | Cap_sameTokenPayroll | Cap_invoice | Cap_paymentLink | Cap_liquidity | Cap_bridge
  | Cap_swap | Cap_crossTokenPayroll | Cap_crossTokenInvoice | Cap_nanoAgentApi

record route_decision =
  kind :: route_kind
  decisionNetwork :: string
  decisionOperation :: payment_operation
  decisionTokenIn :: string
  tokenInSymbol :: token_symbol
  decisionTokenOut :: string
  tokenOutSymbol :: token_symbol
  decisionProvider :: "provider option"

record routing =
  network :: string
  chainId :: nat
  capabilities :: "capability \<Rightarrow> bool"
  tokens :: "token_symbol \<Rightarrow> string option"

record routing_config =
  cfgKey :: string
  cfgChainId :: "nat option"
  cfgCapabilities :: "capability \<Rightarrow> bool"
  cfgToken :: "token_symbol \<Rightarrow> js"

definition ARC_MAINNET :: string where
  "ARC_MAINNET = ''arc-mainnet''"

definition ARC_MAINNET_CHAIN_ID :: nat where
  "ARC_MAINNET_CHAIN_ID = 5042"

definition arcChainIdByKey :: "string \<Rightarrow> nat res" where
  "arcChainIdByKey key =
     (if key = ARC_MAINNET then Inr ARC_MAINNET_CHAIN_ID
      else Inl (PlainError ''UNSUPPORTED_ARC_NETWORK_KEY''))"

definition INVALID_CONTEXT :: exn where
  "INVALID_CONTEXT = BadRequest ''PAYMENT_ROUTING_INVALID_CONTEXT''"
definition INVALID_TOKEN :: exn where
  "INVALID_TOKEN = BadRequest ''PAYMENT_ROUTING_INVALID_TOKEN''"
definition UNSUPPORTED_TOKEN :: exn where
  "UNSUPPORTED_TOKEN = BadRequest ''PAYMENT_ROUTING_UNSUPPORTED_TOKEN''"
definition CROSS_TOKEN_DISABLED_ERROR :: exn where
  "CROSS_TOKEN_DISABLED_ERROR = Unprocessable ''CROSS_TOKEN_DISABLED'' False"

section \<open>Operations\<close>

definition parseAddress :: "evm \<Rightarrow> js \<Rightarrow> string res" where
  "parseAddress E v =
     (case v of
        JStr s \<Rightarrow>
          bindR (ensureR (s = js_trim s) (PlainError '''')) (\<lambda>_.
          bindR (fromSome (PlainError ''InvalidAddressError'') (getAddress E s)) (\<lambda>a.
          bindR (fromSome (PlainError ''InvalidAddressError'') (isAddressEqual E a zeroAddress)) (\<lambda>z.
          if z then Inl (PlainError '''') else Inr a)))
      | _ \<Rightarrow> Inl (PlainError ''''))"

text \<open>\<open>try { return this.parseAddress(raw) } catch { throw e }\<close>\<close>

definition parseAddressOr :: "evm \<Rightarrow> exn \<Rightarrow> js \<Rightarrow> string res" where
  "parseAddressOr E e v = (case parseAddress E v of Inl _ \<Rightarrow> Inl e | Inr a \<Rightarrow> Inr a)"

definition configuredAddress :: "evm \<Rightarrow> routing_config \<Rightarrow> token_symbol \<Rightarrow> string res" where
  "configuredAddress E c s = parseAddressOr E INVALID_CONTEXT (cfgToken c s)"

definition optionalConfiguredAddress :: "evm \<Rightarrow> routing_config \<Rightarrow> token_symbol \<Rightarrow> string option res" where
  "optionalConfiguredAddress E c s =
     (if cfgToken c s = JUndefined \<or> cfgToken c s = JNull then Inr None
      else bindR (parseAddressOr E INVALID_CONTEXT (cfgToken c s)) (\<lambda>a. Inr (Some a)))"

definition createRouting :: "evm \<Rightarrow> routing_config \<Rightarrow> routing res" where
  "createRouting E c =
     bindR (case cfgChainId c of Some n \<Rightarrow> Inr n | None \<Rightarrow> arcChainIdByKey (cfgKey c)) (\<lambda>chain.
     bindR (optionalConfiguredAddress E c EURC) (\<lambda>eurc.
     bindR (configuredAddress E c USDC) (\<lambda>usdc.
     Inr \<lparr>network = cfgKey c, chainId = chain, capabilities = cfgCapabilities c,
          tokens = (\<lambda>s. case s of USDC \<Rightarrow> Some usdc | EURC \<Rightarrow> eurc)\<rparr>)))"

definition canonicalToken :: "routing \<Rightarrow> token_symbol \<Rightarrow> string res" where
  "canonicalToken R s = fromSome UNSUPPORTED_TOKEN (tokens R s)"

text \<open>The loop over \<open>['USDC', 'EURC']\<close>; \<open>isAddressEqual\<close> throws outside the \<open>try\<close>.\<close>

fun findToken :: "evm \<Rightarrow> routing \<Rightarrow> string \<Rightarrow> token_symbol list \<Rightarrow> (string \<times> token_symbol) res" where
  "findToken E R a [] = Inl UNSUPPORTED_TOKEN"
| "findToken E R a (s # ss) =
     (case tokens R s of
        None \<Rightarrow> findToken E R a ss
      | Some c \<Rightarrow>
          bindR (fromSome (PlainError ''InvalidAddressError'') (isAddressEqual E a c)) (\<lambda>eq.
          if eq then Inr (c, s) else findToken E R a ss))"

definition identifyToken :: "evm \<Rightarrow> routing \<Rightarrow> js \<Rightarrow> (string \<times> token_symbol) res" where
  "identifyToken E R v =
     bindR (parseAddressOr E INVALID_TOKEN v) (\<lambda>a. findToken E R a [USDC, EURC])"

fun directCapability :: "payment_operation \<Rightarrow> capability" where
  "directCapability SEND = Cap_send"
| "directCapability PAYROLL = Cap_sameTokenPayroll"
| "directCapability INVOICE = Cap_invoice"
| "directCapability PAYMENT_LINK = Cap_paymentLink"

fun crossTokenCapability :: "payment_operation \<Rightarrow> capability" where
  "crossTokenCapability PAYROLL = Cap_crossTokenPayroll"
| "crossTokenCapability SEND = Cap_swap"
| "crossTokenCapability _ = Cap_crossTokenInvoice"

definition decision ::
  "routing \<Rightarrow> payment_operation \<Rightarrow> string \<times> token_symbol \<Rightarrow> string \<times> token_symbol \<Rightarrow> route_kind \<Rightarrow>
     provider option \<Rightarrow> route_decision" where
  "decision R operation tokIn tokOut k p =
     \<lparr>kind = k, decisionNetwork = network R, decisionOperation = operation,
      decisionTokenIn = fst tokIn, tokenInSymbol = snd tokIn,
      decisionTokenOut = fst tokOut, tokenOutSymbol = snd tokOut, decisionProvider = p\<rparr>"

definition decide :: "evm \<Rightarrow> routing \<Rightarrow> js \<Rightarrow> payment_operation \<Rightarrow> js \<Rightarrow> js \<Rightarrow> route_decision res" where
  "decide E R net operation rawIn rawOut =
     bindR (ensureR (net = JStr (network R)) INVALID_CONTEXT) (\<lambda>_.
     bindR (identifyToken E R rawIn) (\<lambda>tokIn.
     bindR (identifyToken E R rawOut) (\<lambda>tokOut.
     bindR (fromSome (PlainError ''InvalidAddressError'')
             (isAddressEqual E (fst tokIn) (fst tokOut))) (\<lambda>sameToken.
     let cap = (if sameToken then directCapability operation else crossTokenCapability operation) in
     if sameToken then Inr (decision R operation tokIn tokOut DIRECT_TRANSFER None)
     else if network R = ARC_MAINNET \<and> capabilities R cap
     then Inr (decision R operation tokIn tokOut CROSS_TOKEN_ATOMIC (Some UNISWAP_V4))
     else Inr (decision R operation tokIn tokOut CROSS_TOKEN_DISABLED None)))))"

definition assertExecutable :: "route_decision \<Rightarrow> route_decision res" where
  "assertExecutable d = (if kind d = CROSS_TOKEN_DISABLED then Inl CROSS_TOKEN_DISABLED_ERROR else Inr d)"

section \<open>Lemmas\<close>

lemmas routing_errors =
  INVALID_CONTEXT_def INVALID_TOKEN_def UNSUPPORTED_TOKEN_def CROSS_TOKEN_DISABLED_ERROR_def

lemma parseAddress_canonical:
  assumes "evm_laws E" "parseAddress E v = Inr a"
  shows "getAddress E a = Some a" "toLowerCase a \<noteq> zeroAddress"
proof -
  obtain s where s: "v = JStr s" "getAddress E s = Some a"
      "isAddressEqual E a zeroAddress = Some False"
    using assms(2) by (auto simp: parseAddress_def split: js.splits if_splits)
  show "getAddress E a = Some a" by (rule getAddress_canonical [OF assms(1) s(2)])
  have "toLowerCase a \<noteq> toLowerCase zeroAddress"
    using s(3) isAddressEqual_iff [OF assms(1)] by auto
  moreover have "toLowerCase zeroAddress = zeroAddress" by code_simp
  ultimately show "toLowerCase a \<noteq> zeroAddress" by simp
qed

text \<open>What the constructor establishes: every configured token is a canonical non-zero address.\<close>

definition routing_ok :: "evm \<Rightarrow> routing \<Rightarrow> bool" where
  "routing_ok E R \<longleftrightarrow> tokens R USDC \<noteq> None \<and>
     (\<forall>s a. tokens R s = Some a \<longrightarrow> getAddress E a = Some a \<and> toLowerCase a \<noteq> zeroAddress)"

lemma parseAddressOr_Inr: "parseAddressOr E e v = Inr a \<longleftrightarrow> parseAddress E v = Inr a"
  by (auto simp: parseAddressOr_def split: sum.splits)

lemma createRouting_ok:
  assumes "evm_laws E" "createRouting E c = Inr R"
  shows "routing_ok E R"
proof -
  obtain usdc eurc where R: "tokens R = (\<lambda>s. case s of USDC \<Rightarrow> Some usdc | EURC \<Rightarrow> eurc)"
    and usdc: "parseAddress E (cfgToken c USDC) = Inr usdc"
    and eurc: "optionalConfiguredAddress E c EURC = Inr eurc"
    using assms(2) by (auto simp: createRouting_def configuredAddress_def parseAddressOr_Inr)
  have "getAddress E a = Some a \<and> toLowerCase a \<noteq> zeroAddress" if "eurc = Some a" for a
    using eurc that parseAddress_canonical [OF assms(1)]
    by (auto simp: optionalConfiguredAddress_def parseAddressOr_Inr split: if_splits)
  then show ?thesis
    using parseAddress_canonical [OF assms(1) usdc]
    by (auto simp: routing_ok_def R split: token_symbol.splits)
qed

lemma findToken_Inr:
  "findToken E R a ss = Inr (c, s) \<Longrightarrow> s \<in> set ss \<and> tokens R s = Some c \<and> isAddressEqual E a c = Some True"
  by (induction ss) (auto split: option.splits if_splits)

lemma identifyToken_Inr:
  assumes "identifyToken E R v = Inr (c, s)"
  shows "tokens R s = Some c" "\<exists>a. parseAddress E v = Inr a \<and> isAddressEqual E a c = Some True"
proof -
  obtain a where a: "parseAddress E v = Inr a" "findToken E R a [USDC, EURC] = Inr (c, s)"
    using assms unfolding identifyToken_def parseAddressOr_Inr bindR_Inr_iff by blast
  from findToken_Inr [OF a(2)] a(1) show "tokens R s = Some c"
    "\<exists>a. parseAddress E v = Inr a \<and> isAddressEqual E a c = Some True" by blast+
qed

lemma identifyToken_canonical:
  assumes "evm_laws E" "routing_ok E R" "identifyToken E R v = Inr (c, s)"
  shows "getAddress E c = Some c" "parseAddress E v = Inr c"
proof -
  show c: "getAddress E c = Some c"
    using assms(2) identifyToken_Inr(1) [OF assms(3)] by (auto simp: routing_ok_def)
  obtain a where a: "parseAddress E v = Inr a" "isAddressEqual E a c = Some True"
    using identifyToken_Inr(2) [OF assms(3)] by blast
  from isAddressEqual_canonical [OF assms(1) parseAddress_canonical(1) [OF assms(1) a(1)] c] a
  show "parseAddress E v = Inr c" by simp
qed

lemma decide_Inr:
  assumes "decide E R net operation rawIn rawOut = Inr d"
  obtains tokIn tokOut sameToken where
    "net = JStr (network R)" "identifyToken E R rawIn = Inr tokIn" "identifyToken E R rawOut = Inr tokOut"
    "isAddressEqual E (fst tokIn) (fst tokOut) = Some sameToken"
    "d = decision R operation tokIn tokOut
       (if sameToken then DIRECT_TRANSFER
        else if network R = ARC_MAINNET \<and> capabilities R (crossTokenCapability operation)
        then CROSS_TOKEN_ATOMIC else CROSS_TOKEN_DISABLED)
       (if \<not> sameToken \<and> network R = ARC_MAINNET \<and> capabilities R (crossTokenCapability operation)
        then Some UNISWAP_V4 else None)"
  using assms by (auto simp: decide_def Let_def split: if_splits)

section \<open>What a decision promises\<close>

text \<open>
  A route is decided between the configured tokens only, and it is direct exactly for equal tokens.
  On a service built from the configuration, every decision is for the selected network, both tokens
  are configured checksummed addresses that the request named up to case, the route is a direct
  transfer exactly when they are the same address, and an executable route between different tokens
  exists only on Arc mainnet with the capability of that operation switched on, and names the
  provider.
\<close>

theorem decide_sound:
  assumes "evm_laws E" "createRouting E c = Inr R"
    and "decide E R net operation (JStr a) (JStr b) = Inr d"
  shows "net = JStr (network R) \<and> decisionOperation d = operation \<and>
    tokens R (tokenInSymbol d) = Some (decisionTokenIn d) \<and>
    tokens R (tokenOutSymbol d) = Some (decisionTokenOut d) \<and>
    toLowerCase (decisionTokenIn d) = toLowerCase a \<and> toLowerCase (decisionTokenOut d) = toLowerCase b \<and>
    getAddress E (decisionTokenIn d) = Some (decisionTokenIn d) \<and>
    (kind d = DIRECT_TRANSFER \<longleftrightarrow> decisionTokenIn d = decisionTokenOut d) \<and>
    (decisionProvider d = Some UNISWAP_V4 \<longleftrightarrow> kind d = CROSS_TOKEN_ATOMIC) \<and>
    (assertExecutable d = Inr d \<longleftrightarrow> decisionTokenIn d = decisionTokenOut d \<or>
       network R = ARC_MAINNET \<and> capabilities R (crossTokenCapability operation))"
proof -
  note okR = createRouting_ok [OF assms(1,2)]
  obtain tokIn tokOut same where d: "net = JStr (network R)"
    "identifyToken E R (JStr a) = Inr tokIn" "identifyToken E R (JStr b) = Inr tokOut"
    "isAddressEqual E (fst tokIn) (fst tokOut) = Some same"
    "d = decision R operation tokIn tokOut
       (if same then DIRECT_TRANSFER
        else if network R = ARC_MAINNET \<and> capabilities R (crossTokenCapability operation)
        then CROSS_TOKEN_ATOMIC else CROSS_TOKEN_DISABLED)
       (if \<not> same \<and> network R = ARC_MAINNET \<and> capabilities R (crossTokenCapability operation)
        then Some UNISWAP_V4 else None)"
    by (rule decide_Inr [OF assms(3)])
  have tok: "tokens R (snd t) = Some (fst t) \<and> getAddress E (fst t) = Some (fst t) \<and>
      toLowerCase (fst t) = toLowerCase v" if "identifyToken E R (JStr v) = Inr t" for t v
  proof -
    from that have t: "identifyToken E R (JStr v) = Inr (fst t, snd t)" by simp
    have "parseAddress E (JStr v) = Inr (fst t)" by (rule identifyToken_canonical(2) [OF assms(1) okR t])
    then have "getAddress E v = Some (fst t)"
      by (auto simp: parseAddress_def split: if_splits)
    then show ?thesis
      using identifyToken_Inr(1) [OF t] identifyToken_canonical(1) [OF assms(1) okR t]
        getAddress_Some(1) [OF assms(1)] by auto
  qed
  have "same = (fst tokIn = fst tokOut)"
    using isAddressEqual_canonical [OF assms(1)] tok [OF d(2)] tok [OF d(3)] d(4) by simp
  with d tok [OF d(2)] tok [OF d(3)] show ?thesis
    by (auto simp: decision_def assertExecutable_def)
qed

definition sample_config :: routing_config where
  "sample_config = \<lparr>cfgKey = ARC_MAINNET, cfgChainId = None, cfgCapabilities = (\<lambda>c. c = Cap_swap),
     cfgToken = (\<lambda>s. case s of USDC \<Rightarrow> JStr (addr (CHR ''5'')) | EURC \<Rightarrow> JStr (addr (CHR ''c'')))\<rparr>"

lemma trim_addr [simp]: "js_trim (addr c) = addr c" if "is_hex c"
proof -
  have "\<not> is_space c" using that by (auto simp: is_hex_def is_space_def Let_def)
  then show ?thesis
    by (simp add: js_trim_def addr_def is_space_def numeral_eq_Suc replicate_append_same [symmetric])
qed

lemma parse_addr [simp]:
  assumes "is_hex c" "lower_char c = c" "c \<noteq> CHR ''0''"
  shows "parseAddress lower_evm (JStr (addr c)) = Inr (addr c)"
proof -
  have "addr c \<noteq> zeroAddress" using assms(3) by (simp add: addr_def zeroAddress_def replicate_eq_replicate)
  moreover have "is_hex_address zeroAddress" "toLowerCase zeroAddress = zeroAddress" by code_simp+
  ultimately show ?thesis using assms by (simp add: parseAddress_def lower_evm_def res_defs)
qed

theorem decide_sound_witness:
  "\<exists>R d. createRouting lower_evm sample_config = Inr R \<and>
     decide lower_evm R (JStr ARC_MAINNET) SEND (JStr (addr (CHR ''5''))) (JStr (addr (CHR ''c''))) = Inr d \<and>
     decisionTokenIn d \<noteq> decisionTokenOut d \<and> assertExecutable d = Inr d"
proof -
  have "\<exists>R d. createRouting lower_evm sample_config = Inr R \<and> network R = ARC_MAINNET \<and>
      capabilities R Cap_swap \<and>
      decide lower_evm R (JStr ARC_MAINNET) SEND (JStr (addr (CHR ''5''))) (JStr (addr (CHR ''c''))) = Inr d \<and>
      decisionTokenIn d \<noteq> decisionTokenOut d"
    by (simp add: createRouting_def sample_config_def arcChainIdByKey_def optionalConfiguredAddress_def
        configuredAddress_def parseAddressOr_def decide_def identifyToken_def res_defs)
      (simp add: lower_evm_def decision_def fromSome_def bindR_def)
  then obtain R d where Rd: "createRouting lower_evm sample_config = Inr R" "network R = ARC_MAINNET"
      "capabilities R Cap_swap"
      "decide lower_evm R (JStr ARC_MAINNET) SEND (JStr (addr (CHR ''5''))) (JStr (addr (CHR ''c''))) = Inr d"
      "decisionTokenIn d \<noteq> decisionTokenOut d"
    by blast
  with decide_sound [OF lower_evm_laws Rd(1,4)] show ?thesis by auto
qed

end
