(* ===== verification/Schema.thy ===== *)
theory Schema
  imports Table Json PaymentRouting
begin

text \<open>
  The database of the backend (\<open>apps/backend/src/database/schema.prisma\<close>): one record type per
  model the services read and write, and the record of all tables, which is the state the service
  methods run on.  The bookkeeping columns \<open>createdAt\<close> and \<open>updatedAt\<close> are left out; points in time
  are milliseconds.  JSON columns the code gives a TypeScript interface are records
  (\<open>BridgeIntentPayload\<close>, \<open>BridgeLifecycleResult\<close>).
\<close>

datatype intent_operation =
  OP_SEND | OP_PAYROLL | OP_TOKEN_APPROVAL | OP_INVOICE_SETTLEMENT | OP_PAYMENT_LINK_SETTLEMENT

datatype intent_status =
    CREATED | AWAITING_WALLET_SIGNATURE | AUTHORIZATION_PENDING | SUBMISSION_PENDING | SUBMITTED
  | VERIFYING | COMPLETED | FAILED_RETRYABLE | FAILED_FINAL | EXPIRED | CANCELLED

text \<open>The immutable request of an execution intent, what \<open>acquire\<close> derives from it, and the row.\<close>

record request =
  intentNetwork :: string
  operation :: intent_operation
  ownerId :: "string option"
  sourceWallet :: string
  recipient :: "string option"
  batchDigest :: "string option"
  tokenIn :: string
  tokenOut :: string
  amountUnits :: string
  externalReference :: string

record canonical = request +
  logicalKey :: string
  requestFingerprint :: string
  idempotencyKey :: string
  route :: route_kind
  intentProvider :: "provider option"
  taskId :: "string option"

record intent = canonical +
  intentId :: string
  walletId :: "string option"
  contractAddress :: "string option"
  calldataHash :: "string option"
  status :: intent_status
  circleChallengeId :: "string option"
  circleTransactionId :: "string option"
  transactionHash :: "string option"
  leaseOwner :: "string option"
  leaseExpiresAt :: "int option"
  attemptCount :: nat
  failureCode :: "string option"
  completedAt :: "int option"

datatype invoice_status = INV_OPEN | INV_VERIFYING | INV_PAID | INV_EXPIRED | INV_CANCELLED

datatype payment_status = PAY_SUBMITTED | PAY_VERIFYING | PAY_VERIFIED | PAY_REJECTED

datatype settlement_kind = KIND_INVOICE | KIND_PAYMENT_LINK

record invoice =
  invoiceId :: string
  publicId :: string
  merchantUserId :: string
  merchantWalletAddress :: string
  invoiceChainId :: nat
  tokenAddress :: string
  tokenSymbol :: token_symbol
  tokenDecimals :: nat
  invoiceAmountUnits :: string
  title :: string
  description :: "string option"
  invoiceNumber :: "string option"
  settlementKind :: settlement_kind
  invoiceStatus :: invoice_status
  expiresAt :: "int option"
  paidAt :: "int option"
  cancelledAt :: "int option"

record payment =
  paymentInvoiceId :: string
  paymentHash :: string
  payerAddress :: "string option"
  paymentStatus :: payment_status
  verifiedAt :: "int option"
  rejectionCode :: "string option"

record bridge_payload =
  bridgeKey :: string
  sourceCode :: string
  destinationCode :: string
  sourceChainId :: nat
  destinationChainId :: nat
  sourceDomain :: nat
  destinationDomain :: nat
  sourceUsdcAddress :: string
  destinationUsdcAddress :: string
  sourceTokenMessengerV2 :: string
  destinationTokenMessengerV2 :: string
  destinationMessageTransmitterV2 :: string
  walletAddress :: string
  recipientAddress :: string
  destinationCaller :: string
  bridgeAmount :: string
  bridgeMaxFee :: string
  minFinalityThreshold :: nat
  bridgeCreatedAt :: int

record bridge_result =
  approvalTransactionHash :: "string option"
  sourceTransactionHash :: "string option"
  resDestinationHash :: "string option"
  resMessageHash :: "string option"
  resNonce :: "string option"
  feeExecuted :: "string option"
  mintAmount :: "string option"
  attestedMessage :: "string option"
  attestation :: "string option"
  bridgeCompletedAt :: "int option"
  destinationSubmittedAt :: "int option"
  destinationReceiptVerified :: bool
  destinationVerifiedAt :: "int option"
  attestationStatus :: "string option"
  attestationDelayReason :: "string option"

datatype bridge_status =
    B_idle | B_approval_confirmed | B_source_confirmed | B_waiting_for_attestation
  | B_attestation_ready | B_awaiting_destination_signature | B_verifying_destination | B_completed

record bridge =
  bridgeId :: string
  bridgeTaskId :: string
  bridgeStatus :: bridge_status
  bridgePayload :: bridge_payload
  bridgeResult :: "bridge_result option"
  messageHash :: "string option"
  nonce :: "string option"
  destinationTransactionHash :: "string option"
  destinationLeaseId :: "string option"
  destinationLeaseExpiresAt :: "int option"

datatype task_status =
    TS_CREATED | TS_ASSIGNED | TS_IN_PROGRESS | TS_REVIEW | TS_APPROVED | TS_EXECUTED | TS_PARTIAL
  | TS_FAILED | TS_BRIDGE_INTENT | TS_COMPLETED

record task =
  tId :: string
  taskType :: string
  taskStatus :: task_status
  totalUnits :: nat
  completedUnits :: nat
  failedUnits :: nat
  taskMetadata :: js
  taskPayload :: js
  taskResult :: "js option"

datatype unit_status = UNIT_PENDING | UNIT_SUCCESS | UNIT_FAILED

record task_unit =
  unitId :: string
  unitTaskId :: string
  unitType :: string
  unitIndex :: nat
  unitStatus :: unit_status
  unitTxHash :: "string option"
  unitError :: "string option"
  unitPayload :: js

datatype log_level = LEVEL_INFO | LEVEL_ERROR

record task_log =
  logTaskId :: string
  logLevel :: log_level
  logStepName :: string
  logStatus :: task_status
  logContext :: js

datatype tx_status = TX_PENDING | TX_COMPLETED | TX_FAILED

record task_tx =
  txRowId :: string
  txTaskId :: string
  txId :: string
  txRecipient :: string
  txAmount :: string
  txCurrency :: string
  txStatus :: tx_status
  txHash :: "string option"
  txErrorReason :: "string option"
  batchIndex :: nat
  pollAttempts :: nat

record db =
  intents :: "intent list"
  invoices :: "invoice list"
  payments :: "payment list"
  bridges :: "bridge list"
  tasks :: "task list"
  units :: "task_unit list"
  logs :: "task_log list"
  transactions :: "task_tx list"

definition empty_db :: db where
  "empty_db = \<lparr>intents = [], invoices = [], payments = [], bridges = [], tasks = [], units = [],
     logs = [], transactions = []\<rparr>"

section \<open>Statements on one table of the database\<close>

definition onIntents :: "(intent list, 'a) op \<Rightarrow> (db, 'a) op" where
  "onIntents m s = (case m (intents s) of (r, T) \<Rightarrow> (r, s\<lparr>intents := T\<rparr>))"

definition onInvoices :: "(invoice list, 'a) op \<Rightarrow> (db, 'a) op" where
  "onInvoices m s = (case m (invoices s) of (r, T) \<Rightarrow> (r, s\<lparr>invoices := T\<rparr>))"

definition onPayments :: "(payment list, 'a) op \<Rightarrow> (db, 'a) op" where
  "onPayments m s = (case m (payments s) of (r, T) \<Rightarrow> (r, s\<lparr>payments := T\<rparr>))"

definition onBridges :: "(bridge list, 'a) op \<Rightarrow> (db, 'a) op" where
  "onBridges m s = (case m (bridges s) of (r, T) \<Rightarrow> (r, s\<lparr>bridges := T\<rparr>))"

definition onTasks :: "(task list, 'a) op \<Rightarrow> (db, 'a) op" where
  "onTasks m s = (case m (tasks s) of (r, T) \<Rightarrow> (r, s\<lparr>tasks := T\<rparr>))"

definition onUnits :: "(task_unit list, 'a) op \<Rightarrow> (db, 'a) op" where
  "onUnits m s = (case m (units s) of (r, T) \<Rightarrow> (r, s\<lparr>units := T\<rparr>))"

definition onTransactions :: "(task_tx list, 'a) op \<Rightarrow> (db, 'a) op" where
  "onTransactions m s = (case m (transactions s) of (r, T) \<Rightarrow> (r, s\<lparr>transactions := T\<rparr>))"

definition appendLog :: "task_log \<Rightarrow> (db, unit) op" where
  "appendLog l s = (Inr (), s\<lparr>logs := logs s @ [l]\<rparr>)"

text \<open>A new task, and its insertion; \<open>id\<close> is unique.\<close>

definition newTask :: "string \<Rightarrow> string \<Rightarrow> task_status \<Rightarrow> js \<Rightarrow> task" where
  "newTask i ty st p = \<lparr>tId = i, taskType = ty, taskStatus = st, totalUnits = 0, completedUnits = 0,
     failedUnits = 0, taskMetadata = JNull, taskPayload = p, taskResult = None\<rparr>"

definition insertTask :: "task \<Rightarrow> (db, task) op" where
  "insertTask t = onTasks (insertUnique (\<lambda>T. distinct (map tId T)) t)"

lemmas on_defs [op_defs] =
  onIntents_def onInvoices_def onPayments_def onBridges_def onTasks_def onUnits_def
  onTransactions_def appendLog_def updateMany_def updateManyUnique_def insertUnique_def

text \<open>A relation between the tables of one model, read on the whole database.\<close>

definition via :: "('s \<Rightarrow> 't) \<Rightarrow> ('t \<Rightarrow> 't \<Rightarrow> bool) \<Rightarrow> 's \<Rightarrow> 's \<Rightarrow> bool" where
  "via get R s t \<longleftrightarrow> R (get s) (get t)"

lemma via_refl [intro]: "reflp R \<Longrightarrow> reflp (via get R)"
  by (auto simp: reflp_def via_def)

lemma via_trans [intro]: "transp R \<Longrightarrow> transp (via get R)"
  unfolding transp_def via_def by blast

lemma keeps_onIntents: "keeps R m \<Longrightarrow> keeps (via intents R) (onIntents m)"
  by (auto simp: keeps_def via_def onIntents_def split: prod.splits) (metis snd_conv)

lemma keeps_onInvoices: "keeps R m \<Longrightarrow> keeps (via invoices R) (onInvoices m)"
  by (auto simp: keeps_def via_def onInvoices_def split: prod.splits) (metis snd_conv)

lemma keeps_onPayments: "keeps R m \<Longrightarrow> keeps (via payments R) (onPayments m)"
  by (auto simp: keeps_def via_def onPayments_def split: prod.splits) (metis snd_conv)

lemma keeps_onBridges: "keeps R m \<Longrightarrow> keeps (via bridges R) (onBridges m)"
  by (auto simp: keeps_def via_def onBridges_def split: prod.splits) (metis snd_conv)

lemma keeps_onTasks: "keeps R m \<Longrightarrow> keeps (via tasks R) (onTasks m)"
  by (auto simp: keeps_def via_def onTasks_def split: prod.splits) (metis snd_conv)

lemma keeps_onUnits: "keeps R m \<Longrightarrow> keeps (via units R) (onUnits m)"
  by (auto simp: keeps_def via_def onUnits_def split: prod.splits) (metis snd_conv)

lemma keeps_onTransactions: "keeps R m \<Longrightarrow> keeps (via transactions R) (onTransactions m)"
  by (auto simp: keeps_def via_def onTransactions_def split: prod.splits) (metis snd_conv)

text \<open>A statement on another table changes nothing.\<close>

lemma keeps_other:
  assumes "reflp R" "\<And>s. get (snd (m s)) = get s"
  shows "keeps (via get R) m"
  using assms by (simp add: keeps_def via_def reflpD)

text \<open>JavaScript truthiness of a nullable string column.\<close>

definition truthy :: "string option \<Rightarrow> bool" where
  "truthy x \<longleftrightarrow> x \<noteq> None \<and> x \<noteq> Some []"

lemma truthy_simps [simp]: "\<not> truthy None" "truthy (Some s) \<longleftrightarrow> s \<noteq> []"
  by (simp_all add: truthy_def)

end
