(* ===== verification/ExecutionIntent.thy ===== *)
theory ExecutionIntent
  imports Schema
begin

text \<open>
  \<open>ExecutionIntentService\<close> (\<open>apps/backend/src/execution-intent/execution-intent.service.ts\<close>) and the
  endpoints of \<open>ExecutionIntentController\<close>: the durable record every money-moving operation is bound
  to before the user's wallet submits anything.

  The service methods are operations on the database.  The clock is an argument, and so is what
  other requests do to the database between two statements of a method, where the code has a retry
  for it (\<open>acquire\<close>, \<open>bindTransactionHash\<close>).  SHA-256 and the address functions are fields of the \<open>evm\<close>
  argument.
\<close>

definition IMMUTABLE_CONFLICT :: exn where
  "IMMUTABLE_CONFLICT = Conflict ''EXECUTION_INTENT_IMMUTABLE_CONFLICT''"
definition INVALID_TRANSITION :: exn where
  "INVALID_TRANSITION = Conflict ''EXECUTION_INTENT_INVALID_TRANSITION''"
definition ACTIVE_LEASE :: exn where
  "ACTIVE_LEASE = Conflict ''EXECUTION_INTENT_ACTIVE_LEASE''"
definition TERMINAL :: exn where
  "TERMINAL = Conflict ''EXECUTION_INTENT_TERMINAL''"
definition HASH_CONFLICT :: exn where
  "HASH_CONFLICT = Conflict ''EXECUTION_INTENT_TRANSACTION_HASH_CONFLICT''"
definition RECEIPT_MISMATCH :: exn where
  "RECEIPT_MISMATCH = Conflict ''EXECUTION_INTENT_RECEIPT_MISMATCH''"
definition INTENT_NOT_FOUND :: exn where
  "INTENT_NOT_FOUND = NotFound ''EXECUTION_INTENT_NOT_FOUND''"
definition BUSINESS_STATE :: exn where
  "BUSINESS_STATE = Conflict ''EXECUTION_INTENT_BUSINESS_STATE_CONFLICT''"

lemmas intent_errors =
  IMMUTABLE_CONFLICT_def INVALID_TRANSITION_def ACTIVE_LEASE_def TERMINAL_def HASH_CONFLICT_def
  RECEIPT_MISMATCH_def INTENT_NOT_FOUND_def BUSINESS_STATE_def

fun transitions :: "intent_status \<Rightarrow> intent_status list" where
  "transitions CREATED =
     [AWAITING_WALLET_SIGNATURE, AUTHORIZATION_PENDING, SUBMISSION_PENDING, FAILED_FINAL, EXPIRED,
      CANCELLED]"
| "transitions AWAITING_WALLET_SIGNATURE = [SUBMITTED, FAILED_RETRYABLE, FAILED_FINAL, CANCELLED]"
| "transitions AUTHORIZATION_PENDING =
     [SUBMISSION_PENDING, SUBMITTED, FAILED_RETRYABLE, FAILED_FINAL, EXPIRED]"
| "transitions SUBMISSION_PENDING = [SUBMITTED, FAILED_RETRYABLE, FAILED_FINAL, EXPIRED]"
| "transitions SUBMITTED = [VERIFYING, FAILED_RETRYABLE, FAILED_FINAL]"
| "transitions VERIFYING = [COMPLETED, FAILED_RETRYABLE, FAILED_FINAL]"
| "transitions FAILED_RETRYABLE =
     [AWAITING_WALLET_SIGNATURE, AUTHORIZATION_PENDING, SUBMISSION_PENDING, SUBMITTED, VERIFYING,
      FAILED_FINAL, EXPIRED]"
| "transitions _ = []"

definition isTerminal :: "intent_status \<Rightarrow> bool" where
  "isTerminal st \<longleftrightarrow> st \<in> {COMPLETED, FAILED_FINAL, EXPIRED, CANCELLED}"

section \<open>Canonical requests\<close>

text \<open>\<open>ExecutionIntentAcquireInput\<close>.\<close>

record acquire_input =
  inNetwork :: string
  inOperation :: intent_operation
  inOwnerId :: "string option"
  inSourceWallet :: string
  inRecipient :: "string option"
  inBatchDigest :: "string option"
  inTokenIn :: string
  inTokenOut :: string
  inAmountUnits :: string
  inExternalReference :: string
  inTaskId :: "string option"

fun operation_name :: "intent_operation \<Rightarrow> string" where
  "operation_name OP_SEND = ''SEND''"
| "operation_name OP_PAYROLL = ''PAYROLL''"
| "operation_name OP_TOKEN_APPROVAL = ''TOKEN_APPROVAL''"
| "operation_name OP_INVOICE_SETTLEMENT = ''INVOICE_SETTLEMENT''"
| "operation_name OP_PAYMENT_LINK_SETTLEMENT = ''PAYMENT_LINK_SETTLEMENT''"

definition settlement :: "intent_operation \<Rightarrow> bool" where
  "settlement p \<longleftrightarrow> p = OP_PAYMENT_LINK_SETTLEMENT \<or> p = OP_INVOICE_SETTLEMENT"

definition routingOperation :: "intent_operation \<Rightarrow> payment_operation" where
  "routingOperation p =
     (if p = OP_SEND then SEND
      else if p = OP_PAYROLL \<or> p = OP_TOKEN_APPROVAL then PAYROLL else PAYMENT_LINK)"

definition baseUnits :: "string \<Rightarrow> string res" where
  "baseUnits v = bindR (ensureR (positive_uint v) IMMUTABLE_CONFLICT) (\<lambda>_. Inr (show_nat (read_nat v)))"

definition transactionHashOf :: "string \<Rightarrow> string res" where
  "transactionHashOf v = bindR (ensureR (is_hash v) HASH_CONFLICT) (\<lambda>_. Inr (toLowerCase v))"

definition json_opt :: "string option \<Rightarrow> js" where
  "json_opt x = (case x of None \<Rightarrow> JNull | Some s \<Rightarrow> JStr s)"

definition request_json :: "'a request_scheme \<Rightarrow> js" where
  "request_json q = JObj
     [(''network'', JStr (intentNetwork q)), (''operation'', JStr (operation_name (operation q))),
      (''ownerId'', json_opt (ownerId q)), (''sourceWallet'', JStr (sourceWallet q)),
      (''recipient'', json_opt (recipient q)), (''batchDigest'', json_opt (batchDigest q)),
      (''tokenIn'', JStr (tokenIn q)), (''tokenOut'', JStr (tokenOut q)),
      (''amountUnits'', JStr (amountUnits q)), (''externalReference'', JStr (externalReference q))]"

definition logical_json :: "'a request_scheme \<Rightarrow> js" where
  "logical_json q = JObj
     ([(''network'', JStr (intentNetwork q)), (''operation'', JStr (operation_name (operation q)))] @
      (if settlement (operation q) then []
       else [(''ownerId'', json_opt (ownerId q)),
             (''sourceWallet'', JStr (toLowerCase (sourceWallet q)))]) @
      [(''externalReference'', JStr (externalReference q))])"

text \<open>\<open>chars[12] = '5'; chars[16] = ((parseInt(chars[16], 16) & 0x3) | 0x8).toString(16)\<close>\<close>

definition uuidFromHash :: "string \<Rightarrow> string" where
  "uuidFromHash h =
     (let c0 = take 32 h;
          c1 = c0[12 := CHR ''5''];
          v = c1[16 := hex_char (8 + hex_val (c1 ! 16) mod 4)]
      in take 8 v @ ''-'' @ take 4 (drop 8 v) @ ''-'' @ take 4 (drop 12 v) @ ''-'' @
         take 4 (drop 16 v) @ ''-'' @ drop 20 v)"

definition trim_or_null :: "string option \<Rightarrow> string option" where
  "trim_or_null x = (case x of None \<Rightarrow> None | Some s \<Rightarrow> if js_trim s = [] then None else Some (js_trim s))"

definition immutable_request :: "acquire_input \<Rightarrow> string \<Rightarrow> string option \<Rightarrow> string \<Rightarrow> route_decision \<Rightarrow> request" where
  "immutable_request x src rcp amt dec =
     \<lparr>intentNetwork = inNetwork x, operation = inOperation x,
      ownerId = trim_or_null (inOwnerId x), sourceWallet = src, recipient = rcp,
      batchDigest = map_option toLowerCase (trim_or_null (inBatchDigest x)),
      tokenIn = decisionTokenIn dec, tokenOut = decisionTokenOut dec,
      amountUnits = amt, externalReference = js_trim (inExternalReference x)\<rparr>"

definition canonicalize :: "evm \<Rightarrow> routing \<Rightarrow> acquire_input \<Rightarrow> canonical res" where
  "canonicalize E R x =
     bindR (fromSome (PlainError ''InvalidAddressError'') (getAddress E (inSourceWallet x))) (\<lambda>src.
     bindR (if truthy (inRecipient x)
            then bindR (fromSome (PlainError ''InvalidAddressError'')
                          (getAddress E (the (inRecipient x)))) (\<lambda>a. Inr (Some a))
            else Inr None) (\<lambda>rcp.
     bindR (baseUnits (inAmountUnits x)) (\<lambda>amt.
     let ref = js_trim (inExternalReference x) in
     bindR (ensureR (ref \<noteq> [] \<and> length ref \<le> 160) IMMUTABLE_CONFLICT) (\<lambda>_.
     bindR (ensureR (truthy rcp \<or> truthy (inBatchDigest x)) IMMUTABLE_CONFLICT) (\<lambda>_.
     bindR (bindR (decide E R (JStr (inNetwork x)) (routingOperation (inOperation x))
                     (JStr (inTokenIn x)) (JStr (inTokenOut x))) assertExecutable) (\<lambda>dec.
     let q = immutable_request x src rcp amt dec in
     bindR (stableJson (logical_json q)) (\<lambda>logical.
     bindR (stableJson (request_json q)) (\<lambda>fingerprint.
     let fp = sha256 E fingerprint in
     Inr (request.extend q (canonical.fields (sha256 E logical) fp
            (uuidFromHash (sha256 E (''wizpay:'' @ fp))) (kind dec) (decisionProvider dec)
            (inTaskId x)))))))))))"

section \<open>The table of intents\<close>

text \<open>The unique constraints of the model, and the row \<open>create\<close> makes of a canonical request.\<close>

definition intents_unique :: "intent list \<Rightarrow> bool" where
  "intents_unique T \<longleftrightarrow> distinct (map intentId T) \<and> distinct (map logicalKey T) \<and>
     distinct (map requestFingerprint T) \<and> distinct (map idempotencyKey T) \<and>
     unique_col circleChallengeId T \<and> unique_col circleTransactionId T \<and>
     unique_col transactionHash T"

definition newIntent :: "string \<Rightarrow> canonical \<Rightarrow> intent" where
  "newIntent i c = canonical.extend c
     (intent.fields i None None None CREATED None None None None None 0 None None)"

definition findIntent :: "(intent \<Rightarrow> bool) \<Rightarrow> (db, intent option) op" where
  "findIntent p = query (\<lambda>s. find_row p (intents s))"

definition updateIntents :: "(intent \<Rightarrow> bool) \<Rightarrow> (intent \<Rightarrow> intent) \<Rightarrow> (db, nat) op" where
  "updateIntents p f = onIntents (updateManyUnique intents_unique p f)"

definition assertSelectedNetwork :: "routing \<Rightarrow> intent \<Rightarrow> (db, unit) op" where
  "assertSelectedNetwork R i = ensure (intentNetwork i = network R) IMMUTABLE_CONFLICT"

definition getIntent :: "routing \<Rightarrow> string \<Rightarrow> (db, intent) op" where
  "getIntent R i =
     andThen (findIntent (\<lambda>r. intentId r = i)) (\<lambda>found.
     case found of
       None \<Rightarrow> throw INTENT_NOT_FOUND
     | Some r \<Rightarrow> andThen (assertSelectedNetwork R r) (\<lambda>_. ok r))"

definition getByTransactionHash :: "routing \<Rightarrow> string \<Rightarrow> (db, intent) op" where
  "getByTransactionHash R h =
     andThen (lift (transactionHashOf h)) (\<lambda>hash.
     andThen (findIntent (\<lambda>r. transactionHash r = Some hash)) (\<lambda>found.
     case found of
       None \<Rightarrow> throw INTENT_NOT_FOUND
     | Some r \<Rightarrow> andThen (assertSelectedNetwork R r) (\<lambda>_. ok r)))"

definition assertAccess :: "routing \<Rightarrow> string \<Rightarrow> string \<Rightarrow> (db, intent) op" where
  "assertAccess R i key =
     andThen (getIntent R i) (\<lambda>r.
     andThen (ensure (idempotencyKey r = key) IMMUTABLE_CONFLICT) (\<lambda>_. ok r))"

section \<open>Acquiring an intent\<close>

definition invalidAddress :: exn where
  "invalidAddress = PlainError ''InvalidAddressError''"

text \<open>\<open>isAddressEqual(getAddress(a), b)\<close> and \<open>isAddressEqual(getAddress(a), getAddress(b))\<close>.\<close>

definition addressIs :: "evm \<Rightarrow> string \<Rightarrow> string \<Rightarrow> bool res" where
  "addressIs E a b = bindR (fromSome invalidAddress (getAddress E a)) (\<lambda>c.
     fromSome invalidAddress (isAddressEqual E c b))"

definition sameAddress :: "evm \<Rightarrow> string \<Rightarrow> string \<Rightarrow> bool res" where
  "sameAddress E a b = bindR (fromSome invalidAddress (getAddress E a)) (\<lambda>c.
     bindR (fromSome invalidAddress (getAddress E b)) (\<lambda>d.
     fromSome invalidAddress (isAddressEqual E c d)))"

definition settlementRefused :: "evm \<Rightarrow> routing \<Rightarrow> int \<Rightarrow> canonical \<Rightarrow> invoice \<Rightarrow> bool res" where
  "settlementRefused E R now c v =
     (if invoiceStatus v \<noteq> INV_OPEN \<or>
         (case expiresAt v of None \<Rightarrow> False | Some t \<Rightarrow> t \<le> now) \<or>
         invoiceChainId v \<noteq> chainId R \<or> \<not> truthy (recipient c)
      then Inr True
      else bindR (addressIs E (merchantWalletAddress v) (the (recipient c))) (\<lambda>merchant.
        if \<not> merchant then Inr True
        else bindR (addressIs E (tokenAddress v) (tokenOut c)) (\<lambda>tok.
        if \<not> tok then Inr True
        else Inr (invoiceAmountUnits v \<noteq> amountUnits c \<or>
          (operation c = OP_INVOICE_SETTLEMENT \<and> settlementKind v \<noteq> KIND_INVOICE) \<or>
          (operation c = OP_PAYMENT_LINK_SETTLEMENT \<and> settlementKind v \<noteq> KIND_PAYMENT_LINK)))))"

definition acquireTx :: "evm \<Rightarrow> routing \<Rightarrow> int \<Rightarrow> string \<Rightarrow> canonical \<Rightarrow> (db, intent) op" where
  "acquireTx E R now fresh c =
     andThen (findIntent (\<lambda>r. logicalKey r = logicalKey c)) (\<lambda>existing.
     case existing of
       Some r \<Rightarrow> ok r
     | None \<Rightarrow>
         andThen
           (if settlement (operation c) then
              andThen (query (\<lambda>s. find_row (\<lambda>v. publicId v = externalReference c) (invoices s))) (\<lambda>found.
              case found of
                None \<Rightarrow> throw BUSINESS_STATE
              | Some v \<Rightarrow> andThen (lift (settlementRefused E R now c v)) (\<lambda>refused.
                  ensure (\<not> refused) BUSINESS_STATE))
            else ok ()) (\<lambda>_.
         onIntents (insertUnique intents_unique (newIntent fresh c))))"

text \<open>
  One round of the retry loop: what other requests commit before the serializable transaction, whether
  the database aborts it (P2034, or P2002 from a concurrent insert), and what they commit before the
  row is read again.
\<close>

record attempt =
  before :: "db \<Rightarrow> db"
  aborts :: "string option"
  after :: "db \<Rightarrow> db"

definition undisturbed :: attempt where
  "undisturbed = \<lparr>before = id, aborts = None, after = id\<rparr>"

definition interfere :: "(db \<Rightarrow> db) \<Rightarrow> (db, unit) op" where
  "interfere f s = (Inr (), f s)"

definition retryableConcurrency :: "exn \<Rightarrow> bool" where
  "retryableConcurrency e \<longleftrightarrow> e = DbError ''P2002'' \<or> e = DbError ''P2034''"

fun acquireLoop ::
  "evm \<Rightarrow> routing \<Rightarrow> int \<Rightarrow> string \<Rightarrow> canonical \<Rightarrow> attempt list \<Rightarrow> (db, intent option) op" where
  "acquireLoop E R now fresh c [] = ok None"
| "acquireLoop E R now fresh c (a # rest) =
     andThen (interfere (before a)) (\<lambda>_.
     catching
       (andThen
          (case aborts a of
             None \<Rightarrow> transaction (acquireTx E R now fresh c)
           | Some code \<Rightarrow> throw (DbError code))
          (\<lambda>r. ok (Some r)))
       (\<lambda>e. if \<not> retryableConcurrency e then throw e
        else andThen (interfere (after a)) (\<lambda>_.
          andThen (findIntent (\<lambda>r. logicalKey r = logicalKey c)) (\<lambda>found.
          case found of
            Some r \<Rightarrow> ok (Some r)
          | None \<Rightarrow> if rest = [] then throw e else acquireLoop E R now fresh c rest))))"

definition acquire ::
  "evm \<Rightarrow> routing \<Rightarrow> int \<Rightarrow> string \<Rightarrow> (nat \<Rightarrow> attempt) \<Rightarrow> acquire_input \<Rightarrow> (db, intent) op" where
  "acquire E R now fresh att x =
     andThen (lift (canonicalize E R x)) (\<lambda>c.
     andThen (acquireLoop E R now fresh c [att 0, att 1, att 2]) (\<lambda>found.
     case found of
       None \<Rightarrow> throw (PlainError ''Execution intent acquisition failed.'')
     | Some r \<Rightarrow>
         andThen (assertSelectedNetwork R r) (\<lambda>_.
         andThen (ensure (requestFingerprint r = requestFingerprint c) IMMUTABLE_CONFLICT) (\<lambda>_.
         ok r))))"

section \<open>Transitions and leases\<close>

text \<open>The optional \<open>data\<close> of a transition; a field that is absent is not written.\<close>

record transition_data =
  dFailureCode :: "string option option"
  dChallengeId :: "string option option"
  dTransactionId :: "string option option"

definition no_data :: transition_data where
  "no_data = \<lparr>dFailureCode = None, dChallengeId = None, dTransactionId = None\<rparr>"

definition overwrite :: "'v option \<Rightarrow> 'v \<Rightarrow> 'v" where
  "overwrite d old = (case d of None \<Rightarrow> old | Some v \<Rightarrow> v)"

definition apply_data :: "transition_data \<Rightarrow> intent \<Rightarrow> intent" where
  "apply_data d r = r\<lparr>
     failureCode := overwrite (dFailureCode d) (failureCode r),
     circleChallengeId := overwrite (dChallengeId d) (circleChallengeId r),
     circleTransactionId := overwrite (dTransactionId d) (circleTransactionId r)\<rparr>"

definition transition ::
  "routing \<Rightarrow> int \<Rightarrow> string \<Rightarrow> intent_status \<Rightarrow> intent_status \<Rightarrow> transition_data \<Rightarrow> (db, intent) op" where
  "transition R now i expected nxt d =
     andThen (ensure (nxt \<in> set (transitions expected)) INVALID_TRANSITION) (\<lambda>_.
     andThen (updateIntents (\<lambda>r. intentId r = i \<and> status r = expected)
        (\<lambda>r. apply_data d (r\<lparr>status := nxt,
           completedAt := (if nxt = COMPLETED then Some now else completedAt r)\<rparr>))) (\<lambda>count.
     if count \<noteq> 1
     then andThen (getIntent R i) (\<lambda>current.
       throw (if isTerminal (status current) then TERMINAL else INVALID_TRANSITION))
     else getIntent R i))"

definition beginVerification :: "routing \<Rightarrow> int \<Rightarrow> string \<Rightarrow> (db, intent) op" where
  "beginVerification R now i =
     andThen (getIntent R i) (\<lambda>intent0.
     if status intent0 = COMPLETED \<or> status intent0 = VERIFYING then ok intent0
     else
       andThen (if status intent0 = CREATED
                then transition R now i CREATED SUBMISSION_PENDING no_data else ok intent0) (\<lambda>intent1.
       andThen (if status intent1 = AUTHORIZATION_PENDING
                then transition R now i AUTHORIZATION_PENDING SUBMITTED no_data
                else if status intent1 = SUBMISSION_PENDING
                then transition R now i SUBMISSION_PENDING SUBMITTED no_data
                else ok intent1) (\<lambda>intent2.
       if status intent2 = SUBMITTED then transition R now i SUBMITTED VERIFYING no_data
       else if status intent2 = FAILED_RETRYABLE
       then transition R now i FAILED_RETRYABLE VERIFYING no_data
       else ok intent2)))"

definition attachTask :: "routing \<Rightarrow> string \<Rightarrow> string \<Rightarrow> (db, intent) op" where
  "attachTask R i t =
     andThen (getIntent R i) (\<lambda>existing.
     andThen (ensure (\<not> (truthy (taskId existing) \<and> taskId existing \<noteq> Some t)) IMMUTABLE_CONFLICT) (\<lambda>_.
     andThen (updateIntents (\<lambda>r. intentId r = i \<and> taskId r = None) (\<lambda>r. r\<lparr>taskId := Some t\<rparr>)) (\<lambda>_.
     getIntent R i)))"

definition acquireLease :: "routing \<Rightarrow> int \<Rightarrow> string \<Rightarrow> string \<Rightarrow> int \<Rightarrow> (db, intent) op" where
  "acquireLease R now i owner ttlMs =
     andThen (ensure (\<not> (js_trim owner = [] \<or> ttlMs < 1000 \<or> ttlMs > 15 * 60000)) ACTIVE_LEASE) (\<lambda>_.
     andThen (updateIntents
        (\<lambda>r. intentId r = i \<and> \<not> isTerminal (status r) \<and>
           (leaseOwner r = None \<or> leaseExpiresAt r = None \<or>
            (case leaseExpiresAt r of None \<Rightarrow> False | Some t \<Rightarrow> t \<le> now)))
        (\<lambda>r. r\<lparr>leaseOwner := Some owner, leaseExpiresAt := Some (now + ttlMs),
              attemptCount := attemptCount r + 1\<rparr>)) (\<lambda>count.
     if count \<noteq> 1
     then andThen (getIntent R i) (\<lambda>existing.
       if isTerminal (status existing) then throw TERMINAL else throw ACTIVE_LEASE)
     else getIntent R i))"

definition assertLease :: "routing \<Rightarrow> int \<Rightarrow> string \<Rightarrow> string \<Rightarrow> (db, intent) op" where
  "assertLease R now i owner =
     andThen (getIntent R i) (\<lambda>r.
     andThen (ensure (\<not> (owner = [] \<or> leaseOwner r \<noteq> Some owner \<or>
        (case leaseExpiresAt r of None \<Rightarrow> True | Some t \<Rightarrow> t \<le> now))) ACTIVE_LEASE) (\<lambda>_.
     ok r))"

definition prepareWalletSignature ::
  "routing \<Rightarrow> int \<Rightarrow> string \<Rightarrow> string \<Rightarrow> string \<Rightarrow> int \<Rightarrow> (db, intent) op" where
  "prepareWalletSignature R now i key owner ttlMs =
     andThen (assertAccess R i key) (\<lambda>_.
     andThen (getIntent R i) (\<lambda>current.
     andThen (ensure (\<not> isTerminal (status current)) TERMINAL) (\<lambda>_.
     andThen (ensure (\<not> (truthy (transactionHash current) \<or> truthy (circleChallengeId current)))
                INVALID_TRANSITION) (\<lambda>_.
     andThen (ensure (status current \<noteq> AWAITING_WALLET_SIGNATURE) INVALID_TRANSITION) (\<lambda>_.
     andThen (ensure (\<not> (status current \<noteq> CREATED \<and> status current \<noteq> FAILED_RETRYABLE))
                INVALID_TRANSITION) (\<lambda>_.
     andThen (acquireLease R now i owner ttlMs) (\<lambda>_.
     transition R now i (status current) AWAITING_WALLET_SIGNATURE no_data)))))))"

section \<open>Binding evidence\<close>

text \<open>\<open>bindImmutableExecutionContext\<close>: four columns that are written once.\<close>

record context_input =
  cOwnerId :: string
  cWalletId :: string
  cContractAddress :: "string option"
  cCalldataHash :: "string option"

definition normalizeContext ::
  "evm \<Rightarrow> context_input \<Rightarrow> (string \<times> string \<times> string option \<times> string option) res" where
  "normalizeContext E x =
     bindR (if truthy (cContractAddress x)
            then bindR (fromSome invalidAddress (getAddress E (the (cContractAddress x))))
                   (\<lambda>a. Inr (Some (toLowerCase a)))
            else Inr None) (\<lambda>contract.
     Inr (js_trim (cOwnerId x), js_trim (cWalletId x), contract,
          map_option toLowerCase (cCalldataHash x)))"

definition clashes :: "string option \<Rightarrow> string option \<Rightarrow> bool" where
  "clashes prior new \<longleftrightarrow> truthy prior \<and> truthy new \<and> prior \<noteq> new"

definition or_else :: "'a option \<Rightarrow> 'a option \<Rightarrow> 'a option" where
  "or_else a b = (case a of None \<Rightarrow> b | Some x \<Rightarrow> Some x)"

definition bindImmutableExecutionContext ::
  "evm \<Rightarrow> routing \<Rightarrow> string \<Rightarrow> context_input \<Rightarrow> (db, intent) op" where
  "bindImmutableExecutionContext E R i x =
     andThen (getIntent R i) (\<lambda>e.
     andThen (lift (normalizeContext E x)) (\<lambda>(owner, wallet, contract, calldata).
     andThen (ensure (\<not> (clashes (ownerId e) (Some owner) \<or> clashes (walletId e) (Some wallet) \<or>
        clashes (contractAddress e) contract \<or> clashes (calldataHash e) calldata)) IMMUTABLE_CONFLICT) (\<lambda>_.
     andThen (updateIntents
        (\<lambda>r. intentId r = i \<and> ownerId r = ownerId e \<and> walletId r = walletId e \<and>
           contractAddress r = contractAddress e \<and> calldataHash r = calldataHash e)
        (\<lambda>r. r\<lparr>ownerId := or_else (ownerId e) (Some owner),
              walletId := or_else (walletId e) (Some wallet),
              contractAddress := or_else (contractAddress e) contract,
              calldataHash := or_else (calldataHash e) calldata\<rparr>)) (\<lambda>count.
     andThen (ensure (count = 1) IMMUTABLE_CONFLICT) (\<lambda>_.
     andThen (getIntent R i) (\<lambda>bound.
     andThen (ensure (ownerId bound = Some owner \<and> walletId bound = Some wallet \<and>
        contractAddress bound = contract \<and> calldataHash bound = calldata) IMMUTABLE_CONFLICT) (\<lambda>_.
     ok bound)))))))"

definition bindCircleCorrelation ::
  "routing \<Rightarrow> string \<Rightarrow> string \<Rightarrow> string option \<Rightarrow> (db, intent) op" where
  "bindCircleCorrelation R i challenge transactionId =
     andThen (getIntent R i) (\<lambda>e.
     andThen (ensure (\<not> ((truthy (circleChallengeId e) \<and> circleChallengeId e \<noteq> Some challenge) \<or>
        (truthy (circleTransactionId e) \<and> truthy transactionId \<and>
         circleTransactionId e \<noteq> transactionId))) IMMUTABLE_CONFLICT) (\<lambda>_.
     andThen (catching
        (andThen (updateIntents
           (\<lambda>r. intentId r = i \<and> circleChallengeId r = circleChallengeId e \<and>
              circleTransactionId r = circleTransactionId e)
           (\<lambda>r. r\<lparr>circleChallengeId := or_else (circleChallengeId e) (Some challenge),
                 circleTransactionId := or_else (circleTransactionId e) transactionId,
                 leaseOwner := None, leaseExpiresAt := None\<rparr>)) (\<lambda>count.
         ensure (count = 1) (PlainError ''concurrent update'')))
        (\<lambda>_. throw IMMUTABLE_CONFLICT)) (\<lambda>_.
     andThen (getIntent R i) (\<lambda>bound.
     andThen (ensure (\<not> (circleChallengeId bound \<noteq> Some challenge \<or>
        (truthy transactionId \<and> circleTransactionId bound \<noteq> transactionId))) IMMUTABLE_CONFLICT) (\<lambda>_.
     ok bound)))))"

text \<open>
  \<open>bindTransactionHash\<close> calls itself again when another request has written the hash between its read
  and its update.  \<open>bindHashAttempt\<close> is one round, with the interference of other requests before the
  update; its result \<open>None\<close> means "again".  The rounds are bounded by fuel; the result \<open>None\<close> of
  \<open>bindTransactionHash\<close> is running out of it.
\<close>

definition bindHashAttempt ::
  "routing \<Rightarrow> int \<Rightarrow> (db \<Rightarrow> db) \<Rightarrow> string \<Rightarrow> string \<Rightarrow> string option \<Rightarrow> bool \<Rightarrow> (db, intent option) op" where
  "bindHashAttempt R now others i h owner recovery =
     andThen (lift (transactionHashOf h)) (\<lambda>normalized.
     andThen (getIntent R i) (\<lambda>existing.
     if transactionHash existing = Some normalized then ok (Some existing)
     else
       andThen (ensure (\<not> truthy (transactionHash existing)) HASH_CONFLICT) (\<lambda>_.
       andThen (if status existing = AWAITING_WALLET_SIGNATURE \<and> \<not> recovery
                then andThen (ensure (truthy owner) ACTIVE_LEASE) (\<lambda>_.
                  andThen (assertLease R now i (the owner)) (\<lambda>_. ok ()))
                else ok ()) (\<lambda>_.
       andThen (interfere others) (\<lambda>_.
       andThen (catching
          (updateIntents (\<lambda>r. intentId r = i \<and> transactionHash r = None)
             (\<lambda>r. r\<lparr>transactionHash := Some normalized, status := SUBMITTED,
                   leaseOwner := None, leaseExpiresAt := None\<rparr>))
          (\<lambda>_. throw HASH_CONFLICT)) (\<lambda>count.
       if count \<noteq> 1 then ok None
       else andThen (getIntent R i) (\<lambda>r. ok (Some r))))))))"

fun bindTransactionHash ::
  "routing \<Rightarrow> int \<Rightarrow> (nat \<Rightarrow> db \<Rightarrow> db) \<Rightarrow> nat \<Rightarrow> string \<Rightarrow> string \<Rightarrow> string option \<Rightarrow> bool \<Rightarrow>
     db \<Rightarrow> (intent res \<times> db) option" where
  "bindTransactionHash R now others 0 i h owner recovery s = None"
| "bindTransactionHash R now others (Suc n) i h owner recovery s =
     (case bindHashAttempt R now (others n) i h owner recovery s of
        (Inl e, t) \<Rightarrow> Some (Inl e, t)
      | (Inr (Some r), t) \<Rightarrow> Some (Inr r, t)
      | (Inr None, t) \<Rightarrow> bindTransactionHash R now others n i (toLowerCase h) owner recovery t)"

text \<open>
  With nobody interfering one round is enough (\<open>bind_terminates\<close> below, for two rounds and any
  interference that only moves the table forward); the endpoints use it in this form.
\<close>

definition bindHashOp :: "routing \<Rightarrow> int \<Rightarrow> string \<Rightarrow> string \<Rightarrow> string option \<Rightarrow> bool \<Rightarrow> (db, intent) op" where
  "bindHashOp R now i h owner recovery s =
     (case bindTransactionHash R now (\<lambda>_. id) 2 i h owner recovery s of
        Some out \<Rightarrow> out | None \<Rightarrow> (Inl (PlainError ''unreachable''), s))"

definition bindKnownTransactionHash :: "routing \<Rightarrow> int \<Rightarrow> string \<Rightarrow> string \<Rightarrow> string \<Rightarrow> (db, intent) op" where
  "bindKnownTransactionHash R now i key h =
     andThen (assertAccess R i key) (\<lambda>_.
     andThen (getIntent R i) (\<lambda>r.
     andThen (ensure (\<not> (isTerminal (status r) \<and> status r \<noteq> COMPLETED)) TERMINAL) (\<lambda>_.
     bindHashOp R now i h None True)))"

definition cancelUnsubmitted :: "routing \<Rightarrow> string \<Rightarrow> string \<Rightarrow> (db, intent) op" where
  "cancelUnsubmitted R i key =
     andThen (assertAccess R i key) (\<lambda>_.
     andThen (getIntent R i) (\<lambda>r.
     andThen (ensure (\<not> (truthy (transactionHash r) \<or> truthy (circleChallengeId r) \<or>
        truthy (circleTransactionId r))) INVALID_TRANSITION) (\<lambda>_.
     andThen (ensure (status r \<in> {CREATED, AWAITING_WALLET_SIGNATURE, FAILED_RETRYABLE})
        INVALID_TRANSITION) (\<lambda>_.
     andThen (updateIntents
        (\<lambda>r. intentId r = i \<and> transactionHash r = None \<and> circleChallengeId r = None)
        (\<lambda>r. r\<lparr>status := CANCELLED, leaseOwner := None, leaseExpiresAt := None\<rparr>)) (\<lambda>count.
     andThen (ensure (count = 1) INVALID_TRANSITION) (\<lambda>_.
     getIntent R i))))))"

section \<open>Completion\<close>

text \<open>\<open>VerifiedExecutionReceipt\<close>; an absent \<open>recipient\<close> or \<open>batchDigest\<close> is the outer \<open>None\<close>.\<close>

record verified_receipt =
  rcNetwork :: string
  rcHash :: string
  rcSource :: string
  rcToken :: string
  rcRecipient :: "string option"
  rcBatchDigest :: "string option option"
  rcAmount :: string

definition andR :: "bool res \<Rightarrow> bool res \<Rightarrow> bool res" where
  "andR a b = bindR a (\<lambda>x. if x then b else Inr False)"

definition receiptMatches :: "evm \<Rightarrow> intent \<Rightarrow> string \<Rightarrow> verified_receipt \<Rightarrow> bool res" where
  "receiptMatches E i h rc =
     andR (Inr ((status i = VERIFYING \<or> status i = COMPLETED) \<and> transactionHash i = Some h \<and>
           intentNetwork i = rcNetwork rc))
    (andR (sameAddress E (sourceWallet i) (rcSource rc))
    (andR (sameAddress E (tokenOut i) (rcToken rc))
    (andR (Inr (amountUnits i = rcAmount rc))
          (if truthy (recipient i)
           then (if truthy (rcRecipient rc)
                 then sameAddress E (the (recipient i)) (the (rcRecipient rc)) else Inr False)
           else Inr (Some (batchDigest i) = rcBatchDigest rc)))))"

definition completeWithVerifiedReceipt ::
  "evm \<Rightarrow> routing \<Rightarrow> int \<Rightarrow> string \<Rightarrow> verified_receipt \<Rightarrow> (db, intent) op" where
  "completeWithVerifiedReceipt E R now i rc =
     andThen (getIntent R i) (\<lambda>r.
     andThen (lift (transactionHashOf (rcHash rc))) (\<lambda>h.
     andThen (lift (receiptMatches E r h rc)) (\<lambda>matches.
     andThen (ensure matches RECEIPT_MISMATCH) (\<lambda>_.
     if status r = COMPLETED then ok r
     else transition R now i VERIFYING COMPLETED no_data))))"

text \<open>
  \<open>POST :id/verify\<close>; the receipt verifier is an argument, applied to the fields the endpoint passes it.
\<close>

record transfer_query =
  qHash :: string
  qSender :: string
  qRecipient :: string
  qToken :: string
  qAmount :: string

definition verifyEndpoint ::
  "evm \<Rightarrow> routing \<Rightarrow> int \<Rightarrow> (transfer_query \<Rightarrow> verified_receipt res) \<Rightarrow> string \<Rightarrow> string \<Rightarrow>
     (db, intent) op" where
  "verifyEndpoint E R now receipts i key =
     andThen (assertAccess R i key) (\<lambda>_.
     andThen (beginVerification R now i) (\<lambda>r.
     andThen (ensure (truthy (transactionHash r) \<and> truthy (recipient r))
        (BadRequest ''EXECUTION_INTENT_NOT_SUBMITTED'')) (\<lambda>_.
     andThen (ensure (operation r = OP_SEND) (BadRequest ''EXECUTION_INTENT_VERIFIER_MISMATCH'')) (\<lambda>_.
     andThen (lift (receipts \<lparr>qHash = the (transactionHash r), qSender = sourceWallet r,
        qRecipient = the (recipient r), qToken = tokenOut r, qAmount = amountUnits r\<rparr>)) (\<lambda>rc.
     completeWithVerifiedReceipt E R now i rc)))))"

definition bindHashEndpoint :: "routing \<Rightarrow> int \<Rightarrow> string \<Rightarrow> string \<Rightarrow> string \<Rightarrow> string \<Rightarrow> (db, intent) op" where
  "bindHashEndpoint R now i key h owner =
     andThen (assertAccess R i key) (\<lambda>_. bindHashOp R now i h (Some owner) False)"

end
