(* ===== verification/IntentWrites.thy ===== *)
theory IntentWrites
  imports ExecutionIntent
begin

text \<open>
  What the service methods of \<open>ExecutionIntent\<close> do to the table of intents.  \<open>intent_write\<close> has one
  rule per statement the service sends; every method, and every interleaving of the statements of
  several requests, is a run of it.  \<open>intent_evolves\<close> is the preorder each of these statements moves
  rows along: the request is immutable, evidence is bound once, a completed payment stays completed.
\<close>

definition table_update ::
  "(intent \<Rightarrow> bool) \<Rightarrow> (intent \<Rightarrow> intent) \<Rightarrow> intent list \<Rightarrow> intent list \<Rightarrow> bool" where
  "table_update p f T U \<longleftrightarrow> U = update_rows p f T \<and> intents_unique U"

inductive intent_write :: "intent list \<Rightarrow> intent list \<Rightarrow> bool" where
  write_create:
    "intents_unique (T @ [newIntent i c]) \<Longrightarrow> intent_write T (T @ [newIntent i c])"
| write_transition:
    "nxt \<in> set (transitions expected) \<Longrightarrow> nxt \<noteq> COMPLETED \<Longrightarrow>
     table_update (\<lambda>r. intentId r = i \<and> status r = expected)
       (\<lambda>r. apply_data d (r\<lparr>status := nxt, completedAt := completedAt r\<rparr>)) T U \<Longrightarrow>
     intent_write T U"
| write_complete:
    "find_row (\<lambda>r. intentId r = i) T = Some r \<Longrightarrow> transactionHash r \<noteq> None \<Longrightarrow>
     table_update (\<lambda>r. intentId r = i \<and> status r = VERIFYING)
       (\<lambda>r. apply_data no_data (r\<lparr>status := COMPLETED, completedAt := Some now\<rparr>)) T U \<Longrightarrow>
     intent_write T U"
| write_task:
    "table_update (\<lambda>r. intentId r = i \<and> taskId r = None) (\<lambda>r. r\<lparr>taskId := Some t\<rparr>) T U \<Longrightarrow>
     intent_write T U"
| write_lease:
    "table_update
        (\<lambda>r. intentId r = i \<and> \<not> isTerminal (status r) \<and>
           (leaseOwner r = None \<or> leaseExpiresAt r = None \<or>
            (case leaseExpiresAt r of None \<Rightarrow> False | Some t \<Rightarrow> t \<le> now)))
        (\<lambda>r. r\<lparr>leaseOwner := Some owner, leaseExpiresAt := Some (now + ttlMs),
              attemptCount := attemptCount r + 1\<rparr>) T U \<Longrightarrow>
     intent_write T U"
| write_context:
    "table_update
        (\<lambda>r. intentId r = i \<and> ownerId r = ow \<and> walletId r = wa \<and>
           contractAddress r = co \<and> calldataHash r = ca)
        (\<lambda>r. r\<lparr>ownerId := or_else ow ow', walletId := or_else wa wa',
              contractAddress := or_else co co', calldataHash := or_else ca ca'\<rparr>) T U \<Longrightarrow>
     intent_write T U"
| write_circle:
    "table_update
        (\<lambda>r. intentId r = i \<and> circleChallengeId r = ch \<and> circleTransactionId r = tx)
        (\<lambda>r. r\<lparr>circleChallengeId := or_else ch ch', circleTransactionId := or_else tx tx',
              leaseOwner := None, leaseExpiresAt := None\<rparr>) T U \<Longrightarrow>
     intent_write T U"
| write_hash:
    "is_hash h \<Longrightarrow> table_update (\<lambda>r. intentId r = i \<and> transactionHash r = None)
        (\<lambda>r. r\<lparr>transactionHash := Some (toLowerCase h), status := SUBMITTED,
              leaseOwner := None, leaseExpiresAt := None\<rparr>) T U \<Longrightarrow>
     intent_write T U"
| write_cancel:
    "table_update (\<lambda>r. intentId r = i \<and> transactionHash r = None \<and> circleChallengeId r = None)
        (\<lambda>r. r\<lparr>status := CANCELLED, leaseOwner := None, leaseExpiresAt := None\<rparr>) T U \<Longrightarrow>
     intent_write T U"

section \<open>The preorder on rows\<close>

definition once :: "'v option \<Rightarrow> 'v option \<Rightarrow> bool" where
  "once a b \<longleftrightarrow> a \<noteq> None \<longrightarrow> b = a"

lemma once_simps [simp]: "once a a" "once None b" "once (Some x) b \<longleftrightarrow> b = Some x" "once a (or_else a c)"
  by (auto simp: once_def or_else_def)

lemma once_trans: "once a b \<Longrightarrow> once b c \<Longrightarrow> once a c"
  by (auto simp: once_def)

text \<open>The columns nothing writes after the row is created.\<close>

definition fixed_columns :: "intent \<Rightarrow> _" where
  "fixed_columns r =
     (intentId r, intentNetwork r, operation r, sourceWallet r, recipient r, batchDigest r, tokenIn r,
      tokenOut r, amountUnits r, externalReference r, logicalKey r, requestFingerprint r,
      idempotencyKey r, route r, intentProvider r)"

definition settled :: "intent \<Rightarrow> bool" where
  "settled r \<longleftrightarrow> status r = COMPLETED \<and> transactionHash r \<noteq> None"

definition intent_evolves :: "intent \<Rightarrow> intent \<Rightarrow> bool" where
  "intent_evolves r s \<longleftrightarrow>
     fixed_columns s = fixed_columns r \<and>
     once (transactionHash r) (transactionHash s) \<and>
     once (ownerId r) (ownerId s) \<and> once (walletId r) (walletId s) \<and>
     once (contractAddress r) (contractAddress s) \<and> once (calldataHash r) (calldataHash s) \<and>
     once (taskId r) (taskId s) \<and>
     attemptCount r \<le> attemptCount s \<and>
     (settled r \<longrightarrow> settled s \<and> completedAt s = completedAt r)"

lemma intent_evolves_refl: "intent_evolves r r"
  by (simp add: intent_evolves_def)

lemma intent_evolves_trans: "intent_evolves r s \<Longrightarrow> intent_evolves s t \<Longrightarrow> intent_evolves r t"
  unfolding intent_evolves_def by (auto intro: once_trans)

lemma intent_evolves_id: "intent_evolves r s \<Longrightarrow> intentId s = intentId r"
  by (simp add: intent_evolves_def fixed_columns_def)

interpretation intent_rows: row_evolution intentId intent_evolves
  by unfold_locales (blast intro: intent_evolves_refl intent_evolves_trans intent_evolves_id)+

lemma transitions_not_terminal: "nxt \<in> set (transitions st) \<Longrightarrow> \<not> isTerminal st"
  by (cases st) (auto simp: isTerminal_def)

lemmas evolve_defs = intent_evolves_def fixed_columns_def settled_def apply_data_def

lemma update_evolves:
  "table_update p f T U \<Longrightarrow> (\<And>r. p r \<Longrightarrow> intent_evolves r (f r)) \<Longrightarrow> table_evolves intent_evolves T U"
  by (auto simp: table_update_def intro: intent_rows.table_update)

lemma intent_write_evolves: "intent_write T U \<Longrightarrow> table_evolves intent_evolves T U"
proof (induction rule: intent_write.induct)
  case (write_create T i c)
  show ?case by (rule intent_rows.table_append)
next
  case (write_transition nxt expected i d T U)
  from transitions_not_terminal [OF write_transition(1)] have "expected \<noteq> COMPLETED"
    by (auto simp: isTerminal_def)
  with write_transition(3) show ?case
    by (elim update_evolves) (auto simp: evolve_defs)
next
  case (write_complete i T r now U)
  then show ?case
    by (elim update_evolves) (auto simp: evolve_defs)
next
  case (write_task i t T U)
  then show ?case
    by (elim update_evolves) (auto simp: evolve_defs)
next
  case (write_lease i now owner ttlMs T U)
  then show ?case
    by (elim update_evolves) (auto simp: evolve_defs)
next
  case (write_context i ow wa co ca ow' wa' co' ca' T U)
  then show ?case
    by (elim update_evolves) (auto simp: evolve_defs)
next
  case (write_circle i ch tx ch' tx' T U)
  then show ?case
    by (elim update_evolves) (auto simp: evolve_defs)
next
  case (write_hash h i T U)
  then show ?case
    by (elim update_evolves) (auto simp: evolve_defs)
next
  case (write_cancel i T U)
  then show ?case
    by (elim update_evolves) (auto simp: evolve_defs)
qed

interpretation intent_table: table_writes intentId intent_evolves intent_write
  by unfold_locales (rule intent_write_evolves)

lemma intent_write_unique: "intent_write T U \<Longrightarrow> intents_unique U"
  by (induction rule: intent_write.induct) (simp_all add: table_update_def)

section \<open>Every method is a run of statements\<close>

abbreviation intent_run :: "db \<Rightarrow> db \<Rightarrow> bool" where
  "intent_run \<equiv> via intents intent_write\<^sup>*\<^sup>*"

lemma run_refl: "reflp intent_run"
  by (intro via_refl rtranclp_reflp)

lemma run_trans: "transp intent_run"
  by (intro via_trans rtranclp_transp)

lemmas run_rules =
  keeps_ok [OF run_refl] keeps_throw [OF run_refl] keeps_query [OF run_refl]
  keeps_ensure [OF run_refl] keeps_lift [OF run_refl] keeps_andThen [OF run_trans]
  keeps_catching [OF run_trans] keeps_transaction [OF run_refl] keeps_split

lemma run_update:
  assumes "\<And>T. intents_unique (update_rows p f T) \<Longrightarrow> intent_write\<^sup>*\<^sup>* T (update_rows p f T)"
  shows "keeps intent_run (updateIntents p f)"
  unfolding updateIntents_def
  by (intro keeps_onIntents keepsI) (auto simp: updateManyUnique_def assms split: if_splits)

lemma run_create: "keeps intent_run (onIntents (insertUnique intents_unique (newIntent i c)))"
  by (intro keeps_onIntents keepsI)
    (auto simp: insertUnique_def split: if_splits intro: write_create)

lemma run_findIntent: "keeps intent_run (findIntent p)"
  unfolding findIntent_def by (intro run_rules)

lemma run_network: "keeps intent_run (assertSelectedNetwork R r)"
  unfolding assertSelectedNetwork_def by (intro run_rules)

lemma run_get: "keeps intent_run (getIntent R i)"
  unfolding getIntent_def by (intro run_rules run_findIntent run_network)

lemma run_getByHash: "keeps intent_run (getByTransactionHash R h)"
  unfolding getByTransactionHash_def by (intro run_rules run_findIntent run_network)

lemma run_access: "keeps intent_run (assertAccess R i key)"
  unfolding assertAccess_def by (intro run_rules run_get)

lemma run_acquireTx: "keeps intent_run (acquireTx E R now fresh c)"
  unfolding acquireTx_def by (intro run_rules run_findIntent run_create)

definition polite :: "(db \<Rightarrow> db) \<Rightarrow> bool" where
  "polite f \<longleftrightarrow> (\<forall>s. intent_run s (f s))"

lemma polite_id [simp]: "polite id" "polite (\<lambda>s. s)"
  by (simp_all add: polite_def via_def)

lemma run_interfere: "polite f \<Longrightarrow> keeps intent_run (interfere f)"
  by (simp add: polite_def keeps_def interfere_def)

definition polite_attempt :: "attempt \<Rightarrow> bool" where
  "polite_attempt a \<longleftrightarrow> polite (before a) \<and> polite (after a)"

lemma run_acquireLoop:
  "list_all polite_attempt as \<Longrightarrow> keeps intent_run (acquireLoop E R now fresh c as)"
proof (induction as)
  case Nil
  show ?case by (simp add: keeps_ok run_refl)
next
  case (Cons a as)
  then have "polite (before a)" "polite (after a)" by (simp_all add: polite_attempt_def)
  with Cons show ?case
    by (simp only: acquireLoop.simps list.pred_inject)
      (intro run_rules run_acquireTx run_findIntent run_interfere; simp)
qed

lemma run_acquire: "(\<And>n. polite_attempt (att n)) \<Longrightarrow> keeps intent_run (acquire E R now fresh att x)"
  unfolding acquire_def by (intro run_rules run_acquireLoop run_network) simp_all

text \<open>A transition that does not complete the intent.\<close>

lemma run_transition:
  assumes "nxt \<noteq> COMPLETED"
  shows "keeps intent_run (transition R now i expected nxt d)"
proof (cases "nxt \<in> set (transitions expected)")
  case True
  have "keeps intent_run (updateIntents (\<lambda>r. intentId r = i \<and> status r = expected)
      (\<lambda>r. apply_data d (r\<lparr>status := nxt,
         completedAt := (if nxt = COMPLETED then Some now else completedAt r)\<rparr>)))"
    using assms True
    by (intro run_update) (auto intro!: r_into_rtranclp write_transition simp: table_update_def)
  then show ?thesis
    unfolding transition_def by (intro run_rules run_get)
next
  case False
  then show ?thesis
    by (auto simp: keeps_def transition_def andThen_def ensure_def via_def)
qed

lemma run_begin: "keeps intent_run (beginVerification R now i)"
  unfolding beginVerification_def by (intro run_rules run_get run_transition) simp_all

lemma run_attach: "keeps intent_run (attachTask R i t)"
  unfolding attachTask_def
  by (intro run_rules run_get run_update r_into_rtranclp write_task) (simp add: table_update_def)

lemma run_lease: "keeps intent_run (acquireLease R now i owner ttl)"
  unfolding acquireLease_def
  by (intro run_rules run_get run_update r_into_rtranclp write_lease) (simp add: table_update_def)

lemma run_assertLease: "keeps intent_run (assertLease R now i owner)"
  unfolding assertLease_def by (intro run_rules run_get)

lemma run_prepare: "keeps intent_run (prepareWalletSignature R now i key owner ttl)"
  unfolding prepareWalletSignature_def
  by (intro run_rules run_get run_access run_lease run_transition) simp

lemma run_context: "keeps intent_run (bindImmutableExecutionContext E R i x)"
  unfolding bindImmutableExecutionContext_def
  by (intro run_rules run_get run_update r_into_rtranclp write_context) (simp add: table_update_def)

lemma run_circle: "keeps intent_run (bindCircleCorrelation R i ch tx)"
  unfolding bindCircleCorrelation_def
  by (intro run_rules run_get run_update r_into_rtranclp write_circle) (simp add: table_update_def)

lemma run_cancel: "keeps intent_run (cancelUnsubmitted R i key)"
  unfolding cancelUnsubmitted_def
  by (intro run_rules run_get run_access run_update r_into_rtranclp write_cancel)
    (simp add: table_update_def)

lemma run_hash_update:
  assumes "is_hash h"
  shows "keeps intent_run (updateIntents (\<lambda>r. intentId r = i \<and> transactionHash r = None)
     (\<lambda>r. r\<lparr>transactionHash := Some (toLowerCase h), status := SUBMITTED,
           leaseOwner := None, leaseExpiresAt := None\<rparr>))"
  by (intro run_update r_into_rtranclp write_hash [OF assms]) (simp add: table_update_def)

lemma transactionHashOf_cases:
  "transactionHashOf h = (if is_hash h then Inr (toLowerCase h) else Inl HASH_CONFLICT)"
  by (simp add: transactionHashOf_def bindR_def ensureR_def)

lemma run_bindAttempt:
  assumes "polite others"
  shows "keeps intent_run (bindHashAttempt R now others i h owner recovery)"
proof (cases "is_hash h")
  case True
  have eq: "bindHashAttempt R now others i h owner recovery =
    (\<lambda>s. andThen (getIntent R i) (\<lambda>existing.
     if transactionHash existing = Some (toLowerCase h) then ok (Some existing)
     else
       andThen (ensure (\<not> truthy (transactionHash existing)) HASH_CONFLICT) (\<lambda>_.
       andThen (if status existing = AWAITING_WALLET_SIGNATURE \<and> \<not> recovery
                then andThen (ensure (truthy owner) ACTIVE_LEASE) (\<lambda>_.
                  andThen (assertLease R now i (the owner)) (\<lambda>_. ok ()))
                else ok ()) (\<lambda>_.
       andThen (interfere others) (\<lambda>_.
       andThen (catching
          (updateIntents (\<lambda>r. intentId r = i \<and> transactionHash r = None)
             (\<lambda>r. r\<lparr>transactionHash := Some (toLowerCase h), status := SUBMITTED,
                   leaseOwner := None, leaseExpiresAt := None\<rparr>))
          (\<lambda>_. throw HASH_CONFLICT)) (\<lambda>count.
       if count \<noteq> 1 then ok None
       else andThen (getIntent R i) (\<lambda>r. ok (Some r))))))) s)"
    using True
    by (intro ext) (simp add: bindHashAttempt_def transactionHashOf_cases andThen_def [of "lift _"] lift_def)
  show ?thesis
    unfolding eq
    by (intro run_rules run_get run_assertLease run_interfere assms run_hash_update True)
next
  case False
  then show ?thesis
    by (simp add: keeps_def bindHashAttempt_def transactionHashOf_cases andThen_def [of "lift _"]
        lift_def via_def)
qed

lemma run_bind:
  assumes "\<And>n. polite (others n)" "bindTransactionHash R now others n i h owner recovery s = Some (r, t)"
  shows "intent_run s t"
  using assms(2)
proof (induction n arbitrary: h s)
  case 0
  then show ?case by simp
next
  case (Suc n)
  obtain res u where a: "bindHashAttempt R now (others n) i h owner recovery s = (res, u)"
    by (cases "bindHashAttempt R now (others n) i h owner recovery s")
  then have su: "intent_run s u"
    using keepsD [OF run_bindAttempt [OF assms(1)]] by blast
  show ?case
  proof (cases res)
    case (Inl e)
    with a su Suc.prems show ?thesis by simp
  next
    case (Inr found)
    show ?thesis
    proof (cases found)
      case None
      with Inr a Suc have "intent_run u t" by simp
      with su show ?thesis using run_trans by (meson transpD)
    next
      case (Some x)
      with Inr a su Suc.prems show ?thesis by simp
    qed
  qed
qed

lemma run_bindOp: "keeps intent_run (bindHashOp R now i h owner recovery)"
proof (rule keepsI)
  fix s r t
  assume "bindHashOp R now i h owner recovery s = (r, t)"
  then show "intent_run s t"
    using run_bind [of "\<lambda>_. id" R now 2 i h owner recovery s] run_refl
    by (auto simp: bindHashOp_def reflp_def split: option.splits)
qed

lemma run_bindKnown: "keeps intent_run (bindKnownTransactionHash R now i key h)"
  unfolding bindKnownTransactionHash_def by (intro run_rules run_get run_access run_bindOp)

lemma run_bindEndpoint: "keeps intent_run (bindHashEndpoint R now i key h owner)"
  unfolding bindHashEndpoint_def by (intro run_rules run_access run_bindOp)

end
