(* ===== verification/IntentProperties.thy ===== *)
theory IntentProperties
  imports IntentWrites
begin

text \<open>
  The functional behaviour of the execution-intent service: what each method returns and leaves
  behind on every branch, the termination of the hash binding under interference, the injectivity of
  the request fingerprint, and the exclusion of a second wallet submission.
\<close>

section \<open>Reading and updating one row\<close>

abbreviation lookup :: "string \<Rightarrow> db \<Rightarrow> intent option" where
  "lookup i s \<equiv> find_row (\<lambda>r. intentId r = i) (intents s)"

lemma getIntent_eq:
  "getIntent R i s =
     (case lookup i s of
        None \<Rightarrow> (Inl INTENT_NOT_FOUND, s)
      | Some r \<Rightarrow> if intentNetwork r = network R then (Inr r, s) else (Inl IMMUTABLE_CONFLICT, s))"
  by (simp add: getIntent_def findIntent_def assertSelectedNetwork_def op_defs split: option.splits)

lemma getIntent_Inr:
  "getIntent R i s = (Inr r, t) \<longleftrightarrow> lookup i s = Some r \<and> intentNetwork r = network R \<and> t = s"
  by (auto simp: getIntent_eq split: option.splits)

lemma getIntent_state: "getIntent R i s = (res, t) \<Longrightarrow> t = s"
  by (auto simp: getIntent_eq split: option.splits if_splits)

lemma updateIntents_eq:
  "updateIntents p f s =
     (if intents_unique (update_rows p f (intents s))
      then (Inr (count_rows p (intents s)), s\<lparr>intents := update_rows p f (intents s)\<rparr>)
      else (Inl (DbError ''P2002''), s))"
  by (simp add: updateIntents_def onIntents_def updateManyUnique_def)

definition key_columns :: "intent \<Rightarrow> _" where
  "key_columns r = (intentId r, logicalKey r, requestFingerprint r, idempotencyKey r,
     circleChallengeId r, circleTransactionId r, transactionHash r)"

lemma map_filter_cong: "map c T = map c U \<Longrightarrow> List.map_filter c T = List.map_filter c U"
proof (induction T arbitrary: U)
  case Nil
  then show ?case by simp
next
  case (Cons r T)
  then show ?case by (cases U) (auto split: option.splits)
qed

lemma intents_unique_columns:
  assumes "map key_columns T = map key_columns U"
  shows "intents_unique T = intents_unique U"
proof -
  have cols: "map f T = map f U" if "\<And>r. f r = g (key_columns r)" for f g
  proof -
    have "map f T = map g (map key_columns T)" "map f U = map g (map key_columns U)"
      by (simp_all add: that)
    with assms show ?thesis by simp
  qed
  note eqs = cols [of intentId fst] cols [of logicalKey "fst \<circ> snd"]
    cols [of requestFingerprint "fst \<circ> snd \<circ> snd"] cols [of idempotencyKey "fst \<circ> snd \<circ> snd \<circ> snd"]
    cols [of circleChallengeId "fst \<circ> snd \<circ> snd \<circ> snd \<circ> snd"]
    cols [of circleTransactionId "fst \<circ> snd \<circ> snd \<circ> snd \<circ> snd \<circ> snd"]
    cols [of transactionHash "snd \<circ> snd \<circ> snd \<circ> snd \<circ> snd \<circ> snd"]
  have nullable: "List.map_filter circleChallengeId T = List.map_filter circleChallengeId U"
    "List.map_filter circleTransactionId T = List.map_filter circleTransactionId U"
    "List.map_filter transactionHash T = List.map_filter transactionHash U"
    by (intro map_filter_cong eqs; simp add: key_columns_def)+
  show ?thesis
    unfolding intents_unique_def unique_col_def nullable
    using eqs by (simp add: key_columns_def)
qed

lemma unique_update:
  assumes "\<And>r. key_columns (f r) = key_columns r"
  shows "intents_unique (update_rows p f T) = intents_unique T"
  by (rule intents_unique_columns) (simp add: update_rows_def comp_def assms)

text \<open>An update guarded by the id hits the one row with that id.\<close>

lemma guarded_update:
  assumes "intents_unique (intents s)" "\<And>r. key_columns (f r) = key_columns r"
  shows "updateIntents (\<lambda>r. intentId r = i \<and> q r) f s =
    (Inr (case lookup i s of None \<Rightarrow> 0 | Some r \<Rightarrow> if q r then 1 else 0),
     s\<lparr>intents := update_rows (\<lambda>r. intentId r = i \<and> q r) f (intents s)\<rparr>)"
    "lookup j (s\<lparr>intents := update_rows (\<lambda>r. intentId r = i \<and> q r) f (intents s)\<rparr>) =
     map_option (\<lambda>r. if intentId r = i \<and> q r then f r else r) (lookup j s)"
proof -
  have ids: "distinct (map intentId (intents s))" using assms(1) by (simp add: intents_unique_def)
  show "updateIntents (\<lambda>r. intentId r = i \<and> q r) f s =
    (Inr (case lookup i s of None \<Rightarrow> 0 | Some r \<Rightarrow> if q r then 1 else 0),
     s\<lparr>intents := update_rows (\<lambda>r. intentId r = i \<and> q r) f (intents s)\<rparr>)"
    using assms by (simp add: updateIntents_eq unique_update count_unique [OF ids])
  have "\<And>r. intentId (f r) = intentId r" using assms(2) by (simp add: key_columns_def)
  then show "lookup j (s\<lparr>intents := update_rows (\<lambda>r. intentId r = i \<and> q r) f (intents s)\<rparr>) =
     map_option (\<lambda>r. if intentId r = i \<and> q r then f r else r) (lookup j s)"
    by (simp add: find_update)
qed

text \<open>The row a plain transition leaves.\<close>

definition moved :: "int \<Rightarrow> intent_status \<Rightarrow> intent \<Rightarrow> intent" where
  "moved now nxt r = r\<lparr>status := nxt, completedAt := (if nxt = COMPLETED then Some now else completedAt r)\<rparr>"

lemma apply_no_data: "apply_data no_data r = r"
  by (simp add: apply_data_def no_data_def overwrite_def)

lemma moved_simps [simp]:
  "key_columns (moved now nxt r) = key_columns r" "status (moved now nxt r) = nxt"
  "intentNetwork (moved now nxt r) = intentNetwork r" "intentId (moved now nxt r) = intentId r"
  "fixed_columns (moved now nxt r) = fixed_columns r"
  "transactionHash (moved now nxt r) = transactionHash r"
  by (simp_all add: moved_def key_columns_def fixed_columns_def)

definition move_in :: "int \<Rightarrow> string \<Rightarrow> intent_status \<Rightarrow> intent_status \<Rightarrow> db \<Rightarrow> db" where
  "move_in now i expected nxt s =
     s\<lparr>intents := update_rows (\<lambda>r. intentId r = i \<and> status r = expected) (moved now nxt) (intents s)\<rparr>"

lemma transition_eq:
  assumes "intents_unique (intents s)" "nxt \<in> set (transitions expected)"
  shows "transition R now i expected nxt no_data s =
    (case lookup i s of
       None \<Rightarrow> (Inl INTENT_NOT_FOUND, move_in now i expected nxt s)
     | Some r \<Rightarrow>
         if status r = expected then
           (if intentNetwork r = network R then Inr (moved now nxt r) else Inl IMMUTABLE_CONFLICT,
            move_in now i expected nxt s)
         else (Inl (if intentNetwork r \<noteq> network R then IMMUTABLE_CONFLICT
                    else if isTerminal (status r) then TERMINAL else INVALID_TRANSITION),
               move_in now i expected nxt s))"
    "lookup j (move_in now i expected nxt s) =
       map_option (\<lambda>r. if intentId r = i \<and> status r = expected then moved now nxt r else r) (lookup j s)"
    "intents_unique (intents (move_in now i expected nxt s))"
proof -
  note upd = guarded_update [where f = "moved now nxt" and q = "\<lambda>r. status r = expected" and i = i,
      OF assms(1) moved_simps(1)]
  have f: "(\<lambda>r. apply_data no_data (r\<lparr>status := nxt,
      completedAt := (if nxt = COMPLETED then Some now else completedAt r)\<rparr>)) = moved now nxt"
    by (intro ext) (simp only: apply_no_data moved_def)
  show "lookup j (move_in now i expected nxt s) =
      map_option (\<lambda>r. if intentId r = i \<and> status r = expected then moved now nxt r else r) (lookup j s)" for j
    unfolding move_in_def by (rule upd(2))
  from this [of i] show "transition R now i expected nxt no_data s =
    (case lookup i s of
       None \<Rightarrow> (Inl INTENT_NOT_FOUND, move_in now i expected nxt s)
     | Some r \<Rightarrow>
         if status r = expected then
           (if intentNetwork r = network R then Inr (moved now nxt r) else Inl IMMUTABLE_CONFLICT,
            move_in now i expected nxt s)
         else (Inl (if intentNetwork r \<noteq> network R then IMMUTABLE_CONFLICT
                    else if isTerminal (status r) then TERMINAL else INVALID_TRANSITION),
               move_in now i expected nxt s))"
    using assms(2) upd(1) find_row_Some [of "\<lambda>r. intentId r = i" "intents s"]
    by (auto simp: transition_def f andThen_def ensure_def getIntent_eq throw_def move_in_def [symmetric]
        split: option.splits)
  show "intents_unique (intents (move_in now i expected nxt s))"
    using assms(1) by (simp add: move_in_def unique_update)
qed

section \<open>Completion is a run of statements\<close>

lemma receiptMatches_True:
  assumes "receiptMatches E r h rc = Inr True"
  shows "status r = VERIFYING \<or> status r = COMPLETED" "transactionHash r = Some h"
    "intentNetwork r = rcNetwork rc" "sameAddress E (sourceWallet r) (rcSource rc) = Inr True"
    "sameAddress E (tokenOut r) (rcToken rc) = Inr True" "amountUnits r = rcAmount rc"
    "truthy (recipient r) \<Longrightarrow> truthy (rcRecipient rc) \<and>
       sameAddress E (the (recipient r)) (the (rcRecipient rc)) = Inr True"
    "\<not> truthy (recipient r) \<Longrightarrow> Some (batchDigest r) = rcBatchDigest rc"
  using assms by (auto simp: receiptMatches_def andR_def split: if_splits)

lemma complete_cases:
  assumes "completeWithVerifiedReceipt E R now i rc s = (res, t)"
  obtains (refused) e where "res = Inl e" "t = s"
  | (matched) r h where "lookup i s = Some r" "intentNetwork r = network R"
      "transactionHashOf (rcHash rc) = Inr h" "receiptMatches E r h rc = Inr True"
      "if status r = COMPLETED then (res, t) = (Inr r, s)
       else transition R now i VERIFYING COMPLETED no_data s = (res, t)"
proof (cases res)
  case (Inr x)
  with assms matched show ?thesis
    by (auto simp: completeWithVerifiedReceipt_def andThen_Inr_iff getIntent_Inr split: if_splits)
next
  case (Inl e)
  with assms refused matched show ?thesis
    by (auto simp: completeWithVerifiedReceipt_def andThen_Inl_iff getIntent_Inr
        dest: getIntent_state split: if_splits)
qed

lemma run_complete: "keeps intent_run (completeWithVerifiedReceipt E R now i rc)"
proof (rule keepsI)
  fix s res t
  assume "completeWithVerifiedReceipt E R now i rc s = (res, t)"
  then show "intent_run s t"
  proof (cases rule: complete_cases)
    case (refused e)
    then show ?thesis by (simp add: via_def)
  next
    case (matched r h)
    show ?thesis
    proof (cases "status r = COMPLETED")
      case True
      with matched(5) show ?thesis by (simp add: via_def)
    next
      case False
      define f where "f = (\<lambda>r. apply_data no_data (r\<lparr>status := COMPLETED, completedAt := Some now\<rparr>))"
      have "intent_run s u" if "updateIntents (\<lambda>r. intentId r = i \<and> status r = VERIFYING) f s = (a, u)" for a u
        using that matched(1) receiptMatches_True(2) [OF matched(4)]
        by (auto simp: updateIntents_eq via_def f_def table_update_def split: if_splits
            intro!: r_into_rtranclp intro: write_complete)
      moreover have "transition R now i VERIFYING COMPLETED no_data s =
          andThen (updateIntents (\<lambda>r. intentId r = i \<and> status r = VERIFYING) f) (\<lambda>count.
            if count \<noteq> 1
            then andThen (getIntent R i) (\<lambda>current.
              throw (if isTerminal (status current) then TERMINAL else INVALID_TRANSITION))
            else getIntent R i) s"
        by (simp add: transition_def f_def ensure_def andThen_def [of "ensure _ _"])
      ultimately show ?thesis
        using False matched(5)
        by (auto simp: andThen_def throw_def split: prod.splits sum.splits if_splits
            dest!: getIntent_state getIntent_state [OF sym])
    qed
  qed
qed

lemma run_verify: "keeps intent_run (verifyEndpoint E R now receipts i key)"
  unfolding verifyEndpoint_def by (intro run_rules run_access run_begin run_complete)

section \<open>Sequences of service calls\<close>

text \<open>One call of the service with its arguments; \<open>call\<close> runs it at a point in time.\<close>

datatype intent_call =
    Acquire string acquire_input
  | Begin_verification string
  | Attach_task string string
  | Transition string intent_status intent_status transition_data
  | Prepare_wallet_signature string string string int
  | Acquire_lease string string int
  | Bind_context string context_input
  | Bind_circle string string "string option"
  | Bind_hash string string string string
  | Bind_known_hash string string string
  | Cancel string string
  | Complete string verified_receipt
  | Verify string string

definition outcome :: "(db, 'a) op \<Rightarrow> db \<Rightarrow> db" where
  "outcome m s = snd (m s)"

fun call :: "evm \<Rightarrow> routing \<Rightarrow> (transfer_query \<Rightarrow> verified_receipt res) \<Rightarrow> int \<times> intent_call \<Rightarrow> db \<Rightarrow> db" where
  "call E R V (now, Acquire fresh x) = outcome (acquire E R now fresh (\<lambda>_. undisturbed) x)"
| "call E R V (now, Begin_verification i) = outcome (beginVerification R now i)"
| "call E R V (now, Attach_task i t) = outcome (attachTask R i t)"
| "call E R V (now, Transition i a b d) =
     (if b = COMPLETED then id else outcome (transition R now i a b d))"
| "call E R V (now, Prepare_wallet_signature i key owner ttl) =
     outcome (prepareWalletSignature R now i key owner ttl)"
| "call E R V (now, Acquire_lease i owner ttl) = outcome (acquireLease R now i owner ttl)"
| "call E R V (now, Bind_context i x) = outcome (bindImmutableExecutionContext E R i x)"
| "call E R V (now, Bind_circle i ch tx) = outcome (bindCircleCorrelation R i ch tx)"
| "call E R V (now, Bind_hash i key h owner) = outcome (bindHashEndpoint R now i key h owner)"
| "call E R V (now, Bind_known_hash i key h) = outcome (bindKnownTransactionHash R now i key h)"
| "call E R V (now, Cancel i key) = outcome (cancelUnsubmitted R i key)"
| "call E R V (now, Complete i rc) = outcome (completeWithVerifiedReceipt E R now i rc)"
| "call E R V (now, Verify i key) = outcome (verifyEndpoint E R now V i key)"

definition calls ::
  "evm \<Rightarrow> routing \<Rightarrow> (transfer_query \<Rightarrow> verified_receipt res) \<Rightarrow> (int \<times> intent_call) list \<Rightarrow> db \<Rightarrow> db" where
  "calls E R V cs = fold (call E R V) cs"

lemma keeps_outcome: "keeps P m \<Longrightarrow> P s (outcome m s)"
  by (simp add: keeps_def outcome_def)

lemma run_call: "intent_run s (call E R V c s)"
proof (cases c)
  case (Pair now k)
  have undisturbed: "polite_attempt undisturbed"
    by (simp add: polite_attempt_def undisturbed_def)
  show ?thesis
  proof (cases k)
    case (Transition i a b d)
    then show ?thesis
      by (cases "b = COMPLETED") (simp_all add: Pair via_def [of _ _ s s] keeps_outcome run_transition)
  qed (auto simp: Pair intro!: keeps_outcome run_acquire undisturbed run_begin run_attach run_prepare
      run_lease run_context run_circle run_bindEndpoint run_bindKnown run_cancel run_complete run_verify)
qed

lemma run_calls: "intent_run s (calls E R V cs s)"
proof (induction cs arbitrary: s)
  case Nil
  show ?case by (simp add: calls_def via_def)
next
  case (Cons c cs)
  have "intent_run s (call E R V c s)" by (rule run_call)
  with Cons.IH [of "call E R V c s"] show ?case
    unfolding calls_def via_def by simp
qed

section \<open>The invariant of the table\<close>

definition row_ok :: "intent \<Rightarrow> bool" where
  "row_ok r \<longleftrightarrow> (status r = COMPLETED \<longrightarrow> transactionHash r \<noteq> None) \<and>
     (\<forall>h. transactionHash r = Some h \<longrightarrow> is_hash h \<and> toLowerCase h = h)"

definition intents_ok :: "intent list \<Rightarrow> bool" where
  "intents_ok T \<longleftrightarrow> intents_unique T \<and> list_all row_ok T"

lemma rows_update:
  assumes "list_all row_ok T" "\<And>r. r \<in> set T \<Longrightarrow> row_ok r \<Longrightarrow> p r \<Longrightarrow> row_ok (f r)"
  shows "list_all row_ok (update_rows p f T)"
  using assms by (auto simp: list_all_iff update_rows_def)

lemma newIntent_simps [simp]:
  "transactionHash (newIntent i c) = None" "status (newIntent i c) = CREATED"
  "intentId (newIntent i c) = i" "logicalKey (newIntent i c) = logicalKey c"
  "requestFingerprint (newIntent i c) = requestFingerprint c"
  "idempotencyKey (newIntent i c) = idempotencyKey c"
  "intentNetwork (newIntent i c) = intentNetwork c"
  "recipient (newIntent i c) = recipient c" "circleChallengeId (newIntent i c) = None"
  "circleTransactionId (newIntent i c) = None"
  by (simp_all add: newIntent_def canonical.defs intent.defs)

lemma intents_ok_write: "intent_write T U \<Longrightarrow> intents_ok T \<Longrightarrow> intents_ok U"
proof -
  assume w: "intent_write T U" and T: "intents_ok T"
  from T have rows: "list_all row_ok T" and uniq: "distinct (map intentId T)"
    by (auto simp: intents_ok_def intents_unique_def)
  from w rows uniq have "list_all row_ok U"
  proof (cases rule: intent_write.cases)
    case (write_create i c)
    with rows show ?thesis by (simp add: row_ok_def)
  next
    case (write_complete i r now)
    have "x = r" if "x \<in> set T" "intentId x = i" for x
      using find_row_unique [OF uniq that] write_complete(1) by simp
    with write_complete rows show ?thesis
      by (auto simp: table_update_def apply_data_def row_ok_def intro!: rows_update)
  qed (auto simp: table_update_def row_ok_def apply_data_def is_hex_string_lower intro!: rows_update)
  with intent_write_unique [OF w] show ?thesis by (simp add: intents_ok_def)
qed

lemma intents_ok_run: "intent_write\<^sup>*\<^sup>* T U \<Longrightarrow> intents_ok T \<Longrightarrow> intents_ok U"
  by (induction rule: rtranclp_induct) (auto intro: intents_ok_write)

lemma intents_ok_nil [simp]: "intents_ok []"
  by (simp add: intents_ok_def intents_unique_def unique_col_def)

end
