(* ===== verification/IntentTheorems.thy ===== *)
theory IntentTheorems
  imports IntentProperties
begin

text \<open>
  What the execution-intent service guarantees: the properties of
  \<open>apps/backend/src/execution-intent/execution-intent.service.ts\<close> and of the endpoints over it.
\<close>

section \<open>A concrete service\<close>

definition short_evm :: evm where
  "short_evm = \<lparr>isAddress = (\<lambda>_. True), getAddress = Some, isAddressEqual = (\<lambda>a b. Some (a = b)),
     isHex = (\<lambda>_. True), keccak256 = id, sha256 = id\<rparr>"

definition arc :: routing where
  "arc = \<lparr>network = ARC_MAINNET, chainId = 5042, capabilities = (\<lambda>c. c \<noteq> Cap_swap),
     tokens = (\<lambda>s. case s of USDC \<Rightarrow> Some ''usdc'' | EURC \<Rightarrow> Some ''eurc'')\<rparr>"

definition pay :: acquire_input where
  "pay = \<lparr>inNetwork = ARC_MAINNET, inOperation = OP_SEND, inOwnerId = Some ''u'',
     inSourceWallet = ''alice'', inRecipient = Some ''bob'', inBatchDigest = None,
     inTokenIn = ''usdc'', inTokenOut = ''usdc'', inAmountUnits = ''250'',
     inExternalReference = ''ref'', inTaskId = None\<rparr>"

definition sent :: intent where
  "sent = \<lparr>intentNetwork = ARC_MAINNET, operation = OP_SEND, ownerId = None,
     sourceWallet = ''alice'', recipient = Some ''bob'', batchDigest = None,
     tokenIn = ''usdc'', tokenOut = ''usdc'', amountUnits = ''250'',
     externalReference = ''ref'', logicalKey = ''l'', requestFingerprint = ''f'', idempotencyKey = ''k'',
     route = DIRECT_TRANSFER, intentProvider = None, taskId = None, intentId = ''i'', walletId = None,
     contractAddress = None, calldataHash = None, status = CREATED, circleChallengeId = None,
     circleTransactionId = None, transactionHash = None, leaseOwner = None, leaseExpiresAt = None,
     attemptCount = 0, failureCode = None, completedAt = None\<rparr>"

definition holding :: "intent \<Rightarrow> db" where
  "holding r = empty_db\<lparr>intents := [r]\<rparr>"

lemma intents_holding [simp]: "intents (holding r) = [r]"
  by (simp add: holding_def)

lemma unique_single [simp]: "intents_unique [r]"
  by (simp add: intents_unique_def unique_col_def map_filter_def split: option.splits)

section \<open>Histories\<close>


text \<open>
  C1: after any service calls, and over any interleaving of the statements of concurrent requests, an
  intent is never lost, its request never changes, its transaction hash, task and immutable execution
  context are written at most once, and a completed payment stays completed at the same time.
\<close>

theorem intent_history:
  assumes "find_row (\<lambda>r. intentId r = i) (intents s) = Some r"
    and "intent_write\<^sup>*\<^sup>* (intents (calls E R V cs s)) U"
  shows "\<exists>r'. find_row (\<lambda>r. intentId r = i) U = Some r' \<and> fixed_columns r' = fixed_columns r \<and>
    (transactionHash r \<noteq> None \<longrightarrow> transactionHash r' = transactionHash r) \<and>
    (taskId r \<noteq> None \<longrightarrow> taskId r' = taskId r) \<and>
    (calldataHash r \<noteq> None \<longrightarrow> calldataHash r' = calldataHash r) \<and>
    (contractAddress r \<noteq> None \<longrightarrow> contractAddress r' = contractAddress r) \<and>
    (status r = COMPLETED \<and> transactionHash r \<noteq> None \<longrightarrow>
       status r' = COMPLETED \<and> completedAt r' = completedAt r)"
proof -
  have "intent_write\<^sup>*\<^sup>* (intents s) U"
    using rtranclp_trans [OF run_calls [unfolded via_def] assms(2)] .
  from intent_table.run_find [OF this assms(1)]
  obtain r' where "find_row (\<lambda>r. intentId r = i) U = Some r'" "intent_evolves r r'" by blast
  then show ?thesis by (auto simp: intent_evolves_def once_def settled_def)
qed

theorem intent_history_witness:
  "\<exists>r'. find_row (\<lambda>r. intentId r = ''i'') [sent\<lparr>taskId := Some ''t''\<rparr>] = Some r' \<and>
     fixed_columns r' = fixed_columns sent"
proof -
  have "intents (calls E arc V [(0, Attach_task ''i'' ''t'')] (holding sent)) = [sent\<lparr>taskId := Some ''t''\<rparr>]" for E V
    by (simp add: calls_def outcome_def attachTask_def andThen_def getIntent_eq sent_def arc_def op_defs holding_def
        updateIntents_def update_rows_def)
  then have run: "intent_write\<^sup>*\<^sup>* (intents (calls E arc V [(0, Attach_task ''i'' ''t'')] (holding sent))) [sent\<lparr>taskId := Some ''t''\<rparr>]" for E V
    by simp
  have "find_row (\<lambda>r. intentId r = ''i'') (intents (holding sent)) = Some sent" by (simp add: sent_def)
  from intent_history [OF this run] show ?thesis by blast
qed


section \<open>Request texts\<close>

lemma operation_name_inj: "operation_name p = operation_name q \<Longrightarrow> p = q"
  by (cases p; cases q) simp_all

lemma json_opt_inj [simp]: "json_opt x = json_opt y \<longleftrightarrow> x = y"
  by (auto simp: json_opt_def split: option.splits)

lemma json_opt_facts [simp]: "sort_keys (json_opt x) = json_opt x" "defined (json_opt x)"
  by (simp_all add: json_opt_def split: option.splits)

definition request_members :: "'a request_scheme \<Rightarrow> (string \<times> js) list" where
  "request_members q = (case request_json q of JObj es \<Rightarrow> es)"

lemma sorted_request:
  "sort_keys (request_json q) = JObj (sort_key (\<lambda>e. toLowerCase (fst e)) (request_members q))"
  by (simp add: request_json_def request_members_def)

lemma request_json_inj:
  assumes "sort_keys (request_json c) = sort_keys (request_json d)"
  shows "request.truncate c = request.truncate d"
proof -
  have "set (sort_key (\<lambda>e. toLowerCase (fst e)) (request_members c)) =
      set (sort_key (\<lambda>e. toLowerCase (fst e)) (request_members d))"
    using assms by (simp only: sorted_request js.inject)
  then have eq: "set (request_members c) = set (request_members d)" by (simp only: set_sort)
  have mem: "(k, v) \<in> set (request_members d)" if "(k, v) \<in> set (request_members c)" for k v
    using eq that by simp
  note mem' = mem [unfolded request_members_def request_json_def, simplified]
  have "intentNetwork c = intentNetwork d" "operation c = operation d" "ownerId c = ownerId d"
    "sourceWallet c = sourceWallet d" "recipient c = recipient d" "batchDigest c = batchDigest d"
    "tokenIn c = tokenIn d" "tokenOut c = tokenOut d" "amountUnits c = amountUnits d"
    "externalReference c = externalReference d"
    using mem' [of "''network''"] mem' [of "''operation''"] mem' [of "''ownerId''"]
      mem' [of "''sourceWallet''"] mem' [of "''recipient''"] mem' [of "''batchDigest''"]
      mem' [of "''tokenIn''"] mem' [of "''tokenOut''"] mem' [of "''amountUnits''"]
      mem' [of "''externalReference''"]
    by (auto simp: operation_name_inj)
  then show ?thesis by (simp add: request.defs)
qed

lemma defined_sorted: "list_all (\<lambda>e. defined (sort_keys (snd e))) es \<Longrightarrow> defined (sort_keys (JObj es))"
  by (auto simp: list_all_iff)

lemma defined_request: "defined (sort_keys (request_json q))"
  unfolding request_json_def by (rule defined_sorted) simp

lemma defined_logical: "defined (sort_keys (logical_json q))"
  unfolding logical_json_def by (rule defined_sorted) simp

definition json_text :: "js \<Rightarrow> string" where
  "json_text v = text_of (sort_keys v)"

lemma stableJson_request: "stableJson (request_json q) = Inr (json_text (request_json q))"
  by (simp add: stableJson_def json_text_def serialize_defined defined_request)

lemma stableJson_logical: "stableJson (logical_json q) = Inr (json_text (logical_json q))"
  by (simp add: stableJson_def json_text_def serialize_defined defined_logical)

lemma request_text_inj:
  "json_text (request_json c) = json_text (request_json d) \<Longrightarrow> request.truncate c = request.truncate d"
  by (intro request_json_inj serialize_inj defined_request)
    (simp add: json_text_def serialize_defined defined_request)

lemmas evaluate_acquire =
  pay_def short_evm_def arc_def canonicalize_def Let_def baseUnits_def positive_uint_def is_digit_def
  js_trim_def is_space_def decide_def identifyToken_def parseAddressOr_def parseAddress_def
  ensureR_def fromSome_def zeroAddress_def assertExecutable_def decision_def routingOperation_def
  stableJson_request stableJson_logical immutable_request_def trim_or_null_def

section \<open>Acquiring\<close>

lemma acquireTx_Inr:
  assumes "acquireTx E R now fresh c s = (Inr r, t)"
  shows "find_row (\<lambda>r. logicalKey r = logicalKey c) (intents t) = Some r"
  using assms
  by (auto simp: acquireTx_def andThen_Inr_iff findIntent_def onIntents_def insertUnique_def
      find_row_append split: option.splits if_splits prod.splits)

lemma acquireLoop_Inr:
  "acquireLoop E R now fresh c as s = (Inr (Some r), t) \<Longrightarrow>
     find_row (\<lambda>r. logicalKey r = logicalKey c) (intents t) = Some r"
proof (induction as arbitrary: s)
  case Nil
  then show ?case by simp
next
  case (Cons a as)
  from Cons.prems show ?case
    by (auto simp: andThen_Inr_iff interfere_def catching_def transaction_def findIntent_def throw_def
        dest!: acquireTx_Inr Cons.IH split: prod.splits sum.splits option.splits if_splits)
qed

lemma acquire_Inr:
  assumes "acquire E R now fresh att x s = (Inr r, t)"
  obtains c where "canonicalize E R x = Inr c" "intentNetwork r = network R"
    "find_row (\<lambda>r. logicalKey r = logicalKey c) (intents t) = Some r"
    "requestFingerprint r = requestFingerprint c"
  using assms
  by (auto simp: acquire_def andThen_Inr_iff assertSelectedNetwork_def simp del: acquireLoop.simps
      split: option.splits dest: acquireLoop_Inr)

lemma acquire_found:
  assumes "canonicalize E R x = Inr c" "find_row (\<lambda>r. logicalKey r = logicalKey c) (intents s) = Some r"
    "intentNetwork r = network R" "requestFingerprint r = requestFingerprint c"
  shows "acquire E R now fresh (\<lambda>_. undisturbed) x s = (Inr r, s)"
  using assms
  by (simp add: acquire_def undisturbed_def op_defs interfere_def acquireTx_def findIntent_def
      assertSelectedNetwork_def)

lemma request_json_extend [simp]:
  "request_json (request.extend q m) = request_json q" "logical_json (request.extend q m) = logical_json q"
  by (simp_all add: request_json_def logical_json_def request.defs)

lemma canonicalize_Inr:
  assumes "canonicalize E R x = Inr c"
  obtains logical fingerprint where
    "intentNetwork c = network R" "operation c = inOperation x"
    "externalReference c = js_trim (inExternalReference x)"
    "stableJson (logical_json c) = Inr logical" "logicalKey c = sha256 E logical"
    "stableJson (request_json c) = Inr fingerprint" "requestFingerprint c = sha256 E fingerprint"
    "idempotencyKey c = uuidFromHash (sha256 E (''wizpay:'' @ requestFingerprint c))"
    "positive_uint (amountUnits c)" "getAddress E (inSourceWallet x) = Some (sourceWallet c)"
proof -
  obtain src rcp amt dec logical fp where ctx: "inNetwork x = network R"
    and amt: "baseUnits (inAmountUnits x) = Inr amt"
    and src: "getAddress E (inSourceWallet x) = Some src"
    and texts: "stableJson (logical_json (immutable_request x src rcp amt dec)) = Inr logical"
      "stableJson (request_json (immutable_request x src rcp amt dec)) = Inr fp"
    and c: "c = request.extend (immutable_request x src rcp amt dec) (canonical.fields (sha256 E logical)
        (sha256 E fp) (uuidFromHash (sha256 E (''wizpay:'' @ sha256 E fp))) (kind dec)
        (decisionProvider dec) (inTaskId x))"
    using assms by (auto simp: canonicalize_def Let_def decide_def)
  have "positive_uint amt" using amt by (auto simp: baseUnits_def)
  with ctx src texts show ?thesis
    by (intro that [of logical fp])
      (simp_all add: c, simp_all add: immutable_request_def request.defs canonical.defs)
qed

lemma logicalKey_settlement:
  assumes "canonicalize E R x = Inr c" "canonicalize E R y = Inr d"
    "settlement (inOperation x)" "inOperation y = inOperation x"
    "js_trim (inExternalReference y) = js_trim (inExternalReference x)"
  shows "logicalKey c = logicalKey d"
proof -
  obtain l where c: "intentNetwork c = network R" "operation c = inOperation x"
      "externalReference c = js_trim (inExternalReference x)"
      "stableJson (logical_json c) = Inr l" "logicalKey c = sha256 E l"
    by (rule canonicalize_Inr [OF assms(1)])
  obtain k where d: "intentNetwork d = network R" "operation d = inOperation y"
      "externalReference d = js_trim (inExternalReference y)"
      "stableJson (logical_json d) = Inr k" "logicalKey d = sha256 E k"
    by (rule canonicalize_Inr [OF assms(2)])
  have "logical_json c = logical_json d"
    using c(1-3) d(1-3) assms(3-) by (simp add: logical_json_def)
  with c d show ?thesis by simp
qed

text \<open>Rows are found by their logical key as well as by their id.\<close>

lemma intent_evolves_key: "intent_evolves r s \<Longrightarrow> logicalKey s = logicalKey r"
  by (simp add: intent_evolves_def fixed_columns_def)

interpretation intent_keys: table_writes logicalKey intent_evolves intent_write
  by unfold_locales
    (blast intro: intent_evolves_refl intent_evolves_trans intent_evolves_key intent_write_evolves)+

text \<open>
  Acquiring is idempotent.  When a request has been granted an intent, the same request, repeated
  at any later time after any statements of other requests, is answered with the same intent and
  writes nothing.
\<close>

theorem acquire_idempotent:
  assumes "acquire E R now fresh att x s = (Inr r, t)"
    and "intent_write\<^sup>*\<^sup>* (intents t) (intents u)"
  shows "\<exists>r'. acquire E R now' fresh' (\<lambda>_. undisturbed) x u = (Inr r', u) \<and>
    fixed_columns r' = fixed_columns r"
proof -
  obtain c where c: "canonicalize E R x = Inr c" "intentNetwork r = network R"
      "find_row (\<lambda>r. logicalKey r = logicalKey c) (intents t) = Some r"
      "requestFingerprint r = requestFingerprint c"
    by (rule acquire_Inr [OF assms(1)])
  obtain r' where r': "find_row (\<lambda>r. logicalKey r = logicalKey c) (intents u) = Some r'"
      "intent_evolves r r'"
    using intent_keys.run_find [OF assms(2) c(3)] by blast
  then have "fixed_columns r' = fixed_columns r" by (simp add: intent_evolves_def)
  moreover from this c(2,4) acquire_found [OF c(1) r'(1)]
  have "acquire E R now' fresh' (\<lambda>_. undisturbed) x u = (Inr r', u)"
    by (simp add: fixed_columns_def)
  ultimately show ?thesis by blast
qed

definition pay_canonical :: canonical where
  "pay_canonical = (case canonicalize short_evm arc pay of Inr c \<Rightarrow> c | Inl e \<Rightarrow> canonical.truncate sent)"

lemma canonicalize_pay:
  "canonicalize short_evm arc pay = Inr pay_canonical" "intentNetwork pay_canonical = ARC_MAINNET"
  "operation pay_canonical = OP_SEND"
  by (simp_all add: pay_canonical_def evaluate_acquire request.defs canonical.defs)

lemma acquire_granted:
  "acquire short_evm arc 0 ''i'' (\<lambda>_. undisturbed) pay empty_db =
     (Inr (newIntent ''i'' pay_canonical), holding (newIntent ''i'' pay_canonical))"
  using canonicalize_pay
  by (simp add: acquire_def undisturbed_def op_defs interfere_def acquireTx_def findIntent_def
      assertSelectedNetwork_def empty_db_def holding_def settlement_def arc_def)

theorem acquire_idempotent_witness:
  "\<exists>r'. acquire short_evm arc 9 ''j'' (\<lambda>_. undisturbed) pay (holding (newIntent ''i'' pay_canonical)) =
       (Inr r', holding (newIntent ''i'' pay_canonical)) \<and>
     fixed_columns r' = fixed_columns (newIntent ''i'' pay_canonical)"
  using acquire_idempotent [OF acquire_granted rtranclp.rtrancl_refl] by blast

text \<open>
  C7: an invoice or payment link has at most one settlement intent.  Once a payer has been granted the
  intent for a public id, a request of anybody for the same id, whatever was executed in between,
  either asks for exactly the same immutable request and is given the same intent, or is refused as
  an immutable conflict; it never opens a second intent.
\<close>

theorem one_settlement_intent:
  assumes "acquire E R now fresh att x s = (Inr r, t)" "intent_write\<^sup>*\<^sup>* (intents t) (intents u)"
    and "canonicalize E R y = Inr d" "settlement (inOperation x)" "inOperation y = inOperation x"
      "js_trim (inExternalReference y) = js_trim (inExternalReference x)"
  shows "\<exists>r'. fixed_columns r' = fixed_columns r \<and>
    acquire E R now' fresh' (\<lambda>_. undisturbed) y u =
      (if requestFingerprint d = requestFingerprint r then Inr r' else Inl IMMUTABLE_CONFLICT, u)"
proof -
  obtain c where c: "canonicalize E R x = Inr c" "intentNetwork r = network R"
      "find_row (\<lambda>r. logicalKey r = logicalKey c) (intents t) = Some r"
    by (rule acquire_Inr [OF assms(1)])
  have key: "logicalKey d = logicalKey c"
    using logicalKey_settlement [OF c(1) assms(3-6)] by simp
  obtain r' where r': "find_row (\<lambda>r. logicalKey r = logicalKey c) (intents u) = Some r'"
      "intent_evolves r r'"
    using intent_keys.run_find [OF assms(2) c(3)] by blast
  then have fixed: "fixed_columns r' = fixed_columns r" by (simp add: intent_evolves_def)
  with r'(1) c(2) key
  have "acquire E R now' fresh' (\<lambda>_. undisturbed) y u =
      (if requestFingerprint d = requestFingerprint r then Inr r' else Inl IMMUTABLE_CONFLICT, u)"
    by (simp add: acquire_def assms(3) undisturbed_def op_defs interfere_def acquireTx_def
        findIntent_def assertSelectedNetwork_def fixed_columns_def)
  with fixed show ?thesis by blast
qed

definition bill :: invoice where
  "bill = \<lparr>invoiceId = ''v'', publicId = ''p'', merchantUserId = ''m'',
     merchantWalletAddress = ''bob'', invoiceChainId = 5042, tokenAddress = ''usdc'',
     tokenSymbol = USDC, tokenDecimals = 6, invoiceAmountUnits = ''250'', title = ''T'',
     description = None, invoiceNumber = None, settlementKind = KIND_INVOICE, invoiceStatus = INV_OPEN,
     expiresAt = None, paidAt = None, cancelledAt = None\<rparr>"

definition settle :: "string \<Rightarrow> acquire_input" where
  "settle payer = pay\<lparr>inOperation := OP_INVOICE_SETTLEMENT, inOwnerId := None,
     inSourceWallet := payer, inExternalReference := ''p''\<rparr>"

lemma show_250: "show_nat (read_nat ''250'') = ''250''"
  by (rule show_read) (simp add: canonical_uint_def is_digit_def)

definition settle_canonical :: "string \<Rightarrow> canonical" where
  "settle_canonical payer = (case canonicalize short_evm arc (settle payer) of
     Inr c \<Rightarrow> c | Inl e \<Rightarrow> canonical.truncate sent)"

lemma canonicalize_settle:
  fixes payer
  defines "c \<equiv> settle_canonical payer"
  shows "canonicalize short_evm arc (settle payer) = Inr c" "intentNetwork c = ARC_MAINNET"
    "operation c = OP_INVOICE_SETTLEMENT" "recipient c = Some ''bob''" "tokenOut c = ''usdc''"
    "amountUnits c = ''250''" "externalReference c = ''p''" "sourceWallet c = payer"
  by (simp_all add: c_def settle_canonical_def settle_def evaluate_acquire request.defs canonical.defs
      show_250)

definition settling :: intent where
  "settling = newIntent ''i'' (settle_canonical ''alice'')"

lemma acquire_settling:
  "acquire short_evm arc 0 ''i'' (\<lambda>_. undisturbed) (settle ''alice'') (empty_db\<lparr>invoices := [bill]\<rparr>) =
     (Inr settling, empty_db\<lparr>invoices := [bill], intents := [settling]\<rparr>)"
  using canonicalize_settle [of "''alice''"]
  by (simp add: acquire_def undisturbed_def op_defs interfere_def acquireTx_def findIntent_def
      assertSelectedNetwork_def empty_db_def settlement_def arc_def bill_def settling_def
      settlementRefused_def addressIs_def short_evm_def res_defs)

lemma other_fingerprint:
  "requestFingerprint (settle_canonical ''carol'') \<noteq> requestFingerprint settling"
proof
  assume "requestFingerprint (settle_canonical ''carol'') = requestFingerprint settling"
  then have "request.truncate (settle_canonical ''carol'') = request.truncate (settle_canonical ''alice'')"
    by (intro request_text_inj) (rule canonicalize_Inr [OF canonicalize_settle(1) [of "''carol''"]],
        rule canonicalize_Inr [OF canonicalize_settle(1) [of "''alice''"]],
        simp add: stableJson_request settling_def short_evm_def)
  then show False
    using canonicalize_settle(8) [of "''carol''"] canonicalize_settle(8) [of "''alice''"]
    by (simp add: request.defs)
qed

theorem one_settlement_intent_witness:
  "fst (acquire short_evm arc 5 ''j'' (\<lambda>_. undisturbed) (settle ''carol'')
     (empty_db\<lparr>invoices := [bill], intents := [settling]\<rparr>)) = Inl IMMUTABLE_CONFLICT"
proof -
  have refs: "settlement (inOperation (settle ''alice''))"
    "inOperation (settle ''carol'') = inOperation (settle ''alice'')"
    "js_trim (inExternalReference (settle ''carol'')) = js_trim (inExternalReference (settle ''alice''))"
    by (simp_all add: settle_def settlement_def)
  from one_settlement_intent [OF acquire_settling rtranclp.rtrancl_refl canonicalize_settle(1) refs]
  show ?thesis using other_fingerprint by auto
qed

section \<open>The fingerprint identifies the request\<close>

text \<open>
  The request fingerprint identifies the immutable request.  Two requests with the same fingerprint
  agree in the network, the operation, the owner, both parties, the batch digest, both tokens, the
  amount and the reference, unless SHA-256 maps two different texts to the same hash.
\<close>

theorem fingerprint_identifies_request:
  assumes "canonicalize E R x = Inr c" "canonicalize E R y = Inr d"
    and "requestFingerprint c = requestFingerprint d"
  shows "request.truncate c = request.truncate d \<or> (\<exists>a b. a \<noteq> b \<and> sha256 E a = sha256 E b)"
proof -
  obtain f where f: "stableJson (request_json c) = Inr f" "requestFingerprint c = sha256 E f"
    by (rule canonicalize_Inr [OF assms(1)])
  obtain g where g: "stableJson (request_json d) = Inr g" "requestFingerprint d = sha256 E g"
    by (rule canonicalize_Inr [OF assms(2)])
  have "request.truncate c = request.truncate d" if "f = g"
    using f(1) g(1) that by (intro request_text_inj) (simp add: stableJson_request)
  then show ?thesis using f g assms(3) by metis
qed

theorem fingerprint_identifies_request_witness:
  "canonicalize short_evm arc pay = Inr pay_canonical \<and>
   (request.truncate pay_canonical = request.truncate pay_canonical \<or>
     (\<exists>a b. a \<noteq> b \<and> sha256 short_evm a = sha256 short_evm b))"
  using canonicalize_pay(1) fingerprint_identifies_request [OF canonicalize_pay(1) canonicalize_pay(1) refl]
  by blast

section \<open>Completion\<close>

lemma sameAddress_True:
  assumes "evm_laws E" "sameAddress E a b = Inr True"
  shows "toLowerCase a = toLowerCase b"
proof -
  obtain c d where "getAddress E a = Some c" "getAddress E b = Some d" "isAddressEqual E c d = Some True"
    using assms(2) by (auto simp: sameAddress_def)
  then show ?thesis
    using getAddress_Some(1) [OF assms(1)] isAddressEqual_iff [OF assms(1)] by metis
qed

lemma complete_facts:
  assumes "completeWithVerifiedReceipt E R now i rc s = (Inr r', t)"
    and "evm_laws E" "intents_ok (intents s)"
  shows "\<exists>r. lookup i s = Some r \<and> (status r = VERIFYING \<or> status r = COMPLETED) \<and>
    lookup i t = Some r' \<and> status r' = COMPLETED \<and> fixed_columns r' = fixed_columns r \<and>
    transactionHash r' = Some (toLowerCase (rcHash rc)) \<and> intentNetwork r' = rcNetwork rc \<and>
    toLowerCase (sourceWallet r') = toLowerCase (rcSource rc) \<and>
    toLowerCase (tokenOut r') = toLowerCase (rcToken rc) \<and> amountUnits r' = rcAmount rc \<and>
    (if truthy (recipient r')
     then toLowerCase (the (recipient r')) = toLowerCase (the (rcRecipient rc))
     else Some (batchDigest r') = rcBatchDigest rc) \<and>
    (\<forall>j. j \<noteq> i \<longrightarrow> lookup j t = lookup j s)"
  using assms(1)
proof (cases rule: complete_cases)
  case (refused e)
  then show ?thesis by simp
next
  case (matched r h)
  note m = receiptMatches_True [OF matched(4)]
  have h: "h = toLowerCase (rcHash rc)" using matched(3) by (auto simp: transactionHashOf_cases split: if_splits)
  note addresses = sameAddress_True [OF assms(2) m(4)] sameAddress_True [OF assms(2) m(5)]
    m(7) sameAddress_True [OF assms(2)]
  have uniq: "intents_unique (intents s)" using assms(3) by (simp add: intents_ok_def)
  show ?thesis
  proof (cases "status r = COMPLETED")
    case True
    with matched(5) have "r' = r" "t = s" by simp_all
    with True matched m(2,3,6,8) addresses h show ?thesis by auto
  next
    case False
    have i: "intentId r = i" using find_row_Some [OF matched(1)] by simp
    have tr: "COMPLETED \<in> set (transitions VERIFYING)" by simp
    note eq = transition_eq [OF uniq tr, where i = i and now = now]
    from False m(1) matched(1,2,5) eq(1) [of R]
    have r': "r' = moved now COMPLETED r" and t: "t = move_in now i VERIFYING COMPLETED s" by auto
    have row: "lookup i t = Some r'"
      using eq(2) [of i] matched(1) m(1) False i by (simp add: t r')
    have rest: "lookup j t = lookup j s" if "j \<noteq> i" for j
      using eq(2) [of j] that find_row_Some [of "\<lambda>r. intentId r = j" "intents s"]
      by (cases "lookup j s") (auto simp: t)
    have same: "sourceWallet r' = sourceWallet r" "tokenOut r' = tokenOut r"
      "amountUnits r' = amountUnits r" "recipient r' = recipient r" "batchDigest r' = batchDigest r"
      by (simp_all add: r' moved_def)
    show ?thesis
      using matched(1) m(1,2,3,6,8) addresses h row rest same by (auto simp: r')
  qed
qed

text \<open>
  An intent is completed by exactly the receipt that was verified for it.  When
  \<open>completeWithVerifiedReceipt\<close> returns, the intent had been under verification (or was completed
  before), carries the receipt's hash, and agrees with the receipt in the network, the paying wallet,
  the token, the amount and the recipient (for a payroll, the batch digest); the stored intent is
  completed and no other intent is touched.
\<close>

theorem complete_sound:
  assumes "completeWithVerifiedReceipt E R now i rc s = (Inr r', t)"
    and "evm_laws E" "intents_ok (intents s)"
  shows "\<exists>r. lookup i s = Some r \<and> (status r = VERIFYING \<or> status r = COMPLETED) \<and>
    lookup i t = Some r' \<and> status r' = COMPLETED \<and> fixed_columns r' = fixed_columns r \<and>
    transactionHash r' = Some (toLowerCase (rcHash rc)) \<and> intentNetwork r' = rcNetwork rc \<and>
    toLowerCase (sourceWallet r') = toLowerCase (rcSource rc) \<and>
    toLowerCase (tokenOut r') = toLowerCase (rcToken rc) \<and> amountUnits r' = rcAmount rc \<and>
    (if truthy (recipient r')
     then toLowerCase (the (recipient r')) = toLowerCase (the (rcRecipient rc))
     else Some (batchDigest r') = rcBatchDigest rc) \<and>
    (\<forall>j. j \<noteq> i \<longrightarrow> lookup j t = lookup j s)"
  by (rule complete_facts [OF assms])

definition paid :: intent where
  "paid = sent\<lparr>sourceWallet := addr (CHR ''a''), recipient := Some (addr (CHR ''b'')),
     tokenOut := addr (CHR ''5''), transactionHash := Some (hash_of (CHR ''1'')), status := VERIFYING\<rparr>"

definition paid_receipt :: verified_receipt where
  "paid_receipt = \<lparr>rcNetwork = ARC_MAINNET, rcHash = hash_of (CHR ''1''), rcSource = addr (CHR ''a''),
     rcToken = addr (CHR ''5''), rcRecipient = Some (addr (CHR ''b'')), rcBatchDigest = None,
     rcAmount = ''250''\<rparr>"

lemma ok_paid: "intents_ok [paid]"
  by (simp add: intents_ok_def row_ok_def paid_def)

lemma complete_paid:
  "completeWithVerifiedReceipt lower_evm arc 7 ''i'' paid_receipt (holding paid) =
     (Inr (moved 7 COMPLETED paid), holding (moved 7 COMPLETED paid))"
  by (simp add: completeWithVerifiedReceipt_def andThen_def getIntent_eq paid_def sent_def arc_def
      paid_receipt_def transactionHashOf_cases lift_def receiptMatches_def andR_def sameAddress_def
      lower_evm_def fromSome_def ensure_def transition_def updateIntents_eq unique_update
      update_rows_def count_rows_def holding_def apply_no_data moved_def)

theorem complete_sound_witness:
  "lookup ''i'' (holding (moved 7 COMPLETED paid)) = Some (moved 7 COMPLETED paid) \<and>
   status (moved 7 COMPLETED paid) = COMPLETED"
proof -
  have "intents_ok (intents (holding paid))" by (simp add: ok_paid)
  from complete_sound [OF complete_paid lower_evm_laws this] show ?thesis by blast
qed

section \<open>Verification of an unsubmitted intent\<close>

definition verifiable :: "intent_status \<Rightarrow> bool" where
  "verifiable st \<longleftrightarrow> st \<in> {CREATED, AUTHORIZATION_PENDING, SUBMISSION_PENDING, SUBMITTED, FAILED_RETRYABLE}"

lemma transition_moves:
  assumes "intents_unique (intents s)" "nxt \<in> set (transitions (status r))"
    "lookup i s = Some r" "intentNetwork r = network R"
  shows "transition R now i (status r) nxt no_data s = (Inr (moved now nxt r), move_in now i (status r) nxt s)"
    "lookup i (move_in now i (status r) nxt s) = Some (moved now nxt r)"
    "intents_unique (intents (move_in now i (status r) nxt s))"
    "j \<noteq> i \<Longrightarrow> lookup j (move_in now i (status r) nxt s) = lookup j s"
proof -
  have i: "intentId r = i" using find_row_Some [OF assms(3)] by simp
  note eq = transition_eq [OF assms(1,2), where i = i and now = now]
  show "transition R now i (status r) nxt no_data s = (Inr (moved now nxt r), move_in now i (status r) nxt s)"
    using eq(1) [of R] assms(3,4) by simp
  show "lookup i (move_in now i (status r) nxt s) = Some (moved now nxt r)"
    using eq(2) [of i] assms(3) i by simp
  show "intents_unique (intents (move_in now i (status r) nxt s))" by (rule eq(3))
  show "lookup j (move_in now i (status r) nxt s) = lookup j s" if "j \<noteq> i"
    using eq(2) [of j] that find_row_Some [of "\<lambda>r. intentId r = j" "intents s"]
    by (cases "lookup j s") auto
qed

lemma moved_moved [simp]:
  "nxt \<noteq> COMPLETED \<Longrightarrow> mid \<noteq> COMPLETED \<Longrightarrow> moved now nxt (moved now mid r) = moved now nxt r"
  by (simp add: moved_def)

lemma beginVerification_facts:
  assumes "intents_unique (intents s)" "lookup i s = Some r" "intentNetwork r = network R"
  shows "\<exists>t. beginVerification R now i s =
      (Inr (if verifiable (status r) then moved now VERIFYING r else r), t) \<and>
    lookup i t = Some (if verifiable (status r) then moved now VERIFYING r else r) \<and>
    intents_unique (intents t) \<and> (\<forall>j. j \<noteq> i \<longrightarrow> lookup j t = lookup j s)"
proof -
  note step = transition_moves [OF assms(1) _ assms(2,3), where now = now]
  note get = getIntent_eq [of R i s] assms(2,3)
  show ?thesis
  proof (cases "status r")
    case CREATED
    note one = step [where nxt = SUBMISSION_PENDING, unfolded CREATED, simplified]
    note two = transition_moves [OF one(3) _ one(2), where R = R and nxt = SUBMITTED and now = now,
        simplified, OF assms(3)]
    note three = transition_moves [OF two(3) _ two(2), where R = R and nxt = VERIFYING and now = now,
        simplified, OF assms(3)]
    show ?thesis
      using one two three by (simp add: beginVerification_def andThen_def get CREATED verifiable_def)
  next
    case AUTHORIZATION_PENDING
    note one = step [where nxt = SUBMITTED, unfolded AUTHORIZATION_PENDING, simplified]
    note two = transition_moves [OF one(3) _ one(2), where R = R and nxt = VERIFYING and now = now,
        simplified, OF assms(3)]
    show ?thesis
      using one two by (simp add: beginVerification_def andThen_def get AUTHORIZATION_PENDING verifiable_def ok_def)
  next
    case SUBMISSION_PENDING
    note one = step [where nxt = SUBMITTED, unfolded SUBMISSION_PENDING, simplified]
    note two = transition_moves [OF one(3) _ one(2), where R = R and nxt = VERIFYING and now = now,
        simplified, OF assms(3)]
    show ?thesis
      using one two by (simp add: beginVerification_def andThen_def get SUBMISSION_PENDING verifiable_def ok_def)
  next
    case SUBMITTED
    show ?thesis
      using step [where nxt = VERIFYING, unfolded SUBMITTED, simplified]
      by (simp add: beginVerification_def andThen_def get SUBMITTED verifiable_def ok_def)
  next
    case FAILED_RETRYABLE
    show ?thesis
      using step [where nxt = VERIFYING, unfolded FAILED_RETRYABLE, simplified]
      by (simp add: beginVerification_def andThen_def get FAILED_RETRYABLE verifiable_def ok_def)
  qed (use assms in \<open>simp_all add: beginVerification_def andThen_def get verifiable_def ok_def\<close>)
qed

text \<open>
  C13: \<open>beginVerification\<close> takes every intent that is created, awaiting authorisation or submission,
  submitted or failed retryably to \<open>VERIFYING\<close>, whether or not it carries a transaction hash, and
  leaves every other intent as it is; no other intent is touched.
\<close>

theorem beginVerification_outcome:
  assumes "intents_unique (intents s)" "lookup i s = Some r" "intentNetwork r = network R"
  shows "\<exists>t. beginVerification R now i s =
      (Inr (if verifiable (status r) then moved now VERIFYING r else r), t) \<and>
    lookup i t = Some (if verifiable (status r) then moved now VERIFYING r else r) \<and>
    intents_unique (intents t) \<and> (\<forall>j. j \<noteq> i \<longrightarrow> lookup j t = lookup j s)"
  by (rule beginVerification_facts [OF assms])

theorem beginVerification_outcome_witness:
  "\<exists>t. beginVerification arc 3 ''i'' (holding sent) = (Inr (moved 3 VERIFYING sent), t)"
proof -
  have "lookup ''i'' (holding sent) = Some sent" "intentNetwork sent = network arc" "status sent = CREATED"
    by (simp_all add: sent_def arc_def)
  with beginVerification_outcome [of "holding sent" "''i''" sent arc 3] show ?thesis
    by (auto simp: verifiable_def)
qed

section \<open>Leases and the wallet\<close>

definition leased :: "int \<Rightarrow> string \<Rightarrow> int \<Rightarrow> intent \<Rightarrow> intent" where
  "leased now owner ttl r =
     r\<lparr>leaseOwner := Some owner, leaseExpiresAt := Some (now + ttl), attemptCount := attemptCount r + 1\<rparr>"

definition lease_free :: "int \<Rightarrow> intent \<Rightarrow> bool" where
  "lease_free now r \<longleftrightarrow> \<not> isTerminal (status r) \<and>
     (leaseOwner r = None \<or> leaseExpiresAt r = None \<or>
      (case leaseExpiresAt r of None \<Rightarrow> False | Some t \<Rightarrow> t \<le> now))"

definition lease_in :: "int \<Rightarrow> string \<Rightarrow> string \<Rightarrow> int \<Rightarrow> db \<Rightarrow> db" where
  "lease_in now i owner ttl s =
     s\<lparr>intents := update_rows (\<lambda>r. intentId r = i \<and> lease_free now r) (leased now owner ttl) (intents s)\<rparr>"

lemma leased_keys [simp]: "key_columns (leased now owner ttl r) = key_columns r"
  by (simp add: leased_def key_columns_def)

lemma lease_lookup:
  assumes "intents_unique (intents s)"
  shows "lookup j (lease_in now i owner ttl s) =
      map_option (\<lambda>r. if intentId r = i \<and> lease_free now r then leased now owner ttl r else r) (lookup j s)"
    "intents_unique (intents (lease_in now i owner ttl s))"
  unfolding lease_in_def
  by (rule guarded_update(2) [OF assms leased_keys]) (simp add: unique_update assms)

lemma acquireLease_unfold:
  "acquireLease R now i owner ttl =
     andThen (ensure (\<not> (js_trim owner = [] \<or> ttl < 1000 \<or> ttl > 900000)) ACTIVE_LEASE) (\<lambda>_.
     andThen (updateIntents (\<lambda>r. intentId r = i \<and> lease_free now r) (leased now owner ttl)) (\<lambda>count.
     if count \<noteq> 1
     then andThen (getIntent R i) (\<lambda>existing.
       if isTerminal (status existing) then throw TERMINAL else throw ACTIVE_LEASE)
     else getIntent R i))"
  by (simp add: acquireLease_def lease_free_def [abs_def] leased_def [abs_def])

lemma acquireLease_eq:
  assumes "intents_unique (intents s)" "lookup i s = Some r" "intentNetwork r = network R"
    "js_trim owner \<noteq> []" "1000 \<le> ttl" "ttl \<le> 900000"
  shows "acquireLease R now i owner ttl s =
    (if lease_free now r then Inr (leased now owner ttl r)
     else Inl (if isTerminal (status r) then TERMINAL else ACTIVE_LEASE), lease_in now i owner ttl s)"
proof -
  note upd = guarded_update [where f = "leased now owner ttl" and q = "lease_free now" and i = i,
      OF assms(1) leased_keys]
  have i: "intentId r = i" using find_row_Some [OF assms(2)] by simp
  have get: "getIntent R i (lease_in now i owner ttl s) =
      (Inr (if lease_free now r then leased now owner ttl r else r), lease_in now i owner ttl s)"
    using lease_lookup(1) [OF assms(1), of i] assms(2,3) i by (simp add: getIntent_eq leased_def)
  have "updateIntents (\<lambda>r. intentId r = i \<and> lease_free now r) (leased now owner ttl) s =
      (Inr (if lease_free now r then 1 else 0), lease_in now i owner ttl s)"
    using upd(1) assms(2) by (simp add: lease_in_def)
  moreover have "lease_free now r \<Longrightarrow> \<not> isTerminal (status r)" by (simp add: lease_free_def)
  ultimately show ?thesis
    using assms(4-) get
    by (cases "lease_free now r") (simp_all add: acquireLease_unfold andThen_def ensure_def throw_def)
qed

text \<open>
  A lease excludes every other holder until it expires.  After a lease has been granted, any
  request for a lease of the same intent before its expiry, by the same or another owner, is refused
  and leaves the holder in place.
\<close>

theorem lease_exclusive:
  assumes "intents_unique (intents s)" "acquireLease R now i owner ttl s = (Inr r, t)"
    and "now' < now + ttl"
  shows "leaseOwner r = Some owner \<and> leaseExpiresAt r = Some (now + ttl) \<and>
    fst (acquireLease R now' i owner' ttl' t) = Inl ACTIVE_LEASE \<and>
    lookup i (snd (acquireLease R now' i owner' ttl' t)) = Some r"
proof -
  have args: "js_trim owner \<noteq> []" "1000 \<le> ttl" "ttl \<le> 900000"
    using assms(2) by (auto simp: acquireLease_def andThen_Inr_iff)
  obtain q where q: "lookup i s = Some q" "intentNetwork q = network R"
  proof -
    obtain u where "getIntent R i u = (Inr r, t)" "u = snd (updateIntents
       (\<lambda>r. intentId r = i \<and> lease_free now r) (leased now owner ttl) s)"
      using assms(2) by (auto simp: acquireLease_unfold andThen_Inr_iff split: if_splits)
    then have "lookup i (lease_in now i owner ttl s) = Some r" "intentNetwork r = network R"
      using guarded_update(1) [where f = "leased now owner ttl" and q = "lease_free now", OF assms(1)]
      by (auto simp: getIntent_Inr lease_in_def)
    then show ?thesis
      using that lease_lookup(1) [OF assms(1), of i now i owner ttl]
      by (auto simp: leased_def split: if_splits)
  qed
  from acquireLease_eq [OF assms(1) q args, of now] assms(2)
  have free: "lease_free now q" and r: "r = leased now owner ttl q" and t: "t = lease_in now i owner ttl s"
    by (auto split: if_splits)
  have i: "intentId q = i" using find_row_Some [OF q(1)] by simp
  have row: "lookup i t = Some r" using lease_lookup(1) [OF assms(1)] q(1) free i by (simp add: t r)
  have busy: "\<not> lease_free now' r" "\<not> isTerminal (status r)"
    using free assms(3) by (auto simp: r leased_def lease_free_def)
  show ?thesis
  proof (cases "js_trim owner' = [] \<or> ttl' < 1000 \<or> ttl' > 900000")
    case True
    then show ?thesis using row by (auto simp: acquireLease_def andThen_def ensure_def r leased_def)
  next
    case False
    have uniq: "intents_unique (intents t)" unfolding t by (rule lease_lookup(2) [OF assms(1)])
    have "intentNetwork r = network R" using q(2) by (simp add: r leased_def)
    from acquireLease_eq [OF uniq row this, of owner' ttl' now'] lease_lookup(1) [OF uniq, of i now' i owner' ttl']
    show ?thesis using False busy row by (simp, simp add: r leased_def)
  qed
qed

definition held :: intent where
  "held = leased 0 ''w'' 60000 sent"

lemma lease_sent: "acquireLease arc 0 ''i'' ''w'' 60000 (holding sent) = (Inr held, holding held)"
  by (simp add: acquireLease_def andThen_def ensure_def js_trim_def is_space_def updateIntents_eq
      unique_update update_rows_def count_rows_def holding_def sent_def isTerminal_def getIntent_eq
      arc_def held_def leased_def)

theorem lease_exclusive_witness:
  "fst (acquireLease arc 59999 ''i'' ''x'' 5000 (holding held)) = Inl ACTIVE_LEASE"
  using lease_exclusive [OF _ lease_sent, of 59999 "''x''" 5000] by simp

lemma unique_run: "intent_write\<^sup>*\<^sup>* T U \<Longrightarrow> intents_unique T \<Longrightarrow> intents_unique U"
  by (induction rule: rtranclp_induct) (auto intro: intent_write_unique)

lemma keeps_unique:
  "keeps intent_run m \<Longrightarrow> m s = (res, t) \<Longrightarrow> intents_unique (intents s) \<Longrightarrow> intents_unique (intents t)"
  using keepsD [of intent_run m s res t] unique_run by (simp add: via_def)

lemma transition_Inr:
  assumes "transition R now i expected nxt no_data s = (Inr r, t)" "intents_unique (intents s)"
  shows "lookup i t = Some r" "status r = nxt" "intentNetwork r = network R"
proof -
  have nxt: "nxt \<in> set (transitions expected)" using assms(1) by (auto simp: transition_def andThen_Inr_iff)
  note eq = transition_eq [OF assms(2) nxt, where i = i and now = now]
  from assms(1) eq(1) [of R] eq(2) [of i] find_row_Some [of "\<lambda>r. intentId r = i" "intents s"]
  show "lookup i t = Some r" "status r = nxt" "intentNetwork r = network R"
    by (auto split: option.splits if_splits)
qed


lemma prepare_sent:
  "prepareWalletSignature arc 0 ''i'' ''k'' ''w'' 60000 (holding sent) =
     (Inr (moved 0 AWAITING_WALLET_SIGNATURE held), holding (moved 0 AWAITING_WALLET_SIGNATURE held))"
proof -
  have "assertAccess arc ''i'' ''k'' (holding sent) = (Inr sent, holding sent)"
    "getIntent arc ''i'' (holding sent) = (Inr sent, holding sent)"
    by (simp_all add: assertAccess_def andThen_def ensure_def ok_def getIntent_eq sent_def arc_def)
  moreover have "transition arc 0 ''i'' CREATED AWAITING_WALLET_SIGNATURE no_data (holding held) =
      (Inr (moved 0 AWAITING_WALLET_SIGNATURE held), holding (moved 0 AWAITING_WALLET_SIGNATURE held))"
    by (simp add: transition_def andThen_def ensure_def updateIntents_eq update_rows_def
        count_rows_def holding_def held_def leased_def sent_def apply_no_data moved_def getIntent_eq arc_def)
  moreover have "status sent = CREATED" "transactionHash sent = None" "circleChallengeId sent = None"
    by (simp_all add: sent_def)
  ultimately show ?thesis
    using lease_sent by (simp add: prepareWalletSignature_def andThen_def ensure_def isTerminal_def)
qed


section \<open>Binding the transaction hash\<close>

lemma hash_update:
  assumes "updateIntents (\<lambda>r. intentId r = i \<and> transactionHash r = None) f s = (Inr n, t)"
    and "\<And>r. intentId (f r) = intentId r" "intents_unique (intents s)"
  shows "n = (case lookup i s of None \<Rightarrow> 0 | Some r \<Rightarrow> if transactionHash r = None then 1 else 0)"
    "lookup i t = map_option (\<lambda>r. if transactionHash r = None then f r else r) (lookup i s)"
proof -
  have ids: "distinct (map intentId (intents s))" using assms(3) by (simp add: intents_unique_def)
  from assms(1) have t: "t = s\<lparr>intents := update_rows (\<lambda>r. intentId r = i \<and> transactionHash r = None) f (intents s)\<rparr>"
    and n: "n = count_rows (\<lambda>r. intentId r = i \<and> transactionHash r = None) (intents s)"
    by (auto simp: updateIntents_eq split: if_splits)
  show "n = (case lookup i s of None \<Rightarrow> 0 | Some r \<Rightarrow> if transactionHash r = None then 1 else 0)"
    unfolding n by (rule count_unique [OF ids])
  show "lookup i t = map_option (\<lambda>r. if transactionHash r = None then f r else r) (lookup i s)"
    using find_row_Some [of "\<lambda>r. intentId r = i" "intents s"]
    by (simp add: t find_update assms(2)) (cases "lookup i s", auto)
qed

definition hash_bound :: "string \<Rightarrow> intent \<Rightarrow> intent" where
  "hash_bound h r = r\<lparr>transactionHash := Some h, status := SUBMITTED, leaseOwner := None, leaseExpiresAt := None\<rparr>"

text \<open>What one round does, once the row is read and the update is reached.\<close>

lemma bindHashAttempt_Inr:
  assumes "bindHashAttempt R now others i h owner recovery s = (Inr found, t)"
  obtains (bound) r where "is_hash h" "found = Some r" "t = s" "lookup i s = Some r"
      "intentNetwork r = network R" "transactionHash r = Some (toLowerCase h)"
  | (updated) r u n where "is_hash h" "lookup i s = Some r" "intentNetwork r = network R"
      "\<not> truthy (transactionHash r)" "u = others s"
      "updateIntents (\<lambda>r. intentId r = i \<and> transactionHash r = None) (hash_bound (toLowerCase h)) u = (Inr n, t)"
      "if n \<noteq> 1 then found = None else \<exists>q. found = Some q \<and> lookup i t = Some q \<and> intentNetwork q = network R"
proof -
  obtain r where h: "is_hash h" and r: "lookup i s = Some r" "intentNetwork r = network R"
    and rest: "(if transactionHash r = Some (toLowerCase h) then ok (Some r)
     else
       andThen (ensure (\<not> truthy (transactionHash r)) HASH_CONFLICT) (\<lambda>_.
       andThen (if status r = AWAITING_WALLET_SIGNATURE \<and> \<not> recovery
                then andThen (ensure (truthy owner) ACTIVE_LEASE) (\<lambda>_.
                  andThen (assertLease R now i (the owner)) (\<lambda>_. ok ()))
                else ok ()) (\<lambda>_.
       andThen (interfere others) (\<lambda>_.
       andThen (catching
          (updateIntents (\<lambda>r. intentId r = i \<and> transactionHash r = None) (hash_bound (toLowerCase h)))
          (\<lambda>_. throw HASH_CONFLICT)) (\<lambda>count.
       if count \<noteq> 1 then ok None
       else andThen (getIntent R i) (\<lambda>r. ok (Some r))))))) s = (Inr found, t)"
    using assms
    by (auto simp: bindHashAttempt_def andThen_Inr_iff getIntent_Inr transactionHashOf_cases
        hash_bound_def [abs_def] split: if_splits)
  show ?thesis
  proof (cases "transactionHash r = Some (toLowerCase h)")
    case True
    with h r rest show ?thesis by (intro bound [of r]) auto
  next
    case False
    from rest False obtain u0 w n where no: "\<not> truthy (transactionHash r)" and w: "w = others u0"
      and lease: "(if status r = AWAITING_WALLET_SIGNATURE \<and> \<not> recovery
                then andThen (ensure (truthy owner) ACTIVE_LEASE) (\<lambda>_.
                  andThen (assertLease R now i (the owner)) (\<lambda>_. ok ()))
                else ok ()) s = (Inr (), u0)"
      and upd: "catching (updateIntents (\<lambda>r. intentId r = i \<and> transactionHash r = None)
          (hash_bound (toLowerCase h))) (\<lambda>_. throw HASH_CONFLICT) w = (Inr n, t)"
      and out: "if n \<noteq> 1 then found = None
        else \<exists>q. found = Some q \<and> lookup i t = Some q \<and> intentNetwork q = network R"
      by (auto simp: andThen_Inr_iff interfere_def getIntent_Inr split: if_splits)
    have "u0 = s"
      using lease by (auto simp: andThen_Inr_iff assertLease_def getIntent_Inr split: if_splits)
    moreover have "updateIntents (\<lambda>r. intentId r = i \<and> transactionHash r = None)
        (hash_bound (toLowerCase h)) w = (Inr n, t)"
      using upd by (auto simp: catching_def split: prod.splits sum.splits)
    ultimately show ?thesis using updated h r no w out by blast
  qed
qed

lemma hash_bound_simps [simp]:
  "intentId (hash_bound h r) = intentId r" "transactionHash (hash_bound h r) = Some h"
  "status (hash_bound h r) = SUBMITTED" "intentNetwork (hash_bound h r) = intentNetwork r"
  by (simp_all add: hash_bound_def)

lemma attempt_again:
  assumes "bindHashAttempt R now others i h owner recovery s = (Inr None, t)"
    and "polite others" "intents_ok (intents s)"
  shows "(\<exists>r. lookup i t = Some r \<and> transactionHash r \<noteq> None) \<and> intents_ok (intents t) \<and> is_hash h"
  using assms(1)
proof (cases rule: bindHashAttempt_Inr)
  case (updated r u n)
  have su: "intent_write\<^sup>*\<^sup>* (intents s) (intents u)" using assms(2) updated(5) by (simp add: polite_def via_def)
  have ok_u: "intents_ok (intents u)" by (rule intents_ok_run [OF su assms(3)])
  then have uniq: "intents_unique (intents u)" by (simp add: intents_ok_def)
  obtain q where q: "lookup i u = Some q" using intent_table.run_find [OF su updated(2)] by blast
  note upd = hash_update [OF updated(6) _ uniq]
  have "\<exists>r. lookup i t = Some r \<and> transactionHash r \<noteq> None"
    using upd q updated(7) by (auto split: if_splits)
  moreover have "keeps intent_run (bindHashAttempt R now others i h owner recovery)"
    by (rule run_bindAttempt [OF assms(2)])
  from keepsD [OF this assms(1)] intents_ok_run [OF _ assms(3)] have "intents_ok (intents t)"
    by (simp add: via_def)
  ultimately show ?thesis using updated(1) by blast
qed simp_all

text \<open>
  C6: binding a transaction hash returns after at most two rounds, whatever the other requests do
  between its read and its update: the retry of \<open>bindTransactionHash\<close> cannot loop.
\<close>

theorem bind_terminates:
  assumes "intents_ok (intents s)" "\<forall>n. polite (others n)"
  shows "\<exists>out. bindTransactionHash R now others (Suc (Suc n)) i h owner recovery s = Some out"
proof -
  obtain res t where one: "bindHashAttempt R now (others (Suc n)) i h owner recovery s = (res, t)"
    by fastforce
  show ?thesis
  proof (cases "res = Inr None")
    case True
    with one have "bindHashAttempt R now (others (Suc n)) i h owner recovery s = (Inr None, t)" by simp
    from attempt_again [OF this] assms obtain r where r: "lookup i t = Some r" "transactionHash r \<noteq> None"
      and t: "intents_ok (intents t)" by blast
    obtain res2 u where two: "bindHashAttempt R now (others n) i (toLowerCase h) owner recovery t = (res2, u)"
      by fastforce
    have "res2 \<noteq> Inr None"
    proof
      assume "res2 = Inr None"
      with two have "bindHashAttempt R now (others n) i (toLowerCase h) owner recovery t = (Inr None, u)" by simp
      then show False
      proof (cases rule: bindHashAttempt_Inr)
        case (updated r' w m)
        with r have r': "\<not> truthy (transactionHash r)" by simp
        have "list_all row_ok (intents t)" using t by (simp add: intents_ok_def)
        with find_row_Some [OF r(1)] have "row_ok r" by (auto simp: list_all_iff)
        with r(2) r' show False by (auto simp: row_ok_def truthy_def is_hex_string_def)
      qed simp
    qed
    with one two True show ?thesis by (auto split: sum.splits option.splits)
  next
    case False
    with one show ?thesis by (auto split: sum.splits option.splits)
  qed
qed

theorem bind_terminates_witness:
  "\<exists>out. bindTransactionHash arc 5 (\<lambda>_. id) 2 ''i'' (hash_of (CHR ''1'')) None True (holding paid) = Some out"
  using bind_terminates [of "holding paid" "\<lambda>_. id" arc 5 0] ok_paid by (simp add: numeral_2_eq_2)

lemma bind_unique:
  assumes "intents_unique T" "find_row (\<lambda>r. intentId r = i) T = Some r" "transactionHash r = None"
  shows "intents_unique (update_rows (\<lambda>r. intentId r = i \<and> transactionHash r = None) (hash_bound g) T) \<longleftrightarrow>
    (\<forall>q\<in>set T. transactionHash q \<noteq> Some g)"
proof -
  have r: "r \<in> set T" "intentId r = i" using find_row_Some [OF assms(2)] by auto
  then obtain A B where T: "T = A @ r # B" by (meson split_list)
  have ids: "distinct (map intentId T)" using assms(1) by (simp add: intents_unique_def)
  have others: "\<forall>q\<in>set A \<union> set B. intentId q \<noteq> i" 
  proof -
    have "intentId r \<notin> intentId ` (set A \<union> set B)" using ids by (auto simp: T)
    then show ?thesis using r(2) by (metis image_eqI)
  qed
  from others have upd: "update_rows (\<lambda>r. intentId r = i \<and> transactionHash r = None) (hash_bound g) T =
      A @ hash_bound g r # B"
    using T r(2) assms(3) by (auto simp: update_rows_def intro!: map_idI)
  have filter_set: "set (List.map_filter c U) = {y. \<exists>q\<in>set U. c q = Some y}"
    for c :: "intent \<Rightarrow> string option" and U
    by (auto simp: map_filter_def image_def)
  have "distinct (List.map_filter transactionHash A @ List.map_filter transactionHash B)"
    using assms(1,3) by (simp add: intents_unique_def unique_col_def T map_filter_append)
  then have "unique_col transactionHash (A @ hash_bound g r # B) \<longleftrightarrow> (\<forall>q\<in>set T. transactionHash q \<noteq> Some g)"
    using assms(3) by (auto simp: unique_col_def T map_filter_append filter_set)
  moreover have "unique_col c (A @ hash_bound g r # B) = unique_col c T"
    if "c (hash_bound g r) = c r" for c :: "intent \<Rightarrow> string option"
    by (simp add: unique_col_def T map_filter_append that)
  ultimately show ?thesis
    using assms(1) unfolding upd by (simp add: intents_unique_def T hash_bound_def)
qed

definition lease_valid :: "int \<Rightarrow> string option \<Rightarrow> intent \<Rightarrow> bool" where
  "lease_valid now owner r \<longleftrightarrow> truthy owner \<and> leaseOwner r = owner \<and>
     (case leaseExpiresAt r of None \<Rightarrow> False | Some t \<Rightarrow> now < t)"

text \<open>
  C5: the outcome of binding a hash, on every branch.  A malformed hash, a second hash for the same
  intent and a hash that another intent carries are refused and change nothing; the same hash again is
  answered with the intent as it is; an intent that awaits its wallet signature accepts the hash
  from the holder of an unexpired lease only (unless the hash is recovered); in every other
  status, terminal ones included, an intent without a hash takes it and becomes submitted.
\<close>

theorem bind_outcome:
  assumes "intents_ok (intents s)" "lookup i s = Some r" "intentNetwork r = network R"
  shows "bindHashOp R now i h owner recovery s =
    (if \<not> is_hash h then (Inl HASH_CONFLICT, s)
     else if transactionHash r = Some (toLowerCase h) then (Inr r, s)
     else if transactionHash r \<noteq> None then (Inl HASH_CONFLICT, s)
     else if status r = AWAITING_WALLET_SIGNATURE \<and> \<not> recovery \<and> \<not> lease_valid now owner r
     then (Inl ACTIVE_LEASE, s)
     else if \<exists>q\<in>set (intents s). transactionHash q = Some (toLowerCase h) then (Inl HASH_CONFLICT, s)
     else (Inr (hash_bound (toLowerCase h) r), s\<lparr>intents :=
             update_rows (\<lambda>r. intentId r = i \<and> transactionHash r = None) (hash_bound (toLowerCase h)) (intents s)\<rparr>))"
proof -
  have uniq: "intents_unique (intents s)" using assms(1) by (simp add: intents_ok_def)
  have "row_ok r" using assms(1) find_row_Some [OF assms(2)] by (auto simp: intents_ok_def list_all_iff)
  then have nonempty: "truthy (transactionHash r) \<longleftrightarrow> transactionHash r \<noteq> None"
    by (auto simp: row_ok_def truthy_def is_hex_string_def)
  have get: "getIntent R i s = (Inr r, s)" using assms by (simp add: getIntent_eq)
  have lease: "andThen (ensure (truthy owner) ACTIVE_LEASE) (\<lambda>_.
      andThen (assertLease R now i (the owner)) (\<lambda>_. ok ())) s =
    (if lease_valid now owner r then Inr () else Inl ACTIVE_LEASE, s)"
    using get by (auto simp: op_defs assertLease_def lease_valid_def truthy_def split: option.splits)
  let ?p = "\<lambda>r. intentId r = i \<and> transactionHash r = None"
  let ?t = "s\<lparr>intents := update_rows ?p (hash_bound (toLowerCase h)) (intents s)\<rparr>"
  have upd: "updateIntents ?p (hash_bound (toLowerCase h)) s =
      (if \<exists>q\<in>set (intents s). transactionHash q = Some (toLowerCase h)
       then (Inl (DbError ''P2002''), s) else (Inr 1, ?t))" if "transactionHash r = None"
  proof -
    have "count_rows ?p (intents s) = 1"
      using uniq assms(2) that
      by (simp add: intents_unique_def count_unique [where k = intentId])
    then show ?thesis using bind_unique [OF uniq assms(2) that] by (auto simp: updateIntents_eq)
  qed
  have "lookup i ?t = map_option (\<lambda>r. if ?p r then hash_bound (toLowerCase h) r else r) (lookup i s)"
    by (simp add: find_update)
  then have got: "getIntent R i ?t = (Inr (hash_bound (toLowerCase h) r), ?t)" if "transactionHash r = None"
    using assms(2,3) that find_row_Some [OF assms(2)] by (simp add: getIntent_eq)
  have attempt: "bindHashAttempt R now id i h owner recovery s =
    (if \<not> is_hash h then (Inl HASH_CONFLICT, s)
     else if transactionHash r = Some (toLowerCase h) then (Inr (Some r), s)
     else if transactionHash r \<noteq> None then (Inl HASH_CONFLICT, s)
     else if status r = AWAITING_WALLET_SIGNATURE \<and> \<not> recovery \<and> \<not> lease_valid now owner r
     then (Inl ACTIVE_LEASE, s)
     else if \<exists>q\<in>set (intents s). transactionHash q = Some (toLowerCase h) then (Inl HASH_CONFLICT, s)
     else (Inr (Some (hash_bound (toLowerCase h) r)), ?t))"
  proof (cases "is_hash h")
    case False
    then show ?thesis by (simp add: bindHashAttempt_def transactionHashOf_cases andThen_run lift_def)
  next
    case True
    have body: "bindHashAttempt R now id i h owner recovery s =
      (if transactionHash r = Some (toLowerCase h) then ok (Some r)
       else
         andThen (ensure (\<not> truthy (transactionHash r)) HASH_CONFLICT) (\<lambda>_.
         andThen (if status r = AWAITING_WALLET_SIGNATURE \<and> \<not> recovery
                  then andThen (ensure (truthy owner) ACTIVE_LEASE) (\<lambda>_.
                    andThen (assertLease R now i (the owner)) (\<lambda>_. ok ()))
                  else ok ()) (\<lambda>_.
         andThen (interfere id) (\<lambda>_.
         andThen (catching (updateIntents ?p (hash_bound (toLowerCase h))) (\<lambda>_. throw HASH_CONFLICT)) (\<lambda>count.
         if count \<noteq> 1 then ok None
         else andThen (getIntent R i) (\<lambda>r. ok (Some r))))))) s"
      using True by (simp add: bindHashAttempt_def transactionHashOf_cases lift_def andThen_run(1) [where m = "lift _"]
          andThen_run(1) [where m = "getIntent R i" and s = s, OF get] hash_bound_def [abs_def])
    show ?thesis
    proof (cases "transactionHash r = None")
      case False
      then show ?thesis using True nonempty by (simp add: body ok_def andThen_def ensure_def)
    next
      case none: True
      have step: "andThen (interfere id) (\<lambda>_.
         andThen (catching (updateIntents ?p (hash_bound (toLowerCase h))) (\<lambda>_. throw HASH_CONFLICT)) (\<lambda>count.
         if count \<noteq> 1 then ok None
         else andThen (getIntent R i) (\<lambda>r. ok (Some r)))) s =
        (if \<exists>q\<in>set (intents s). transactionHash q = Some (toLowerCase h) then (Inl HASH_CONFLICT, s)
         else (Inr (Some (hash_bound (toLowerCase h) r)), ?t))"
        using upd [OF none] got [OF none]
        by (simp add: andThen_def interfere_def catching_def throw_def ok_def)
      let ?gate = "if status r = AWAITING_WALLET_SIGNATURE \<and> \<not> recovery
          then andThen (ensure (truthy owner) ACTIVE_LEASE) (\<lambda>_.
            andThen (assertLease R now i (the owner)) (\<lambda>_. ok ()))
          else ok ()"
      have gate: "?gate s = (if status r = AWAITING_WALLET_SIGNATURE \<and> \<not> recovery \<and> \<not> lease_valid now owner r
          then Inl ACTIVE_LEASE else Inr (), s)"
        using lease by (simp add: ok_def)
      show ?thesis
        using True none step by (simp add: body andThen_ensure andThen_def [of ?gate] gate)
    qed
  qed
  show ?thesis
    by (simp add: bindHashOp_def numeral_2_eq_2 attempt)
qed

theorem bind_outcome_witness:
  "bindHashOp arc 5 ''i'' (hash_of (CHR ''1'')) None False (holding (sent\<lparr>status := CANCELLED\<rparr>)) =
     (Inr (hash_bound (hash_of (CHR ''1'')) (sent\<lparr>status := CANCELLED\<rparr>)),
      holding (hash_bound (hash_of (CHR ''1'')) (sent\<lparr>status := CANCELLED\<rparr>)))"
proof -
  let ?r = "sent\<lparr>status := CANCELLED\<rparr>"
  have "intents_ok (intents (holding ?r))" by (simp add: intents_ok_def row_ok_def sent_def)
  moreover have "lookup ''i'' (holding ?r) = Some ?r" "intentNetwork ?r = network arc"
    "transactionHash ?r = None" "status ?r = CANCELLED"
    by (simp_all add: sent_def arc_def)
  ultimately have "bindHashOp arc 5 ''i'' (hash_of (CHR ''1'')) None False (holding ?r) =
      (Inr (hash_bound (hash_of (CHR ''1'')) ?r), holding ?r\<lparr>intents :=
         update_rows (\<lambda>r. intentId r = ''i'' \<and> transactionHash r = None) (hash_bound (hash_of (CHR ''1''))) [?r]\<rparr>)"
    using bind_outcome [of "holding ?r" "''i''" ?r arc 5 "hash_of (CHR ''1'')" None False] by simp
  then show ?thesis by (simp add: update_rows_def holding_def sent_def)
qed

section \<open>Idempotency keys\<close>

text \<open>The form of a version-5 UUID of the RFC 4122 variant, in lower case.\<close>

definition is_lower_hex :: "char \<Rightarrow> bool" where
  "is_lower_hex c \<longleftrightarrow> is_hex c \<and> lower_char c = c"

definition is_uuid_v5 :: "string \<Rightarrow> bool" where
  "is_uuid_v5 u \<longleftrightarrow> length u = 36 \<and>
     (\<forall>k\<in>{8, 13, 18, 23}. u ! k = CHR ''-'') \<and> u ! 14 = CHR ''5'' \<and>
     u ! 19 \<in> {CHR ''8'', CHR ''9'', CHR ''a'', CHR ''b''} \<and>
     (\<forall>k\<in>{..<36} - {8, 13, 18, 23}. is_lower_hex (u ! k))"

lemma hex_chars:
  "hex_char 8 = CHR ''8''" "hex_char 9 = CHR ''9''" "hex_char 10 = CHR ''a''" "hex_char 11 = CHR ''b''"
  by code_simp+

lemma nth_dash:
  "(a @ ''-'' @ b) ! k =
     (if k < length a then a ! k else if k = length a then CHR ''-'' else b ! (k - length a - 1))"
  by (simp add: nth_append nth_Cons')

text \<open>
  The idempotency key of an intent is a well-formed version-5 UUID, for every 32-byte SHA-256 digest
  in lower-case hexadecimal.
\<close>

theorem idempotency_key_uuid:
  assumes "canonicalize E R x = Inr c"
    and "\<And>m. length (sha256 E m) = 64 \<and> list_all is_lower_hex (sha256 E m)"
  shows "is_uuid_v5 (idempotencyKey c)"
proof -
  define h where "h = sha256 E (''wizpay:'' @ requestFingerprint c)"
  have key: "idempotencyKey c = uuidFromHash h"
    unfolding h_def by (rule canonicalize_Inr [OF assms(1)])
  have len: "length h = 64" and hex: "\<And>k. k < 64 \<Longrightarrow> is_lower_hex (h ! k)"
    using assms(2) [of "''wizpay:'' @ requestFingerprint c"] by (auto simp: h_def list_all_length)
  define v where "v = (take 32 h)[12 := CHR ''5'', 16 := hex_char (8 + hex_val (((take 32 h)[12 := CHR ''5'']) ! 16) mod 4)]"
  have v: "length v = 32" by (simp add: v_def len)
  define d where "d = hex_val (((take 32 h)[12 := CHR ''5'']) ! 16) mod 4"
  have "d < 4" by (simp add: d_def)
  then consider "8 + d = 8" | "8 + d = 9" | "8 + d = 10" | "8 + d = 11" by linarith
  then have variant: "hex_char (8 + d) \<in> {CHR ''8'', CHR ''9'', CHR ''a'', CHR ''b''}"
  proof cases
  qed (simp_all only: hex_chars, simp_all)
  have v12: "v ! 12 = CHR ''5''" and v16: "v ! 16 = hex_char (8 + d)"
    by (simp_all add: v_def d_def len)
  have digits: "is_lower_hex (v ! k)" if "k < 32" for k
  proof -
    have "is_lower_hex (CHR ''5'')" "is_lower_hex (hex_char (8 + d))"
      using variant by (auto simp: is_lower_hex_def is_hex_def lower_char_def)
    then show ?thesis using that v12 v16 hex [of k] len
      by (cases "k = 12"; cases "k = 16") (auto simp: v_def)
  qed
  have u: "uuidFromHash h = take 8 v @ ''-'' @ take 4 (drop 8 v) @ ''-'' @ take 4 (drop 12 v) @ ''-'' @
         take 4 (drop 16 v) @ ''-'' @ drop 20 v"
    by (simp add: uuidFromHash_def Let_def v_def)
  have at: "uuidFromHash h ! k =
      (if k < 8 then v ! k else if k = 8 then CHR ''-'' else if k < 13 then v ! (k - 1)
       else if k = 13 then CHR ''-'' else if k < 18 then v ! (k - 2) else if k = 18 then CHR ''-''
       else if k < 23 then v ! (k - 3) else if k = 23 then CHR ''-'' else v ! (k - 4))"
    if "k < 36" for k
  proof -
    have blocks: "length (take 8 v) = 8" "length (take 4 (drop 8 v)) = 4" "length (take 4 (drop 12 v)) = 4"
      "length (take 4 (drop 16 v)) = 4"
      using v by simp_all
    have shift: "\<exists>j<n. k = a + j" if "a \<le> k \<and> k < a + n" for a n
      using that by (intro exI [of _ "k - a"] conjI) arith+
    have "k < 8 \<or> k = 8 \<or> (9 \<le> k \<and> k < 9 + 4) \<or> k = 13 \<or> (14 \<le> k \<and> k < 14 + 4) \<or> k = 18 \<or>
        (19 \<le> k \<and> k < 19 + 4) \<or> k = 23 \<or> (24 \<le> k \<and> k < 24 + 12)"
      using \<open>k < 36\<close> by linarith
    then consider "k < 8" | "k = 8" | j where "k = 9 + j" "j < 4" | "k = 13" | j where "k = 14 + j" "j < 4"
      | "k = 18" | j where "k = 19 + j" "j < 4" | "k = 23" | j where "k = 24 + j" "j < 12"
      using shift by blast
    then show ?thesis by cases (simp_all add: u nth_dash blocks v del: append.simps)
  qed
  have "is_lower_hex (uuidFromHash h ! k)" if "k < 36" "k \<notin> {8, 13, 18, 23}" for k
    using that by (auto simp: at intro!: digits)
  moreover have "length (uuidFromHash h) = 36" using v unfolding u by simp
  ultimately show ?thesis
    unfolding key is_uuid_v5_def using v12 v16 variant by (simp add: at)
qed

theorem idempotency_key_uuid_witness:
  "\<exists>c. canonicalize (short_evm\<lparr>sha256 := (\<lambda>m. replicate 64 (CHR ''a''))\<rparr>) arc pay = Inr c \<and>
     is_uuid_v5 (idempotencyKey c)"
proof -
  have "\<exists>c. canonicalize (short_evm\<lparr>sha256 := (\<lambda>m. replicate 64 (CHR ''a''))\<rparr>) arc pay = Inr c"
    by (simp add: evaluate_acquire)
  then obtain c where c: "canonicalize (short_evm\<lparr>sha256 := (\<lambda>m. replicate 64 (CHR ''a''))\<rparr>) arc pay = Inr c"
    by blast
  from idempotency_key_uuid [OF c] have "is_uuid_v5 (idempotencyKey c)"
    by (simp add: is_lower_hex_def list_all_length)
  with c show ?thesis by blast
qed

end
