(* ===== verification/Chain.thy ===== *)
theory Chain
  imports Schema
begin

text \<open>
  What the receipt verifiers read from a chain through viem's public client, and the decoders of viem
  they apply to it.  Both are parameters of the model: a \<open>chain\<close> is one consistent set of RPC answers
  (\<open>None\<close> where the call throws), an \<open>abi\<close> the decoding functions (\<open>None\<close> where they throw).
\<close>

record chain_log =
  logAddress :: string
  logTopics :: "string list"
  logData :: string

record chain_tx =
  ctHash :: string
  ctChainId :: "nat option"
  ctValue :: nat
  ctFrom :: string
  ctTo :: "string option"
  ctInput :: string

record chain_receipt =
  crHash :: string
  crSuccess :: bool
  crBlock :: nat
  crFrom :: string
  crTo :: "string option"
  crLogs :: "chain_log list"

record chain =
  getChainId :: "nat option"
  getTransaction :: "string \<Rightarrow> chain_tx option"
  getTransactionReceipt :: "string \<Rightarrow> chain_receipt option"
  getBlockNumber :: "nat option"

record abi =
  decodeTransferCall :: "string \<Rightarrow> (string \<times> nat) option"
  decodeTransferEvent :: "chain_log \<Rightarrow> (string \<times> string \<times> nat) option"

section \<open>BigInt\<close>

definition read_base :: "nat \<Rightarrow> string \<Rightarrow> nat" where
  "read_base b s = foldl (\<lambda>a c. b * a + hex_val c) 0 s"

definition sign_of :: "string \<Rightarrow> int" where
  "sign_of s = (if take 1 s = ''-'' then - 1 else 1)"

definition unsigned :: "string \<Rightarrow> string" where
  "unsigned s = (if take 1 s = ''-'' \<or> take 1 s = ''+'' then drop 1 s else s)"

definition octal :: "char \<Rightarrow> bool" where
  "octal c \<longleftrightarrow> is_digit c \<and> digit_val c < 8"

definition binary :: "char \<Rightarrow> bool" where
  "binary c \<longleftrightarrow> is_digit c \<and> digit_val c < 2"

definition numeral_of :: "(char \<Rightarrow> bool) \<Rightarrow> string \<Rightarrow> bool" where
  "numeral_of p s \<longleftrightarrow> s \<noteq> [] \<and> list_all p s"

text \<open>\<open>BigInt(s)\<close> on strings; a string that is no numeral is a SyntaxError.\<close>

definition toBigInt :: "string \<Rightarrow> int res" where
  "toBigInt s =
     (let t = js_trim s in
      if t = [] then Inr 0
      else if take 2 t \<in> {''0x'', ''0X''} \<and> numeral_of is_hex (drop 2 t)
      then Inr (int (read_base 16 (drop 2 t)))
      else if take 2 t \<in> {''0o'', ''0O''} \<and> numeral_of octal (drop 2 t)
      then Inr (int (read_base 8 (drop 2 t)))
      else if take 2 t \<in> {''0b'', ''0B''} \<and> numeral_of binary (drop 2 t)
      then Inr (int (read_base 2 (drop 2 t)))
      else if numeral_of is_digit (unsigned t) then Inr (sign_of t * int (read_nat (unsigned t)))
      else Inl (PlainError ''SyntaxError''))"

definition show_int :: "int \<Rightarrow> string" where
  "show_int n = (if n < 0 then CHR ''-'' # show_nat (nat (- n)) else show_nat (nat n))"

lemma digit_not_space: "is_digit c \<Longrightarrow> \<not> is_space c"
  by (simp add: is_digit_def is_space_def Let_def)

lemma trim_digits: "list_all is_digit s \<Longrightarrow> js_trim s = s"
proof -
  assume s: "list_all is_digit s"
  then have "dropWhile is_space s = s" by (cases s) (auto dest: digit_not_space)
  moreover have "list_all is_digit (rev s)" using s by (simp add: list_all_iff)
  then have "dropWhile is_space (rev s) = rev s" by (cases "rev s") (auto dest: digit_not_space)
  ultimately show ?thesis by (simp add: js_trim_def)
qed

lemma not_digit_letters:
  "\<not> is_digit (CHR ''x'')" "\<not> is_digit (CHR ''X'')" "\<not> is_digit (CHR ''o'')" "\<not> is_digit (CHR ''O'')"
  "\<not> is_digit (CHR ''b'')" "\<not> is_digit (CHR ''B'')" "\<not> is_digit (CHR ''-'')" "\<not> is_digit (CHR ''+'')"
  by (simp_all add: is_digit_def)

lemma toBigInt_digits:
  assumes "list_all is_digit s" "s \<noteq> []"
  shows "toBigInt s = Inr (int (read_nat s))"
proof -
  obtain c cs where s: "s = c # cs" using assms(2) by (cases s) auto
  have c: "is_digit c" "c \<noteq> CHR ''-''" "c \<noteq> CHR ''+''" using assms(1) s not_digit_letters by auto
  have "take 2 s \<notin> {''0x'', ''0X'', ''0o'', ''0O'', ''0b'', ''0B''}"
    using assms(1) s not_digit_letters by (cases cs) auto
  then show ?thesis
    using c assms
    by (simp add: toBigInt_def trim_digits [OF assms(1)] Let_def numeral_of_def unsigned_def sign_of_def)
      (simp add: s)
qed

lemma toBigInt_positive: "positive_uint s \<Longrightarrow> toBigInt s = Inr (int (read_nat s))"
  by (rule toBigInt_digits) (auto simp: positive_uint_def split: list.splits)

lemma show_int_read [simp]: "positive_uint s \<Longrightarrow> show_int (int (read_nat s)) = s"
  by (simp add: show_int_def)

text \<open>\<open>Number.MAX_SAFE_INTEGER\<close>\<close>

definition MAX_SAFE_INTEGER :: nat where
  "MAX_SAFE_INTEGER = 9007199254740991"

section \<open>Filters that may throw\<close>

fun filterR :: "('a \<Rightarrow> bool res) \<Rightarrow> 'a list \<Rightarrow> 'a list res" where
  "filterR p [] = Inr []"
| "filterR p (x # xs) =
     bindR (p x) (\<lambda>b. bindR (filterR p xs) (\<lambda>ys. Inr (if b then x # ys else ys)))"

lemma filterR_Inr: "filterR p xs = Inr ys \<Longrightarrow> ys = filter (\<lambda>x. p x = Inr True) xs"
  by (induction xs arbitrary: ys) auto

lemma filterR_total:
  "(\<And>x. x \<in> set xs \<Longrightarrow> p x = Inr (q x)) \<Longrightarrow> filterR p xs = Inr (filter q xs)"
  by (induction xs) auto

lemma fails_filterR: "(\<And>x. fails_in S (p x)) \<Longrightarrow> fails_in S (filterR p xs)"
  by (induction xs) (auto intro: fails_rules)

lemma fails_toBigInt: "range PlainError \<subseteq> S \<Longrightarrow> fails_in S (toBigInt s)"
  by (auto simp: toBigInt_def Let_def fails_in_def)

text \<open>A conjunction evaluated from left to right, whose conjuncts may throw.\<close>

fun allR :: "bool res list \<Rightarrow> bool res" where
  "allR [] = Inr True"
| "allR (x # xs) = bindR x (\<lambda>b. if b then allR xs else Inr False)"

lemma allR_True: "allR xs = Inr True \<longleftrightarrow> (\<forall>x\<in>set xs. x = Inr True)"
  by (induction xs) auto

fun mapR :: "('a \<Rightarrow> 'b res) \<Rightarrow> 'a list \<Rightarrow> 'b list res" where
  "mapR f [] = Inr []"
| "mapR f (x # xs) = bindR (f x) (\<lambda>y. bindR (mapR f xs) (\<lambda>ys. Inr (y # ys)))"

lemma mapR_Inr: "mapR f xs = Inr ys \<longleftrightarrow> list_all2 (\<lambda>x y. f x = Inr y) xs ys"
  by (induction xs arbitrary: ys) (auto simp: list_all2_Cons1)

text \<open>A chain of tests inside a \<open>try\<close>: \<open>None\<close> where one throws, else whether all hold, from left to right.\<close>

fun all_checks :: "bool option list \<Rightarrow> bool option" where
  "all_checks [] = Some True"
| "all_checks (None # _) = None"
| "all_checks (Some b # xs) = (if b then all_checks xs else Some False)"

lemma all_checks_True: "all_checks xs = Some True \<longleftrightarrow> (\<forall>x\<in>set xs. x = Some True)"
  by (induction xs rule: all_checks.induct) auto

text \<open>\<open>isAddressEqual\<close> outside of a \<open>try\<close>, and inside one whose \<open>catch\<close> answers \<open>false\<close>.\<close>

definition equalR :: "evm \<Rightarrow> string \<Rightarrow> string \<Rightarrow> bool res" where
  "equalR E a b = fromSome (PlainError ''InvalidAddressError'') (isAddressEqual E a b)"

lemma equalR_lower: "evm_laws E \<Longrightarrow> equalR E a b = Inr True \<Longrightarrow> toLowerCase a = toLowerCase b"
  by (auto simp: equalR_def isAddressEqual_iff)

definition equal_or_false :: "evm \<Rightarrow> string \<Rightarrow> string \<Rightarrow> bool" where
  "equal_or_false E a b = (isAddressEqual E a b = Some True)"

definition checksum :: "evm \<Rightarrow> string \<Rightarrow> string res" where
  "checksum E a = fromSome (PlainError ''InvalidAddressError'') (getAddress E a)"

lemma checksum_lower:
  assumes "evm_laws E" "checksum E a = Inr c"
  shows "toLowerCase c = toLowerCase a" "getAddress E c = Some c"
  using getAddress_Some(1) [OF assms(1)] getAddress_canonical [OF assms(1)] assms(2)
  by (auto simp: checksum_def)

text \<open>\<open>isAddressEqual(getAddress(a), b)\<close> inside such a \<open>try\<close>.\<close>

definition is_account :: "evm \<Rightarrow> string \<Rightarrow> string \<Rightarrow> bool" where
  "is_account E a b = (case getAddress E a of None \<Rightarrow> False | Some c \<Rightarrow> isAddressEqual E c b = Some True)"

lemma is_account_lower: "evm_laws E \<Longrightarrow> is_account E a b \<Longrightarrow> toLowerCase a = toLowerCase b"
  by (auto simp: is_account_def isAddressEqual_iff dest: getAddress_Some split: option.splits)

text \<open>\<open>current >= block ? current - block + 1 : 0\<close>\<close>

definition confirmations :: "nat \<Rightarrow> nat \<Rightarrow> nat" where
  "confirmations current block = (if block \<le> current then current - block + 1 else 0)"

end
