(* ===== verification/DirectTransfer.thy ===== *)
theory DirectTransfer
  imports IntentTheorems Chain
begin

text \<open>
  \<open>DirectTransferReceiptVerifierService\<close>
  (\<open>apps/backend/src/execution-intent/direct-transfer-receipt-verifier.service.ts\<close>): the check of a
  single token transfer against the chain, and its use by \<open>POST execution-intents/:id/verify\<close>.
\<close>

definition RECEIPT_PENDING :: exn where
  "RECEIPT_PENDING = ServiceUnavailable ''EXECUTION_INTENT_RECEIPT_PENDING'' True"
definition RECEIPT_REJECTED :: exn where
  "RECEIPT_REJECTED = Unprocessable ''EXECUTION_INTENT_RECEIPT_MISMATCH'' False"

record arc_network =
  arcKey :: string
  arcChainId :: nat

definition transferLog :: "evm \<Rightarrow> abi \<Rightarrow> string \<Rightarrow> string \<Rightarrow> string \<Rightarrow> int \<Rightarrow> chain_log \<Rightarrow> bool res" where
  "transferLog E A token payer payee amount l =
     bindR (equalR E (logAddress l) token) (\<lambda>same.
     Inr (same \<and>
       (case decodeTransferEvent A l of
          None \<Rightarrow> False
        | Some (src, dst, v) \<Rightarrow> is_account E src payer \<and> is_account E dst payee \<and> int v = amount)))"

definition verifyTransfer ::
  "evm \<Rightarrow> abi \<Rightarrow> arc_network \<Rightarrow> nat \<Rightarrow> chain \<Rightarrow> transfer_query \<Rightarrow> verified_receipt res" where
  "verifyTransfer E A N required C q =
     (let hash = qHash q in
     bindR (fromSome RECEIPT_PENDING (getChainId C)) (\<lambda>provider.
     bindR (fromSome RECEIPT_PENDING (getTransaction C hash)) (\<lambda>tx.
     bindR (fromSome RECEIPT_PENDING (getTransactionReceipt C hash)) (\<lambda>rcp.
     bindR (ensureR (provider = arcChainId N) RECEIPT_REJECTED) (\<lambda>_.
     bindR (ensureR (toLowerCase (ctHash tx) = toLowerCase hash \<and>
                     toLowerCase (crHash rcp) = toLowerCase hash) RECEIPT_REJECTED) (\<lambda>_.
     bindR (ensureR (crSuccess rcp) RECEIPT_REJECTED) (\<lambda>_.
     bindR (ensureR (ctChainId tx = Some (arcChainId N)) RECEIPT_REJECTED) (\<lambda>_.
     bindR (ensureR (ctValue tx = 0) RECEIPT_REJECTED) (\<lambda>_.
     bindR (checksum E (qSender q)) (\<lambda>payer.
     bindR (checksum E (qRecipient q)) (\<lambda>payee.
     bindR (checksum E (qToken q)) (\<lambda>token.
     bindR (toBigInt (qAmount q)) (\<lambda>amount.
     bindR (if truthy (ctTo tx)
            then bindR (checksum E (the (ctTo tx))) (\<lambda>target.
                 bindR (equalR E target token) (\<lambda>right.
                 if right then bindR (checksum E (ctFrom tx)) (\<lambda>from. equalR E from payer)
                 else Inr False))
            else Inr False) (\<lambda>parties.
     bindR (ensureR parties RECEIPT_REJECTED) (\<lambda>_.
     bindR (ensureR (case decodeTransferCall A (ctInput tx) of
                       None \<Rightarrow> False
                     | Some (dst, v) \<Rightarrow> equal_or_false E dst payee \<and> int v = amount)
              RECEIPT_REJECTED) (\<lambda>_.
     bindR (filterR (transferLog E A token payer payee amount) (crLogs rcp)) (\<lambda>matches.
     bindR (ensureR (length matches = 1) RECEIPT_REJECTED) (\<lambda>_.
     bindR (fromSome RECEIPT_PENDING (getBlockNumber C)) (\<lambda>current.
     bindR (ensureR (required \<le> confirmations current (crBlock rcp)) RECEIPT_PENDING) (\<lambda>_.
     Inr \<lparr>rcNetwork = arcKey N, rcHash = hash, rcSource = payer, rcToken = token,
          rcRecipient = Some payee, rcBatchDigest = None,
          rcAmount = show_int amount\<rparr>))))))))))))))))))))"

section \<open>The interface to the intents\<close>

text \<open>
  What \<open>POST :id/verify\<close> needs of a receipt verifier: a receipt it returns is for the network of the
  service and describes the transfer it was asked for.
\<close>

locale receipt_verifier =
  fixes E :: evm and net :: string and verify :: "transfer_query \<Rightarrow> verified_receipt res"
  assumes verified: "evm_laws E \<Longrightarrow> verify q = Inr rc \<Longrightarrow>
      rcNetwork rc = net \<and> rcHash rc = qHash q \<and>
      getAddress E (qSender q) = Some (rcSource rc) \<and> getAddress E (qToken q) = Some (rcToken rc) \<and>
      rcRecipient rc \<noteq> None \<and> getAddress E (qRecipient q) = rcRecipient rc \<and>
      (positive_uint (qAmount q) \<longrightarrow> rcAmount rc = qAmount q)"
    and no_conflict: "verify q \<noteq> Inl RECEIPT_MISMATCH"
begin

lemma same_canonical: "evm_laws E \<Longrightarrow> getAddress E a = Some c \<Longrightarrow> sameAddress E a c = Inr True"
  using getAddress_canonical isAddressEqual_canonical by (simp add: sameAddress_def fromSome_def)

text \<open>The intent whose fields were queried is matched by the answer.\<close>

lemma matches:
  assumes "evm_laws E" "verify \<lparr>qHash = h, qSender = sourceWallet r, qRecipient = the (recipient r),
      qToken = tokenOut r, qAmount = amountUnits r\<rparr> = Inr rc"
    and "status r = VERIFYING \<or> status r = COMPLETED" "transactionHash r = Some h" "toLowerCase h = h"
      "truthy (recipient r)" "intentNetwork r = net" "positive_uint (amountUnits r)"
  shows "receiptMatches E r (toLowerCase (rcHash rc)) rc = Inr True"
proof -
  note v = verified [OF assms(1,2), simplified]
  then obtain x where x: "rcRecipient rc = Some x" "getAddress E (the (recipient r)) = Some x" by auto
  have "x \<noteq> []" using getAddress_Some(3) [OF assms(1) x(2)] by (auto simp: is_hex_string_def)
  with v x assms(3-) same_canonical [OF assms(1)] show ?thesis
    by (simp add: receiptMatches_def andR_def)
qed

text \<open>
  Once the verifier has answered, the intent is completed: the endpoint does not refuse a receipt as
  mismatched.
\<close>

lemma completes:
  assumes "evm_laws E" "intents_ok (intents s)" "lookup i s = Some r" "intentNetwork r = network R"
      "network R = net" "positive_uint (amountUnits r)" "truthy (recipient r)" "operation r = OP_SEND"
      "transactionHash r = Some h" "verifiable (status r) \<or> status r \<in> {VERIFYING, COMPLETED}"
    and "verify \<lparr>qHash = h, qSender = sourceWallet r, qRecipient = the (recipient r),
      qToken = tokenOut r, qAmount = amountUnits r\<rparr> = Inr rc"
  shows "\<exists>r' t. verifyEndpoint E R now verify i (idempotencyKey r) s = (Inr r', t) \<and>
    status r' = COMPLETED \<and> fixed_columns r' = fixed_columns r"
proof -
  have uniq: "intents_unique (intents s)" and row: "row_ok r"
    using assms(2) find_row_Some [OF assms(3)] by (auto simp: intents_ok_def list_all_iff)
  define q where "q = (if verifiable (status r) then moved now VERIFYING r else r)"
  obtain u where started: "beginVerification R now i s = (Inr q, u)" "lookup i u = Some q"
      "intents_unique (intents u)"
    using beginVerification_facts [OF uniq assms(3,4), of now] unfolding q_def by blast
  have q: "status q = VERIFYING \<or> status q = COMPLETED" "transactionHash q = Some h"
    "recipient q = recipient r" "intentNetwork q = network R" "amountUnits q = amountUnits r"
    "sourceWallet q = sourceWallet r" "tokenOut q = tokenOut r" "operation q = operation r"
    "fixed_columns q = fixed_columns r"
    using assms(4,9,10) by (auto simp: q_def) (simp_all add: moved_def)
  have h: "is_hash h" "toLowerCase h = h" "h \<noteq> []"
    using row assms(9) by (auto simp: row_ok_def is_hex_string_def)
  have "receiptMatches E q (toLowerCase (rcHash rc)) rc = Inr True"
    using matches [of h q rc] assms(1,5-7,11) h q by simp
  moreover have "transactionHashOf (rcHash rc) = Inr h" "toLowerCase (rcHash rc) = h"
    using verified [OF assms(1,11)] h by (simp_all add: transactionHashOf_cases)
  moreover have "getIntent R i u = (Inr q, u)" using started(2) q(4) by (simp add: getIntent_eq)
  ultimately have complete: "completeWithVerifiedReceipt E R now i rc u =
      (if status q = COMPLETED then ok q else transition R now i VERIFYING COMPLETED no_data) u"
    by (simp add: completeWithVerifiedReceipt_def andThen_def lift_def ensure_def)
  have "\<exists>r' t. completeWithVerifiedReceipt E R now i rc u = (Inr r', t) \<and> status r' = COMPLETED \<and>
      fixed_columns r' = fixed_columns r"
  proof (cases "status q = COMPLETED")
    case True
    with complete q show ?thesis by (simp add: ok_def)
  next
    case False
    with q have "status q = VERIFYING" by simp
    from transition_moves(1) [OF started(3) _ started(2) q(4), where nxt = COMPLETED and now = now] this False complete q(9)
    show ?thesis by simp
  qed
  moreover have "assertAccess R i (idempotencyKey r) s = (Inr r, s)"
    using assms(3,4) by (simp add: assertAccess_def getIntent_eq andThen_def ensure_def ok_def)
  ultimately show ?thesis
    using started(1) q h(3) assms(7,8,11)
    by (simp add: verifyEndpoint_def andThen_def ensure_def lift_def)
qed

end

section \<open>The verifier provides the interface\<close>

lemma verifyTransfer_Inr:
  assumes "verifyTransfer E A N required C q = Inr rc"
  obtains tx rcp payer payee token amount current where
    "getTransaction C (qHash q) = Some tx" "getTransactionReceipt C (qHash q) = Some rcp"
    "getChainId C = Some (arcChainId N)" "getBlockNumber C = Some current"
    "toLowerCase (ctHash tx) = toLowerCase (qHash q)" "toLowerCase (crHash rcp) = toLowerCase (qHash q)"
    "crSuccess rcp" "ctChainId tx = Some (arcChainId N)" "ctValue tx = 0"
    "getAddress E (qSender q) = Some payer" "getAddress E (qRecipient q) = Some payee"
    "getAddress E (qToken q) = Some token" "toBigInt (qAmount q) = Inr amount"
    "\<exists>t c. ctTo tx = Some t \<and> getAddress E t = Some c \<and> isAddressEqual E c token = Some True"
    "\<exists>c. getAddress E (ctFrom tx) = Some c \<and> isAddressEqual E c payer = Some True"
    "\<exists>dst v. decodeTransferCall A (ctInput tx) = Some (dst, v) \<and> equal_or_false E dst payee \<and> int v = amount"
    "length (filter (\<lambda>l. transferLog E A token payer payee amount l = Inr True) (crLogs rcp)) = 1"
    "required \<le> confirmations current (crBlock rcp)"
    "rc = \<lparr>rcNetwork = arcKey N, rcHash = qHash q, rcSource = payer, rcToken = token,
       rcRecipient = Some payee, rcBatchDigest = None, rcAmount = show_int amount\<rparr>"
  using assms unfolding verifyTransfer_def Let_def checksum_def equalR_def
  by (auto simp: truthy_def dest!: filterR_Inr split: if_splits option.splits prod.splits)

lemma fails_transferLog:
  "fails_in ({RECEIPT_PENDING, RECEIPT_REJECTED} \<union> range PlainError) (transferLog E A token payer payee amount l)"
  unfolding transferLog_def equalR_def by (intro fails_rules) auto

lemma verifyTransfer_errors:
  "fails_in ({RECEIPT_PENDING, RECEIPT_REJECTED} \<union> range PlainError) (verifyTransfer E A N required C q)"
  unfolding verifyTransfer_def Let_def checksum_def equalR_def
  by (intro fails_rules fails_filterR fails_transferLog fails_toBigInt) auto

interpretation direct: receipt_verifier E "arcKey N" "verifyTransfer E A N required C"
  for E A N required C
proof
  fix q rc
  assume E: "evm_laws E" and v: "verifyTransfer E A N required C q = Inr rc"
  show "rcNetwork rc = arcKey N \<and> rcHash rc = qHash q \<and>
      getAddress E (qSender q) = Some (rcSource rc) \<and> getAddress E (qToken q) = Some (rcToken rc) \<and>
      rcRecipient rc \<noteq> None \<and> getAddress E (qRecipient q) = rcRecipient rc \<and>
      (positive_uint (qAmount q) \<longrightarrow> rcAmount rc = qAmount q)"
    by (rule verifyTransfer_Inr [OF v]) (auto simp: toBigInt_positive)
next
  show "verifyTransfer E A N required C q \<noteq> Inl RECEIPT_MISMATCH" for q
    using fails_inD [OF verifyTransfer_errors]
    by (fastforce simp: RECEIPT_PENDING_def RECEIPT_REJECTED_def RECEIPT_MISMATCH_def)
qed

section \<open>What the endpoint promises\<close>

text \<open>
  C4: \<open>POST :id/verify\<close> completes an intent only when its exact transfer is on the chain.  If the
  endpoint returns, the intent is completed and carries a hash whose transaction, on the selected Arc
  chain, succeeded, called the intent's token from the intent's wallet without native value, with
  calldata that transfers exactly the intent's amount to the intent's recipient; exactly one log of the
  receipt is that transfer; and the receipt has the required number of confirmations.
\<close>

theorem verified_payment_on_chain:
  assumes "verifyEndpoint E R now (verifyTransfer E A N required C) i key s = (Inr r', t)"
    and "evm_laws E" "intents_ok (intents s)" "positive_uint (amountUnits r')"
  shows "\<exists>h tx rcp dst v current l src to. status r' = COMPLETED \<and> lookup i t = Some r' \<and>
    transactionHash r' = Some h \<and> getTransaction C h = Some tx \<and> getTransactionReceipt C h = Some rcp \<and>
    getChainId C = Some (arcChainId N) \<and> ctChainId tx = Some (arcChainId N) \<and>
    crSuccess rcp \<and> ctValue tx = 0 \<and>
    toLowerCase (ctFrom tx) = toLowerCase (sourceWallet r') \<and>
    map_option toLowerCase (ctTo tx) = Some (toLowerCase (tokenOut r')) \<and>
    decodeTransferCall A (ctInput tx) = Some (dst, v) \<and> show_nat v = amountUnits r' \<and>
    toLowerCase dst = toLowerCase (the (recipient r')) \<and>
    l \<in> set (crLogs rcp) \<and> toLowerCase (logAddress l) = toLowerCase (tokenOut r') \<and>
    decodeTransferEvent A l = Some (src, to, v) \<and> toLowerCase src = toLowerCase (sourceWallet r') \<and>
    toLowerCase to = toLowerCase (the (recipient r')) \<and>
    getBlockNumber C = Some current \<and> required \<le> confirmations current (crBlock rcp)"
proof -
  obtain q r rc u where rc: "verifyTransfer E A N required C \<lparr>qHash = the (transactionHash r),
        qSender = sourceWallet r, qRecipient = the (recipient r), qToken = tokenOut r,
        qAmount = amountUnits r\<rparr> = Inr rc"
    and complete: "completeWithVerifiedReceipt E R now i rc u = (Inr r', t)"
    and started: "beginVerification R now i s = (Inr r, u)"
    and q: "lookup i s = Some q" "intentNetwork q = network R" and hash: "truthy (transactionHash r)"
    using assms(1) by (auto simp: verifyEndpoint_def andThen_Inr_iff assertAccess_def getIntent_Inr)
  have "intent_run s u" by (rule keepsD [OF run_begin started])
  then have okU: "intents_ok (intents u)" using intents_ok_run [OF _ assms(3)] by (simp add: via_def)
  have row: "lookup i u = Some r"
    using beginVerification_facts [OF _ q, of now] started assms(3) by (auto simp: intents_ok_def)
  then have "row_ok r" using okU find_row_Some [OF row] by (auto simp: intents_ok_def list_all_iff)
  with hash obtain h where h: "transactionHash r = Some h" "toLowerCase h = h"
    by (auto simp: row_ok_def truthy_def)
  from complete_facts [OF complete assms(2) okU] row
  have r': "lookup i t = Some r'" "status r' = COMPLETED" "fixed_columns r' = fixed_columns r"
      "transactionHash r' = Some (toLowerCase (rcHash rc))" by auto
  then have cols: "sourceWallet r' = sourceWallet r" "recipient r' = recipient r" "tokenOut r' = tokenOut r"
      "amountUnits r' = amountUnits r" by (simp_all add: fixed_columns_def)
  show ?thesis
  proof (rule verifyTransfer_Inr [OF rc], goal_cases)
    case (1 tx rcp payer payee token amount current)
    note v = 1 [simplified]
    have amount: "amount = int (read_nat (amountUnits r))"
      using v(13) assms(4) cols by (simp add: toBigInt_positive)
    obtain dst w where call: "decodeTransferCall A (ctInput tx) = Some (dst, w)"
      "equal_or_false E dst payee" "int w = amount" using v(16) by blast
    have lower: "toLowerCase payer = toLowerCase (sourceWallet r)" "toLowerCase payee = toLowerCase (the (recipient r))"
      "toLowerCase token = toLowerCase (tokenOut r)"
      using getAddress_Some(1) [OF assms(2)] v(10,11,12) by auto
    have eq: "toLowerCase a = toLowerCase b" if "isAddressEqual E a b = Some True" for a b
      using that isAddressEqual_iff [OF assms(2)] by auto
    obtain l where l: "l \<in> set (crLogs rcp)" "transferLog E A token payer payee amount l = Inr True"
    proof (cases "filter (\<lambda>l. transferLog E A token payer payee amount l = Inr True) (crLogs rcp)")
      case Nil
      with v(17) show ?thesis by simp
    next
      case (Cons l ls)
      then have "l \<in> set (filter (\<lambda>l. transferLog E A token payer payee amount l = Inr True) (crLogs rcp))"
        by simp
      then show ?thesis using that [of l] by simp
    qed
    then obtain src to where event: "decodeTransferEvent A l = Some (src, to, w)"
        "is_account E src payer" "is_account E to payee" "isAddressEqual E (logAddress l) token = Some True"
      using call(3) by (auto simp: transferLog_def equalR_def split: option.splits)
    note account = is_account_lower [OF assms(2)]
    have "show_nat w = amountUnits r"
      using amount call(3) assms(4) cols by simp
    then have w: "show_nat w = amountUnits r'" by (simp add: cols)
    have origin: "toLowerCase (ctFrom tx) = toLowerCase (sourceWallet r')"
      using v(15) eq lower(1) cols(1) getAddress_Some(1) [OF assms(2)] by metis
    have target: "map_option toLowerCase (ctTo tx) = Some (toLowerCase (tokenOut r'))"
      using v(14) eq lower(3) cols(3) getAddress_Some(1) [OF assms(2)] by (metis option.simps(9))
    have payee: "toLowerCase dst = toLowerCase (the (recipient r'))"
      using call(2) eq lower(2) cols(2) by (simp add: equal_or_false_def)
    have log: "toLowerCase (logAddress l) = toLowerCase (tokenOut r')"
        "toLowerCase src = toLowerCase (sourceWallet r')" "toLowerCase to = toLowerCase (the (recipient r'))"
      using event(2-) account eq lower cols by simp_all
    have bound: "transactionHash r' = Some h" using r'(4) v(19) h by simp
    have chain: "getTransaction C h = Some tx" "getTransactionReceipt C h = Some rcp"
      using v(1,2) h(1) by simp_all
    show ?case
      using r'(1,2) bound chain v(3,4,7-9,18) origin target call(1) w payee l(1) log event(1) by blast
  qed
qed

text \<open>A chain with one confirmed transfer, on which the theorems are exercised.\<close>

definition one_transfer :: abi where
  "one_transfer = \<lparr>decodeTransferCall = (\<lambda>_. Some (addr (CHR ''b''), 250)),
     decodeTransferEvent = (\<lambda>_. Some (addr (CHR ''a''), addr (CHR ''b''), 250))\<rparr>"

definition one_chain :: chain where
  "one_chain = \<lparr>getChainId = Some 5042,
     getTransaction = (\<lambda>h. Some \<lparr>ctHash = h, ctChainId = Some 5042, ctValue = 0, ctFrom = addr (CHR ''a''),
        ctTo = Some (addr (CHR ''5'')), ctInput = []\<rparr>),
     getTransactionReceipt = (\<lambda>h. Some \<lparr>crHash = h, crSuccess = True, crBlock = 7, crFrom = addr (CHR ''a''),
        crTo = Some (addr (CHR ''5'')),
        crLogs = [\<lparr>logAddress = addr (CHR ''5''), logTopics = [], logData = []\<rparr>]\<rparr>),
     getBlockNumber = Some 9\<rparr>"

definition arc_net :: arc_network where
  "arc_net = \<lparr>arcKey = ARC_MAINNET, arcChainId = 5042\<rparr>"

lemma amount_250: "toBigInt ''250'' = Inr 250" "positive_uint ''250''" "show_int 250 = ''250''"
proof -
  show pos: "positive_uint ''250''" by (simp add: positive_uint_def is_digit_def)
  have read: "read_nat ''250'' = 250" by (simp add: read_nat_def digit_val_def)
  show "toBigInt ''250'' = Inr 250" using toBigInt_positive [OF pos] read by simp
  show "show_int 250 = ''250''" using show_int_read [OF pos] read by simp
qed

lemma verify_one:
  "verifyTransfer lower_evm one_transfer arc_net 2 one_chain \<lparr>qHash = hash_of (CHR ''1''),
     qSender = addr (CHR ''a''), qRecipient = addr (CHR ''b''), qToken = addr (CHR ''5''), qAmount = ''250''\<rparr> =
   Inr paid_receipt"
  by (simp add: verifyTransfer_def one_chain_def one_transfer_def arc_net_def checksum_def lower_evm_def
      equalR_def equal_or_false_def transferLog_def is_account_def amount_250 confirmations_def
      paid_receipt_def fromSome_def ensureR_def)

lemma verify_endpoint_one:
  "verifyEndpoint lower_evm arc 7 (verifyTransfer lower_evm one_transfer arc_net 2 one_chain) ''i'' ''k'' (holding paid) =
     (Inr (moved 7 COMPLETED paid), holding (moved 7 COMPLETED paid))"
proof -
  have "assertAccess arc ''i'' ''k'' (holding paid) = (Inr paid, holding paid)"
    "beginVerification arc 7 ''i'' (holding paid) = (Inr paid, holding paid)"
    by (simp_all add: assertAccess_def beginVerification_def andThen_def getIntent_eq ensure_def ok_def
        paid_def sent_def arc_def)
  moreover have "transactionHash paid = Some (hash_of (CHR ''1''))" "recipient paid = Some (addr (CHR ''b''))"
    "operation paid = OP_SEND" "sourceWallet paid = addr (CHR ''a'')" "tokenOut paid = addr (CHR ''5'')"
    "amountUnits paid = ''250''"
    by (simp_all add: paid_def sent_def)
  ultimately show ?thesis
    using complete_paid by (simp add: verifyEndpoint_def andThen_def ensure_def lift_def verify_one)
qed

theorem verified_payment_on_chain_witness:
  "\<exists>tx. getTransaction one_chain (hash_of (CHR ''1'')) = Some tx \<and> ctValue tx = 0 \<and>
     toLowerCase (ctFrom tx) = toLowerCase (sourceWallet paid)"
proof -
  have fields: "amountUnits (moved 7 COMPLETED paid) = ''250''"
    "sourceWallet (moved 7 COMPLETED paid) = sourceWallet paid"
    "transactionHash (moved 7 COMPLETED paid) = Some (hash_of (CHR ''1''))"
    by (simp_all add: moved_def paid_def sent_def)
  have "intents_ok (intents (holding paid))" by (simp add: ok_paid)
  from verified_payment_on_chain [OF verify_endpoint_one lower_evm_laws this] fields amount_250(2)
  show ?thesis by auto
qed

text \<open>
  The endpoint never refuses a receipt its own verifier accepted.  For a submitted transfer intent,
  an answer of the verifier completes the intent; the immutable-receipt comparison of
  \<open>completeWithVerifiedReceipt\<close> cannot fail on it.
\<close>

theorem accepted_receipt_completes:
  assumes "evm_laws E" "intents_ok (intents s)" "lookup i s = Some r" "intentNetwork r = network R"
      "network R = arcKey N" "positive_uint (amountUnits r)" "truthy (recipient r)" "operation r = OP_SEND"
      "transactionHash r = Some h" "verifiable (status r) \<or> status r \<in> {VERIFYING, COMPLETED}"
    and "verifyTransfer E A N required C \<lparr>qHash = h, qSender = sourceWallet r, qRecipient = the (recipient r),
      qToken = tokenOut r, qAmount = amountUnits r\<rparr> = Inr rc"
  shows "\<exists>r' t. verifyEndpoint E R now (verifyTransfer E A N required C) i (idempotencyKey r) s = (Inr r', t) \<and>
    status r' = COMPLETED \<and> fixed_columns r' = fixed_columns r"
  by (rule direct.completes [OF assms])

theorem accepted_receipt_completes_witness:
  "\<exists>r' t. verifyEndpoint lower_evm arc 7 (verifyTransfer lower_evm one_transfer arc_net 2 one_chain) ''i'' ''k''
     (holding paid) = (Inr r', t) \<and> status r' = COMPLETED"
proof -
  have "lookup ''i'' (holding paid) = Some paid" "intentNetwork paid = network arc"
    "network arc = arcKey arc_net" "positive_uint (amountUnits paid)" "truthy (recipient paid)"
    "operation paid = OP_SEND" "transactionHash paid = Some (hash_of (CHR ''1''))"
    "verifiable (status paid) \<or> status paid \<in> {VERIFYING, COMPLETED}" "idempotencyKey paid = ''k''"
    "sourceWallet paid = addr (CHR ''a'')" "the (recipient paid) = addr (CHR ''b'')"
    "tokenOut paid = addr (CHR ''5'')" "amountUnits paid = ''250''"
    using amount_250(2) by (simp_all add: paid_def sent_def arc_def arc_net_def)
  with accepted_receipt_completes [OF lower_evm_laws _ this(1-8), of one_transfer 2 one_chain paid_receipt 7]
  show ?thesis using ok_paid verify_one by auto
qed

end
