(* ===== verification/Cctp.thy ===== *)
theory Cctp
  imports Chain
begin

text \<open>
  Circle CCTP V2 messages (\<open>apps/backend/src/bridge/bridge-message.ts\<close>): the decoder of the 148-byte
  header and the 228-byte burn body.  \<open>encode_cctp\<close> is the layout of such a message as the protocol
  defines it, the specification the decoder is measured against.
\<close>

section \<open>The decoder\<close>

record cctp =
  version :: nat
  cSourceDomain :: nat
  cDestinationDomain :: nat
  cNonce :: string
  sender :: string
  cRecipient :: string
  cDestinationCaller :: string
  cMinFinality :: nat
  finalityExecuted :: nat
  burnVersion :: nat
  burnToken :: string
  mintRecipient :: string
  cAmount :: nat
  messageSender :: string
  cMaxFee :: nat
  cFeeExecuted :: nat
  expirationBlock :: nat
  cMessageHash :: string

definition HEADER_LENGTH :: nat where
  "HEADER_LENGTH = 148"
definition BURN_BODY_LENGTH :: nat where
  "BURN_BODY_LENGTH = 228"
definition MESSAGE_INVALID :: exn where
  "MESSAGE_INVALID = BadRequest ''BRIDGE_MESSAGE_INVALID''"

definition sliceBytes :: "string \<Rightarrow> nat \<Rightarrow> nat \<Rightarrow> string" where
  "sliceBytes message offset len = ''0x'' @ take (len * 2) (drop (2 + offset * 2) message)"

text \<open>\<open>BigInt('0x...')\<close> of a slice that is not empty.\<close>

definition readNumber :: "string \<Rightarrow> nat \<Rightarrow> nat \<Rightarrow> nat" where
  "readNumber message offset len = read_base 16 (drop 2 (sliceBytes message offset len))"

definition readAddress :: "evm \<Rightarrow> string \<Rightarrow> nat \<Rightarrow> string res" where
  "readAddress E message offset =
     (let v = sliceBytes message offset 32 in
      checksum E (''0x'' @ drop (length v - 40) v))"

definition addressToBytes32 :: "string \<Rightarrow> string" where
  "addressToBytes32 a =
     (let digits = drop 2 (toLowerCase a) in ''0x'' @ replicate (64 - length digits) (CHR ''0'') @ digits)"

definition decodeCctpV2Message :: "evm \<Rightarrow> string \<Rightarrow> cctp res" where
  "decodeCctpV2Message E m =
     bindR (ensureR (isHex E m \<and> \<not> length m - 2 < 2 * (HEADER_LENGTH + BURN_BODY_LENGTH)) MESSAGE_INVALID) (\<lambda>_.
     bindR (readAddress E m 44) (\<lambda>snd.
     bindR (readAddress E m 76) (\<lambda>rcp.
     bindR (readAddress E m 108) (\<lambda>caller.
     bindR (readAddress E m (HEADER_LENGTH + 4)) (\<lambda>token.
     bindR (readAddress E m (HEADER_LENGTH + 36)) (\<lambda>mint.
     bindR (readAddress E m (HEADER_LENGTH + 100)) (\<lambda>depositor.
     Inr \<lparr>version = readNumber m 0 4, cSourceDomain = readNumber m 4 4,
          cDestinationDomain = readNumber m 8 4, cNonce = sliceBytes m 12 32,
          sender = snd, cRecipient = rcp, cDestinationCaller = caller,
          cMinFinality = readNumber m 140 4, finalityExecuted = readNumber m 144 4,
          burnVersion = readNumber m HEADER_LENGTH 4, burnToken = token, mintRecipient = mint,
          cAmount = readNumber m (HEADER_LENGTH + 68) 32, messageSender = depositor,
          cMaxFee = readNumber m (HEADER_LENGTH + 132) 32,
          cFeeExecuted = readNumber m (HEADER_LENGTH + 164) 32,
          expirationBlock = readNumber m (HEADER_LENGTH + 196) 32,
          cMessageHash = keccak256 E m\<rparr>)))))))"

definition cctpMessageBody :: "evm \<Rightarrow> string \<Rightarrow> string res" where
  "cctpMessageBody E m =
     bindR (decodeCctpV2Message E m) (\<lambda>_. Inr (''0x'' @ drop (2 + HEADER_LENGTH * 2) m))"

section \<open>The layout\<close>

fun hex_pad :: "nat \<Rightarrow> nat \<Rightarrow> string" where
  "hex_pad 0 n = []"
| "hex_pad (Suc w) n = hex_pad w (n div 16) @ [hex_char (n mod 16)]"

definition address_word :: "string \<Rightarrow> string" where
  "address_word a = drop 2 (addressToBytes32 a)"

definition cctp_fields :: "cctp \<Rightarrow> string list" where
  "cctp_fields c =
     [hex_pad 8 (version c), hex_pad 8 (cSourceDomain c), hex_pad 8 (cDestinationDomain c),
      drop 2 (cNonce c), address_word (sender c), address_word (cRecipient c),
      address_word (cDestinationCaller c), hex_pad 8 (cMinFinality c), hex_pad 8 (finalityExecuted c),
      hex_pad 8 (burnVersion c), address_word (burnToken c), address_word (mintRecipient c),
      hex_pad 64 (cAmount c), address_word (messageSender c), hex_pad 64 (cMaxFee c),
      hex_pad 64 (cFeeExecuted c), hex_pad 64 (expirationBlock c)]"

definition encode_cctp :: "cctp \<Rightarrow> string \<Rightarrow> string" where
  "encode_cctp c hook = ''0x'' @ concat (cctp_fields c) @ hook"

definition cctp_ok :: "evm \<Rightarrow> cctp \<Rightarrow> bool" where
  "cctp_ok E c \<longleftrightarrow>
     list_all (\<lambda>n. n < 2 ^ 32) [version c, cSourceDomain c, cDestinationDomain c, cMinFinality c,
       finalityExecuted c, burnVersion c] \<and>
     list_all (\<lambda>n. n < 2 ^ 256) [cAmount c, cMaxFee c, cFeeExecuted c, expirationBlock c] \<and>
     is_hex_string 64 (cNonce c) \<and>
     list_all (\<lambda>a. getAddress E a = Some a) [sender c, cRecipient c, cDestinationCaller c, burnToken c,
       mintRecipient c, messageSender c]"

lemma length_hex_pad [simp]: "length (hex_pad w n) = w"
  by (induction w arbitrary: n) simp_all

lemma hex_val_char [simp]: "d < 16 \<Longrightarrow> hex_val (hex_char d) = d"
  by (auto simp: hex_val_def hex_char_def Let_def)

lemma is_hex_char [simp]: "d < 16 \<Longrightarrow> is_hex (hex_char d)"
  by (auto simp: is_hex_def hex_char_def Let_def)

lemma read_base_snoc: "read_base b (s @ [c]) = b * read_base b s + hex_val c"
  by (simp add: read_base_def)

lemma read_hex_pad: "n < 16 ^ w \<Longrightarrow> read_base 16 (hex_pad w n) = n"
proof (induction w arbitrary: n)
  case 0
  then show ?case by (simp add: read_base_def)
next
  case (Suc w)
  then have "n div 16 < 16 ^ w" by (simp add: less_mult_imp_div_less mult.commute)
  with Suc.IH show ?case by (simp add: read_base_snoc)
qed

lemma hex_pad_hex: "list_all is_hex (hex_pad w n)"
  by (induction w arbitrary: n) simp_all

text \<open>The k-th field of a concatenation.\<close>

lemma nth_field:
  "k < length fs \<Longrightarrow> m = sum_list (map length (take k fs)) \<Longrightarrow> n = length (fs ! k) \<Longrightarrow>
     take n (drop m (concat fs @ rest)) = fs ! k"
proof (induction fs arbitrary: k m)
  case Nil
  then show ?case by simp
next
  case (Cons f fs)
  then show ?case by (cases k) simp_all
qed

lemma address_word_facts:
  assumes "evm_laws E" "getAddress E a = Some a"
  shows "length (address_word a) = 64" "list_all is_hex (address_word a)"
    "drop 24 (address_word a) = drop 2 (toLowerCase a)"
proof -
  have a: "is_hex_address a" using getAddress_Some(3) [OF assms] .
  then have len: "length (drop 2 (toLowerCase a)) = 40" by (simp add: is_hex_string_def)
  then show "length (address_word a) = 64"
    by (simp add: address_word_def addressToBytes32_def Let_def)
  show "drop 24 (address_word a) = drop 2 (toLowerCase a)"
    using len by (simp add: address_word_def addressToBytes32_def Let_def)
  have "list_all is_hex (drop 2 (toLowerCase a))"
    using is_hex_string_lower [OF a] by (simp add: is_hex_string_def)
  moreover have "is_hex (CHR ''0'')" by (simp add: is_hex_def)
  ultimately show "list_all is_hex (address_word a)"
    by (auto simp: address_word_def addressToBytes32_def Let_def list_all_iff)
qed

lemma prefix_0x: "take 2 s = ''0x'' \<Longrightarrow> ''0x'' @ drop 2 s = s"
  by (metis append_take_drop_id)

lemma read_address_word:
  assumes "evm_laws E" "getAddress E a = Some a"
    and "sliceBytes m off 32 = ''0x'' @ address_word a"
  shows "readAddress E m off = Inr a"
proof -
  note w = address_word_facts [OF assms(1,2)]
  have a: "is_hex_address a" using getAddress_Some(3) [OF assms(1,2)] .
  have lower: "is_hex_address (toLowerCase a)" by (rule is_hex_string_lower [OF a])
  have "drop (length (''0x'' @ address_word a) - 40) (''0x'' @ address_word a) = drop 2 (toLowerCase a)"
    using w by simp
  moreover have "''0x'' @ drop 2 (toLowerCase a) = toLowerCase a"
    using lower by (intro prefix_0x) (simp add: is_hex_string_def)
  moreover have "getAddress E (toLowerCase a) = Some a"
    using getAddress_same [OF assms(1) lower a] assms(2) by simp
  ultimately show ?thesis
    by (simp only: readAddress_def Let_def assms(3)) (simp add: checksum_def fromSome_def)
qed

lemma encode_facts:
  assumes "evm_laws E" "cctp_ok E c"
  shows "map length (cctp_fields c) = [8, 8, 8, 64, 64, 64, 64, 8, 8, 8, 64, 64, 64, 64, 64, 64, 64]"
    "list_all (list_all is_hex) (cctp_fields c)"
  using assms(2) address_word_facts [OF assms(1)]
  by (simp_all add: cctp_fields_def cctp_ok_def is_hex_string_def hex_pad_hex)

lemma encode_slice:
  assumes "map length (cctp_fields c) = [8, 8, 8, 64, 64, 64, 64, 8, 8, 8, 64, 64, 64, 64, 64, 64, 64]"
    and "k < 17" "off * 2 = sum_list (take k [8, 8, 8, 64, 64, 64, 64, 8, 8, 8, 64, 64, 64, 64, 64, 64, 64])"
      "len * 2 = [8, 8, 8, 64, 64, 64, 64, 8, 8, 8, 64, 64, 64, 64, 64, 64, 64] ! k"
  shows "sliceBytes (encode_cctp c hook) off len = ''0x'' @ (cctp_fields c ! k)"
proof -
  have k: "k < length (cctp_fields c)" using arg_cong [OF assms(1), of length] assms(2) by simp
  have "off * 2 = sum_list (map length (take k (cctp_fields c)))"
    using assms(1,3) by (metis take_map)
  moreover have "len * 2 = length (cctp_fields c ! k)"
    using assms(1,4) k by (metis nth_map)
  ultimately have "take (len * 2) (drop (off * 2) (concat (cctp_fields c) @ hook)) = cctp_fields c ! k"
    by (rule nth_field [OF k])
  then show ?thesis by (simp add: sliceBytes_def encode_cctp_def)
qed

section \<open>The decoder reads the layout\<close>

lemma decode_encode:
  assumes "evm_laws E" "cctp_ok E c" "list_all is_hex hook"
  shows "decodeCctpV2Message E (encode_cctp c hook) =
      Inr (c\<lparr>cMessageHash := keccak256 E (encode_cctp c hook)\<rparr>) \<and>
    cctpMessageBody E (encode_cctp c hook) = Inr (''0x'' @ concat (drop 9 (cctp_fields c)) @ hook)"
proof -
  define m where "m = encode_cctp c hook"
  note lens = encode_facts(1) [OF assms(1,2)]
  note slice = encode_slice [OF lens, of _ _ _ hook, folded m_def]
  have total: "length (concat (cctp_fields c)) = 752"
    using arg_cong [OF lens, of sum_list] by (simp add: length_concat)
  have hex: "isHex E m" "\<not> length m - 2 < 2 * (HEADER_LENGTH + BURN_BODY_LENGTH)"
    using encode_facts(2) [OF assms(1,2)] assms(3) total
    by (auto simp: isHex_eq [OF assms(1)] m_def encode_cctp_def HEADER_LENGTH_def BURN_BODY_LENGTH_def
        list_all_iff)
  have num: "readNumber m off len = n"
    if "k < 17" "off * 2 = sum_list (take k [8, 8, 8, 64, 64, 64, 64, 8, 8, 8, 64, 64, 64, 64, 64, 64, 64])"
      "len * 2 = [8, 8, 8, 64, 64, 64, 64, 8, 8, 8, 64, 64, 64, 64, 64, 64, 64] ! k"
      "cctp_fields c ! k = hex_pad (len * 2) n" "n < 16 ^ (len * 2)" for off len k n
    using slice [OF that(1,2,3)] that(4,5) by (simp add: readNumber_def read_hex_pad)
  have adr: "readAddress E m off = Inr a"
    if "k < 17" "off * 2 = sum_list (take k [8, 8, 8, 64, 64, 64, 64, 8, 8, 8, 64, 64, 64, 64, 64, 64, 64])"
      "[8, 8, 8, 64, 64, 64, 64, 8, 8, 8, 64, 64, 64, 64, 64, 64, 64] ! k = (64 :: nat)"
      "cctp_fields c ! k = address_word a" "getAddress E a = Some a" for off k a
    using slice [OF that(1,2), of 32] that(3-) by (intro read_address_word [OF assms(1)]) simp_all
  have bounds: "(2::nat) ^ 32 = 16 ^ 8" "(2::nat) ^ 256 = 16 ^ 64" by simp_all
  note ok = assms(2) [unfolded cctp_ok_def bounds]
  have nonce: "sliceBytes m 12 32 = cNonce c"
    using slice [of 3 12 32] prefix_0x [of "cNonce c"] ok by (simp add: cctp_fields_def is_hex_string_def)
  have numbers: "readNumber m 0 4 = version c" "readNumber m 4 4 = cSourceDomain c"
    "readNumber m 8 4 = cDestinationDomain c" "readNumber m 140 4 = cMinFinality c"
    "readNumber m 144 4 = finalityExecuted c" "readNumber m 148 4 = burnVersion c"
    "readNumber m 216 32 = cAmount c" "readNumber m 280 32 = cMaxFee c"
    "readNumber m 312 32 = cFeeExecuted c" "readNumber m 344 32 = expirationBlock c"
    using ok num [of 0 0 4] num [of 1 4 4] num [of 2 8 4] num [of 7 140 4] num [of 8 144 4]
      num [of 9 148 4] num [of 12 216 32] num [of 14 280 32] num [of 15 312 32] num [of 16 344 32]
    by (simp_all add: cctp_fields_def)
  have addresses: "readAddress E m 44 = Inr (sender c)" "readAddress E m 76 = Inr (cRecipient c)"
    "readAddress E m 108 = Inr (cDestinationCaller c)" "readAddress E m 152 = Inr (burnToken c)"
    "readAddress E m 184 = Inr (mintRecipient c)" "readAddress E m 248 = Inr (messageSender c)"
    using ok adr [of 4 44] adr [of 5 76] adr [of 6 108] adr [of 10 152] adr [of 11 184] adr [of 13 248]
    by (simp_all add: cctp_fields_def)
  have decoded: "decodeCctpV2Message E m = Inr (c\<lparr>cMessageHash := keccak256 E m\<rparr>)"
    using hex nonce numbers addresses
    by (simp add: decodeCctpV2Message_def HEADER_LENGTH_def ensureR_def)
  have "drop 296 (concat (cctp_fields c) @ hook) = concat (drop 9 (cctp_fields c)) @ hook"
  proof -
    have "length (concat (take 9 (cctp_fields c))) = 296"
      using arg_cong [OF lens, of "\<lambda>xs. sum_list (take 9 xs)"] by (simp add: length_concat take_map)
    moreover have "concat (cctp_fields c) @ hook =
        concat (take 9 (cctp_fields c)) @ (concat (drop 9 (cctp_fields c)) @ hook)"
      by (metis append.assoc append_take_drop_id concat_append)
    ultimately show ?thesis by (metis append_eq_conv_conj)
  qed
  then have "cctpMessageBody E m = Inr (''0x'' @ concat (drop 9 (cctp_fields c)) @ hook)"
    by (simp add: cctpMessageBody_def decoded HEADER_LENGTH_def) (simp add: m_def encode_cctp_def)
  with decoded show ?thesis by (simp add: m_def)
qed

text \<open>
  C12: the decoder inverts the message layout.  Every well-formed CCTP V2 burn message, with any hook data
  after it, decodes to exactly its fields, with the hash of the whole message; and the message body
  handed to the receipt check is the message without its 148-byte header.
\<close>

theorem cctp_roundtrip:
  assumes "evm_laws E" "cctp_ok E c" "list_all is_hex hook"
  shows "decodeCctpV2Message E (encode_cctp c hook) =
      Inr (c\<lparr>cMessageHash := keccak256 E (encode_cctp c hook)\<rparr>) \<and>
    cctpMessageBody E (encode_cctp c hook) = Inr (''0x'' @ concat (drop 9 (cctp_fields c)) @ hook)"
  by (rule decode_encode [OF assms])

definition sample_burn :: cctp where
  "sample_burn = \<lparr>version = 1, cSourceDomain = 26, cDestinationDomain = 6, cNonce = hash_of (CHR ''1''),
     sender = addr (CHR ''5''), cRecipient = addr (CHR ''5''), cDestinationCaller = zeroAddress,
     cMinFinality = 2000, finalityExecuted = 2000, burnVersion = 1, burnToken = addr (CHR ''c''),
     mintRecipient = addr (CHR ''b''), cAmount = 1000000, messageSender = addr (CHR ''a''), cMaxFee = 0,
     cFeeExecuted = 0, expirationBlock = 0, cMessageHash = []\<rparr>"

lemma zero_facts [simp]: "is_hex_address zeroAddress" "toLowerCase zeroAddress = zeroAddress"
  by code_simp+

lemma sample_burn_ok: "cctp_ok lower_evm sample_burn"
  by (simp add: cctp_ok_def sample_burn_def lower_evm_def)

theorem cctp_roundtrip_witness:
  "decodeCctpV2Message lower_evm (encode_cctp sample_burn ''ff'') =
     Inr (sample_burn\<lparr>cMessageHash := keccak256 lower_evm (encode_cctp sample_burn ''ff'')\<rparr>)"
  using cctp_roundtrip [OF lower_evm_laws sample_burn_ok, of "''ff''"] by (simp add: is_hex_def)

end
