(* ===== verification/BridgeRegistry.thy ===== *)
theory BridgeRegistry
  imports Chain "HOL-Library.Code_Target_Nat"
begin

text \<open>
  The registry of CCTP routes (\<open>packages/bridge-registry/index.js\<close>) and the quote of a transfer
  (\<open>apps/backend/src/bridge/bridge-quote.service.ts\<close>).  A fee of Circle's fee service is represented by
  the integer \<open>Math.round(bps * 100)\<close> the code computes from it.  Codes are looked up among the entries
  of the registry; the names JavaScript objects inherit from \<open>Object.prototype\<close> are not modelled as codes.
  The display name and explorer URL of an entry, and the codes a quote repeats, are left out.
\<close>

record bridge_chain =
  code :: string
  bcChainId :: nat
  domain :: nat
  usdcAddress :: string
  usdcDecimals :: nat
  tokenMessengerV2 :: string
  messageTransmitterV2 :: string
  fastTransferSource :: bool

definition CCTP_TOKEN_MESSENGER_V2 :: string where
  "CCTP_TOKEN_MESSENGER_V2 = ''0x28b5a0e9C621a5BadaA536219b3a228C8168cf5d''"
definition CCTP_MESSAGE_TRANSMITTER_V2 :: string where
  "CCTP_MESSAGE_TRANSMITTER_V2 = ''0x81D40F21F12A8F0E3252Bccb954D722d4c464B64''"
definition standardFinalityThreshold :: nat where
  "standardFinalityThreshold = 2000"
definition fastFinalityThreshold :: nat where
  "fastFinalityThreshold = 1000"
definition maxBurnAmountUnits :: string where
  "maxBurnAmountUnits = ''10000000000000''"
definition ARC_CODE :: string where
  "ARC_CODE = ''ARC-MAINNET''"

definition registry_entry :: "string \<Rightarrow> nat \<Rightarrow> nat \<Rightarrow> string \<Rightarrow> bool \<Rightarrow> bridge_chain" where
  "registry_entry c chain dmn usdc fast =
     \<lparr>code = c, bcChainId = chain, domain = dmn, usdcAddress = usdc, usdcDecimals = 6,
      tokenMessengerV2 = CCTP_TOKEN_MESSENGER_V2, messageTransmitterV2 = CCTP_MESSAGE_TRANSMITTER_V2,
      fastTransferSource = fast\<rparr>"

definition BRIDGE_CHAINS :: "bridge_chain list" where
  "BRIDGE_CHAINS =
     [registry_entry ''ARC-MAINNET'' 5042 26 ''0x3600000000000000000000000000000000000000'' False,
      registry_entry ''ETH-MAINNET'' 1 0 ''0xA0b86991c6218b36c1d19D4a2e9Eb0cE3606eB48'' True,
      registry_entry ''BASE-MAINNET'' 8453 6 ''0x833589fCD6eDb6E08f4c7C32D4f71b54bdA02913'' True,
      registry_entry ''ARB-MAINNET'' 42161 3 ''0xaf88d065e77c8cC2239327C5EDb3A432268e5831'' True,
      registry_entry ''OP-MAINNET'' 10 2 ''0x0b2C639c533813f4Aa9D7837CAf62653d097Ff85'' True,
      registry_entry ''POLYGON-MAINNET'' 137 7 ''0x3c499c542cEF5E3811e1192ce70d8cC03d5c3359'' False,
      registry_entry ''AVAX-MAINNET'' 43114 1 ''0xB97EF9Ef8734C71904D8002F8b6Bc66Dd9c48a6E'' False]"

section \<open>Validation of the registry\<close>

definition is_code_char :: "char \<Rightarrow> bool" where
  "is_code_char c \<longleftrightarrow> (let n = (of_char c :: nat) in
     (65 \<le> n \<and> n \<le> 90) \<or> (48 \<le> n \<and> n \<le> 57) \<or> n = 45)"

definition nonzero_address :: "string \<Rightarrow> bool" where
  "nonzero_address a \<longleftrightarrow> is_hex_address a \<and> a \<noteq> zeroAddress"

definition assertEthAddress :: "string \<Rightarrow> string res" where
  "assertEthAddress v =
     bindR (ensureR (nonzero_address v) (PlainError ''BRIDGE_CHAIN_INVALID_ADDRESS'')) (\<lambda>_. Inr v)"

definition validateBridgeChainEntry :: "bridge_chain \<Rightarrow> unit res" where
  "validateBridgeChainEntry e =
     bindR (ensureR (code e \<noteq> [] \<and> list_all is_code_char (code e)) (PlainError ''BRIDGE_CHAIN_INVALID'')) (\<lambda>_.
     bindR (ensureR (\<not> list_ex (\<lambda>p. contains p (toLowerCase (code e)))
              [''testnet'', ''sepolia'', ''amoy'', ''fuji'', ''devnet'']) (PlainError ''BRIDGE_TESTNET_FORBIDDEN'')) (\<lambda>_.
     bindR (ensureR (0 < bcChainId e \<and> bcChainId e < 2 ^ 53) (PlainError ''BRIDGE_CHAIN_INVALID'')) (\<lambda>_.
     bindR (ensureR (domain e < 2 ^ 53) (PlainError ''BRIDGE_CHAIN_INVALID'')) (\<lambda>_.
     bindR (assertEthAddress (usdcAddress e)) (\<lambda>_.
     bindR (assertEthAddress (tokenMessengerV2 e)) (\<lambda>_.
     bindR (assertEthAddress (messageTransmitterV2 e)) (\<lambda>_.
     ensureR (usdcDecimals e = 6) (PlainError ''BRIDGE_CHAIN_INVALID''))))))))"

fun validateEntries :: "bridge_chain list \<Rightarrow> string list \<Rightarrow> string list res" where
  "validateEntries [] codes = Inr codes"
| "validateEntries (e # es) codes =
     bindR (validateBridgeChainEntry e) (\<lambda>_.
     bindR (ensureR (code e \<notin> set codes) (PlainError ''BRIDGE_REGISTRY_DUPLICATE'')) (\<lambda>_.
     validateEntries es (code e # codes)))"

definition validateBridgeRegistry :: "bridge_chain list \<Rightarrow> unit res" where
  "validateBridgeRegistry es =
     bindR (ensureR (es \<noteq> []) (PlainError ''BRIDGE_REGISTRY_EMPTY'')) (\<lambda>_.
     bindR (validateEntries es []) (\<lambda>codes.
     ensureR (ARC_CODE \<in> set codes) (PlainError ''BRIDGE_REGISTRY_MISSING_ARC'')))"

section \<open>Lookup\<close>

definition getBridgeChain :: "string \<Rightarrow> bridge_chain res" where
  "getBridgeChain c = fromSome (PlainError ''BRIDGE_CHAIN_UNKNOWN'') (find_row (\<lambda>e. code e = c) BRIDGE_CHAINS)"

definition is_fast :: "string \<Rightarrow> bool res" where
  "is_fast c = bindR (getBridgeChain c) (\<lambda>e. Inr (fastTransferSource e))"

definition getBridgeFinalityThreshold :: "string \<Rightarrow> nat res" where
  "getBridgeFinalityThreshold c =
     bindR (is_fast c) (\<lambda>f. Inr (if f then fastFinalityThreshold else standardFinalityThreshold))"

definition assertBridgeRoute :: "string \<Rightarrow> string \<Rightarrow> (bridge_chain \<times> bridge_chain) res" where
  "assertBridgeRoute s d =
     bindR (getBridgeChain s) (\<lambda>src.
     bindR (getBridgeChain d) (\<lambda>dst.
     bindR (ensureR (code src \<noteq> code dst) (PlainError ''BRIDGE_ROUTE_SAME_CHAIN'')) (\<lambda>_.
     bindR (ensureR (code src = ARC_CODE \<or> code dst = ARC_CODE) (PlainError ''BRIDGE_ROUTE_NOT_ARC'')) (\<lambda>_.
     Inr (src, dst)))))"

text \<open>A candidate entry must agree with the registry in its addresses, up to case, and its numbers.\<close>

definition assertRegistryMatch :: "string \<Rightarrow> bridge_chain \<Rightarrow> unit res" where
  "assertRegistryMatch c x =
     bindR (getBridgeChain c) (\<lambda>e.
     bindR (validateBridgeChainEntry x) (\<lambda>_.
     ensureR (bcChainId x = bcChainId e \<and> domain x = domain e \<and>
        toLowerCase (usdcAddress x) = toLowerCase (usdcAddress e) \<and>
        toLowerCase (tokenMessengerV2 x) = toLowerCase (tokenMessengerV2 e) \<and>
        toLowerCase (messageTransmitterV2 x) = toLowerCase (messageTransmitterV2 e))
       (PlainError ''BRIDGE_REGISTRY_MISMATCH'')))"

section \<open>Quotes\<close>

record fee_entry =
  feSource :: "nat option"
  feDestination :: "nat option"
  feThreshold :: "nat option"
  feHundredths :: "nat option"

record iris_message =
  imMessage :: "string option"
  imAttestation :: "string option"
  imStatus :: "string option"
  imDelayReason :: "string option"

datatype messages_response = Unreachable | Missing | Failed | Messages "iris_message list"

text \<open>
  The answers of Circle's service.  A fee entry whose fee is not a number between 0 and 100 basis points
  has \<open>feHundredths = None\<close>.
\<close>

record iris =
  fastFees :: "nat \<Rightarrow> nat \<Rightarrow> fee_entry list option"
  fastAllowance :: "string option"
  irisMessages :: "nat \<Rightarrow> string \<Rightarrow> messages_response"

definition FAST_UNAVAILABLE :: exn where
  "FAST_UNAVAILABLE = ServiceUnavailable ''BRIDGE_FAST_UNAVAILABLE'' False"
definition QUOTE_UNAVAILABLE :: exn where
  "QUOTE_UNAVAILABLE = ServiceUnavailable ''BRIDGE_QUOTE_UNAVAILABLE'' False"

definition is_fast_entry :: "fee_entry \<Rightarrow> bool" where
  "is_fast_entry e \<longleftrightarrow> feThreshold e = Some fastFinalityThreshold"

definition parseCircleMinimumFeeBps :: "fee_entry list \<Rightarrow> nat \<Rightarrow> nat \<Rightarrow> nat res" where
  "parseCircleMinimumFeeBps es src dst =
     (case find_row (\<lambda>e. feSource e = Some src \<and> feDestination e = Some dst \<and> is_fast_entry e) es of
        Some e \<Rightarrow> fromSome (PlainError ''malformed'') (feHundredths e)
      | None \<Rightarrow>
          (case find_row is_fast_entry es of
             Some e \<Rightarrow> fromSome (PlainError ''malformed'') (feHundredths e)
           | None \<Rightarrow> Inl (PlainError ''unavailable'')))"

definition fastFeeBps :: "iris \<Rightarrow> nat \<Rightarrow> nat \<Rightarrow> nat res" where
  "fastFeeBps I src dst =
     bindR (fromSome FAST_UNAVAILABLE (fastFees I src dst)) (\<lambda>es.
     case parseCircleMinimumFeeBps es src dst of Inl _ \<Rightarrow> Inl FAST_UNAVAILABLE | Inr h \<Rightarrow> Inr h)"

text \<open>Division of natural numbers rounds down, as BigInt division of non-negative numbers does.\<close>

definition calculateFastProtocolFee :: "nat \<Rightarrow> nat \<Rightarrow> nat" where
  "calculateFastProtocolFee amount hundredths =
     (if amount = 0 then 0 else if hundredths = 0 then 0
      else (amount * hundredths + 999999) div 1000000)"

definition calculateFastMaxFee :: "nat \<Rightarrow> nat" where
  "calculateFastMaxFee fee = (if fee = 0 then 0 else (fee * 120 + 99) div 100)"

text \<open>The regular expression \<open>/^\d+(?:\.\d{1,6})?$/\<close> and the split at the point.\<close>

definition parseFastAllowanceSubunits :: "string \<Rightarrow> nat res" where
  "parseFastAllowanceSubunits v =
     (let t = js_trim v; whole = takeWhile is_digit t; rest = dropWhile is_digit t in
      if whole = [] then Inl (PlainError ''malformed'')
      else if rest = [] then Inr (read_nat whole * 1000000 + read_nat (take 6 ''000000''))
      else if hd rest = CHR ''.'' \<and> tl rest \<noteq> [] \<and> length (tl rest) \<le> 6 \<and> list_all is_digit (tl rest)
      then Inr (read_nat whole * 1000000 + read_nat (take 6 (tl rest @ ''000000'')))
      else Inl (PlainError ''malformed''))"

definition fastAllowanceSubunits :: "iris \<Rightarrow> nat res" where
  "fastAllowanceSubunits I =
     bindR (fromSome FAST_UNAVAILABLE (fastAllowance I)) (\<lambda>t.
     case parseFastAllowanceSubunits t of Inl _ \<Rightarrow> Inl FAST_UNAVAILABLE | Inr n \<Rightarrow> Inr n)"

record bridge_quote =
  quoteFast :: bool
  quoteThreshold :: nat
  quoteAmount :: string
  protocolFee :: string
  maxFeeSuggested :: string
  receiveAmount :: string
  allowanceSufficient :: "bool option"

definition bridgeQuote :: "iris \<Rightarrow> string \<Rightarrow> string \<Rightarrow> string \<Rightarrow> bridge_quote res" where
  "bridgeQuote I s d amount =
     bindR (getBridgeChain s) (\<lambda>src.
     bindR (getBridgeChain d) (\<lambda>dst.
     bindR (ensureR (canonical_uint amount) QUOTE_UNAVAILABLE) (\<lambda>_.
     let units = read_nat amount in
     bindR (ensureR (0 < units) QUOTE_UNAVAILABLE) (\<lambda>_.
     bindR (is_fast (code src)) (\<lambda>fast.
     bindR (getBridgeFinalityThreshold (code src)) (\<lambda>threshold.
     if \<not> fast
     then Inr \<lparr>quoteFast = False, quoteThreshold = threshold, quoteAmount = show_nat units,
            protocolFee = ''0'', maxFeeSuggested = ''0'', receiveAmount = show_nat units,
            allowanceSufficient = None\<rparr>
     else
       bindR (fastFeeBps I (domain src) (domain dst)) (\<lambda>hundredths.
       let fee = calculateFastProtocolFee units hundredths; maxFee = calculateFastMaxFee fee in
       bindR (ensureR (maxFee \<le> units) FAST_UNAVAILABLE) (\<lambda>_.
       bindR (fastAllowanceSubunits I) (\<lambda>allow.
       bindR (ensureR (units \<le> allow) FAST_UNAVAILABLE) (\<lambda>_.
       Inr \<lparr>quoteFast = True, quoteThreshold = threshold, quoteAmount = show_nat units,
            protocolFee = show_nat fee, maxFeeSuggested = show_nat maxFee,
            receiveAmount = show_int (int units - int fee), allowanceSufficient = Some True\<rparr>))))))))))"

section \<open>The server-side check of a Fast transfer\<close>

text \<open>\<open>assertFastReady\<close> of the lifecycle service: it takes the first Fast entry, whatever its route.\<close>

definition assertFastReady :: "iris \<Rightarrow> nat \<Rightarrow> nat \<Rightarrow> nat \<Rightarrow> nat \<Rightarrow> unit res" where
  "assertFastReady I src dst amount maxFee =
     bindR (fromSome FAST_UNAVAILABLE (fastFees I src dst)) (\<lambda>es.
     bindR (fromSome FAST_UNAVAILABLE
             (case find_row is_fast_entry es of None \<Rightarrow> None | Some e \<Rightarrow> feHundredths e)) (\<lambda>hundredths.
     let fee = (if hundredths = 0 then 0 else (amount * hundredths + 999999) div 1000000) in
     bindR (ensureR (fee \<le> maxFee) FAST_UNAVAILABLE) (\<lambda>_.
     bindR (fromSome FAST_UNAVAILABLE (fastAllowance I)) (\<lambda>t.
     case parseFastAllowanceSubunits t of
       Inl _ \<Rightarrow> Inl FAST_UNAVAILABLE
     | Inr allow \<Rightarrow> ensureR (amount \<le> allow) FAST_UNAVAILABLE))))"

section \<open>What the registry and the quote promise\<close>

lemma registry_addresses:
  "nonzero_address CCTP_TOKEN_MESSENGER_V2" "nonzero_address CCTP_MESSAGE_TRANSMITTER_V2"
  "list_all (\<lambda>e. nonzero_address (usdcAddress e)) BRIDGE_CHAINS"
  by code_simp+

lemma registry_codes:
  "list_all (\<lambda>e. code e \<noteq> [] \<and> list_all is_code_char (code e) \<and>
     \<not> list_ex (\<lambda>p. contains p (toLowerCase (code e))) [''testnet'', ''sepolia'', ''amoy'', ''fuji'', ''devnet'']) BRIDGE_CHAINS"
  by code_simp

lemma registry_shape:
  "list_all (\<lambda>e. 0 < bcChainId e \<and> bcChainId e < 2 ^ 53 \<and> domain e < 2 ^ 53 \<and> usdcDecimals e = 6 \<and>
     tokenMessengerV2 e = CCTP_TOKEN_MESSENGER_V2 \<and> messageTransmitterV2 e = CCTP_MESSAGE_TRANSMITTER_V2) BRIDGE_CHAINS"
  by (simp add: BRIDGE_CHAINS_def registry_entry_def)

lemma registry_entries: "e \<in> set BRIDGE_CHAINS \<Longrightarrow> validateBridgeChainEntry e = Inr ()"
  using registry_addresses registry_codes registry_shape
  by (simp add: validateBridgeChainEntry_def assertEthAddress_def list_all_iff)

lemma validateEntries_Inr:
  "\<forall>e\<in>set es. validateBridgeChainEntry e = Inr () \<Longrightarrow> distinct (map code es) \<Longrightarrow>
     set (map code es) \<inter> set codes = {} \<Longrightarrow> validateEntries es codes = Inr (rev (map code es) @ codes)"
  by (induction es arbitrary: codes) (auto simp: ensureR_def)

lemma registry_distinct:
  "distinct (map code BRIDGE_CHAINS)" "distinct (map bcChainId BRIDGE_CHAINS)"
  "distinct (map domain BRIDGE_CHAINS)" "ARC_CODE \<in> set (map code BRIDGE_CHAINS)"
  by (simp_all add: BRIDGE_CHAINS_def registry_entry_def ARC_CODE_def)

lemma getBridgeChain_Inr: "getBridgeChain c = Inr e \<longleftrightarrow> e \<in> set BRIDGE_CHAINS \<and> code e = c"
  using find_row_unique [OF registry_distinct(1)]
  by (auto simp: getBridgeChain_def dest: find_row_Some)

lemma registry_chain_inj: "inj_on bcChainId (set BRIDGE_CHAINS)"
  using registry_distinct(2) by (simp add: distinct_map)

text \<open>
  The built-in registry passes its own validation, so loading the module cannot throw; its codes,
  chain ids and CCTP domains are pairwise distinct; and an entry with a chain's code, chain id, domain and
  contracts is accepted by \<open>assertRegistryMatch\<close> for that chain only.
\<close>

theorem registry_valid:
  "validateBridgeRegistry BRIDGE_CHAINS = Inr () \<and> distinct (map code BRIDGE_CHAINS) \<and>
   distinct (map bcChainId BRIDGE_CHAINS) \<and> distinct (map domain BRIDGE_CHAINS) \<and>
   (\<forall>c e. e \<in> set BRIDGE_CHAINS \<longrightarrow> (assertRegistryMatch c e = Inr () \<longleftrightarrow> c = code e))"
proof -
  have "validateEntries BRIDGE_CHAINS [] = Inr (rev (map code BRIDGE_CHAINS) @ [])"
    using registry_entries registry_distinct by (intro validateEntries_Inr) simp_all
  moreover have "BRIDGE_CHAINS \<noteq> []" by (simp add: BRIDGE_CHAINS_def)
  moreover have "assertRegistryMatch c e = Inr () \<longleftrightarrow> c = code e" if "e \<in> set BRIDGE_CHAINS" for c e
    using that registry_entries [OF that] inj_onD [OF registry_chain_inj]
    by (auto simp: assertRegistryMatch_def getBridgeChain_Inr)
  ultimately show ?thesis
    using registry_distinct by (simp add: validateBridgeRegistry_def)
qed

theorem registry_valid_witness:
  "assertRegistryMatch ''ARC-MAINNET'' (BRIDGE_CHAINS ! 0) = Inr () \<and>
   assertRegistryMatch ''ETH-MAINNET'' (BRIDGE_CHAINS ! 0) \<noteq> Inr ()"
proof -
  have "BRIDGE_CHAINS ! 0 \<in> set BRIDGE_CHAINS" "code (BRIDGE_CHAINS ! 0) = ''ARC-MAINNET''"
    by (simp_all add: BRIDGE_CHAINS_def registry_entry_def)
  then show ?thesis using registry_valid by fastforce
qed

lemma assertBridgeRoute_Inr:
  "assertBridgeRoute s d = Inr (src, dst) \<longleftrightarrow>
     src \<in> set BRIDGE_CHAINS \<and> dst \<in> set BRIDGE_CHAINS \<and> code src = s \<and> code dst = d \<and>
     s \<noteq> d \<and> (s = ARC_CODE \<or> d = ARC_CODE)"
  by (auto simp: assertBridgeRoute_def getBridgeChain_Inr)

text \<open>
  A route exists exactly between Arc and another chain of the registry, in either direction.
\<close>

theorem bridge_route_iff:
  "assertBridgeRoute s d = Inr (src, dst) \<longleftrightarrow>
     src \<in> set BRIDGE_CHAINS \<and> dst \<in> set BRIDGE_CHAINS \<and> code src = s \<and> code dst = d \<and>
     s \<noteq> d \<and> (s = ARC_CODE \<or> d = ARC_CODE)"
  by (rule assertBridgeRoute_Inr)

lemma ceil_million:
  "(a + 999999) div 1000000 * 1000000 < a + 1000000" "a \<le> (a + 999999) div (1000000::nat) * 1000000"
proof -
  have "(a + 999999) div 1000000 * 1000000 + (a + 999999) mod 1000000 = a + 999999"
    by (rule div_mult_mod_eq)
  moreover have "(a + 999999) mod 1000000 < 1000000" by simp
  ultimately show "(a + 999999) div 1000000 * 1000000 < a + 1000000"
    "a \<le> (a + 999999) div (1000000::nat) * 1000000"
    by linarith+
qed

lemma maxFee_covers: "fee \<le> calculateFastMaxFee fee"
proof -
  have "(fee * 120 + 99) div 100 * 100 + (fee * 120 + 99) mod 100 = fee * 120 + 99"
    by (rule div_mult_mod_eq)
  moreover have "(fee * 120 + 99) mod 100 < 100" by simp
  ultimately have "fee \<le> (fee * 120 + 99) div 100" by linarith
  then show ?thesis by (simp add: calculateFastMaxFee_def)
qed

text \<open>
  A Fast quote is executable.  The fee of a quote is the exact fee rounded up, the suggested
  maximum covers it and never exceeds the amount, what the recipient receives and the fee add up to the
  amount, and the same answers of the fee service let the suggested maximum pass the server-side
  check of the intent, provided the service gives one fee for Fast transfers on the route.
\<close>

theorem quote_executable:
  assumes "bridgeQuote I s d amount = Inr q" "quoteFast q"
    and "getBridgeChain s = Inr src" "getBridgeChain d = Inr dst"
    and "fastFees I (domain src) (domain dst) = Some es"
    and "\<forall>e\<in>set es. \<forall>e'\<in>set es. is_fast_entry e \<and> is_fast_entry e' \<longrightarrow> feHundredths e = feHundredths e'"
  shows "assertFastReady I (domain src) (domain dst) (read_nat amount) (read_nat (maxFeeSuggested q)) = Inr () \<and>
    read_nat (maxFeeSuggested q) \<le> read_nat amount \<and>
    read_nat (protocolFee q) \<le> read_nat (maxFeeSuggested q) \<and>
    read_nat (receiveAmount q) + read_nat (protocolFee q) = read_nat amount \<and>
    (\<exists>h. fastFeeBps I (domain src) (domain dst) = Inr h \<and>
         read_nat amount * h \<le> read_nat (protocolFee q) * 1000000 \<and>
         read_nat (protocolFee q) * 1000000 < read_nat amount * h + 1000000)"
proof -
  obtain h allow where h: "fastFeeBps I (domain src) (domain dst) = Inr h"
    and units: "0 < read_nat amount"
    and maxFee: "calculateFastMaxFee (calculateFastProtocolFee (read_nat amount) h) \<le> read_nat amount"
    and allow: "fastAllowanceSubunits I = Inr allow" "read_nat amount \<le> allow"
    and q: "protocolFee q = show_nat (calculateFastProtocolFee (read_nat amount) h)"
      "maxFeeSuggested q = show_nat (calculateFastMaxFee (calculateFastProtocolFee (read_nat amount) h))"
      "receiveAmount q = show_int (int (read_nat amount) - int (calculateFastProtocolFee (read_nat amount) h))"
    using assms(1-4) by (auto simp: bridgeQuote_def Let_def split: if_splits)
  define fee where "fee = calculateFastProtocolFee (read_nat amount) h"
  have fee: "fee = (if h = 0 then 0 else (read_nat amount * h + 999999) div 1000000)"
    using units by (simp add: fee_def calculateFastProtocolFee_def)
  have le: "fee \<le> calculateFastMaxFee fee" by (rule maxFee_covers)
  have "parseCircleMinimumFeeBps es (domain src) (domain dst) = Inr h"
    using h assms(5) by (auto simp: fastFeeBps_def split: sum.splits)
  then obtain e where e: "e \<in> set es" "is_fast_entry e" "feHundredths e = Some h"
    by (auto simp: parseCircleMinimumFeeBps_def split: option.splits dest!: find_row_Some)
  then obtain e' where e': "find_row is_fast_entry es = Some e'"
    using find_row_None [of is_fast_entry es] by (cases "find_row is_fast_entry es") auto
  then have same: "feHundredths e' = Some h" using assms(6) e find_row_Some [OF e'] by metis
  obtain t where t: "fastAllowance I = Some t" "parseFastAllowanceSubunits t = Inr allow"
    using allow(1)
    by (cases "fastAllowance I"; cases "parseFastAllowanceSubunits (the (fastAllowance I))")
      (auto simp: fastAllowanceSubunits_def fromSome_def)
  have "assertFastReady I (domain src) (domain dst) (read_nat amount) (calculateFastMaxFee fee) = Inr ()"
    using assms(5) e' same t allow(2) le fee
    by (simp add: assertFastReady_def fromSome_def Let_def ensureR_def)
  moreover have "read_nat amount * h \<le> fee * 1000000" "fee * 1000000 < read_nat amount * h + 1000000"
    using ceil_million [of "read_nat amount * h"] by (simp_all add: fee)
  moreover have "fee \<le> read_nat amount" using le maxFee by (simp add: fee_def)
  ultimately show ?thesis
    using q maxFee le h unfolding fee_def [symmetric]
    by (auto simp: show_int_def nat_diff_distrib simp flip: of_nat_diff)
qed

definition base_fee :: fee_entry where
  "base_fee = \<lparr>feSource = None, feDestination = None, feThreshold = Some 1000, feHundredths = Some 130\<rparr>"

definition sample_iris :: iris where
  "sample_iris = \<lparr>fastFees = (\<lambda>_ _. Some [base_fee]), fastAllowance = Some ''90.5'',
     irisMessages = (\<lambda>_ _. Missing)\<rparr>"

definition sample_quote :: bridge_quote where
  "sample_quote = (case bridgeQuote sample_iris ''BASE-MAINNET'' ARC_CODE ''1000000'' of
     Inr q \<Rightarrow> q | Inl _ \<Rightarrow> \<lparr>quoteFast = False, quoteThreshold = 0, quoteAmount = [], protocolFee = [],
       maxFeeSuggested = [], receiveAmount = [], allowanceSufficient = None\<rparr>)"

theorem quote_executable_witness:
  "assertFastReady sample_iris 6 26 1000000 (read_nat (maxFeeSuggested sample_quote)) = Inr ()"
proof -
  have q: "bridgeQuote sample_iris ''BASE-MAINNET'' ARC_CODE ''1000000'' = Inr sample_quote"
    "quoteFast sample_quote"
    by code_simp+
  have src: "getBridgeChain ''BASE-MAINNET'' = Inr (BRIDGE_CHAINS ! 2)"
    "getBridgeChain ARC_CODE = Inr (BRIDGE_CHAINS ! 0)"
    by (simp_all add: getBridgeChain_Inr BRIDGE_CHAINS_def registry_entry_def ARC_CODE_def)
  have "fastFees sample_iris (domain (BRIDGE_CHAINS ! 2)) (domain (BRIDGE_CHAINS ! 0)) = Some [base_fee]"
    by (simp add: sample_iris_def)
  moreover have "domain (BRIDGE_CHAINS ! 2) = 6" "domain (BRIDGE_CHAINS ! 0) = 26"
    by (simp_all add: BRIDGE_CHAINS_def registry_entry_def)
  moreover have "read_nat ''1000000'' = 1000000" by (simp add: read_nat_def digit_val_def)
  ultimately show ?thesis using quote_executable [OF q src] by auto
qed

end
