(* ===== verification/BridgeLifecycle.thy ===== *)
theory BridgeLifecycle
  imports Cctp BridgeRegistry
begin

text \<open>
  \<open>BridgeLifecycleService\<close> (\<open>apps/backend/src/bridge/bridge-lifecycle.service.ts\<close>): the lifecycle of a
  CCTP bridge transfer.  The user's wallet sends every transaction; the service records what is
  reported, fetches Circle's attestation, compares it with the stored intent and checks the mint on the
  destination chain.  A view of an intent is its row; \<open>view\<close> fails when a chain code of the row has left
  the registry.
\<close>

definition BRIDGE_NOT_FOUND :: exn where
  "BRIDGE_NOT_FOUND = NotFound ''BRIDGE_INTENT_NOT_FOUND''"
definition BRIDGE_FORBIDDEN :: exn where
  "BRIDGE_FORBIDDEN = Forbidden ''BRIDGE_INTENT_FORBIDDEN''"
definition BRIDGE_HASH_CONFLICT :: exn where
  "BRIDGE_HASH_CONFLICT = Conflict ''BRIDGE_HASH_CONFLICT''"
definition BRIDGE_MESSAGE_CONFLICT :: exn where
  "BRIDGE_MESSAGE_CONFLICT = Conflict ''BRIDGE_MESSAGE_CONFLICT''"
definition ATTESTATION_REQUIRED :: exn where
  "ATTESTATION_REQUIRED = Conflict ''BRIDGE_ATTESTATION_REQUIRED''"
definition ATTESTATION_MISMATCH :: exn where
  "ATTESTATION_MISMATCH = Conflict ''BRIDGE_ATTESTATION_MISMATCH''"
definition LEASE_CONFLICT :: exn where
  "LEASE_CONFLICT = Conflict ''BRIDGE_LEASE_CONFLICT''"
definition LEASE_EXPIRED :: exn where
  "LEASE_EXPIRED = Conflict ''BRIDGE_LEASE_EXPIRED''"
definition DESTINATION_REQUIRED :: exn where
  "DESTINATION_REQUIRED = Conflict ''BRIDGE_DESTINATION_REQUIRED''"
definition DESTINATION_PENDING :: exn where
  "DESTINATION_PENDING = ServiceUnavailable ''BRIDGE_DESTINATION_PENDING'' True"
definition DESTINATION_MISMATCH :: exn where
  "DESTINATION_MISMATCH = Conflict ''BRIDGE_DESTINATION_MISMATCH''"
definition SOURCE_REQUIRED :: exn where
  "SOURCE_REQUIRED = Conflict ''BRIDGE_SOURCE_REQUIRED''"
definition ATTESTATION_UNAVAILABLE :: exn where
  "ATTESTATION_UNAVAILABLE = ServiceUnavailable ''BRIDGE_ATTESTATION_UNAVAILABLE'' True"
definition BRIDGE_CONFLICT :: exn where
  "BRIDGE_CONFLICT = Conflict ''BRIDGE_INTENT_CONFLICT''"

section \<open>Matching messages and receipts\<close>

record message_received =
  mrCaller :: string
  mrSourceDomain :: nat
  mrNonce :: string
  mrSender :: string
  mrFinality :: nat
  mrBody :: string

record received_expectation =
  exSourceDomain :: nat
  exNonce :: string
  exSender :: string
  exFinality :: nat
  exBody :: string

definition matchesCctpV2MessageReceived ::
  "evm \<Rightarrow> message_received \<Rightarrow> string \<Rightarrow> received_expectation \<Rightarrow> bool res" where
  "matchesCctpV2MessageReceived E a caller x =
     allR [equalR E (mrCaller a) caller, Inr (mrSourceDomain a = exSourceDomain x),
       Inr (toLowerCase (mrNonce a) = toLowerCase (exNonce x)),
       Inr (toLowerCase (mrSender a) = toLowerCase (exSender x)), Inr (mrFinality a = exFinality x),
       Inr (toLowerCase (mrBody a) = toLowerCase (exBody x))]"

text \<open>The body of the loop over the logs: \<open>try\<close> answers \<open>false\<close> on every exception inside it.\<close>

definition received_log ::
  "evm \<Rightarrow> (chain_log \<Rightarrow> message_received option) \<Rightarrow> received_expectation \<Rightarrow> chain_log \<Rightarrow> bool" where
  "received_log E D x l =
     (case D l of
        None \<Rightarrow> False
      | Some a \<Rightarrow>
          isAddress E (mrCaller a) \<and> isAddressEqual E (mrCaller a) zeroAddress = Some False \<and>
          matchesCctpV2MessageReceived E a (mrCaller a) x = Inr True)"

fun destinationMintReceiptMatches ::
  "evm \<Rightarrow> (chain_log \<Rightarrow> message_received option) \<Rightarrow> string \<Rightarrow> received_expectation \<Rightarrow> chain_log list \<Rightarrow>
     bool res" where
  "destinationMintReceiptMatches E D transmitter x [] = Inr False"
| "destinationMintReceiptMatches E D transmitter x (l # ls) =
     bindR (if isAddress E (logAddress l)
            then bindR (checksum E (logAddress l)) (\<lambda>a. equalR E a transmitter) else Inr False) (\<lambda>emitter.
     if emitter \<and> logTopics l \<noteq> [] \<and> received_log E D x l then Inr True
     else destinationMintReceiptMatches E D transmitter x ls)"

definition amountIs :: "nat \<Rightarrow> string \<Rightarrow> bool res" where
  "amountIs n s = bindR (toBigInt s) (\<lambda>v. Inr (int n = v))"

definition matchesBridgeAttestation ::
  "evm \<Rightarrow> bridge_payload \<Rightarrow> cctp \<Rightarrow> string option \<Rightarrow> bool res" where
  "matchesBridgeAttestation E p d expectedNonce =
     allR [Inr (version d = 1), Inr (burnVersion d = 1), Inr (cSourceDomain d = sourceDomain p),
       Inr (cDestinationDomain d = destinationDomain p),
       Inr (\<not> truthy expectedNonce \<or> toLowerCase (cNonce d) = toLowerCase (the expectedNonce)),
       Inr (finalityExecuted d = minFinalityThreshold p),
       equalR E (sender d) (sourceTokenMessengerV2 p),
       equalR E (cRecipient d) (destinationTokenMessengerV2 p),
       equalR E (cDestinationCaller d) (destinationCaller p),
       Inr (cMinFinality d = minFinalityThreshold p),
       equalR E (burnToken d) (sourceUsdcAddress p),
       equalR E (mintRecipient d) (recipientAddress p),
       equalR E (messageSender d) (walletAddress p),
       amountIs (cAmount d) (bridgeAmount p), amountIs (cMaxFee d) (bridgeMaxFee p),
       Inr (cFeeExecuted d \<le> cMaxFee d), Inr (cFeeExecuted d < cAmount d)]"

definition matchesBridgeSourceMessage :: "evm \<Rightarrow> bridge_payload \<Rightarrow> cctp \<Rightarrow> bool res" where
  "matchesBridgeSourceMessage E p d =
     allR [Inr (version d = 1), Inr (cSourceDomain d = sourceDomain p),
       Inr (cDestinationDomain d = destinationDomain p),
       Inr (cNonce d = ''0x'' @ concat (replicate 32 ''00'')), Inr (finalityExecuted d = 0),
       Inr (burnVersion d = 1), Inr (cMinFinality d = minFinalityThreshold p),
       equalR E (sender d) (sourceTokenMessengerV2 p),
       equalR E (cRecipient d) (destinationTokenMessengerV2 p),
       equalR E (cDestinationCaller d) (destinationCaller p),
       equalR E (burnToken d) (sourceUsdcAddress p),
       equalR E (mintRecipient d) (recipientAddress p),
       equalR E (messageSender d) (walletAddress p),
       amountIs (cAmount d) (bridgeAmount p), amountIs (cMaxFee d) (bridgeMaxFee p),
       Inr (cFeeExecuted d = 0)]"

section \<open>The service's environment\<close>

record bridge_env =
  evmOf :: evm
  irisOf :: iris
  decodeReceived :: "chain_log \<Rightarrow> message_received option"
  arcRpcChainId :: nat
  arcRpcUrl :: string
  destinationRpcEnv :: "nat \<Rightarrow> string option"
  connect :: "string \<Rightarrow> chain"

definition is_http_url :: "string \<Rightarrow> bool" where
  "is_http_url u \<longleftrightarrow> take 7 u = ''http://'' \<or> take 8 u = ''https://''"

definition destinationRpc :: "bridge_env \<Rightarrow> nat \<Rightarrow> string option" where
  "destinationRpc B chain =
     (if chain = ARC_MAINNET_CHAIN_ID
      then (if arcRpcChainId B = ARC_MAINNET_CHAIN_ID then Some (arcRpcUrl B) else None)
      else (case destinationRpcEnv B chain of
              None \<Rightarrow> None
            | Some u \<Rightarrow> if is_http_url u then Some u else None))"

section \<open>Parsing\<close>

definition bridgeAddress :: "evm \<Rightarrow> string \<Rightarrow> string res" where
  "bridgeAddress E v =
     bindR (ensureR (isAddress E (js_trim v)) (BadRequest ''BRIDGE_INVALID_ADDRESS'')) (\<lambda>_.
     checksum E (js_trim v))"

definition parseAmount :: "string \<Rightarrow> nat res" where
  "parseAmount v =
     bindR (ensureR (canonical_uint v) (BadRequest ''BRIDGE_INVALID_AMOUNT'')) (\<lambda>_.
     bindR (ensureR (read_nat v \<le> read_nat maxBurnAmountUnits) (BadRequest ''BRIDGE_AMOUNT_ABOVE_MAX'')) (\<lambda>_.
     Inr (read_nat v)))"

definition txHashOf :: "string \<Rightarrow> string res" where
  "txHashOf v = bindR (ensureR (is_hash v) (BadRequest ''BRIDGE_INVALID_HASH'')) (\<lambda>_. Inr (toLowerCase v))"

definition ownership :: "evm \<Rightarrow> bridge \<Rightarrow> string \<Rightarrow> unit res" where
  "ownership E r wallet =
     (let stored = walletAddress (bridgePayload r) in
      if isAddress E stored \<and> isAddress E wallet
      then bindR (checksum E stored) (\<lambda>a. bindR (checksum E wallet) (\<lambda>b.
           bindR (equalR E a b) (\<lambda>same. ensureR same BRIDGE_FORBIDDEN)))
      else Inl BRIDGE_FORBIDDEN)"

definition empty_result :: bridge_result where
  "empty_result = \<lparr>approvalTransactionHash = None, sourceTransactionHash = None, resDestinationHash = None,
     resMessageHash = None, resNonce = None, feeExecuted = None, mintAmount = None, attestedMessage = None,
     attestation = None, bridgeCompletedAt = None, destinationSubmittedAt = None,
     destinationReceiptVerified = False, destinationVerifiedAt = None, attestationStatus = None,
     attestationDelayReason = None\<rparr>"

definition resultOf :: "bridge \<Rightarrow> bridge_result" where
  "resultOf r = (case bridgeResult r of None \<Rightarrow> empty_result | Some x \<Rightarrow> x)"

definition view :: "bridge \<Rightarrow> bridge res" where
  "view r =
     bindR (getBridgeChain (sourceCode (bridgePayload r))) (\<lambda>_.
     bindR (getBridgeChain (destinationCode (bridgePayload r))) (\<lambda>_. Inr r))"

section \<open>The table\<close>

definition bridges_unique :: "bridge list \<Rightarrow> bool" where
  "bridges_unique T \<longleftrightarrow> distinct (map bridgeId T) \<and> distinct (map bridgeTaskId T) \<and>
     unique_col messageHash T \<and> unique_col nonce T \<and> unique_col destinationTransactionHash T \<and>
     unique_col destinationLeaseId T"

definition required :: "string \<Rightarrow> (db, bridge) op" where
  "required i =
     andThen (query (\<lambda>s. find_row (\<lambda>r. bridgeId r = i) (bridges s))) (\<lambda>found.
     case found of None \<Rightarrow> throw BRIDGE_NOT_FOUND | Some r \<Rightarrow> ok r)"

text \<open>\<open>prisma.bridgeTransaction.update({ where: { id } })\<close> gives back the updated row.\<close>

definition updateBridge :: "string \<Rightarrow> (bridge \<Rightarrow> bridge) \<Rightarrow> (db, bridge) op" where
  "updateBridge i f =
     andThen (onBridges (updateManyUnique bridges_unique (\<lambda>r. bridgeId r = i) f)) (\<lambda>_.
     andThen (query (\<lambda>s. find_row (\<lambda>r. bridgeId r = i) (bridges s))) (\<lambda>found.
     case found of None \<Rightarrow> throw (DbError ''P2025'') | Some r \<Rightarrow> ok r))"

text \<open>Reading the row and checking who asks opens every operation.\<close>

definition owned :: "bridge_env \<Rightarrow> string \<Rightarrow> string \<Rightarrow> (bridge \<Rightarrow> (db, bridge) op) \<Rightarrow> (db, bridge) op" where
  "owned B i wallet f =
     andThen (required i) (\<lambda>r. andThen (lift (ownership (evmOf B) r wallet)) (\<lambda>_. f r))"

section \<open>Creating an intent\<close>

record create_bridge =
  cbKey :: string
  cbSource :: string
  cbDestination :: string
  cbWallet :: string
  cbRecipient :: string
  cbAmount :: string
  cbMaxFee :: string
  cbThreshold :: nat

definition bridge_conflicts :: "evm \<Rightarrow> bridge \<Rightarrow> string \<Rightarrow> string \<Rightarrow> string \<Rightarrow> nat \<Rightarrow> string \<Rightarrow> bool res" where
  "bridge_conflicts E r wallet src dst amount rcp =
     (let p = bridgePayload r in
      bindR (equalR E (walletAddress p) wallet) (\<lambda>same.
      Inr (\<not> same \<or> sourceCode p \<noteq> src \<or> destinationCode p \<noteq> dst \<or> bridgeAmount p \<noteq> show_nat amount \<or>
           toLowerCase (recipientAddress p) \<noteq> toLowerCase rcp)))"

definition bridgeRoute :: "string \<Rightarrow> string \<Rightarrow> (bridge_chain \<times> bridge_chain) res" where
  "bridgeRoute s d =
     (case assertBridgeRoute s d of Inl (PlainError c) \<Rightarrow> Inl (BadRequest c) | r \<Rightarrow> r)"

definition newPayload ::
  "evm \<Rightarrow> int \<Rightarrow> create_bridge \<Rightarrow> bridge_chain \<Rightarrow> bridge_chain \<Rightarrow> string \<Rightarrow> string \<Rightarrow> nat \<Rightarrow> nat \<Rightarrow> nat \<Rightarrow>
     bridge_payload res" where
  "newPayload E now x src dst wallet rcp amount maxFee threshold =
     bindR (checksum E (usdcAddress src)) (\<lambda>srcUsdc.
     bindR (checksum E (usdcAddress dst)) (\<lambda>dstUsdc.
     bindR (checksum E (tokenMessengerV2 src)) (\<lambda>srcMessenger.
     bindR (checksum E (tokenMessengerV2 dst)) (\<lambda>dstMessenger.
     bindR (checksum E (messageTransmitterV2 dst)) (\<lambda>transmitter.
     Inr \<lparr>bridgeKey = cbKey x, sourceCode = code src, destinationCode = code dst,
          sourceChainId = bcChainId src, destinationChainId = bcChainId dst,
          sourceDomain = domain src, destinationDomain = domain dst,
          sourceUsdcAddress = srcUsdc, destinationUsdcAddress = dstUsdc,
          sourceTokenMessengerV2 = srcMessenger, destinationTokenMessengerV2 = dstMessenger,
          destinationMessageTransmitterV2 = transmitter, walletAddress = wallet, recipientAddress = rcp,
          destinationCaller = zeroAddress, bridgeAmount = show_nat amount, bridgeMaxFee = show_nat maxFee,
          minFinalityThreshold = threshold, bridgeCreatedAt = now\<rparr>)))))"

definition newBridge :: "string \<Rightarrow> string \<Rightarrow> bridge_payload \<Rightarrow> bridge" where
  "newBridge i t p = \<lparr>bridgeId = i, bridgeTaskId = t, bridgeStatus = B_idle, bridgePayload = p,
     bridgeResult = None, messageHash = None, nonce = None, destinationTransactionHash = None,
     destinationLeaseId = None, destinationLeaseExpiresAt = None\<rparr>"

definition createBridgeIntent ::
  "bridge_env \<Rightarrow> int \<Rightarrow> string \<Rightarrow> string \<Rightarrow> create_bridge \<Rightarrow> (db, bridge) op" where
  "createBridgeIntent B now freshTask freshBridge x =
     (let E = evmOf B in
     andThen (lift (bridgeRoute (cbSource x) (cbDestination x))) (\<lambda>(src, dst).
     andThen (lift (bridgeAddress E (cbWallet x))) (\<lambda>wallet.
     andThen (lift (bridgeAddress E (cbRecipient x))) (\<lambda>rcp.
     andThen (lift (parseAmount (cbAmount x))) (\<lambda>amount.
     andThen (lift (parseAmount (cbMaxFee x))) (\<lambda>maxFee.
     andThen (ensure (0 < amount) (BadRequest ''BRIDGE_INVALID_REQUEST'')) (\<lambda>_.
     andThen (ensure (maxFee \<le> amount) (BadRequest ''BRIDGE_INVALID_REQUEST'')) (\<lambda>_.
     andThen (lift (getBridgeFinalityThreshold (code src))) (\<lambda>threshold.
     andThen (ensure (cbThreshold x = threshold) (BadRequest ''BRIDGE_TRANSFER_MODE_MISMATCH'')) (\<lambda>_.
     andThen (lift (is_fast (code src))) (\<lambda>fast.
     andThen (if fast then lift (assertFastReady (irisOf B) (domain src) (domain dst) amount maxFee) else ok ()) (\<lambda>_.
     andThen (query (\<lambda>s. find_row (\<lambda>r. bridgeKey (bridgePayload r) = cbKey x) (bridges s))) (\<lambda>existing.
     case existing of
       Some r \<Rightarrow>
         andThen (lift (view r)) (\<lambda>v.
         andThen (lift (bridge_conflicts E v wallet (code src) (code dst) amount rcp)) (\<lambda>conflict.
         andThen (ensure (\<not> conflict) BRIDGE_CONFLICT) (\<lambda>_. ok v)))
     | None \<Rightarrow>
         andThen (lift (newPayload E now x src dst wallet rcp amount maxFee threshold)) (\<lambda>p.
         andThen (transaction (
            andThen (insertTask (newTask freshTask ''bridge'' TS_BRIDGE_INTENT
              (JObj [(''idempotencyKey'', JStr (cbKey x)), (''sourceCode'', JStr (code src)),
                     (''destinationCode'', JStr (code dst))]))) (\<lambda>t.
            onBridges (insertUnique bridges_unique (newBridge freshBridge (tId t) p))))) (\<lambda>created.
         lift (view created))))))))))))))))"

section \<open>Reports\<close>

definition getBridgeIntent :: "bridge_env \<Rightarrow> string \<Rightarrow> string \<Rightarrow> (db, bridge) op" where
  "getBridgeIntent B i wallet = owned B i wallet (\<lambda>r. lift (view r))"

definition clash_hash :: "string option \<Rightarrow> string \<Rightarrow> bool" where
  "clash_hash old h \<longleftrightarrow> truthy old \<and> toLowerCase (the old) \<noteq> toLowerCase h"

definition same_hash :: "string option \<Rightarrow> string \<Rightarrow> bool" where
  "same_hash old h \<longleftrightarrow> truthy old \<and> toLowerCase (the old) = toLowerCase h"

definition reportApproval :: "bridge_env \<Rightarrow> string \<Rightarrow> string \<Rightarrow> string \<Rightarrow> (db, bridge) op" where
  "reportApproval B i wallet h =
     owned B i wallet (\<lambda>r.
     andThen (lift (txHashOf h)) (\<lambda>hash.
     let result = resultOf r in
     andThen (ensure (\<not> clash_hash (approvalTransactionHash result) hash) BRIDGE_HASH_CONFLICT) (\<lambda>_.
     if same_hash (approvalTransactionHash result) hash then lift (view r)
     else andThen (updateBridge i (\<lambda>r. r\<lparr>bridgeStatus := B_approval_confirmed,
            bridgeResult := Some (result\<lparr>approvalTransactionHash := Some hash\<rparr>)\<rparr>)) (\<lambda>u. lift (view u)))))"

definition reportSource :: "bridge_env \<Rightarrow> string \<Rightarrow> string \<Rightarrow> string \<Rightarrow> (db, bridge) op" where
  "reportSource B i wallet h =
     owned B i wallet (\<lambda>r.
     andThen (lift (txHashOf h)) (\<lambda>hash.
     let result = resultOf r in
     andThen (ensure (\<not> clash_hash (sourceTransactionHash result) hash) BRIDGE_HASH_CONFLICT) (\<lambda>_.
     if same_hash (sourceTransactionHash result) hash then lift (view r)
     else andThen (updateBridge i (\<lambda>r. r\<lparr>bridgeStatus := B_source_confirmed,
            bridgeResult := Some (result\<lparr>sourceTransactionHash := Some hash\<rparr>)\<rparr>)) (\<lambda>u. lift (view u)))))"

definition reportDestination ::
  "bridge_env \<Rightarrow> string \<Rightarrow> string \<Rightarrow> string \<Rightarrow> string \<Rightarrow> (db, bridge) op" where
  "reportDestination B i wallet h mh =
     owned B i wallet (\<lambda>r.
     andThen (lift (txHashOf h)) (\<lambda>hash.
     andThen (lift (txHashOf mh)) (\<lambda>message.
     andThen (lift (view r)) (\<lambda>v.
     let result = resultOf r in
     andThen (ensure (\<not> (truthy (attestedMessage result) \<and> clash_hash (resMessageHash result) message))
        BRIDGE_MESSAGE_CONFLICT) (\<lambda>_.
     andThen (ensure (\<not> clash_hash (resDestinationHash result) hash) BRIDGE_HASH_CONFLICT) (\<lambda>_.
     if same_hash (resDestinationHash result) hash then lift (view r)
     else andThen (updateBridge i (\<lambda>r. r\<lparr>bridgeStatus := B_verifying_destination,
            messageHash := Some message, destinationTransactionHash := Some hash,
            bridgeResult := Some (result\<lparr>resDestinationHash := Some hash, resMessageHash := Some message\<rparr>)\<rparr>))
          (\<lambda>u. lift (view u))))))))"

section \<open>The destination lease\<close>

definition DESTINATION_LEASE_TTL_MS :: int where
  "DESTINATION_LEASE_TTL_MS = 5 * 60000"

definition authorizeDestination :: "bridge_env \<Rightarrow> int \<Rightarrow> string \<Rightarrow> string \<Rightarrow> string \<Rightarrow> (db, bridge) op" where
  "authorizeDestination B now freshLease i wallet =
     owned B i wallet (\<lambda>r.
     andThen (lift (view r)) (\<lambda>v.
     andThen (ensure (bridgeStatus v = B_attestation_ready) ATTESTATION_REQUIRED) (\<lambda>_.
     andThen (updateBridge i (\<lambda>r. r\<lparr>bridgeStatus := B_awaiting_destination_signature,
        destinationLeaseId := Some freshLease,
        destinationLeaseExpiresAt := Some (now + DESTINATION_LEASE_TTL_MS)\<rparr>)) (\<lambda>u. lift (view u)))))"

definition submitDestination ::
  "bridge_env \<Rightarrow> int \<Rightarrow> string \<Rightarrow> string \<Rightarrow> string \<Rightarrow> string \<Rightarrow> string \<Rightarrow> (db, bridge) op" where
  "submitDestination B now i wallet lease h mh =
     owned B i wallet (\<lambda>r.
     andThen (ensure (\<not> (\<not> truthy (destinationLeaseId r) \<or> destinationLeaseId r \<noteq> Some lease)) LEASE_CONFLICT) (\<lambda>_.
     andThen (ensure (case destinationLeaseExpiresAt r of None \<Rightarrow> False | Some t \<Rightarrow> now < t) LEASE_EXPIRED) (\<lambda>_.
     andThen (lift (txHashOf h)) (\<lambda>hash.
     andThen (lift (txHashOf mh)) (\<lambda>message.
     let result = resultOf r in
     andThen (updateBridge i (\<lambda>r. r\<lparr>bridgeStatus := B_verifying_destination,
        messageHash := Some message, destinationTransactionHash := Some hash,
        destinationLeaseId := None, destinationLeaseExpiresAt := None,
        bridgeResult := Some (result\<lparr>resDestinationHash := Some hash, resMessageHash := Some message,
          destinationSubmittedAt := Some now\<rparr>)\<rparr>)) (\<lambda>u. lift (view u)))))))"

section \<open>The attestation\<close>

datatype fetched = Not_indexed | Pending string "string option" | Complete string string

definition fetchAttestation :: "iris \<Rightarrow> nat \<Rightarrow> string \<Rightarrow> fetched res" where
  "fetchAttestation I dmn h =
     (case irisMessages I dmn h of
        Unreachable \<Rightarrow> Inl ATTESTATION_UNAVAILABLE
      | Missing \<Rightarrow> Inr Not_indexed
      | Failed \<Rightarrow> Inl ATTESTATION_UNAVAILABLE
      | Messages [] \<Rightarrow> Inr Not_indexed
      | Messages (m # _) \<Rightarrow>
          (case (imMessage m, imAttestation m) of
             (Some msg, Some att) \<Rightarrow>
               if imStatus m = Some ''complete'' \<and> take 2 msg = ''0x'' \<and> take 2 att = ''0x''
               then Inr (Complete msg att)
               else Inr (Pending (case imStatus m of None \<Rightarrow> ''unknown'' | Some st \<Rightarrow> st) (imDelayReason m))
           | _ \<Rightarrow> Inr (Pending (case imStatus m of None \<Rightarrow> ''unknown'' | Some st \<Rightarrow> st) (imDelayReason m))))"

definition refreshAttestation :: "bridge_env \<Rightarrow> string \<Rightarrow> string \<Rightarrow> (db, bridge) op" where
  "refreshAttestation B i wallet =
     owned B i wallet (\<lambda>r.
     andThen (lift (view r)) (\<lambda>v.
     let result = resultOf r in
     andThen (ensure (truthy (sourceTransactionHash result)) SOURCE_REQUIRED) (\<lambda>_.
     andThen (lift (fetchAttestation (irisOf B) (sourceDomain (bridgePayload v))
        (the (sourceTransactionHash result)))) (\<lambda>f.
     let waiting = (\<lambda>st reason.
       andThen (updateBridge i (\<lambda>r. r\<lparr>bridgeStatus := B_waiting_for_attestation,
          bridgeResult := Some (result\<lparr>attestationStatus := Some st, attestationDelayReason := reason\<rparr>)\<rparr>))
         (\<lambda>u. lift (view u))) in
     case f of
       Not_indexed \<Rightarrow> waiting ''not_indexed'' None
     | Pending st reason \<Rightarrow> waiting st reason
     | Complete msg att \<Rightarrow>
         andThen (lift (decodeCctpV2Message (evmOf B) msg)) (\<lambda>d.
         andThen (lift (matchesBridgeAttestation (evmOf B) (bridgePayload v) d None)) (\<lambda>matches.
         andThen (ensure matches ATTESTATION_MISMATCH) (\<lambda>_.
         andThen (updateBridge i (\<lambda>r. r\<lparr>bridgeStatus := B_attestation_ready,
            messageHash := Some (cMessageHash d), nonce := Some (cNonce d),
            bridgeResult := Some (result\<lparr>attestedMessage := Some msg, attestation := Some att,
              resMessageHash := Some (cMessageHash d), resNonce := Some (cNonce d),
              feeExecuted := Some (show_nat (cFeeExecuted d)), mintAmount := Some (show_nat (cAmount d)),
              attestationStatus := Some ''complete'', attestationDelayReason := None\<rparr>)\<rparr>))
           (\<lambda>u. lift (view u)))))))))"

section \<open>Completion\<close>

definition proveDestinationReceipt :: "bridge_env \<Rightarrow> bridge \<Rightarrow> bool res" where
  "proveDestinationReceipt B v =
     (let E = evmOf B; p = bridgePayload v; result = resultOf v in
      case destinationRpc B (destinationChainId p) of
        None \<Rightarrow> Inr False
      | Some url \<Rightarrow>
          bindR (ensureR (truthy (resDestinationHash result) \<and> truthy (attestedMessage result))
             DESTINATION_REQUIRED) (\<lambda>_.
          let hash = the (resDestinationHash result); message = the (attestedMessage result) in
          bindR (decodeCctpV2Message E message) (\<lambda>d.
          bindR (matchesBridgeAttestation E p d (resNonce result)) (\<lambda>attested.
          bindR (ensureR attested ATTESTATION_MISMATCH) (\<lambda>_.
          bindR (fromSome DESTINATION_PENDING (getChainId (connect B url))) (\<lambda>provider.
          bindR (fromSome DESTINATION_PENDING (getTransaction (connect B url) hash)) (\<lambda>tx.
          bindR (fromSome DESTINATION_PENDING (getTransactionReceipt (connect B url) hash)) (\<lambda>rcp.
          bindR (cctpMessageBody E message) (\<lambda>body.
          bindR (allR
             [Inr (provider = destinationChainId p), Inr (crSuccess rcp), Inr (truthy (ctTo tx)),
              Inr (isAddress E (the (ctTo tx))),
              bindR (checksum E (the (ctTo tx))) (\<lambda>a. equalR E a (destinationMessageTransmitterV2 p)),
              destinationMintReceiptMatches E (decodeReceived B) (destinationMessageTransmitterV2 p)
                \<lparr>exSourceDomain = cSourceDomain d, exNonce = cNonce d,
                 exSender = addressToBytes32 (sender d), exFinality = finalityExecuted d, exBody = body\<rparr>
                (crLogs rcp)]) (\<lambda>matched.
          bindR (ensureR matched DESTINATION_MISMATCH) (\<lambda>_. Inr True)))))))))))"

definition verifyDestination :: "bridge_env \<Rightarrow> int \<Rightarrow> string \<Rightarrow> string \<Rightarrow> (db, bridge) op" where
  "verifyDestination B now i wallet =
     owned B i wallet (\<lambda>r.
     andThen (lift (view r)) (\<lambda>v.
     let result = resultOf v in
     andThen (ensure (\<not> (\<not> truthy (attestation result) \<or> \<not> truthy (attestedMessage result))) ATTESTATION_REQUIRED) (\<lambda>_.
     andThen (ensure (truthy (resDestinationHash result)) DESTINATION_REQUIRED) (\<lambda>_.
     andThen (lift (proveDestinationReceipt B v)) (\<lambda>proved.
     let final = (if proved
       then result\<lparr>bridgeCompletedAt := Some now, destinationReceiptVerified := True,
              destinationVerifiedAt := Some now\<rparr>
       else result\<lparr>bridgeCompletedAt := Some now\<rparr>) in
     andThen (transaction (
        andThen (onTasks (updateMany (\<lambda>t. tId t = bridgeTaskId r) (\<lambda>t. t\<lparr>taskStatus := TS_COMPLETED\<rparr>))) (\<lambda>_.
        updateBridge i (\<lambda>r. r\<lparr>bridgeStatus := B_completed, bridgeResult := Some final\<rparr>)))) (\<lambda>u.
     lift (view u)))))))"

end
