(* ===== verification/BridgeProperties.thy ===== *)
theory BridgeProperties
  imports BridgeLifecycle
begin

text \<open>
  What the bridge service guarantees.  Calls run one after the other; \<open>bridge_safe\<close> is what every call
  does to the table: the unique columns stay unique, the invariant of the rows is kept, and the rows
  evolve along \<open>bridge_evolves\<close>.
\<close>

section \<open>The preorder on rows\<close>

definition kept :: "string option \<Rightarrow> string option \<Rightarrow> bool" where
  "kept a b \<longleftrightarrow> truthy a \<longrightarrow> b = a"

definition bridge_evolves :: "bridge \<Rightarrow> bridge \<Rightarrow> bool" where
  "bridge_evolves r s \<longleftrightarrow>
     bridgeId s = bridgeId r \<and> bridgeTaskId s = bridgeTaskId r \<and> bridgePayload s = bridgePayload r \<and>
     kept (approvalTransactionHash (resultOf r)) (approvalTransactionHash (resultOf s)) \<and>
     kept (sourceTransactionHash (resultOf r)) (sourceTransactionHash (resultOf s)) \<and>
     (truthy (attestedMessage (resultOf r)) \<longrightarrow> truthy (attestedMessage (resultOf s))) \<and>
     (destinationReceiptVerified (resultOf r) \<longrightarrow> destinationReceiptVerified (resultOf s))"

interpretation bridge_rows: row_evolution bridgeId bridge_evolves
  by unfold_locales (auto simp: bridge_evolves_def kept_def)

section \<open>The invariant of a row\<close>

definition payload_ok :: "evm \<Rightarrow> bridge_payload \<Rightarrow> bool" where
  "payload_ok E p \<longleftrightarrow>
     (\<exists>src dst n m. assertBridgeRoute (sourceCode p) (destinationCode p) = Inr (src, dst) \<and>
        sourceChainId p = bcChainId src \<and> destinationChainId p = bcChainId dst \<and>
        sourceDomain p = domain src \<and> destinationDomain p = domain dst \<and>
        getAddress E (usdcAddress src) = Some (sourceUsdcAddress p) \<and>
        getAddress E (tokenMessengerV2 src) = Some (sourceTokenMessengerV2 p) \<and>
        getAddress E (tokenMessengerV2 dst) = Some (destinationTokenMessengerV2 p) \<and>
        getAddress E (messageTransmitterV2 dst) = Some (destinationMessageTransmitterV2 p) \<and>
        minFinalityThreshold p = (if fastTransferSource src then 1000 else 2000) \<and>
        destinationCaller p = zeroAddress \<and>
        bridgeAmount p = show_nat n \<and> bridgeMaxFee p = show_nat m \<and> 0 < n \<and>
        n \<le> 10000000000000 \<and> m \<le> n)"

definition attested_ok :: "evm \<Rightarrow> bridge \<Rightarrow> bool" where
  "attested_ok E r \<longleftrightarrow>
     (\<forall>m. attestedMessage (resultOf r) = Some m \<longrightarrow>
        (\<exists>d. decodeCctpV2Message E m = Inr d \<and>
           matchesBridgeAttestation E (bridgePayload r) d None = Inr True \<and>
           resNonce (resultOf r) = Some (cNonce d) \<and> nonce r = Some (cNonce d) \<and>
           feeExecuted (resultOf r) = Some (show_nat (cFeeExecuted d)) \<and>
           mintAmount (resultOf r) = Some (show_nat (cAmount d))))"

text \<open>A mint of the attested message is proved by a transaction on the destination chain.\<close>

definition mint_proved :: "bridge_env \<Rightarrow> bridge_payload \<Rightarrow> string \<Rightarrow> bool" where
  "mint_proved B p h \<longleftrightarrow>
     (\<exists>url m d body tx rcp to.
        destinationRpc B (destinationChainId p) = Some url \<and>
        getChainId (connect B url) = Some (destinationChainId p) \<and>
        getTransaction (connect B url) h = Some tx \<and> getTransactionReceipt (connect B url) h = Some rcp \<and>
        crSuccess rcp \<and> ctTo tx = Some to \<and>
        is_account (evmOf B) to (destinationMessageTransmitterV2 p) \<and>
        decodeCctpV2Message (evmOf B) m = Inr d \<and> cctpMessageBody (evmOf B) m = Inr body \<and>
        matchesBridgeAttestation (evmOf B) p d None = Inr True \<and>
        (\<exists>l\<in>set (crLogs rcp). is_account (evmOf B) (logAddress l) (destinationMessageTransmitterV2 p) \<and>
           received_log (evmOf B) (decodeReceived B)
             \<lparr>exSourceDomain = cSourceDomain d, exNonce = cNonce d, exSender = addressToBytes32 (sender d),
              exFinality = finalityExecuted d, exBody = body\<rparr> l))"

definition bridge_inv :: "bridge_env \<Rightarrow> bridge \<Rightarrow> bool" where
  "bridge_inv B r \<longleftrightarrow>
     payload_ok (evmOf B) (bridgePayload r) \<and> attested_ok (evmOf B) r \<and>
     (bridgeStatus r = B_completed \<longrightarrow>
        truthy (attestedMessage (resultOf r)) \<and> truthy (resDestinationHash (resultOf r))) \<and>
     (destinationReceiptVerified (resultOf r) \<longrightarrow> (\<exists>h. mint_proved B (bridgePayload r) h))"

definition bridges_ok :: "bridge_env \<Rightarrow> bridge list \<Rightarrow> bool" where
  "bridges_ok B T \<longleftrightarrow> bridges_unique T \<and> list_all (bridge_inv B) T"

definition bridge_safe :: "bridge_env \<Rightarrow> db \<Rightarrow> db \<Rightarrow> bool" where
  "bridge_safe B s t \<longleftrightarrow>
     (bridges_ok B (bridges s) \<longrightarrow>
        bridges_ok B (bridges t) \<and> table_evolves bridge_evolves (bridges s) (bridges t))"

lemma safe_refl: "bridge_safe B s s"
  using bridge_rows.table_refl by (simp add: bridge_safe_def reflp_def)

lemma safe_same: "bridges t = bridges s \<Longrightarrow> bridge_safe B s t"
  using safe_refl [of B s] by (simp add: bridge_safe_def)

lemma safe_trans: "bridge_safe B s t \<Longrightarrow> bridge_safe B t u \<Longrightarrow> bridge_safe B s u"
  using bridge_rows.table_trans unfolding bridge_safe_def by (blast dest: transpD)

text \<open>Pure checks do not touch the table.\<close>

lemma safe_lift: "(\<And>y. x = Inr y \<Longrightarrow> bridge_safe B s (snd (f y s))) \<Longrightarrow> bridge_safe B s (snd (andThen (lift x) f s))"
  by (cases x) (simp_all add: andThen_def lift_def safe_refl)

lemma safe_ensure: "(b \<Longrightarrow> bridge_safe B s (snd (f () s))) \<Longrightarrow> bridge_safe B s (snd (andThen (ensure b e) f s))"
  by (simp add: andThen_ensure safe_refl)

lemma safe_view: "bridge_safe B s (snd (lift x s))"
  by (simp add: lift_def safe_refl)

lemma safe_owned:
  assumes "\<And>r. find_row (\<lambda>r. bridgeId r = i) (bridges s) = Some r \<Longrightarrow> bridge_safe B s (snd (f r s))"
  shows "bridge_safe B s (snd (owned C i wallet f s))"
  using assms
  by (auto simp: owned_def required_def andThen_def query_def throw_def ok_def lift_def safe_refl
      split: option.splits sum.splits)

text \<open>An update of the row that was read.\<close>

lemma bridge_update:
  assumes "find_row (\<lambda>r. bridgeId r = i) (bridges s) = Some r" "bridge_inv B r \<Longrightarrow> bridge_inv B (g r)"
    and "bridge_inv B r \<Longrightarrow> bridge_evolves r (g r)" "\<And>q. bridgeId (g q) = bridgeId q"
    and "updateBridge i g s = (res, t)"
  shows "bridge_safe B s t"
proof -
  have t: "t = s \<or> t = s\<lparr>bridges := update_rows (\<lambda>r. bridgeId r = i) g (bridges s)\<rparr> \<and>
      bridges_unique (update_rows (\<lambda>r. bridgeId r = i) g (bridges s))"
    using assms(5)
    by (auto simp: updateBridge_def andThen_def onBridges_def updateManyUnique_def query_def throw_def
        ok_def split: if_splits option.splits)
  have "bridge_safe B s (s\<lparr>bridges := update_rows (\<lambda>r. bridgeId r = i) g (bridges s)\<rparr>)"
    if u: "bridges_unique (update_rows (\<lambda>r. bridgeId r = i) g (bridges s))"
  proof -
    have only: "q = r" if "bridges_ok B (bridges s)" "q \<in> set (bridges s)" "bridgeId q = i" for q
      using find_row_unique [of bridgeId "bridges s" q i] that assms(1)
      by (simp add: bridges_ok_def bridges_unique_def)
    have "bridges_ok B (update_rows (\<lambda>r. bridgeId r = i) g (bridges s)) \<and>
        table_evolves bridge_evolves (bridges s) (update_rows (\<lambda>r. bridgeId r = i) g (bridges s))"
      if ok: "bridges_ok B (bridges s)"
    proof
      have inv: "bridge_inv B q" if "q \<in> set (bridges s)" for q
        using ok that by (simp add: bridges_ok_def list_all_iff)
      show "bridges_ok B (update_rows (\<lambda>r. bridgeId r = i) g (bridges s))"
        using u inv only [OF ok] assms(2) by (auto simp: bridges_ok_def list_all_iff update_rows_def)
      show "table_evolves bridge_evolves (bridges s) (update_rows (\<lambda>r. bridgeId r = i) g (bridges s))"
        using inv only [OF ok] assms(3) by (intro bridge_rows.table_update) blast
    qed
    then show ?thesis by (simp add: bridge_safe_def)
  qed
  with t show ?thesis using safe_refl by auto
qed

lemma safe_update:
  assumes "find_row (\<lambda>r. bridgeId r = i) (bridges s) = Some r" "bridge_inv B r \<Longrightarrow> bridge_inv B (g r)"
    and "bridge_inv B r \<Longrightarrow> bridge_evolves r (g r)" "\<And>q. bridgeId (g q) = bridgeId q"
  shows "bridge_safe B s (snd (andThen (updateBridge i g) (\<lambda>u. lift (view u)) s))"
proof -
  obtain res t where u: "updateBridge i g s = (res, t)" by fastforce
  have "bridge_safe B s t" by (rule bridge_update [OF assms u])
  with u show ?thesis by (auto simp: andThen_def lift_def split: sum.splits)
qed

lemmas safe_rules = safe_lift safe_ensure safe_view

lemmas bridge_defs = bridge_inv_def attested_ok_def bridge_evolves_def kept_def resultOf_def

section \<open>Every call is safe\<close>

lemma resultOf_update [simp]:
  "resultOf (r\<lparr>bridgeStatus := st, bridgeResult := Some x\<rparr>) = x"
  "resultOf (r\<lparr>bridgeResult := Some x, bridgeStatus := st\<rparr>) = x"
  "resultOf (r\<lparr>bridgeResult := Some x\<rparr>) = x" "resultOf (r\<lparr>bridgeStatus := st\<rparr>) = resultOf r"
  "resultOf (r\<lparr>destinationLeaseId := l\<rparr>) = resultOf r"
  "resultOf (r\<lparr>destinationLeaseExpiresAt := e\<rparr>) = resultOf r"
  "resultOf (r\<lparr>messageHash := mh\<rparr>) = resultOf r" "resultOf (r\<lparr>nonce := n\<rparr>) = resultOf r"
  "resultOf (r\<lparr>destinationTransactionHash := dh\<rparr>) = resultOf r"
  by (simp_all add: resultOf_def)

lemmas bridge_step_defs =
  bridge_inv_def attested_ok_def bridge_evolves_def kept_def clash_hash_def same_hash_def

lemma safe_approval: "bridge_safe B s (snd (reportApproval B i wallet h s))"
  unfolding reportApproval_def Let_def
proof (intro safe_owned safe_lift safe_ensure, goal_cases)
  case (1 r hash)
  then show ?case
    by (cases "same_hash (approvalTransactionHash (resultOf r)) hash")
      (auto intro: safe_view intro!: safe_update simp: bridge_step_defs)
qed

lemma safe_source: "bridge_safe B s (snd (reportSource B i wallet h s))"
  unfolding reportSource_def Let_def
proof (intro safe_owned safe_lift safe_ensure, goal_cases)
  case (1 r hash)
  then show ?case
    by (cases "same_hash (sourceTransactionHash (resultOf r)) hash")
      (auto intro: safe_view intro!: safe_update simp: bridge_step_defs)
qed

lemma safe_destination: "bridge_safe B s (snd (reportDestination B i wallet h mh s))"
  unfolding reportDestination_def Let_def
proof (intro safe_owned safe_lift safe_ensure, goal_cases)
  case (1 r hash message v)
  then show ?case
    by (cases "same_hash (resDestinationHash (resultOf r)) hash")
      (auto intro: safe_view intro!: safe_update simp: bridge_step_defs)
qed

lemma safe_authorize: "bridge_safe B s (snd (authorizeDestination B now fresh i wallet s))"
  unfolding authorizeDestination_def
proof (intro safe_owned safe_lift safe_ensure, goal_cases)
  case (1 r v)
  then show ?case by (intro safe_update) (auto simp: bridge_step_defs)
qed

lemma safe_submit: "bridge_safe B s (snd (submitDestination B now i wallet lease h mh s))"
  unfolding submitDestination_def Let_def
proof (intro safe_owned safe_lift safe_ensure, goal_cases)
  case (1 r hash message)
  then show ?case by (intro safe_update) (auto simp: bridge_step_defs)
qed

lemma safe_get: "bridge_safe B s (snd (getBridgeIntent B i wallet s))"
  unfolding getBridgeIntent_def by (intro safe_owned safe_view)

lemma view_Inr: "view r = Inr v \<Longrightarrow> v = r"
  by (auto simp: view_def)

lemma truthy_0x: "take 2 s = ''0x'' \<Longrightarrow> truthy (Some s)"
  by auto

lemma fetch_complete:
  "fetchAttestation I dmn h = Inr (Complete msg att) \<Longrightarrow> take 2 msg = ''0x'' \<and> take 2 att = ''0x''"
  by (auto simp: fetchAttestation_def split: messages_response.splits list.splits option.splits if_splits)

lemma safe_refresh: "bridge_safe B s (snd (refreshAttestation B i wallet s))"
  unfolding refreshAttestation_def Let_def
proof (intro safe_owned safe_lift safe_ensure, goal_cases)
  case (1 r v f)
  note v = view_Inr [OF 1(2)]
  show ?case
  proof (cases f)
    case Not_indexed
    with 1 show ?thesis by (auto intro!: safe_update simp: bridge_step_defs)
  next
    case (Pending st reason)
    with 1 show ?thesis by (auto intro!: safe_update simp: bridge_step_defs)
  next
    case (Complete msg att)
    note prefix = fetch_complete [OF 1(4) [unfolded Complete]]
    have "bridge_safe B s (snd (andThen (lift (decodeCctpV2Message (evmOf B) msg)) (\<lambda>d.
         andThen (lift (matchesBridgeAttestation (evmOf B) (bridgePayload v) d None)) (\<lambda>matches.
         andThen (ensure matches ATTESTATION_MISMATCH) (\<lambda>_.
         andThen (updateBridge i (\<lambda>q. q\<lparr>bridgeStatus := B_attestation_ready,
            messageHash := Some (cMessageHash d), nonce := Some (cNonce d),
            bridgeResult := Some ((resultOf r)\<lparr>attestedMessage := Some msg, attestation := Some att,
              resMessageHash := Some (cMessageHash d), resNonce := Some (cNonce d),
              feeExecuted := Some (show_nat (cFeeExecuted d)), mintAmount := Some (show_nat (cAmount d)),
              attestationStatus := Some ''complete'', attestationDelayReason := None\<rparr>)\<rparr>))
           (\<lambda>u. lift (view u))))) s))"
    proof (intro safe_lift safe_ensure safe_update [OF 1(1)], goal_cases)
      case (1 d matches)
      then show ?case using v truthy_0x prefix by (auto simp: bridge_inv_def attested_ok_def)
    next
      case (2 d matches)
      then show ?case using truthy_0x prefix by (auto simp: bridge_evolves_def kept_def)
    qed simp
    then show ?thesis by (simp add: Complete)
  qed
qed

lemma received_loop:
  "destinationMintReceiptMatches E D transmitter x ls = Inr True \<Longrightarrow>
     \<exists>l\<in>set ls. is_account E (logAddress l) transmitter \<and> received_log E D x l"
  by (induction ls) (auto simp: is_account_def checksum_def equalR_def split: if_splits)

lemma prove_mint:
  assumes "proveDestinationReceipt B v = Inr True"
  shows "\<exists>h. mint_proved B (bridgePayload v) h \<and> resDestinationHash (resultOf v) = Some h"
proof -
  let ?p = "bridgePayload v" and ?x = "resultOf v" and ?E = "evmOf B"
  obtain url where url: "destinationRpc B (destinationChainId ?p) = Some url"
    using assms by (auto simp: proveDestinationReceipt_def Let_def split: option.splits)
  obtain d provider tx rcp body where
    present: "truthy (resDestinationHash ?x)" "truthy (attestedMessage ?x)"
    and d: "decodeCctpV2Message ?E (the (attestedMessage ?x)) = Inr d"
      "matchesBridgeAttestation ?E ?p d (resNonce ?x) = Inr True"
    and chain: "getChainId (connect B url) = Some provider"
      "getTransaction (connect B url) (the (resDestinationHash ?x)) = Some tx"
      "getTransactionReceipt (connect B url) (the (resDestinationHash ?x)) = Some rcp"
    and body: "cctpMessageBody ?E (the (attestedMessage ?x)) = Inr body"
    and m: "provider = destinationChainId ?p" "crSuccess rcp" "truthy (ctTo tx)"
      "bindR (checksum ?E (the (ctTo tx))) (\<lambda>a. equalR ?E a (destinationMessageTransmitterV2 ?p)) = Inr True"
      "destinationMintReceiptMatches ?E (decodeReceived B) (destinationMessageTransmitterV2 ?p)
         \<lparr>exSourceDomain = cSourceDomain d, exNonce = cNonce d, exSender = addressToBytes32 (sender d),
          exFinality = finalityExecuted d, exBody = body\<rparr> (crLogs rcp) = Inr True"
    using assms url by (auto simp: proveDestinationReceipt_def Let_def allR_True simp del: allR.simps)
  have "matchesBridgeAttestation ?E ?p d None = Inr True"
    using d(2) by (simp add: matchesBridgeAttestation_def allR_True del: allR.simps)
  moreover have "is_account ?E (the (ctTo tx)) (destinationMessageTransmitterV2 ?p)"
    using m(4) by (auto simp: is_account_def checksum_def equalR_def)
  moreover obtain to where "ctTo tx = Some to" using m(3) by (auto simp: truthy_def)
  ultimately have "mint_proved B ?p (the (resDestinationHash ?x))"
    using url chain m(1,2) d(1) body received_loop [OF m(5)] unfolding mint_proved_def by auto
  moreover have "resDestinationHash ?x = Some (the (resDestinationHash ?x))"
    using present(1) by (auto simp: truthy_def)
  ultimately show ?thesis by blast
qed

lemma safe_verify: "bridge_safe B s (snd (verifyDestination B now i wallet s))"
  unfolding verifyDestination_def Let_def
proof (intro safe_owned safe_lift safe_ensure, goal_cases)
  case (1 r v proved)
  have v: "v = r" using view_Inr [OF 1(2)] by simp
  define final where "final = (if proved
       then (resultOf v)\<lparr>bridgeCompletedAt := Some now, destinationReceiptVerified := True,
              destinationVerifiedAt := Some now\<rparr>
       else (resultOf v)\<lparr>bridgeCompletedAt := Some now\<rparr>)"
  define u where "u = s\<lparr>tasks := update_rows (\<lambda>t. tId t = bridgeTaskId r) (\<lambda>t. t\<lparr>taskStatus := TS_COMPLETED\<rparr>) (tasks s)\<rparr>"
  have row: "find_row (\<lambda>r. bridgeId r = i) (bridges u) = Some r" using 1(1) by (simp add: u_def)
  obtain res t where upd: "updateBridge i (\<lambda>r. r\<lparr>bridgeStatus := B_completed, bridgeResult := Some final\<rparr>) u = (res, t)"
    by fastforce
  have "bridge_safe B u t"
  proof (rule bridge_update [OF row _ _ _ upd], goal_cases)
    case 1
    have "\<exists>h. mint_proved B (bridgePayload r) h" if proved
      using prove_mint [of B v] \<open>proveDestinationReceipt B v = Inr proved\<close> that v by auto
    with 1 \<open>truthy (resDestinationHash (resultOf v))\<close> \<open>\<not> (\<not> truthy (attestation (resultOf v)) \<or> _)\<close> v
    show ?case by (cases proved) (auto simp: final_def bridge_inv_def attested_ok_def)
  next
    case 2
    then show ?case by (cases proved) (auto simp: final_def bridge_evolves_def kept_def v)
  qed simp
  moreover have "bridge_safe B s u" by (rule safe_same) (simp add: u_def)
  ultimately have "bridge_safe B s t" by (rule safe_trans [rotated])
  moreover have "andThen (onTasks (updateMany (\<lambda>t. tId t = bridgeTaskId r) (\<lambda>t. t\<lparr>taskStatus := TS_COMPLETED\<rparr>))) (\<lambda>_.
        updateBridge i (\<lambda>r. r\<lparr>bridgeStatus := B_completed, bridgeResult := Some final\<rparr>)) s = (res, t)"
    using upd by (simp add: andThen_def onTasks_def updateMany_def u_def)
  ultimately show ?case
    unfolding final_def [symmetric]
    by (auto simp: andThen_def transaction_def lift_def safe_refl split: sum.splits)
qed

lemma newPayload_Inr:
  assumes "newPayload E now x src dst wallet rcp amount maxFee threshold = Inr p"
  shows "bridgeKey p = cbKey x" "sourceCode p = code src" "destinationCode p = code dst"
    "sourceChainId p = bcChainId src" "destinationChainId p = bcChainId dst"
    "sourceDomain p = domain src" "destinationDomain p = domain dst"
    "getAddress E (usdcAddress src) = Some (sourceUsdcAddress p)"
    "getAddress E (tokenMessengerV2 src) = Some (sourceTokenMessengerV2 p)"
    "getAddress E (tokenMessengerV2 dst) = Some (destinationTokenMessengerV2 p)"
    "getAddress E (messageTransmitterV2 dst) = Some (destinationMessageTransmitterV2 p)"
    "minFinalityThreshold p = threshold" "destinationCaller p = zeroAddress"
    "bridgeAmount p = show_nat amount" "bridgeMaxFee p = show_nat maxFee"
    "walletAddress p = wallet" "recipientAddress p = rcp"
  using assms by (auto simp: newPayload_def checksum_def)

lemma newBridge_inv: "payload_ok (evmOf B) p \<Longrightarrow> bridge_inv B (newBridge i t p)"
  by (simp add: bridge_inv_def attested_ok_def newBridge_def resultOf_def empty_result_def)

lemma max_burn: "read_nat maxBurnAmountUnits = 10000000000000"
  by (simp add: maxBurnAmountUnits_def read_nat_def digit_val_def)

lemma safe_insert:
  assumes "payload_ok (evmOf B) p"
  shows "bridge_safe B s (snd (transaction (andThen (insertTask w) (\<lambda>t.
    onBridges (insertUnique bridges_unique (newBridge fresh (tId t) p)))) s))"
proof -
  have "bridge_safe B s (s\<lparr>tasks := T, bridges := bridges s @ [newBridge fresh (tId w) p]\<rparr>)"
    if "bridges_unique (bridges s @ [newBridge fresh (tId w) p])" for T
    using that newBridge_inv [OF assms] bridge_rows.table_append
    by (simp add: bridge_safe_def bridges_ok_def)
  then show ?thesis
    by (auto simp: transaction_def andThen_def insertTask_def onTasks_def onBridges_def insertUnique_def
        safe_refl split: if_splits)
qed

lemma bridgeRoute_Inr: "bridgeRoute s d = Inr x \<longleftrightarrow> assertBridgeRoute s d = Inr x"
  by (auto simp: bridgeRoute_def split: sum.splits exn.splits)

lemma threshold_Inr:
  "e \<in> set BRIDGE_CHAINS \<Longrightarrow> getBridgeFinalityThreshold (code e) = Inr (if fastTransferSource e then 1000 else 2000)"
proof -
  assume "e \<in> set BRIDGE_CHAINS"
  then have "getBridgeChain (code e) = Inr e" by (simp add: getBridgeChain_Inr)
  then show ?thesis
    by (simp add: getBridgeFinalityThreshold_def is_fast_def fastFinalityThreshold_def standardFinalityThreshold_def)
qed

lemma safe_create: "bridge_safe B s (snd (createBridgeIntent B now freshTask fresh x s))"
unfolding createBridgeIntent_def Let_def case_prod_beta
proof (intro safe_lift safe_ensure, goal_cases)
    case (1 route wallet rcp amount maxFee threshold fast)
    obtain src dst where route: "route = (src, dst)" by fastforce
    have ok: "assertBridgeRoute (cbSource x) (cbDestination x) = Inr (src, dst)"
      using 1(1) route by (simp add: bridgeRoute_Inr)
    then have member: "src \<in> set BRIDGE_CHAINS" "code src = cbSource x" "code dst = cbDestination x"
      by (auto simp: assertBridgeRoute_def getBridgeChain_Inr)
    have amounts: "amount \<le> 10000000000000"
      using \<open>parseAmount (cbAmount x) = Inr amount\<close> by (auto simp: parseAmount_def max_burn)
    have "bridge_safe B s (snd (andThen (query (\<lambda>s. find_row (\<lambda>r. bridgeKey (bridgePayload r) = cbKey x) (bridges s))) (\<lambda>existing.
       case existing of
         Some r \<Rightarrow>
           andThen (lift (view r)) (\<lambda>v.
           andThen (lift (bridge_conflicts (evmOf B) v wallet (code src) (code dst) amount rcp)) (\<lambda>conflict.
           andThen (ensure (\<not> conflict) BRIDGE_CONFLICT) (\<lambda>_. ok v)))
       | None \<Rightarrow>
           andThen (lift (newPayload (evmOf B) now x src dst wallet rcp amount maxFee threshold)) (\<lambda>p.
           andThen (transaction (
              andThen (insertTask (newTask freshTask ''bridge'' TS_BRIDGE_INTENT
                (JObj [(''idempotencyKey'', JStr (cbKey x)), (''sourceCode'', JStr (code src)),
                       (''destinationCode'', JStr (code dst))]))) (\<lambda>t.
              onBridges (insertUnique bridges_unique (newBridge fresh (tId t) p))))) (\<lambda>created.
           lift (view created)))) s))"
    proof (cases "find_row (\<lambda>r. bridgeKey (bridgePayload r) = cbKey x) (bridges s)")
      case (Some r)
      then show ?thesis
        by (simp add: andThen_def [of "query _"] query_def)
          (intro safe_lift safe_ensure, simp add: ok_def safe_refl)
    next
      case None
      have "bridge_safe B s (snd (andThen (lift (newPayload (evmOf B) now x src dst wallet rcp amount maxFee threshold)) (\<lambda>p.
           andThen (transaction (
              andThen (insertTask w) (\<lambda>t.
              onBridges (insertUnique bridges_unique (newBridge fresh (tId t) p))))) (\<lambda>created.
           lift (view created))) s))" for w
      proof (intro safe_lift, goal_cases)
        case (1 p)
        note np = newPayload_Inr [OF 1]
        have "payload_ok (evmOf B) p"
          unfolding payload_ok_def
          using np ok member amounts threshold_Inr [OF member(1)]
            \<open>getBridgeFinalityThreshold (code (fst route)) = Inr threshold\<close> route \<open>0 < amount\<close> \<open>maxFee \<le> amount\<close>
          by (intro exI [of _ src] exI [of _ dst] exI [of _ amount] exI [of _ maxFee]) simp
        from safe_insert [OF this, of s w fresh] show ?case
          by (auto simp: andThen_def [of "transaction _"] lift_def split: prod.splits sum.splits)
      qed
      then show ?thesis
        using None by (simp add: andThen_def [of "query _"] query_def)
    qed
    then show ?case
      by (cases fast) (auto simp: route intro!: safe_lift, simp_all add: andThen_def [of "ok _"] ok_def)
qed

section \<open>Sequences of calls\<close>

datatype bridge_call =
    Create string string create_bridge
  | Read string string
  | Report_approval string string string
  | Report_source string string string
  | Attest string string
  | Report_destination string string string string
  | Authorize string string string
  | Submit string string string string string
  | Verify_destination string string

fun run_bridge :: "bridge_env \<Rightarrow> int \<times> bridge_call \<Rightarrow> db \<Rightarrow> db" where
  "run_bridge B (now, Create t i x) s = snd (createBridgeIntent B now t i x s)"
| "run_bridge B (now, Read i w) s = snd (getBridgeIntent B i w s)"
| "run_bridge B (now, Report_approval i w h) s = snd (reportApproval B i w h s)"
| "run_bridge B (now, Report_source i w h) s = snd (reportSource B i w h s)"
| "run_bridge B (now, Attest i w) s = snd (refreshAttestation B i w s)"
| "run_bridge B (now, Report_destination i w h mh) s = snd (reportDestination B i w h mh s)"
| "run_bridge B (now, Authorize fresh i w) s = snd (authorizeDestination B now fresh i w s)"
| "run_bridge B (now, Submit i w l h mh) s = snd (submitDestination B now i w l h mh s)"
| "run_bridge B (now, Verify_destination i w) s = snd (verifyDestination B now i w s)"

definition bridge_calls :: "bridge_env \<Rightarrow> (int \<times> bridge_call) list \<Rightarrow> db \<Rightarrow> db" where
  "bridge_calls B cs s = fold (run_bridge B) cs s"

lemma safe_call: "bridge_safe B s (run_bridge B c s)"
proof (cases c)
  case (Pair now k)
  then show ?thesis
    by (cases k) (simp_all add: safe_create safe_get safe_approval safe_source safe_refresh
        safe_destination safe_authorize safe_submit safe_verify)
qed

lemma safe_calls: "bridge_safe B s (bridge_calls B cs s)"
proof (induction cs arbitrary: s)
  case Nil
  show ?case by (simp add: bridge_calls_def safe_refl)
next
  case (Cons c cs)
  have "bridge_safe B (run_bridge B c s) (bridge_calls B cs (run_bridge B c s))" by (rule Cons.IH)
  from safe_trans [OF safe_call this] show ?case by (simp add: bridge_calls_def)
qed

lemma bridges_ok_nil [simp]: "bridges_ok B []"
  by (simp add: bridges_ok_def bridges_unique_def unique_col_def)

text \<open>
  C9: after any sequence of calls on an empty table, every bridge intent is a route of the registry that
  touches Arc, with the registry's contracts and finality threshold, a positive amount within the CCTP
  limit and a fee no larger than it; a stored attestation decodes to exactly the burn of the intent; a
  completed intent has an attestation and a destination transaction; the verified flag is set only
  when a transaction on the destination chain has been shown to mint the attested message; and no two
  intents share a nonce, a message hash or a destination transaction.
\<close>

theorem bridge_invariant:
  "bridges_ok B (bridges (bridge_calls B cs (s\<lparr>bridges := []\<rparr>)))"
  using safe_calls [of B "s\<lparr>bridges := []\<rparr>" cs] by (simp add: bridge_safe_def)


section \<open>What an attestation, a lease and a completion mean\<close>

lemma updateBridge_Inr:
  assumes "updateBridge i g s = (Inr u, t)" "find_row (\<lambda>r. bridgeId r = i) (bridges s) = Some r"
    and "\<And>q. bridgeId (g q) = bridgeId q"
  shows "u = g r" "t = s\<lparr>bridges := update_rows (\<lambda>r. bridgeId r = i) g (bridges s)\<rparr>"
    "find_row (\<lambda>r. bridgeId r = i) (bridges t) = Some (g r)"
proof -
  have id: "bridgeId r = i" using find_row_Some [OF assms(2)] by simp
  have f: "find_row (\<lambda>r. bridgeId r = i) (update_rows (\<lambda>r. bridgeId r = i) g (bridges s)) = Some (g r)"
    using assms(2,3) id by (simp add: find_update)
  show "u = g r" "t = s\<lparr>bridges := update_rows (\<lambda>r. bridgeId r = i) g (bridges s)\<rparr>"
    using assms(1) f
    by (auto simp: updateBridge_def andThen_def onBridges_def updateManyUnique_def query_def throw_def
        ok_def split: if_splits option.splits)
  with f show "find_row (\<lambda>r. bridgeId r = i) (bridges t) = Some (g r)" by simp
qed

lemma amountIs_show: "amountIs n (show_nat k) = Inr (n = k)"
  by (simp add: amountIs_def toBigInt_digits show_nat_digits)

text \<open>
  A stored attestation is for this transfer.  The attested message burns the source chain's USDC of
  the intent's wallet, for the intent's exact amount and maximum fee, under the intent's finality
  threshold, and mints to the intent's recipient on the intent's destination; the fee taken is within
  the maximum and leaves something to mint.
\<close>

theorem attestation_matches_intent:
  assumes "evm_laws (evmOf B)" "bridges_ok B T" "r \<in> set T" "attestedMessage (resultOf r) = Some m"
  shows "\<exists>d. decodeCctpV2Message (evmOf B) m = Inr d \<and>
    cSourceDomain d = sourceDomain (bridgePayload r) \<and>
    cDestinationDomain d = destinationDomain (bridgePayload r) \<and>
    toLowerCase (burnToken d) = toLowerCase (sourceUsdcAddress (bridgePayload r)) \<and>
    toLowerCase (messageSender d) = toLowerCase (walletAddress (bridgePayload r)) \<and>
    toLowerCase (mintRecipient d) = toLowerCase (recipientAddress (bridgePayload r)) \<and>
    show_nat (cAmount d) = bridgeAmount (bridgePayload r) \<and>
    show_nat (cMaxFee d) = bridgeMaxFee (bridgePayload r) \<and>
    finalityExecuted d = minFinalityThreshold (bridgePayload r) \<and>
    cFeeExecuted d \<le> cMaxFee d \<and> cFeeExecuted d < cAmount d"
proof -
  have inv: "bridge_inv B r" using assms(2,3) by (simp add: bridges_ok_def list_all_iff)
  then obtain d where d: "decodeCctpV2Message (evmOf B) m = Inr d"
      "matchesBridgeAttestation (evmOf B) (bridgePayload r) d None = Inr True"
    using assms(4) by (auto simp: bridge_inv_def attested_ok_def)
  obtain n k where "bridgeAmount (bridgePayload r) = show_nat n" "bridgeMaxFee (bridgePayload r) = show_nat k"
    using inv by (auto simp: bridge_inv_def payload_ok_def)
  with d(2) have "show_nat (cAmount d) = bridgeAmount (bridgePayload r)"
      "show_nat (cMaxFee d) = bridgeMaxFee (bridgePayload r)"
    by (simp_all add: matchesBridgeAttestation_def allR_True amountIs_show del: allR.simps)
  with d show ?thesis
    by (auto simp: matchesBridgeAttestation_def allR_True equalR_lower [OF assms(1)] simp del: allR.simps)
qed


text \<open>
  Submitting the mint needs the live lease and spends it.  A submission that returns was made under
  the lease of the intent before its expiry; it records the reported transaction, whatever was recorded
  before, and leaves the verified flag as it was; the same lease cannot be used again.
\<close>

theorem submit_outcome:
  assumes "submitDestination B now i wallet lease h mh s = (Inr r', t)"
  shows "\<exists>r e. find_row (\<lambda>r. bridgeId r = i) (bridges s) = Some r \<and>
    destinationLeaseId r = Some lease \<and> destinationLeaseExpiresAt r = Some e \<and> now < e \<and>
    find_row (\<lambda>r. bridgeId r = i) (bridges t) = Some r' \<and>
    bridgeStatus r' = B_verifying_destination \<and> resDestinationHash (resultOf r') = Some (toLowerCase h) \<and>
    destinationReceiptVerified (resultOf r') = destinationReceiptVerified (resultOf r) \<and>
    (ownership (evmOf B) r' wallet' = Inr () \<longrightarrow>
       submitDestination B now' i wallet' lease h' mh' t = (Inl LEASE_CONFLICT, t))"
proof -
  obtain r e u hash message where r: "find_row (\<lambda>r. bridgeId r = i) (bridges s) = Some r"
    and lease: "destinationLeaseId r = Some lease" "destinationLeaseExpiresAt r = Some e" "now < e"
    and hash: "txHashOf h = Inr hash"
    and upd: "updateBridge i (\<lambda>q. q\<lparr>bridgeStatus := B_verifying_destination,
        messageHash := Some message, destinationTransactionHash := Some hash,
        destinationLeaseId := None, destinationLeaseExpiresAt := None,
        bridgeResult := Some ((resultOf r)\<lparr>resDestinationHash := Some hash, resMessageHash := Some message,
          destinationSubmittedAt := Some now\<rparr>)\<rparr>) s = (Inr u, t)"
    and u: "view u = Inr r'"
    using assms
    by (auto simp: submitDestination_def owned_def required_def andThen_Inr_iff Let_def
        split: option.splits)
  note out = updateBridge_Inr [OF upd r]
  have r': "r' = u" by (rule view_Inr [OF u])
  have "hash = toLowerCase h" using hash by (auto simp: txHashOf_def)
  with r lease out r' show ?thesis
    by (auto simp: submitDestination_def owned_def required_def andThen_def query_def ok_def lift_def
        ensure_def)
qed

end
