(* ===== verification/BridgeExamples.thy ===== *)
theory BridgeExamples
  imports BridgeProperties
begin

text \<open>
  A bridge transfer from Arc to Base, step by step through its attestation, lease and mint: the concrete
  inputs on which the bridge theorems are exercised.
\<close>

definition arc_chain :: bridge_chain where
  "arc_chain = registry_entry ARC_CODE 5042 26 ''0x3600000000000000000000000000000000000000'' False"

definition base_chain :: bridge_chain where
  "base_chain = registry_entry ''BASE-MAINNET'' 8453 6 ''0x833589fCD6eDb6E08f4c7C32D4f71b54bdA02913'' True"

definition transfer_payload :: bridge_payload where
  "transfer_payload = \<lparr>bridgeKey = ''key'', sourceCode = ARC_CODE, destinationCode = ''BASE-MAINNET'',
     sourceChainId = 5042, destinationChainId = 8453, sourceDomain = 26, destinationDomain = 6,
     sourceUsdcAddress = toLowerCase (usdcAddress arc_chain),
     destinationUsdcAddress = toLowerCase (usdcAddress base_chain),
     sourceTokenMessengerV2 = toLowerCase CCTP_TOKEN_MESSENGER_V2,
     destinationTokenMessengerV2 = toLowerCase CCTP_TOKEN_MESSENGER_V2,
     destinationMessageTransmitterV2 = toLowerCase CCTP_MESSAGE_TRANSMITTER_V2,
     walletAddress = addr (CHR ''a''), recipientAddress = addr (CHR ''b''),
     destinationCaller = zeroAddress, bridgeAmount = show_nat 1000000, bridgeMaxFee = show_nat 0,
     minFinalityThreshold = 2000, bridgeCreatedAt = 0\<rparr>"

lemma registry_hex:
  "is_hex_address CCTP_TOKEN_MESSENGER_V2" "is_hex_address CCTP_MESSAGE_TRANSMITTER_V2"
  "is_hex_address (usdcAddress arc_chain)" "is_hex_address (usdcAddress base_chain)"
  using registry_addresses
  by (simp_all add: nonzero_address_def arc_chain_def base_chain_def registry_entry_def BRIDGE_CHAINS_def)

lemma chains:
  "arc_chain \<in> set BRIDGE_CHAINS" "base_chain \<in> set BRIDGE_CHAINS"
  "code arc_chain = ARC_CODE" "code base_chain = ''BASE-MAINNET''"
  by (simp_all add: arc_chain_def base_chain_def BRIDGE_CHAINS_def registry_entry_def ARC_CODE_def)

lemma lower_get: "is_hex_address a \<Longrightarrow> getAddress lower_evm a = Some (toLowerCase a)"
  by (simp add: lower_evm_def)

lemma transfer_payload_ok: "payload_ok lower_evm transfer_payload"
proof -
  have "assertBridgeRoute ARC_CODE ''BASE-MAINNET'' = Inr (arc_chain, base_chain)"
    using chains by (simp add: assertBridgeRoute_Inr ARC_CODE_def)
  then show ?thesis
    unfolding payload_ok_def
    using registry_hex
    by (intro exI [of _ arc_chain] exI [of _ base_chain] exI [of _ "1000000"] exI [of _ 0])
      (simp add: transfer_payload_def lower_get, simp add: arc_chain_def base_chain_def registry_entry_def lower_get)
qed

definition transfer_burn :: cctp where
  "transfer_burn = \<lparr>version = 1, cSourceDomain = 26, cDestinationDomain = 6, cNonce = hash_of (CHR ''1''),
     sender = toLowerCase CCTP_TOKEN_MESSENGER_V2, cRecipient = toLowerCase CCTP_TOKEN_MESSENGER_V2,
     cDestinationCaller = zeroAddress, cMinFinality = 2000, finalityExecuted = 2000, burnVersion = 1,
     burnToken = toLowerCase (usdcAddress arc_chain), mintRecipient = addr (CHR ''b''), cAmount = 1000000,
     messageSender = addr (CHR ''a''), cMaxFee = 0, cFeeExecuted = 0, expirationBlock = 0,
     cMessageHash = []\<rparr>"

definition transfer_message :: string where
  "transfer_message = encode_cctp transfer_burn []"

definition decoded_burn :: cctp where
  "decoded_burn = transfer_burn\<lparr>cMessageHash := keccak256 lower_evm transfer_message\<rparr>"

lemma transfer_decodes:
  "decodeCctpV2Message lower_evm transfer_message = Inr decoded_burn"
  "cctpMessageBody lower_evm transfer_message = Inr (''0x'' @ concat (drop 9 (cctp_fields transfer_burn)))"
proof -
  have "cctp_ok lower_evm transfer_burn"
    using registry_hex
    by (simp add: cctp_ok_def transfer_burn_def lower_get is_hex_string_lower)
  from decode_encode [OF lower_evm_laws this, of "[]"]
  show "decodeCctpV2Message lower_evm transfer_message = Inr decoded_burn"
    "cctpMessageBody lower_evm transfer_message = Inr (''0x'' @ concat (drop 9 (cctp_fields transfer_burn)))"
    by (simp_all add: transfer_message_def decoded_burn_def)
qed

lemma equalR_same: "is_hex_address a \<Longrightarrow> equalR lower_evm a a = Inr True"
  by (simp add: equalR_def lower_evm_def fromSome_def)

lemma transfer_matches:
  "matchesBridgeAttestation lower_evm transfer_payload decoded_burn None = Inr True"
  "matchesBridgeAttestation lower_evm transfer_payload decoded_burn (Some (hash_of (CHR ''1''))) = Inr True"
  using registry_hex
  by (simp_all add: matchesBridgeAttestation_def decoded_burn_def transfer_burn_def transfer_payload_def
      equalR_same is_hex_string_lower amountIs_show)

lemma isAddress_lower: "isAddress lower_evm a = is_hex_address a"
  by (simp add: lower_evm_def)

definition mint_event :: message_received where
  "mint_event = \<lparr>mrCaller = addr (CHR ''c''), mrSourceDomain = 26, mrNonce = hash_of (CHR ''1''),
     mrSender = addressToBytes32 (sender transfer_burn), mrFinality = 2000,
     mrBody = ''0x'' @ concat (drop 9 (cctp_fields transfer_burn))\<rparr>"

definition mint_chain :: chain where
  "mint_chain = \<lparr>getChainId = Some 8453,
     getTransaction = (\<lambda>h. Some \<lparr>ctHash = h, ctChainId = Some 8453, ctValue = 0, ctFrom = addr (CHR ''c''),
        ctTo = Some (toLowerCase CCTP_MESSAGE_TRANSMITTER_V2), ctInput = []\<rparr>),
     getTransactionReceipt = (\<lambda>h. Some \<lparr>crHash = h, crSuccess = True, crBlock = 7, crFrom = addr (CHR ''c''),
        crTo = Some (toLowerCase CCTP_MESSAGE_TRANSMITTER_V2),
        crLogs = [\<lparr>logAddress = toLowerCase CCTP_MESSAGE_TRANSMITTER_V2, logTopics = [''t''], logData = []\<rparr>]\<rparr>),
     getBlockNumber = Some 9\<rparr>"

definition transfer_env :: bridge_env where
  "transfer_env = \<lparr>evmOf = lower_evm, irisOf = sample_iris, decodeReceived = (\<lambda>_. Some mint_event),
     arcRpcChainId = 5042, arcRpcUrl = ''https://arc'', destinationRpcEnv = (\<lambda>_. Some ''https://base''),
     connect = (\<lambda>_. mint_chain)\<rparr>"

definition attested_row :: bridge where
  "attested_row = (newBridge ''b'' ''t'' transfer_payload)\<lparr>
     bridgeStatus := B_awaiting_destination_signature, nonce := Some (hash_of (CHR ''1'')),
     destinationLeaseId := Some ''lease'', destinationLeaseExpiresAt := Some 300000,
     bridgeResult := Some (empty_result\<lparr>attestedMessage := Some transfer_message, attestation := Some ''0xaa'',
       resNonce := Some (hash_of (CHR ''1'')), feeExecuted := Some (show_nat 0),
       mintAmount := Some (show_nat 1000000)\<rparr>)\<rparr>"

definition bridging :: "bridge \<Rightarrow> db" where
  "bridging r = empty_db\<lparr>bridges := [r]\<rparr>"

lemma bridges_bridging [simp]: "bridges (bridging r) = [r]"
  by (simp add: bridging_def)

lemma bridges_single [simp]: "bridges_unique [r]"
  by (simp add: bridges_unique_def unique_col_def map_filter_def)

lemma attested_row_ok: "bridges_ok transfer_env [attested_row]"
  using transfer_payload_ok transfer_decodes transfer_matches
  by (simp add: bridges_ok_def bridge_inv_def attested_ok_def attested_row_def transfer_env_def newBridge_def
      empty_result_def resultOf_def decoded_burn_def transfer_burn_def)


theorem attestation_matches_intent_witness:
  "\<exists>d. decodeCctpV2Message lower_evm transfer_message = Inr d \<and>
     toLowerCase (mintRecipient d) = toLowerCase (addr (CHR ''b'')) \<and>
     show_nat (cAmount d) = show_nat 1000000"
proof -
  have "evm_laws (evmOf transfer_env)" using lower_evm_laws by (simp add: transfer_env_def)
  moreover have "attestedMessage (resultOf attested_row) = Some transfer_message"
    "bridgePayload attested_row = transfer_payload"
    by (simp_all add: attested_row_def resultOf_def newBridge_def)
  ultimately show ?thesis
    using attestation_matches_intent [OF _ attested_row_ok, of attested_row transfer_message]
    by (auto simp: transfer_env_def transfer_payload_def)
qed

lemma transfer_view:
  "bridgePayload r = transfer_payload \<Longrightarrow> view r = Inr r"
  "bridgePayload r = transfer_payload \<Longrightarrow> ownership lower_evm r (addr (CHR ''a'')) = Inr ()"
proof -
  have "getBridgeChain ARC_CODE = Inr arc_chain" "getBridgeChain ''BASE-MAINNET'' = Inr base_chain"
    using chains by (simp_all add: getBridgeChain_Inr)
  then show "bridgePayload r = transfer_payload \<Longrightarrow> view r = Inr r"
    by (simp add: view_def transfer_payload_def)
  show "bridgePayload r = transfer_payload \<Longrightarrow> ownership lower_evm r (addr (CHR ''a'')) = Inr ()"
    by (simp add: transfer_payload_def ownership_def checksum_def equalR_def lower_evm_def fromSome_def)
qed

lemma attested_fields:
  "bridgeId attested_row = ''b''" "bridgePayload attested_row = transfer_payload"
  "destinationLeaseId attested_row = Some ''lease''" "destinationLeaseExpiresAt attested_row = Some 300000"
  by (simp_all add: attested_row_def newBridge_def)

lemma owned_transfer:
  assumes "bridgeId r = ''b''" "bridgePayload r = transfer_payload"
  shows "owned transfer_env ''b'' (addr (CHR ''a'')) f (bridging r) = f r (bridging r)"
  using assms transfer_view(2) [OF assms(2)]
  by (simp add: owned_def required_def op_defs transfer_env_def)

lemma update_transfer:
  assumes "bridgeId r = ''b''" "bridgeId (g r) = ''b''"
  shows "updateBridge ''b'' g (bridging r) = (Inr (g r), bridging (g r))"
  using assms by (simp add: updateBridge_def op_defs update_rows_def count_rows_def bridging_def)

theorem submit_outcome_witness:
  "\<exists>r' t. submitDestination transfer_env 5 ''b'' (addr (CHR ''a'')) ''lease'' (hash_of (CHR ''5'')) (hash_of (CHR ''1''))
       (bridging attested_row) = (Inr r', t) \<and>
     submitDestination transfer_env 6 ''b'' (addr (CHR ''a'')) ''lease'' (hash_of (CHR ''5'')) (hash_of (CHR ''1'')) t =
       (Inl LEASE_CONFLICT, t)"
proof -
  obtain r' t where run: "submitDestination transfer_env 5 ''b'' (addr (CHR ''a'')) ''lease'' (hash_of (CHR ''5''))
      (hash_of (CHR ''1'')) (bridging attested_row) = (Inr r', t)" "bridgePayload r' = transfer_payload"
    by (simp add: submitDestination_def owned_transfer attested_fields andThen_ensure txHashOf_def ensureR_def
        lift_def andThen_def [of "lift _"] andThen_def [of "updateBridge _ _"] update_transfer transfer_view)
  have "ownership (evmOf transfer_env) r' (addr (CHR ''a'')) = Inr ()"
    using transfer_view(2) [OF run(2)] by (simp add: transfer_env_def)
  with submit_outcome [OF run(1), of "addr (CHR ''a'')" 6 "hash_of (CHR ''5'')" "hash_of (CHR ''1'')"] run(1)
  show ?thesis by blast
qed

definition submitted_row :: bridge where
  "submitted_row = attested_row\<lparr>bridgeStatus := B_verifying_destination,
     bridgeResult := Some ((resultOf attested_row)\<lparr>resDestinationHash := Some (hash_of (CHR ''5''))\<rparr>)\<rparr>"

lemma zero_addr: "zeroAddress = addr (CHR ''0'')" "is_hex (CHR ''0'')" "lower_char (CHR ''0'') = CHR ''0''"
  by (simp_all add: zeroAddress_def addr_def is_hex_def lower_char_def)

definition mint_body :: string where
  "mint_body = ''0x'' @ concat (drop 9 (cctp_fields transfer_burn))"

lemma transmitter: "is_hex_address (toLowerCase CCTP_MESSAGE_TRANSMITTER_V2)"
  using registry_hex by (simp add: is_hex_string_lower)

lemma mint_matches:
  "destinationMintReceiptMatches lower_evm (\<lambda>_. Some mint_event) (toLowerCase CCTP_MESSAGE_TRANSMITTER_V2)
     \<lparr>exSourceDomain = 26, exNonce = hash_of (CHR ''1''), exSender = addressToBytes32 (sender transfer_burn),
      exFinality = 2000, exBody = mint_body\<rparr>
     [\<lparr>logAddress = toLowerCase CCTP_MESSAGE_TRANSMITTER_V2, logTopics = [''t''], logData = []\<rparr>] = Inr True"
proof -
  have e: "equalR lower_evm (addr (CHR ''c'')) (addr (CHR ''c'')) = Inr True" by (rule equalR_same) simp
  have "isAddressEqual lower_evm (addr (CHR ''c'')) (addr (CHR ''0'')) = Some False"
    by (simp add: lower_evm_def zero_addr)
  then have "received_log lower_evm (\<lambda>_. Some mint_event)
      \<lparr>exSourceDomain = 26, exNonce = hash_of (CHR ''1''), exSender = addressToBytes32 (sender transfer_burn),
       exFinality = 2000, exBody = mint_body\<rparr> l" for l
    by (simp add: received_log_def matchesCctpV2MessageReceived_def mint_event_def mint_body_def e zero_addr
        isAddress_lower)
  then show ?thesis
    using transmitter equalR_same [OF transmitter]
    by (auto simp: isAddress_lower checksum_def lower_get)
qed

lemma submitted_proved: "proveDestinationReceipt transfer_env submitted_row = Inr True"
proof -
  have rpc: "destinationRpc transfer_env 8453 = Some ''https://base''"
    by (simp add: destinationRpc_def transfer_env_def ARC_MAINNET_CHAIN_ID_def is_http_url_def)
  have env: "evmOf transfer_env = lower_evm" "connect transfer_env u = mint_chain"
    "decodeReceived transfer_env = (\<lambda>_. Some mint_event)" for u
    by (simp_all add: transfer_env_def)
  have row: "bridgePayload submitted_row = transfer_payload"
    "resDestinationHash (resultOf submitted_row) = Some (hash_of (CHR ''5''))"
    "attestedMessage (resultOf submitted_row) = Some transfer_message"
    "resNonce (resultOf submitted_row) = Some (hash_of (CHR ''1''))"
    by (simp_all add: submitted_row_def attested_row_def newBridge_def resultOf_def)
  have pay: "destinationChainId transfer_payload = 8453"
    "destinationMessageTransmitterV2 transfer_payload = toLowerCase CCTP_MESSAGE_TRANSMITTER_V2"
    by (simp_all add: transfer_payload_def)
  have burn: "cSourceDomain decoded_burn = 26" "cNonce decoded_burn = hash_of (CHR ''1'')"
    "sender decoded_burn = sender transfer_burn" "finalityExecuted decoded_burn = 2000"
    by (simp_all add: decoded_burn_def transfer_burn_def)
  have msg: "transfer_message \<noteq> []" by (simp add: transfer_message_def encode_cctp_def)
  have tx: "getChainId mint_chain = Some 8453"
    "\<exists>tx. getTransaction mint_chain h = Some tx \<and> ctTo tx = Some (toLowerCase CCTP_MESSAGE_TRANSMITTER_V2)"
    "\<exists>rcp. getTransactionReceipt mint_chain h = Some rcp \<and> crSuccess rcp \<and>
       crLogs rcp = [\<lparr>logAddress = toLowerCase CCTP_MESSAGE_TRANSMITTER_V2, logTopics = [''t''], logData = []\<rparr>]" for h
    by (simp_all add: mint_chain_def)
  obtain t where t: "getTransaction mint_chain (hash_of (CHR ''5'')) = Some t"
    "ctTo t = Some (toLowerCase CCTP_MESSAGE_TRANSMITTER_V2)" using tx(2) by blast
  obtain rcp where rcp: "getTransactionReceipt mint_chain (hash_of (CHR ''5'')) = Some rcp" "crSuccess rcp"
    "crLogs rcp = [\<lparr>logAddress = toLowerCase CCTP_MESSAGE_TRANSMITTER_V2, logTopics = [''t''], logData = []\<rparr>]"
    using tx(3) by blast
  have "toLowerCase CCTP_MESSAGE_TRANSMITTER_V2 \<noteq> []" using transmitter by (auto simp: is_hex_string_def)
  moreover have "equalR lower_evm (toLowerCase CCTP_MESSAGE_TRANSMITTER_V2) (toLowerCase CCTP_MESSAGE_TRANSMITTER_V2) =
      Inr True" by (rule equalR_same [OF transmitter])
  ultimately show ?thesis
    unfolding proveDestinationReceipt_def Let_def env row pay rpc option.case option.sel transfer_decodes(1) bindR_simps
      transfer_matches burn tx(1) t(1) rcp(1) transfer_decodes(2) mint_body_def [symmetric] rcp(3) mint_matches
    by (simp add: msg t rcp fromSome_def ensureR_def isAddress_lower transmitter checksum_def lower_get mint_matches
        del: destinationMintReceiptMatches.simps)
qed

lemma tasks_transfer: "onTasks (updateMany p g) (bridging r) = (Inr 0, bridging r)"
  by (simp add: op_defs bridging_def empty_db_def count_rows_def update_rows_def)


end
