(* ===== verification/InvoiceVerifier.thy ===== *)
theory InvoiceVerifier
  imports Chain
begin

text \<open>
  \<open>InvoicePaymentVerifierService\<close> (\<open>apps/backend/src/invoice/invoice-payment-verifier.service.ts\<close>): the
  check of a customer's payment of an invoice against the receipt of its transaction.  The chain is a
  parameter; a failing call throws an error of the name \<open>rpcFailure\<close>.  Logging is left out.
\<close>

record rpc = chain +
  rpcFailure :: string

record invoice_query =
  iqAmount :: string
  iqMerchant :: string
  iqToken :: string
  iqHash :: string

record verified_transfer =
  vtBlock :: nat
  vtConfirmations :: nat
  vtPayer :: string
  vtHash :: string

definition TRANSFER_TOPIC :: string where
  "TRANSFER_TOPIC = ''0xddf252ad1be2c89b69c2b068fc378daa952ba7f163c4a11628f55a4df523b3ef''"

definition MIRROR_LITERAL :: string where
  "MIRROR_LITERAL = ''0xfffffffffffffffffffffffffffffffffffffffe''"

definition ARC_NATIVE_ACCOUNTING_MIRROR :: "evm \<Rightarrow> string" where
  "ARC_NATIVE_ACCOUNTING_MIRROR E =
     (case getAddress E MIRROR_LITERAL of None \<Rightarrow> MIRROR_LITERAL | Some a \<Rightarrow> a)"

definition retry :: "string \<Rightarrow> exn" where
  "retry code = VerificationError code True"

definition reject :: "string \<Rightarrow> exn" where
  "reject code = VerificationError code False"

definition rpcR :: "rpc \<Rightarrow> 'a option \<Rightarrow> 'a res" where
  "rpcR C = fromSome (PlainError (rpcFailure C))"

definition canonicalLog :: "evm \<Rightarrow> chain_log \<Rightarrow> bool res" where
  "canonicalLog E l =
     bindR (equalR E (logAddress l) (ARC_NATIVE_ACCOUNTING_MIRROR E)) (\<lambda>mirror.
     Inr (\<not> mirror \<and> (case logTopics l of [] \<Rightarrow> False | t # _ \<Rightarrow> toLowerCase t = TRANSFER_TOPIC)))"

text \<open>The callback of \<open>flatMap\<close>: one transfer, or none when anything in it throws.\<close>

definition decodedTransfer :: "evm \<Rightarrow> abi \<Rightarrow> chain_log \<Rightarrow> (string \<times> string \<times> nat) list" where
  "decodedTransfer E A l =
     (case decodeTransferEvent A l of
        None \<Rightarrow> []
      | Some (src, dst, v) \<Rightarrow>
          (case (getAddress E src, getAddress E dst) of
             (Some payer, Some payee) \<Rightarrow> [(payer, payee, v)]
           | _ \<Rightarrow> []))"

definition verifyReceipt ::
  "evm \<Rightarrow> abi \<Rightarrow> nat \<Rightarrow> nat \<Rightarrow> rpc \<Rightarrow> invoice_query \<Rightarrow> verified_transfer res" where
  "verifyReceipt E A chain required C q =
     bindR (rpcR C (getChainId C)) (\<lambda>provider.
     bindR (ensureR (provider = chain) (reject ''INVOICE_WRONG_CHAIN'')) (\<lambda>_.
     bindR (rpcR C (getTransaction C (iqHash q))) (\<lambda>tx.
     bindR (rpcR C (getTransactionReceipt C (iqHash q))) (\<lambda>rcp.
     bindR (ensureR (crSuccess rcp) (reject ''INVOICE_FAILED_RECEIPT'')) (\<lambda>_.
     bindR (ensureR (ctChainId tx = Some chain) (reject ''INVOICE_WRONG_CHAIN'')) (\<lambda>_.
     bindR (ensureR (ctValue tx = 0) (reject ''INVOICE_NATIVE_VALUE_NOT_ZERO'')) (\<lambda>_.
     bindR (filterR (canonicalLog E) (crLogs rcp)) (\<lambda>canonicalLogs.
     bindR (filterR (\<lambda>l. equalR E (logAddress l) (iqToken q)) canonicalLogs) (\<lambda>tokenLogs.
     bindR (ensureR (tokenLogs \<noteq> [])
        (reject (if canonicalLogs \<noteq> [] then ''INVOICE_WRONG_TOKEN''
                 else ''INVOICE_TRANSFER_EVENT_MISSING''))) (\<lambda>_.
     let transfers = concat (map (decodedTransfer E A) tokenLogs) in
     bindR (ensureR (transfers \<noteq> []) (reject ''INVOICE_TRANSFER_EVENT_MISSING'')) (\<lambda>_.
     bindR (filterR (\<lambda>(_, payee, _). equalR E payee (iqMerchant q)) transfers) (\<lambda>recipientMatches.
     bindR (ensureR (recipientMatches \<noteq> []) (reject ''INVOICE_WRONG_RECIPIENT'')) (\<lambda>_.
     bindR (toBigInt (iqAmount q)) (\<lambda>units.
     let amountMatches = filter (\<lambda>(_, _, v). int v = units) recipientMatches in
     bindR (ensureR (amountMatches \<noteq> []) (reject ''INVOICE_WRONG_AMOUNT'')) (\<lambda>_.
     bindR (filterR (\<lambda>(payer, _, _). bindR (equalR E payer (iqMerchant q)) (\<lambda>same. Inr (\<not> same)))
        amountMatches) (\<lambda>externalMatches.
     bindR (ensureR (externalMatches \<noteq> []) (reject ''INVOICE_SELF_PAYMENT'')) (\<lambda>_.
     bindR (ensureR (length externalMatches = 1) (reject ''INVOICE_TRANSFER_EVENT_MISSING'')) (\<lambda>_.
     bindR (rpcR C (getBlockNumber C)) (\<lambda>current.
     let count = confirmations current (crBlock rcp) in
     bindR (ensureR (required \<le> count) (retry ''INVOICE_CONFIRMATIONS_PENDING'')) (\<lambda>_.
     Inr \<lparr>vtBlock = crBlock rcp, vtConfirmations = count, vtPayer = fst (hd externalMatches),
          vtHash = iqHash q\<rparr>))))))))))))))))))))"

text \<open>The \<open>catch\<close>: anything that is not a verification error is retryable, by the name of the error.\<close>

definition retryByName :: "exn \<Rightarrow> exn" where
  "retryByName e =
     (case e of
        VerificationError c r \<Rightarrow> VerificationError c r
      | PlainError name \<Rightarrow>
          if contains ''transactionreceiptnotfound'' (toLowerCase name) then retry ''INVOICE_RECEIPT_PENDING''
          else if contains ''transactionnotfound'' (toLowerCase name) then retry ''INVOICE_TRANSACTION_PENDING''
          else retry ''INVOICE_RPC_UNAVAILABLE''
      | _ \<Rightarrow> retry ''INVOICE_RPC_UNAVAILABLE'')"

definition verifyInvoice ::
  "evm \<Rightarrow> abi \<Rightarrow> nat \<Rightarrow> nat \<Rightarrow> rpc \<Rightarrow> invoice_query \<Rightarrow> verified_transfer res" where
  "verifyInvoice E A chain required C q =
     (case verifyReceipt E A chain required C q of
        Inr v \<Rightarrow> Inr v
      | Inl e \<Rightarrow> Inl (retryByName e))"

text \<open>The constructor refuses a number of confirmations outside 1 to 100; \<open>None\<close> is not an integer.\<close>

definition confirmationsRequired :: "nat option \<Rightarrow> nat res" where
  "confirmationsRequired configured =
     (case configured of
        None \<Rightarrow> Inl (PlainError ''INVOICE_PAYMENT_CONFIRMATIONS'')
      | Some n \<Rightarrow> if n < 1 \<or> 100 < n then Inl (PlainError ''INVOICE_PAYMENT_CONFIRMATIONS'') else Inr n)"

section \<open>What a payment is\<close>

text \<open>
  The specification: a log is a payment of the invoice when the invoice's token emitted it as a Transfer
  of exactly the amount to the merchant from somebody else.
\<close>

definition pays :: "evm \<Rightarrow> abi \<Rightarrow> invoice_query \<Rightarrow> chain_log \<Rightarrow> bool" where
  "pays E A q l \<longleftrightarrow>
     toLowerCase (logAddress l) = toLowerCase (iqToken q) \<and>
     toLowerCase (logAddress l) \<noteq> toLowerCase MIRROR_LITERAL \<and>
     (case logTopics l of [] \<Rightarrow> False | t # _ \<Rightarrow> toLowerCase t = TRANSFER_TOPIC) \<and>
     (case decodeTransferEvent A l of
        None \<Rightarrow> False
      | Some (src, dst, v) \<Rightarrow>
          is_hex_address src \<and> is_hex_address dst \<and> toLowerCase dst = toLowerCase (iqMerchant q) \<and>
          show_nat v = iqAmount q \<and> toLowerCase src \<noteq> toLowerCase (iqMerchant q))"

definition payer_of :: "evm \<Rightarrow> abi \<Rightarrow> chain_log \<Rightarrow> string option" where
  "payer_of E A l = (case decodeTransferEvent A l of None \<Rightarrow> None | Some (src, _, _) \<Rightarrow> getAddress E src)"

definition readable :: "invoice_query \<Rightarrow> bool" where
  "readable q \<longleftrightarrow> is_hex_address (iqMerchant q) \<and> is_hex_address (iqToken q) \<and> positive_uint (iqAmount q)"

definition mirror_ok :: "evm \<Rightarrow> bool" where
  "mirror_ok E \<longleftrightarrow> toLowerCase (ARC_NATIVE_ACCOUNTING_MIRROR E) = toLowerCase MIRROR_LITERAL \<and>
     is_hex_address (ARC_NATIVE_ACCOUNTING_MIRROR E)"

lemma mirror: "evm_laws E \<Longrightarrow> mirror_ok E"
proof -
  assume E: "evm_laws E"
  have "is_hex_address MIRROR_LITERAL" by code_simp
  then obtain a where "getAddress E MIRROR_LITERAL = Some a"
    using getAddress_defined [OF E] by blast
  with getAddress_Some [OF E this] show ?thesis
    by (simp add: mirror_ok_def ARC_NATIVE_ACCOUNTING_MIRROR_def)
qed

text \<open>On hexadecimal addresses every comparison returns.\<close>

lemma equalR_hex:
  "evm_laws E \<Longrightarrow> is_hex_address a \<Longrightarrow> is_hex_address b \<Longrightarrow> equalR E a b = Inr (toLowerCase a = toLowerCase b)"
  by (simp add: equalR_def isAddressEqual_eq)

definition hex_logs :: "chain_receipt \<Rightarrow> bool" where
  "hex_logs rcp \<longleftrightarrow> list_all (\<lambda>l. is_hex_address (logAddress l)) (crLogs rcp)"

definition canonical_log :: "chain_log \<Rightarrow> bool" where
  "canonical_log l \<longleftrightarrow> toLowerCase (logAddress l) \<noteq> toLowerCase MIRROR_LITERAL \<and>
     (case logTopics l of [] \<Rightarrow> False | t # _ \<Rightarrow> toLowerCase t = TRANSFER_TOPIC)"

lemma canonicalLog_eq:
  "evm_laws E \<Longrightarrow> is_hex_address (logAddress l) \<Longrightarrow> canonicalLog E l = Inr (canonical_log l)"
  using mirror [of E] by (simp add: canonicalLog_def canonical_log_def mirror_ok_def equalR_hex)

definition external :: "invoice_query \<Rightarrow> string \<times> string \<times> nat \<Rightarrow> bool" where
  "external q = (\<lambda>(payer, payee, v). toLowerCase payee = toLowerCase (iqMerchant q) \<and>
     int v = int (read_nat (iqAmount q)) \<and> toLowerCase payer \<noteq> toLowerCase (iqMerchant q))"

definition transfer_of :: "evm \<Rightarrow> abi \<Rightarrow> chain_log \<Rightarrow> string \<times> string \<times> nat" where
  "transfer_of E A l = hd (decodedTransfer E A l)"

lemma decodedTransfer_external:
  assumes "evm_laws E" "readable q" "canonical_log l" "toLowerCase (logAddress l) = toLowerCase (iqToken q)"
  shows "filter (external q) (decodedTransfer E A l) = (if pays E A q l then [transfer_of E A l] else [])"
proof (cases "decodeTransferEvent A l")
  case None
  then show ?thesis by (simp add: decodedTransfer_def pays_def)
next
  case (Some e)
  obtain src dst v where e: "e = (src, dst, v)" by (metis prod_cases3)
  show ?thesis
  proof (cases "getAddress E src = None \<or> getAddress E dst = None")
    case True
    then have "\<not> (is_hex_address src \<and> is_hex_address dst)"
      using getAddress_defined [OF assms(1)] by blast
    with True Some e show ?thesis
      by (auto simp: decodedTransfer_def pays_def split: option.splits)
  next
    case False
    then obtain a b where ab: "getAddress E src = Some a" "getAddress E dst = Some b" by auto
    note facts = getAddress_Some [OF assms(1) ab(1)] getAddress_Some [OF assms(1) ab(2)]
    have "show_nat v = iqAmount q \<longleftrightarrow> v = read_nat (iqAmount q)"
      using assms(2) show_read_positive [of "iqAmount q"] by (metis read_show readable_def)
    with facts ab Some e assms(2-4) show ?thesis
      by (auto simp: decodedTransfer_def transfer_of_def pays_def external_def canonical_log_def)
  qed
qed

lemma concat_filter:
  assumes "\<And>l. l \<in> set ls \<Longrightarrow> c l \<Longrightarrow> filter p (f l) = (if q l then [g l] else [])" "\<And>l. q l \<Longrightarrow> c l"
  shows "filter p (concat (map f (filter c ls))) = map g (filter q ls)"
  using assms(1) by (induction ls) (auto dest: assms(2))

lemma external_transfers:
  assumes "evm_laws E" "readable q" "hex_logs rcp"
  shows "filter (external q) (concat (map (decodedTransfer E A)
      (filter (\<lambda>l. toLowerCase (logAddress l) = toLowerCase (iqToken q)) (filter canonical_log (crLogs rcp))))) =
    map (transfer_of E A) (filter (pays E A q) (crLogs rcp))"
  unfolding filter_filter
  using decodedTransfer_external [OF assms(1,2)]
  by (intro concat_filter) (auto simp: pays_def canonical_log_def)

lemma decoded_hex:
  assumes "evm_laws E" "t \<in> set (concat (map (decodedTransfer E A) ls))"
  shows "is_hex_address (fst t) \<and> is_hex_address (fst (snd t))"
  using assms(2) getAddress_Some(3) [OF assms(1)]
  by (auto simp: decodedTransfer_def split: option.splits)

text \<open>The four filters of the code in one.\<close>

definition candidates :: "evm \<Rightarrow> abi \<Rightarrow> invoice_query \<Rightarrow> chain_receipt \<Rightarrow> (string \<times> string \<times> nat) list" where
  "candidates E A q rcp = concat (map (decodedTransfer E A)
     (filter (\<lambda>l. toLowerCase (logAddress l) = toLowerCase (iqToken q)) (filter canonical_log (crLogs rcp))))"

lemma filters_total:
  assumes "evm_laws E" "readable q" "hex_logs rcp"
  shows "filterR (canonicalLog E) (crLogs rcp) = Inr (filter canonical_log (crLogs rcp))"
    "filterR (\<lambda>l. equalR E (logAddress l) (iqToken q)) (filter canonical_log (crLogs rcp)) =
       Inr (filter (\<lambda>l. toLowerCase (logAddress l) = toLowerCase (iqToken q)) (filter canonical_log (crLogs rcp)))"
    "filterR (\<lambda>(_, payee, _). equalR E payee (iqMerchant q)) (candidates E A q rcp) =
       Inr (filter (\<lambda>(_, payee, _). toLowerCase payee = toLowerCase (iqMerchant q)) (candidates E A q rcp))"
    "set ts \<subseteq> set (candidates E A q rcp) \<Longrightarrow>
       filterR (\<lambda>(payer, _, _). bindR (equalR E payer (iqMerchant q)) (\<lambda>same. Inr (\<not> same))) ts =
       Inr (filter (\<lambda>(payer, _, _). toLowerCase payer \<noteq> toLowerCase (iqMerchant q)) ts)"
  using assms decoded_hex [OF assms(1)] unfolding candidates_def
  by (intro filterR_total; fastforce simp: canonicalLog_eq hex_logs_def list_all_iff equalR_hex readable_def)+

text \<open>The stages of the code, for given results of the filters.\<close>

lemma verifyReceipt_stages:
  assumes "getTransactionReceipt C (iqHash q) = Some rcp"
    and "filterR (canonicalLog E) (crLogs rcp) = Inr cs"
    and "filterR (\<lambda>l. equalR E (logAddress l) (iqToken q)) cs = Inr ls"
    and "concat (map (decodedTransfer E A) ls) = ts"
    and "filterR (\<lambda>(_, payee, _). equalR E payee (iqMerchant q)) ts = Inr ms"
    and "toBigInt (iqAmount q) = Inr u" "filter (\<lambda>(_, _, v). int v = u) ms = as"
    and "filterR (\<lambda>(payer, _, _). bindR (equalR E payer (iqMerchant q)) (\<lambda>same. Inr (\<not> same))) as = Inr xs"
  shows "verifyReceipt E A chain required C q = Inr v \<longleftrightarrow>
    (\<exists>tx current x. getChainId C = Some chain \<and> getTransaction C (iqHash q) = Some tx \<and>
       getBlockNumber C = Some current \<and> crSuccess rcp \<and> ctChainId tx = Some chain \<and> ctValue tx = 0 \<and>
       ls \<noteq> [] \<and> ts \<noteq> [] \<and> ms \<noteq> [] \<and> as \<noteq> [] \<and> xs = [x] \<and>
       required \<le> confirmations current (crBlock rcp) \<and>
       v = \<lparr>vtBlock = crBlock rcp, vtConfirmations = confirmations current (crBlock rcp), vtPayer = fst x,
            vtHash = iqHash q\<rparr>)"
proof -
  have one: "xs \<noteq> [] \<and> length xs = 1 \<longleftrightarrow> (\<exists>x. xs = [x])" by (cases xs) auto
  have empty: "ts = [] \<longleftrightarrow> (\<forall>l\<in>set ls. decodedTransfer E A l = [])"
    unfolding assms(4) [symmetric] by simp
  have "verifyReceipt E A chain required C q = Inr v \<longleftrightarrow>
    (\<exists>tx current. getChainId C = Some chain \<and> getTransaction C (iqHash q) = Some tx \<and>
       getBlockNumber C = Some current \<and> crSuccess rcp \<and> ctChainId tx = Some chain \<and> ctValue tx = 0 \<and>
       ls \<noteq> [] \<and> ts \<noteq> [] \<and> ms \<noteq> [] \<and> as \<noteq> [] \<and> (xs \<noteq> [] \<and> length xs = 1) \<and>
       required \<le> confirmations current (crBlock rcp) \<and>
       v = \<lparr>vtBlock = crBlock rcp, vtConfirmations = confirmations current (crBlock rcp), vtPayer = fst (hd xs),
            vtHash = iqHash q\<rparr>)"
    by (auto simp: verifyReceipt_def rpcR_def Let_def assms empty)
  note run = this
  show ?thesis
  proof (cases "\<exists>x. xs = [x]")
    case True
    then show ?thesis unfolding run by auto
  next
    case False
    with one show ?thesis unfolding run by blast
  qed
qed

lemma verifyReceipt_accepts:
  assumes "evm_laws E" "readable q" and logs: "\<And>rcp. getTransactionReceipt C (iqHash q) = Some rcp \<Longrightarrow> hex_logs rcp"
  shows "verifyReceipt E A chain required C q = Inr v \<longleftrightarrow>
    (\<exists>tx rcp current l payer.
       getChainId C = Some chain \<and> getTransaction C (iqHash q) = Some tx \<and>
       getTransactionReceipt C (iqHash q) = Some rcp \<and> getBlockNumber C = Some current \<and>
       crSuccess rcp \<and> ctChainId tx = Some chain \<and> ctValue tx = 0 \<and>
       filter (pays E A q) (crLogs rcp) = [l] \<and> payer_of E A l = Some payer \<and>
       required \<le> confirmations current (crBlock rcp) \<and>
       v = \<lparr>vtBlock = crBlock rcp, vtConfirmations = confirmations current (crBlock rcp), vtPayer = payer,
            vtHash = iqHash q\<rparr>)"
proof (cases "\<exists>rcp. getTransactionReceipt C (iqHash q) = Some rcp")
  case False
  then show ?thesis by (auto simp: verifyReceipt_def rpcR_def)
next
  case True
  then obtain rcp where rcp: "getTransactionReceipt C (iqHash q) = Some rcp" by blast
  note hex = logs [OF rcp]
  let ?toMerchant = "\<lambda>(_, payee, _). toLowerCase payee = toLowerCase (iqMerchant q)"
  let ?exact = "\<lambda>(_, _, v). int v = int (read_nat (iqAmount q))"
  let ?other = "\<lambda>(payer, _, _). toLowerCase payer \<noteq> toLowerCase (iqMerchant q)"
  have three: "filter ?other (filter ?exact (filter ?toMerchant ts)) = filter (external q) ts" for ts
    unfolding filter_filter by (rule filter_cong) (auto simp: external_def)
  have ext: "filter (external q) (candidates E A q rcp) = map (transfer_of E A) (filter (pays E A q) (crLogs rcp))"
    unfolding candidates_def by (rule external_transfers [OF assms(1,2) hex])
  have amount: "toBigInt (iqAmount q) = Inr (int (read_nat (iqAmount q)))"
    using assms(2) by (simp add: readable_def toBigInt_positive)
  note total = filters_total(1,2,3) [OF assms(1,2) hex] filters_total(4) [OF assms(1,2) hex]
  have payer: "payer_of E A l = Some (fst (transfer_of E A l))" if "pays E A q l" for l
    using that getAddress_defined [OF assms(1)]
    by (auto simp: pays_def payer_of_def transfer_of_def decodedTransfer_def split: option.splits)
  have last: "filterR (\<lambda>(payer, _, _). bindR (equalR E payer (iqMerchant q)) (\<lambda>same. Inr (\<not> same)))
      (filter ?exact (filter ?toMerchant (candidates E A q rcp))) =
    Inr (map (transfer_of E A) (filter (pays E A q) (crLogs rcp)))"
    using total(4) [of "filter ?exact (filter ?toMerchant (candidates E A q rcp))" A] three ext by auto
  have steps: "filter ?exact (filter ?toMerchant (candidates E A q rcp)) \<noteq> []"
      "filter ?toMerchant (candidates E A q rcp) \<noteq> []" "candidates E A q rcp \<noteq> []"
      "filter (\<lambda>l. toLowerCase (logAddress l) = toLowerCase (iqToken q)) (filter canonical_log (crLogs rcp)) \<noteq> []"
    if "filter (pays E A q) (crLogs rcp) \<noteq> []"
  proof -
    have "filter (external q) (candidates E A q rcp) \<noteq> []" using that ext by simp
    then show e: "filter ?exact (filter ?toMerchant (candidates E A q rcp)) \<noteq> []"
      using three [of "candidates E A q rcp"] by (metis filter.simps(1))
    then show m: "filter ?toMerchant (candidates E A q rcp) \<noteq> []" by (metis filter.simps(1))
    then show c: "candidates E A q rcp \<noteq> []" by (metis filter.simps(1))
    then show "filter (\<lambda>l. toLowerCase (logAddress l) = toLowerCase (iqToken q)) (filter canonical_log (crLogs rcp)) \<noteq> []"
      unfolding candidates_def by (metis concat.simps(1) list.map(1))
  qed
  note stages = verifyReceipt_stages [OF rcp total(1,2) candidates_def [symmetric] total(3) amount refl last]
  show ?thesis
  proof (cases "\<exists>l. filter (pays E A q) (crLogs rcp) = [l]")
    case True
    then obtain l where l: "filter (pays E A q) (crLogs rcp) = [l]" by blast
    then have "l \<in> set (filter (pays E A q) (crLogs rcp))" by simp
    then have "pays E A q l" by simp
    note payer = payer [OF this]
    have "filter (pays E A q) (crLogs rcp) \<noteq> []" using l by simp
    note ne = steps [OF this]
    show ?thesis unfolding stages using rcp ne l payer by auto
  next
    case False
    then have "map (transfer_of E A) (filter (pays E A q) (crLogs rcp)) \<noteq> [x]" for x by auto
    with False rcp show ?thesis unfolding stages by auto
  qed
qed

lemma verifyInvoice_Inr: "verifyInvoice E A chain required C q = Inr v \<longleftrightarrow> verifyReceipt E A chain required C q = Inr v"
  by (auto simp: verifyInvoice_def split: sum.splits)

text \<open>
  C13: an invoice payment is accepted exactly when the chain shows it.  On readable queries and receipts,
  the four filters and the early refusals of the verifier accept a transaction if and only if it succeeded
  on the selected chain without native value, exactly one log of its receipt is a Transfer by the
  invoice's token of the invoice's amount to the merchant from somebody else, and the receipt has
  the required confirmations; the payer it reports is the sender of that Transfer.
\<close>

theorem invoice_payment_iff:
  assumes "evm_laws E" "readable q"
    and "\<And>rcp. getTransactionReceipt C (iqHash q) = Some rcp \<Longrightarrow> hex_logs rcp"
  shows "verifyInvoice E A chain required C q = Inr v \<longleftrightarrow>
    (\<exists>tx rcp current l payer.
       getChainId C = Some chain \<and> getTransaction C (iqHash q) = Some tx \<and>
       getTransactionReceipt C (iqHash q) = Some rcp \<and> getBlockNumber C = Some current \<and>
       crSuccess rcp \<and> ctChainId tx = Some chain \<and> ctValue tx = 0 \<and>
       filter (pays E A q) (crLogs rcp) = [l] \<and> payer_of E A l = Some payer \<and>
       required \<le> confirmations current (crBlock rcp) \<and>
       v = \<lparr>vtBlock = crBlock rcp, vtConfirmations = confirmations current (crBlock rcp), vtPayer = payer,
            vtHash = iqHash q\<rparr>)"
  unfolding verifyInvoice_Inr by (rule verifyReceipt_accepts [OF assms])

definition two_logs :: chain_receipt where
  "two_logs = \<lparr>crHash = hash_of (CHR ''1''), crSuccess = True, crBlock = 7, crFrom = addr (CHR ''a''),
     crTo = Some (addr (CHR ''5'')),
     crLogs = [\<lparr>logAddress = addr (CHR ''c''), logTopics = [TRANSFER_TOPIC], logData = []\<rparr>,
               \<lparr>logAddress = addr (CHR ''5''), logTopics = [TRANSFER_TOPIC], logData = []\<rparr>]\<rparr>"

definition invoice_rpc :: rpc where
  "invoice_rpc = \<lparr>getChainId = Some 5042,
     getTransaction = (\<lambda>h. Some \<lparr>ctHash = h, ctChainId = Some 5042, ctValue = 0, ctFrom = addr (CHR ''a''),
        ctTo = Some (addr (CHR ''5'')), ctInput = []\<rparr>),
     getTransactionReceipt = (\<lambda>h. Some two_logs), getBlockNumber = Some 9, rpcFailure = ''HttpRequestError''\<rparr>"

definition invoice_abi :: abi where
  "invoice_abi = \<lparr>decodeTransferCall = (\<lambda>_. None),
     decodeTransferEvent = (\<lambda>_. Some (addr (CHR ''a''), addr (CHR ''b''), 250))\<rparr>"

definition invoice_250 :: invoice_query where
  "invoice_250 = \<lparr>iqAmount = show_nat 250, iqMerchant = addr (CHR ''b''), iqToken = addr (CHR ''5''),
     iqHash = hash_of (CHR ''1'')\<rparr>"

lemma invoice_250_readable: "readable invoice_250"
  by (simp add: readable_def invoice_250_def positive_show)

lemma two_logs_hex: "hex_logs two_logs"
  by (simp add: hex_logs_def two_logs_def)

lemma topic_lower: "toLowerCase TRANSFER_TOPIC = TRANSFER_TOPIC"
  by code_simp

lemma mirror_other: "addr (CHR ''5'') \<noteq> toLowerCase MIRROR_LITERAL"
  by (simp add: addr_def numeral_eq_Suc) code_simp

lemma two_logs_pay:
  "filter (pays lower_evm invoice_abi invoice_250) (crLogs two_logs) =
     [\<lparr>logAddress = addr (CHR ''5''), logTopics = [TRANSFER_TOPIC], logData = []\<rparr>]"
  by (simp add: two_logs_def pays_def invoice_abi_def invoice_250_def topic_lower mirror_other)

theorem invoice_payment_iff_witness:
  "\<exists>v. verifyInvoice lower_evm invoice_abi 5042 2 invoice_rpc invoice_250 = Inr v \<and> vtPayer v = addr (CHR ''a'')"
proof -
  have "getChainId invoice_rpc = Some 5042" "getBlockNumber invoice_rpc = Some 9"
    "getTransactionReceipt invoice_rpc (iqHash invoice_250) = Some two_logs"
    "\<exists>tx. getTransaction invoice_rpc (iqHash invoice_250) = Some tx \<and> ctChainId tx = Some 5042 \<and> ctValue tx = 0"
    "crSuccess two_logs" "2 \<le> confirmations 9 (crBlock two_logs)"
    "payer_of lower_evm invoice_abi \<lparr>logAddress = addr (CHR ''5''), logTopics = [TRANSFER_TOPIC], logData = []\<rparr> =
       Some (addr (CHR ''a''))"
    by (simp_all add: invoice_rpc_def two_logs_def confirmations_def payer_of_def invoice_abi_def lower_evm_def)
  moreover from this have "\<And>rcp. getTransactionReceipt invoice_rpc (iqHash invoice_250) = Some rcp \<Longrightarrow> hex_logs rcp"
    using two_logs_hex by simp
  note iff = invoice_payment_iff [OF lower_evm_laws invoice_250_readable this,
      where A = invoice_abi and chain = 5042 and required = 2]
  ultimately show ?thesis
    using two_logs_pay
    by (intro exI [of _ "\<lparr>vtBlock = crBlock two_logs, vtConfirmations = confirmations 9 (crBlock two_logs),
        vtPayer = addr (CHR ''a''), vtHash = iqHash invoice_250\<rparr>"]) (subst iff, auto)
qed

lemma fails_receipt:
  "fails_in (range (\<lambda>c. VerificationError c True) \<union> range (\<lambda>c. VerificationError c False) \<union> range PlainError)
     (verifyReceipt E A chain required C q)"
proof -
  have two: "fails_in S (case t of (a, b, c) \<Rightarrow> f a b c)" if "\<And>a b c. fails_in S (f a b c)"
    for S t and f :: "'x \<Rightarrow> 'y \<Rightarrow> 'z \<Rightarrow> 'v res"
    using that by (cases t) simp
  show ?thesis
    unfolding verifyReceipt_def Let_def rpcR_def retry_def reject_def canonicalLog_def equalR_def
    by (intro fails_rules fails_filterR fails_toBigInt two) auto
qed



end
