(* ===== verification/Capability.thy ===== *)
theory Capability
  imports PaymentRouting
begin

text \<open>
  The feature switches: \<open>resolveArcCapabilities\<close> of \<open>packages/arc-network/index.js\<close>, which computes them
  from the environment once at start-up, and \<open>CapabilityService\<close>
  (\<open>apps/backend/src/capabilities/capability.service.ts\<close>), which the services ask before they act.  The
  environment is an association list; the availability of the network's resources is an argument.
\<close>

section \<open>The switches of the network\<close>

fun capability_name :: "capability \<Rightarrow> string" where
  "capability_name Cap_send = ''send''"
| "capability_name Cap_sameTokenPayroll = ''sameTokenPayroll''"
| "capability_name Cap_invoice = ''invoice''"
| "capability_name Cap_paymentLink = ''paymentLink''"
| "capability_name Cap_liquidity = ''liquidity''"
| "capability_name Cap_bridge = ''bridge''"
| "capability_name Cap_swap = ''swap''"
| "capability_name Cap_crossTokenPayroll = ''crossTokenPayroll''"
| "capability_name Cap_crossTokenInvoice = ''crossTokenInvoice''"
| "capability_name Cap_nanoAgentApi = ''nanoAgentApi''"

definition ARC_CAPABILITY_NAMES :: "capability list" where
  "ARC_CAPABILITY_NAMES =
     [Cap_send, Cap_sameTokenPayroll, Cap_invoice, Cap_paymentLink, Cap_liquidity, Cap_bridge, Cap_swap,
      Cap_crossTokenPayroll, Cap_crossTokenInvoice, Cap_nanoAgentApi]"

definition ENV_PREFIX :: string where
  "ENV_PREFIX = ''WIZPAY_ARC_MAINNET_CAPABILITY_''"

fun env_key :: "capability \<Rightarrow> string" where
  "env_key Cap_send = ENV_PREFIX @ ''SEND''"
| "env_key Cap_sameTokenPayroll = ENV_PREFIX @ ''SAME_TOKEN_PAYROLL''"
| "env_key Cap_invoice = ENV_PREFIX @ ''INVOICE''"
| "env_key Cap_paymentLink = ENV_PREFIX @ ''PAYMENT_LINK''"
| "env_key Cap_liquidity = ENV_PREFIX @ ''LIQUIDITY''"
| "env_key Cap_bridge = ENV_PREFIX @ ''BRIDGE''"
| "env_key Cap_swap = ENV_PREFIX @ ''SWAP''"
| "env_key Cap_crossTokenPayroll = ENV_PREFIX @ ''CROSS_TOKEN_PAYROLL''"
| "env_key Cap_crossTokenInvoice = ENV_PREFIX @ ''CROSS_TOKEN_INVOICE''"
| "env_key Cap_nanoAgentApi = ENV_PREFIX @ ''NANO_AGENT_API''"

definition MAINNET_CONFIGURABLE :: "capability set" where
  "MAINNET_CONFIGURABLE =
     {Cap_send, Cap_sameTokenPayroll, Cap_invoice, Cap_paymentLink, Cap_bridge, Cap_swap,
      Cap_crossTokenPayroll}"

definition parseArcCapabilityName :: "js \<Rightarrow> capability res" where
  "parseArcCapabilityName v =
     (case v of
        JStr s \<Rightarrow> fromSome (PlainError ''UNKNOWN_CAPABILITY'')
                    (List.find (\<lambda>c. capability_name c = s) ARC_CAPABILITY_NAMES)
      | _ \<Rightarrow> Inl (PlainError ''UNKNOWN_CAPABILITY''))"

definition parseStrictCapabilityBoolean :: "string \<Rightarrow> bool res" where
  "parseStrictCapabilityBoolean v =
     (if v = ''true'' then Inr True else if v = ''false'' then Inr False
      else Inl (PlainError ''INVALID_CAPABILITY_CONFIGURATION''))"

definition assertKnownKeys :: "(string \<times> string) list \<Rightarrow> unit res" where
  "assertKnownKeys env =
     ensureR (list_all (\<lambda>(k, _). take (length ENV_PREFIX) k = ENV_PREFIX \<longrightarrow>
        k \<in> set (map env_key ARC_CAPABILITY_NAMES)) env)
       (PlainError ''UNKNOWN_CAPABILITY_CONFIGURATION'')"

fun readSwitches ::
  "(string \<times> string) list \<Rightarrow> capability list \<Rightarrow> (capability \<Rightarrow> bool) \<Rightarrow> (capability \<Rightarrow> bool) res" where
  "readSwitches env [] caps = Inr caps"
| "readSwitches env (c # cs) caps =
     (case map_of env (env_key c) of
        None \<Rightarrow> readSwitches env cs caps
      | Some raw \<Rightarrow>
          bindR (parseStrictCapabilityBoolean raw) (\<lambda>enabled.
          bindR (ensureR (\<not> (enabled \<and> c \<notin> MAINNET_CONFIGURABLE))
                   (PlainError ''CAPABILITY_FORBIDDEN_FOR_NETWORK'')) (\<lambda>_.
          readSwitches env cs (caps(c := enabled)))))"

text \<open>Which resources of the registry have the status "available".\<close>

record arc_resources =
  rpcAvailable :: bool
  explorerAvailable :: bool
  usdcAvailable :: bool
  eurcAvailable :: bool
  payrollAvailable :: bool
  executorV2Available :: bool
  executorMainnetAvailable :: bool
  messengerAvailable :: bool
  transmitterAvailable :: bool
  irisAvailable :: bool

definition swapDirect :: "arc_resources \<Rightarrow> bool" where
  "swapDirect S \<longleftrightarrow> rpcAvailable S \<and> usdcAvailable S \<and> eurcAvailable S \<and>
     (executorV2Available S \<or> executorMainnetAvailable S)"

text \<open>The readiness of the operation a capability needs; the other capabilities need none.\<close>

fun operationReady :: "arc_resources \<Rightarrow> capability \<Rightarrow> bool" where
  "operationReady S Cap_send = (rpcAvailable S \<and> explorerAvailable S \<and> usdcAvailable S)"
| "operationReady S Cap_sameTokenPayroll = (rpcAvailable S \<and> usdcAvailable S \<and> payrollAvailable S)"
| "operationReady S Cap_invoice = usdcAvailable S"
| "operationReady S Cap_paymentLink = (rpcAvailable S \<and> usdcAvailable S)"
| "operationReady S Cap_bridge = (rpcAvailable S \<and> usdcAvailable S \<and> messengerAvailable S \<and>
     transmitterAvailable S \<and> irisAvailable S)"
| "operationReady S Cap_swap = swapDirect S"
| "operationReady S Cap_crossTokenPayroll = (swapDirect S \<and> payrollAvailable S)"
| "operationReady S _ = True"

definition resolveArcCapabilities ::
  "arc_resources \<Rightarrow> string \<Rightarrow> (string \<times> string) list \<Rightarrow> (capability \<Rightarrow> bool) res" where
  "resolveArcCapabilities S key env =
     bindR (arcChainIdByKey key) (\<lambda>_.
     bindR (assertKnownKeys env) (\<lambda>_.
     bindR (readSwitches env ARC_CAPABILITY_NAMES (\<lambda>_. False)) (\<lambda>caps.
     bindR (ensureR (list_all (\<lambda>c. \<not> (caps c \<and> \<not> operationReady S c))
              [Cap_send, Cap_sameTokenPayroll, Cap_invoice, Cap_paymentLink, Cap_bridge, Cap_swap,
               Cap_crossTokenPayroll]) (PlainError ''CAPABILITY_RESOURCE_DEPENDENCY_UNAVAILABLE'')) (\<lambda>_.
     bindR (ensureR (\<not> (caps Cap_crossTokenPayroll \<and> \<not> caps Cap_swap))
              (PlainError ''CONTRADICTORY_CAPABILITY_CONFIGURATION'')) (\<lambda>_.
     Inr caps)))))"

section \<open>The service\<close>

definition CAPABILITY_DISABLED :: exn where
  "CAPABILITY_DISABLED = ServiceUnavailable ''CAPABILITY_DISABLED'' False"
definition CONTEXT_REQUIRED :: exn where
  "CONTEXT_REQUIRED = BadRequest ''CAPABILITY_CONTEXT_REQUIRED''"

text \<open>The network and the switches of the service are those of the routing service's configuration.\<close>

definition assertCapability :: "routing \<Rightarrow> capability \<Rightarrow> unit res" where
  "assertCapability R c = ensureR (capabilities R c) CAPABILITY_DISABLED"

definition assertNamedCapability :: "routing \<Rightarrow> js \<Rightarrow> unit res" where
  "assertNamedCapability R v =
     (case parseArcCapabilityName v of
        Inl _ \<Rightarrow> Inl (BadRequest ''UNKNOWN_CAPABILITY'')
      | Inr c \<Rightarrow> assertCapability R c)"

definition assertPaymentDecision :: "routing \<Rightarrow> route_decision \<Rightarrow> route_decision res" where
  "assertPaymentDecision R d =
     bindR (assertExecutable d) (\<lambda>_.
     bindR (if kind d = DIRECT_TRANSFER
            then assertCapability R (directCapability (decisionOperation d)) else Inr ()) (\<lambda>_.
     Inr d))"

text \<open>JavaScript truthiness, property access and \<open>??\<close> on a parsed JSON value.\<close>

definition js_truthy :: "js \<Rightarrow> bool" where
  "js_truthy v = (case v of
     JUndefined \<Rightarrow> False | JNull \<Rightarrow> False | JBool b \<Rightarrow> b | JNum n \<Rightarrow> n \<noteq> 0 | JStr s \<Rightarrow> s \<noteq> [] | _ \<Rightarrow> True)"

definition js_get :: "string \<Rightarrow> js \<Rightarrow> js" where
  "js_get k v = (case v of
     JObj es \<Rightarrow> (case map_of es k of None \<Rightarrow> JUndefined | Some x \<Rightarrow> x) | _ \<Rightarrow> JUndefined)"

definition js_or :: "js \<Rightarrow> js \<Rightarrow> js" where
  "js_or a b = (if a = JUndefined \<or> a = JNull then b else a)"

definition js_items :: "js \<Rightarrow> js list" where
  "js_items v = (case v of JArr xs \<Rightarrow> xs | _ \<Rightarrow> [])"

definition js_is_object :: "js \<Rightarrow> bool" where
  "js_is_object v = (case v of JObj _ \<Rightarrow> True | JArr _ \<Rightarrow> True | _ \<Rightarrow> False)"

fun assertRecipients :: "evm \<Rightarrow> routing \<Rightarrow> js \<Rightarrow> js list \<Rightarrow> unit res" where
  "assertRecipients E R source [] = Inr ()"
| "assertRecipients E R source (v # vs) =
     bindR (ensureR (js_is_object v) CONTEXT_REQUIRED) (\<lambda>_.
     let target = js_or (js_get ''targetTokenAddress'' v) source in
     bindR (ensureR (js_truthy target) CONTEXT_REQUIRED) (\<lambda>_.
     bindR (decide E R (JStr (network R)) PAYROLL source target) (\<lambda>d.
     bindR (assertPaymentDecision R d) (\<lambda>_.
     assertRecipients E R source vs))))"

definition assertPayroll :: "evm \<Rightarrow> routing \<Rightarrow> js \<Rightarrow> unit res" where
  "assertPayroll E R payload =
     (let source = js_get ''sourceTokenAddress'' payload; recipients = js_items (js_get ''recipients'' payload) in
     bindR (ensureR (\<not> (\<not> js_truthy source \<or> recipients = [])) CONTEXT_REQUIRED) (\<lambda>_.
     assertRecipients E R source recipients))"

section \<open>What the switches promise\<close>

lemma env_key_inj: "env_key c = env_key d \<longleftrightarrow> c = d"
  by (cases c; cases d) simp_all

declare env_key.simps [simp del]

lemma readSwitches_Inr:
  assumes "readSwitches env cs caps = Inr caps'" "distinct cs"
  shows "caps' c = (if c \<in> set cs then
      (case map_of env (env_key c) of None \<Rightarrow> caps c | Some raw \<Rightarrow> raw = ''true'') else caps c) \<and>
    (c \<in> set cs \<longrightarrow> caps' c \<longrightarrow> caps c \<or> c \<in> MAINNET_CONFIGURABLE)"
  using assms
proof (induction cs arbitrary: caps)
  case Nil
  then show ?case by simp
next
  case (Cons d cs)
  show ?case
  proof (cases "map_of env (env_key d)")
    case None
    with Cons show ?thesis by auto
  next
    case (Some raw)
    with Cons.prems obtain on where "parseStrictCapabilityBoolean raw = Inr on"
        and on: "\<not> (on \<and> d \<notin> MAINNET_CONFIGURABLE)" "readSwitches env cs (caps(d := on)) = Inr caps'"
      by auto
    then have raw: "raw = ''true'' \<longleftrightarrow> on"
      by (auto simp: parseStrictCapabilityBoolean_def split: if_splits)
    have "d \<notin> set cs" "distinct cs" using Cons.prems(2) by auto
    with Cons.IH [OF on(2)] on(1) raw Some show ?thesis
      by (cases "c = d") (simp_all split: option.split)
  qed
qed

lemma capability_names: "set ARC_CAPABILITY_NAMES = UNIV" "distinct ARC_CAPABILITY_NAMES"
proof -
  have "c \<in> set ARC_CAPABILITY_NAMES" for c
    by (cases c) (simp_all add: ARC_CAPABILITY_NAMES_def)
  then show "set ARC_CAPABILITY_NAMES = UNIV" by blast
  show "distinct ARC_CAPABILITY_NAMES" by (simp add: ARC_CAPABILITY_NAMES_def)
qed

text \<open>
  The switches fail closed.  When the configuration is accepted, a capability is on exactly when its
  environment variable is the text "true"; every capability that is on may be configured on mainnet and
  has the resources its operation needs; liquidity, cross-token invoices and the agent API are off; and
  cross-token payroll is on only together with swap.
\<close>

theorem capabilities_fail_closed:
  assumes "resolveArcCapabilities S key env = Inr caps"
  shows "key = ARC_MAINNET \<and> (caps c \<longleftrightarrow> map_of env (env_key c) = Some ''true'') \<and>
    (caps c \<longrightarrow> c \<in> MAINNET_CONFIGURABLE \<and> operationReady S c) \<and>
    \<not> caps Cap_liquidity \<and> \<not> caps Cap_crossTokenInvoice \<and> \<not> caps Cap_nanoAgentApi \<and>
    (caps Cap_crossTokenPayroll \<longrightarrow> caps Cap_swap)"
proof -
  have read: "readSwitches env ARC_CAPABILITY_NAMES (\<lambda>_. False) = Inr caps"
    and ready: "list_all (\<lambda>c. caps c \<longrightarrow> operationReady S c)
      [Cap_send, Cap_sameTokenPayroll, Cap_invoice, Cap_paymentLink, Cap_bridge, Cap_swap, Cap_crossTokenPayroll]"
    and cross: "caps Cap_crossTokenPayroll \<longrightarrow> caps Cap_swap" and key: "key = ARC_MAINNET"
    using assms by (auto simp: resolveArcCapabilities_def arcChainIdByKey_def split: if_splits)
  have switch: "(caps d \<longleftrightarrow> map_of env (env_key d) = Some ''true'') \<and> (caps d \<longrightarrow> d \<in> MAINNET_CONFIGURABLE)" for d
    using readSwitches_Inr [OF read capability_names(2), of d]
    by (auto simp: capability_names(1) split: option.splits)
  moreover have "caps c \<longrightarrow> operationReady S c"
    using ready by (cases c) simp_all
  moreover have "\<not> caps Cap_liquidity \<and> \<not> caps Cap_crossTokenInvoice \<and> \<not> caps Cap_nanoAgentApi"
    using switch by (auto simp: MAINNET_CONFIGURABLE_def)
  ultimately show ?thesis using cross key by blast
qed

definition all_resources :: arc_resources where
  "all_resources = \<lparr>rpcAvailable = True, explorerAvailable = True, usdcAvailable = True,
     eurcAvailable = True, payrollAvailable = True, executorV2Available = False,
     executorMainnetAvailable = True, messengerAvailable = True, transmitterAvailable = True,
     irisAvailable = True\<rparr>"

theorem capabilities_fail_closed_witness:
  "\<exists>caps. resolveArcCapabilities all_resources ARC_MAINNET
       [(env_key Cap_send, ''true''), (env_key Cap_swap, ''false'')] = Inr caps \<and>
     caps Cap_send \<and> \<not> caps Cap_swap \<and> \<not> caps Cap_crossTokenPayroll"
proof -
  obtain caps where caps: "resolveArcCapabilities all_resources ARC_MAINNET
      [(env_key Cap_send, ''true''), (env_key Cap_swap, ''false'')] = Inr caps"
    by (simp add: resolveArcCapabilities_def arcChainIdByKey_def assertKnownKeys_def capability_names(1))
      (simp add: ARC_CAPABILITY_NAMES_def env_key_inj parseStrictCapabilityBoolean_def MAINNET_CONFIGURABLE_def
        all_resources_def ensureR_def)
  from capabilities_fail_closed [OF caps, of Cap_send] capabilities_fail_closed [OF caps, of Cap_swap] caps
  show ?thesis by (simp add: env_key_inj)
qed

lemma assertPayment_Inr:
  assumes "assertPaymentDecision R d = Inr d'"
  shows "kind d \<noteq> CROSS_TOKEN_DISABLED"
    "kind d = DIRECT_TRANSFER \<Longrightarrow> capabilities R (directCapability (decisionOperation d))"
  using assms by (auto simp: assertPaymentDecision_def assertExecutable_def assertCapability_def split: if_splits)

definition payable :: "evm \<Rightarrow> routing \<Rightarrow> js \<Rightarrow> js \<Rightarrow> bool" where
  "payable E R source target \<longleftrightarrow>
     (\<exists>a b s t. identifyToken E R source = Inr (a, s) \<and> identifyToken E R target = Inr (b, t) \<and>
        (if a = b then capabilities R Cap_sameTokenPayroll
         else network R = ARC_MAINNET \<and> capabilities R Cap_crossTokenPayroll))"

lemma decided_payable:
  assumes "evm_laws E" "routing_ok E R" "decide E R n PAYROLL source target = Inr d"
    "assertPaymentDecision R d = Inr d'"
  shows "payable E R source target"
proof (rule decide_Inr [OF assms(3)], goal_cases)
  case (1 tokIn tokOut same)
  obtain a s where a: "tokIn = (a, s)" by fastforce
  obtain b t where b: "tokOut = (b, t)" by fastforce
  note ids = 1(2) [unfolded a] 1(3) [unfolded b]
  have "same = (a = b)"
    using isAddressEqual_canonical [OF assms(1)] identifyToken_canonical(1) [OF assms(1,2)] ids 1(4)
    by (auto simp: a b)
  with 1(5) ids assertPayment_Inr [OF assms(4)] show ?case
    by (auto simp: payable_def decision_def split: if_splits)
qed

lemma assertRecipients_Inr:
  assumes "evm_laws E" "routing_ok E R" "assertRecipients E R source vs = Inr ()" "v \<in> set vs"
  shows "js_is_object v \<and> payable E R source (js_or (js_get ''targetTokenAddress'' v) source)"
  using assms(3,4) decided_payable [OF assms(1,2)] by (induction vs) (auto simp: Let_def)

text \<open>
  A payroll request is admitted only for payable recipients.  On a service built from its
  configuration, an accepted payload names a source token and at least one recipient, and for every
  recipient the source and target are configured tokens of the network, with same-token payroll switched
  on when they are equal and cross-token payroll switched on when they differ.
\<close>

theorem payroll_admitted:
  assumes "evm_laws E" "createRouting E cfg = Inr R" "assertPayroll E R payload = Inr ()"
  shows "js_items (js_get ''recipients'' payload) \<noteq> [] \<and>
    (\<forall>v\<in>set (js_items (js_get ''recipients'' payload)). js_is_object v \<and>
       payable E R (js_get ''sourceTokenAddress'' payload)
         (js_or (js_get ''targetTokenAddress'' v) (js_get ''sourceTokenAddress'' payload)))"
  using assms(3) assertRecipients_Inr [OF assms(1) createRouting_ok [OF assms(1,2)]]
  by (auto simp: assertPayroll_def Let_def)

definition payroll_config :: routing_config where
  "payroll_config = sample_config\<lparr>cfgCapabilities := (\<lambda>c. c = Cap_sameTokenPayroll)\<rparr>"

definition one_recipient :: js where
  "one_recipient = JObj [(''sourceTokenAddress'', JStr (addr (CHR ''5''))),
     (''recipients'', JArr [JObj [(''amount'', JStr ''1'')]])]"

lemma same_address: "isAddressEqual lower_evm (addr (CHR ''5'')) (addr (CHR ''5'')) = Some True"
  by (simp add: lower_evm_def)

theorem payroll_admitted_witness:
  "\<exists>R. createRouting lower_evm payroll_config = Inr R \<and> assertPayroll lower_evm R one_recipient = Inr () \<and>
     payable lower_evm R (JStr (addr (CHR ''5''))) (JStr (addr (CHR ''5'')))"
proof -
  obtain R where R: "createRouting lower_evm payroll_config = Inr R" "assertPayroll lower_evm R one_recipient = Inr ()"
    by (simp add: createRouting_def payroll_config_def sample_config_def arcChainIdByKey_def
        optionalConfiguredAddress_def configuredAddress_def parseAddressOr_def res_defs)
      (simp add: one_recipient_def assertPayroll_def js_get_def js_items_def js_truthy_def js_is_object_def
        js_or_def decide_def identifyToken_def parseAddressOr_def assertPaymentDecision_def Let_def
        assertExecutable_def decision_def assertCapability_def fromSome_def ensureR_def same_address)
  from payroll_admitted [OF lower_evm_laws R] R show ?thesis
    by (auto simp: one_recipient_def js_get_def js_items_def js_or_def)
qed

end
