(* ===== verification/Invoice.thy ===== *)
theory Invoice
  imports ExecutionIntent InvoiceVerifier Capability
begin

text \<open>
  \<open>InvoiceService\<close> (\<open>apps/backend/src/invoice/invoice.service.ts\<close>): invoices and payment links, their
  expiry and cancellation, and the verification of a customer's payment.  Verification runs many
  statements over the tables of intents, invoices and payments; \<open>others k\<close> is what other requests commit at
  the k-th point between them.  Points in time are milliseconds and one request reads the clock once.
  The rendering of amounts (viem's \<open>parseUnits\<close>, \<open>formatUnits\<close>) and the parsing of dates are parameters,
  and so are the fresh identifiers.  \<open>createdAt\<close> is the insertion order.
\<close>

definition INVOICE_MAX_AMOUNT_UNITS :: int where
  "INVOICE_MAX_AMOUNT_UNITS = 1000000000000000"
definition DEFAULT_EXPIRY_MS :: int where
  "DEFAULT_EXPIRY_MS = 7 * 24 * 60 * 60 * 1000"
definition MAX_EXPIRY_MS :: int where
  "MAX_EXPIRY_MS = 365 * 24 * 60 * 60 * 1000"

definition INVALID_AMOUNT :: exn where
  "INVALID_AMOUNT = BadRequest ''INVOICE_INVALID_AMOUNT''"
definition INVALID_TITLE :: exn where
  "INVALID_TITLE = BadRequest ''INVOICE_INVALID_TITLE''"
definition INVALID_EXPIRY :: exn where
  "INVALID_EXPIRY = BadRequest ''INVOICE_INVALID_EXPIRY''"
definition INVOICE_NOT_FOUND :: exn where
  "INVOICE_NOT_FOUND = NotFound ''INVOICE_NOT_FOUND''"
definition NOT_OPEN :: exn where
  "NOT_OPEN = Conflict ''INVOICE_NOT_OPEN''"
definition ALREADY_PAID :: exn where
  "ALREADY_PAID = Conflict ''INVOICE_ALREADY_PAID''"
definition INVOICE_GONE :: exn where
  "INVOICE_GONE = Gone ''INVOICE_EXPIRED''"
definition INVOICE_CANCELLED :: exn where
  "INVOICE_CANCELLED = Gone ''INVOICE_CANCELLED''"
definition ALREADY_SUBMITTED :: exn where
  "ALREADY_SUBMITTED = Conflict ''INVOICE_PAYMENT_ALREADY_SUBMITTED''"
definition HASH_REUSED :: exn where
  "HASH_REUSED = Conflict ''INVOICE_TRANSACTION_HASH_REUSED''"

lemmas invoice_errors =
  INVALID_AMOUNT_def INVALID_TITLE_def INVALID_EXPIRY_def INVOICE_NOT_FOUND_def NOT_OPEN_def ALREADY_PAID_def
  INVOICE_GONE_def INVOICE_CANCELLED_def ALREADY_SUBMITTED_def HASH_REUSED_def

fun tokenName :: "token_symbol \<Rightarrow> string" where
  "tokenName USDC = ''USD Coin''"
| "tokenName EURC = ''Euro Coin''"

section \<open>The environment of the service\<close>

record invoice_env =
  ieEvm :: evm
  ieAbi :: abi
  ieRouting :: routing
  ieRequired :: nat
  ieRpc :: rpc
  parseUnits :: "string \<Rightarrow> nat \<Rightarrow> int option"
  formatUnits :: "nat \<Rightarrow> nat \<Rightarrow> string"
  parseDate :: "string \<Rightarrow> int option"

text \<open>
  What viem documents of the two renderings: the printed form of an amount parses to the amount.
\<close>

definition units_laws :: "invoice_env \<Rightarrow> bool" where
  "units_laws V \<longleftrightarrow> (\<forall>n d. parseUnits V (formatUnits V n d) d = Some (int n))"

section \<open>The tables\<close>

definition invoices_unique :: "invoice list \<Rightarrow> bool" where
  "invoices_unique T \<longleftrightarrow> distinct (map invoiceId T) \<and> distinct (map publicId T)"

definition payments_unique :: "payment list \<Rightarrow> bool" where
  "payments_unique T \<longleftrightarrow> distinct (map paymentInvoiceId T) \<and> distinct (map paymentHash T)"

definition payment_of :: "invoice \<Rightarrow> db \<Rightarrow> payment option" where
  "payment_of v s = find_row (\<lambda>p. paymentInvoiceId p = invoiceId v) (payments s)"

text \<open>A query with \<open>include: { payment: true }\<close>.\<close>

definition findInvoice :: "(invoice \<Rightarrow> bool) \<Rightarrow> (db, (invoice \<times> payment option) option) op" where
  "findInvoice p = query (\<lambda>s. map_option (\<lambda>v. (v, payment_of v s)) (find_row p (invoices s)))"

definition settlement_operation :: "settlement_kind \<Rightarrow> intent_operation" where
  "settlement_operation k = (if k = KIND_PAYMENT_LINK then OP_PAYMENT_LINK_SETTLEMENT else OP_INVOICE_SETTLEMENT)"

definition settlement_capability :: "settlement_kind \<Rightarrow> capability" where
  "settlement_capability k = (if k = KIND_PAYMENT_LINK then Cap_paymentLink else Cap_invoice)"

section \<open>Views\<close>

record public_invoice =
  pvPublicId :: string
  pvOperation :: intent_operation
  pvAddress :: string
  pvAddressShort :: string
  pvChainId :: nat
  pvSymbol :: token_symbol
  pvTokenName :: string
  pvToken :: string
  pvDecimals :: nat
  pvAmount :: string
  pvAmountUnits :: string
  pvTitle :: string
  pvDescription :: "string option"
  pvExpiresAt :: "int option"
  pvStatus :: invoice_status
  pvPaymentStatus :: "payment_status option"
  pvVerificationCode :: "string option"
  pvTransactionHash :: "string option"
  pvPaidAt :: "int option"

record merchant_invoice = public_invoice +
  mvId :: string
  mvNumber :: "string option"
  mvCancelledAt :: "int option"
  mvPayer :: "string option"

definition verified_payment :: "invoice \<Rightarrow> payment option \<Rightarrow> payment option" where
  "verified_payment v p =
     (case p of
        None \<Rightarrow> None
      | Some q \<Rightarrow> if invoiceStatus v = INV_PAID \<and> paymentStatus q = PAY_VERIFIED then Some q else None)"

definition toPublic :: "invoice_env \<Rightarrow> invoice \<times> payment option \<Rightarrow> public_invoice res" where
  "toPublic V vp =
     (let v = fst vp; p = snd vp; good = verified_payment v p in
      bindR (checksum (ieEvm V) (merchantWalletAddress v)) (\<lambda>a.
      bindR (toBigInt (invoiceAmountUnits v)) (\<lambda>u.
      Inr \<lparr>pvPublicId = publicId v, pvOperation = settlement_operation (settlementKind v),
           pvAddress = a, pvAddressShort = take 6 a @ ''...'' @ drop (length a - 4) a,
           pvChainId = invoiceChainId v, pvSymbol = tokenSymbol v, pvTokenName = tokenName (tokenSymbol v),
           pvToken = tokenAddress v, pvDecimals = tokenDecimals v,
           pvAmount = formatUnits V (nat u) (tokenDecimals v), pvAmountUnits = invoiceAmountUnits v,
           pvTitle = title v, pvDescription = description v, pvExpiresAt = expiresAt v,
           pvStatus = invoiceStatus v, pvPaymentStatus = map_option paymentStatus p,
           pvVerificationCode = (case p of
              None \<Rightarrow> None
            | Some q \<Rightarrow> if paymentStatus q = PAY_REJECTED then rejectionCode q else None),
           pvTransactionHash = map_option paymentHash good,
           pvPaidAt = (case good of None \<Rightarrow> None | Some q \<Rightarrow> or_else (paidAt v) (verifiedAt q))\<rparr>)))"

definition toMerchant :: "invoice_env \<Rightarrow> invoice \<times> payment option \<Rightarrow> merchant_invoice res" where
  "toMerchant V vp =
     bindR (toPublic V vp) (\<lambda>w.
     Inr (public_invoice.extend w (merchant_invoice.fields (invoiceId (fst vp)) (invoiceNumber (fst vp))
       (cancelledAt (fst vp))
       (case snd vp of
          None \<Rightarrow> None
        | Some q \<Rightarrow> if paymentStatus q = PAY_VERIFIED then payerAddress q else None))))"

section \<open>Identifiers\<close>

definition is_uuid_char :: "string \<Rightarrow> nat \<Rightarrow> bool" where
  "is_uuid_char s i \<longleftrightarrow>
     (if i \<in> {8, 13, 18, 23} then s ! i = CHR ''-''
      else if i = 14 then s ! i \<in> set ''12345''
      else if i = 19 then s ! i \<in> set ''89abAB''
      else is_hex (s ! i))"

definition is_uuid :: "string \<Rightarrow> bool" where
  "is_uuid s \<longleftrightarrow> length s = 36 \<and> list_all (is_uuid_char s) [0..<36]"

definition is_base64url :: "char \<Rightarrow> bool" where
  "is_base64url c \<longleftrightarrow> (let n = (of_char c :: nat) in
     (65 \<le> n \<and> n \<le> 90) \<or> (97 \<le> n \<and> n \<le> 122) \<or> (48 \<le> n \<and> n \<le> 57) \<or> n = 95 \<or> n = 45)"

definition assertUuid :: "string \<Rightarrow> (db, unit) op" where
  "assertUuid i = ensure (is_uuid i) INVOICE_NOT_FOUND"

definition assertPublicId :: "string \<Rightarrow> (db, unit) op" where
  "assertPublicId i = ensure (length i = 22 \<and> list_all is_base64url i) INVOICE_NOT_FOUND"

section \<open>Creation\<close>

record merchant =
  merchantUser :: string
  merchantWallet :: string

record create_invoice =
  ciKind :: "settlement_kind option"
  ciToken :: token_symbol
  ciAmount :: string
  ciTitle :: string
  ciDescription :: "string option"
  ciNumber :: "string option"
  ciExpiresAt :: "string option"

definition expiryOf :: "invoice_env \<Rightarrow> int \<Rightarrow> string option \<Rightarrow> int res" where
  "expiryOf V now x =
     bindR (fromSome INVALID_EXPIRY
        (if truthy x then parseDate V (the x) else Some (now + DEFAULT_EXPIRY_MS))) (\<lambda>t.
     bindR (ensureR (now < t \<and> t \<le> now + MAX_EXPIRY_MS) INVALID_EXPIRY) (\<lambda>_.
     Inr t))"

definition createInvoice ::
  "invoice_env \<Rightarrow> int \<Rightarrow> string \<Rightarrow> string \<Rightarrow> merchant \<Rightarrow> create_invoice \<Rightarrow> (db, merchant_invoice) op" where
  "createInvoice V now freshId freshPublic m x =
     (let R = ieRouting V in
     andThen (lift (assertCapability R
        (if ciKind x = Some KIND_PAYMENT_LINK then Cap_paymentLink else Cap_invoice))) (\<lambda>_.
     andThen (lift (canonicalToken R (ciToken x))) (\<lambda>token.
     andThen (lift (bindR (decide (ieEvm V) R (JStr (network R)) INVOICE (JStr token) (JStr token))
        assertExecutable)) (\<lambda>_.
     andThen (lift (fromSome INVALID_AMOUNT (parseUnits V (ciAmount x) 6))) (\<lambda>amount.
     andThen (ensure (\<not> (amount \<le> 0 \<or> INVOICE_MAX_AMOUNT_UNITS < amount)) INVALID_AMOUNT) (\<lambda>_.
     andThen (ensure (js_trim (ciTitle x) \<noteq> []) INVALID_TITLE) (\<lambda>_.
     andThen (lift (expiryOf V now (ciExpiresAt x))) (\<lambda>expiry.
     andThen (lift (checksum (ieEvm V) (merchantWallet m))) (\<lambda>wallet.
     andThen (onInvoices (insertUnique invoices_unique
        \<lparr>invoiceId = freshId, publicId = freshPublic, merchantUserId = merchantUser m,
         merchantWalletAddress = wallet, invoiceChainId = chainId R, tokenAddress = token,
         tokenSymbol = ciToken x, tokenDecimals = 6, invoiceAmountUnits = show_int amount,
         title = js_trim (ciTitle x), description = trim_or_null (ciDescription x),
         invoiceNumber = trim_or_null (ciNumber x),
         settlementKind = (case ciKind x of None \<Rightarrow> KIND_INVOICE | Some k \<Rightarrow> k),
         invoiceStatus = INV_OPEN, expiresAt = Some expiry, paidAt = None, cancelledAt = None\<rparr>)) (\<lambda>v.
     lift (toMerchant V (v, None))))))))))))"

section \<open>Expiry, cancellation and reading\<close>

definition expireOpenInvoices :: "int \<Rightarrow> (invoice \<Rightarrow> bool) \<Rightarrow> (db, nat) op" where
  "expireOpenInvoices now p = onInvoices (updateMany
     (\<lambda>v. p v \<and> invoiceStatus v = INV_OPEN \<and> (case expiresAt v of None \<Rightarrow> False | Some t \<Rightarrow> t \<le> now))
     (\<lambda>v. v\<lparr>invoiceStatus := INV_EXPIRED\<rparr>))"

record invoice_list =
  listItems :: "merchant_invoice list"
  listTotal :: nat

definition listInvoices ::
  "invoice_env \<Rightarrow> int \<Rightarrow> merchant \<Rightarrow> invoice_status option \<Rightarrow> nat \<Rightarrow> nat \<Rightarrow> (db, invoice_list) op" where
  "listInvoices V now m wanted limit offset =
     andThen (expireOpenInvoices now (\<lambda>v. merchantUserId v = merchantUser m)) (\<lambda>_.
     andThen (query (\<lambda>s.
        let rows = filter (\<lambda>v. merchantUserId v = merchantUser m \<and>
              (case wanted of None \<Rightarrow> True | Some st \<Rightarrow> invoiceStatus v = st)) (invoices s)
        in (map (\<lambda>v. (v, payment_of v s)) (take limit (drop offset (rev rows))), length rows)))
        (\<lambda>(rows, total).
     andThen (lift (mapR (toMerchant V) rows)) (\<lambda>items.
     ok \<lparr>listItems = items, listTotal = total\<rparr>)))"

definition getOwned :: "invoice_env \<Rightarrow> int \<Rightarrow> merchant \<Rightarrow> string \<Rightarrow> (db, merchant_invoice) op" where
  "getOwned V now m i =
     andThen (assertUuid i) (\<lambda>_.
     andThen (expireOpenInvoices now (\<lambda>v. invoiceId v = i \<and> merchantUserId v = merchantUser m)) (\<lambda>_.
     andThen (findInvoice (\<lambda>v. invoiceId v = i \<and> merchantUserId v = merchantUser m)) (\<lambda>found.
     case found of None \<Rightarrow> throw INVOICE_NOT_FOUND | Some v \<Rightarrow> lift (toMerchant V v))))"

definition cancelInvoice :: "invoice_env \<Rightarrow> int \<Rightarrow> merchant \<Rightarrow> string \<Rightarrow> (db, merchant_invoice) op" where
  "cancelInvoice V now m i =
     andThen (assertUuid i) (\<lambda>_.
     andThen (expireOpenInvoices now (\<lambda>v. invoiceId v = i \<and> merchantUserId v = merchantUser m)) (\<lambda>_.
     andThen (onInvoices (updateMany
        (\<lambda>v. invoiceId v = i \<and> merchantUserId v = merchantUser m \<and> invoiceStatus v = INV_OPEN)
        (\<lambda>v. v\<lparr>invoiceStatus := INV_CANCELLED, cancelledAt := Some now\<rparr>))) (\<lambda>count.
     if count \<noteq> 1
     then andThen (findInvoice (\<lambda>v. invoiceId v = i \<and> merchantUserId v = merchantUser m)) (\<lambda>found.
       case found of None \<Rightarrow> throw INVOICE_NOT_FOUND | Some _ \<Rightarrow> throw NOT_OPEN)
     else getOwned V now m i)))"

definition getPublic :: "invoice_env \<Rightarrow> int \<Rightarrow> string \<Rightarrow> (db, public_invoice) op" where
  "getPublic V now pid =
     andThen (assertPublicId pid) (\<lambda>_.
     andThen (expireOpenInvoices now (\<lambda>v. publicId v = pid)) (\<lambda>_.
     andThen (findInvoice (\<lambda>v. publicId v = pid)) (\<lambda>found.
     case found of
       None \<Rightarrow> throw INVOICE_NOT_FOUND
     | Some v \<Rightarrow>
         andThen (lift (assertCapability (ieRouting V) (settlement_capability (settlementKind (fst v))))) (\<lambda>_.
         lift (toPublic V v)))))"

section \<open>Verification of a payment\<close>

definition assertAcceptsPayment :: "int \<Rightarrow> invoice \<Rightarrow> unit res" where
  "assertAcceptsPayment now v =
     (if invoiceStatus v = INV_PAID then Inl ALREADY_PAID
      else if invoiceStatus v = INV_EXPIRED \<or>
        (invoiceStatus v = INV_OPEN \<and> (case expiresAt v of None \<Rightarrow> False | Some t \<Rightarrow> t \<le> now))
      then Inl INVOICE_GONE
      else if invoiceStatus v = INV_CANCELLED then Inl INVOICE_CANCELLED
      else if invoiceStatus v \<notin> {INV_OPEN, INV_VERIFYING} then Inl NOT_OPEN
      else Inr ())"

definition isConflict :: "exn \<Rightarrow> bool" where
  "isConflict e = (case e of Conflict _ \<Rightarrow> True | _ \<Rightarrow> False)"

text \<open>The transaction that locks the invoice for one transaction hash.\<close>

definition lockInvoice :: "string \<Rightarrow> string \<Rightarrow> (db, unit) op" where
  "lockInvoice i h =
     transaction (
       andThen (onInvoices (updateMany (\<lambda>v. invoiceId v = i \<and> invoiceStatus v = INV_OPEN)
          (\<lambda>v. v\<lparr>invoiceStatus := INV_VERIFYING\<rparr>))) (\<lambda>count.
       andThen (ensure (count = 1) NOT_OPEN) (\<lambda>_.
       andThen (onPayments (insertUnique payments_unique
          \<lparr>paymentInvoiceId = i, paymentHash = h, payerAddress = None, paymentStatus = PAY_VERIFYING,
           verifiedAt = None, rejectionCode = None\<rparr>)) (\<lambda>_.
       ok ()))))"

definition bound_to :: "string \<Rightarrow> (invoice \<times> payment option) option \<Rightarrow> bool" where
  "bound_to h found = (case found of Some (_, Some p) \<Rightarrow> paymentHash p = h | _ \<Rightarrow> False)"

definition claimPayment :: "(nat \<Rightarrow> db \<Rightarrow> db) \<Rightarrow> string \<Rightarrow> invoice \<Rightarrow> string \<Rightarrow> (db, invoice \<times> payment option) op" where
  "claimPayment others pid v h =
     andThen (query (\<lambda>s. find_row (\<lambda>p. paymentHash p = h) (payments s))) (\<lambda>reused.
     andThen (ensure (case reused of None \<Rightarrow> True | Some p \<Rightarrow> paymentInvoiceId p = invoiceId v) HASH_REUSED) (\<lambda>_.
     andThen (interfere (others 4)) (\<lambda>_.
     andThen (catching (lockInvoice (invoiceId v) h)
        (\<lambda>e. if isConflict e then throw e
             else andThen (interfere (others 5)) (\<lambda>_.
               andThen (findInvoice (\<lambda>v. publicId v = pid)) (\<lambda>found.
               ensure (bound_to h found) HASH_REUSED)))) (\<lambda>_.
     andThen (interfere (others 6)) (\<lambda>_.
     andThen (findInvoice (\<lambda>v. publicId v = pid)) (\<lambda>found.
     case found of None \<Rightarrow> throw (DbError ''P2025'') | Some w \<Rightarrow> ok w))))))"

definition pending_payment :: "string \<Rightarrow> string \<Rightarrow> payment \<Rightarrow> bool" where
  "pending_payment i h p \<longleftrightarrow> paymentInvoiceId p = i \<and> paymentHash p = h \<and>
     paymentStatus p \<in> {PAY_SUBMITTED, PAY_VERIFYING, PAY_REJECTED}"

definition settleInvoice :: "int \<Rightarrow> string \<Rightarrow> string \<Rightarrow> string \<Rightarrow> (db, unit) op" where
  "settleInvoice now i h payer =
     transaction (
       andThen (onPayments (updateMany (pending_payment i h)
          (\<lambda>p. p\<lparr>paymentStatus := PAY_VERIFIED, payerAddress := Some payer, verifiedAt := Some now,
                rejectionCode := None\<rparr>))) (\<lambda>_.
       andThen (onInvoices (updateMany (\<lambda>v. invoiceId v = i \<and> invoiceStatus v = INV_VERIFYING)
          (\<lambda>v. v\<lparr>invoiceStatus := INV_PAID, paidAt := Some now\<rparr>))) (\<lambda>_.
       ok ())))"

definition failPayment :: "string \<Rightarrow> string \<Rightarrow> exn \<Rightarrow> (db, 'a) op" where
  "failPayment i h e =
     (case e of
        VerificationError code again \<Rightarrow>
          if again
          then andThen (onPayments (updateMany (pending_payment i h)
                 (\<lambda>p. p\<lparr>paymentStatus := PAY_VERIFYING, rejectionCode := None\<rparr>))) (\<lambda>_.
               throw (ServiceUnavailable code True))
          else andThen (onPayments (updateMany (pending_payment i h)
                 (\<lambda>p. p\<lparr>paymentStatus := PAY_REJECTED, rejectionCode := Some code\<rparr>))) (\<lambda>_.
               throw (Unprocessable code False))
      | _ \<Rightarrow> throw e)"

definition settlement_receipt :: "routing \<Rightarrow> invoice \<Rightarrow> string \<Rightarrow> string \<Rightarrow> verified_receipt" where
  "settlement_receipt R v h payer =
     \<lparr>rcNetwork = network R, rcHash = h, rcSource = payer, rcToken = tokenAddress v,
      rcRecipient = Some (merchantWalletAddress v), rcBatchDigest = None, rcAmount = invoiceAmountUnits v\<rparr>"

definition settlePayment ::
  "invoice_env \<Rightarrow> int \<Rightarrow> (nat \<Rightarrow> db \<Rightarrow> db) \<Rightarrow> string \<Rightarrow> string \<Rightarrow> invoice \<Rightarrow> string \<Rightarrow> (db, public_invoice) op" where
  "settlePayment V now others pid intent v h =
     catching
       (andThen (lift (checksum (ieEvm V) (tokenAddress v))) (\<lambda>token.
        andThen (lift (checksum (ieEvm V) (merchantWalletAddress v))) (\<lambda>merchant.
        andThen (lift (verifyInvoice (ieEvm V) (ieAbi V) (chainId (ieRouting V)) (ieRequired V) (ieRpc V)
           \<lparr>iqAmount = invoiceAmountUnits v, iqMerchant = merchant, iqToken = token, iqHash = h\<rparr>)) (\<lambda>verified.
        andThen (interfere (others 7)) (\<lambda>_.
        andThen (completeWithVerifiedReceipt (ieEvm V) (ieRouting V) now intent
           (settlement_receipt (ieRouting V) v h (vtPayer verified))) (\<lambda>_.
        andThen (interfere (others 8)) (\<lambda>_.
        andThen (settleInvoice now (invoiceId v) h (vtPayer verified)) (\<lambda>_.
        andThen (interfere (others 9)) (\<lambda>_.
        getPublic V now pid)))))))))
       (failPayment (invoiceId v) h)"

definition verifyPublicPayment ::
  "invoice_env \<Rightarrow> int \<Rightarrow> (nat \<Rightarrow> db \<Rightarrow> db) \<Rightarrow> string \<Rightarrow> string \<Rightarrow> (db, public_invoice) op" where
  "verifyPublicPayment V now others pid submitted =
     (let R = ieRouting V; h = toLowerCase submitted in
     andThen (assertPublicId pid) (\<lambda>_.
     andThen (findInvoice (\<lambda>v. publicId v = pid)) (\<lambda>found.
     case found of
       None \<Rightarrow> throw INVOICE_NOT_FOUND
     | Some (v, p) \<Rightarrow>
         andThen (lift (assertCapability R (settlement_capability (settlementKind v)))) (\<lambda>_.
         andThen (lift (bindR (decide (ieEvm V) R (JStr (network R))
            (if settlementKind v = KIND_PAYMENT_LINK then PAYMENT_LINK else INVOICE)
            (JStr (tokenAddress v)) (JStr (tokenAddress v))) assertExecutable)) (\<lambda>_.
         andThen (interfere (others 0)) (\<lambda>_.
         andThen (getByTransactionHash R h) (\<lambda>intent.
         andThen (ensure (\<not> (operation intent \<noteq> settlement_operation (settlementKind v) \<or>
            externalReference intent \<noteq> publicId v)) IMMUTABLE_CONFLICT) (\<lambda>_.
         andThen (interfere (others 1)) (\<lambda>_.
         andThen (beginVerification R now (intentId intent)) (\<lambda>_.
         andThen (interfere (others 2)) (\<lambda>_.
         andThen (expireOpenInvoices now (\<lambda>v. publicId v = pid)) (\<lambda>_.
         if invoiceStatus v = INV_PAID \<and>
            (case p of None \<Rightarrow> False | Some q \<Rightarrow> paymentStatus q = PAY_VERIFIED \<and> paymentHash q = h)
         then lift (toPublic V (v, p))
         else
           andThen (lift (assertAcceptsPayment now v)) (\<lambda>_.
           andThen (ensure (case p of None \<Rightarrow> True | Some q \<Rightarrow> paymentHash q = h) ALREADY_SUBMITTED) (\<lambda>_.
           if (case p of None \<Rightarrow> False | Some q \<Rightarrow> paymentStatus q = PAY_VERIFIED)
           then lift (toPublic V (v, p))
           else
             andThen (interfere (others 3)) (\<lambda>_.
             andThen (if p = None then claimPayment others pid v h else ok (v, p)) (\<lambda>(w, _).
             settlePayment V now others pid (intentId intent) w h))))))))))))))))"

end
