(* ===== verification/Interference.thy ===== *)
theory Interference
  imports Table
begin

text \<open>
  Service methods with other requests between their statements.  \<open>writes\<close> says what one statement may do
  to the database and \<open>good\<close> is what every statement keeps.  A method is correct under interference when
  each of its own statements is a write (\<open>guarded\<close>), given facts that writes cannot destroy (\<open>stable\<close>);
  what other requests do in between (\<open>bystander\<close>) is any number of writes.
\<close>

definition bystander :: "('s \<Rightarrow> 's \<Rightarrow> bool) \<Rightarrow> ('s \<Rightarrow> bool) \<Rightarrow> ('s \<Rightarrow> 's) \<Rightarrow> bool" where
  "bystander writes good f \<longleftrightarrow> (\<forall>s. good s \<longrightarrow> writes\<^sup>*\<^sup>* s (f s))"

definition stable :: "('s \<Rightarrow> 's \<Rightarrow> bool) \<Rightarrow> ('s \<Rightarrow> bool) \<Rightarrow> ('s \<Rightarrow> bool) \<Rightarrow> bool" where
  "stable writes good F \<longleftrightarrow> (\<forall>s t. good s \<longrightarrow> F s \<longrightarrow> writes s t \<longrightarrow> F t)"

definition guarded ::
  "('s \<Rightarrow> 's \<Rightarrow> bool) \<Rightarrow> ('s \<Rightarrow> bool) \<Rightarrow> ('s \<Rightarrow> bool) \<Rightarrow> ('s, 'a) op \<Rightarrow> ('a \<Rightarrow> 's \<Rightarrow> bool) \<Rightarrow> bool" where
  "guarded writes good F m G \<longleftrightarrow>
     (\<forall>s. good s \<longrightarrow> F s \<longrightarrow> writes\<^sup>*\<^sup>* s (snd (m s)) \<and> (\<forall>x. fst (m s) = Inr x \<longrightarrow> G x (snd (m s))))"

locale interference =
  fixes writes :: "'s \<Rightarrow> 's \<Rightarrow> bool" and good :: "'s \<Rightarrow> bool"
  assumes good_writes: "writes s t \<Longrightarrow> good s \<Longrightarrow> good t"
begin

lemma good_run: "writes\<^sup>*\<^sup>* s t \<Longrightarrow> good s \<Longrightarrow> good t"
  by (induction rule: rtranclp_induct) (auto intro: good_writes)

lemma stable_run: "writes\<^sup>*\<^sup>* s t \<Longrightarrow> good s \<Longrightarrow> stable writes good F \<Longrightarrow> F s \<Longrightarrow> F t"
proof (induction rule: rtranclp_induct)
  case base
  then show ?case by simp
next
  case (step t u)
  then show ?case using good_run [of s t] unfolding stable_def by blast
qed

lemma stable_conj: "stable writes good F \<Longrightarrow> stable writes good G \<Longrightarrow> stable writes good (\<lambda>s. F s \<and> G s)"
  by (auto simp: stable_def)

lemma stable_const: "stable writes good (\<lambda>_. b)"
  by (simp add: stable_def)

lemma guardedI:
  "(\<And>s r t. good s \<Longrightarrow> F s \<Longrightarrow> m s = (r, t) \<Longrightarrow> writes\<^sup>*\<^sup>* s t \<and> (\<forall>x. r = Inr x \<longrightarrow> G x t)) \<Longrightarrow>
   guarded writes good F m G"
  unfolding guarded_def by (metis prod.collapse)

lemma guardedD:
  "guarded writes good F m G \<Longrightarrow> good s \<Longrightarrow> F s \<Longrightarrow> m s = (r, t) \<Longrightarrow>
   writes\<^sup>*\<^sup>* s t \<and> (\<forall>x. r = Inr x \<longrightarrow> G x t)"
  unfolding guarded_def by (metis fst_conv snd_conv)

lemma guarded_weaken:
  "guarded writes good F m G \<Longrightarrow> (\<And>s. good s \<Longrightarrow> F' s \<Longrightarrow> F s) \<Longrightarrow>
   (\<And>x s. good s \<Longrightarrow> G x s \<Longrightarrow> G' x s) \<Longrightarrow> guarded writes good F' m G'"
  unfolding guarded_def using good_run by meson

lemma guarded_andThen:
  assumes "guarded writes good F m G" "\<And>x. guarded writes good (G x) (f x) H"
  shows "guarded writes good F (andThen m f) H"
proof (rule guardedI)
  fix s r u
  assume s: "good s" "F s" and run: "andThen m f s = (r, u)"
  obtain a t where m: "m s = (a, t)" by (cases "m s")
  note t = guardedD [OF assms(1) s m]
  show "writes\<^sup>*\<^sup>* s u \<and> (\<forall>x. r = Inr x \<longrightarrow> H x u)"
  proof (cases a)
    case (Inl e)
    with m run t show ?thesis by (auto simp: andThen_def)
  next
    case (Inr x)
    with m run have "f x t = (r, u)" by (simp add: andThen_def)
    moreover have "good t" "G x t" using t s Inr good_run by blast+
    ultimately have "writes\<^sup>*\<^sup>* t u" "\<forall>y. r = Inr y \<longrightarrow> H y u" using guardedD [OF assms(2)] by blast+
    with t show ?thesis by (meson rtranclp_trans)
  qed
qed

text \<open>A step whose result is not needed later hands on the facts it was given.\<close>

lemma guarded_frame:
  "guarded writes good F m G \<Longrightarrow> stable writes good H \<Longrightarrow>
   guarded writes good (\<lambda>s. F s \<and> H s) m (\<lambda>x s. G x s \<and> H s)"
  unfolding guarded_def using stable_run by meson

lemma guarded_keeps:
  "guarded writes good F m (\<lambda>_ _. True) \<Longrightarrow> stable writes good F \<Longrightarrow> guarded writes good F m (\<lambda>_. F)"
  unfolding guarded_def using stable_run by meson

lemma guarded_catching:
  assumes "guarded writes good F m G" "\<And>e. guarded writes good F (h e) G" "stable writes good F"
  shows "guarded writes good F (catching m h) G"
proof (rule guardedI)
  fix s r u
  assume s: "good s" "F s" and run: "catching m h s = (r, u)"
  obtain a t where m: "m s = (a, t)" by (cases "m s")
  note t = guardedD [OF assms(1) s m]
  show "writes\<^sup>*\<^sup>* s u \<and> (\<forall>x. r = Inr x \<longrightarrow> G x u)"
  proof (cases a)
    case (Inl e)
    with m run have h: "h e t = (r, u)" by (simp add: catching_def)
    have "good t" "F t" using t s good_run stable_run assms(3) by blast+
    then have "writes\<^sup>*\<^sup>* t u" "\<forall>x. r = Inr x \<longrightarrow> G x u" using guardedD [OF assms(2) _ _ h] by blast+
    with t show ?thesis by (meson rtranclp_trans)
  next
    case (Inr x)
    with m run t show ?thesis by (auto simp: catching_def)
  qed
qed

lemma guarded_ok: "guarded writes good F (ok x) (\<lambda>y s. y = x \<and> F s)"
  by (auto simp: guarded_def ok_def)

lemma guarded_throw: "guarded writes good F (throw e) G"
  by (auto simp: guarded_def throw_def)

lemma guarded_ensure: "guarded writes good F (ensure b e) (\<lambda>_ s. b \<and> F s)"
  by (auto simp: guarded_def ensure_def)

lemma guarded_lift: "guarded writes good F (lift r) (\<lambda>x s. r = Inr x \<and> F s)"
  by (auto simp: guarded_def lift_def)

lemma guarded_query: "guarded writes good F (query f) (\<lambda>x s. x = f s \<and> F s)"
  by (auto simp: guarded_def query_def)

lemma guarded_if:
  "(c \<Longrightarrow> guarded writes good F a G) \<Longrightarrow> (\<not> c \<Longrightarrow> guarded writes good F b G) \<Longrightarrow>
   guarded writes good F (if c then a else b) G"
  by simp

lemma guarded_option:
  "(opt = None \<Longrightarrow> guarded writes good F a G) \<Longrightarrow> (\<And>x. opt = Some x \<Longrightarrow> guarded writes good F (f x) G) \<Longrightarrow>
   guarded writes good F (case opt of None \<Rightarrow> a | Some x \<Rightarrow> f x) G"
  by (cases opt) auto

lemma guarded_assume:
  "(b \<Longrightarrow> guarded writes good F m G) \<Longrightarrow> guarded writes good (\<lambda>s. b \<and> F s) m G"
  unfolding guarded_def by blast

text \<open>Steps that only hand on the facts they are given.\<close>

lemma keep_ok: "guarded writes good F (ok x) (\<lambda>_. F)"
  and keep_throw: "guarded writes good F (throw e) (\<lambda>_. F)"
  and keep_ensure: "guarded writes good F (ensure b e) (\<lambda>_. F)"
  and keep_lift: "guarded writes good F (lift r) (\<lambda>_. F)"
  and keep_query: "guarded writes good F (query f) (\<lambda>_. F)"
  by (auto simp: guarded_def ok_def throw_def ensure_def lift_def query_def)

lemma keep_andThen:
  "guarded writes good F m (\<lambda>_. F) \<Longrightarrow> (\<And>x. guarded writes good F (f x) (\<lambda>_. F)) \<Longrightarrow>
   guarded writes good F (andThen m f) (\<lambda>_. F)"
  by (rule guarded_andThen)

lemma keep_option:
  "guarded writes good F a G \<Longrightarrow> (\<And>x. guarded writes good F (f x) G) \<Longrightarrow>
   guarded writes good F (case opt of None \<Rightarrow> a | Some x \<Rightarrow> f x) G"
  by (cases opt) auto

lemma keep_if: "guarded writes good F a G \<Longrightarrow> guarded writes good F b G \<Longrightarrow> guarded writes good F (if c then a else b) G"
  by simp

lemma keep_prod: "(\<And>x y. guarded writes good F (f x y) G) \<Longrightarrow> guarded writes good F (case p of (x, y) \<Rightarrow> f x y) G"
  by (cases p) auto

lemmas keep_rules = keep_ok keep_throw keep_ensure keep_lift keep_query keep_andThen keep_option keep_if keep_prod

lemma guarded_False: "guarded writes good (\<lambda>s. False) m G"
  by (simp add: guarded_def)

end

end
