(* ===== verification/InvoiceWrites.thy ===== *)
theory InvoiceWrites
  imports Invoice Interference IntentTheorems
begin

text \<open>
  What the methods of \<open>Invoice\<close> and of \<open>ExecutionIntent\<close> do to the tables of intents, invoices and
  payments together: \<open>settle_write\<close> has one rule per statement (the two database transactions of the
  invoice service are one statement each), \<open>settlement_ok\<close> is the invariant across the three tables,
  \<open>invoice_evolves\<close> and \<open>payment_evolves\<close> the preorders the rows move along.
\<close>

section \<open>The evidence of a settlement\<close>

definition settles :: "invoice \<Rightarrow> string \<Rightarrow> string \<Rightarrow> intent \<Rightarrow> bool" where
  "settles v h payer r \<longleftrightarrow>
     settled r \<and> transactionHash r = Some h \<and>
     operation r = settlement_operation (settlementKind v) \<and> externalReference r = publicId v \<and>
     amountUnits r = invoiceAmountUnits v \<and>
     toLowerCase (tokenOut r) = toLowerCase (tokenAddress v) \<and>
     map_option toLowerCase (recipient r) = Some (toLowerCase (merchantWalletAddress v)) \<and>
     toLowerCase (sourceWallet r) = toLowerCase payer"

definition new_payment :: "string \<Rightarrow> string \<Rightarrow> payment" where
  "new_payment i h =
     \<lparr>paymentInvoiceId = i, paymentHash = h, payerAddress = None, paymentStatus = PAY_VERIFYING,
      verifiedAt = None, rejectionCode = None\<rparr>"

definition verified_by :: "int \<Rightarrow> string \<Rightarrow> payment \<Rightarrow> payment" where
  "verified_by now payer p = p\<lparr>paymentStatus := PAY_VERIFIED, payerAddress := Some payer,
     verifiedAt := Some now, rejectionCode := None\<rparr>"

definition paid_at :: "int \<Rightarrow> invoice \<Rightarrow> invoice" where
  "paid_at now v = v\<lparr>invoiceStatus := INV_PAID, paidAt := Some now\<rparr>"

section \<open>The statements\<close>

inductive settle_write :: "db \<Rightarrow> db \<Rightarrow> bool" where
  sw_intent: "intent_write (intents s) T \<Longrightarrow> settle_write s (s\<lparr>intents := T\<rparr>)"
| sw_other:
    "intents t = intents s \<Longrightarrow> invoices t = invoices s \<Longrightarrow> payments t = payments s \<Longrightarrow> settle_write s t"
| sw_create:
    "invoiceStatus v = INV_OPEN \<Longrightarrow> invoices_unique (invoices s @ [v]) \<Longrightarrow>
     settle_write s (s\<lparr>invoices := invoices s @ [v]\<rparr>)"
| sw_expire:
    "settle_write s (s\<lparr>invoices := update_rows
       (\<lambda>v. p v \<and> invoiceStatus v = INV_OPEN \<and> (case expiresAt v of None \<Rightarrow> False | Some t \<Rightarrow> t \<le> now))
       (\<lambda>v. v\<lparr>invoiceStatus := INV_EXPIRED\<rparr>) (invoices s)\<rparr>)"
| sw_cancel:
    "settle_write s (s\<lparr>invoices := update_rows
       (\<lambda>v. invoiceId v = i \<and> merchantUserId v = m \<and> invoiceStatus v = INV_OPEN)
       (\<lambda>v. v\<lparr>invoiceStatus := INV_CANCELLED, cancelledAt := Some now\<rparr>) (invoices s)\<rparr>)"
| sw_lock:
    "v \<in> set (invoices s) \<Longrightarrow> invoiceId v = i \<Longrightarrow> invoiceStatus v = INV_OPEN \<Longrightarrow>
     payments_unique (payments s @ [new_payment i h]) \<Longrightarrow>
     settle_write s (s\<lparr>invoices := update_rows (\<lambda>v. invoiceId v = i \<and> invoiceStatus v = INV_OPEN)
         (\<lambda>v. v\<lparr>invoiceStatus := INV_VERIFYING\<rparr>) (invoices s),
       payments := payments s @ [new_payment i h]\<rparr>)"
| sw_settle:
    "v \<in> set (invoices s) \<Longrightarrow> q \<in> set (payments s) \<Longrightarrow> r \<in> set (intents s) \<Longrightarrow>
     invoiceId v = i \<Longrightarrow> paymentInvoiceId q = i \<Longrightarrow> paymentHash q = h \<Longrightarrow> settles v h payer r \<Longrightarrow>
     settle_write s (s\<lparr>
       payments := update_rows (pending_payment i h) (verified_by now payer) (payments s),
       invoices := update_rows (\<lambda>v. invoiceId v = i \<and> invoiceStatus v = INV_VERIFYING) (paid_at now)
         (invoices s)\<rparr>)"
| sw_retry:
    "settle_write s (s\<lparr>payments := update_rows (pending_payment i h)
       (\<lambda>p. p\<lparr>paymentStatus := PAY_VERIFYING, rejectionCode := None\<rparr>) (payments s)\<rparr>)"
| sw_reject:
    "settle_write s (s\<lparr>payments := update_rows (pending_payment i h)
       (\<lambda>p. p\<lparr>paymentStatus := PAY_REJECTED, rejectionCode := Some code\<rparr>) (payments s)\<rparr>)"

section \<open>The preorders on rows\<close>

definition invoice_terms :: "invoice \<Rightarrow> _" where
  "invoice_terms v =
     (invoiceId v, publicId v, merchantUserId v, merchantWalletAddress v, invoiceChainId v, tokenAddress v,
      tokenSymbol v, tokenDecimals v, invoiceAmountUnits v, title v, description v, invoiceNumber v,
      settlementKind v, expiresAt v)"

fun status_evolves :: "invoice_status \<Rightarrow> invoice_status \<Rightarrow> bool" where
  "status_evolves INV_OPEN b \<longleftrightarrow> True"
| "status_evolves INV_VERIFYING b \<longleftrightarrow> b = INV_VERIFYING \<or> b = INV_PAID"
| "status_evolves a b \<longleftrightarrow> a = b"

definition invoice_evolves :: "invoice \<Rightarrow> invoice \<Rightarrow> bool" where
  "invoice_evolves v w \<longleftrightarrow>
     invoice_terms w = invoice_terms v \<and> status_evolves (invoiceStatus v) (invoiceStatus w) \<and>
     (invoiceStatus v \<notin> {INV_OPEN, INV_VERIFYING} \<longrightarrow> w = v)"

definition payment_evolves :: "payment \<Rightarrow> payment \<Rightarrow> bool" where
  "payment_evolves p q \<longleftrightarrow>
     paymentInvoiceId q = paymentInvoiceId p \<and> paymentHash q = paymentHash p \<and>
     (paymentStatus p = PAY_VERIFIED \<longrightarrow> q = p)"

lemma status_evolves_refl [simp]: "status_evolves a a"
  by (cases a) simp_all

lemma status_evolves_trans: "status_evolves a b \<Longrightarrow> status_evolves b c \<Longrightarrow> status_evolves a c"
  by (cases a; cases b) auto

lemma status_evolves_final:
  "status_evolves a b \<Longrightarrow> b \<in> {INV_OPEN, INV_VERIFYING} \<Longrightarrow> a \<in> {INV_OPEN, INV_VERIFYING}"
  by (cases a) auto

lemma invoice_evolves_trans: "invoice_evolves u v \<Longrightarrow> invoice_evolves v w \<Longrightarrow> invoice_evolves u w"
  unfolding invoice_evolves_def by (auto intro: status_evolves_trans)

interpretation invoice_rows: row_evolution invoiceId invoice_evolves
  by unfold_locales
    (simp add: invoice_evolves_def, blast intro: invoice_evolves_trans,
     simp add: invoice_evolves_def invoice_terms_def)

interpretation payment_rows: row_evolution paymentInvoiceId payment_evolves
  by unfold_locales (auto simp: payment_evolves_def)

lemmas settle_evolve_defs = invoice_evolves_def payment_evolves_def invoice_terms_def pending_payment_def
  verified_by_def paid_at_def

lemma table_evolves_same [simp]:
  "table_evolves intent_evolves T T" "table_evolves invoice_evolves V V" "table_evolves payment_evolves P P"
  using intent_rows.table_refl invoice_rows.table_refl payment_rows.table_refl by (auto simp: reflp_def)

lemma settle_write_evolves:
  assumes "settle_write s t"
  shows "table_evolves intent_evolves (intents s) (intents t)"
    and "table_evolves invoice_evolves (invoices s) (invoices t)"
    and "table_evolves payment_evolves (payments s) (payments t)"
proof -
  show "table_evolves intent_evolves (intents s) (intents t)"
    using assms by cases (auto intro: intent_write_evolves)
  show "table_evolves invoice_evolves (invoices s) (invoices t)"
    using assms
    by cases (auto intro!: invoice_rows.table_append invoice_rows.table_update simp: settle_evolve_defs)
  show "table_evolves payment_evolves (payments s) (payments t)"
    using assms
    by cases (auto intro!: payment_rows.table_append payment_rows.table_update simp: settle_evolve_defs)
qed

section \<open>The invariant\<close>

definition invoice_fits :: "intent list \<Rightarrow> payment option \<Rightarrow> invoice \<Rightarrow> bool" where
  "invoice_fits T found v \<longleftrightarrow>
     (case found of
        None \<Rightarrow> invoiceStatus v \<notin> {INV_VERIFYING, INV_PAID}
      | Some p \<Rightarrow> invoiceStatus v \<in> {INV_VERIFYING, INV_PAID} \<and>
          (invoiceStatus v = INV_PAID \<longleftrightarrow> paymentStatus p = PAY_VERIFIED) \<and>
          (paymentStatus p = PAY_VERIFIED \<longrightarrow>
             (\<exists>payer. payerAddress p = Some payer \<and> (\<exists>r\<in>set T. settles v (paymentHash p) payer r))))"

definition settlement_ok :: "db \<Rightarrow> bool" where
  "settlement_ok s \<longleftrightarrow>
     intents_ok (intents s) \<and> invoices_unique (invoices s) \<and> payments_unique (payments s) \<and>
     paymentInvoiceId ` set (payments s) \<subseteq> invoiceId ` set (invoices s) \<and>
     (\<forall>v\<in>set (invoices s). invoice_fits (intents s) (payment_of v s) v)"

lemma settles_evolves: "settles v h payer r \<Longrightarrow> intent_evolves r r' \<Longrightarrow> settles v h payer r'"
  by (auto simp: settles_def intent_evolves_def fixed_columns_def)

lemma settles_terms: "invoice_terms w = invoice_terms v \<Longrightarrow> settles w h payer r = settles v h payer r"
  by (simp add: settles_def invoice_terms_def)

lemma fits_intents:
  assumes "invoice_fits T found v" "table_evolves intent_evolves T U"
  shows "invoice_fits U found v"
proof -
  define proof_in where "proof_in h payer V = (\<exists>r\<in>set V. settles v h payer r)" for h payer and V :: "intent list"
  have mono: "proof_in h payer U" if "proof_in h payer T" for h payer
    using that table_evolves_member [OF assms(2)] settles_evolves unfolding proof_in_def by blast
  show ?thesis
    using assms(1) mono unfolding invoice_fits_def proof_in_def [symmetric] by (auto split: option.splits)
qed

lemma unique_ids:
  "invoices_unique T \<Longrightarrow> v \<in> set T \<Longrightarrow> w \<in> set T \<Longrightarrow> invoiceId v = invoiceId w \<Longrightarrow> v = w"
  by (simp add: invoices_unique_def distinct_map inj_on_def)

lemma unique_publicIds:
  "invoices_unique T \<Longrightarrow> v \<in> set T \<Longrightarrow> w \<in> set T \<Longrightarrow> publicId v = publicId w \<Longrightarrow> v = w"
  by (simp add: invoices_unique_def distinct_map inj_on_def)

lemma unique_payments:
  "payments_unique T \<Longrightarrow> p \<in> set T \<Longrightarrow> q \<in> set T \<Longrightarrow> paymentInvoiceId p = paymentInvoiceId q \<Longrightarrow> p = q"
  by (simp add: payments_unique_def distinct_map inj_on_def)

lemma payment_of_member:
  "payments_unique (payments s) \<Longrightarrow> p \<in> set (payments s) \<Longrightarrow> paymentInvoiceId p = invoiceId v \<Longrightarrow>
   payment_of v s = Some p"
  unfolding payment_of_def payments_unique_def by (blast intro: find_row_unique)

lemma payment_of_Some: "payment_of v s = Some p \<Longrightarrow> p \<in> set (payments s) \<and> paymentInvoiceId p = invoiceId v"
  unfolding payment_of_def by (rule find_row_Some)

text \<open>Statements that change invoices only.\<close>

lemma update_invoices_ok:
  assumes "settlement_ok s"
    and "\<And>v. v \<in> set (invoices s) \<Longrightarrow> P v \<Longrightarrow> invoice_terms (f v) = invoice_terms v"
    and "\<And>v. v \<in> set (invoices s) \<Longrightarrow> P v \<Longrightarrow> invoice_fits (intents s) (payment_of v s) v \<Longrightarrow>
           invoice_fits (intents s) (payment_of v s) (f v)"
  shows "settlement_ok (s\<lparr>invoices := update_rows P f (invoices s)\<rparr>)"
proof -
  let ?T = "update_rows P f (invoices s)"
  have eq: "invoiceId (f v) = invoiceId v" "publicId (f v) = publicId v" if "v \<in> set (invoices s)" "P v" for v
    using assms(2) [OF that] by (simp_all add: invoice_terms_def)
  have cols: "map invoiceId ?T = map invoiceId (invoices s)" "map publicId ?T = map publicId (invoices s)"
    using eq by (auto simp: update_rows_def)
  then have ids: "invoiceId ` set ?T = invoiceId ` set (invoices s)" by (metis list.set_map)
  have "invoice_fits (intents s) (payment_of w (s\<lparr>invoices := ?T\<rparr>)) w" if w: "w \<in> set ?T" for w
  proof -
    obtain v where v: "v \<in> set (invoices s)" "w = (if P v then f v else v)"
      using w by (auto simp: update_rows_def)
    have "payment_of w (s\<lparr>invoices := ?T\<rparr>) = payment_of v s" using v eq by (simp add: payment_of_def)
    with v assms(1,3) show ?thesis by (simp add: settlement_ok_def)
  qed
  with assms(1) cols ids show ?thesis by (simp add: settlement_ok_def invoices_unique_def)
qed

text \<open>Statements that change a payment that is not verified, and leave it so.\<close>

lemma update_payments_ok:
  assumes "settlement_ok s"
    and "\<And>p. P p \<Longrightarrow> paymentInvoiceId (f p) = paymentInvoiceId p \<and> paymentHash (f p) = paymentHash p"
    and "\<And>p. P p \<Longrightarrow> paymentStatus p \<noteq> PAY_VERIFIED \<and> paymentStatus (f p) \<noteq> PAY_VERIFIED"
  shows "settlement_ok (s\<lparr>payments := update_rows P f (payments s)\<rparr>)"
proof -
  let ?T = "update_rows P f (payments s)"
  have cols: "map paymentInvoiceId ?T = map paymentInvoiceId (payments s)"
    "map paymentHash ?T = map paymentHash (payments s)"
    using assms(2) by simp_all
  then have ids: "paymentInvoiceId ` set ?T = paymentInvoiceId ` set (payments s)" by (metis list.set_map)
  have "invoice_fits (intents s) (payment_of v (s\<lparr>payments := ?T\<rparr>)) v" if v: "v \<in> set (invoices s)" for v
  proof -
    have "payment_of v (s\<lparr>payments := ?T\<rparr>) = map_option (\<lambda>p. if P p then f p else p) (payment_of v s)"
      using assms(2) by (simp add: payment_of_def find_update)
    moreover have "invoice_fits (intents s) (payment_of v s) v"
      using assms(1) v by (simp add: settlement_ok_def)
    ultimately show ?thesis
      using assms(3) by (cases "payment_of v s") (auto simp: invoice_fits_def)
  qed
  with assms(1) cols ids show ?thesis by (simp add: settlement_ok_def payments_unique_def)
qed

lemma fits_open: "invoice_fits T found v \<Longrightarrow> invoiceStatus v = INV_OPEN \<Longrightarrow> found = None"
  by (cases found) (auto simp: invoice_fits_def)

lemma intent_write_ok:
  assumes "settlement_ok s" "intent_write (intents s) T"
  shows "settlement_ok (s\<lparr>intents := T\<rparr>)"
  using assms intents_ok_write [OF assms(2)] fits_intents [OF _ intent_write_evolves [OF assms(2)]]
  by (simp add: settlement_ok_def payment_of_def)

lemma create_ok:
  assumes ok: "settlement_ok s" and v: "invoiceStatus v = INV_OPEN" "invoices_unique (invoices s @ [v])"
  shows "settlement_ok (s\<lparr>invoices := invoices s @ [v]\<rparr>)"
proof -
  have "invoiceId v \<notin> invoiceId ` set (invoices s)" using v(2) by (auto simp: invoices_unique_def)
  then have "invoiceId v \<notin> paymentInvoiceId ` set (payments s)" using ok by (auto simp: settlement_ok_def)
  then have "payment_of v s = None" using payment_of_Some [of v s] by (metis image_eqI not_Some_eq)
  then have "invoice_fits (intents s) (payment_of v s) v" using v(1) by (simp add: invoice_fits_def)
  with ok v(2) show ?thesis by (auto simp: settlement_ok_def payment_of_def)
qed

lemma lock_ok:
  assumes ok: "settlement_ok s" and v: "v \<in> set (invoices s)" "invoiceId v = i" "invoiceStatus v = INV_OPEN"
    and uniq: "payments_unique (payments s @ [new_payment i h])"
  shows "settlement_ok (s\<lparr>invoices := update_rows (\<lambda>v. invoiceId v = i \<and> invoiceStatus v = INV_OPEN)
         (\<lambda>v. v\<lparr>invoiceStatus := INV_VERIFYING\<rparr>) (invoices s),
       payments := payments s @ [new_payment i h]\<rparr>)" (is "settlement_ok ?t")
proof -
  have fits: "invoice_fits (intents s) (payment_of w s) w" if "w \<in> set (invoices s)" for w
    using ok that by (simp add: settlement_ok_def)
  have cols: "map invoiceId (invoices ?t) = map invoiceId (invoices s)"
    "map publicId (invoices ?t) = map publicId (invoices s)" by simp_all
  then have ids: "invoiceId ` set (invoices ?t) = invoiceId ` set (invoices s)" by (metis list.set_map)
  have "invoice_fits (intents ?t) (payment_of w ?t) w" if w: "w \<in> set (invoices ?t)" for w
  proof -
    obtain u where u: "u \<in> set (invoices s)"
      "w = (if invoiceId u = i \<and> invoiceStatus u = INV_OPEN then u\<lparr>invoiceStatus := INV_VERIFYING\<rparr> else u)"
      using w by (auto simp: update_rows_def)
    then have found: "payment_of w ?t =
        (case payment_of u s of None \<Rightarrow> if i = invoiceId u then Some (new_payment i h) else None | Some p \<Rightarrow> Some p)"
      by (simp add: payment_of_def find_row_append new_payment_def split: option.splits)
    show ?thesis
    proof (cases "invoiceId u = i")
      case True
      then have "u = v" using ok u(1) v unique_ids [of "invoices s"] by (simp add: settlement_ok_def)
      with u found fits_open [OF fits [OF v(1)] v(3)] v show ?thesis
        by (simp add: invoice_fits_def new_payment_def)
    next
      case False
      with u found fits [OF u(1)] show ?thesis by (cases "payment_of u s") simp_all
    qed
  qed
  with ok uniq cols ids v show ?thesis
    by (auto simp: settlement_ok_def invoices_unique_def new_payment_def)
qed

lemma settle_ok:
  assumes ok: "settlement_ok s" and v: "v \<in> set (invoices s)" "invoiceId v = i"
    and q: "q \<in> set (payments s)" "paymentInvoiceId q = i" "paymentHash q = h"
    and r: "r \<in> set (intents s)" "settles v h payer r"
  shows "settlement_ok (s\<lparr>
       payments := update_rows (pending_payment i h) (verified_by now payer) (payments s),
       invoices := update_rows (\<lambda>v. invoiceId v = i \<and> invoiceStatus v = INV_VERIFYING) (paid_at now)
         (invoices s)\<rparr>)" (is "settlement_ok ?t")
proof -
  have fits: "invoice_fits (intents s) (payment_of w s) w" if "w \<in> set (invoices s)" for w
    using ok that by (simp add: settlement_ok_def)
  have icols: "map invoiceId (invoices ?t) = map invoiceId (invoices s)"
    "map publicId (invoices ?t) = map publicId (invoices s)"
    by (simp_all add: paid_at_def)
  have pcols: "map paymentInvoiceId (payments ?t) = map paymentInvoiceId (payments s)"
    "map paymentHash (payments ?t) = map paymentHash (payments s)"
    by (simp_all add: verified_by_def)
  have ids: "invoiceId ` set (invoices ?t) = invoiceId ` set (invoices s)"
    "paymentInvoiceId ` set (payments ?t) = paymentInvoiceId ` set (payments s)"
    using icols pcols by (metis list.set_map)+
  have "invoice_fits (intents ?t) (payment_of w ?t) w" if w: "w \<in> set (invoices ?t)" for w
  proof -
    obtain u where u: "u \<in> set (invoices s)"
      "w = (if invoiceId u = i \<and> invoiceStatus u = INV_VERIFYING then paid_at now u else u)"
      using w by (auto simp: update_rows_def)
    then have found: "payment_of w ?t =
        map_option (\<lambda>p. if pending_payment i h p then verified_by now payer p else p) (payment_of u s)"
      by (simp add: payment_of_def find_update verified_by_def paid_at_def)
    show ?thesis
    proof (cases "invoiceId u = i")
      case True
      then have uv: "u = v" using ok u(1) v unique_ids [of "invoices s"] by (simp add: settlement_ok_def)
      have qu: "payment_of u s = Some q"
        using ok q True by (intro payment_of_member) (simp_all add: settlement_ok_def)
      have fu: "invoice_fits (intents s) (Some q) u" using fits [OF u(1)] qu by simp
      show ?thesis
      proof (cases "paymentStatus q = PAY_VERIFIED")
        case True
        with fu u(2) found qu show ?thesis by (auto simp: invoice_fits_def pending_payment_def)
      next
        case False
        then have pending: "pending_payment i h q" using q by (cases "paymentStatus q") (auto simp: pending_payment_def)
        have "invoiceStatus u = INV_VERIFYING" using fu False by (auto simp: invoice_fits_def)
        then have w': "w = paid_at now u" using u(2) True by simp
        have "settles w h payer r" using r(2) uv w' by (simp add: settles_def paid_at_def)
        with r(1) q(3) w' found qu pending show ?thesis
          by (auto simp: invoice_fits_def paid_at_def verified_by_def)
      qed
    next
      case False
      then have "\<not> pending_payment i h p" if "payment_of u s = Some p" for p
        using payment_of_Some [OF that] by (auto simp: pending_payment_def)
      with False u found fits [OF u(1)] show ?thesis by (cases "payment_of u s") simp_all
    qed
  qed
  with ok icols pcols ids show ?thesis
    by (simp add: settlement_ok_def invoices_unique_def payments_unique_def)
qed

lemma settle_write_ok: "settle_write s t \<Longrightarrow> settlement_ok s \<Longrightarrow> settlement_ok t"
proof (induction rule: settle_write.induct)
  case (sw_expire s p now)
  then show ?case
    by (intro update_invoices_ok) (auto simp: invoice_terms_def invoice_fits_def split: option.splits)
next
  case (sw_cancel s i m now)
  then show ?case
    by (intro update_invoices_ok) (auto simp: invoice_terms_def invoice_fits_def split: option.splits)
next
  case (sw_retry s i h)
  then show ?case by (intro update_payments_ok) (auto simp: pending_payment_def)
next
  case (sw_reject s i h code)
  then show ?case by (intro update_payments_ok) (auto simp: pending_payment_def)
next
  case (sw_other t s)
  then show ?case by (simp add: settlement_ok_def payment_of_def)
qed (blast intro: intent_write_ok create_ok lock_ok settle_ok)+

interpretation settlement: interference settle_write settlement_ok
  by unfold_locales (rule settle_write_ok)

end
