(* ===== verification/IntentFrame.thy ===== *)
theory IntentFrame
  imports IntentProperties
begin

text \<open>
  The methods of the intent service write to the table of intents and to no other table; what runs
  between them on other tables does not concern the intents.
\<close>

definition intents_only :: "db \<Rightarrow> db \<Rightarrow> bool" where
  "intents_only s t \<longleftrightarrow> invoices t = invoices s \<and> payments t = payments s \<and> bridges t = bridges s \<and>
     tasks t = tasks s \<and> units t = units s \<and> logs t = logs s \<and> transactions t = transactions s"

lemma intents_only_refl: "reflp intents_only"
  by (simp add: reflp_def intents_only_def)

lemma intents_only_trans: "transp intents_only"
  by (simp add: transp_def intents_only_def)

lemmas only_rules =
  keeps_ok [OF intents_only_refl] keeps_throw [OF intents_only_refl] keeps_query [OF intents_only_refl]
  keeps_ensure [OF intents_only_refl] keeps_lift [OF intents_only_refl] keeps_andThen [OF intents_only_trans]
  keeps_catching [OF intents_only_trans] keeps_transaction [OF intents_only_refl] keeps_split

lemma only_onIntents: "keeps intents_only (onIntents m)"
  by (auto simp: keeps_def intents_only_def onIntents_def split: prod.splits)

lemma only_update: "keeps intents_only (updateIntents p f)"
  unfolding updateIntents_def by (rule only_onIntents)

lemma only_find: "keeps intents_only (findIntent p)"
  unfolding findIntent_def by (intro only_rules)

lemma only_network: "keeps intents_only (assertSelectedNetwork R r)"
  unfolding assertSelectedNetwork_def by (intro only_rules)

lemma only_get: "keeps intents_only (getIntent R i)"
  unfolding getIntent_def by (intro only_rules only_find only_network)

lemma only_getByHash: "keeps intents_only (getByTransactionHash R h)"
  unfolding getByTransactionHash_def by (intro only_rules only_find only_network)

lemma only_access: "keeps intents_only (assertAccess R i key)"
  unfolding assertAccess_def by (intro only_rules only_get)

lemma only_transition: "keeps intents_only (transition R now i expected nxt d)"
  unfolding transition_def by (intro only_rules only_update only_get)

lemma only_begin: "keeps intents_only (beginVerification R now i)"
  unfolding beginVerification_def by (intro only_rules only_get only_transition)

lemma only_attach: "keeps intents_only (attachTask R i t)"
  unfolding attachTask_def by (intro only_rules only_get only_update)

lemma only_lease: "keeps intents_only (acquireLease R now i owner ttl)"
  unfolding acquireLease_def by (intro only_rules only_get only_update)

lemma only_assertLease: "keeps intents_only (assertLease R now i owner)"
  unfolding assertLease_def by (intro only_rules only_get)

lemma only_prepare: "keeps intents_only (prepareWalletSignature R now i key owner ttl)"
  unfolding prepareWalletSignature_def
  by (intro only_rules only_get only_access only_lease only_transition)

lemma only_context: "keeps intents_only (bindImmutableExecutionContext E R i x)"
  unfolding bindImmutableExecutionContext_def by (intro only_rules only_get only_update)

lemma only_circle: "keeps intents_only (bindCircleCorrelation R i ch tx)"
  unfolding bindCircleCorrelation_def by (intro only_rules only_get only_update)

lemma only_cancel: "keeps intents_only (cancelUnsubmitted R i key)"
  unfolding cancelUnsubmitted_def by (intro only_rules only_get only_access only_update)

lemma only_complete: "keeps intents_only (completeWithVerifiedReceipt E R now i rc)"
  unfolding completeWithVerifiedReceipt_def by (intro only_rules only_get only_transition)

lemma only_verify: "keeps intents_only (verifyEndpoint E R now receipts i key)"
  unfolding verifyEndpoint_def by (intro only_rules only_access only_begin only_complete)

lemma only_interfere_id: "keeps intents_only (interfere id)"
  by (simp add: keeps_def interfere_def intents_only_def)

lemma only_acquireTx: "keeps intents_only (acquireTx E R now fresh c)"
  unfolding acquireTx_def by (intro only_rules only_find only_onIntents)

lemma only_acquireLoop:
  "list_all (\<lambda>a. a = undisturbed) as \<Longrightarrow> keeps intents_only (acquireLoop E R now fresh c as)"
proof (induction as)
  case Nil
  show ?case by (simp add: keeps_ok intents_only_refl)
next
  case (Cons a as)
  then have a: "before a = id" "after a = id" by (simp_all add: undisturbed_def)
  with Cons show ?case
    by (simp only: acquireLoop.simps list.pred_inject a)
      (intro only_rules only_acquireTx only_find only_interfere_id; simp)
qed

lemma only_acquire: "keeps intents_only (acquire E R now fresh (\<lambda>_. undisturbed) x)"
  unfolding acquire_def by (intro only_rules only_network only_acquireLoop) simp_all

lemma only_bindAttempt:
  "keeps intents_only (interfere others) \<Longrightarrow> keeps intents_only (bindHashAttempt R now others i h owner recovery)"
  unfolding bindHashAttempt_def by (intro only_rules only_get only_assertLease only_update)

lemma only_bind:
  assumes "\<And>n. keeps intents_only (interfere (others n))"
    "bindTransactionHash R now others n i h owner recovery s = Some (r, t)"
  shows "intents_only s t"
  using assms(2)
proof (induction n arbitrary: h s)
  case 0
  then show ?case by simp
next
  case (Suc n)
  obtain res u where a: "bindHashAttempt R now (others n) i h owner recovery s = (res, u)"
    by (cases "bindHashAttempt R now (others n) i h owner recovery s")
  then have su: "intents_only s u" using keepsD [OF only_bindAttempt [OF assms(1)]] by blast
  show ?case
  proof (cases res)
    case (Inl e)
    with a su Suc.prems show ?thesis by simp
  next
    case (Inr found)
    with a su Suc show ?thesis
      by (cases found) (auto intro: transpD [OF intents_only_trans])
  qed
qed

lemma only_bindOp: "keeps intents_only (bindHashOp R now i h owner recovery)"
proof (rule keepsI)
  fix s r t
  assume "bindHashOp R now i h owner recovery s = (r, t)"
  then show "intents_only s t"
    using only_bind [of "\<lambda>_. id" R now 2 i h owner recovery s, OF only_interfere_id] intents_only_refl
    by (auto simp: bindHashOp_def reflp_def split: option.splits)
qed

lemma only_bindKnown: "keeps intents_only (bindKnownTransactionHash R now i key h)"
  unfolding bindKnownTransactionHash_def by (intro only_rules only_get only_access only_bindOp)

lemma only_bindEndpoint: "keeps intents_only (bindHashEndpoint R now i key h owner)"
  unfolding bindHashEndpoint_def by (intro only_rules only_access only_bindOp)

lemma only_call: "intents_only s (call E R W c s)"
proof (cases c)
  case (Pair now k)
  show ?thesis
  proof (cases k)
    case (Transition i a b d)
    then show ?thesis
      by (cases "b = COMPLETED")
        (simp_all add: Pair keeps_outcome only_transition reflpD [OF intents_only_refl])
  qed (auto simp: Pair intro!: keeps_outcome only_acquire only_begin only_attach only_prepare
      only_lease only_context only_circle only_bindEndpoint only_bindKnown only_cancel only_complete only_verify)
qed

end
