(* ===== verification/InvoiceRuns.thy ===== *)
theory InvoiceRuns
  imports InvoiceWrites IntentFrame
begin

text \<open>
  Every method of the invoice service, and every method of the intent service, sends only statements of
  \<open>settle_write\<close>, whatever other requests do between its statements.  The facts a method relies on later
  are rows it has read (\<open>known\<close>), which no statement can take back.
\<close>

abbreviation settle_run :: "db \<Rightarrow> db \<Rightarrow> bool" where
  "settle_run \<equiv> settle_write\<^sup>*\<^sup>*"

abbreviation settle_guarded :: "(db \<Rightarrow> bool) \<Rightarrow> (db, 'a) op \<Rightarrow> ('a \<Rightarrow> db \<Rightarrow> bool) \<Rightarrow> bool" where
  "settle_guarded \<equiv> guarded settle_write settlement_ok"

abbreviation settle_stable :: "(db \<Rightarrow> bool) \<Rightarrow> bool" where
  "settle_stable \<equiv> stable settle_write settlement_ok"

abbreviation colleague :: "(db \<Rightarrow> db) \<Rightarrow> bool" where
  "colleague \<equiv> bystander settle_write settlement_ok"

abbreviation known_intent :: "intent \<Rightarrow> db \<Rightarrow> bool" where
  "known_intent \<equiv> known intents intent_evolves"

abbreviation known_invoice :: "invoice \<Rightarrow> db \<Rightarrow> bool" where
  "known_invoice \<equiv> known invoices invoice_evolves"

abbreviation known_payment :: "payment \<Rightarrow> db \<Rightarrow> bool" where
  "known_payment \<equiv> known payments payment_evolves"

lemma stable_known:
  "settle_stable (known_intent r)" "settle_stable (known_invoice v)" "settle_stable (known_payment p)"
  unfolding stable_def
  by (blast intro: intent_rows.known_evolves invoice_rows.known_evolves payment_rows.known_evolves
      dest: settle_write_evolves)+

lemmas settle_stable_rules = stable_known settlement.stable_conj settlement.stable_const

section \<open>Methods of the intent service\<close>

text \<open>A run over the table of intents that leaves the other two alone is a run of the three tables.\<close>

lemma intents_run_settle:
  assumes "intent_write\<^sup>*\<^sup>* (intents s) (intents t)" "intents_only s t"
  shows "settle_run s t"
proof -
  have "settle_run s (s\<lparr>intents := T\<rparr>)" if "intent_write\<^sup>*\<^sup>* (intents s) T" for T
    using that
  proof (induction rule: rtranclp_induct)
    case base
    show ?case by simp
  next
    case (step T U)
    have "settle_write (s\<lparr>intents := T\<rparr>) (s\<lparr>intents := T\<rparr>\<lparr>intents := U\<rparr>)"
      using step(2) by (intro sw_intent) simp
    with step(3) show ?case by simp
  qed
  then have "settle_run s (s\<lparr>intents := intents t\<rparr>)" using assms(1) by blast
  moreover have "settle_write (s\<lparr>intents := intents t\<rparr>) t"
    using assms(2) by (intro sw_other) (simp_all add: intents_only_def)
  ultimately show ?thesis by simp
qed

lemma settle_intents:
  assumes "keeps intent_run m" "keeps intents_only m" "settle_stable F"
  shows "settle_guarded F m (\<lambda>_. F)"
proof -
  have "settle_guarded F m (\<lambda>_ _. True)"
    using keepsD [OF assms(1)] keepsD [OF assms(2)]
    by (intro settlement.guardedI) (auto simp: via_def intro: intents_run_settle)
  then show ?thesis by (rule settlement.guarded_keeps) (rule assms(3))
qed

section \<open>Statements of the invoice service\<close>

lemma settle_colleague:
  assumes "colleague f" "settle_stable F"
  shows "settle_guarded F (interfere f) (\<lambda>_. F)"
proof -
  have "settle_guarded F (interfere f) (\<lambda>_ _. True)"
    using assms(1) by (auto simp: guarded_def bystander_def interfere_def)
  then show ?thesis by (rule settlement.guarded_keeps) (rule assms(2))
qed

lemma settle_expire: "settle_stable F \<Longrightarrow> settle_guarded F (expireOpenInvoices now p) (\<lambda>_. F)"
  by (rule settlement.guarded_keeps)
    (auto simp: guarded_def expireOpenInvoices_def onInvoices_def updateMany_def
      intro!: r_into_rtranclp sw_expire)

definition read_invoice :: "(invoice \<Rightarrow> bool) \<Rightarrow> (invoice \<times> payment option) option \<Rightarrow> db \<Rightarrow> bool" where
  "read_invoice p found s \<longleftrightarrow>
     (case found of
        None \<Rightarrow> True
      | Some (v, q) \<Rightarrow> p v \<and> known_invoice v s \<and>
          (case q of None \<Rightarrow> True | Some x \<Rightarrow> paymentInvoiceId x = invoiceId v \<and> known_payment x s))"

lemma stable_read: "settle_stable (read_invoice p found)"
  unfolding read_invoice_def
  by (cases found; cases "snd (the found)")
    (auto intro!: settle_stable_rules simp: settlement.stable_const)

lemma settle_find:
  assumes "settle_stable F"
  shows "settle_guarded F (findInvoice p) (\<lambda>found s. read_invoice p found s \<and> F s)"
proof (rule settlement.guardedI)
  fix s r t
  assume s: "F s" and run: "findInvoice p s = (r, t)"
  then have t: "t = s" "r = Inr (map_option (\<lambda>v. (v, payment_of v s)) (find_row p (invoices s)))"
    by (auto simp: findInvoice_def query_def)
  have "read_invoice p (map_option (\<lambda>v. (v, payment_of v s)) (find_row p (invoices s))) s"
    by (auto simp: read_invoice_def split: option.split
        dest!: find_row_Some payment_of_Some intro: invoice_rows.known_read payment_rows.known_read)
  with s t show "settle_run s t \<and> (\<forall>x. r = Inr x \<longrightarrow> read_invoice p x t \<and> F t)" by simp
qed

lemma lockInvoice_cases:
  assumes "settlement_ok s" "lockInvoice i h s = (r, t)"
  shows "(\<exists>e. r = Inl e \<and> t = s) \<or>
    (r = Inr () \<and> settle_write s t \<and> new_payment i h \<in> set (payments t))"
proof -
  let ?P = "\<lambda>v. invoiceId v = i \<and> invoiceStatus v = INV_OPEN"
  let ?t = "s\<lparr>invoices := update_rows ?P (\<lambda>v. v\<lparr>invoiceStatus := INV_VERIFYING\<rparr>) (invoices s)\<rparr>"
  let ?u = "?t\<lparr>payments := payments s @ [new_payment i h]\<rparr>"
  have eq: "lockInvoice i h s =
      (if count_rows ?P (invoices s) \<noteq> 1 then (Inl NOT_OPEN, s)
       else if payments_unique (payments s @ [new_payment i h]) then (Inr (), ?u) else (Inl (DbError ''P2002''), s))"
    by (simp add: lockInvoice_def op_defs onInvoices_def onPayments_def updateMany_def insertUnique_def new_payment_def)
  show ?thesis
  proof (cases "count_rows ?P (invoices s) = 1 \<and> payments_unique (payments s @ [new_payment i h])")
    case True
    then obtain v where "v \<in> set (invoices s)" "invoiceId v = i" "invoiceStatus v = INV_OPEN"
      using count_zero [of ?P "invoices s"] by auto
    then have "settle_write s ?u" using True by (intro sw_lock) auto
    with True eq assms(2) show ?thesis by auto
  next
    case False
    with eq assms(2) show ?thesis by (auto split: if_splits)
  qed
qed

lemma settle_lock:
  assumes "settle_stable F"
  shows "settle_guarded F (lockInvoice i h) (\<lambda>_ s. known_payment (new_payment i h) s \<and> F s)"
proof (rule settlement.guardedI)
  fix s r t
  assume s: "settlement_ok s" "F s" and run: "lockInvoice i h s = (r, t)"
  show "settle_run s t \<and> (\<forall>x. r = Inr x \<longrightarrow> known_payment (new_payment i h) t \<and> F t)"
    using lockInvoice_cases [OF s(1) run]
  proof (elim disjE exE conjE)
    fix e
    assume "r = Inl e" "t = s"
    then show ?thesis by simp
  next
    assume w: "settle_write s t" and p: "new_payment i h \<in> set (payments t)"
    moreover from w have "settle_run s t" by simp
    ultimately show ?thesis
      using settlement.stable_run [of s t F] assms s by (auto intro: payment_rows.known_read)
  qed
qed

lemma settleInvoice_eq:
  "settleInvoice now i h payer s =
     (Inr (), s\<lparr>payments := update_rows (pending_payment i h) (verified_by now payer) (payments s),
        invoices := update_rows (\<lambda>v. invoiceId v = i \<and> invoiceStatus v = INV_VERIFYING) (paid_at now)
          (invoices s)\<rparr>)"
  by (simp add: settleInvoice_def op_defs onInvoices_def onPayments_def updateMany_def paid_at_def [abs_def]
      verified_by_def [abs_def])

lemma settle_fail: "settle_stable F \<Longrightarrow> settle_guarded F (failPayment i h e) G"
proof -
  assume F: "settle_stable F"
  have w: "settle_guarded F (onPayments (updateMany (pending_payment i h) f)) (\<lambda>_. F)"
    if "\<And>s. settle_write s (s\<lparr>payments := update_rows (pending_payment i h) f (payments s)\<rparr>)" for f
    using that
    by (intro settlement.guarded_keeps [OF _ F])
      (auto simp: guarded_def onPayments_def updateMany_def intro: r_into_rtranclp)
  show ?thesis
    unfolding failPayment_def
    by (cases e)
      (auto intro!: settlement.guarded_throw settlement.guarded_andThen [OF w] intro: sw_retry sw_reject)
qed

lemma settle_find_keep: "settle_stable F \<Longrightarrow> settle_guarded F (findInvoice p) (\<lambda>_. F)"
  unfolding findInvoice_def by (rule settlement.keep_query)

lemma settle_public: "settle_stable F \<Longrightarrow> settle_guarded F (getPublic V now pid) (\<lambda>_. F)"
  unfolding getPublic_def assertPublicId_def
  by (intro settlement.keep_rules settle_expire settle_find_keep)

section \<open>Verification under interference\<close>

definition bound_payment :: "string \<Rightarrow> string \<Rightarrow> db \<Rightarrow> bool" where
  "bound_payment i h s \<longleftrightarrow>
     (\<exists>q\<in>set (payments s). paymentInvoiceId q = i \<and> paymentHash q = h)"

definition paid_with :: "string \<Rightarrow> string \<Rightarrow> db \<Rightarrow> bool" where
  "paid_with pid h s \<longleftrightarrow>
     (\<exists>v\<in>set (invoices s). \<exists>p\<in>set (payments s).
        publicId v = pid \<and> invoiceStatus v = INV_PAID \<and> paymentInvoiceId p = invoiceId v \<and>
        paymentHash p = h \<and> paymentStatus p = PAY_VERIFIED)"

lemma stable_bound: "settle_stable (bound_payment i h)"
  unfolding stable_def bound_payment_def
  by (metis payment_evolves_def settle_write_evolves(3) table_evolves_member)

lemma stable_paid: "settle_stable (paid_with pid h)"
  unfolding stable_def
proof (intro allI impI)
  fix s t
  assume "paid_with pid h s" and w: "settle_write s t"
  then obtain v p where vp: "v \<in> set (invoices s)" "p \<in> set (payments s)" "publicId v = pid"
    "invoiceStatus v = INV_PAID" "paymentInvoiceId p = invoiceId v" "paymentHash p = h"
    "paymentStatus p = PAY_VERIFIED"
    by (auto simp: paid_with_def)
  obtain v' where "v' \<in> set (invoices t)" "invoice_evolves v v'"
    using table_evolves_member [OF settle_write_evolves(2) [OF w] vp(1)] by blast
  moreover obtain p' where "p' \<in> set (payments t)" "payment_evolves p p'"
    using table_evolves_member [OF settle_write_evolves(3) [OF w] vp(2)] by blast
  moreover from calculation vp have "v' = v" "p' = p" by (simp_all add: invoice_evolves_def payment_evolves_def)
  ultimately show "paid_with pid h t" using vp unfolding paid_with_def by blast
qed

lemmas settle_facts = settle_stable_rules stable_bound stable_paid stable_read

text \<open>Two reads of the invoice with one public id are reads of one row.\<close>

lemma same_invoice:
  assumes "settlement_ok s" "known_invoice v s" "known_invoice w s" "publicId v = publicId w"
  shows "invoice_terms v = invoice_terms w"
proof -
  obtain x y where "x \<in> set (invoices s)" "y \<in> set (invoices s)" "invoice_evolves v x" "invoice_evolves w y"
    using assms(2,3) by (auto simp: known_def)
  moreover from this assms(4) have "publicId x = publicId y"
    by (simp add: invoice_evolves_def invoice_terms_def)
  moreover have "invoices_unique (invoices s)" using assms(1) by (simp add: settlement_ok_def)
  ultimately show ?thesis using unique_publicIds by (metis invoice_evolves_def)
qed

lemma settle_claim:
  assumes "colleague (others 4)" "colleague (others 5)" "colleague (others 6)" "publicId v = pid"
  shows "settle_guarded (known_invoice v) (claimPayment others pid v h)
    (\<lambda>wp s. known_invoice (fst wp) s \<and> invoice_terms (fst wp) = invoice_terms v \<and> bound_payment (invoiceId v) h s)"
proof -
  let ?F = "known_invoice v"
  let ?B = "\<lambda>s. bound_payment (invoiceId v) h s \<and> ?F s"
  have lock: "settle_guarded ?F (lockInvoice (invoiceId v) h) (\<lambda>_. ?B)"
    by (rule settlement.guarded_weaken [OF settle_lock [of ?F]])
      (auto intro: settle_facts simp: known_def bound_payment_def payment_evolves_def new_payment_def)
  have bound: "?B s"
    if st: "settlement_ok s" and rd: "read_invoice (\<lambda>v. publicId v = pid) found s \<and> ?F s"
      and bd: "bound_to h found" for found s
  proof -
    obtain w p where w: "found = Some (w, Some p)" "paymentHash p = h"
      using bd by (auto simp: bound_to_def split: option.splits)
    with rd have r: "publicId w = pid" "known_invoice w s" "paymentInvoiceId p = invoiceId w"
      "known_payment p s" "known_invoice v s"
      by (simp_all add: read_invoice_def)
    have "invoiceId w = invoiceId v"
      using same_invoice [OF st r(2,5)] r(1) assms(4) by (simp add: invoice_terms_def)
    with r w show ?thesis by (auto simp: known_def bound_payment_def payment_evolves_def)
  qed
  have again: "settle_guarded ?F (andThen (findInvoice (\<lambda>v. publicId v = pid)) (\<lambda>found.
      ensure (bound_to h found) HASH_REUSED)) (\<lambda>_. ?B)"
  proof (rule settlement.guarded_andThen [OF settle_find])
    show "settle_stable ?F" by (intro settle_facts)
    show "settle_guarded (\<lambda>s. read_invoice (\<lambda>v. publicId v = pid) found s \<and> ?F s)
        (ensure (bound_to h found) HASH_REUSED) (\<lambda>_. ?B)" for found
      using bound [of _ found] by (auto simp: guarded_def ensure_def)
  qed
  have claimed: "settle_guarded ?F
      (catching (lockInvoice (invoiceId v) h)
        (\<lambda>e. if isConflict e then throw e
             else andThen (interfere (others 5)) (\<lambda>_.
               andThen (findInvoice (\<lambda>v. publicId v = pid)) (\<lambda>found.
               ensure (bound_to h found) HASH_REUSED)))) (\<lambda>_. ?B)"
    by (intro settlement.guarded_catching lock settlement.guarded_if settlement.guarded_throw
        settlement.guarded_andThen [OF settle_colleague [OF assms(2)]] again settle_facts)
  have last: "settle_guarded ?B
      (andThen (findInvoice (\<lambda>v. publicId v = pid)) (\<lambda>found.
        case found of None \<Rightarrow> throw (DbError ''P2025'') | Some w \<Rightarrow> ok w))
      (\<lambda>wp s. known_invoice (fst wp) s \<and> invoice_terms (fst wp) = invoice_terms v \<and> bound_payment (invoiceId v) h s)"
  proof (rule settlement.guarded_andThen [OF settle_find])
    show "settle_stable ?B" by (intro settle_facts)
    show "settle_guarded (\<lambda>s. read_invoice (\<lambda>v. publicId v = pid) found s \<and> ?B s)
        (case found of None \<Rightarrow> throw (DbError ''P2025'') | Some w \<Rightarrow> ok w)
        (\<lambda>wp s. known_invoice (fst wp) s \<and> invoice_terms (fst wp) = invoice_terms v \<and> bound_payment (invoiceId v) h s)"
      for found
      using assms(4)
      by (intro settlement.guarded_option settlement.guarded_throw
          settlement.guarded_weaken [OF settlement.guarded_ok])
        (auto simp: read_invoice_def dest: same_invoice)
  qed
  have stB: "settle_stable ?B" by (intro settle_facts)
  show ?thesis
    unfolding claimPayment_def
    by (intro settlement.guarded_andThen [OF settlement.keep_query]
        settlement.guarded_andThen [OF settlement.keep_ensure]
        settlement.guarded_andThen [OF settle_colleague [OF assms(1)]]
        settlement.guarded_andThen [OF claimed]
        settlement.guarded_andThen [OF settle_colleague [OF assms(3)]] last settle_facts stB)
qed

lemma settle_completed:
  assumes "evm_laws E" "operation r0 = settlement_operation (settlementKind w)"
    "externalReference r0 = publicId w" "toLowerCase h = h" and F: "settle_stable F"
  shows "settle_guarded (\<lambda>s. known_intent r0 s \<and> F s)
    (completeWithVerifiedReceipt E R now (intentId r0) (settlement_receipt R w h payer))
    (\<lambda>x s. (known_intent x s \<and> settles w h payer x) \<and> F s)"
proof (rule settlement.guardedI)
  fix s res t
  assume ok: "settlement_ok s" and kF: "known_intent r0 s \<and> F s"
    and run: "completeWithVerifiedReceipt E R now (intentId r0) (settlement_receipt R w h payer) s = (res, t)"
  let ?rc = "settlement_receipt R w h payer"
  have keep: "settle_run s t \<and> (\<forall>x. res = Inr x \<longrightarrow> F t)"
    using settlement.guardedD [OF settle_intents [OF run_complete only_complete F] ok _ run] kF by blast
  have "known_intent x t \<and> settles w h payer x" if x: "res = Inr x" for x
  proof -
    have T: "intents_ok (intents s)" using ok by (simp add: settlement_ok_def)
    obtain r where r: "lookup (intentId r0) s = Some r" "lookup (intentId r0) t = Some x" "status x = COMPLETED"
      "fixed_columns x = fixed_columns r" "transactionHash x = Some (toLowerCase (rcHash ?rc))"
      "toLowerCase (sourceWallet x) = toLowerCase (rcSource ?rc)"
      "toLowerCase (tokenOut x) = toLowerCase (rcToken ?rc)" "amountUnits x = rcAmount ?rc"
      "if truthy (recipient x) then toLowerCase (the (recipient x)) = toLowerCase (the (rcRecipient ?rc))
       else Some (batchDigest x) = rcBatchDigest ?rc"
      using complete_facts [OF run [unfolded x] assms(1) T] by blast
    obtain r' where r': "r' \<in> set (intents s)" "intent_evolves r0 r'" using kF by (auto simp: known_def)
    then have "lookup (intentId r0) s = Some r'"
      using T intent_evolves_id [OF r'(2)]
      by (intro find_row_unique) (simp_all add: intents_ok_def intents_unique_def)
    with r(1,4) r'(2) have "fixed_columns x = fixed_columns r0" by (simp add: intent_evolves_def)
    then have "operation x = operation r0" "externalReference x = externalReference r0"
      by (simp_all add: fixed_columns_def)
    moreover have "recipient x \<noteq> None" "toLowerCase (the (recipient x)) = toLowerCase (merchantWalletAddress w)"
      using r(9) by (auto simp: settlement_receipt_def truthy_def split: if_splits)
    moreover have "x \<in> set (intents t)" using find_row_Some [OF r(2)] by simp
    ultimately show ?thesis
      using r(3,5-8) assms(2-4)
      by (auto simp: settles_def settled_def settlement_receipt_def intro: intent_rows.known_read)
  qed
  with keep show "settle_run s t \<and> (\<forall>x. res = Inr x \<longrightarrow> (known_intent x t \<and> settles w h payer x) \<and> F t)"
    by blast
qed

lemma settle_paid:
  "settle_guarded
     (\<lambda>s. (known_intent x s \<and> settles w h payer x) \<and> known_invoice w s \<and> bound_payment (invoiceId w) h s)
     (settleInvoice now (invoiceId w) h payer) (\<lambda>_. paid_with (publicId w) h)"
proof (rule settlement.guardedI)
  fix s res t
  assume ok: "settlement_ok s" and run: "settleInvoice now (invoiceId w) h payer s = (res, t)"
    and F: "(known_intent x s \<and> settles w h payer x) \<and> known_invoice w s \<and> bound_payment (invoiceId w) h s"
  then obtain r v q where rows: "r \<in> set (intents s)" "intent_evolves x r" "v \<in> set (invoices s)"
    "invoice_evolves w v" "q \<in> set (payments s)" "paymentInvoiceId q = invoiceId w" "paymentHash q = h"
    by (auto simp: known_def bound_payment_def)
  have terms: "invoice_terms v = invoice_terms w" using rows(4) by (simp add: invoice_evolves_def)
  then have v: "invoiceId v = invoiceId w" "publicId v = publicId w" by (simp_all add: invoice_terms_def)
  have "settles v h payer r"
    using settles_evolves [OF _ rows(2)] F settles_terms [OF terms] by blast
  from sw_settle [OF rows(3,5,1) v(1) rows(6,7) this, of now] have w: "settle_write s t"
    using run by (simp add: settleInvoice_eq)
  have okt: "settlement_ok t" using settle_write_ok [OF w ok] .
  define q' where "q' = (if pending_payment (invoiceId w) h q then verified_by now payer q else q)"
  have q': "q' \<in> set (payments t)" "paymentInvoiceId q' = invoiceId w" "paymentHash q' = h"
    "paymentStatus q' = PAY_VERIFIED"
    using run rows(5-7)
    by (cases "paymentStatus q";
        auto simp: settleInvoice_eq q'_def update_rows_def pending_payment_def verified_by_def)+
  obtain v' where v': "v' \<in> set (invoices t)" "invoice_evolves v v'"
    using table_evolves_member [OF settle_write_evolves(2) [OF w] rows(3)] by blast
  then have ids: "invoiceId v' = invoiceId w" "publicId v' = publicId w"
    using v by (simp_all add: invoice_evolves_def invoice_terms_def)
  have "payment_of v' t = Some q'"
    using okt q' ids by (intro payment_of_member) (simp_all add: settlement_ok_def)
  then have "invoiceStatus v' = INV_PAID"
    using okt v'(1) q'(4) by (force simp: settlement_ok_def invoice_fits_def)
  then have "paid_with (publicId w) h t" using v'(1) ids q' unfolding paid_with_def by metis
  with w show "settle_run s t \<and> (\<forall>x. res = Inr x \<longrightarrow> paid_with (publicId w) h t)" by blast
qed

text \<open>The answer of the verifier the settlement rests on.\<close>

definition chain_accepts :: "invoice_env \<Rightarrow> invoice \<Rightarrow> string \<Rightarrow> bool" where
  "chain_accepts V v h \<longleftrightarrow>
     (\<exists>token merchant x. checksum (ieEvm V) (tokenAddress v) = Inr token \<and>
        checksum (ieEvm V) (merchantWalletAddress v) = Inr merchant \<and>
        verifyInvoice (ieEvm V) (ieAbi V) (chainId (ieRouting V)) (ieRequired V) (ieRpc V)
          \<lparr>iqAmount = invoiceAmountUnits v, iqMerchant = merchant, iqToken = token, iqHash = h\<rparr> = Inr x)"

lemma settle_payment:
  assumes "evm_laws (ieEvm V)" "operation r0 = settlement_operation (settlementKind w)"
    "externalReference r0 = publicId w" "toLowerCase h = h"
    "colleague (others 7)" "colleague (others 8)" "colleague (others 9)" "publicId w = pid"
  shows "settle_guarded (\<lambda>s. known_intent r0 s \<and> known_invoice w s \<and> bound_payment (invoiceId w) h s)
    (settlePayment V now others pid (intentId r0) w h) (\<lambda>_ s. chain_accepts V w h \<and> paid_with pid h s)"
proof -
  let ?K = "\<lambda>s. known_intent r0 s \<and> known_invoice w s \<and> bound_payment (invoiceId w) h s"
  let ?L = "\<lambda>s. known_invoice w s \<and> bound_payment (invoiceId w) h s"
  let ?P = "\<lambda>(_::unit) s. chain_accepts V w h \<and> paid_with pid h s"
  have K: "settle_stable ?K" and L: "settle_stable ?L" by (intro settle_facts)+
  note complete = settle_completed [OF assms(1-4) L, of "ieRouting V" now]
  have rest: "settle_guarded ?K
      (andThen (interfere (others 7)) (\<lambda>_.
        andThen (completeWithVerifiedReceipt (ieEvm V) (ieRouting V) now (intentId r0)
           (settlement_receipt (ieRouting V) w h payer)) (\<lambda>_.
        andThen (interfere (others 8)) (\<lambda>_.
        andThen (settleInvoice now (invoiceId w) h payer) (\<lambda>_.
        andThen (interfere (others 9)) (\<lambda>_.
        getPublic V now pid))))))
      (\<lambda>_. paid_with pid h)" for payer
    by (rule settlement.guarded_andThen [OF settle_colleague [OF assms(5) K]],
        rule settlement.guarded_andThen [OF complete],
        rule settlement.guarded_andThen [OF settle_colleague [OF assms(6)]],
        intro settle_facts,
        rule settlement.guarded_andThen [OF settle_paid], unfold assms(8),
        rule settlement.guarded_andThen [OF settle_colleague [OF assms(7)]],
        intro settle_facts, intro settle_public settle_facts)
  show ?thesis
    unfolding settlePayment_def
  proof (rule settlement.guarded_catching [OF _ settle_fail [OF K] K])
    show "settle_guarded ?K
       (andThen (lift (checksum (ieEvm V) (tokenAddress w))) (\<lambda>token.
        andThen (lift (checksum (ieEvm V) (merchantWalletAddress w))) (\<lambda>merchant.
        andThen (lift (verifyInvoice (ieEvm V) (ieAbi V) (chainId (ieRouting V)) (ieRequired V) (ieRpc V)
           \<lparr>iqAmount = invoiceAmountUnits w, iqMerchant = merchant, iqToken = token, iqHash = h\<rparr>)) (\<lambda>verified.
        andThen (interfere (others 7)) (\<lambda>_.
        andThen (completeWithVerifiedReceipt (ieEvm V) (ieRouting V) now (intentId r0)
           (settlement_receipt (ieRouting V) w h (vtPayer verified))) (\<lambda>_.
        andThen (interfere (others 8)) (\<lambda>_.
        andThen (settleInvoice now (invoiceId w) h (vtPayer verified)) (\<lambda>_.
        andThen (interfere (others 9)) (\<lambda>_.
        getPublic V now pid)))))))))
       (\<lambda>_ s. chain_accepts V w h \<and> paid_with pid h s)"
      using rest unfolding guarded_def
      by (auto simp: andThen_def [of "lift _"] lift_def chain_accepts_def split: sum.split)
  qed
qed

lemma known_verified_paid:
  assumes ok: "settlement_ok s" and "known_invoice v s" "known_payment q s"
    "paymentInvoiceId q = invoiceId v" "paymentStatus q = PAY_VERIFIED"
  shows "paid_with (publicId v) (paymentHash q) s"
proof -
  obtain v' q' where rows: "v' \<in> set (invoices s)" "invoice_evolves v v'" "q' \<in> set (payments s)"
    "payment_evolves q q'"
    using assms(2,3) by (auto simp: known_def)
  with assms(4,5) have q: "q' = q" "invoiceId v' = invoiceId v" "publicId v' = publicId v"
    by (simp_all add: payment_evolves_def invoice_evolves_def invoice_terms_def)
  then have "payment_of v' s = Some q"
    using ok rows assms(4) by (intro payment_of_member) (simp_all add: settlement_ok_def)
  then have "invoiceStatus v' = INV_PAID"
    using ok rows(1) assms(5) by (force simp: settlement_ok_def invoice_fits_def)
  with rows q assms(4,5) show ?thesis unfolding paid_with_def by metis
qed

lemma settle_getByHash:
  assumes "settle_stable F"
  shows "settle_guarded F (getByTransactionHash R h) (\<lambda>r s. known_intent r s \<and> F s)"
proof (rule settlement.guardedI)
  fix s r t
  assume "F s" and run: "getByTransactionHash R h s = (r, t)"
  moreover have "t = s" "\<forall>x. r = Inr x \<longrightarrow> x \<in> set (intents s)"
    using run by (auto simp: getByTransactionHash_def findIntent_def assertSelectedNetwork_def op_defs
        split: option.splits sum.splits if_splits dest: find_row_Some)
  ultimately show "settle_run s t \<and> (\<forall>x. r = Inr x \<longrightarrow> known_intent x t \<and> F t)"
    by (auto intro: intent_rows.known_read)
qed

definition read_payment :: "invoice \<Rightarrow> payment option \<Rightarrow> db \<Rightarrow> bool" where
  "read_payment v p s \<longleftrightarrow> known_invoice v s \<and>
     (case p of None \<Rightarrow> True | Some q \<Rightarrow> paymentInvoiceId q = invoiceId v \<and> known_payment q s)"

lemma stable_read_payment: "settle_stable (read_payment v p)"
  unfolding read_payment_def by (cases p) (auto intro!: settle_facts simp: settlement.stable_const)

lemma chain_accepts_terms: "invoice_terms w = invoice_terms v \<Longrightarrow> chain_accepts V w h = chain_accepts V v h"
  by (simp add: chain_accepts_def invoice_terms_def)

lemma settle_decide:
  assumes E: "evm_laws (ieEvm V)" and r0: "operation r0 = settlement_operation (settlementKind v)"
    "externalReference r0 = publicId v" "toLowerCase h = h" "publicId v = pid"
    and others: "\<And>k. colleague (others k)"
  shows "settle_guarded (\<lambda>s. known_intent r0 s \<and> read_payment v p s)
    (if invoiceStatus v = INV_PAID \<and>
        (case p of None \<Rightarrow> False | Some q \<Rightarrow> paymentStatus q = PAY_VERIFIED \<and> paymentHash q = h)
     then lift (toPublic V (v, p))
     else
       andThen (lift (assertAcceptsPayment now v)) (\<lambda>_.
       andThen (ensure (case p of None \<Rightarrow> True | Some q \<Rightarrow> paymentHash q = h) ALREADY_SUBMITTED) (\<lambda>_.
       if (case p of None \<Rightarrow> False | Some q \<Rightarrow> paymentStatus q = PAY_VERIFIED)
       then lift (toPublic V (v, p))
       else
         andThen (interfere (others 3)) (\<lambda>_.
         andThen (if p = None then claimPayment others pid v h else ok (v, p)) (\<lambda>(w, _).
         settlePayment V now others pid (intentId r0) w h)))))
    (\<lambda>_ s. paid_with pid h s \<and> ((\<exists>q. p = Some q \<and> paymentStatus q = PAY_VERIFIED \<and> paymentHash q = h) \<or>
       chain_accepts V v h))" (is "settle_guarded ?F _ ?Q")
proof -
  have F: "settle_stable ?F" by (intro settle_facts stable_read_payment)
  have seen: "paid_with pid h s"
    if "settlement_ok s" "?F s" "p = Some q" "paymentStatus q = PAY_VERIFIED" "paymentHash q = h" for s q
    using known_verified_paid [of s v q] that r0(4) by (simp add: read_payment_def)
  have old: "settle_guarded ?F (lift (toPublic V (v, p))) ?Q"
    if "case p of None \<Rightarrow> False | Some q \<Rightarrow> paymentStatus q = PAY_VERIFIED \<and> paymentHash q = h"
    using that seen by (cases p) (auto simp: guarded_def lift_def)
  let ?G = "\<lambda>wp s. known_intent r0 s \<and> known_invoice (fst wp) s \<and> invoice_terms (fst wp) = invoice_terms v \<and>
    bound_payment (invoiceId v) h s"
  have claimed: "settle_guarded ?F (claimPayment others pid v h) ?G"
    by (rule settlement.guarded_weaken
        [OF settlement.guarded_frame [OF settle_claim [OF others others others r0(4)] stable_known(1)]])
      (auto simp: read_payment_def)
  have bound: "settle_guarded ?F (ok (v, p)) ?G" if "p = Some q" "paymentHash q = h" for q
    using that
    by (auto simp: guarded_def ok_def read_payment_def bound_payment_def known_def payment_evolves_def)
  have pay: "settle_guarded (?G wp) (settlePayment V now others pid (intentId r0) (fst wp) h) ?Q" for wp
  proof (cases "invoice_terms (fst wp) = invoice_terms v")
    case True
    then have w: "settlementKind (fst wp) = settlementKind v" "publicId (fst wp) = publicId v"
      "invoiceId (fst wp) = invoiceId v"
      by (simp_all add: invoice_terms_def)
    show ?thesis
      by (rule settlement.guarded_weaken
          [OF settle_payment [where w = "fst wp", OF E _ _ r0(3) others others others]])
        (use w r0 True in \<open>simp_all add: chain_accepts_terms [OF True]\<close>)
  next
    case False
    then show ?thesis by (simp add: guarded_def)
  qed
  have go: "settle_guarded ?F
      (andThen (interfere (others 3)) (\<lambda>_.
       andThen (if p = None then claimPayment others pid v h else ok (v, p)) (\<lambda>(w, _).
       settlePayment V now others pid (intentId r0) w h))) ?Q"
    if "case p of None \<Rightarrow> True | Some q \<Rightarrow> paymentHash q = h"
  proof (rule settlement.guarded_andThen [OF settle_colleague [OF others F]], rule settlement.guarded_andThen)
    show "settle_guarded ?F (if p = None then claimPayment others pid v h else ok (v, p)) ?G"
      using that claimed bound by (cases p) auto
    show "settle_guarded (?G wp) (case wp of (w, x) \<Rightarrow> settlePayment V now others pid (intentId r0) w h) ?Q" for wp
      using pay [of wp] by (cases wp) simp
  qed
  show ?thesis
  proof (rule settlement.guarded_if)
    assume "invoiceStatus v = INV_PAID \<and>
      (case p of None \<Rightarrow> False | Some q \<Rightarrow> paymentStatus q = PAY_VERIFIED \<and> paymentHash q = h)"
    then show "settle_guarded ?F (lift (toPublic V (v, p))) ?Q" using old by simp
  next
    show "settle_guarded ?F
      (andThen (lift (assertAcceptsPayment now v)) (\<lambda>_.
       andThen (ensure (case p of None \<Rightarrow> True | Some q \<Rightarrow> paymentHash q = h) ALREADY_SUBMITTED) (\<lambda>_.
       if (case p of None \<Rightarrow> False | Some q \<Rightarrow> paymentStatus q = PAY_VERIFIED)
       then lift (toPublic V (v, p))
       else
         andThen (interfere (others 3)) (\<lambda>_.
         andThen (if p = None then claimPayment others pid v h else ok (v, p)) (\<lambda>(w, _).
         settlePayment V now others pid (intentId r0) w h))))) ?Q"
      by (rule settlement.guarded_andThen [OF settlement.keep_lift],
          rule settlement.guarded_andThen [OF settlement.guarded_ensure],
          rule settlement.guarded_assume, rule settlement.guarded_if, rule old, simp split: option.splits,
          rule go)
  qed
qed

definition accepted_at :: "invoice_env \<Rightarrow> string \<Rightarrow> string \<Rightarrow> db \<Rightarrow> bool" where
  "accepted_at V pid h s \<longleftrightarrow>
     paid_with pid h s \<or> (\<exists>v\<in>set (invoices s). publicId v = pid \<and> chain_accepts V v h)"

lemma settle_verify:
  assumes E: "evm_laws (ieEvm V)" and others: "\<And>k. colleague (others k)"
  shows "settle_guarded (\<lambda>s. s = s0) (verifyPublicPayment V now others pid submitted)
    (\<lambda>_ s. paid_with pid (toLowerCase submitted) s \<and> accepted_at V pid (toLowerCase submitted) s0)"
    (is "settle_guarded _ _ ?Q")
proof -
  let ?h = "toLowerCase submitted"
  let ?read = "\<lambda>found s. case found of None \<Rightarrow> True | Some (v, p) \<Rightarrow>
    publicId v = pid \<and> v \<in> set (invoices s0) \<and> payment_of v s0 = p \<and> settlement_ok s0 \<and> read_payment v p s"
  have find: "settle_guarded (\<lambda>s. s = s0) (findInvoice (\<lambda>v. publicId v = pid)) ?read"
  proof (rule settlement.guardedI)
    fix s r t
    assume ok: "settlement_ok s" and s: "s = s0" and run: "findInvoice (\<lambda>v. publicId v = pid) s = (r, t)"
    have t: "t = s" "r = Inr (map_option (\<lambda>v. (v, payment_of v s)) (find_row (\<lambda>v. publicId v = pid) (invoices s)))"
      using run by (auto simp: findInvoice_def query_def)
    with ok s show "settle_run s t \<and> (\<forall>x. r = Inr x \<longrightarrow> ?read x t)"
      by (auto simp: read_payment_def split: option.split
        dest!: find_row_Some payment_of_Some intro: invoice_rows.known_read payment_rows.known_read)
  qed
  have decide: "settle_guarded (\<lambda>s. known_intent r0 s \<and> read_payment v p s)
    (if invoiceStatus v = INV_PAID \<and>
        (case p of None \<Rightarrow> False | Some q \<Rightarrow> paymentStatus q = PAY_VERIFIED \<and> paymentHash q = ?h)
     then lift (toPublic V (v, p))
     else
       andThen (lift (assertAcceptsPayment now v)) (\<lambda>_.
       andThen (ensure (case p of None \<Rightarrow> True | Some q \<Rightarrow> paymentHash q = ?h) ALREADY_SUBMITTED) (\<lambda>_.
       if (case p of None \<Rightarrow> False | Some q \<Rightarrow> paymentStatus q = PAY_VERIFIED)
       then lift (toPublic V (v, p))
       else
         andThen (interfere (others 3)) (\<lambda>_.
         andThen (if p = None then claimPayment others pid v ?h else ok (v, p)) (\<lambda>(w, _).
         settlePayment V now others pid (intentId r0) w ?h))))) ?Q"
    if "\<not> (operation r0 \<noteq> settlement_operation (settlementKind v) \<or> externalReference r0 \<noteq> publicId v)"
      "publicId v = pid" "v \<in> set (invoices s0)" "payment_of v s0 = p" "settlement_ok s0" for r0 v p
  proof (rule settlement.guarded_weaken [OF settle_decide])
    fix x :: public_invoice and s
    assume "paid_with pid ?h s \<and> ((\<exists>q. p = Some q \<and> paymentStatus q = PAY_VERIFIED \<and> paymentHash q = ?h) \<or>
       chain_accepts V v ?h)"
    moreover have "paid_with pid ?h s0" if q: "p = Some q" "paymentStatus q = PAY_VERIFIED" "paymentHash q = ?h" for q
      using known_verified_paid [of s0 v q] q that \<open>settlement_ok s0\<close> \<open>v \<in> set (invoices s0)\<close>
        \<open>payment_of v s0 = p\<close> \<open>publicId v = pid\<close> payment_of_Some [of v s0 q]
      by (auto intro: invoice_rows.known_read payment_rows.known_read)
    ultimately show "?Q x s" using that unfolding accepted_at_def by blast
  qed (use E others that in simp_all)
  have body: "settle_guarded (read_payment v p)
        (andThen (lift (assertCapability (ieRouting V) (settlement_capability (settlementKind v)))) (\<lambda>_.
         andThen (lift (bindR (decide (ieEvm V) (ieRouting V) (JStr (network (ieRouting V)))
            (if settlementKind v = KIND_PAYMENT_LINK then PAYMENT_LINK else INVOICE)
            (JStr (tokenAddress v)) (JStr (tokenAddress v))) assertExecutable)) (\<lambda>_.
         andThen (interfere (others 0)) (\<lambda>_.
         andThen (getByTransactionHash (ieRouting V) ?h) (\<lambda>intent.
         andThen (ensure (\<not> (operation intent \<noteq> settlement_operation (settlementKind v) \<or>
            externalReference intent \<noteq> publicId v)) IMMUTABLE_CONFLICT) (\<lambda>_.
         andThen (interfere (others 1)) (\<lambda>_.
         andThen (beginVerification (ieRouting V) now (intentId intent)) (\<lambda>_.
         andThen (interfere (others 2)) (\<lambda>_.
         andThen (expireOpenInvoices now (\<lambda>v. publicId v = pid)) (\<lambda>_.
         if invoiceStatus v = INV_PAID \<and>
            (case p of None \<Rightarrow> False | Some q \<Rightarrow> paymentStatus q = PAY_VERIFIED \<and> paymentHash q = ?h)
         then lift (toPublic V (v, p))
         else
           andThen (lift (assertAcceptsPayment now v)) (\<lambda>_.
           andThen (ensure (case p of None \<Rightarrow> True | Some q \<Rightarrow> paymentHash q = ?h) ALREADY_SUBMITTED) (\<lambda>_.
           if (case p of None \<Rightarrow> False | Some q \<Rightarrow> paymentStatus q = PAY_VERIFIED)
           then lift (toPublic V (v, p))
           else
             andThen (interfere (others 3)) (\<lambda>_.
             andThen (if p = None then claimPayment others pid v ?h else ok (v, p)) (\<lambda>(w, _).
             settlePayment V now others pid (intentId intent) w ?h)))))))))))))) ?Q"
    if "publicId v = pid" "v \<in> set (invoices s0)" "payment_of v s0 = p" "settlement_ok s0" for v p
  proof -
    have R: "settle_stable (read_payment v p)" by (rule stable_read_payment)
    have K: "settle_stable (\<lambda>s. known_intent r0 s \<and> read_payment v p s)" for r0
      by (intro settle_facts R)
    show ?thesis
      by (rule settlement.guarded_andThen [OF settlement.keep_lift],
          rule settlement.guarded_andThen [OF settlement.keep_lift],
          rule settlement.guarded_andThen [OF settle_colleague [OF others R]],
          rule settlement.guarded_andThen [OF settle_getByHash [OF R]],
          rule settlement.guarded_andThen [OF settlement.guarded_ensure],
          rule settlement.guarded_assume,
          rule settlement.guarded_andThen [OF settle_colleague [OF others K]],
          rule settlement.guarded_andThen [OF settle_intents [OF run_begin only_begin K]],
          rule settlement.guarded_andThen [OF settle_colleague [OF others K]],
          rule settlement.guarded_andThen [OF settle_expire [OF K]],
          rule decide [OF _ that])
  qed
  have split: "settle_guarded (?read found) (case found of None \<Rightarrow> throw e | Some (v, p) \<Rightarrow> f v p) ?Q"
    if "\<And>v p. publicId v = pid \<Longrightarrow> v \<in> set (invoices s0) \<Longrightarrow> payment_of v s0 = p \<Longrightarrow> settlement_ok s0 \<Longrightarrow>
      settle_guarded (read_payment v p) (f v p) ?Q" for found e and f :: "invoice \<Rightarrow> payment option \<Rightarrow> (db, public_invoice) op"
    using that unfolding guarded_def by (auto simp: throw_def split: option.split)
  show ?thesis
    unfolding verifyPublicPayment_def Let_def assertPublicId_def
    by (rule settlement.guarded_andThen [OF settlement.keep_ensure],
        rule settlement.guarded_andThen [OF find], rule split, rule body)
qed

section \<open>The other methods\<close>

lemma settle_insert:
  assumes "invoiceStatus v = INV_OPEN" "settle_stable F"
  shows "settle_guarded F (onInvoices (insertUnique invoices_unique v)) (\<lambda>_. F)"
  using assms
  by (intro settlement.guarded_keeps)
    (auto simp: guarded_def onInvoices_def insertUnique_def intro!: r_into_rtranclp sw_create)

lemma settle_create: "settle_stable F \<Longrightarrow> settle_guarded F (createInvoice V now i pid m x) (\<lambda>_. F)"
  unfolding createInvoice_def Let_def by (intro settlement.keep_rules settle_insert) simp_all

lemma settle_list: "settle_stable F \<Longrightarrow> settle_guarded F (listInvoices V now m st lim off) (\<lambda>_. F)"
  unfolding listInvoices_def by (intro settlement.keep_rules settle_expire)

lemma settle_owned: "settle_stable F \<Longrightarrow> settle_guarded F (getOwned V now m i) (\<lambda>_. F)"
  unfolding getOwned_def assertUuid_def by (intro settlement.keep_rules settle_expire settle_find_keep)

lemma settle_cancel_rows:
  "settle_stable F \<Longrightarrow> settle_guarded F
     (onInvoices (updateMany
        (\<lambda>v. invoiceId v = i \<and> merchantUserId v = m \<and> invoiceStatus v = INV_OPEN)
        (\<lambda>v. v\<lparr>invoiceStatus := INV_CANCELLED, cancelledAt := Some now\<rparr>))) (\<lambda>_. F)"
  by (rule settlement.guarded_keeps)
    (auto simp: guarded_def onInvoices_def updateMany_def intro!: r_into_rtranclp sw_cancel)

lemma settle_cancel: "settle_stable F \<Longrightarrow> settle_guarded F (cancelInvoice V now m i) (\<lambda>_. F)"
  unfolding cancelInvoice_def assertUuid_def
  by (intro settlement.keep_rules settle_expire settle_cancel_rows settle_find_keep settle_owned)

text \<open>One call of either service.\<close>

datatype settlement_call =
    On_intents intent_call
  | Create_invoice string string merchant create_invoice
  | List_invoices merchant "invoice_status option" nat nat
  | Get_owned merchant string
  | Cancel_invoice merchant string
  | Get_public string
  | Verify_payment string string

fun run_service ::
  "invoice_env \<Rightarrow> (transfer_query \<Rightarrow> verified_receipt res) \<Rightarrow> int \<times> settlement_call \<Rightarrow> db \<Rightarrow> db" where
  "run_service V W (now, On_intents c) = call (ieEvm V) (ieRouting V) W (now, c)"
| "run_service V W (now, Create_invoice i pid m x) = outcome (createInvoice V now i pid m x)"
| "run_service V W (now, List_invoices m st lim off) = outcome (listInvoices V now m st lim off)"
| "run_service V W (now, Get_owned m i) = outcome (getOwned V now m i)"
| "run_service V W (now, Cancel_invoice m i) = outcome (cancelInvoice V now m i)"
| "run_service V W (now, Get_public pid) = outcome (getPublic V now pid)"
| "run_service V W (now, Verify_payment pid h) = outcome (verifyPublicPayment V now (\<lambda>_. id) pid h)"

definition settlement_calls ::
  "invoice_env \<Rightarrow> (transfer_query \<Rightarrow> verified_receipt res) \<Rightarrow> (int \<times> settlement_call) list \<Rightarrow> db \<Rightarrow> db" where
  "settlement_calls V W cs = fold (run_service V W) cs"

lemma run_outcome:
  assumes "settle_guarded (\<lambda>_. True) m G" "settlement_ok s"
  shows "settle_run s (outcome m s)"
  using settlement.guardedD [OF assms(1,2)] unfolding outcome_def by (metis prod.collapse)

lemma run_settlement_call:
  assumes "evm_laws (ieEvm V)" "settlement_ok s"
  shows "settle_run s (run_service V W c s)"
proof (cases c)
  case (Pair now k)
  have T: "settle_stable (\<lambda>_. True)" by (rule settlement.stable_const)
  have id: "colleague id" by (simp add: bystander_def)
  show ?thesis
  proof (cases k)
    case (On_intents c)
    have "intent_run s (call (ieEvm V) (ieRouting V) W (now, c) s)"
      "intents_only s (call (ieEvm V) (ieRouting V) W (now, c) s)"
      by (rule run_call only_call)+
    then show ?thesis by (simp add: Pair On_intents via_def intents_run_settle)
  next
    case (Verify_payment pid h)
    have "settle_guarded (\<lambda>x. x = s) (verifyPublicPayment V now (\<lambda>_. id) pid h) (\<lambda>_ _. True)"
      by (rule settlement.guarded_weaken [OF settle_verify]) (use assms id in simp_all)
    then show ?thesis
      using assms(2) unfolding guarded_def by (simp add: Pair Verify_payment outcome_def)
  qed (use assms(2) T in \<open>auto simp: Pair intro!: run_outcome settle_create settle_list settle_owned
      settle_cancel settle_public\<close>)
qed

lemma settlement_ok_empty: "settlement_ok empty_db"
  by (simp add: settlement_ok_def empty_db_def invoices_unique_def payments_unique_def)

lemma settlement_ok_calls:
  assumes "evm_laws (ieEvm V)"
  shows "settlement_ok s \<Longrightarrow> settlement_ok (settlement_calls V W cs s)"
proof (induction cs arbitrary: s)
  case Nil
  then show ?case by (simp add: settlement_calls_def)
next
  case (Cons c cs)
  have "settlement_ok (run_service V W c s)"
    using settlement.good_run [OF run_settlement_call [OF assms Cons.prems]] Cons.prems by blast
  with Cons.IH show ?case by (simp add: settlement_calls_def)
qed

end
