(* ===== verification/InvoiceTheorems.thy ===== *)
theory InvoiceTheorems
  imports InvoiceRuns
begin

text \<open>
  What the invoice service guarantees, together with the intent service it settles through: the
  invariant of the three tables, the verification of a payment under interference, the binding of an
  invoice to one transaction, and the creation of invoices.
\<close>

section \<open>A concrete invoice\<close>

definition hex_arc :: routing where
  "hex_arc = arc\<lparr>tokens := (\<lambda>s. case s of USDC \<Rightarrow> Some (addr (CHR ''5'')) | EURC \<Rightarrow> None)\<rparr>"

definition shop :: invoice_env where
  "shop = \<lparr>ieEvm = lower_evm, ieAbi = invoice_abi, ieRouting = hex_arc, ieRequired = 2, ieRpc = invoice_rpc,
     parseUnits = (\<lambda>s _. Some (int (read_nat s))), formatUnits = (\<lambda>n _. show_nat n), parseDate = (\<lambda>_. None)\<rparr>"

definition pub :: string where
  "pub = replicate 22 (CHR ''p'')"

definition bill :: invoice where
  "bill = \<lparr>invoiceId = ''v'', publicId = pub, merchantUserId = ''m'', merchantWalletAddress = addr (CHR ''b''),
     invoiceChainId = 5042, tokenAddress = addr (CHR ''5''), tokenSymbol = USDC, tokenDecimals = 6,
     invoiceAmountUnits = show_nat 250, title = ''t'', description = None, invoiceNumber = None,
     settlementKind = KIND_INVOICE, invoiceStatus = INV_OPEN, expiresAt = None, paidAt = None,
     cancelledAt = None\<rparr>"

definition settling :: intent where
  "settling = paid\<lparr>operation := OP_INVOICE_SETTLEMENT, externalReference := pub, amountUnits := show_nat 250\<rparr>"

definition billed :: db where
  "billed = empty_db\<lparr>intents := [settling], invoices := [bill]\<rparr>"

lemma billed_ok: "settlement_ok billed"
  by (simp add: settlement_ok_def billed_def empty_db_def intents_ok_def row_ok_def settling_def paid_def
      sent_def invoices_unique_def payments_unique_def invoice_fits_def payment_of_def bill_def)

lemma shop_simps [simp]:
  "ieEvm shop = lower_evm" "ieAbi shop = invoice_abi" "ieRouting shop = hex_arc" "ieRequired shop = 2"
  "ieRpc shop = invoice_rpc"
  by (simp_all add: shop_def)

lemma hex_arc_simps [simp]:
  "network hex_arc = ARC_MAINNET" "chainId hex_arc = 5042" "capabilities hex_arc = (\<lambda>c. c \<noteq> Cap_swap)"
  "tokens hex_arc USDC = Some (addr (CHR ''5''))"
  by (simp_all add: hex_arc_def arc_def)

lemma decide_bill:
  "\<exists>d. bindR (decide lower_evm hex_arc (JStr ARC_MAINNET) INVOICE (JStr (addr (CHR ''5''))) (JStr (addr (CHR ''5''))))
     assertExecutable = Inr d"
  by (simp add: decide_def identifyToken_def parseAddressOr_def Let_def assertExecutable_def decision_def
      fromSome_def ensureR_def same_address)

definition locked_bill :: invoice where
  "locked_bill = bill\<lparr>invoiceStatus := INV_VERIFYING\<rparr>"

definition bill_payment :: payment where
  "bill_payment = new_payment ''v'' (hash_of (CHR ''1''))"

definition bill_locked :: db where
  "bill_locked = billed\<lparr>invoices := [locked_bill], payments := [bill_payment]\<rparr>"

definition paid_bill :: invoice where
  "paid_bill = paid_at 7 locked_bill"

definition bill_settled :: payment where
  "bill_settled = verified_by 7 (addr (CHR ''a'')) bill_payment"

definition bill_intent :: intent where
  "bill_intent = moved 7 COMPLETED settling"

definition billed_paid :: db where
  "billed_paid = billed\<lparr>intents := [bill_intent], invoices := [paid_bill], payments := [bill_settled]\<rparr>"

lemma bill_facts [simp]:
  "invoiceId bill = ''v''" "publicId bill = pub" "invoiceStatus bill = INV_OPEN" "settlementKind bill = KIND_INVOICE"
  "tokenAddress bill = addr (CHR ''5'')" "expiresAt bill = None" "merchantWalletAddress bill = addr (CHR ''b'')"
  "invoiceAmountUnits bill = show_nat 250"
  by (simp_all add: bill_def)

lemma settling_facts [simp]:
  "intentId settling = ''i''" "status settling = VERIFYING" "operation settling = OP_INVOICE_SETTLEMENT"
  "externalReference settling = pub" "transactionHash settling = Some (hash_of (CHR ''1''))"
  "intentNetwork settling = ARC_MAINNET" "sourceWallet settling = addr (CHR ''a'')"
  "tokenOut settling = addr (CHR ''5'')" "amountUnits settling = show_nat 250"
  "recipient settling = Some (addr (CHR ''b''))"
  by (simp_all add: settling_def paid_def sent_def)

lemma bill_states [simp]:
  "intents billed = [settling]" "invoices billed = [bill]" "payments billed = []"
  "intents bill_locked = [settling]" "invoices bill_locked = [locked_bill]" "payments bill_locked = [bill_payment]"
  by (simp_all add: billed_def bill_locked_def empty_db_def)

lemma bill_payment_facts [simp]:
  "paymentInvoiceId bill_payment = ''v''" "paymentHash bill_payment = hash_of (CHR ''1'')"
  "paymentStatus bill_payment = PAY_VERIFYING"
  by (simp_all add: bill_payment_def new_payment_def)

lemma locked_facts [simp]:
  "invoiceId locked_bill = ''v''" "publicId locked_bill = pub" "invoiceStatus locked_bill = INV_VERIFYING"
  "tokenAddress locked_bill = addr (CHR ''5'')" "merchantWalletAddress locked_bill = addr (CHR ''b'')"
  "invoiceAmountUnits locked_bill = show_nat 250" "expiresAt locked_bill = None"
  "settlementKind locked_bill = KIND_INVOICE"
  by (simp_all add: locked_bill_def)

lemma bill_lock: "lockInvoice ''v'' (hash_of (CHR ''1'')) billed = (Inr (), bill_locked)"
  by (simp add: lockInvoice_def op_defs onInvoices_def onPayments_def updateMany_def insertUnique_def
      count_rows_def update_rows_def payments_unique_def bill_locked_def locked_bill_def bill_payment_def
      new_payment_def)

lemma bill_claim:
  "claimPayment (\<lambda>_. id) pub bill (hash_of (CHR ''1'')) billed = (Inr (locked_bill, Some bill_payment), bill_locked)"
  by (simp add: claimPayment_def andThen_def query_def ensure_def interfere_def catching_def bill_lock
      findInvoice_def payment_of_def ok_def)

lemma lower_checksum [simp]: "is_hex c \<Longrightarrow> lower_char c = c \<Longrightarrow> checksum lower_evm (addr c) = Inr (addr c)"
  by (simp add: checksum_def lower_evm_def)

definition bill_verified :: verified_transfer where
  "bill_verified = \<lparr>vtBlock = 7, vtConfirmations = 3, vtPayer = addr (CHR ''a''), vtHash = hash_of (CHR ''1'')\<rparr>"

lemma verify_250: "verifyInvoice lower_evm invoice_abi 5042 2 invoice_rpc invoice_250 = Inr bill_verified"
proof -
  have hex: "\<And>rcp. getTransactionReceipt invoice_rpc (iqHash invoice_250) = Some rcp \<Longrightarrow> hex_logs rcp"
    using two_logs_hex by (simp add: invoice_rpc_def)
  have "getChainId invoice_rpc = Some 5042" "getBlockNumber invoice_rpc = Some 9"
    "getTransactionReceipt invoice_rpc (iqHash invoice_250) = Some two_logs"
    "\<exists>tx. getTransaction invoice_rpc (iqHash invoice_250) = Some tx \<and> ctChainId tx = Some 5042 \<and> ctValue tx = 0"
    "crSuccess two_logs" "confirmations 9 (crBlock two_logs) = 3" "crBlock two_logs = 7"
    "iqHash invoice_250 = hash_of (CHR ''1'')"
    "payer_of lower_evm invoice_abi \<lparr>logAddress = addr (CHR ''5''), logTopics = [TRANSFER_TOPIC], logData = []\<rparr> =
       Some (addr (CHR ''a''))"
    by (simp_all add: invoice_rpc_def two_logs_def confirmations_def payer_of_def invoice_abi_def lower_evm_def
        invoice_250_def)
  with two_logs_pay show ?thesis
    unfolding verifyInvoice_Inr
    by (subst verifyReceipt_accepts [OF lower_evm_laws invoice_250_readable hex])
      (auto simp: bill_verified_def)
qed

lemma same_lower: "is_hex c \<Longrightarrow> lower_char c = c \<Longrightarrow> sameAddress lower_evm (addr c) (addr c) = Inr True"
  by (simp add: sameAddress_def lower_evm_def fromSome_def)

lemma bill_complete:
  "completeWithVerifiedReceipt lower_evm hex_arc 7 ''i''
     (settlement_receipt hex_arc locked_bill (hash_of (CHR ''1'')) (addr (CHR ''a''))) bill_locked =
     (Inr (moved 7 COMPLETED settling), bill_locked\<lparr>intents := [moved 7 COMPLETED settling]\<rparr>)"
  by (simp add: completeWithVerifiedReceipt_def andThen_def getIntent_eq settlement_receipt_def
      transactionHashOf_cases lift_def receiptMatches_def andR_def same_lower ensure_def transition_def
      updateIntents_eq unique_update update_rows_def count_rows_def apply_no_data moved_def)

lemma bill_public:
  "\<exists>w t. getPublic shop 7 pub
     (s\<lparr>payments := [verified_by 7 (addr (CHR ''a'')) bill_payment], invoices := [paid_at 7 locked_bill]\<rparr>) = (Inr w, t)"
  by (simp add: getPublic_def assertPublicId_def pub_def andThen_def ensure_def expireOpenInvoices_def
      onInvoices_def updateMany_def findInvoice_def query_def update_rows_def paid_at_def lift_def
      settlement_capability_def assertCapability_def toPublic_def is_base64url_def payment_of_def ensureR_def
      toBigInt_positive positive_show verified_by_def list_all_length Let_def)

lemma bill_settle:
  "\<exists>w t. settlePayment shop 7 (\<lambda>_. id) pub ''i'' locked_bill (hash_of (CHR ''1'')) bill_locked = (Inr w, t)"
proof -
  obtain w t where w: "getPublic shop 7 pub
     (bill_locked\<lparr>intents := [moved 7 COMPLETED settling], payments := [verified_by 7 (addr (CHR ''a'')) bill_payment],
        invoices := [paid_at 7 locked_bill]\<rparr>) = (Inr w, t)"
    using bill_public by blast
  have q: "\<lparr>iqAmount = show_nat 250, iqMerchant = addr (CHR ''b''), iqToken = addr (CHR ''5''), iqHash = hash_of (CHR ''1'')\<rparr> =
      invoice_250" by (simp add: invoice_250_def)
  show ?thesis
    using w
    by (simp add: settlePayment_def catching_def andThen_def lift_def q verify_250 bill_verified_def interfere_def
        bill_complete         settleInvoice_eq update_rows_def pending_payment_def)
qed

lemma bill_verify:
  "\<exists>w t. verifyPublicPayment shop 7 (\<lambda>_. id) pub (hash_of (CHR ''1'')) billed = (Inr w, t)"
proof -
  have started: "getByTransactionHash hex_arc (hash_of (CHR ''1'')) billed = (Inr settling, billed)"
      "beginVerification hex_arc 7 ''i'' billed = (Inr settling, billed)"
    by (simp_all add: getByTransactionHash_def beginVerification_def andThen_def lift_def transactionHashOf_cases
        findIntent_def query_def assertSelectedNetwork_def ensure_def ok_def getIntent_eq)
  have expire: "expireOpenInvoices 7 p billed = (Inr 0, billed)" for p
    by (simp add: expireOpenInvoices_def onInvoices_def updateMany_def count_rows_def update_rows_def billed_def)
  obtain d where d: "bindR (decide lower_evm hex_arc (JStr ARC_MAINNET) INVOICE (JStr (addr (CHR ''5'')))
     (JStr (addr (CHR ''5'')))) assertExecutable = Inr d"
    using decide_bill by blast
  obtain w t where "settlePayment shop 7 (\<lambda>_. id) pub ''i'' locked_bill (hash_of (CHR ''1'')) bill_locked = (Inr w, t)"
    using bill_settle by blast
  moreover have "length pub = 22 \<and> list_all is_base64url pub"
    by (simp add: pub_def list_all_length is_base64url_def)
  ultimately show ?thesis
    by (simp add: verifyPublicPayment_def andThen_def assertPublicId_def ensure_def findInvoice_def query_def
        payment_of_def lift_def assertCapability_def ensureR_def settlement_capability_def d interfere_def started
        settlement_operation_def expire assertAcceptsPayment_def bill_claim ok_def Let_def)
qed

section \<open>Verification\<close>

text \<open>
  The verification of a payment goes through guarded statements only, whatever happens in between.
  When the requests running beside it only ever perform statements of the intent and invoice services,
  a call of \<open>verifyPublicPayment\<close> that starts in a consistent database takes it through a run of these
  statements, each with its guard, and leaves it consistent, whether it returns or throws.
\<close>

theorem verify_refines_statements:
  assumes "evm_laws (ieEvm V)" "settlement_ok s" "\<And>k. colleague (others k)"
  shows "settle_run s (outcome (verifyPublicPayment V now others pid h) s) \<and>
    settlement_ok (outcome (verifyPublicPayment V now others pid h) s)"
proof -
  have "settle_run s (snd (verifyPublicPayment V now others pid h s))"
    using settle_verify [where others = others and V = V and ?s0.0 = s and pid = pid and submitted = h and now = now,
        OF assms(1,3)] assms(2) unfolding guarded_def by blast
  with settlement.good_run [OF this assms(2)] show ?thesis by (simp add: outcome_def)
qed

theorem verify_refines_statements_witness:
  "settlement_ok (outcome (verifyPublicPayment shop 7 (\<lambda>_. id) pub (hash_of (CHR ''1''))) billed)"
  using verify_refines_statements [of shop billed "\<lambda>_. id" 7 pub "hash_of (CHR ''1'')"] billed_ok lower_evm_laws
  by (simp add: bystander_def)

text \<open>
  C16: an answer to a verification request means that the invoice is paid by that transaction.  When
  \<open>verifyPublicPayment\<close> returns, under any interference, the stored invoice is PAID and its payment
  VERIFIED with exactly the submitted hash; and either it already was when the call began, or the
  verifier accepted the transaction on the chain for the invoice's own terms.
\<close>

theorem verify_paid:
  assumes "verifyPublicPayment V now others pid h s = (Inr w, t)"
    and "evm_laws (ieEvm V)" "settlement_ok s" "\<And>k. colleague (others k)"
  shows "paid_with pid (toLowerCase h) t \<and>
    (paid_with pid (toLowerCase h) s \<or>
     (\<exists>v\<in>set (invoices s). publicId v = pid \<and> chain_accepts V v (toLowerCase h)))"
proof -
  have "paid_with pid (toLowerCase h) t \<and> accepted_at V pid (toLowerCase h) s"
    using settlement.guardedD [OF settle_verify [OF assms(2,4)] assms(3) refl assms(1)] by blast
  then show ?thesis by (simp add: accepted_at_def)
qed

theorem verify_paid_witness:
  "\<exists>w t. verifyPublicPayment shop 7 (\<lambda>_. id) pub (hash_of (CHR ''1'')) billed = (Inr w, t) \<and>
     paid_with pub (hash_of (CHR ''1'')) t \<and> chain_accepts shop bill (hash_of (CHR ''1''))"
proof -
  obtain w t where run: "verifyPublicPayment shop 7 (\<lambda>_. id) pub (hash_of (CHR ''1'')) billed = (Inr w, t)"
    using bill_verify by blast
  have "evm_laws (ieEvm shop)" "\<And>k. colleague ((\<lambda>_. id) k)" by (simp_all add: lower_evm_laws bystander_def)
  from verify_paid [OF run this(1) billed_ok this(2)] run show ?thesis by (auto simp: paid_with_def)
qed

text \<open>
  C15: a paid invoice is backed by its own money movement.  After any sequence of calls of the two services
  on an empty database, every PAID invoice has a VERIFIED payment and a COMPLETED settlement
  intent for that invoice that carries the payment's hash, the invoice's amount and token, the merchant
  as recipient and the payer as source; and two paid invoices never share a transaction.
\<close>

theorem paid_invoices_settled:
  assumes "evm_laws (ieEvm V)" "t = settlement_calls V W cs empty_db"
  shows "settlement_ok t \<and>
    (\<forall>v\<in>set (invoices t). invoiceStatus v = INV_PAID \<longrightarrow>
       (\<exists>p\<in>set (payments t). \<exists>r\<in>set (intents t). \<exists>payer.
          paymentInvoiceId p = invoiceId v \<and> paymentStatus p = PAY_VERIFIED \<and> payerAddress p = Some payer \<and>
          settles v (paymentHash p) payer r)) \<and>
    (\<forall>p\<in>set (payments t). \<forall>q\<in>set (payments t). paymentHash p = paymentHash q \<longrightarrow> p = q)"
proof (intro conjI ballI impI)
  show ok: "settlement_ok t" using settlement_ok_calls [OF assms(1) settlement_ok_empty] assms(2) by simp
  show "\<exists>p\<in>set (payments t). \<exists>r\<in>set (intents t). \<exists>payer.
      paymentInvoiceId p = invoiceId v \<and> paymentStatus p = PAY_VERIFIED \<and> payerAddress p = Some payer \<and>
      settles v (paymentHash p) payer r"
    if v: "v \<in> set (invoices t)" and paid: "invoiceStatus v = INV_PAID" for v
  proof -
    have "invoice_fits (intents t) (payment_of v t) v" using ok v by (simp add: settlement_ok_def)
    then obtain p where p: "payment_of v t = Some p" "paymentStatus p = PAY_VERIFIED"
      "\<exists>payer. payerAddress p = Some payer \<and> (\<exists>r\<in>set (intents t). settles v (paymentHash p) payer r)"
      using paid unfolding invoice_fits_def by (cases "payment_of v t") auto
    with payment_of_Some [OF p(1)] show ?thesis by blast
  qed
  show "p = q" if "p \<in> set (payments t)" "q \<in> set (payments t)" "paymentHash p = paymentHash q" for p q
    using ok that by (auto simp: settlement_ok_def payments_unique_def distinct_map inj_on_def)
qed

theorem paid_invoices_settled_witness:
  "settlement_ok (settlement_calls shop (\<lambda>_. Inl TERMINAL)
     [(1, Create_invoice ''v'' pub \<lparr>merchantUser = ''m'', merchantWallet = addr (CHR ''b'')\<rparr>
        \<lparr>ciKind = None, ciToken = USDC, ciAmount = ''250'', ciTitle = ''t'', ciDescription = None,
         ciNumber = None, ciExpiresAt = None\<rparr>),
      (2, Verify_payment pub (hash_of (CHR ''1'')))] empty_db)"
  using paid_invoices_settled [OF _ refl, of shop] lower_evm_laws by simp

section \<open>An invoice is bound to one transaction\<close>

lemma paid_with_unique:
  assumes "settlement_ok s" "paid_with pid h s" "known_invoice v s" "known_payment p s"
    "publicId v = pid" "paymentInvoiceId p = invoiceId v"
  shows "paymentHash p = h"
proof -
  obtain w q where w: "w \<in> set (invoices s)" "q \<in> set (payments s)" "publicId w = pid"
    "paymentInvoiceId q = invoiceId w" "paymentHash q = h"
    using assms(2) by (auto simp: paid_with_def)
  obtain p' where p': "p' \<in> set (payments s)" "payment_evolves p p'" using assms(4) by (auto simp: known_def)
  have "invoice_terms v = invoice_terms w"
    using same_invoice [OF assms(1,3) invoice_rows.known_read] w(1,3) assms(5) by simp
  then have "paymentInvoiceId p' = paymentInvoiceId q"
    using p'(2) w(4) assms(6) by (simp add: payment_evolves_def invoice_terms_def)
  then have "p' = q" using unique_payments [of "payments s" p' q] assms(1) p'(1) w(2) by (simp add: settlement_ok_def)
  with p'(2) w(5) show ?thesis by (simp add: payment_evolves_def)
qed

lemma cancel_bound:
  assumes ok: "settlement_ok s" and v: "v \<in> set (invoices s)" "invoiceStatus v \<in> {INV_VERIFYING, INV_PAID}"
  shows "\<exists>e t. cancelInvoice V now m (invoiceId v) s = (Inl e, t)"
proof -
  let ?P = "\<lambda>v'. invoiceId v' = invoiceId v \<and> merchantUserId v' = merchantUser m \<and> invoiceStatus v' = INV_OPEN"
  let ?e = "update_rows (\<lambda>v'. (invoiceId v' = invoiceId v \<and> merchantUserId v' = merchantUser m) \<and>
      invoiceStatus v' = INV_OPEN \<and> (case expiresAt v' of None \<Rightarrow> False | Some t \<Rightarrow> t \<le> now))
      (\<lambda>v. v\<lparr>invoiceStatus := INV_EXPIRED\<rparr>) (invoices s)"
  have none: "\<not> ?P u" if u: "u \<in> set ?e" for u
  proof -
    obtain x where x: "x \<in> set (invoices s)" "invoiceId u = invoiceId x" "u = x \<or> invoiceStatus u = INV_EXPIRED"
      using u by (auto simp: update_rows_def split: if_splits)
    show ?thesis
    proof
      assume "?P u"
      then have "u = x" "x = v" using x v(1) ok unique_ids [of "invoices s" x v] by (auto simp: settlement_ok_def)
      with \<open>?P u\<close> v(2) show False by auto
    qed
  qed
  then have "count_rows ?P ?e = 0" by (simp add: count_zero)
  then show ?thesis
    by (simp add: cancelInvoice_def assertUuid_def andThen_def ensure_def expireOpenInvoices_def onInvoices_def
        updateMany_def findInvoice_def query_def throw_def split: option.split)
qed

text \<open>
  C17: once a hash is bound to an invoice, no other payment can settle it and the merchant cannot cancel it.
  Whatever the two services do after the payment row exists, and whether or not that transaction
  ever pays, \<open>verifyPublicPayment\<close> with any other hash throws, and so does \<open>cancel\<close>.
\<close>

theorem bound_invoice_stuck:
  assumes "evm_laws (ieEvm V)" "settlement_ok s" "\<And>k. colleague (others k)"
    and "v \<in> set (invoices s)" "payment_of v s = Some p" "settle_run s t" "toLowerCase h \<noteq> paymentHash p"
  shows "(\<exists>e u. verifyPublicPayment V now others (publicId v) h t = (Inl e, u)) \<and>
    (\<exists>e u. cancelInvoice V now m (invoiceId v) t = (Inl e, u))"
proof
  have ok: "settlement_ok t" using settlement.good_run [OF assms(6,2)] .
  have p: "p \<in> set (payments s)" "paymentInvoiceId p = invoiceId v" using payment_of_Some [OF assms(5)] by simp_all
  have known: "known_invoice v t" "known_payment p t"
    using settlement.stable_run [OF assms(6,2) stable_known(2)] settlement.stable_run [OF assms(6,2) stable_known(3)]
      invoice_rows.known_read [where get = invoices, OF assms(4)]
      payment_rows.known_read [where get = payments, OF p(1)] by blast+
  show "\<exists>e u. verifyPublicPayment V now others (publicId v) h t = (Inl e, u)"
  proof (rule ccontr)
    assume "\<not> ?thesis"
    then obtain w u where run: "verifyPublicPayment V now others (publicId v) h t = (Inr w, u)"
      by (metis prod.exhaust sum.exhaust)
    note g = settlement.guardedD [OF settle_verify [OF assms(1,3)] ok refl run]
    have "settlement_ok u" "known_invoice v u" "known_payment p u" "paid_with (publicId v) (toLowerCase h) u"
      using g settlement.good_run [OF _ ok] settlement.stable_run [OF _ ok stable_known(2) known(1)]
        settlement.stable_run [OF _ ok stable_known(3) known(2)] by blast+
    with paid_with_unique p(2) assms(7) show False by metis
  qed
  obtain v' where v': "v' \<in> set (invoices t)" "invoice_evolves v v'" using known(1) by (auto simp: known_def)
  have same: "invoiceId v' = invoiceId v" using v'(2) by (simp add: invoice_evolves_def invoice_terms_def)
  obtain p' where "p' \<in> set (payments t)" "payment_evolves p p'" using known(2) by (auto simp: known_def)
  then have "payment_of v' t = Some p'"
    using ok p(2) same by (intro payment_of_member) (simp_all add: settlement_ok_def payment_evolves_def)
  then have "invoiceStatus v' \<in> {INV_VERIFYING, INV_PAID}"
    using ok v'(1) by (force simp: settlement_ok_def invoice_fits_def)
  with cancel_bound [OF ok v'(1)] same show "\<exists>e u. cancelInvoice V now m (invoiceId v) t = (Inl e, u)" by simp
qed

lemma bill_locked_ok: "settlement_ok bill_locked"
proof -
  have "settle_write billed bill_locked"
    using lockInvoice_cases [OF billed_ok bill_lock] by simp
  then show ?thesis using billed_ok by (rule settle_write_ok)
qed

theorem bound_invoice_stuck_witness:
  "\<exists>e u. verifyPublicPayment shop 7 (\<lambda>_. id) pub (hash_of (CHR ''c'')) bill_locked = (Inl e, u)"
proof -
  have "payment_of locked_bill bill_locked = Some bill_payment" by (simp add: payment_of_def)
  moreover have "toLowerCase (hash_of (CHR ''c'')) \<noteq> paymentHash bill_payment" by simp
  moreover have "evm_laws (ieEvm shop)" "\<And>k. colleague ((\<lambda>_. id) k)" by (simp_all add: lower_evm_laws bystander_def)
  ultimately show ?thesis
    using bound_invoice_stuck [of shop bill_locked "\<lambda>_. id" locked_bill bill_payment bill_locked] bill_locked_ok
    by simp
qed

end
