(* ===== verification/InvoiceCreation.thy ===== *)
theory InvoiceCreation
  imports InvoiceTheorems
begin

text \<open>
  What \<open>InvoiceService.create\<close> stores and answers: the bounds of the amount and of the expiry, the state
  it leaves behind when it refuses, and the agreement of the printed amount with the amount charged.
\<close>

lemma toMerchant_new:
  assumes "evm_laws (ieEvm V)" "checksum (ieEvm V) a = Inr c" "merchantWalletAddress v = c"
    "invoiceAmountUnits v = show_nat n" "0 < n"
  shows "\<exists>w. toMerchant V (v, None) = Inr w \<and> pvAmountUnits w = show_nat n \<and> pvStatus w = invoiceStatus v \<and>
    pvPublicId w = publicId v \<and> pvAmount w = formatUnits V n (tokenDecimals v) \<and> pvAddress w = c"
proof -
  have "checksum (ieEvm V) c = Inr c"
    using assms(2) getAddress_canonical [OF assms(1)] by (simp add: checksum_def)
  then show ?thesis
    using assms(3-5)
    by (simp add: toMerchant_def toPublic_def toBigInt_positive positive_show Let_def merchant_invoice.defs
        public_invoice.defs)
qed

lemma insertInvoice_cases:
  "onInvoices (insertUnique invoices_unique v) s = (Inl e, t) \<Longrightarrow> t = s"
  "onInvoices (insertUnique invoices_unique v) s = (Inr w, t) \<Longrightarrow> w = v \<and> t = s\<lparr>invoices := invoices s @ [v]\<rparr>"
  by (auto simp: onInvoices_def insertUnique_def split: if_splits)

lemma expiryOf_Inr: "expiryOf V now x = Inr t \<Longrightarrow> now < t \<and> t \<le> now + MAX_EXPIRY_MS"
  by (auto simp: expiryOf_def)

lemma show_int_pos: "0 < n \<Longrightarrow> show_int n = show_nat (nat n)"
  by (simp add: show_int_def)

text \<open>
  An invoice is created exactly as it was asked for, or not at all.  When \<open>create\<close> throws, the
  database is unchanged.  When it returns, one row has been added, OPEN, for the parsed amount, which lies
  between one unit and a thousand million tokens, with an expiry later than now and at most a year
  ahead, paying the merchant's wallet; and the decimal amount shown to the customer parses to the amount charged.
\<close>

theorem create_outcome:
  assumes "createInvoice V now i pid m x s = (res, t)" and "evm_laws (ieEvm V)" "units_laws V"
  shows "case res of
      Inl e \<Rightarrow> t = s
    | Inr w \<Rightarrow> \<exists>v n e. t = s\<lparr>invoices := invoices s @ [v]\<rparr> \<and> invoiceStatus v = INV_OPEN \<and>
        invoiceId v = i \<and> publicId v = pid \<and> merchantUserId v = merchantUser m \<and>
        parseUnits V (ciAmount x) 6 = Some (int n) \<and> 0 < n \<and> int n \<le> INVOICE_MAX_AMOUNT_UNITS \<and>
        invoiceAmountUnits v = show_nat n \<and> expiresAt v = Some e \<and> now < e \<and> e \<le> now + MAX_EXPIRY_MS \<and>
        toLowerCase (merchantWalletAddress v) = toLowerCase (merchantWallet m) \<and>
        pvAmountUnits w = show_nat n \<and> parseUnits V (pvAmount w) 6 = Some (int n) \<and> pvStatus w = INV_OPEN"
proof (cases res)
  case (Inr w)
  obtain token amount expiry wallet v where steps:
    "parseUnits V (ciAmount x) 6 = Some amount" "0 < amount" "amount \<le> INVOICE_MAX_AMOUNT_UNITS"
    "expiryOf V now (ciExpiresAt x) = Inr expiry" "checksum (ieEvm V) (merchantWallet m) = Inr wallet"
    "v = \<lparr>invoiceId = i, publicId = pid, merchantUserId = merchantUser m,
         merchantWalletAddress = wallet, invoiceChainId = chainId (ieRouting V), tokenAddress = token,
         tokenSymbol = ciToken x, tokenDecimals = 6, invoiceAmountUnits = show_int amount,
         title = js_trim (ciTitle x), description = trim_or_null (ciDescription x),
         invoiceNumber = trim_or_null (ciNumber x),
         settlementKind = (case ciKind x of None \<Rightarrow> KIND_INVOICE | Some k \<Rightarrow> k),
         invoiceStatus = INV_OPEN, expiresAt = Some expiry, paidAt = None, cancelledAt = None\<rparr>"
    "t = s\<lparr>invoices := invoices s @ [v]\<rparr>" "toMerchant V (v, None) = Inr w"
    using assms(1) unfolding Inr createInvoice_def Let_def
    by (auto simp: andThen_Inr_iff dest!: insertInvoice_cases(2))
  obtain n where n: "amount = int n" "0 < n" using steps(2) by (metis zero_less_imp_eq_int)
  have v: "merchantWalletAddress v = wallet" "invoiceAmountUnits v = show_nat n" "tokenDecimals v = 6"
    "invoiceStatus v = INV_OPEN" "expiresAt v = Some expiry"
    using n by (simp_all add: steps(6) show_int_pos)
  obtain w' where "toMerchant V (v, None) = Inr w'" "pvAmountUnits w' = show_nat n" "pvStatus w' = INV_OPEN"
    "pvAmount w' = formatUnits V n 6"
    using toMerchant_new [OF assms(2) steps(5) v(1,2) n(2)] v by auto
  moreover have "toLowerCase wallet = toLowerCase (merchantWallet m)"
    using steps(5) getAddress_Some(1) [OF assms(2)] by (simp add: checksum_def)
  ultimately show ?thesis
    using steps v n expiryOf_Inr [OF steps(4)] assms(3)
    unfolding Inr sum.case
    by (intro exI [of _ v] exI [of _ n] exI [of _ expiry]) (auto simp: units_laws_def)
next
  case (Inl e)
  have "t = s"
  proof (rule ccontr)
    assume "t \<noteq> s"
    then have "\<exists>v amount. 0 < amount \<and> checksum (ieEvm V) (merchantWallet m) = Inr (merchantWalletAddress v) \<and>
      invoiceAmountUnits v = show_int amount \<and> toMerchant V (v, None) = Inl e"
      using assms(1) unfolding Inl createInvoice_def Let_def
      by (auto simp: andThen_Inl_iff not_le dest: insertInvoice_cases(1) dest!: insertInvoice_cases(2))
        (force intro: exI [of _ "\<lparr>invoiceId = _, publicId = _, merchantUserId = _, merchantWalletAddress = _,
           invoiceChainId = _, tokenAddress = _, tokenSymbol = _, tokenDecimals = _, invoiceAmountUnits = _,
           title = _, description = _, invoiceNumber = _, settlementKind = _, invoiceStatus = _, expiresAt = _,
           paidAt = _, cancelledAt = _\<rparr>"])
    then obtain amount v wallet where "0 < amount" "checksum (ieEvm V) (merchantWallet m) = Inr wallet"
      "merchantWalletAddress v = wallet" "invoiceAmountUnits v = show_int amount" "toMerchant V (v, None) = Inl e"
      by blast
    with toMerchant_new [OF assms(2), of "merchantWallet m" wallet v "nat amount"] show False
      by (auto simp: show_int_pos)
  qed
  with Inl show ?thesis by simp
qed

definition new_bill :: create_invoice where
  "new_bill = \<lparr>ciKind = None, ciToken = USDC, ciAmount = ''250'', ciTitle = ''t'', ciDescription = None,
     ciNumber = None, ciExpiresAt = None\<rparr>"

definition shop_owner :: merchant where
  "shop_owner = \<lparr>merchantUser = ''m'', merchantWallet = addr (CHR ''b'')\<rparr>"

lemma create_bill: "\<exists>w t. createInvoice shop 7 ''v'' pub shop_owner new_bill empty_db = (Inr w, t)"
proof -
  obtain d where d: "bindR (decide lower_evm hex_arc (JStr ARC_MAINNET) INVOICE (JStr (addr (CHR ''5'')))
     (JStr (addr (CHR ''5'')))) assertExecutable = Inr d"
    using decide_bill by blast
  have amount: "parseUnits shop ''250'' 6 = Some 250"
    by (simp add: shop_def read_nat_def digit_val_def)
  have expiry: "expiryOf shop 7 None = Inr (7 + DEFAULT_EXPIRY_MS)"
    by (simp add: expiryOf_def DEFAULT_EXPIRY_MS_def MAX_EXPIRY_MS_def ensureR_def)
  have "\<exists>w. toMerchant shop (v, None) = Inr w"
    if "merchantWalletAddress v = addr (CHR ''b'')" "invoiceAmountUnits v = show_int 250" for v
    using toMerchant_new [of shop "addr (CHR ''b'')" "addr (CHR ''b'')" v 250] lower_evm_laws that
    by (auto simp: show_int_pos)
  then show ?thesis
    by (simp add: createInvoice_def new_bill_def shop_owner_def andThen_def lift_def assertCapability_def ensureR_def
        canonicalToken_def d amount ensure_def INVOICE_MAX_AMOUNT_UNITS_def js_trim_def is_space_def expiry
        onInvoices_def insertUnique_def empty_db_def invoices_unique_def Let_def fromSome_def)
qed

theorem create_outcome_witness:
  "\<exists>w t v. createInvoice shop 7 ''v'' pub shop_owner new_bill empty_db = (Inr w, t) \<and>
     t = empty_db\<lparr>invoices := [v]\<rparr> \<and> invoiceStatus v = INV_OPEN \<and> invoiceAmountUnits v = show_nat 250"
proof -
  obtain w t where run: "createInvoice shop 7 ''v'' pub shop_owner new_bill empty_db = (Inr w, t)"
    using create_bill by blast
  have "units_laws shop" by (simp add: units_laws_def shop_def)
  moreover have "parseUnits shop (ciAmount new_bill) 6 = Some (int 250)"
    by (simp add: shop_def new_bill_def read_nat_def digit_val_def)
  ultimately show ?thesis
    using create_outcome [OF run] lower_evm_laws run by (auto simp: empty_db_def)
qed

end
