(* ===== verification/RateLimit.thy ===== *)
theory RateLimit
  imports Prelude "HOL-Library.AList"
begin

text \<open>
  The rate limiter of the public verification endpoint (\<open>enforceRateLimit\<close> of
  \<open>apps/backend/src/invoice/public-invoice.controller.ts\<close>): at most twelve accepted requests of one client
  for one invoice within any minute, kept in a map from \<open>ip:publicId\<close> to the times of
  the accepted requests, which is cleared of stale entries when it grows beyond 5000.
\<close>

type_synonym attempts = "(string \<times> int list) list"

definition RATE_LIMITED :: exn where
  "RATE_LIMITED = TooManyRequests ''INVOICE_VERIFY_RATE_LIMITED'' True"

definition recent :: "int \<Rightarrow> int \<Rightarrow> bool" where
  "recent now timestamp \<longleftrightarrow> now - timestamp < 60000"

definition stored :: "attempts \<Rightarrow> string \<Rightarrow> int list" where
  "stored A key = (case map_of A key of None \<Rightarrow> [] | Some ts \<Rightarrow> ts)"

definition evict :: "int \<Rightarrow> attempts \<Rightarrow> attempts" where
  "evict now A = (if 5000 < length A then filter (\<lambda>(_, ts). list_ex (recent now) ts) A else A)"

definition enforceRateLimit :: "int \<Rightarrow> string \<Rightarrow> (attempts, unit) op" where
  "enforceRateLimit now key A =
     (let active = filter (recent now) (stored A key) in
      if 12 \<le> length active then (Inl RATE_LIMITED, A)
      else (Inr (), evict now (AList.update key (active @ [now]) A)))"

section \<open>Sequences of requests\<close>

fun admitted :: "(int \<times> string) list \<Rightarrow> attempts \<Rightarrow> bool list" where
  "admitted [] A = []"
| "admitted ((now, key) # rest) A =
     (case enforceRateLimit now key A of (r, B) \<Rightarrow> (r = Inr ()) # admitted rest B)"

text \<open>The specification: a request passes when fewer than twelve of this key passed within the minute.\<close>

fun spec_admitted :: "(int \<times> string) list \<Rightarrow> (int \<times> string) list \<Rightarrow> bool list" where
  "spec_admitted [] passed = []"
| "spec_admitted ((now, key) # rest) passed =
     (let pass = length (filter (\<lambda>(t, k). k = key \<and> recent now t) passed) < 12
      in pass # spec_admitted rest (if pass then passed @ [(now, key)] else passed))"

lemma stored_evict: "distinct (map fst A) \<Longrightarrow> filter (recent now) (stored (evict now A) key) = filter (recent now) (stored A key)"
proof -
  assume d: "distinct (map fst A)"
  have "map_of (filter (\<lambda>(_, ts). list_ex (recent now) ts) A) key =
      (case map_of A key of None \<Rightarrow> None | Some ts \<Rightarrow> if list_ex (recent now) ts then Some ts else None)"
    using d by (induction A) (auto simp: map_of_eq_None_iff rev_image_eqI split: option.splits)
  moreover have "\<not> list_ex (recent now) ts \<Longrightarrow> filter (recent now) ts = []" for ts
    by (simp add: list_ex_iff filter_empty_conv)
  ultimately show ?thesis by (simp add: evict_def stored_def split: option.split)
qed

lemma recent_now [simp]: "recent now now"
  by (simp add: recent_def)

lemma length_filter_le: "(\<And>x. P x \<Longrightarrow> Q x) \<Longrightarrow> length (filter P xs) \<le> length (filter Q xs)"
  by (induction xs) auto

lemma distinct_evict: "distinct (map fst A) \<Longrightarrow> distinct (map fst (evict now A))"
  by (simp add: evict_def distinct_map_filter)

lemma stored_update: "stored (AList.update key ts A) k = (if k = key then ts else stored A k)"
  by (simp add: stored_def update_conv)

definition remembers :: "int \<Rightarrow> (int \<times> string) list \<Rightarrow> attempts \<Rightarrow> bool" where
  "remembers now passed A \<longleftrightarrow> distinct (map fst A) \<and>
     (\<forall>key. filter (recent now) (stored A key) = filter (recent now) (map fst (filter (\<lambda>(t, k). k = key) passed)))"

lemma recent_later: "now \<le> later \<Longrightarrow> recent later t \<Longrightarrow> recent now t"
  by (simp add: recent_def)

lemma remembers_later: "remembers now passed A \<Longrightarrow> now \<le> later \<Longrightarrow> remembers later passed A"
proof -
  assume r: "remembers now passed A" and le: "now \<le> later"
  have "filter (recent later) xs = filter (recent later) (filter (recent now) xs)" for xs
    using recent_later [OF le] by (auto simp: filter_filter intro: filter_cong)
  with r show ?thesis unfolding remembers_def by metis
qed

lemma enforce_spec:
  assumes "remembers now passed A"
  shows "fst (enforceRateLimit now key A) = Inr () \<longleftrightarrow>
      length (filter (\<lambda>(t, k). k = key \<and> recent now t) passed) < 12"
    and "remembers now (if fst (enforceRateLimit now key A) = Inr () then passed @ [(now, key)] else passed)
      (snd (enforceRateLimit now key A))"
proof -
  let ?active = "filter (recent now) (stored A key)"
  have "length ?active = length (filter (\<lambda>(t, k). k = key \<and> recent now t) passed)"
  proof -
    have "?active = filter (recent now) (map fst (filter (\<lambda>(t, k). k = key) passed))"
      using assms by (simp add: remembers_def)
    also have "\<dots> = map fst (filter (\<lambda>(t, k). k = key \<and> recent now t) passed)"
      by (induction passed) auto
    finally show ?thesis by simp
  qed
  then show "fst (enforceRateLimit now key A) = Inr () \<longleftrightarrow>
      length (filter (\<lambda>(t, k). k = key \<and> recent now t) passed) < 12"
    by (simp add: enforceRateLimit_def Let_def)
  show "remembers now (if fst (enforceRateLimit now key A) = Inr () then passed @ [(now, key)] else passed)
      (snd (enforceRateLimit now key A))"
  proof (cases "12 \<le> length ?active")
    case True
    with assms show ?thesis by (simp add: enforceRateLimit_def Let_def)
  next
    case False
    let ?B = "AList.update key (?active @ [now]) A"
    have d: "distinct (map fst ?B)" using assms by (simp add: remembers_def distinct_update)
    have "filter (recent now) (stored ?B k) =
        filter (recent now) (map fst (filter (\<lambda>(t, k'). k' = k) (passed @ [(now, key)])))" for k
      using assms by (simp add: stored_update remembers_def)
    with d False show ?thesis
      by (simp add: enforceRateLimit_def Let_def remembers_def stored_evict distinct_evict)
  qed
qed

lemma admitted_spec:
  "remembers start passed A \<Longrightarrow> sorted (start # map fst calls) \<Longrightarrow> admitted calls A = spec_admitted calls passed"
proof (induction calls arbitrary: start passed A)
  case Nil
  show ?case by simp
next
  case (Cons c calls)
  obtain now key where c: "c = (now, key)" by fastforce
  have le: "start \<le> now" "sorted (now # map fst calls)" using Cons.prems(2) c by simp_all
  note r = remembers_later [OF Cons.prems(1) le(1)]
  obtain res B where e: "enforceRateLimit now key A = (res, B)" by fastforce
  from enforce_spec [OF r, of key] e Cons.IH [OF _ le(2), of _ B]
  show ?case by (auto simp: c Let_def)
qed

lemma spec_bounded:
  assumes "\<And>t. length (filter (\<lambda>(u, k). k = key \<and> t - 60000 < u \<and> u \<le> t) passed) \<le> 12"
    and "sorted (map fst (passed @ calls))"
  shows "length (filter (\<lambda>(u, k). k = key \<and> t - 60000 < u \<and> u \<le> t)
    (passed @ map fst (filter snd (zip calls (spec_admitted calls passed))))) \<le> 12"
  using assms
proof (induction calls arbitrary: passed)
  case Nil
  then show ?case by simp
next
  case (Cons c calls)
  obtain now k where c: "c = (now, k)" by fastforce
  let ?pass = "length (filter (\<lambda>(t, k'). k' = k \<and> recent now t) passed) < 12"
  show ?case
  proof (cases ?pass)
    case False
    have "sorted (map fst (passed @ calls))" using Cons.prems(2) by (auto simp: sorted_append)
    with Cons.IH [OF Cons.prems(1)] False show ?thesis by (simp add: c Let_def)
  next
    case True
    have "length (filter (\<lambda>(u, k'). k' = key \<and> s - 60000 < u \<and> u \<le> s) (passed @ [c])) \<le> 12" for s
    proof (cases "k = key \<and> s - 60000 < now \<and> now \<le> s")
      case in_window: True
      have "length (filter (\<lambda>(u, k'). k' = key \<and> s - 60000 < u \<and> u \<le> s) passed) \<le>
          length (filter (\<lambda>(t, k'). k' = k \<and> recent now t) passed)"
        using in_window by (intro length_filter_le) (auto simp: recent_def)
      with True in_window show ?thesis by (simp add: c)
    next
      case False
      with Cons.prems(1) [of s] show ?thesis by (auto simp: c)
    qed
    from Cons.IH [OF this] Cons.prems(2) True show ?thesis by (simp add: c Let_def)
  qed
qed



end
