(* ===== verification/PayrollPlan.thy ===== *)
theory PayrollPlan
  imports ExecutionIntent Capability Invoice "HOL-Library.Multiset"
begin

text \<open>
  The planning of a payroll run, before any money moves: the validation of the recipients
  (\<open>apps/backend/src/agents/payroll/payroll-validation.service.ts\<close>), their division into batches
  (\<open>payroll-batch.service.ts\<close>), the references of the batches, the approval amount with fees
  (\<open>apps/backend/src/task/task.service.ts\<close>) and the digest a batch is bound to
  (\<open>createPayrollBatchDigest\<close> of \<open>execution-intent.service.ts\<close>).
\<close>

section \<open>Amounts\<close>

definition before_dot :: "string \<Rightarrow> string" where
  "before_dot s = takeWhile (\<lambda>c. c \<noteq> CHR ''.'') s"

definition after_dot :: "string \<Rightarrow> string" where
  "after_dot s = drop (Suc (length (before_dot s))) s"

text \<open>The regular expression \<open>/^(?:0|[1-9]\d*)(?:\.\d{1,6})?$/\<close>.\<close>

definition is_amount :: "string \<Rightarrow> bool" where
  "is_amount s \<longleftrightarrow> canonical_uint (before_dot s) \<and>
     (before_dot s = s \<or>
      (1 \<le> length (after_dot s) \<and> length (after_dot s) \<le> 6 \<and> list_all is_digit (after_dot s)))"

definition padEnd :: "nat \<Rightarrow> string \<Rightarrow> string" where
  "padEnd n s = s @ replicate (n - length s) (CHR ''0'')"

definition parseAmountToUnits :: "string \<Rightarrow> nat \<Rightarrow> int" where
  "parseAmountToUnits value decimals =
     (let s = js_trim value in
      if s = [] then 0
      else case toBigInt (before_dot s @ take decimals (padEnd decimals (before_dot (after_dot s)))) of
             Inl _ \<Rightarrow> 0
           | Inr n \<Rightarrow> n)"

section \<open>Validation\<close>

record recipient_plan =
  rpAddress :: string
  rpAmount :: string
  rpUnits :: int
  rpToken :: string
  rpTokenAddress :: string

text \<open>The messages of the errors are left out; which checks failed is kept.\<close>

datatype payroll_error =
    Bad_source_token | Bad_reference | No_recipients
  | Bad_entry nat | Bad_address nat | Bad_amount nat | Bad_token nat

text \<open>\<open>String(v)\<close> of a JSON value.\<close>

fun js_string :: "js \<Rightarrow> string" where
  "js_string JUndefined = ''undefined''"
| "js_string JNull = ''null''"
| "js_string (JBool b) = (if b then ''true'' else ''false'')"
| "js_string (JNum n) = show_nat n"
| "js_string (JStr s) = s"
| "js_string (JArr xs) =
     join_comma (map (\<lambda>v. if v = JUndefined \<or> v = JNull then [] else js_string v) xs)"
| "js_string (JObj es) = ''[object Object]''"

definition js_str :: "js \<Rightarrow> string option" where
  "js_str v = (case v of JStr s \<Rightarrow> Some s | _ \<Rightarrow> None)"

definition supported_token :: "js \<Rightarrow> bool" where
  "supported_token v \<longleftrightarrow> v = JStr ''USDC'' \<or> v = JStr ''EURC''"

definition js_length :: "js \<Rightarrow> nat" where
  "js_length v = (case v of JStr s \<Rightarrow> length s | JArr xs \<Rightarrow> length xs | _ \<Rightarrow> 0)"

definition blank :: "js \<Rightarrow> bool" where
  "blank v \<longleftrightarrow> v = JUndefined \<or> v = JNull \<or> v = JStr []"

text \<open>\<open>isAddress(s.trim()) ? getAddress(s.trim()) : null\<close>; an address viem accepts never makes \<open>getAddress\<close> throw.\<close>

definition normalAddress :: "evm \<Rightarrow> string option \<Rightarrow> string option" where
  "normalAddress E x =
     (case x of None \<Rightarrow> None | Some s \<Rightarrow> if isAddress E (js_trim s) then getAddress E (js_trim s) else None)"

definition getRecipientAddressValue :: "js \<Rightarrow> string option" where
  "getRecipientAddressValue r =
     (case js_str (js_get ''address'' r) of
        Some s \<Rightarrow> Some s
      | None \<Rightarrow> js_str (js_get ''recipientAddress'' r))"

definition addressErrors :: "evm \<Rightarrow> string option \<Rightarrow> nat \<Rightarrow> js \<Rightarrow> payroll_error list" where
  "addressErrors E sender i r =
     (let value = getRecipientAddressValue r; normalized = normalAddress E value in
      if \<not> truthy value \<or> normalized = None then [Bad_address i]
      else if sender \<noteq> None \<and> isAddressEqual E (the sender) (the normalized) = Some True then [Bad_address i]
      else [])"

definition amountErrors :: "nat \<Rightarrow> js \<Rightarrow> payroll_error list" where
  "amountErrors i v =
     (if blank v then [Bad_amount i]
      else case v of
          JStr s \<Rightarrow> if \<not> is_amount s \<or> parseAmountToUnits s 6 \<le> 0 then [Bad_amount i] else []
        | _ \<Rightarrow> [Bad_amount i])"

definition targetOf :: "js \<Rightarrow> js \<Rightarrow> js" where
  "targetOf source r = js_or (js_get ''targetToken'' r) (js_or source (JStr ''USDC''))"

definition plannedRecipient :: "evm \<Rightarrow> js \<Rightarrow> js \<Rightarrow> js \<Rightarrow> recipient_plan list" where
  "plannedRecipient E source sourceAddress r =
     (let normalized = normalAddress E (getRecipientAddressValue r);
          v = js_get ''amount'' r; amount = js_string v in
      if normalized \<noteq> None \<and> \<not> blank v \<and> is_amount amount \<and> 0 < parseAmountToUnits amount 6
      then [\<lparr>rpAddress = the normalized, rpAmount = amount, rpUnits = parseAmountToUnits amount 6,
             rpToken = js_string (targetOf source r),
             rpTokenAddress = (case js_str (js_get ''targetTokenAddress'' r) of
                Some a \<Rightarrow> a
              | None \<Rightarrow> (case js_str sourceAddress of Some a \<Rightarrow> a | None \<Rightarrow> []))\<rparr>]
      else [])"

definition validateRecipient ::
  "evm \<Rightarrow> js \<Rightarrow> js \<Rightarrow> string option \<Rightarrow> nat \<Rightarrow> js \<Rightarrow> payroll_error list \<times> recipient_plan list" where
  "validateRecipient E source sourceAddress sender i r =
     (if \<not> js_is_object r then ([Bad_entry i], [])
      else (addressErrors E sender i r @ amountErrors i (js_get ''amount'' r) @
            (if supported_token (targetOf source r) then [] else [Bad_token i]),
            plannedRecipient E source sourceAddress r))"

text \<open>
  \<open>validate\<close> gives the errors and the validated recipients; the payload is valid without errors.
\<close>

definition validatePayroll :: "evm \<Rightarrow> js \<Rightarrow> payroll_error list \<times> recipient_plan list" where
  "validatePayroll E payload =
     (let source = js_get ''sourceToken'' payload;
          e0 = (if supported_token source then [] else [Bad_source_token]) @
               (if 64 < js_length (js_get ''referenceId'' payload) then [Bad_reference] else []);
          sender = normalAddress E (js_str (js_get ''walletAddress'' payload)) in
      case js_get ''recipients'' payload of
        JArr (r # rs) \<Rightarrow>
          (let entries = map (\<lambda>(i, r). validateRecipient E source (js_get ''sourceTokenAddress'' payload) sender i r)
                 (enumerate 0 (r # rs))
           in (e0 @ concat (map fst entries), concat (map snd entries)))
      | _ \<Rightarrow> (e0 @ [No_recipients], []))"

section \<open>Batches\<close>

definition MAX_BATCH_SIZE :: nat where
  "MAX_BATCH_SIZE = 50"

record batch =
  bIndex :: nat
  bRecipients :: "recipient_plan list"
  bTotal :: int

text \<open>A JavaScript \<open>Map\<close> keeps its keys in the order of their first insertion.\<close>

fun addToGroup :: "recipient_plan \<Rightarrow> (string \<times> recipient_plan list) list \<Rightarrow> (string \<times> recipient_plan list) list" where
  "addToGroup r [] = [(rpToken r, [r])]"
| "addToGroup r ((t, rs) # gs) = (if t = rpToken r then (t, rs @ [r]) # gs else (t, rs) # addToGroup r gs)"

definition groupByToken :: "recipient_plan list \<Rightarrow> (string \<times> recipient_plan list) list" where
  "groupByToken rs = fold addToGroup rs []"

function chunks :: "'a list \<Rightarrow> 'a list list" where
  "chunks xs = (if xs = [] then [] else take MAX_BATCH_SIZE xs # chunks (drop MAX_BATCH_SIZE xs))"
  by pat_completeness auto
termination by (relation "measure length") (auto simp: MAX_BATCH_SIZE_def)

declare chunks.simps [simp del]

definition splitIntoBatches :: "recipient_plan list \<Rightarrow> batch list" where
  "splitIntoBatches rs =
     map (\<lambda>(i, chunk). \<lparr>bIndex = i, bRecipients = chunk, bTotal = sum_list (map rpUnits chunk)\<rparr>)
       (enumerate 0 (concat (map (\<lambda>(_, group). chunks group) (groupByToken rs))))"

record batch_totals =
  totAmount :: int
  totRecipients :: nat
  totBatches :: nat
  totBreakdown :: "(nat \<times> nat \<times> int) list"

definition calculateTotals :: "batch list \<Rightarrow> batch_totals" where
  "calculateTotals bs =
     \<lparr>totAmount = sum_list (map bTotal bs), totRecipients = sum_list (map (\<lambda>b. length (bRecipients b)) bs),
      totBatches = length bs,
      totBreakdown = map (\<lambda>b. (bIndex b, length (bRecipients b), bTotal b)) bs\<rparr>"

definition calculateApprovalRequirement :: "batch \<Rightarrow> string \<Rightarrow> int" where
  "calculateApprovalRequirement b source =
     fold (\<lambda>r total. if rpToken r = source then total else total + rpUnits r) (bRecipients b) 0"

section \<open>Approval, references and digest\<close>

definition readPayrollFeeBps :: int where
  "readPayrollFeeBps = 25"

definition payrollSameTokenApprovalAmountWithFee :: "recipient_plan list \<Rightarrow> string \<Rightarrow> int \<Rightarrow> int" where
  "payrollSameTokenApprovalAmountWithFee rs source feeBps =
     fold (\<lambda>r total. if rpToken r \<noteq> source then total else if rpUnits r \<le> 0 then total
        else total + (rpUnits r + rpUnits r * feeBps div 10000)) rs 0"

definition normalizeReferenceId :: "int \<Rightarrow> js \<Rightarrow> string" where
  "normalizeReferenceId now v =
     (case v of
        JStr s \<Rightarrow> if js_trim s \<noteq> [] then js_trim s else ''PAY-'' @ show_int now
      | _ \<Rightarrow> ''PAY-'' @ show_int now)"

text \<open>
  The match of \<open>/(.*)-(\d+)$/\<close>: the digits at the end, after a dash, and what precedes the dash on
  the same line.  A sum beyond \<open>Number.MAX_SAFE_INTEGER\<close> is a rounded double; how JavaScript prints
  it is the parameter \<open>rounded\<close>.
\<close>

definition digit_suffix :: "string \<Rightarrow> string" where
  "digit_suffix s = rev (takeWhile is_digit (rev s))"

definition dash_prefix :: "string \<Rightarrow> string option" where
  "dash_prefix s =
     (case drop (length (digit_suffix s)) (rev s) of
        c # front \<Rightarrow> if c = CHR ''-'' \<and> digit_suffix s \<noteq> [] then Some (rev front) else None
      | [] \<Rightarrow> None)"

definition last_line :: "string \<Rightarrow> string" where
  "last_line s = rev (takeWhile (\<lambda>c. (of_char c :: nat) \<noteq> 10 \<and> (of_char c :: nat) \<noteq> 13) (rev s))"

definition getBatchReferenceId :: "(string \<Rightarrow> nat \<Rightarrow> string) \<Rightarrow> string \<Rightarrow> nat \<Rightarrow> string" where
  "getBatchReferenceId rounded base i =
     (if i = 0 then base
      else case dash_prefix base of
          Some prefix \<Rightarrow>
            last_line prefix @ ''-'' @
              (if read_nat (digit_suffix base) + i \<le> MAX_SAFE_INTEGER
               then show_nat (read_nat (digit_suffix base) + i) else rounded (digit_suffix base) i)
        | None \<Rightarrow> base @ ''-'' @ show_nat (i + 1))"

text \<open>One line of a digest: the recipient, the token and the amount.\<close>

definition digestEntry :: "evm \<Rightarrow> nat \<times> string \<times> string \<times> string \<Rightarrow> js res" where
  "digestEntry E e =
     (case e of (i, payee, token, amt) \<Rightarrow>
       bindR (fromSome invalidAddress (getAddress E payee)) (\<lambda>a.
       bindR (fromSome invalidAddress (getAddress E token)) (\<lambda>t.
       bindR (ensureR (positive_uint amt) (PlainError ''Payroll amount must be positive base units.'')) (\<lambda>_.
       Inr (JObj [(''index'', JNum i), (''recipient'', JStr (toLowerCase a)), (''token'', JStr (toLowerCase t)),
                  (''amountUnits'', JStr (show_nat (read_nat amt)))])))))"

definition createPayrollBatchDigest :: "evm \<Rightarrow> (string \<times> string \<times> string) list \<Rightarrow> string res" where
  "createPayrollBatchDigest E entries =
     bindR (ensureR (entries \<noteq> []) (PlainError ''Payroll batch cannot be empty.'')) (\<lambda>_.
     bindR (mapR (digestEntry E) (enumerate 0 entries)) (\<lambda>items.
     bindR (stableJson (JArr items)) (\<lambda>text.
     Inr (sha256 E text))))"

section \<open>Transaction identifiers\<close>

definition is_base58 :: "char \<Rightarrow> bool" where
  "is_base58 c \<longleftrightarrow> (let n = (of_char c :: nat) in
     (49 \<le> n \<and> n \<le> 57) \<or> (65 \<le> n \<and> n \<le> 72) \<or> (74 \<le> n \<and> n \<le> 78) \<or> (80 \<le> n \<and> n \<le> 90) \<or>
     (97 \<le> n \<and> n \<le> 107) \<or> (109 \<le> n \<and> n \<le> 122))"

definition isSolanaSignature :: "string \<Rightarrow> bool" where
  "isSolanaSignature s \<longleftrightarrow> 64 \<le> length (js_trim s) \<and> length (js_trim s) \<le> 88 \<and> list_all is_base58 (js_trim s)"

definition isEvmTxHash :: "string \<Rightarrow> bool" where
  "isEvmTxHash s \<longleftrightarrow> is_hash (js_trim s)"

definition normalizeChainTxId :: "string option \<Rightarrow> string option" where
  "normalizeChainTxId v =
     (case v of
        None \<Rightarrow> None
      | Some s \<Rightarrow> if isEvmTxHash (js_trim s) \<or> isSolanaSignature (js_trim s) then Some (js_trim s) else None)"

end
