(* ===== verification/PayrollPlanProperties.thy ===== *)
theory PayrollPlanProperties
  imports PayrollPlan IntentTheorems
begin

text \<open>
  What the planning of a payroll run guarantees: the batches are the recipients, each in one batch of one
  token; the approval covers the batches with their fees; a valid payload is planned exactly; the
  references of the batches are different; a digest determines its batch.
\<close>

section \<open>Groups\<close>

abbreviation of_token :: "string \<Rightarrow> recipient_plan list \<Rightarrow> recipient_plan list" where
  "of_token t \<equiv> filter (\<lambda>r. rpToken r = t)"

definition grouped :: "recipient_plan list \<Rightarrow> (string \<times> recipient_plan list) list \<Rightarrow> bool" where
  "grouped rs G \<longleftrightarrow> distinct (map fst G) \<and> (\<forall>(t, g)\<in>set G. g \<noteq> [] \<and> g = of_token t rs) \<and>
     rpToken ` set rs = fst ` set G"

lemma addToGroup_fresh: "rpToken r \<notin> fst ` set G \<Longrightarrow> addToGroup r G = G @ [(rpToken r, [r])]"
  by (induction r G rule: addToGroup.induct) auto

lemma addToGroup_old:
  "distinct (map fst G) \<Longrightarrow> rpToken r \<in> fst ` set G \<Longrightarrow>
   addToGroup r G = map (\<lambda>(t, g). (t, if t = rpToken r then g @ [r] else g)) G"
proof (induction r G rule: addToGroup.induct)
  case (1 r)
  then show ?case by simp
next
  case (2 r t rs gs)
  show ?case
  proof (cases "t = rpToken r")
    case True
    with 2 have "map (\<lambda>(t, g). (t, if t = rpToken r then g @ [r] else g)) gs = gs"
      by (intro map_idI) (auto, metis fst_conv image_eqI)
    with True show ?thesis by simp
  next
    case False
    with 2 show ?thesis by auto
  qed
qed

lemma grouped_add:
  assumes "grouped rs G"
  shows "grouped (rs @ [r]) (addToGroup r G)"
proof (cases "rpToken r \<in> fst ` set G")
  case True
  let ?f = "\<lambda>(t, g). (t, if t = rpToken r then g @ [r] else g)"
  have eq: "addToGroup r G = map ?f G" using assms True by (intro addToGroup_old) (simp_all add: grouped_def)
  have keys: "map fst (map ?f G) = map fst G" by (simp add: comp_def case_prod_beta)
  have "\<forall>(t, g)\<in>set (map ?f G). g \<noteq> [] \<and> g = of_token t (rs @ [r])"
    using assms by (auto simp: grouped_def split: if_splits)
  moreover have "fst ` set (map ?f G) = fst ` set G" using keys by (metis list.set_map)
  ultimately show ?thesis
    using assms True unfolding eq grouped_def keys by auto
next
  case False
  have "rpToken x \<noteq> rpToken r" if "x \<in> set rs" for x
    using assms False that unfolding grouped_def by (metis image_eqI)
  then have "of_token (rpToken r) rs = []" by (simp add: filter_empty_conv)
  moreover have "t \<noteq> rpToken r" if "(t, g) \<in> set G" for t g
    using False that by (metis fst_conv image_eqI)
  ultimately show ?thesis
    using assms False by (auto simp: grouped_def addToGroup_fresh)
qed

lemma grouped_groups: "grouped rs (groupByToken rs)"
proof (induction rs rule: rev_induct)
  case Nil
  show ?case by (simp add: grouped_def groupByToken_def)
next
  case (snoc r rs)
  from grouped_add [OF this, of r] show ?case by (simp add: groupByToken_def)
qed

lemma of_token_concat:
  assumes "grouped rs G"
  shows "of_token t (concat (map snd G)) = of_token t rs"
proof -
  have other: "of_token t (of_token u rs) = (if u = t then of_token t rs else [])" for u
    by (auto simp: filter_empty_conv)
  have "of_token t (concat (map snd G')) = (if t \<in> fst ` set G' then of_token t rs else [])"
    if "distinct (map fst G')" "\<forall>(t, g)\<in>set G'. g = of_token t rs" for G'
    using that
  proof (induction G')
    case Nil
    then show ?case by simp
  next
    case (Cons a G')
    then have "of_token t (snd a) = (if fst a = t then of_token t rs else [])" using other [of "fst a"] by auto
    with Cons show ?case by (auto simp del: filter_filter)
  qed
  moreover have "of_token t rs = []" if "t \<notin> fst ` set G"
    using assms that by (auto simp: grouped_def filter_empty_conv)
  moreover have "distinct (map fst G)" "\<forall>(t, g)\<in>set G. g = of_token t rs"
    using assms by (auto simp: grouped_def)
  ultimately show ?thesis by metis
qed

section \<open>Chunks\<close>

lemma concat_chunks: "concat (chunks xs) = xs"
proof (induction xs rule: chunks.induct)
  case (1 xs)
  then show ?case by (subst chunks.simps) simp
qed

lemma chunk_bounds: "c \<in> set (chunks xs) \<Longrightarrow> 0 < length c \<and> length c \<le> MAX_BATCH_SIZE \<and> set c \<subseteq> set xs"
proof (induction xs rule: chunks.induct)
  case (1 xs)
  show ?case
  proof (cases "xs = []")
    case False
    with 1 have "c = take MAX_BATCH_SIZE xs \<or> c \<in> set (chunks (drop MAX_BATCH_SIZE xs))"
      by (subst (asm) chunks.simps) simp
    with 1 False show ?thesis
      by (auto simp: MAX_BATCH_SIZE_def dest: in_set_takeD in_set_dropD)
  qed (use 1 in \<open>simp add: chunks.simps\<close>)
qed

lemma split_recipients:
  "map bRecipients (splitIntoBatches rs) = concat (map (\<lambda>(_, group). chunks group) (groupByToken rs))"
  by (simp add: splitIntoBatches_def comp_def case_prod_beta map_snd_enumerate [unfolded comp_def])

lemma concat_split: "concat (map bRecipients (splitIntoBatches rs)) = concat (map snd (groupByToken rs))"
proof -
  have "concat (concat (map (\<lambda>(_, group). chunks group) G)) = concat (map snd G)" for G :: "(string \<times> recipient_plan list) list"
    by (induction G) (auto simp: concat_chunks)
  then show ?thesis by (simp add: split_recipients)
qed

lemma mset_of_tokens:
  assumes "\<And>t. of_token t xs = of_token t ys"
  shows "mset xs = mset ys"
proof (rule multiset_eqI)
  fix r
  have "count (mset zs) r = count (mset (of_token (rpToken r) zs)) r" for zs
    by (simp add: mset_filter)
  with assms show "count (mset xs) r = count (mset ys) r" by metis
qed

lemma sum_list_mset_eq: "mset xs = mset ys \<Longrightarrow> sum_list (map f xs) = sum_list (map f ys)" for f :: "_ \<Rightarrow> int"
  by (metis mset_map sum_mset_sum_list)

lemma batch_nth:
  assumes "i < length (splitIntoBatches rs)"
  shows "\<exists>t g. (t, g) \<in> set (groupByToken rs) \<and> bRecipients (splitIntoBatches rs ! i) \<in> set (chunks g)"
    and "bIndex (splitIntoBatches rs ! i) = i"
    and "bTotal (splitIntoBatches rs ! i) = sum_list (map rpUnits (bRecipients (splitIntoBatches rs ! i)))"
proof -
  have "bRecipients (splitIntoBatches rs ! i) \<in> set (map bRecipients (splitIntoBatches rs))"
    using assms by simp
  then show "\<exists>t g. (t, g) \<in> set (groupByToken rs) \<and> bRecipients (splitIntoBatches rs ! i) \<in> set (chunks g)"
    unfolding split_recipients by auto
  show "bIndex (splitIntoBatches rs ! i) = i"
    "bTotal (splitIntoBatches rs ! i) = sum_list (map rpUnits (bRecipients (splitIntoBatches rs ! i)))"
    using assms by (simp_all add: splitIntoBatches_def nth_enumerate_eq)
qed

lemma split_totals:
  "sum_list (map bTotal (splitIntoBatches rs)) = sum_list (map rpUnits (concat (map bRecipients (splitIntoBatches rs))))"
proof -
  have "map bTotal (splitIntoBatches rs) = map (\<lambda>b. sum_list (map rpUnits (bRecipients b))) (splitIntoBatches rs)"
    using batch_nth(3) by (intro nth_equalityI) simp_all
  moreover have "sum_list (concat xss) = sum_list (map sum_list xss)" for xss :: "int list list"
    by (induction xss) simp_all
  ultimately show ?thesis by (simp add: map_concat comp_def cong: map_cong)
qed

text \<open>
  The batches of a payroll are its recipients, split by token into batches of at most fifty.  Every
  recipient is in exactly as many batches as it was requested, recipients of one token stay in their order;
  every batch is non-empty, of one token, numbered by its position and carries its own total; and the
  totals over all batches are the totals of the request.
\<close>

theorem batches_partition:
  fixes rs :: "recipient_plan list"
  defines "bs \<equiv> splitIntoBatches rs"
  shows "mset (concat (map bRecipients bs)) = mset rs \<and>
    (\<forall>t. of_token t (concat (map bRecipients bs)) = of_token t rs) \<and>
    (\<forall>i<length bs. bIndex (bs ! i) = i \<and> 0 < length (bRecipients (bs ! i)) \<and>
       length (bRecipients (bs ! i)) \<le> MAX_BATCH_SIZE \<and> (\<exists>t. rpToken ` set (bRecipients (bs ! i)) = {t}) \<and>
       bTotal (bs ! i) = sum_list (map rpUnits (bRecipients (bs ! i)))) \<and>
    totAmount (calculateTotals bs) = sum_list (map rpUnits rs) \<and>
    totRecipients (calculateTotals bs) = length rs"
proof (intro conjI allI impI)
  show token: "of_token t (concat (map bRecipients bs)) = of_token t rs" for t
    unfolding bs_def concat_split by (rule of_token_concat [OF grouped_groups])
  show mset: "mset (concat (map bRecipients bs)) = mset rs" by (rule mset_of_tokens) (rule token)
  show "totAmount (calculateTotals bs) = sum_list (map rpUnits rs)"
    using split_totals [of rs] sum_list_mset_eq [OF mset, of rpUnits] by (simp add: calculateTotals_def bs_def)
  show "totRecipients (calculateTotals bs) = length rs"
    using mset_eq_length [OF mset] by (simp add: calculateTotals_def length_concat comp_def)
next
  fix i
  assume i: "i < length bs"
  obtain t g where g: "(t, g) \<in> set (groupByToken rs)" "bRecipients (bs ! i) \<in> set (chunks g)"
    using batch_nth(1) i unfolding bs_def by blast
  note c = chunk_bounds [OF g(2)]
  from c show "0 < length (bRecipients (bs ! i))" "length (bRecipients (bs ! i)) \<le> MAX_BATCH_SIZE" by simp_all
  have "\<forall>r\<in>set g. rpToken r = t" using g(1) grouped_groups [of rs] by (auto simp: grouped_def)
  moreover have "bRecipients (bs ! i) \<noteq> []" using c by simp
  ultimately have "rpToken ` set (bRecipients (bs ! i)) = {t}"
    using c by (cases "bRecipients (bs ! i)") auto
  then show "\<exists>t. rpToken ` set (bRecipients (bs ! i)) = {t}" by blast
  from batch_nth i show "bIndex (bs ! i) = i" "bTotal (bs ! i) = sum_list (map rpUnits (bRecipients (bs ! i)))"
    unfolding bs_def by blast+
qed

definition five_units :: "string \<Rightarrow> recipient_plan" where
  "five_units t = \<lparr>rpAddress = addr (CHR ''b''), rpAmount = ''5'', rpUnits = 5, rpToken = t, rpTokenAddress = addr (CHR ''5'')\<rparr>"

theorem batches_partition_witness:
  "let bs = splitIntoBatches [five_units ''USDC'', five_units ''EURC'', five_units ''USDC''] in
     length bs = 2 \<and> bTotal (bs ! 0) = 10 \<and> totAmount (calculateTotals bs) = 15"
proof -
  let ?rs = "[five_units ''USDC'', five_units ''EURC'', five_units ''USDC'']"
  have "splitIntoBatches ?rs = [\<lparr>bIndex = 0, bRecipients = [five_units ''USDC'', five_units ''USDC''], bTotal = 10\<rparr>,
      \<lparr>bIndex = 1, bRecipients = [five_units ''EURC''], bTotal = 5\<rparr>]"
    by (simp add: splitIntoBatches_def groupByToken_def five_units_def chunks.simps MAX_BATCH_SIZE_def)
  with batches_partition [of ?rs] show ?thesis by (simp add: five_units_def Let_def)
qed

section \<open>Approval\<close>

lemma approval_sum:
  assumes "\<forall>r\<in>set rs. 0 < rpUnits r"
  shows "payrollSameTokenApprovalAmountWithFee rs t fee =
    sum_list (map (\<lambda>r. rpUnits r + rpUnits r * fee div 10000) (of_token t rs))"
proof -
  have "fold (\<lambda>r total. if rpToken r \<noteq> t then total else if rpUnits r \<le> 0 then total
        else total + (rpUnits r + rpUnits r * fee div 10000)) rs a =
      a + sum_list (map (\<lambda>r. rpUnits r + rpUnits r * fee div 10000) (of_token t rs))" for a
    using assms
  proof (induction rs arbitrary: a)
    case Nil
    then show ?case by simp
  next
    case (Cons r rs)
    then have "\<not> rpUnits r \<le> 0" by simp
    with Cons show ?case by simp
  qed
  then show ?thesis by (simp add: payrollSameTokenApprovalAmountWithFee_def)
qed

lemma fee_bounds:
  fixes xs :: "int list"
  assumes "\<forall>x\<in>set xs. 0 < x" "0 \<le> fee"
  shows "sum_list xs \<le> sum_list (map (\<lambda>x. x + x * fee div 10000) xs) \<and>
    10000 * sum_list (map (\<lambda>x. x + x * fee div 10000) xs) \<le> (10000 + fee) * sum_list xs"
  using assms(1)
proof (induction xs)
  case Nil
  then show ?case by simp
next
  case (Cons x xs)
  have "0 \<le> x * fee div 10000" using Cons.prems assms(2) by (simp add: pos_imp_zdiv_nonneg_iff)
  moreover have "10000 * (x * fee div 10000) \<le> x * fee" by presburger
  ultimately show ?case using Cons by (simp add: algebra_simps)
qed

section \<open>References\<close>

lemma digit_suffix_split: "rev (drop (length (digit_suffix s)) (rev s)) @ digit_suffix s = s"
proof -
  have "rev (drop (length (digit_suffix s)) (rev s)) = rev (dropWhile is_digit (rev s))"
    by (simp add: digit_suffix_def dropWhile_eq_drop)
  then show ?thesis by (simp add: digit_suffix_def rev_append [symmetric] del: rev_append)
qed

lemma dash_prefix_Some: "dash_prefix s = Some p \<Longrightarrow> s = p @ ''-'' @ digit_suffix s"
proof -
  assume p: "dash_prefix s = Some p"
  then obtain front where "drop (length (digit_suffix s)) (rev s) = CHR ''-'' # front" "p = rev front"
    by (auto simp: dash_prefix_def split: list.splits if_splits)
  with digit_suffix_split [of s] show ?thesis by simp
qed

definition line_char :: "char \<Rightarrow> bool" where
  "line_char c \<longleftrightarrow> (of_char c :: nat) \<noteq> 10 \<and> (of_char c :: nat) \<noteq> 13"

lemma last_line_alt: "last_line p = rev (takeWhile line_char (rev p))"
  by (simp add: last_line_def line_char_def [abs_def])

lemma last_line_chars: "list_all line_char (last_line p)"
  using set_takeWhileD [of _ line_char "rev p"] by (simp add: last_line_alt list_all_iff)

lemma last_line_whole: "list_all line_char p \<Longrightarrow> last_line p = p"
proof -
  assume "list_all line_char p"
  then have "takeWhile line_char (rev p) = rev p" by (simp add: list_all_iff takeWhile_eq_all_conv)
  then show ?thesis by (simp only: last_line_alt rev_rev_ident)
qed

lemma digits_line: "list_all is_digit s \<Longrightarrow> list_all line_char s"
  by (auto simp: list_all_iff is_digit_def line_char_def)

definition safe_index :: "string \<Rightarrow> nat \<Rightarrow> bool" where
  "safe_index base i \<longleftrightarrow> read_nat (digit_suffix base) + i \<le> MAX_SAFE_INTEGER"

lemma suffixed_reference:
  assumes "dash_prefix base = Some p" "0 < i" "safe_index base i"
  shows "getBatchReferenceId f base i = last_line p @ ''-'' @ show_nat (read_nat (digit_suffix base) + i)"
  using assms by (simp add: getBatchReferenceId_def safe_index_def)

lemma later_reference: "0 < i \<Longrightarrow> safe_index base i \<Longrightarrow> getBatchReferenceId f base i \<noteq> base"
proof (cases "dash_prefix base")
  case None
  then show "0 < i \<Longrightarrow> getBatchReferenceId f base i \<noteq> base" by (simp add: getBatchReferenceId_def)
next
  case (Some p)
  assume i: "0 < i" "safe_index base i"
  let ?n = "read_nat (digit_suffix base)"
  note base = dash_prefix_Some [OF Some]
  show "getBatchReferenceId f base i \<noteq> base"
  proof
    assume "getBatchReferenceId f base i = base"
    then have eq: "last_line p @ ''-'' @ show_nat (?n + i) = base"
      using suffixed_reference [OF Some i] by simp
    have "list_all line_char (last_line p @ ''-'' @ show_nat (?n + i))"
      using last_line_chars digits_line [OF show_nat_digits] by (simp add: line_char_def)
    then have "list_all line_char base" unfolding eq .
    then have "list_all line_char p" by (subst (asm) base) simp
    then have "last_line p = p" by (rule last_line_whole)
    with eq have "p @ ''-'' @ show_nat (?n + i) = base" by simp
    also note base
    finally have "show_nat (?n + i) = digit_suffix base" by simp
    then have "read_nat (show_nat (?n + i)) = ?n" by simp
    with i show False by simp
  qed
qed

text \<open>
  The batches of one run have different references, so each batch acquires an intent of its own; but
  the references of two runs can meet.  With numeric suffixes in the range of exact integers, different
  batches of one base reference get different references; the second batch of run PAY-5 gets the
  reference of the first batch of run PAY-6.
\<close>

theorem batch_references:
  assumes "safe_index base i" "safe_index base j" "i \<noteq> j"
  shows "getBatchReferenceId f base i \<noteq> getBatchReferenceId f base j \<and>
    getBatchReferenceId f ''PAY-5'' 1 = getBatchReferenceId f ''PAY-6'' 0"
proof
  show "getBatchReferenceId f base i \<noteq> getBatchReferenceId f base j"
  proof (cases "i = 0 \<or> j = 0")
    case True
    then show ?thesis
      using later_reference [of i base f] later_reference [of j base f] assms
      by (auto simp: getBatchReferenceId_def [of f base 0])
  next
    case False
    then show ?thesis
      using assms suffixed_reference [of base _ i f] suffixed_reference [of base _ j f]
      by (cases "dash_prefix base") (auto simp: getBatchReferenceId_def safe_index_def)
  qed
  show "getBatchReferenceId f ''PAY-5'' 1 = getBatchReferenceId f ''PAY-6'' 0"
    by (simp add: getBatchReferenceId_def dash_prefix_def digit_suffix_def is_digit_def last_line_def read_nat_def
        digit_val_def MAX_SAFE_INTEGER_def show_nat.simps digit_char_def) code_simp
qed

theorem batch_references_witness:
  "getBatchReferenceId (\<lambda>_ _. []) ''RUN'' 0 \<noteq> getBatchReferenceId (\<lambda>_ _. []) ''RUN'' 1"
  using batch_references [of "''RUN''" 0 1]
  by (simp add: safe_index_def digit_suffix_def is_digit_def read_nat_def MAX_SAFE_INTEGER_def)

section \<open>Amounts\<close>

definition amount_units :: "string \<Rightarrow> nat" where
  "amount_units s = read_nat (before_dot s) * 10 ^ 6 + read_nat (after_dot s) * 10 ^ (6 - length (after_dot s))"

lemma read_nat_append: "read_nat (s @ t) = read_nat s * 10 ^ length t + read_nat t"
proof (induction t rule: rev_induct)
  case Nil
  then show ?case by (simp add: read_nat_def)
next
  case (snoc c t)
  have "read_nat (s @ t @ [c]) = 10 * read_nat (s @ t) + digit_val c"
    using read_nat_snoc [of "s @ t" c] by simp
  with snoc show ?case by (simp add: read_nat_snoc algebra_simps)
qed

lemma read_zeros: "read_nat (replicate n (CHR ''0'')) = 0"
proof (induction n)
  case 0
  then show ?case by (simp add: read_nat_def)
next
  case (Suc n)
  have "read_nat (''0'' @ replicate n (CHR ''0'')) = 0" using Suc by (simp only: read_nat_append) (simp add: read_nat_def digit_val_def)
  then show ?case by simp
qed

lemma before_dot_rec: "before_dot [] = []" "before_dot (c # s) = (if c = CHR ''.'' then [] else c # before_dot s)"
  by (simp_all add: before_dot_def)

lemma after_dot_rec: "after_dot [] = []" "after_dot (c # s) = (if c = CHR ''.'' then s else after_dot s)"
  by (simp_all add: after_dot_def before_dot_rec)

lemma dot_split: "before_dot s = s \<or> s = before_dot s @ CHR ''.'' # after_dot s"
  by (induction s) (auto simp: before_dot_rec after_dot_rec)

lemma before_dot_digits: "list_all is_digit s \<Longrightarrow> before_dot s = s"
  by (auto simp: before_dot_def takeWhile_eq_all_conv list_all_iff is_digit_def)

lemma canonical_digits: "canonical_uint s \<Longrightarrow> list_all is_digit s \<and> s \<noteq> []"
  by (auto simp: canonical_uint_def is_digit_def split: list.splits)

lemma trim_no_space: "list_all (\<lambda>c. \<not> is_space c) s \<Longrightarrow> js_trim s = s"
proof -
  assume s: "list_all (\<lambda>c. \<not> is_space c) s"
  then have "dropWhile is_space s = s" by (cases s) auto
  moreover have "dropWhile is_space (rev s) = rev s" using s by (cases "rev s") (auto simp: list_all_iff)
  ultimately show ?thesis by (simp add: js_trim_def)
qed

lemma parse_amount:
  assumes "is_amount s"
  shows "parseAmountToUnits s 6 = int (amount_units s)"
proof -
  have whole: "list_all is_digit (before_dot s)" "before_dot s \<noteq> []"
    using assms canonical_digits by (auto simp: is_amount_def)
  have after: "before_dot s = s \<Longrightarrow> after_dot s = []" by (simp add: after_dot_def)
  have frac: "list_all is_digit (after_dot s)" "length (after_dot s) \<le> 6"
    using assms after by (auto simp: is_amount_def)
  have trim: "js_trim s = s"
  proof (rule trim_no_space)
    have "list_all (\<lambda>c. \<not> is_space c) t" if "list_all is_digit t" for t
      using that digit_not_space by (auto simp: list_all_iff)
    then have parts: "list_all (\<lambda>c. \<not> is_space c) (before_dot s)" "list_all (\<lambda>c. \<not> is_space c) (after_dot s)"
      using whole(1) frac(1) by blast+
    have dot: "\<not> is_space (CHR ''.'')" by (simp add: is_space_def)
    from dot_split [of s] show "list_all (\<lambda>c. \<not> is_space c) s"
    proof
      assume "before_dot s = s"
      with parts show ?thesis by simp
    next
      assume s: "s = before_dot s @ CHR ''.'' # after_dot s"
      have "list_all (\<lambda>c. \<not> is_space c) (before_dot s @ CHR ''.'' # after_dot s)" using parts dot by simp
      then show ?thesis by (simp only: s [symmetric])
    qed
  qed
  have pad: "take 6 (padEnd 6 (before_dot (after_dot s))) = after_dot s @ replicate (6 - length (after_dot s)) (CHR ''0'')"
    using frac by (simp add: before_dot_digits padEnd_def)
  have zeros: "list_all is_digit (replicate n (CHR ''0''))" for n by (simp add: list_all_length is_digit_def)
  have "toBigInt (before_dot s @ after_dot s @ replicate (6 - length (after_dot s)) (CHR ''0'')) =
      Inr (int (read_nat (before_dot s @ after_dot s @ replicate (6 - length (after_dot s)) (CHR ''0''))))"
    using whole frac zeros by (intro toBigInt_digits) simp_all
  moreover have "read_nat (before_dot s @ after_dot s @ replicate (6 - length (after_dot s)) (CHR ''0'')) = amount_units s"
    using frac(2) by (simp add: read_nat_append read_zeros amount_units_def)
  moreover have "s \<noteq> []" using whole(2) by (auto simp: before_dot_def)
  ultimately show ?thesis by (simp add: parseAmountToUnits_def trim pad Let_def)
qed

section \<open>Validation\<close>

definition sound_entry :: "evm \<Rightarrow> js \<Rightarrow> js \<Rightarrow> recipient_plan \<Rightarrow> bool" where
  "sound_entry E payload r p \<longleftrightarrow>
     (\<exists>a. getRecipientAddressValue r = Some a \<and> toLowerCase (rpAddress p) = toLowerCase (js_trim a)) \<and>
     getAddress E (rpAddress p) = Some (rpAddress p) \<and>
     (\<forall>w. js_str (js_get ''walletAddress'' payload) = Some w \<and> isAddress E (js_trim w) \<longrightarrow>
        toLowerCase (js_trim w) \<noteq> toLowerCase (rpAddress p)) \<and>
     js_get ''amount'' r = JStr (rpAmount p) \<and> is_amount (rpAmount p) \<and>
     rpUnits p = int (amount_units (rpAmount p)) \<and> 0 < rpUnits p \<and>
     targetOf (js_get ''sourceToken'' payload) r = JStr (rpToken p) \<and> rpToken p \<in> {''USDC'', ''EURC''}"

lemma normalAddress_Some:
  assumes "evm_laws E" "normalAddress E x = Some c"
  shows "\<exists>a. x = Some a \<and> toLowerCase c = toLowerCase (js_trim a) \<and> getAddress E c = Some c"
proof -
  obtain a where a: "x = Some a" "getAddress E (js_trim a) = Some c"
    using assms(2) by (auto simp: normalAddress_def split: option.splits if_splits)
  then show ?thesis using getAddress_Some(1) [OF assms(1) a(2)] getAddress_canonical [OF assms(1) a(2)] by blast
qed

lemma normalAddress_defined:
  assumes "evm_laws E" "isAddress E (js_trim w)"
  shows "\<exists>c. normalAddress E (Some w) = Some c \<and> toLowerCase c = toLowerCase (js_trim w) \<and> is_hex_address c"
proof -
  have "getAddress E (js_trim w) \<noteq> None"
    using getAddress_defined [OF assms(1)] isAddress_hex [OF assms] by blast
  then obtain c where "getAddress E (js_trim w) = Some c" by blast
  with getAddress_Some [OF assms(1) this] assms(2) show ?thesis by (simp add: normalAddress_def)
qed

lemma addressErrors_none:
  assumes "evm_laws E" "addressErrors E (normalAddress E sender) i r = []"
  shows "\<exists>c. normalAddress E (getRecipientAddressValue r) = Some c \<and>
    (\<forall>w. sender = Some w \<and> isAddress E (js_trim w) \<longrightarrow> toLowerCase (js_trim w) \<noteq> toLowerCase c)"
proof -
  obtain c where c: "normalAddress E (getRecipientAddressValue r) = Some c"
    using assms(2) by (auto simp: addressErrors_def Let_def split: if_splits)
  obtain a where a: "getAddress E c = Some c" using normalAddress_Some [OF assms(1) c] by blast
  have "toLowerCase (js_trim w) \<noteq> toLowerCase c" if w: "sender = Some w" "isAddress E (js_trim w)" for w
  proof
    assume same: "toLowerCase (js_trim w) = toLowerCase c"
    obtain d where d: "normalAddress E (Some w) = Some d" "toLowerCase d = toLowerCase (js_trim w)" "is_hex_address d"
      using normalAddress_defined [OF assms(1) w(2)] by blast
    have "isAddressEqual E d c = Some True"
      using d same getAddress_Some(4) [OF assms(1) a] by (simp add: isAddressEqual_iff [OF assms(1)])
    with assms(2) w(1) d(1) c show False by (simp add: addressErrors_def Let_def split: if_splits)
  qed
  with c show ?thesis by blast
qed

lemma amountErrors_none:
  assumes "amountErrors i v = []"
  obtains s where "v = JStr s" "is_amount s" "0 < parseAmountToUnits s 6" "\<not> blank v"
  using assms by (cases v) (auto simp: amountErrors_def split: if_splits)

lemma validateRecipient_sound:
  assumes "evm_laws E"
    and "fst (validateRecipient E (js_get ''sourceToken'' payload) src
           (normalAddress E (js_str (js_get ''walletAddress'' payload))) i r) = []"
  shows "\<exists>p. snd (validateRecipient E (js_get ''sourceToken'' payload) src
           (normalAddress E (js_str (js_get ''walletAddress'' payload))) i r) = [p] \<and> sound_entry E payload r p"
proof -
  let ?sender = "normalAddress E (js_str (js_get ''walletAddress'' payload))"
  let ?t = "targetOf (js_get ''sourceToken'' payload) r"
  have errors: "addressErrors E ?sender i r = []" "amountErrors i (js_get ''amount'' r) = []" "supported_token ?t"
    and object: "js_is_object r"
    using assms(2) by (auto simp: validateRecipient_def split: if_splits)
  obtain c where c: "normalAddress E (getRecipientAddressValue r) = Some c"
      "\<forall>w. js_str (js_get ''walletAddress'' payload) = Some w \<and> isAddress E (js_trim w) \<longrightarrow>
         toLowerCase (js_trim w) \<noteq> toLowerCase c"
    using addressErrors_none [OF assms(1) errors(1)] by blast
  obtain s where s: "js_get ''amount'' r = JStr s" "is_amount s" "0 < parseAmountToUnits s 6" "\<not> blank (js_get ''amount'' r)"
    by (rule amountErrors_none [OF errors(2)])
  obtain t where t: "?t = JStr t" "t \<in> {''USDC'', ''EURC''}" using errors(3) by (auto simp: supported_token_def)
  obtain a where a: "getRecipientAddressValue r = Some a" "toLowerCase c = toLowerCase (js_trim a)" "getAddress E c = Some c"
    using normalAddress_Some [OF assms(1) c(1)] by blast
  from c s t a show ?thesis
    by (simp add: validateRecipient_def object plannedRecipient_def Let_def sound_entry_def parse_amount)
qed

lemma enumerated_entries:
  assumes "\<forall>(i, r)\<in>set (enumerate n entries). \<exists>p. f (i, r) = [p] \<and> P r p"
  shows "list_all2 P entries (concat (map f (enumerate n entries)))"
  using assms by (induction entries arbitrary: n) auto

text \<open>
  C19: a payroll that passes validation is planned exactly as it was asked for.  Without errors there is
  one planned recipient for every entry, in order; its address is the checksummed spelling of the
  address given and not the address of the sender; its units are the value of the decimal amount at six
  decimals, and positive; its token is the one asked for, USDC or EURC.
\<close>

theorem validated_payroll:
  assumes "evm_laws E" "validatePayroll E payload = ([], rs)"
  shows "\<exists>entries. js_get ''recipients'' payload = JArr entries \<and> entries \<noteq> [] \<and>
    list_all2 (sound_entry E payload) entries rs"
proof -
  let ?sender = "normalAddress E (js_str (js_get ''walletAddress'' payload))"
  let ?v = "\<lambda>(i, r). validateRecipient E (js_get ''sourceToken'' payload) (js_get ''sourceTokenAddress'' payload) ?sender i r"
  obtain entries where entries: "js_get ''recipients'' payload = JArr entries" "entries \<noteq> []"
    using assms(2) by (auto simp: validatePayroll_def Let_def split: js.splits list.splits)
  then obtain r0 entries' where shape: "entries = r0 # entries'" by (cases entries) auto
  have "concat (map fst (map ?v (enumerate 0 entries))) = []" "rs = concat (map snd (map ?v (enumerate 0 entries)))"
    using assms(2) entries(1) unfolding validatePayroll_def Let_def shape by (simp_all only: js.case list.case prod.inject append_is_Nil_conv)
  then have "\<forall>(i, r)\<in>set (enumerate 0 entries). fst (?v (i, r)) = []" "rs = concat (map (snd \<circ> ?v) (enumerate 0 entries))"
    by auto
  moreover from this(1) have "\<forall>(i, r)\<in>set (enumerate 0 entries). \<exists>p. (snd \<circ> ?v) (i, r) = [p] \<and> sound_entry E payload r p"
    using validateRecipient_sound [OF assms(1)] by auto
  ultimately show ?thesis using entries enumerated_entries by blast
qed

section \<open>Digest\<close>

definition entry_json :: "nat \<times> string \<times> string \<times> string \<Rightarrow> js" where
  "entry_json = (\<lambda>(i, payee, token, amt).
     JObj [(''index'', JNum i), (''recipient'', JStr (toLowerCase payee)), (''token'', JStr (toLowerCase token)),
       (''amountUnits'', JStr amt)])"

definition entry_key :: "string \<times> string \<times> string \<Rightarrow> string \<times> string \<times> string" where
  "entry_key = (\<lambda>(payee, token, amt). (toLowerCase payee, toLowerCase token, amt))"

lemma digestEntry_json: "evm_laws E \<Longrightarrow> digestEntry E e = Inr v \<Longrightarrow> v = entry_json e"
  by (cases e) (auto simp: digestEntry_def entry_json_def getAddress_Some(1) fromSome_def split: option.splits)

lemma sort_entry: "sort_keys (entry_json e) = (case e of (i, payee, token, amt) \<Rightarrow>
    JObj [(''amountUnits'', JStr amt), (''index'', JNum i), (''recipient'', JStr (toLowerCase payee)),
      (''token'', JStr (toLowerCase token))])"
  by (cases e) (simp add: entry_json_def sort_key_def toLowerCase_def lower_char_def Let_def)

lemma batch_text:
  assumes "evm_laws E" "createPayrollBatchDigest E xs = Inr d"
  shows "\<exists>u. serialize (sort_keys (JArr (map entry_json (enumerate 0 xs)))) = Some u \<and> d = sha256 E u"
proof -
  obtain items u where i: "mapR (digestEntry E) (enumerate 0 xs) = Inr items"
    "stableJson (JArr items) = Inr u" "d = sha256 E u"
    using assms(2) by (auto simp: createPayrollBatchDigest_def)
  have "list_all2 (\<lambda>e v. v = entry_json e) (enumerate 0 xs) items"
    using i(1) digestEntry_json [OF assms(1)] unfolding mapR_Inr by (auto elim: list_all2_mono)
  then have "items = map entry_json (enumerate 0 xs)"
    by (auto simp: list_all2_conv_all_nth intro: nth_equalityI)
  with i show ?thesis by (auto simp: stableJson_def fromSome_def split: option.splits)
qed

lemma entries_inj:
  assumes "map (\<lambda>e. sort_keys (entry_json e)) (enumerate n xs) = map (\<lambda>e. sort_keys (entry_json e)) (enumerate n ys)"
  shows "map entry_key xs = map entry_key ys"
  using assms
proof (induction xs arbitrary: n ys)
  case Nil
  then show ?case by (cases ys) simp_all
next
  case (Cons x xs)
  obtain y ys' where ys: "ys = y # ys'" using Cons.prems by (cases ys) simp_all
  have head: "sort_keys (entry_json (n, x)) = sort_keys (entry_json (n, y))"
    and tail: "map (\<lambda>e. sort_keys (entry_json e)) (enumerate (Suc n) xs) = map (\<lambda>e. sort_keys (entry_json e)) (enumerate (Suc n) ys')"
    using Cons.prems by (simp_all only: ys enumerate_simps list.map list.inject)
  from head have "entry_key x = entry_key y" by (cases x; cases y) (simp add: sort_entry entry_key_def)
  with Cons.IH [OF tail] show ?case by (simp add: ys)
qed

text \<open>
  The digest a payroll intent is bound to identifies its batch.  Two batches with the same digest
  pay the same amounts of the same tokens to the same addresses in the same order (addresses without
  regard to case), unless SHA-256 maps two different texts to the same hash.
\<close>

theorem digest_identifies_batch:
  assumes "evm_laws E" "createPayrollBatchDigest E xs = Inr d" "createPayrollBatchDigest E ys = Inr d"
  shows "map entry_key xs = map entry_key ys \<or> (\<exists>a b. a \<noteq> b \<and> sha256 E a = sha256 E b)"
proof -
  let ?v = "\<lambda>zs. sort_keys (JArr (map entry_json (enumerate 0 zs)))"
  obtain a where a: "serialize (?v xs) = Some a" "d = sha256 E a" using batch_text [OF assms(1,2)] by blast
  obtain b where b: "serialize (?v ys) = Some b" "d = sha256 E b" using batch_text [OF assms(1,3)] by blast
  have ok: "defined (?v zs)" for zs by (auto simp: list_all_iff sort_entry)
  show ?thesis
  proof (cases "a = b")
    case True
    with a b have "?v xs = ?v ys" by (intro serialize_inj [OF ok ok]) simp
    then show ?thesis using entries_inj [of 0 xs ys] by (simp add: comp_def)
  next
    case False
    with a b show ?thesis by metis
  qed
qed

definition pay_entry :: "string \<Rightarrow> js" where
  "pay_entry t = JObj [(''address'', JStr (addr (CHR ''b''))), (''amount'', JStr ''2.5''), (''targetToken'', JStr t)]"

definition pay_payload :: js where
  "pay_payload = JObj [(''sourceToken'', JStr ''USDC''), (''walletAddress'', JStr (addr (CHR ''a''))),
     (''recipients'', JArr [pay_entry ''USDC'', pay_entry ''EURC''])]"

definition pay_plan :: "string \<Rightarrow> recipient_plan" where
  "pay_plan t = \<lparr>rpAddress = addr (CHR ''b''), rpAmount = ''2.5'', rpUnits = 2500000, rpToken = t, rpTokenAddress = []\<rparr>"

lemma half_amount: "is_amount ''2.5''" "parseAmountToUnits ''2.5'' 6 = 2500000"
proof -
  show a: "is_amount ''2.5''" by (simp add: is_amount_def before_dot_def after_dot_def canonical_uint_def is_digit_def)
  show "parseAmountToUnits ''2.5'' 6 = 2500000"
    by (simp add: parse_amount [OF a] amount_units_def before_dot_def after_dot_def read_nat_def digit_val_def)
qed

lemma valid_payload: "validatePayroll lower_evm pay_payload = ([], [pay_plan ''USDC'', pay_plan ''EURC''])"
  by (simp add: validatePayroll_def pay_payload_def pay_entry_def validateRecipient_def addressErrors_def
      amountErrors_def plannedRecipient_def targetOf_def supported_token_def getRecipientAddressValue_def
      normalAddress_def js_get_def js_str_def js_or_def js_length_def js_is_object_def blank_def Let_def
      trim_addr lower_evm_def half_amount pay_plan_def)

theorem validated_payroll_witness:
  "\<exists>entries. js_get ''recipients'' pay_payload = JArr entries \<and> entries \<noteq> [] \<and>
    list_all2 (sound_entry lower_evm pay_payload) entries [pay_plan ''USDC'', pay_plan ''EURC'']"
  by (rule validated_payroll [OF lower_evm_laws valid_payload])

lemma digest_defined: "\<exists>d. createPayrollBatchDigest lower_evm [(addr (CHR ''b''), addr (CHR ''5''), ''7'')] = Inr d"
  by (simp add: createPayrollBatchDigest_def digestEntry_def lower_evm_def positive_uint_def is_digit_def
      stableJson_def sort_key_def)

theorem digest_identifies_batch_witness:
  "\<exists>d. createPayrollBatchDigest lower_evm [(addr (CHR ''b''), addr (CHR ''5''), ''7'')] = Inr d \<and>
     (map entry_key [(addr (CHR ''b''), addr (CHR ''5''), ''7'')] = [(addr (CHR ''b''), addr (CHR ''5''), ''7'')] \<or>
      (\<exists>a b. a \<noteq> b \<and> sha256 lower_evm a = sha256 lower_evm b))"
proof -
  obtain d where d: "createPayrollBatchDigest lower_evm [(addr (CHR ''b''), addr (CHR ''5''), ''7'')] = Inr d"
    using digest_defined by blast
  have "map entry_key [(addr (CHR ''b''), addr (CHR ''5''), ''7'')] = [(addr (CHR ''b''), addr (CHR ''5''), ''7'')]"
    by (simp add: entry_key_def)
  with d digest_identifies_batch [OF lower_evm_laws d d] show ?thesis by auto
qed

end
