(* ===== verification/Tasks.thy ===== *)
theory Tasks
  imports PayrollPlan
begin

text \<open>
  Tasks, their units, their audit log and their tracked transactions: \<open>TaskService\<close>
  (\<open>apps/backend/src/task/task.service.ts\<close>) with the services it delegates to
  (\<open>task-unit.service.ts\<close>, \<open>task-transaction.service.ts\<close>, \<open>task-log.service.ts\<close>,
  \<open>task-mapper.service.ts\<close>).  \<open>others n\<close> is what other requests do to the database at the n-th point
  between two statements of a method; log messages are left out.
\<close>

section \<open>Reading a task\<close>

abbreviation TASK_NOT_FOUND :: exn where
  "TASK_NOT_FOUND \<equiv> NotFound ''TASK_NOT_FOUND''"

abbreviation UNIT_NOT_FOUND :: exn where
  "UNIT_NOT_FOUND \<equiv> NotFound ''TASK_UNIT_NOT_FOUND''"

abbreviation TX_NOT_FOUND :: exn where
  "TX_NOT_FOUND \<equiv> NotFound ''TRANSACTION_NOT_FOUND''"

record task_details =
  dTask :: task
  dLogs :: "task_log list"
  dUnits :: "task_unit list"
  dTransactions :: "task_tx list"

definition mapJsonObject :: "js \<Rightarrow> js" where
  "mapJsonObject v = (case v of JObj _ \<Rightarrow> v | _ \<Rightarrow> JObj [(''value'', v)])"

definition mapUnit :: "task_unit \<Rightarrow> task_unit" where
  "mapUnit u = u\<lparr>unitPayload := mapJsonObject (unitPayload u)\<rparr>"

definition mapTask :: "task_details \<Rightarrow> task_details" where
  "mapTask d =
     (let t = dTask d in
      \<lparr>dTask = t\<lparr>taskMetadata := (if js_truthy (taskMetadata t) then mapJsonObject (taskMetadata t) else JNull),
          taskPayload := mapJsonObject (taskPayload t),
          taskResult := (case taskResult t of
             None \<Rightarrow> None | Some r \<Rightarrow> if js_truthy r then Some (mapJsonObject r) else None)\<rparr>,
       dLogs = map (\<lambda>l. l\<lparr>logContext := (if js_truthy (logContext l) then mapJsonObject (logContext l) else JNull)\<rparr>) (dLogs d),
       dUnits = map mapUnit (dUnits d), dTransactions = dTransactions d\<rparr>)"

text \<open>A task with its logs in order of creation, its units by index and its transactions by batch.\<close>

definition taskWithRelations :: "task \<Rightarrow> db \<Rightarrow> task_details" where
  "taskWithRelations t s =
     \<lparr>dTask = t, dLogs = filter (\<lambda>l. logTaskId l = tId t) (logs s),
      dUnits = sort_key unitIndex (filter (\<lambda>u. unitTaskId u = tId t) (units s)),
      dTransactions = sort_key batchIndex (filter (\<lambda>x. txTaskId x = tId t) (transactions s))\<rparr>"

definition findTask :: "string \<Rightarrow> db \<Rightarrow> task option" where
  "findTask i s = find_row (\<lambda>t. tId t = i) (tasks s)"

definition readTask :: "exn \<Rightarrow> string \<Rightarrow> (db, task) op" where
  "readTask e i = andThen (query (findTask i)) (\<lambda>found. lift (fromSome e found))"

definition detailsOf :: "exn \<Rightarrow> string \<Rightarrow> (db, task_details) op" where
  "detailsOf e i = andThen (readTask e i) (\<lambda>t. query (\<lambda>s. mapTask (taskWithRelations t s)))"

definition getTaskById :: "string \<Rightarrow> (db, task_details) op" where
  "getTaskById i = detailsOf TASK_NOT_FOUND i"

definition getTaskDetailsInTransaction :: "string \<Rightarrow> (db, task_details) op" where
  "getTaskDetailsInTransaction i = detailsOf (DbError ''P2025'') i"

section \<open>Ownership\<close>

text \<open>The filter of \<open>getTaskOwnerWhere\<close>: one of four JSON fields is the wallet, without regard to case.\<close>

definition ownedBy :: "string \<Rightarrow> task \<Rightarrow> bool" where
  "ownedBy wallet t \<longleftrightarrow>
     (\<exists>v\<in>{taskMetadata t, taskPayload t}. \<exists>k\<in>{''walletAddress'', ''sourceAddress''}.
        (case js_get k v of JStr a \<Rightarrow> toLowerCase a = wallet | _ \<Rightarrow> False))"

definition getTaskOwnerWhere :: "string \<Rightarrow> (task \<Rightarrow> bool) res" where
  "getTaskOwnerWhere wallet =
     (let w = toLowerCase (js_trim wallet) in
      bindR (ensureR (w \<noteq> []) (Unauthorized ''TASK_OWNER_REQUIRED'')) (\<lambda>_. Inr (ownedBy w)))"

definition getOwnedTaskById :: "string \<Rightarrow> string \<Rightarrow> (db, task_details) op" where
  "getOwnedTaskById i wallet =
     andThen (lift (getTaskOwnerWhere wallet)) (\<lambda>mine.
     andThen (query (\<lambda>s. find_row (\<lambda>t. tId t = i \<and> mine t) (tasks s))) (\<lambda>found.
     andThen (lift (fromSome TASK_NOT_FOUND found)) (\<lambda>t.
     query (\<lambda>s. mapTask (taskWithRelations t s)))))"

text \<open>The tasks are listed from the newest; \<open>total\<close> counts all that match.\<close>

definition getTaskList ::
  "string option \<Rightarrow> task_status option \<Rightarrow> string \<Rightarrow> nat option \<Rightarrow> nat option \<Rightarrow> (db, task_details list \<times> nat) op" where
  "getTaskList ty st wallet lim off =
     andThen (lift (getTaskOwnerWhere wallet)) (\<lambda>mine.
     query (\<lambda>s.
       let hits = filter (\<lambda>t. (truthy ty \<longrightarrow> taskType t = the ty) \<and> (st \<noteq> None \<longrightarrow> taskStatus t = the st) \<and> mine t)
             (rev (tasks s));
           limit = min (case lim of None \<Rightarrow> 50 | Some n \<Rightarrow> n) 200;
           offset = (case off of None \<Rightarrow> 0 | Some n \<Rightarrow> n)
       in (map (\<lambda>t. mapTask (taskWithRelations t s)) (take limit (drop offset hits)), length hits)))"

definition isOwnerField :: "js \<Rightarrow> bool" where
  "isOwnerField v = (case v of JStr s \<Rightarrow> is_hex_address (js_trim s) | _ \<Rightarrow> False)"

definition normalizeTaskOwner :: "string list \<Rightarrow> js \<Rightarrow> (string \<times> string) res" where
  "normalizeTaskOwner allowed payload =
     (case find (\<lambda>k. isOwnerField (js_get k payload)) allowed of
        None \<Rightarrow> Inl (BadRequest ''TASK_OWNER_REQUIRED'')
      | Some k \<Rightarrow> (case js_get k payload of
            JStr s \<Rightarrow> Inr (k, toLowerCase (js_trim s)) | _ \<Rightarrow> Inl (BadRequest ''TASK_OWNER_REQUIRED'')))"

abbreviation owner_fields :: "string list" where
  "owner_fields \<equiv> [''walletAddress'', ''sourceAddress'']"

text \<open>\<open>{...a, ...b}\<close>: the fields of \<open>b\<close> replace those of \<open>a\<close> in place or follow them.\<close>

definition spread :: "(string \<times> js) list \<Rightarrow> (string \<times> js) list \<Rightarrow> (string \<times> js) list" where
  "spread a b = map (\<lambda>(k, v). (k, case map_of b k of None \<Rightarrow> v | Some w \<Rightarrow> w)) a @
     filter (\<lambda>(k, _). k \<notin> fst ` set a) b"

definition js_fields :: "js \<Rightarrow> (string \<times> js) list" where
  "js_fields v = (case v of JObj es \<Rightarrow> es | _ \<Rightarrow> [])"

section \<open>The audit log\<close>

definition logStep :: "string \<Rightarrow> string \<Rightarrow> task_status \<Rightarrow> js \<Rightarrow> (db, task_log) op" where
  "logStep i step st context =
     (let l = \<lparr>logTaskId = i, logLevel = LEVEL_INFO, logStepName = step, logStatus = st, logContext = context\<rparr>
      in andThen (appendLog l) (\<lambda>_. ok l))"

definition hasLogStep :: "string \<Rightarrow> string \<Rightarrow> (db, bool) op" where
  "hasLogStep i step = query (\<lambda>s. \<exists>l\<in>set (logs s). logTaskId l = i \<and> logStepName l = step)"

section \<open>Status transitions\<close>

text \<open>The texts the enum stores, and the two of the bridge lifecycle.\<close>

fun status_text :: "task_status \<Rightarrow> string" where
  "status_text TS_CREATED = ''created''"
| "status_text TS_ASSIGNED = ''assigned''"
| "status_text TS_IN_PROGRESS = ''in_progress''"
| "status_text TS_REVIEW = ''review''"
| "status_text TS_APPROVED = ''approved''"
| "status_text TS_EXECUTED = ''executed''"
| "status_text TS_PARTIAL = ''partial''"
| "status_text TS_FAILED = ''failed''"
| "status_text TS_BRIDGE_INTENT = ''bridge_intent''"
| "status_text TS_COMPLETED = ''completed''"

text \<open>The bridge lifecycle stores two more statuses, which the map does not know.\<close>

fun ALLOWED_TRANSITIONS :: "task_status \<Rightarrow> task_status list option" where
  "ALLOWED_TRANSITIONS TS_CREATED = Some [TS_ASSIGNED, TS_FAILED]"
| "ALLOWED_TRANSITIONS TS_ASSIGNED = Some [TS_IN_PROGRESS, TS_FAILED]"
| "ALLOWED_TRANSITIONS TS_IN_PROGRESS = Some [TS_REVIEW, TS_EXECUTED, TS_PARTIAL, TS_FAILED]"
| "ALLOWED_TRANSITIONS TS_REVIEW = Some [TS_APPROVED, TS_FAILED]"
| "ALLOWED_TRANSITIONS TS_APPROVED = Some [TS_EXECUTED, TS_FAILED]"
| "ALLOWED_TRANSITIONS TS_EXECUTED = Some []"
| "ALLOWED_TRANSITIONS TS_PARTIAL = Some []"
| "ALLOWED_TRANSITIONS TS_FAILED = Some []"
| "ALLOWED_TRANSITIONS TS_BRIDGE_INTENT = None"
| "ALLOWED_TRANSITIONS TS_COMPLETED = None"

definition isValidTransition :: "task_status \<Rightarrow> task_status \<Rightarrow> bool" where
  "isValidTransition a b = (case ALLOWED_TRANSITIONS a of None \<Rightarrow> False | Some bs \<Rightarrow> b \<in> set bs)"

definition ensureTransition :: "task_status \<Rightarrow> task_status \<Rightarrow> unit res" where
  "ensureTransition a b =
     (case ALLOWED_TRANSITIONS a of
        None \<Rightarrow> Inl (PlainError ''TypeError'')
      | Some bs \<Rightarrow> ensureR (b \<in> set bs) (BadRequest ''INVALID_TASK_STATUS_TRANSITION''))"

definition updateTask :: "string \<Rightarrow> (task \<Rightarrow> task) \<Rightarrow> (db, task) op" where
  "updateTask i f = andThen (onTasks (updateMany (\<lambda>t. tId t = i) f)) (\<lambda>_. readTask (DbError ''P2025'') i)"

definition moveTask :: "string \<Rightarrow> task_status \<Rightarrow> js option \<Rightarrow> (db, task) op" where
  "moveTask i next result =
     updateTask i (\<lambda>t. t\<lparr>taskStatus := next, taskResult := (if result = None then taskResult t else result)\<rparr>)"

definition updateStatus ::
  "(nat \<Rightarrow> db \<Rightarrow> db) \<Rightarrow> string \<Rightarrow> task_status \<Rightarrow> string \<Rightarrow> js option \<Rightarrow> (db, task_details) op" where
  "updateStatus others i next step result =
     andThen (readTask TASK_NOT_FOUND i) (\<lambda>t.
     if taskStatus t = next then getTaskById i
     else
       andThen (lift (ensureTransition (taskStatus t) next)) (\<lambda>_.
       andThen (interfere (others 0)) (\<lambda>_.
       andThen (moveTask i next result) (\<lambda>_.
       andThen (interfere (others 1)) (\<lambda>_.
       andThen (logStep i step next JNull) (\<lambda>_. getTaskById i))))))"

definition tryPickupForExecution :: "string \<Rightarrow> string \<Rightarrow> (db, bool) op" where
  "tryPickupForExecution now i =
     andThen (readTask TASK_NOT_FOUND i) (\<lambda>t.
     if taskStatus t \<noteq> TS_ASSIGNED
     then andThen (logStep i ''task.idempotency_skip'' (taskStatus t) 
             (JObj [(''expectedStatus'', JStr (status_text TS_ASSIGNED)), (''actualStatus'', JStr (status_text (taskStatus t))),
                    (''skippedAt'', JStr now)])) (\<lambda>_. ok False)
     else ok True)"

definition appendTransitionLog ::
  "string \<Rightarrow> string \<Rightarrow> task_status \<Rightarrow> task_status \<Rightarrow> string \<Rightarrow> js \<Rightarrow> (db, task_log) op" where
  "appendTransitionLog now i prior next step extra =
     logStep i step next
       (JObj (spread [(''priorStatus'', JStr (status_text prior)), (''newStatus'', JStr (status_text next)),
          (''stepId'', JStr step), (''timestamp'', JStr now)] (js_fields extra)))"

definition transitionWithAudit ::
  "(nat \<Rightarrow> db \<Rightarrow> db) \<Rightarrow> string \<Rightarrow> string \<Rightarrow> task_status \<Rightarrow> string \<Rightarrow> js option \<Rightarrow> js \<Rightarrow> (db, task_details) op" where
  "transitionWithAudit others now i next step result extra =
     andThen (readTask TASK_NOT_FOUND i) (\<lambda>t.
     if taskStatus t = next then getTaskById i
     else
       andThen (lift (ensureTransition (taskStatus t) next)) (\<lambda>_.
       andThen (interfere (others 0)) (\<lambda>_.
       andThen (moveTask i next result) (\<lambda>_.
       andThen (interfere (others 1)) (\<lambda>_.
       andThen (appendTransitionLog now i (taskStatus t) next step extra) (\<lambda>_. getTaskById i))))))"

section \<open>Creating tasks\<close>

definition assertTaskCapability :: "evm \<Rightarrow> routing \<Rightarrow> string \<Rightarrow> js \<Rightarrow> unit res" where
  "assertTaskCapability E R ty payload =
     (if ty = ''payroll'' then assertPayroll E R payload
      else if ty = ''swap'' then assertCapability R Cap_swap
      else if ty = ''bridge'' then assertCapability R Cap_bridge
      else if ty = ''fx'' then Inl (ServiceUnavailable ''FX_TASK_TYPE_RETIRED'' False)
      else if ty = ''liquidity'' then assertCapability R Cap_liquidity
      else Inr ())"

definition createTask :: "evm \<Rightarrow> routing \<Rightarrow> string \<Rightarrow> string \<Rightarrow> js \<Rightarrow> (db, task_details) op" where
  "createTask E R fresh ty payload =
     andThen (lift (assertTaskCapability E R ty payload)) (\<lambda>_.
     andThen (lift (normalizeTaskOwner owner_fields payload)) (\<lambda>(field, address).
     andThen (insertTask ((newTask fresh ty TS_CREATED payload)
        \<lparr>taskMetadata := JObj (spread (js_fields payload) [(field, JStr address)])\<rparr>)) (\<lambda>t.
     andThen (logStep (tId t) ''task.created'' TS_CREATED JNull) (\<lambda>_.
     getTaskById (tId t)))))"

definition createSwapTask :: "routing \<Rightarrow> (db, unit) op" where
  "createSwapTask R =
     andThen (lift (assertCapability R Cap_swap)) (\<lambda>_.
     throw (ServiceUnavailable ''SWAP_TASK_PLANNING_UNAVAILABLE'' False))"

definition units_unique :: "task_unit list \<Rightarrow> bool" where
  "units_unique T \<longleftrightarrow> distinct (map unitId T) \<and> distinct (map (\<lambda>u. (unitTaskId u, unitIndex u)) T)"

definition insertUnit :: "task_unit \<Rightarrow> (db, task_unit) op" where
  "insertUnit u = onUnits (insertUnique units_unique u)"

definition newUnit :: "string \<Rightarrow> string \<Rightarrow> string \<Rightarrow> nat \<Rightarrow> js \<Rightarrow> task_unit" where
  "newUnit fresh i ty n payload =
     \<lparr>unitId = fresh, unitTaskId = i, unitType = ty, unitIndex = n, unitStatus = UNIT_PENDING,
      unitTxHash = None, unitError = None, unitPayload = payload\<rparr>"

definition liquidity_field :: "string \<Rightarrow> js \<Rightarrow> string" where
  "liquidity_field k payload = (case js_get k payload of JStr s \<Rightarrow> s | _ \<Rightarrow> [])"

definition createLiquidityTask :: "routing \<Rightarrow> string \<Rightarrow> string \<Rightarrow> js \<Rightarrow> (db, string \<times> string) op" where
  "createLiquidityTask R freshTask freshUnit payload =
     andThen (lift (assertCapability R Cap_liquidity)) (\<lambda>_.
     andThen (lift (normalizeTaskOwner owner_fields payload)) (\<lambda>(field, address).
     let action = js_get ''operation'' payload; tok = liquidity_field ''token'' payload;
         amt = liquidity_field ''amount'' payload in
     andThen (ensure (action \<in> {JStr ''add'', JStr ''remove''} \<and> tok \<noteq> [] \<and> amt \<noteq> [])
        (BadRequest ''LIQUIDITY_FIELDS_REQUIRED'')) (\<lambda>_.
     let fields = [(''operation'', action), (''token'', JStr tok), (''amount'', JStr amt)] in
     transaction (
       andThen (insertTask ((newTask freshTask ''liquidity'' TS_ASSIGNED payload)
          \<lparr>totalUnits := 1, taskMetadata := JObj (fields @ [(field, JStr address)])\<rparr>)) (\<lambda>t.
       andThen (insertUnit (newUnit freshUnit (tId t) ''step'' 0 (JObj fields))) (\<lambda>u.
       andThen (logStep (tId t) ''task.assigned'' TS_ASSIGNED (JObj fields)) (\<lambda>_.
       ok (tId t, unitId u))))))))"

section \<open>Units\<close>

record unit_report =
  repStatus :: unit_status
  repTxHash :: "string option option"
  repError :: "string option option"

record report_result =
  rrTask :: task_details
  rrUnit :: task_unit
  rrNext :: "task_unit option"

definition recomputeTaskStatus :: "nat \<Rightarrow> nat \<Rightarrow> nat \<Rightarrow> task_status" where
  "recomputeTaskStatus all_units completed failed =
     (if 0 < failed then TS_REVIEW
      else if 0 < all_units \<and> completed = all_units then TS_EXECUTED
      else TS_IN_PROGRESS)"

definition findNextPendingUnit :: "task_details \<Rightarrow> task_unit option" where
  "findNextPendingUnit d = find (\<lambda>u. unitStatus u = UNIT_PENDING) (dUnits d)"

definition findUnit :: "string \<Rightarrow> string \<Rightarrow> db \<Rightarrow> task_unit option" where
  "findUnit i uid s = find_row (\<lambda>u. unitId u = uid \<and> unitTaskId u = i) (units s)"

definition updateUnit :: "string \<Rightarrow> (task_unit \<Rightarrow> task_unit) \<Rightarrow> (db, task_unit) op" where
  "updateUnit uid f =
     andThen (onUnits (updateMany (\<lambda>u. unitId u = uid) f)) (\<lambda>_.
     andThen (query (\<lambda>s. find_row (\<lambda>u. unitId u = uid) (units s))) (\<lambda>found.
     lift (fromSome (DbError ''P2025'') found)))"

definition reportedHash :: "unit_report \<Rightarrow> string option option" where
  "reportedHash x = (case repTxHash x of None \<Rightarrow> None | Some h \<Rightarrow> Some (normalizeChainTxId h))"

definition reported :: "unit_report \<Rightarrow> task_unit \<Rightarrow> task_unit" where
  "reported x u = u\<lparr>unitStatus := repStatus x,
     unitTxHash := (case reportedHash x of None \<Rightarrow> unitTxHash u | Some h \<Rightarrow> h),
     unitError := (case repError x of None \<Rightarrow> unitError u | Some e \<Rightarrow> e)\<rparr>"

definition unit_status_text :: "unit_status \<Rightarrow> string" where
  "unit_status_text x =
     (case x of UNIT_PENDING \<Rightarrow> ''PENDING'' | UNIT_SUCCESS \<Rightarrow> ''SUCCESS'' | UNIT_FAILED \<Rightarrow> ''FAILED'')"

definition report_log :: "string \<Rightarrow> unit_report \<Rightarrow> task_status \<Rightarrow> task_unit \<Rightarrow> task_log" where
  "report_log i x next u =
     \<lparr>logTaskId = i, logLevel = (if repStatus x = UNIT_FAILED then LEVEL_ERROR else LEVEL_INFO),
      logStepName = ''unit.reported'', logStatus = next,
      logContext = JObj
        [(''error'', json_opt (case repError x of None \<Rightarrow> None | Some e \<Rightarrow> e)),
         (''txHash'', json_opt (case reportedHash x of None \<Rightarrow> None | Some h \<Rightarrow> h)),
         (''unitId'', JStr (unitId u)), (''unitIndex'', JNum (unitIndex u)),
         (''unitStatus'', JStr (unit_status_text (repStatus x)))]\<rparr>"

definition ticks :: "unit_status \<Rightarrow> unit_report \<Rightarrow> nat" where
  "ticks k x = (if repStatus x = k then 1 else 0)"

text \<open>
  The transaction runs at the default isolation level, READ COMMITTED, so other transactions commit
  between its statements.
\<close>

definition reportPending ::
  "(nat \<Rightarrow> db \<Rightarrow> db) \<Rightarrow> string \<Rightarrow> string \<Rightarrow> unit_report \<Rightarrow> (db, report_result) op" where
  "reportPending others i uid x =
     andThen (updateUnit uid (reported x)) (\<lambda>v.
     andThen (interfere (others 1)) (\<lambda>_.
     andThen (readTask (DbError ''P2025'') i) (\<lambda>t.
     andThen (interfere (others 2)) (\<lambda>_.
     andThen (updateTask i (\<lambda>t. t\<lparr>completedUnits := completedUnits t + ticks UNIT_SUCCESS x,
          failedUnits := failedUnits t + ticks UNIT_FAILED x\<rparr>)) (\<lambda>_.
     let next = recomputeTaskStatus (totalUnits t) (completedUnits t + ticks UNIT_SUCCESS x)
           (failedUnits t + ticks UNIT_FAILED x) in
     andThen (updateTask i (\<lambda>t. t\<lparr>taskStatus := next\<rparr>)) (\<lambda>_.
     andThen (appendLog (report_log i x next v)) (\<lambda>_.
     andThen (getTaskDetailsInTransaction i) (\<lambda>d.
     ok \<lparr>rrTask = d, rrUnit = mapUnit v, rrNext = findNextPendingUnit d\<rparr>))))))))"

definition reportUnit ::
  "(nat \<Rightarrow> db \<Rightarrow> db) \<Rightarrow> string \<Rightarrow> string \<Rightarrow> unit_report \<Rightarrow> (db, report_result) op" where
  "reportUnit others i uid x =
     transaction (
       andThen (query (findUnit i uid)) (\<lambda>found.
       andThen (lift (fromSome UNIT_NOT_FOUND found)) (\<lambda>u.
       if unitStatus u \<noteq> UNIT_PENDING
       then andThen (getTaskDetailsInTransaction i) (\<lambda>d.
              ok \<lparr>rrTask = d, rrUnit = mapUnit u, rrNext = findNextPendingUnit d\<rparr>)
       else andThen (interfere (others 0)) (\<lambda>_. reportPending others i (unitId u) x))))"

section \<open>Tracked transactions\<close>

definition appendTransaction ::
  "string \<Rightarrow> string \<Rightarrow> string \<Rightarrow> string \<Rightarrow> string \<Rightarrow> string \<Rightarrow> nat \<Rightarrow> (db, task_tx) op" where
  "appendTransaction fresh i tx payee amt cur n =
     onTransactions (insertUnique (\<lambda>T. distinct (map txRowId T))
       \<lparr>txRowId = fresh, txTaskId = i, txId = tx, txRecipient = payee, txAmount = amt, txCurrency = cur,
        txStatus = TX_PENDING, txHash = None, txErrorReason = None, batchIndex = n, pollAttempts = 0\<rparr>)"

record tx_update =
  upStatus :: tx_status
  upHash :: "string option option"
  upReason :: "string option option"
  upAttempts :: "nat option"

definition apply_update :: "tx_update \<Rightarrow> task_tx \<Rightarrow> task_tx" where
  "apply_update x r = r\<lparr>txStatus := upStatus x,
     txHash := (case upHash x of None \<Rightarrow> txHash r | Some h \<Rightarrow> h),
     txErrorReason := (case upReason x of None \<Rightarrow> txErrorReason r | Some e \<Rightarrow> e),
     pollAttempts := (case upAttempts x of None \<Rightarrow> pollAttempts r | Some n \<Rightarrow> n)\<rparr>"

definition updateTransaction :: "string \<Rightarrow> tx_update \<Rightarrow> (db, task_tx) op" where
  "updateTransaction tx x =
     andThen (query (\<lambda>s. find_row (\<lambda>r. txId r = tx) (transactions s))) (\<lambda>found.
     andThen (lift (fromSome TX_NOT_FOUND found)) (\<lambda>r.
     andThen (onTransactions (updateMany (\<lambda>q. txRowId q = txRowId r) (apply_update x))) (\<lambda>_.
     andThen (query (\<lambda>s. find_row (\<lambda>q. txRowId q = txRowId r) (transactions s))) (\<lambda>found.
     lift (fromSome (DbError ''P2025'') found)))))"

definition getTaskTransactions :: "string \<Rightarrow> (db, task_tx list) op" where
  "getTaskTransactions i = query (\<lambda>s. sort_key batchIndex (filter (\<lambda>r. txTaskId r = i) (transactions s)))"

record tx_aggregation =
  agTotal :: nat
  agCompleted :: nat
  agFailed :: nat
  agPending :: nat
  agAllTerminal :: bool
  agHashes :: "string list"

definition aggregate :: "task_tx list \<Rightarrow> tx_aggregation" where
  "aggregate txs =
     (let n = length txs; completed = length (filter (\<lambda>r. txStatus r = TX_COMPLETED) txs);
          failed = length (filter (\<lambda>r. txStatus r = TX_FAILED) txs); pending = n - completed - failed in
      \<lparr>agTotal = n, agCompleted = completed, agFailed = failed, agPending = pending,
       agAllTerminal = (pending = 0 \<and> 0 < n), agHashes = List.map_filter txHash txs\<rparr>)"

definition getTransactionAggregation :: "string \<Rightarrow> (db, tx_aggregation) op" where
  "getTransactionAggregation i = query (\<lambda>s. aggregate (filter (\<lambda>r. txTaskId r = i) (transactions s)))"

end
