(* ===== verification/PayrollReceipt.thy ===== *)
theory PayrollReceipt
  imports PayrollPlan
begin

text \<open>
  The verification of payroll transactions
  (\<open>apps/backend/src/task/payroll-receipt-verifier.service.ts\<close>).  The RPC answers are a \<open>chain\<close>, the
  decoders of viem for the contract of the selected network a \<open>payroll_abi\<close>; a decoder is \<open>None\<close>
  where viem throws.
\<close>

section \<open>What the service reads\<close>

datatype payroll_call =
    Same_token string "string list" "nat list" string
  | Cross_token string string "string list" "nat list" nat string
  | Batch_route string "string list" "string list" "nat list" string
  | Other_call

record payment_event =
  pvHash :: string
  pvEmployer :: string
  pvTokenOut :: string
  pvRecipient :: string
  pvIndex :: nat
  pvAmount :: nat

record reference_event =
  rvHash :: string
  rvEmployer :: string
  rvTokenIn :: string
  rvTokenOut :: string
  rvTotalOutput :: nat
  rvCount :: nat
  rvReference :: string

record batch_event =
  bvEmployer :: string
  bvTokenIn :: string
  bvTokenOut :: string
  bvTotal :: nat
  bvCount :: nat
  bvReference :: string

record payroll_abi =
  decodePayrollCall :: "string \<Rightarrow> payroll_call option"
  decodePayment :: "chain_log \<Rightarrow> payment_event option"
  decodeReference :: "chain_log \<Rightarrow> reference_event option"
  decodeExecuted :: "chain_log \<Rightarrow> batch_event option"
  decodeRouted :: "chain_log \<Rightarrow> batch_event option"
  decodePaid :: "chain_log \<Rightarrow> (string \<times> string \<times> nat) option"
  encodeReference :: "nat \<Rightarrow> string \<Rightarrow> string \<Rightarrow> string \<Rightarrow> string"

record payroll_net =
  pnKey :: string
  pnChainId :: nat
  pnContract :: "string option"
  pnUsdc :: string
  pnRequired :: nat

record payroll_query =
  pqHash :: string
  pqSource :: string
  pqToken :: string
  pqTotal :: string
  pqDigest :: string
  pqReference :: string
  pqRecipients :: "(string \<times> string) list"

record payroll_evidence =
  peReceipt :: verified_receipt
  peContract :: string
  peReference :: string
  peRecipients :: "(string \<times> string) list"
  peBlock :: nat
  peConfirmations :: nat

abbreviation PAYROLL_MISMATCH :: exn where
  "PAYROLL_MISMATCH \<equiv> Unprocessable ''PAYROLL_RECEIPT_MISMATCH'' False"

abbreviation PAYROLL_PENDING :: exn where
  "PAYROLL_PENDING \<equiv> ServiceUnavailable ''PAYROLL_RECEIPT_PENDING'' True"

definition is_digest :: "string \<Rightarrow> bool" where
  "is_digest s \<longleftrightarrow> length s = 64 \<and> list_all is_hex s"

definition payroll_query_ok :: "payroll_query \<Rightarrow> bool" where
  "payroll_query_ok q \<longleftrightarrow> js_trim (pqReference q) \<noteq> [] \<and> pqRecipients q \<noteq> [] \<and> canonical_uint (pqTotal q) \<and>
     is_digest (pqDigest q) \<and>
     list_all (\<lambda>(_, amt). canonical_uint amt \<and> amt \<noteq> ''0'') (pqRecipients q)"

section \<open>The call\<close>

record verified_call =
  vcTokenIn :: string
  vcTokenOut :: string
  vcRecipients :: "string list"
  vcAmounts :: "nat list"

definition samePay :: "evm \<Rightarrow> (string \<times> nat) \<times> string \<times> string \<Rightarrow> bool res" where
  "samePay E x =
     (case x of ((payee, amount), expected, amt) \<Rightarrow>
        bindR (checksum E payee) (\<lambda>a. bindR (checksum E expected) (\<lambda>b. bindR (equalR E a b) (\<lambda>same.
        if \<not> same then Inr False else bindR (toBigInt amt) (\<lambda>n. Inr (int amount = n))))))"

definition assertCallRecipients ::
  "evm \<Rightarrow> string \<Rightarrow> string \<Rightarrow> string list \<Rightarrow> nat list \<Rightarrow> string \<Rightarrow> payroll_query \<Rightarrow> unit res" where
  "assertCallRecipients E callToken expected payees amounts ref q =
     bindR (checksum E callToken) (\<lambda>t. bindR (equalR E t expected) (\<lambda>same.
     bindR (ensureR (same \<and> ref = pqReference q \<and> length payees = length (pqRecipients q) \<and>
        length amounts = length (pqRecipients q)) PAYROLL_MISMATCH) (\<lambda>_.
     bindR (allR (map (samePay E) (zip (zip payees amounts) (pqRecipients q)))) (\<lambda>fits.
     ensureR fits PAYROLL_MISMATCH))))"

definition verifyMainnetCall ::
  "evm \<Rightarrow> payroll_net \<Rightarrow> payroll_call \<Rightarrow> nat \<Rightarrow> string \<Rightarrow> payroll_query \<Rightarrow> verified_call res" where
  "verifyMainnetCall E N call value token q =
     (case call of
        Same_token t payees amounts ref \<Rightarrow>
          bindR (ensureR (value = 0) PAYROLL_MISMATCH) (\<lambda>_.
          bindR (assertCallRecipients E t token payees amounts ref q) (\<lambda>_.
          bindR (checksum E t) (\<lambda>c.
          bindR (mapR (checksum E) payees) (\<lambda>cs.
          Inr \<lparr>vcTokenIn = c, vcTokenOut = c, vcRecipients = cs, vcAmounts = amounts\<rparr>))))
      | Cross_token tin tout payees amounts gross ref \<Rightarrow>
          bindR (checksum E tin) (\<lambda>cin.
          bindR (equalR E cin (pnUsdc N)) (\<lambda>native.
          bindR (ensureR (value = (if native then gross * 1000000000000 else 0)) PAYROLL_MISMATCH) (\<lambda>_.
          bindR (assertCallRecipients E tout token payees amounts ref q) (\<lambda>_.
          bindR (checksum E tout) (\<lambda>cout.
          bindR (mapR (checksum E) payees) (\<lambda>cs.
          Inr \<lparr>vcTokenIn = cin, vcTokenOut = cout, vcRecipients = cs, vcAmounts = amounts\<rparr>))))))
      | _ \<Rightarrow> Inl PAYROLL_MISMATCH)"

section \<open>The events of the Mainnet contract\<close>

record event_query =
  eqContract :: string
  eqEmployer :: string
  eqTokenIn :: string
  eqTokenOut :: string
  eqHash :: string
  eqReference :: string
  eqRecipients :: "string list"
  eqAmounts :: "nat list"

record scan =
  scPayments :: "nat list"
  scSummaries :: nat
  scBatches :: nat

definition paymentVerdict :: "evm \<Rightarrow> event_query \<Rightarrow> nat list \<Rightarrow> payment_event \<Rightarrow> bool option" where
  "paymentVerdict E q seen p = all_checks
     [Some (pvHash p = eqHash q), isAddressEqual E (pvEmployer p) (eqEmployer q),
      isAddressEqual E (pvTokenOut p) (eqTokenOut q), Some (pvIndex p < length (eqRecipients q)),
      Some (pvIndex p \<notin> set seen), isAddressEqual E (pvRecipient p) (eqRecipients q ! pvIndex p),
      Some (pvAmount p = eqAmounts q ! pvIndex p)]"

definition referenceVerdict :: "evm \<Rightarrow> event_query \<Rightarrow> reference_event \<Rightarrow> bool option" where
  "referenceVerdict E q r = all_checks
     [Some (rvHash r = eqHash q), isAddressEqual E (rvEmployer r) (eqEmployer q),
      isAddressEqual E (rvTokenIn r) (eqTokenIn q), isAddressEqual E (rvTokenOut r) (eqTokenOut q),
      Some (rvTotalOutput r = sum_list (eqAmounts q)), Some (rvCount r = length (eqRecipients q)),
      Some (rvReference r = eqReference q)]"

definition executedVerdict :: "evm \<Rightarrow> event_query \<Rightarrow> batch_event \<Rightarrow> bool option" where
  "executedVerdict E q b = all_checks
     [isAddressEqual E (bvEmployer b) (eqEmployer q), isAddressEqual E (bvTokenIn b) (eqTokenIn q),
      isAddressEqual E (bvTokenOut b) (eqTokenOut q), Some (bvTotal b = sum_list (eqAmounts q)),
      Some (bvCount b = length (eqRecipients q)), Some (bvReference b = eqReference q)]"

text \<open>One log of the contract: \<open>None\<close> where the function returns \<open>false\<close>.\<close>

definition scanLog :: "evm \<Rightarrow> payroll_abi \<Rightarrow> event_query \<Rightarrow> chain_log \<Rightarrow> scan \<Rightarrow> scan option" where
  "scanLog E D q l sc =
     (case Option.bind (decodePayment D l) (\<lambda>p. map_option (Pair p) (paymentVerdict E q (scPayments sc) p)) of
        Some (p, good) \<Rightarrow> if good then Some (sc\<lparr>scPayments := pvIndex p # scPayments sc\<rparr>) else None
      | None \<Rightarrow>
     (case Option.bind (decodeReference D l) (referenceVerdict E q) of
        Some good \<Rightarrow> if good then Some (sc\<lparr>scSummaries := scSummaries sc + 1\<rparr>) else None
      | None \<Rightarrow>
     (case Option.bind (decodeExecuted D l) (executedVerdict E q) of
        Some good \<Rightarrow> if good then Some (sc\<lparr>scBatches := scBatches sc + 1\<rparr>) else None
      | None \<Rightarrow> Some sc)))"

fun scanLogs :: "evm \<Rightarrow> payroll_abi \<Rightarrow> event_query \<Rightarrow> chain_log list \<Rightarrow> scan \<Rightarrow> bool res" where
  "scanLogs E D q [] sc =
     Inr (length (scPayments sc) = length (eqRecipients q) \<and> scSummaries sc = 1 \<and> scBatches sc = 1)"
| "scanLogs E D q (l # ls) sc =
     bindR (equalR E (logAddress l) (eqContract q)) (\<lambda>ours.
     if \<not> ours then scanLogs E D q ls sc
     else case scanLog E D q l sc of None \<Rightarrow> Inr False | Some sc' \<Rightarrow> scanLogs E D q ls sc')"

definition verifyMainnetPayrollEvents ::
  "evm \<Rightarrow> payroll_abi \<Rightarrow> payroll_net \<Rightarrow> chain_log list \<Rightarrow> string \<Rightarrow> string \<Rightarrow> verified_call \<Rightarrow> string \<Rightarrow> bool res" where
  "verifyMainnetPayrollEvents E D N ls contract employer vc ref =
     scanLogs E D
       \<lparr>eqContract = contract, eqEmployer = employer, eqTokenIn = vcTokenIn vc, eqTokenOut = vcTokenOut vc,
        eqHash = keccak256 E (encodeReference D (pnChainId N) contract employer ref), eqReference = ref,
        eqRecipients = vcRecipients vc, eqAmounts = vcAmounts vc\<rparr>
       ls \<lparr>scPayments = [], scSummaries = 0, scBatches = 0\<rparr>"

section \<open>Confirmations and evidence\<close>

definition payrollConfirmations :: "payroll_net \<Rightarrow> chain \<Rightarrow> nat \<Rightarrow> nat res" where
  "payrollConfirmations N c block =
     bindR (fromSome PAYROLL_PENDING (getBlockNumber c)) (\<lambda>latest.
     bindR (ensureR (\<not> latest < block) PAYROLL_MISMATCH) (\<lambda>_.
     bindR (ensureR (\<not> latest - block + 1 < pnRequired N) (ServiceUnavailable ''PAYROLL_CONFIRMATIONS_PENDING'' True)) (\<lambda>_.
     Inr (latest - block + 1))))"

definition evidence ::
  "payroll_net \<Rightarrow> string \<Rightarrow> string \<Rightarrow> string \<Rightarrow> string \<Rightarrow> string \<Rightarrow> (string \<times> string) list \<Rightarrow> string \<Rightarrow> nat \<Rightarrow> nat \<Rightarrow> nat \<Rightarrow>
     payroll_evidence" where
  "evidence N h source token contract ref payees digest amount block n =
     \<lparr>peReceipt = \<lparr>rcNetwork = pnKey N, rcHash = h, rcSource = source, rcToken = token, rcRecipient = None,
        rcBatchDigest = Some (Some digest), rcAmount = show_nat amount\<rparr>,
      peContract = contract, peReference = ref, peRecipients = payees, peBlock = block, peConfirmations = n\<rparr>"

text \<open>The digest and the total of what the call pays.\<close>

definition assertBatch :: "evm \<Rightarrow> string \<Rightarrow> (string \<times> string) list \<Rightarrow> nat list \<Rightarrow> payroll_query \<Rightarrow> string res" where
  "assertBatch E token payees amounts q =
     bindR (createPayrollBatchDigest E (map (\<lambda>(a, amt). (a, token, amt)) payees)) (\<lambda>digest.
     bindR (ensureR (show_nat (sum_list amounts) = pqTotal q \<and> digest = toLowerCase (pqDigest q)) PAYROLL_MISMATCH) (\<lambda>_.
     Inr digest))"

definition payees_of :: "string list \<Rightarrow> nat list \<Rightarrow> (string \<times> string) list" where
  "payees_of addresses amounts = zip addresses (map show_nat amounts)"

definition finishMainnetReceipt ::
  "evm \<Rightarrow> payroll_abi \<Rightarrow> payroll_net \<Rightarrow> chain \<Rightarrow> chain_tx \<Rightarrow> chain_receipt \<Rightarrow> string \<Rightarrow> string \<Rightarrow> verified_call \<Rightarrow> payroll_query \<Rightarrow>
     payroll_evidence res" where
  "finishMainnetReceipt E D N c tx rc contract source vc q =
     (let payees = payees_of (vcRecipients vc) (vcAmounts vc); token = vcTokenOut vc in
     bindR (assertBatch E token payees (vcAmounts vc) q) (\<lambda>digest.
     bindR (payrollConfirmations N c (crBlock rc)) (\<lambda>n.
     bindR (verifyMainnetPayrollEvents E D N (crLogs rc) contract source vc (pqReference q)) (\<lambda>proved.
     bindR (ensureR proved PAYROLL_MISMATCH) (\<lambda>_.
     Inr (evidence N (ctHash tx) source token contract (pqReference q) payees digest (sum_list (vcAmounts vc)) (crBlock rc) n))))))"

section \<open>The routed batch of other networks\<close>

definition verifyRoutedCall :: "evm \<Rightarrow> payroll_call \<Rightarrow> nat \<Rightarrow> string \<Rightarrow> payroll_query \<Rightarrow> (string list \<times> nat list) res" where
  "verifyRoutedCall E call value token q =
     bindR (ensureR (value = 0) PAYROLL_MISMATCH) (\<lambda>_.
     case call of
       Batch_route tin touts payees amounts ref \<Rightarrow>
         bindR (checksum E tin) (\<lambda>cin. bindR (equalR E cin token) (\<lambda>same.
         bindR (ensureR (same \<and> length touts = length (pqRecipients q)) PAYROLL_MISMATCH) (\<lambda>_.
         bindR (allR (map (\<lambda>t. bindR (checksum E t) (\<lambda>a. equalR E a token)) touts)) (\<lambda>outs.
         bindR (ensureR (outs \<and> ref = pqReference q \<and> length payees = length (pqRecipients q) \<and>
            length amounts = length (pqRecipients q)) PAYROLL_MISMATCH) (\<lambda>_.
         bindR (allR (map (samePay E) (zip (zip payees amounts) (pqRecipients q)))) (\<lambda>fits.
         bindR (ensureR fits PAYROLL_MISMATCH) (\<lambda>_.
         bindR (mapR (checksum E) payees) (\<lambda>cs. Inr (cs, amounts)))))))))
     | _ \<Rightarrow> Inl PAYROLL_MISMATCH)"

definition routedMatches :: "evm \<Rightarrow> payroll_abi \<Rightarrow> string \<Rightarrow> string \<Rightarrow> string \<Rightarrow> payroll_query \<Rightarrow> chain_log \<Rightarrow> bool res" where
  "routedMatches E D contract source token q l =
     bindR (equalR E (logAddress l) contract) (\<lambda>ours.
     if \<not> ours then Inr False
     else case decodeRouted D l of
         None \<Rightarrow> Inr False
       | Some b \<Rightarrow> Inr (is_account E (bvEmployer b) source \<and> is_account E (bvTokenIn b) token \<and>
           is_account E (bvTokenOut b) token \<and> Inr (int (bvTotal b)) = toBigInt (pqTotal q) \<and>
           bvCount b = length (pqRecipients q) \<and> bvReference b = pqReference q))"

fun addAmount :: "string \<Rightarrow> nat \<Rightarrow> (string \<times> nat) list \<Rightarrow> (string \<times> nat) list" where
  "addAmount k v [] = [(k, v)]"
| "addAmount k v ((j, w) # m) = (if j = k then (j, w + v) # m else (j, w) # addAmount k v m)"

fun paidAmounts :: "evm \<Rightarrow> payroll_abi \<Rightarrow> string \<Rightarrow> string \<Rightarrow> chain_log list \<Rightarrow> (string \<times> nat) list \<Rightarrow> (string \<times> nat) list res" where
  "paidAmounts E D contract token [] m = Inr m"
| "paidAmounts E D contract token (l # ls) m =
     bindR (equalR E (logAddress l) token) (\<lambda>ours.
     if \<not> ours then paidAmounts E D contract token ls m
     else case decodePaid D l of
         None \<Rightarrow> paidAmounts E D contract token ls m
       | Some (src, dst, v) \<Rightarrow>
           (if is_account E src contract
            then case getAddress E dst of
                None \<Rightarrow> paidAmounts E D contract token ls m
              | Some a \<Rightarrow> paidAmounts E D contract token ls (addAmount (toLowerCase a) v m)
            else paidAmounts E D contract token ls m))"

fun expectedAmounts :: "evm \<Rightarrow> (string \<times> string) list \<Rightarrow> (string \<times> nat) list \<Rightarrow> (string \<times> nat) list res" where
  "expectedAmounts E [] m = Inr m"
| "expectedAmounts E ((a, amt) # rs) m =
     bindR (checksum E a) (\<lambda>c. expectedAmounts E rs (addAmount (toLowerCase c) (read_nat amt) m))"

definition finishRoutedReceipt ::
  "evm \<Rightarrow> payroll_abi \<Rightarrow> payroll_net \<Rightarrow> chain \<Rightarrow> chain_tx \<Rightarrow> chain_receipt \<Rightarrow> string \<Rightarrow> string \<Rightarrow> string \<Rightarrow> payroll_call \<Rightarrow>
     payroll_query \<Rightarrow> payroll_evidence res" where
  "finishRoutedReceipt E D N c tx rc contract source token call q =
     bindR (verifyRoutedCall E call (ctValue tx) token q) (\<lambda>(addresses, amounts).
     let payees = payees_of addresses amounts in
     bindR (assertBatch E token payees amounts q) (\<lambda>digest.
     bindR (payrollConfirmations N c (crBlock rc)) (\<lambda>n.
     bindR (filterR (routedMatches E D contract source token q) (crLogs rc)) (\<lambda>matches.
     bindR (ensureR (length matches = 1) PAYROLL_MISMATCH) (\<lambda>_.
     bindR (paidAmounts E D contract token (crLogs rc) []) (\<lambda>paid.
     bindR (expectedAmounts E (pqRecipients q) []) (\<lambda>expected.
     bindR (ensureR (length paid = length expected \<and>
        list_all (\<lambda>(a, v). map_of paid a = Some v) expected) PAYROLL_MISMATCH) (\<lambda>_.
     Inr (evidence N (ctHash tx) source token contract (pqReference q) payees digest (sum_list amounts) (crBlock rc) n)))))))))"

section \<open>Verification\<close>

definition normalizedQuery :: "evm \<Rightarrow> string \<Rightarrow> payroll_query \<Rightarrow> (string \<times> string \<times> string) res" where
  "normalizedQuery E contract q =
     (case (getAddress E (pqSource q), getAddress E (pqToken q), getAddress E contract) of
        (Some source, Some token, Some account) \<Rightarrow>
          if list_all (\<lambda>(a, _). getAddress E a \<noteq> None) (pqRecipients q) then Inr (source, token, account)
          else Inl PAYROLL_MISMATCH
      | _ \<Rightarrow> Inl PAYROLL_MISMATCH)"

definition fetchPayroll :: "payroll_net \<Rightarrow> chain \<Rightarrow> string \<Rightarrow> (chain_tx \<times> chain_receipt) res" where
  "fetchPayroll N c h =
     bindR (fromSome PAYROLL_PENDING (getChainId c)) (\<lambda>i.
     bindR (ensureR (i = pnChainId N) PAYROLL_MISMATCH) (\<lambda>_.
     bindR (fromSome PAYROLL_PENDING (getTransaction c h)) (\<lambda>tx.
     bindR (fromSome PAYROLL_PENDING (getTransactionReceipt c h)) (\<lambda>rc. Inr (tx, rc)))))"

definition assertTransaction :: "evm \<Rightarrow> payroll_net \<Rightarrow> chain_tx \<Rightarrow> chain_receipt \<Rightarrow> string \<Rightarrow> string \<Rightarrow> string \<Rightarrow> unit res" where
  "assertTransaction E N tx rc h contract source =
     bindR (ensureR (crSuccess rc \<and> toLowerCase (ctHash tx) = toLowerCase h \<and> toLowerCase (crHash rc) = toLowerCase h \<and>
        ctChainId tx = Some (pnChainId N)) PAYROLL_MISMATCH) (\<lambda>_.
     case ctTo tx of
       None \<Rightarrow> Inl PAYROLL_MISMATCH
     | Some to \<Rightarrow>
         bindR (checksum E to) (\<lambda>a. bindR (equalR E a contract) (\<lambda>ours.
         bindR (ensureR ours PAYROLL_MISMATCH) (\<lambda>_.
         bindR (checksum E (ctFrom tx)) (\<lambda>b. bindR (equalR E b source) (\<lambda>payer.
         ensureR payer PAYROLL_MISMATCH))))))"

definition verifyPayroll :: "evm \<Rightarrow> payroll_abi \<Rightarrow> payroll_net \<Rightarrow> chain \<Rightarrow> payroll_query \<Rightarrow> payroll_evidence res" where
  "verifyPayroll E D N c q =
     bindR (fromSome (ServiceUnavailable ''PAYROLL_CONTRACT_UNAVAILABLE'' False)
        (if truthy (pnContract N) then pnContract N else None)) (\<lambda>configured.
     bindR (ensureR (is_hash (pqHash q) \<and> payroll_query_ok q) PAYROLL_MISMATCH) (\<lambda>_.
     bindR (normalizedQuery E configured q) (\<lambda>(source, token, contract).
     bindR (fetchPayroll N c (pqHash q)) (\<lambda>(tx, rc).
     bindR (assertTransaction E N tx rc (pqHash q) contract source) (\<lambda>_.
     bindR (fromSome PAYROLL_MISMATCH (decodePayrollCall D (ctInput tx))) (\<lambda>call.
     if pnKey N = ARC_MAINNET
     then bindR (verifyMainnetCall E N call (ctValue tx) token q) (\<lambda>vc.
            finishMainnetReceipt E D N c tx rc contract source vc q)
     else finishRoutedReceipt E D N c tx rc contract source token call q))))))"

end
