(* ===== verification/PayrollTask.thy ===== *)
theory PayrollTask
  imports Tasks PayrollReceipt
begin

text \<open>
  Payroll runs as tasks: \<open>createPayrollTask\<close> and the reconciliation of a run with its execution intents
  (\<open>apps/backend/src/task/task.service.ts\<close>), and the endpoint that reports a unit
  (\<open>POST /tasks/:taskId/units/:unitId/report\<close> of \<open>apps/backend/src/orchestrator/task.controller.ts\<close>).
  The calls of one request run one after the other; calls the code starts together with
  \<open>Promise.all\<close> run in the order of the list, all of them, and the first error is thrown.
\<close>

section \<open>The environment\<close>

record payroll_env =
  pyEvm :: evm
  pyRouting :: routing
  pyAbi :: payroll_abi
  pyNet :: payroll_net
  pyChain :: chain
  parseUnits :: "string \<Rightarrow> nat \<Rightarrow> int option"
  rounded :: "string \<Rightarrow> nat \<Rightarrow> string"
  message_of :: "exn \<Rightarrow> string"

fun runAll :: "('s, 'a) op list \<Rightarrow> ('s, 'a list) op" where
  "runAll [] s = (Inr [], s)"
| "runAll (m # ms) s =
     (case m s of (r, t) \<Rightarrow> case runAll ms t of (rs, u) \<Rightarrow>
        (bindR r (\<lambda>x. bindR rs (\<lambda>xs. Inr (x # xs))), u))"

fun runEach :: "('s, 'a) op list \<Rightarrow> ('s, unit) op" where
  "runEach [] = ok ()"
| "runEach (m # ms) = andThen m (\<lambda>_. runEach ms)"

definition branching :: "('s, 'a) op \<Rightarrow> (exn \<Rightarrow> ('s, 'b) op) \<Rightarrow> ('a \<Rightarrow> ('s, 'b) op) \<Rightarrow> ('s, 'b) op" where
  "branching m h f s = (case m s of (Inl e, t) \<Rightarrow> h e t | (Inr x, t) \<Rightarrow> f x t)"

abbreviation INTENT_REQUIRED :: exn where
  "INTENT_REQUIRED \<equiv> BadRequest ''PAYROLL_EXECUTION_INTENT_REQUIRED''"

section \<open>Reporting a unit\<close>

definition unitPayee :: "payroll_env \<Rightarrow> js \<Rightarrow> (string \<times> string) res" where
  "unitPayee V r =
     bindR (ensureR (r \<noteq> JNull \<and> r \<noteq> JUndefined) (PlainError ''TypeError'')) (\<lambda>_.
     bindR (case js_get ''amountUnits'' r of
         JStr s \<Rightarrow> Inr s
       | _ \<Rightarrow> bindR (fromSome (PlainError ''InvalidDecimalNumberError'')
              (parseUnits V (case js_get ''amount'' r of JStr s \<Rightarrow> s | _ \<Rightarrow> []) 6)) (\<lambda>n. Inr (show_int n))) (\<lambda>amt.
     Inr (case js_get ''address'' r of JStr a \<Rightarrow> a | _ \<Rightarrow> [], amt)))"

definition unitQuery :: "payroll_env \<Rightarrow> intent \<Rightarrow> string \<Rightarrow> js \<Rightarrow> payroll_query res" where
  "unitQuery V r h payload =
     bindR (mapR (unitPayee V) (js_items (js_get ''recipients'' payload))) (\<lambda>payees.
     Inr \<lparr>pqHash = h, pqSource = sourceWallet r, pqToken = tokenOut r, pqTotal = amountUnits r,
          pqDigest = the (batchDigest r),
          pqReference = js_string (js_or (js_get ''referenceId'' payload) (JStr [])), pqRecipients = payees\<rparr>)"

definition confirmUnit :: "payroll_env \<Rightarrow> int \<Rightarrow> string \<Rightarrow> string \<Rightarrow> string option \<Rightarrow> string option \<Rightarrow> (db, intent) op" where
  "confirmUnit V now i uid hash intent =
     (let E = pyEvm V; R = pyRouting V in
     andThen (getTaskById i) (\<lambda>d.
     andThen (lift (fromSome INTENT_REQUIRED (find (\<lambda>u. unitId u = uid) (dUnits d)))) (\<lambda>u.
     andThen (ensure (truthy hash \<and> truthy intent) INTENT_REQUIRED) (\<lambda>_.
     andThen (getIntent R (the intent)) (\<lambda>r.
     andThen (ensure (taskId r = Some i \<and> JStr (externalReference r) = js_get ''referenceId'' (unitPayload u))
        (BadRequest ''EXECUTION_INTENT_IMMUTABLE_CONFLICT'')) (\<lambda>_.
     andThen (bindHashOp R now (intentId r) (the hash) None False) (\<lambda>_.
     andThen (beginVerification R now (intentId r)) (\<lambda>_.
     andThen (ensure (truthy (batchDigest r)) INTENT_REQUIRED) (\<lambda>_.
     andThen (lift (unitQuery V r (the hash) (unitPayload u))) (\<lambda>q.
     andThen (lift (verifyPayroll E (pyAbi V) (pyNet V) (pyChain V) q)) (\<lambda>e.
     completeWithVerifiedReceipt E R now (intentId r) (peReceipt e))))))))))))"

definition reportTaskUnit ::
  "payroll_env \<Rightarrow> int \<Rightarrow> string \<Rightarrow> string \<Rightarrow> unit_report \<Rightarrow> string option \<Rightarrow> (db, report_result) op" where
  "reportTaskUnit V now i uid x intent =
     andThen (lift (assertCapability (pyRouting V) Cap_sameTokenPayroll)) (\<lambda>_.
     andThen (if repStatus x = UNIT_SUCCESS
        then andThen (confirmUnit V now i uid (case repTxHash x of Some h \<Rightarrow> h | None \<Rightarrow> None) intent) (\<lambda>_. ok ())
        else ok ()) (\<lambda>_.
     reportUnit (\<lambda>_. id) i uid x))"

section \<open>Reconciliation\<close>

fun intent_status_text :: "intent_status \<Rightarrow> string" where
  "intent_status_text CREATED = ''CREATED''"
| "intent_status_text AWAITING_WALLET_SIGNATURE = ''AWAITING_WALLET_SIGNATURE''"
| "intent_status_text AUTHORIZATION_PENDING = ''AUTHORIZATION_PENDING''"
| "intent_status_text SUBMISSION_PENDING = ''SUBMISSION_PENDING''"
| "intent_status_text SUBMITTED = ''SUBMITTED''"
| "intent_status_text VERIFYING = ''VERIFYING''"
| "intent_status_text COMPLETED = ''COMPLETED''"
| "intent_status_text FAILED_RETRYABLE = ''FAILED_RETRYABLE''"
| "intent_status_text FAILED_FINAL = ''FAILED_FINAL''"
| "intent_status_text EXPIRED = ''EXPIRED''"
| "intent_status_text CANCELLED = ''CANCELLED''"

definition retryableResponse :: "exn \<Rightarrow> bool" where
  "retryableResponse e =
     (case e of Unprocessable _ again \<Rightarrow> again | ServiceUnavailable _ again \<Rightarrow> again | TooManyRequests _ again \<Rightarrow> again | _ \<Rightarrow> False)"

definition report :: "unit_status \<Rightarrow> string option option \<Rightarrow> string option option \<Rightarrow> unit_report" where
  "report k h e = \<lparr>repStatus = k, repTxHash = h, repError = e\<rparr>"

definition failUnit :: "payroll_env \<Rightarrow> int \<Rightarrow> string \<Rightarrow> string \<Rightarrow> intent \<Rightarrow> exn \<Rightarrow> (db, unit) op" where
  "failUnit V now i uid r e =
     (if retryableResponse e then ok ()
      else
        andThen (if status r = VERIFYING
           then andThen (transition (pyRouting V) now (intentId r) VERIFYING FAILED_FINAL no_data) (\<lambda>_. ok ())
           else ok ()) (\<lambda>_.
        andThen (reportUnit (\<lambda>_. id) i uid
           (report UNIT_FAILED (Some (transactionHash r)) (Some (Some (message_of V e))))) (\<lambda>_. ok ())))"

definition batchQuery :: "string \<Rightarrow> intent \<Rightarrow> batch \<Rightarrow> payroll_query" where
  "batchQuery h r b =
     \<lparr>pqHash = h, pqSource = sourceWallet r, pqToken = tokenOut r, pqTotal = amountUnits r,
      pqDigest = the (batchDigest r), pqReference = externalReference r,
      pqRecipients = map (\<lambda>p. (rpAddress p, show_int (rpUnits p))) (bRecipients b)\<rparr>"

definition settleUnit :: "payroll_env \<Rightarrow> int \<Rightarrow> string \<Rightarrow> string \<Rightarrow> batch \<Rightarrow> string \<Rightarrow> intent \<Rightarrow> (db, unit) op" where
  "settleUnit V now i uid b h r =
     catching
       (andThen (ensure (truthy (batchDigest r)) INTENT_REQUIRED) (\<lambda>_.
        andThen (lift (verifyPayroll (pyEvm V) (pyAbi V) (pyNet V) (pyChain V) (batchQuery h r b))) (\<lambda>e.
        andThen (completeWithVerifiedReceipt (pyEvm V) (pyRouting V) now (intentId r) (peReceipt e)) (\<lambda>_.
        andThen (reportUnit (\<lambda>_. id) i uid (report UNIT_SUCCESS (Some (transactionHash r)) None)) (\<lambda>_. ok ())))))
       (failUnit V now i uid r)"

definition reconcileUnit :: "payroll_env \<Rightarrow> int \<Rightarrow> string \<Rightarrow> string \<Rightarrow> batch \<Rightarrow> string \<Rightarrow> (db, unit) op" where
  "reconcileUnit V now i uid b plan =
     (let R = pyRouting V in
     andThen (getIntent R plan) (\<lambda>r.
     if status r = COMPLETED
     then andThen (reportUnit (\<lambda>_. id) i uid (report UNIT_SUCCESS (Some (transactionHash r)) None)) (\<lambda>_. ok ())
     else if status r \<in> {FAILED_FINAL, EXPIRED, CANCELLED}
     then andThen (reportUnit (\<lambda>_. id) i uid (report UNIT_FAILED None
            (Some (Some (''Execution intent is terminal: '' @ intent_status_text (status r) @ ''.''))))) (\<lambda>_. ok ())
     else if \<not> truthy (transactionHash r) \<or> status r \<notin> {SUBMITTED, VERIFYING} then ok ()
     else branching (if status r = SUBMITTED then beginVerification R now (intentId r) else ok r)
            (failUnit V now i uid r)
            (settleUnit V now i uid b (the (transactionHash r)))))"

definition unitAt :: "task_details \<Rightarrow> nat \<Rightarrow> task_unit option" where
  "unitAt d n = find (\<lambda>u. unitIndex u = n) (dUnits d)"

definition reconcilePayrollIntents ::
  "payroll_env \<Rightarrow> int \<Rightarrow> task_details \<Rightarrow> intent list \<Rightarrow> batch list \<Rightarrow> (db, task_details) op" where
  "reconcilePayrollIntents V now d plans batches =
     (let i = tId (dTask d) in
     andThen (runEach (map (\<lambda>(n, plan). case unitAt d n of
         None \<Rightarrow> ok ()
       | Some u \<Rightarrow> if n < length batches then reconcileUnit V now i (unitId u) (batches ! n) (intentId plan) else ok ())
       (enumerate 0 plans))) (\<lambda>_.
     andThen (runAll (map (\<lambda>(n, plan). case unitAt d n of
         None \<Rightarrow> ok ()
       | Some u \<Rightarrow>
           andThen (getIntent (pyRouting V) (intentId plan)) (\<lambda>r.
           andThen (updateUnit (unitId u) (\<lambda>v. v\<lparr>unitPayload := JObj (spread (js_fields (mapJsonObject (unitPayload u)))
              [(''executionIntentStatus'', JStr (intent_status_text (status r)))])\<rparr>)) (\<lambda>_. ok ())))
       (enumerate 0 plans))) (\<lambda>_.
     andThen (readTask (DbError ''P2025'') i) (\<lambda>t.
     query (taskWithRelations t)))))"

section \<open>Creating a run\<close>

record payroll_result =
  prTaskId :: string
  prIntentId :: string
  prIdempotencyKey :: string
  prApproval :: string
  prReference :: string
  prTotalUnits :: nat
  prUnits :: "task_unit list"

definition stringField :: "js \<Rightarrow> string \<Rightarrow> string" where
  "stringField v fallback = (case v of JStr s \<Rightarrow> s | _ \<Rightarrow> fallback)"

definition payrollResult :: "task_details \<Rightarrow> intent \<Rightarrow> payroll_result" where
  "payrollResult d r =
     (let m = mapJsonObject (taskMetadata (dTask d)) in
      \<lparr>prTaskId = tId (dTask d), prIntentId = intentId r, prIdempotencyKey = idempotencyKey r,
       prApproval = stringField (js_get ''approvalAmount'' m) ''0'', prReference = stringField (js_get ''referenceId'' m) [],
       prTotalUnits = totalUnits (dTask d), prUnits = map mapUnit (sort_key unitIndex (dUnits d))\<rparr>)"

definition nonblank :: "js \<Rightarrow> string \<Rightarrow> string" where
  "nonblank v fallback = (case v of JStr s \<Rightarrow> if js_trim s \<noteq> [] then js_trim s else fallback | _ \<Rightarrow> fallback)"

definition digestOf :: "evm \<Rightarrow> batch \<Rightarrow> string res" where
  "digestOf E b = createPayrollBatchDigest E
     (map (\<lambda>p. (rpAddress p, rpTokenAddress p, show_int (rpUnits p))) (bRecipients b))"

definition planInput :: "payroll_env \<Rightarrow> string \<Rightarrow> string \<Rightarrow> string \<Rightarrow> batch \<Rightarrow> string \<Rightarrow> acquire_input" where
  "planInput V owner source ref b digest =
     \<lparr>inNetwork = network (pyRouting V), inOperation = OP_PAYROLL, inOwnerId = None, inSourceWallet = owner,
      inRecipient = None, inBatchDigest = Some digest, inTokenIn = source,
      inTokenOut = rpTokenAddress (hd (bRecipients b)), inAmountUnits = show_int (bTotal b),
      inExternalReference = getBatchReferenceId (rounded V) ref (bIndex b), inTaskId = None\<rparr>"

text \<open>A digest that throws stops the list; the intents requested before it are acquired all the same.\<close>

fun acquireBatches ::
  "payroll_env \<Rightarrow> int \<Rightarrow> (nat \<Rightarrow> string) \<Rightarrow> string \<Rightarrow> string \<Rightarrow> string \<Rightarrow> batch list \<Rightarrow> (db, intent list) op" where
  "acquireBatches V now fresh owner source ref [] s = (Inr [], s)"
| "acquireBatches V now fresh owner source ref (b # bs) s =
     (case digestOf (pyEvm V) b of
        Inl e \<Rightarrow> (Inl e, s)
      | Inr digest \<Rightarrow>
          (case acquire (pyEvm V) (pyRouting V) now (fresh (bIndex b)) (\<lambda>_. undisturbed)
               (planInput V owner source ref b digest) s of (r, t) \<Rightarrow>
           case acquireBatches V now fresh owner source ref bs t of (rs, u) \<Rightarrow>
             (bindR r (\<lambda>x. bindR rs (\<lambda>xs. Inr (x # xs))), u)))"

definition recipient_json :: "recipient_plan \<Rightarrow> js" where
  "recipient_json p = JObj [(''address'', JStr (rpAddress p)), (''amount'', JStr (rpAmount p)),
     (''amountUnits'', JStr (show_int (rpUnits p))), (''targetToken'', JStr (rpToken p))]"

definition unit_json :: "payroll_env \<Rightarrow> string \<Rightarrow> string \<Rightarrow> batch \<Rightarrow> intent \<Rightarrow> js" where
  "unit_json V ref source b r = JObj
     [(''referenceId'', JStr (getBatchReferenceId (rounded V) ref (bIndex b))),
      (''recipientCount'', JNum (length (bRecipients b))), (''recipients'', JArr (map recipient_json (bRecipients b))),
      (''sourceToken'', JStr source), (''totalAmount'', JStr (show_int (bTotal b))),
      (''executionIntentId'', JStr (intentId r)), (''idempotencyKey'', JStr (idempotencyKey r))]"

definition insertPayroll :: "task \<Rightarrow> task_unit list \<Rightarrow> string \<Rightarrow> string \<Rightarrow> nat \<Rightarrow> (db, task_details) op" where
  "insertPayroll t us source ref n =
     transaction (
       andThen (insertTask t) (\<lambda>_.
       andThen (runEach (map insertUnit us)) (\<lambda>_.
       andThen (logStep (tId t) ''task.created'' TS_CREATED
          (JObj [(''totalUnits'', JNum (length us)), (''sourceToken'', JStr source)])) (\<lambda>_.
       andThen (logStep (tId t) ''task.assigned'' TS_ASSIGNED
          (JObj [(''referenceId'', JStr ref), (''totalRecipients'', JNum n)])) (\<lambda>_.
       andThen (readTask (DbError ''P2025'') (tId t)) (\<lambda>t. query (taskWithRelations t)))))))"

definition payroll_task ::
  "string \<Rightarrow> js \<Rightarrow> string \<Rightarrow> string \<Rightarrow> string \<Rightarrow> int \<Rightarrow> batch_totals \<Rightarrow> nat \<Rightarrow> task" where
  "payroll_task i payload owner source ref approval totals n =
     (newTask i ''payroll'' TS_ASSIGNED payload)\<lparr>totalUnits := n, taskMetadata := JObj
       [(''approvalAmount'', JStr (show_int approval)), (''referenceId'', JStr ref),
        (''runReferenceId'', JStr (nonblank (js_get ''runReferenceId'' payload) ref)), (''sourceToken'', JStr source),
        (''walletAddress'', JStr owner), (''totalBatches'', JNum (totBatches totals)),
        (''totalRecipients'', JNum (totRecipients totals)), (''totalAmount'', JStr (show_int (totAmount totals)))]\<rparr>"

definition createPayrollTask ::
  "payroll_env \<Rightarrow> int \<Rightarrow> (nat \<Rightarrow> string) \<Rightarrow> (nat \<Rightarrow> string) \<Rightarrow> (db \<Rightarrow> db) \<Rightarrow> js \<Rightarrow> (db, payroll_result) op" where
  "createPayrollTask V now freshIntent freshUnit others payload =
     (let E = pyEvm V; R = pyRouting V in
     andThen (lift (assertPayroll E R payload)) (\<lambda>_.
     andThen (lift (normalizeTaskOwner [''walletAddress''] payload)) (\<lambda>(_, owner).
     let (errors, rs) = validatePayroll E payload in
     andThen (ensure (errors = []) (BadRequest ''PAYROLL_INIT_INVALID'')) (\<lambda>_.
     let source = nonblank (js_get ''sourceToken'' payload) ''USDC''; batches = splitIntoBatches rs;
         totals = calculateTotals batches;
         approval = payrollSameTokenApprovalAmountWithFee rs source readPayrollFeeBps;
         ref = normalizeReferenceId now (js_get ''referenceId'' payload) in
     andThen (acquireBatches V now freshIntent owner (stringField (js_get ''sourceTokenAddress'' payload) []) ref batches) (\<lambda>plans.
     let r = hd plans in
     andThen (query (findTask (intentId r))) (\<lambda>existing.
     case existing of
       Some t \<Rightarrow>
         andThen (runAll (map (\<lambda>p. attachTask R (intentId p) (tId t)) plans)) (\<lambda>_.
         andThen (query (taskWithRelations t)) (\<lambda>d.
         andThen (reconcilePayrollIntents V now d plans batches) (\<lambda>recovered.
         ok (payrollResult recovered r))))
     | None \<Rightarrow>
         let us = map (\<lambda>(b, p). newUnit (freshUnit (bIndex b)) (intentId r) ''batch'' (bIndex b) (unit_json V ref source b p))
               (zip batches plans) in
         andThen (interfere others) (\<lambda>_.
         andThen (catching
            (insertPayroll (payroll_task (intentId r) payload owner source ref approval totals (length us)) us source ref
               (totRecipients totals))
            (\<lambda>e. andThen (query (findTask (intentId r))) (\<lambda>found.
               case found of None \<Rightarrow> throw e | Some t \<Rightarrow> query (taskWithRelations t)))) (\<lambda>d.
         andThen (runAll (map (\<lambda>p. attachTask R (intentId p) (tId (dTask d))) plans)) (\<lambda>_.
         ok (payrollResult d r))))))))))"

end
