(* ===== verification/TaskProperties.thy ===== *)
theory TaskProperties
  imports Tasks
begin

text \<open>
  What the task service guarantees: the counters of a task are the numbers of its reported units after
  any sequence of calls; what one report does, on every branch; statuses move along the transition map
  except by reports; and what two overlapping reports of one unit do to the counters.
\<close>

section \<open>The invariant of the task tables\<close>

definition in_status :: "string \<Rightarrow> unit_status \<Rightarrow> task_unit \<Rightarrow> bool" where
  "in_status i k u \<longleftrightarrow> unitTaskId u = i \<and> unitStatus u = k"

definition counted :: "task_unit list \<Rightarrow> task \<Rightarrow> bool" where
  "counted U t \<longleftrightarrow> totalUnits t = count_rows (\<lambda>u. unitTaskId u = tId t) U \<and>
     completedUnits t = count_rows (in_status (tId t) UNIT_SUCCESS) U \<and>
     failedUnits t = count_rows (in_status (tId t) UNIT_FAILED) U"

definition tasks_ok :: "db \<Rightarrow> bool" where
  "tasks_ok s \<longleftrightarrow> distinct (map tId (tasks s)) \<and> units_unique (units s) \<and>
     unitTaskId ` set (units s) \<subseteq> tId ` set (tasks s) \<and> list_all (counted (units s)) (tasks s)"

definition keeps_tasks :: "db \<Rightarrow> db \<Rightarrow> bool" where
  "keeps_tasks s t \<longleftrightarrow> (tasks_ok s \<longrightarrow> tasks_ok t)"

lemma keeps_tasks_refl: "reflp keeps_tasks"
  by (simp add: reflp_def keeps_tasks_def)

lemma keeps_tasks_trans: "transp keeps_tasks"
  by (auto simp: transp_def keeps_tasks_def)

lemmas keeps_task_rules =
  keeps_ok [OF keeps_tasks_refl] keeps_throw [OF keeps_tasks_refl] keeps_query [OF keeps_tasks_refl]
  keeps_lift [OF keeps_tasks_refl] keeps_ensure [OF keeps_tasks_refl] keeps_andThen [OF keeps_tasks_trans] keeps_split

lemma keeps_interfere_id: "keeps keeps_tasks (interfere id)"
  by (auto simp: keeps_def interfere_def keeps_tasks_def)

section \<open>Statements\<close>

lemma read_run:
  "readTask e i s = (case findTask i s of None \<Rightarrow> (Inl e, s) | Some t \<Rightarrow> (Inr t, s))"
  by (simp add: readTask_def op_defs fromSome_def split: option.splits)

lemma details_run:
  "detailsOf e i s = (case findTask i s of None \<Rightarrow> (Inl e, s) | Some t \<Rightarrow> (Inr (mapTask (taskWithRelations t s)), s))"
  by (simp add: detailsOf_def andThen_def read_run query_def split: option.splits)

lemma updateTask_run:
  assumes "findTask i s = Some t" "\<And>t. tId (f t) = tId t"
  shows "updateTask i f s = (Inr (f t), s\<lparr>tasks := update_rows (\<lambda>t. tId t = i) f (tasks s)\<rparr>)"
proof -
  have i: "tId t = i" using find_row_Some [OF assms(1) [unfolded findTask_def]] by simp
  have "findTask i (s\<lparr>tasks := update_rows (\<lambda>t. tId t = i) f (tasks s)\<rparr>) = Some (f t)"
    using find_update [of "\<lambda>t. tId t = i" tId f i] assms i by (simp add: findTask_def)
  then show ?thesis by (simp add: updateTask_def andThen_def onTasks_def updateMany_def read_run)
qed

lemma updateTask_none: "findTask i s = None \<Longrightarrow> (\<And>t. tId (f t) = tId t) \<Longrightarrow> updateTask i f s = (Inl (DbError ''P2025''), s)"
proof -
  assume none: "findTask i s = None" and f: "\<And>t. tId (f t) = tId t"
  then have "update_rows (\<lambda>t. tId t = i) f (tasks s) = tasks s"
    by (intro update_none) (simp add: findTask_def find_row_None)
  with none show ?thesis by (simp add: updateTask_def andThen_def onTasks_def updateMany_def read_run)
qed

lemma updateUnit_run:
  assumes "find_row (\<lambda>u. unitId u = uid) (units s) = Some u" "\<And>u. unitId (f u) = unitId u"
  shows "updateUnit uid f s = (Inr (f u), s\<lparr>units := update_rows (\<lambda>u. unitId u = uid) f (units s)\<rparr>)"
proof -
  have i: "unitId u = uid" using find_row_Some [OF assms(1)] by simp
  have "find_row (\<lambda>u. unitId u = uid) (update_rows (\<lambda>u. unitId u = uid) f (units s)) = Some (f u)"
    using find_update [of "\<lambda>u. unitId u = uid" unitId f uid] assms i by simp
  then show ?thesis
    by (simp add: updateUnit_def andThen_def onUnits_def updateMany_def query_def lift_def fromSome_def)
qed

text \<open>A statement that changes neither the ids of the tasks nor their counters nor the units.\<close>

lemma tasks_ok_update:
  assumes "tasks_ok s" "\<And>t. tId (f t) = tId t \<and> totalUnits (f t) = totalUnits t \<and>
      completedUnits (f t) = completedUnits t \<and> failedUnits (f t) = failedUnits t"
  shows "tasks_ok (s\<lparr>tasks := update_rows (\<lambda>t. tId t = i) f (tasks s)\<rparr>)"
proof -
  have ids: "map tId (update_rows (\<lambda>t. tId t = i) f (tasks s)) = map tId (tasks s)"
    using assms(2) by simp
  then have "tId ` set (update_rows (\<lambda>t. tId t = i) f (tasks s)) = tId ` set (tasks s)" by (metis list.set_map)
  moreover have "list_all (counted (units s)) (update_rows (\<lambda>t. tId t = i) f (tasks s))"
    using assms by (auto simp: tasks_ok_def list_all_iff update_rows_def counted_def)
  ultimately show ?thesis using assms(1) ids unfolding tasks_ok_def by simp
qed

lemma keeps_moveTask: "keeps keeps_tasks (moveTask i next result)"
proof (rule keepsI)
  fix s r t
  assume run: "moveTask i next result s = (r, t)"
  show "keeps_tasks s t"
  proof (cases "findTask i s")
    case None
    then show ?thesis using run by (simp add: moveTask_def updateTask_none keeps_tasks_def)
  next
    case (Some x)
    then show ?thesis
      using run by (auto simp: moveTask_def updateTask_run keeps_tasks_def intro!: tasks_ok_update)
  qed
qed

lemma keeps_logs: "keeps keeps_tasks (appendLog l)"
  by (auto simp: keeps_def appendLog_def keeps_tasks_def tasks_ok_def)

lemma keeps_transactions: "keeps keeps_tasks (onTransactions m)"
  by (auto simp: keeps_def onTransactions_def keeps_tasks_def tasks_ok_def split: prod.splits)

lemma keeps_read: "keeps keeps_tasks (readTask e i)" "keeps keeps_tasks (detailsOf e i)"
  by (auto simp: keeps_def read_run details_run keeps_tasks_def split: option.splits)

lemma keeps_log: "keeps keeps_tasks (logStep i step st c)"
  unfolding logStep_def Let_def by (intro keeps_task_rules keeps_logs)

lemma insertTask_ok:
  assumes "tasks_ok s" "totalUnits t = 0" "completedUnits t = 0" "failedUnits t = 0" "insertTask t s = (r, u)"
  shows "tasks_ok u"
proof (cases "distinct (map tId (tasks s @ [t]))")
  case True
  then have fresh: "tId t \<notin> tId ` set (tasks s)" by simp
  have "\<forall>x\<in>set (units s). unitTaskId x \<noteq> tId t"
    using fresh assms(1) unfolding tasks_ok_def by (metis image_eqI subsetD)
  then have "counted (units s) t"
    using assms(2-4) by (auto simp: counted_def count_rows_def in_status_def filter_empty_conv)
  moreover have "u = s\<lparr>tasks := tasks s @ [t]\<rparr>"
    using assms(5) True by (simp add: insertTask_def onTasks_def insertUnique_def)
  ultimately show ?thesis using assms(1) True by (auto simp: tasks_ok_def)
next
  case False
  then show ?thesis using assms(1,5) by (auto simp: insertTask_def onTasks_def insertUnique_def)
qed

lemma keeps_insertTask:
  "totalUnits t = 0 \<Longrightarrow> completedUnits t = 0 \<Longrightarrow> failedUnits t = 0 \<Longrightarrow> keeps keeps_tasks (insertTask t)"
  by (rule keepsI) (use insertTask_ok in \<open>unfold keeps_tasks_def, blast\<close>)

section \<open>Reports\<close>

lemma count_update:
  assumes "distinct (map k T)" "r \<in> set T" "k r = i" "\<not> P r" "\<And>r. k (f r) = k r"
  shows "count_rows P (update_rows (\<lambda>r. k r = i) f T) = count_rows P T + (if P (f r) then 1 else 0)"
  using assms(1-4)
proof (induction T)
  case Nil
  then show ?case by simp
next
  case (Cons a T)
  show ?case
  proof (cases "k a = i")
    case True
    have "k a \<notin> k ` set T" using Cons.prems(1) by simp
    then have others: "\<forall>b\<in>set T. k b \<noteq> i" using True by (metis imageI)
    then have rest: "update_rows (\<lambda>r. k r = i) f T = T" by (intro update_none) simp
    have "r \<notin> set T" using others Cons.prems(3) by blast
    then have "a = r" using Cons.prems(2) by simp
    with rest True Cons.prems(4) show ?thesis by (simp add: update_rows_def count_rows_def)
  next
    case False
    with Cons show ?thesis by (auto simp: update_rows_def count_rows_def)
  qed
qed

lemma count_same:
  assumes "\<And>r. r \<in> set T \<Longrightarrow> P (f r) = P r"
  shows "count_rows P (update_rows q f T) = count_rows P T"
  using assms by (induction T) (auto simp: update_rows_def count_rows_def)

definition counted_report :: "unit_report \<Rightarrow> task \<Rightarrow> task" where
  "counted_report x t = t\<lparr>completedUnits := completedUnits t + ticks UNIT_SUCCESS x,
     failedUnits := failedUnits t + ticks UNIT_FAILED x,
     taskStatus := recomputeTaskStatus (totalUnits t) (completedUnits t + ticks UNIT_SUCCESS x)
       (failedUnits t + ticks UNIT_FAILED x)\<rparr>"

definition report_state :: "string \<Rightarrow> string \<Rightarrow> unit_report \<Rightarrow> task \<Rightarrow> task_unit \<Rightarrow> db \<Rightarrow> db" where
  "report_state i uid x t u s = s\<lparr>
     units := update_rows (\<lambda>u. unitId u = uid) (reported x) (units s),
     tasks := update_rows (\<lambda>t. tId t = i) (\<lambda>_. counted_report x t) (tasks s),
     logs := logs s @ [report_log i x (taskStatus (counted_report x t)) (reported x u)]\<rparr>"

lemma unit_parent: "tasks_ok s \<Longrightarrow> findUnit i uid s = Some u \<Longrightarrow> \<exists>t. findTask i s = Some t"
proof -
  assume ok: "tasks_ok s" and u: "findUnit i uid s = Some u"
  have "i \<in> tId ` set (tasks s)"
    using find_row_Some [OF u [unfolded findUnit_def]] ok by (auto simp: tasks_ok_def)
  then have "findTask i s \<noteq> None" by (auto simp: findTask_def find_row_None)
  then show ?thesis by blast
qed

lemma findUnit_id: "tasks_ok s \<Longrightarrow> findUnit i uid s = Some u \<Longrightarrow>
    find_row (\<lambda>u. unitId u = uid) (units s) = Some u \<and> u \<in> set (units s) \<and> unitId u = uid \<and> unitTaskId u = i"
  using find_row_Some [of "\<lambda>u. unitId u = uid \<and> unitTaskId u = i" "units s" u]
  by (auto simp: findUnit_def tasks_ok_def units_unique_def intro!: find_row_unique)

lemma reported_facts [simp]:
  "unitId (reported x u) = unitId u" "unitTaskId (reported x u) = unitTaskId u"
  "unitIndex (reported x u) = unitIndex u" "unitStatus (reported x u) = repStatus x"
  by (simp_all add: reported_def)

lemma counted_report_id [simp]: "tId (counted_report x t) = tId t" "totalUnits (counted_report x t) = totalUnits t"
  by (simp_all add: counted_report_def)

lemma update_twice:
  "(\<And>r. p r \<Longrightarrow> p (f r)) \<Longrightarrow> update_rows p g (update_rows p f T) = update_rows p (\<lambda>r. g (f r)) T"
  by (simp add: update_rows_def comp_def)

lemma update_known:
  assumes "distinct (map k T)" "r \<in> set T" "k r = i"
  shows "update_rows (\<lambda>r. k r = i) f T = update_rows (\<lambda>r. k r = i) (\<lambda>_. f r) T"
proof -
  have "x = r" if "x \<in> set T" "k x = i" for x
    using assms that by (metis distinct_map inj_on_def)
  then show ?thesis by (auto simp: update_rows_def)
qed

lemma reportPending_run:
  assumes ids: "distinct (map tId (tasks s))" and u: "find_row (\<lambda>u. unitId u = uid) (units s) = Some u"
    and t: "findTask i s = Some t" and alone: "others 1 = id" "others 2 = id"
  shows "reportPending others i uid x s =
    (let s' = report_state i uid x t u s; d = mapTask (taskWithRelations (counted_report x t) s') in
     (Inr \<lparr>rrTask = d, rrUnit = mapUnit (reported x u), rrNext = findNextPendingUnit d\<rparr>, s'))"
proof -
  let ?s1 = "s\<lparr>units := update_rows (\<lambda>u. unitId u = uid) (reported x) (units s)\<rparr>"
  let ?f = "\<lambda>t. t\<lparr>completedUnits := completedUnits t + ticks UNIT_SUCCESS x,
     failedUnits := failedUnits t + ticks UNIT_FAILED x\<rparr>"
  let ?s2 = "?s1\<lparr>tasks := update_rows (\<lambda>t. tId t = i) ?f (tasks s)\<rparr>"
  let ?next = "taskStatus (counted_report x t)"
  let ?s3 = "?s1\<lparr>tasks := update_rows (\<lambda>t. tId t = i) (\<lambda>t. ?f t\<lparr>taskStatus := ?next\<rparr>) (tasks s)\<rparr>"
  have i: "tId t = i" "t \<in> set (tasks s)" using find_row_Some [OF t [unfolded findTask_def]] by auto
  have unit: "updateUnit uid (reported x) s = (Inr (reported x u), ?s1)"
    using u by (intro updateUnit_run) simp_all
  have read: "readTask (DbError ''P2025'') i ?s1 = (Inr t, ?s1)" using t by (simp add: read_run findTask_def)
  have count: "updateTask i ?f ?s1 = (Inr (?f t), ?s2)"
    using t updateTask_run [of i ?s1 t ?f] by (simp add: findTask_def)
  have found2: "findTask i ?s2 = Some (?f t)"
    using t find_update [of "\<lambda>t. tId t = i" tId ?f i "tasks s"] i by (simp add: findTask_def)
  have status: "updateTask i (\<lambda>t. t\<lparr>taskStatus := ?next\<rparr>) ?s2 = (Inr (counted_report x t), ?s3)"
    using updateTask_run [OF found2, of "\<lambda>t. t\<lparr>taskStatus := ?next\<rparr>"]
    by (simp add: update_twice counted_report_def)
  have same: "update_rows (\<lambda>t. tId t = i) (\<lambda>t. ?f t\<lparr>taskStatus := ?next\<rparr>) (tasks s) =
      update_rows (\<lambda>t. tId t = i) (\<lambda>_. counted_report x t) (tasks s)"
    using update_known [of tId "tasks s" t i "\<lambda>t. ?f t\<lparr>taskStatus := ?next\<rparr>"] ids i
    by (simp add: counted_report_def)
  have final: "?s3\<lparr>logs := logs s @ [report_log i x ?next (reported x u)]\<rparr> = report_state i uid x t u s"
    by (simp add: report_state_def same)
  have found3: "findTask i (report_state i uid x t u s) = Some (counted_report x t)"
    using t find_update [of "\<lambda>t. tId t = i" tId "\<lambda>_. counted_report x t" i "tasks s"] i
    by (simp add: findTask_def report_state_def)
  have "recomputeTaskStatus (totalUnits t) (completedUnits t + ticks UNIT_SUCCESS x)
      (failedUnits t + ticks UNIT_FAILED x) = ?next"
    by (simp add: counted_report_def)
  note steps = unit read count status this
  show ?thesis
    unfolding reportPending_def andThen_def interfere_def appendLog_def getTaskDetailsInTransaction_def
      details_run ok_def Let_def alone
    using steps found3 final by simp
qed

lemma reportUnit_pending:
  assumes "findUnit i uid s = Some u" "unitStatus u = UNIT_PENDING" "unitId u = uid"
    and "reportPending others i uid x (others 0 s) = (Inr y, t)"
  shows "reportUnit others i uid x s = (Inr y, t)"
  using assms by (simp add: reportUnit_def transaction_def andThen_def query_def lift_def fromSome_def interfere_def)

lemma reportUnit_run:
  assumes ok: "tasks_ok s" and u: "findUnit i uid s = Some u" and t: "findTask i s = Some t"
  shows "reportUnit (\<lambda>_. id) i uid x s =
    (if unitStatus u \<noteq> UNIT_PENDING
     then let d = mapTask (taskWithRelations t s) in
       (Inr \<lparr>rrTask = d, rrUnit = mapUnit u, rrNext = findNextPendingUnit d\<rparr>, s)
     else let d = mapTask (taskWithRelations (counted_report x t) (report_state i uid x t u s)) in
       (Inr \<lparr>rrTask = d, rrUnit = mapUnit (reported x u), rrNext = findNextPendingUnit d\<rparr>, report_state i uid x t u s))"
proof (cases "unitStatus u = UNIT_PENDING")
  case False
  then show ?thesis
    using u t by (simp add: reportUnit_def transaction_def andThen_def query_def lift_def fromSome_def
        getTaskDetailsInTransaction_def details_run ok_def Let_def)
next
  case True
  note row = findUnit_id [OF ok u]
  have "distinct (map tId (tasks s))" using ok by (simp add: tasks_ok_def)
  note reportPending_run [OF this row [THEN conjunct1] t, of "\<lambda>_. id" x]
  with reportUnit_pending [OF u True, of "\<lambda>_. id"] row True show ?thesis by (simp add: Let_def)
qed

lemma report_state_ok:
  assumes ok: "tasks_ok s" and u: "findUnit i uid s = Some u" "unitStatus u = UNIT_PENDING"
    and t: "findTask i s = Some t"
  shows "tasks_ok (report_state i uid x t u s)"
proof -
  let ?U = "update_rows (\<lambda>u. unitId u = uid) (reported x) (units s)"
  let ?T = "update_rows (\<lambda>t. tId t = i) (\<lambda>_. counted_report x t) (tasks s)"
  note row = findUnit_id [OF ok u(1)]
  have i: "tId t = i" "t \<in> set (tasks s)" using find_row_Some [OF t [unfolded findTask_def]] by auto
  have ids: "map tId ?T = map tId (tasks s)" using i by simp
  have "map unitId ?U = map unitId (units s)"
    "map (\<lambda>u. (unitTaskId u, unitIndex u)) ?U = map (\<lambda>u. (unitTaskId u, unitIndex u)) (units s)"
    "map unitTaskId ?U = map unitTaskId (units s)" by simp_all
  note units = this this(3) [THEN arg_cong, of set, unfolded list.set_map]
  have count: "count_rows (in_status j k) ?U = count_rows (in_status j k) (units s) +
      (if j = i \<and> repStatus x = k then 1 else 0)" if "k \<noteq> UNIT_PENDING" for j k
    using count_update [of unitId "units s" u uid "in_status j k" "reported x"] ok row u(2) that
    by (auto simp: tasks_ok_def units_unique_def in_status_def)
  have all: "count_rows (\<lambda>u. unitTaskId u = j) ?U = count_rows (\<lambda>u. unitTaskId u = j) (units s)" for j
    by (rule count_same) simp
  have "counted ?U y" if y: "y \<in> set ?T" for y
  proof -
    obtain z where z: "z \<in> set (tasks s)" "y = (if tId z = i then counted_report x t else z)"
      using y by (auto simp: update_rows_def)
    have c: "counted (units s) z" "counted (units s) t" using ok z(1) i(2) by (auto simp: tasks_ok_def list_all_iff)
    show ?thesis
    proof (cases "tId z = i")
      case True
      with z have "y = counted_report x t" by simp
      then show ?thesis
        using c(2) i(1) count [of UNIT_SUCCESS i] count [of UNIT_FAILED i] all
        by (simp add: counted_def counted_report_def ticks_def)
    next
      case False
      with z have "y = z" by simp
      then show ?thesis
        using c(1) False count [of UNIT_SUCCESS "tId z"] count [of UNIT_FAILED "tId z"] all
        by (simp add: counted_def)
    qed
  qed
  moreover have "tId ` set ?T = tId ` set (tasks s)" using ids by (metis list.set_map)
  ultimately show ?thesis
    using ok ids units unfolding tasks_ok_def report_state_def units_unique_def
    by (simp add: list_all_iff)
qed

lemma keeps_report: "keeps keeps_tasks (reportUnit (\<lambda>_. id) i uid x)"
proof (rule keepsI)
  fix s r s'
  assume run: "reportUnit (\<lambda>_. id) i uid x s = (r, s')"
  show "keeps_tasks s s'"
  proof (cases "findUnit i uid s")
    case None
    then have "s' = s"
      using run by (simp add: reportUnit_def transaction_def andThen_def query_def lift_def fromSome_def)
    then show ?thesis by (simp add: keeps_tasks_def)
  next
    case (Some u)
    show ?thesis
      unfolding keeps_tasks_def
    proof
      assume ok: "tasks_ok s"
      obtain t where t: "findTask i s = Some t" using unit_parent [OF ok Some] by blast
      show "tasks_ok s'"
        using run reportUnit_run [OF ok Some t] report_state_ok [OF ok Some _ t] ok
        by (auto simp: Let_def split: if_splits)
    qed
  qed
qed

section \<open>Any sequence of calls\<close>

datatype task_call =
    Create_task string string js
  | Create_liquidity string string js
  | Update_status string task_status string "js option"
  | Transition_audit string string task_status string "js option" js
  | Report_unit string string unit_report
  | Pickup string string
  | Log_step string string task_status js
  | Append_transaction string string string string string string nat
  | Update_transaction string tx_update

fun run_task :: "evm \<Rightarrow> routing \<Rightarrow> task_call \<Rightarrow> db \<Rightarrow> db" where
  "run_task E R (Create_task fresh ty p) s = snd (createTask E R fresh ty p s)"
| "run_task E R (Create_liquidity i u p) s = snd (createLiquidityTask R i u p s)"
| "run_task E R (Update_status i st step r) s = snd (updateStatus (\<lambda>_. id) i st step r s)"
| "run_task E R (Transition_audit now i st step r c) s = snd (transitionWithAudit (\<lambda>_. id) now i st step r c s)"
| "run_task E R (Report_unit i u x) s = snd (reportUnit (\<lambda>_. id) i u x s)"
| "run_task E R (Pickup now i) s = snd (tryPickupForExecution now i s)"
| "run_task E R (Log_step i step st c) s = snd (logStep i step st c s)"
| "run_task E R (Append_transaction fresh i tx p a c n) s = snd (appendTransaction fresh i tx p a c n s)"
| "run_task E R (Update_transaction tx x) s = snd (updateTransaction tx x s)"

lemma keeps_snd: "keeps keeps_tasks m \<Longrightarrow> tasks_ok s \<Longrightarrow> tasks_ok (snd (m s))"
  by (auto simp: keeps_def keeps_tasks_def)

lemma keeps_status:
  "keeps keeps_tasks (updateStatus (\<lambda>_. id) i st step r)"
  "keeps keeps_tasks (transitionWithAudit (\<lambda>_. id) now i st step r c)"
  "keeps keeps_tasks (tryPickupForExecution now i)"
  unfolding updateStatus_def transitionWithAudit_def tryPickupForExecution_def getTaskById_def appendTransitionLog_def
  by (intro keeps_task_rules keeps_read keeps_moveTask keeps_log keeps_interfere_id)+

lemma keeps_create: "keeps keeps_tasks (createTask E R fresh ty p)"
  unfolding createTask_def getTaskById_def
  by (intro keeps_task_rules keeps_insertTask keeps_log keeps_read) (simp_all add: newTask_def)

lemma keeps_tx: "keeps keeps_tasks (appendTransaction fresh i tx p a c n)" "keeps keeps_tasks (updateTransaction tx x)"
  unfolding appendTransaction_def updateTransaction_def by (intro keeps_task_rules keeps_transactions)+

lemma insert_with_units:
  assumes ok: "tasks_ok s" and t: "totalUnits t = length us" "completedUnits t = 0" "failedUnits t = 0"
    and us: "\<forall>u\<in>set us. unitTaskId u = tId t \<and> unitStatus u = UNIT_PENDING"
    and unique: "distinct (map tId (tasks s @ [t]))" "units_unique (units s @ us)"
  shows "tasks_ok (s\<lparr>tasks := tasks s @ [t], units := units s @ us\<rparr>)"
proof -
  have fresh: "tId t \<notin> tId ` set (tasks s)" using unique(1) by simp
  have no_units: "unitTaskId x \<noteq> tId t" if "x \<in> set (units s)" for x
    using fresh ok that unfolding tasks_ok_def by (metis image_eqI subsetD)
  have "filter (\<lambda>u. unitTaskId u = tId t) (units s) = []" "filter (\<lambda>u. unitTaskId u = tId t) us = us"
    using no_units us by (auto simp: filter_empty_conv intro: filter_True)
  moreover have "filter (in_status (tId t) k) (units s @ us) = []" if "k \<noteq> UNIT_PENDING" for k
    using no_units us that by (auto simp: filter_empty_conv in_status_def)
  ultimately have "counted (units s @ us) t" using t by (simp add: counted_def count_rows_def)
  moreover have "counted (units s @ us) y" if "y \<in> set (tasks s)" for y
  proof -
    have "tId y \<noteq> tId t" using fresh that by (metis imageI)
    then have "filter (\<lambda>u. unitTaskId u = tId y) us = []" "filter (in_status (tId y) k) us = []" for k
      using us by (auto simp: filter_empty_conv in_status_def)
    moreover have "counted (units s) y" using ok that by (simp add: tasks_ok_def list_all_iff)
    ultimately show ?thesis by (simp add: counted_def count_rows_def)
  qed
  ultimately show ?thesis using ok unique us by (auto simp: tasks_ok_def list_all_iff)
qed

lemma insert_with_unit:
  assumes ok: "tasks_ok s" and t: "totalUnits t = 1" "completedUnits t = 0" "failedUnits t = 0"
    and u: "unitTaskId u = tId t" "unitStatus u = UNIT_PENDING"
    and run: "insertTask t s = (Inr t', s1)" "insertUnit u s1 = (Inr u', s2)"
  shows "tasks_ok s2"
proof -
  have s1: "s1 = s\<lparr>tasks := tasks s @ [t]\<rparr>" "distinct (map tId (tasks s @ [t]))"
    using run(1) by (auto simp: insertTask_def onTasks_def insertUnique_def split: if_splits)
  have s2: "s2 = s\<lparr>tasks := tasks s @ [t], units := units s @ [u]\<rparr>" "units_unique (units s @ [u])"
    using run(2) by (auto simp: insertUnit_def onUnits_def insertUnique_def s1(1) split: if_splits)
  show ?thesis using insert_with_units [OF ok, of t "[u]"] t u s1(2) s2 by simp
qed

lemma keeps_liquidity: "keeps keeps_tasks (createLiquidityTask R i u p)"
proof -
  have unit: "keeps keeps_tasks (transaction (
       andThen (insertTask t) (\<lambda>t.
       andThen (insertUnit (newUnit u (tId t) ''step'' 0 (JObj fields))) (\<lambda>u.
       andThen (logStep (tId t) ''task.assigned'' TS_ASSIGNED (JObj fields)) (\<lambda>_.
       ok (tId t, unitId u))))))"
    if t: "totalUnits t = 1" "completedUnits t = 0" "failedUnits t = 0" for t fields
  proof (rule keepsI)
    fix s r s'
    assume run: "transaction (
       andThen (insertTask t) (\<lambda>t.
       andThen (insertUnit (newUnit u (tId t) ''step'' 0 (JObj fields))) (\<lambda>u.
       andThen (logStep (tId t) ''task.assigned'' TS_ASSIGNED (JObj fields)) (\<lambda>_.
       ok (tId t, unitId u))))) s = (r, s')"
    show "keeps_tasks s s'"
      unfolding keeps_tasks_def
    proof
      assume okay: "tasks_ok s"
      show "tasks_ok s'"
      proof (cases r)
        case (Inl e)
        then show ?thesis using run okay by (auto simp: transaction_def split: prod.splits sum.splits)
      next
        case (Inr z)
        then obtain t' s1 u' s2 l s3 where steps: "insertTask t s = (Inr t', s1)"
            "insertUnit (newUnit u (tId t') ''step'' 0 (JObj fields)) s1 = (Inr u', s2)"
            "logStep (tId t') ''task.assigned'' TS_ASSIGNED (JObj fields) s2 = (Inr l, s3)" "s' = s3"
          using run by (auto simp: transaction_Inr andThen_Inr_iff)
        have "t' = t" using steps(1) by (auto simp: insertTask_def onTasks_def insertUnique_def split: if_splits)
        then have "tasks_ok s2"
          using insert_with_unit [OF okay t _ _ steps(1,2)] by (simp add: newUnit_def)
        then show ?thesis using keeps_log steps(3,4) unfolding keeps_def keeps_tasks_def by (metis snd_conv)
      qed
    qed
  qed
  show ?thesis
    unfolding createLiquidityTask_def Let_def
    by (intro keeps_task_rules unit) (simp_all add: newTask_def)
qed

lemma run_task_ok: "tasks_ok s \<Longrightarrow> tasks_ok (run_task E R c s)"
  by (cases c) (auto intro!: keeps_snd keeps_create keeps_liquidity keeps_status keeps_report keeps_log keeps_tx)

section \<open>One report\<close>

lemma find_updated:
  assumes "\<And>r. P (f r) = P r"
  shows "find_row P (update_rows p f T) = map_option (\<lambda>r. if p r then f r else r) (find_row P T)"
  using assms by (induction T) (auto simp: update_rows_def)

lemma report_state_unit:
  assumes "tasks_ok s" "findUnit i uid s = Some u"
  shows "findUnit i uid (report_state i uid x t u s) = Some (reported x u)"
    and "vid \<noteq> uid \<Longrightarrow> findUnit j vid (report_state i uid x t u s) = findUnit j vid s"
proof -
  have eq: "findUnit j vid (report_state i uid x t u s) =
      map_option (\<lambda>u. if unitId u = uid then reported x u else u) (findUnit j vid s)" for j vid
    unfolding findUnit_def report_state_def by (simp add: find_updated)
  show "findUnit i uid (report_state i uid x t u s) = Some (reported x u)"
    using assms(2) findUnit_id [OF assms] by (simp add: eq)
  have "unitId v = vid" if "findUnit j vid s = Some v" for v
    using find_row_Some [OF that [unfolded findUnit_def]] by simp
  then show "vid \<noteq> uid \<Longrightarrow> findUnit j vid (report_state i uid x t u s) = findUnit j vid s"
    unfolding eq by (cases "findUnit j vid s") auto
qed

lemma report_state_task:
  assumes "findTask i s = Some t"
  shows "findTask j (report_state i uid x t u s) = (if j = i then Some (counted_report x t) else findTask j s)"
proof -
  have i: "tId t = i" using find_row_Some [OF assms [unfolded findTask_def]] by simp
  have "findTask j (report_state i uid x t u s) =
      map_option (\<lambda>r. if tId r = i then counted_report x t else r) (findTask j s)"
    using find_update [of "\<lambda>t. tId t = i" tId "\<lambda>_. counted_report x t" j "tasks s"] i
    by (simp add: findTask_def report_state_def)
  moreover have "tId r = j" if "findTask j s = Some r" for r
    using find_row_Some [OF that [unfolded findTask_def]] by simp
  ultimately show ?thesis using assms by (cases "findTask j s") auto
qed

lemma report_state_logs:
  "logs (report_state i uid x t u s) = logs s @ [report_log i x (taskStatus (counted_report x t)) (reported x u)]"
  by (simp add: report_state_def)

text \<open>On a table with exact counters the recomputed status says what the units of the task say.\<close>

definition status_of_units :: "string \<Rightarrow> task_unit list \<Rightarrow> task_status" where
  "status_of_units i U =
     (if \<exists>u\<in>set U. in_status i UNIT_FAILED u then TS_REVIEW
      else if \<forall>u\<in>set U. unitTaskId u = i \<longrightarrow> unitStatus u = UNIT_SUCCESS then TS_EXECUTED
      else TS_IN_PROGRESS)"

lemma count_pos: "0 < count_rows P U \<longleftrightarrow> (\<exists>u\<in>set U. P u)"
  by (induction U) (auto simp: count_rows_def)

lemma count_all:
  assumes "\<And>u. P u \<Longrightarrow> Q u"
  shows "count_rows P U = count_rows Q U \<longleftrightarrow> (\<forall>u\<in>set U. Q u \<longrightarrow> P u)"
proof (induction U)
  case Nil
  then show ?case by (simp add: count_rows_def)
next
  case (Cons u U)
  have "count_rows P U \<le> count_rows Q U"
    using assms by (induction U) (auto simp: count_rows_def)
  with Cons assms [of u] show ?case by (auto simp: count_rows_def)
qed

lemma counted_status:
  assumes "counted U t" "\<exists>u\<in>set U. unitTaskId u = tId t"
  shows "recomputeTaskStatus (totalUnits t) (completedUnits t) (failedUnits t) = status_of_units (tId t) U"
proof -
  have "count_rows (in_status (tId t) UNIT_SUCCESS) U = count_rows (\<lambda>u. unitTaskId u = tId t) U \<longleftrightarrow>
      (\<forall>u\<in>set U. unitTaskId u = tId t \<longrightarrow> unitStatus u = UNIT_SUCCESS)"
    by (subst count_all) (auto simp: in_status_def)
  with assms show ?thesis
    by (auto simp: counted_def recomputeTaskStatus_def status_of_units_def count_pos)
qed

lemma report_state_status:
  assumes "tasks_ok s" "findUnit i uid s = Some u" "unitStatus u = UNIT_PENDING" "findTask i s = Some t"
  shows "taskStatus (counted_report x t) = status_of_units i (units (report_state i uid x t u s))"
proof -
  let ?s = "report_state i uid x t u s"
  have ok: "tasks_ok ?s" by (rule report_state_ok [OF assms(1-4)])
  have t: "findTask i ?s = Some (counted_report x t)" by (simp add: report_state_task [OF assms(4)])
  have "tId (counted_report x t) = i" "counted_report x t \<in> set (tasks ?s)"
    using find_row_Some [OF t [unfolded findTask_def]] by auto
  moreover have "counted (units ?s) (counted_report x t)"
    using ok calculation by (auto simp: tasks_ok_def list_all_iff)
  moreover have "\<exists>v\<in>set (units ?s). unitTaskId v = i"
    using findUnit_id [OF ok report_state_unit(1) [OF assms(1,2)]] by blast
  ultimately show ?thesis
    using counted_status [of "units ?s" "counted_report x t"] by (simp add: counted_report_def)
qed

text \<open>
  C23: what reporting a unit does, on every branch.  An unknown unit is refused and nothing changes; a
  unit that was reported before is answered as it is stored and nothing changes; a pending unit gets the
  reported status, its task counts it in one counter and is then in review if one of its units failed,
  executed if all of them are successes and in progress otherwise, one line is appended to the audit
  log, and no other task or unit changes.
\<close>

theorem report_outcome:
  assumes "tasks_ok s" "reportUnit (\<lambda>_. id) i uid x s = (r, s')"
  shows "case findUnit i uid s of
      None \<Rightarrow> r = Inl UNIT_NOT_FOUND \<and> s' = s
    | Some u \<Rightarrow> \<exists>y t. r = Inr y \<and> findTask i s = Some t \<and>
        (if unitStatus u \<noteq> UNIT_PENDING then rrUnit y = mapUnit u \<and> s' = s
         else rrUnit y = mapUnit (reported x u) \<and> findUnit i uid s' = Some (reported x u) \<and>
           (\<exists>t' l. findTask i s' = Some t' \<and> logs s' = logs s @ [l] \<and> logStatus l = taskStatus t' \<and>
             completedUnits t' = completedUnits t + (if repStatus x = UNIT_SUCCESS then 1 else 0) \<and>
             failedUnits t' = failedUnits t + (if repStatus x = UNIT_FAILED then 1 else 0) \<and>
             taskStatus t' = status_of_units i (units s')) \<and>
           (\<forall>j. j \<noteq> i \<longrightarrow> findTask j s' = findTask j s) \<and>
           (\<forall>j vid. vid \<noteq> uid \<longrightarrow> findUnit j vid s' = findUnit j vid s))"
proof (cases "findUnit i uid s")
  case None
  then show ?thesis
    using assms(2) by (simp add: reportUnit_def transaction_def andThen_def query_def lift_def fromSome_def)
next
  case (Some u)
  obtain t where t: "findTask i s = Some t" using unit_parent [OF assms(1) Some] by blast
  note run = assms(2) [unfolded reportUnit_run [OF assms(1) Some t] Let_def]
  show ?thesis
  proof (cases "unitStatus u = UNIT_PENDING")
    case False
    with run Some t show ?thesis by auto
  next
    case True
    then have "s' = report_state i uid x t u s" and r: "\<exists>y. r = Inr y \<and> rrUnit y = mapUnit (reported x u)"
      using run by auto
    then have "findUnit i uid s' = Some (reported x u)" "findTask i s' = Some (counted_report x t)"
      "\<exists>l. logs s' = logs s @ [l] \<and> logStatus l = taskStatus (counted_report x t)"
      "taskStatus (counted_report x t) = status_of_units i (units s')"
      "\<forall>j. j \<noteq> i \<longrightarrow> findTask j s' = findTask j s"
      "\<forall>j vid. vid \<noteq> uid \<longrightarrow> findUnit j vid s' = findUnit j vid s"
      using report_state_unit [OF assms(1) Some] report_state_task [OF t]
        report_state_status [OF assms(1) Some True t]
      by (simp_all add: report_state_logs report_log_def)
    with r True Some t show ?thesis by (auto simp: counted_report_def ticks_def)
  qed
qed

definition pair_task :: task where
  "pair_task = (newTask ''t'' ''payroll'' TS_ASSIGNED JNull)\<lparr>totalUnits := 1\<rparr>"

definition pair_unit :: task_unit where
  "pair_unit = newUnit ''u'' ''t'' ''batch'' 0 JNull"

definition one_unit :: db where
  "one_unit = empty_db\<lparr>tasks := [pair_task], units := [pair_unit]\<rparr>"

definition success :: unit_report where
  "success = \<lparr>repStatus = UNIT_SUCCESS, repTxHash = None, repError = None\<rparr>"

lemma one_unit_ok: "tasks_ok one_unit" "findUnit ''t'' ''u'' one_unit = Some pair_unit"
  "findTask ''t'' one_unit = Some pair_task" "unitStatus pair_unit = UNIT_PENDING"
  by (simp_all add: tasks_ok_def one_unit_def empty_db_def pair_task_def pair_unit_def newTask_def newUnit_def
      units_unique_def counted_def count_rows_def in_status_def findUnit_def findTask_def)

theorem report_outcome_witness:
  "\<exists>r s' t'. reportUnit (\<lambda>_. id) ''t'' ''u'' success one_unit = (r, s') \<and> findTask ''t'' s' = Some t' \<and>
     completedUnits t' = 1 \<and> taskStatus t' = status_of_units ''t'' (units s')"
proof -
  obtain r s' where run: "reportUnit (\<lambda>_. id) ''t'' ''u'' success one_unit = (r, s')" by fastforce
  have "completedUnits pair_task = 0" "repStatus success = UNIT_SUCCESS"
    by (simp_all add: pair_task_def newTask_def success_def)
  with report_outcome [OF one_unit_ok(1) run] one_unit_ok run show ?thesis by auto
qed

section \<open>Overlapping reports\<close>

text \<open>
  Two overlapping reports of one unit are both counted.  The transaction reads the unit and updates
  it by its id alone, so a second report that commits between the two is not noticed: the task then
  counts two reports for one unit.
\<close>

theorem overlapping_reports:
  assumes "tasks_ok s" "findUnit i uid s = Some u" "unitStatus u = UNIT_PENDING" "findTask i s = Some t"
    and "repStatus x = UNIT_SUCCESS"
  shows "\<exists>t'. findTask i (snd (reportUnit (\<lambda>n. if n = 0 then \<lambda>s. snd (reportUnit (\<lambda>_. id) i uid x s) else id) i uid x s)) =
      Some t' \<and> completedUnits t' = completedUnits t + 2 \<and>
    count_rows (in_status i UNIT_SUCCESS) (units (report_state i uid x t u s)) = completedUnits t + 1"
proof -
  let ?one = "report_state i uid x t u s"
  have ids: "distinct (map tId (tasks ?one))"
    using report_state_ok [OF assms(1-4)] by (simp add: tasks_ok_def)
  have first: "snd (reportUnit (\<lambda>_. id) i uid x s) = ?one"
    using assms(3) by (simp add: reportUnit_run [OF assms(1,2,4)] Let_def)
  have row: "find_row (\<lambda>u. unitId u = uid) (units ?one) = Some (reported x u)" "unitId u = uid"
    using findUnit_id [OF report_state_ok [OF assms(1-4)] report_state_unit(1) [OF assms(1,2)]]
      findUnit_id [OF assms(1,2)] by simp_all
  have found: "findTask i ?one = Some (counted_report x t)" by (simp add: report_state_task [OF assms(4)])
  let ?others = "\<lambda>n::nat. if n = 0 then \<lambda>s. snd (reportUnit (\<lambda>_. id) i uid x s) else id"
  have "reportPending ?others i uid x (?others 0 s) = reportPending ?others i uid x ?one" by (simp add: first)
  note run = this [unfolded reportPending_run [OF ids row(1) found, of ?others x, simplified] Let_def]
  have "snd (reportUnit ?others i uid x s) = report_state i uid x (counted_report x t) (reported x u) ?one"
    using reportUnit_pending [OF assms(2,3) row(2) run] by simp
  moreover have "counted (units ?one) (counted_report x t)"
    using report_state_ok [OF assms(1-4)] found find_row_Some [of "\<lambda>t. tId t = i" "tasks ?one"]
    by (auto simp: tasks_ok_def list_all_iff findTask_def)
  moreover have "tId t = i" using find_row_Some [OF assms(4) [unfolded findTask_def]] by simp
  moreover have "completedUnits (counted_report x y) = completedUnits y + 1" for y
    using assms(5) by (simp add: counted_report_def ticks_def)
  ultimately show ?thesis
    by (intro exI [of _ "counted_report x (counted_report x t)"])
      (simp only: report_state_task [OF found] counted_def counted_report_id, simp)
qed

theorem overlapping_reports_witness:
  "\<exists>t'. findTask ''t'' (snd (reportUnit
      (\<lambda>n. if n = 0 then \<lambda>s. snd (reportUnit (\<lambda>_. id) ''t'' ''u'' success s) else id) ''t'' ''u'' success one_unit)) =
    Some t' \<and> completedUnits t' = 2 \<and> totalUnits pair_task = 1"
  using overlapping_reports [OF one_unit_ok(1,2,4,3), of success]
  by (auto simp: success_def pair_task_def newTask_def)

end
