(* ===== verification/PayrollReceiptProperties.thy ===== *)
theory PayrollReceiptProperties
  imports PayrollReceipt PayrollPlanProperties
begin

text \<open>
  A payroll receipt the verifier accepts on Arc Mainnet proves the whole batch: every recipient of the
  plan was paid its exact amount of the token by the configured contract, on behalf of the employer.
\<close>

section \<open>Checks\<close>

lemma samePay_True:
  assumes "evm_laws E" "samePay E ((a, v), b, amt) = Inr True" "canonical_uint amt"
  shows "toLowerCase a = toLowerCase b \<and> v = read_nat amt"
proof -
  obtain c d where c: "checksum E a = Inr c" "checksum E b = Inr d" "equalR E c d = Inr True"
      "toBigInt amt = Inr (int v)"
    using assms(2) by (auto simp: samePay_def split: if_splits)
  have "toBigInt amt = Inr (int (read_nat amt))"
    using canonical_digits [OF assms(3)] by (intro toBigInt_digits) auto
  with c show ?thesis
    using checksum_lower(1) [OF assms(1) c(1)] checksum_lower(1) [OF assms(1) c(2)] equalR_lower [OF assms(1) c(3)]
    by simp
qed

section \<open>The call\<close>

text \<open>The recipients and amounts of a call are those of the plan.\<close>

definition same_batch :: "string list \<Rightarrow> nat list \<Rightarrow> payroll_query \<Rightarrow> bool" where
  "same_batch payees amounts q \<longleftrightarrow>
     length payees = length (pqRecipients q) \<and> amounts = map (\<lambda>(_, amt). read_nat amt) (pqRecipients q) \<and>
     (\<forall>i<length payees. toLowerCase (payees ! i) = toLowerCase (fst (pqRecipients q ! i)))"

lemma assertCallRecipients_Inr:
  assumes "evm_laws E" "payroll_query_ok q" "assertCallRecipients E t token payees amounts ref q = Inr u"
  shows "toLowerCase t = toLowerCase token \<and> ref = pqReference q \<and> same_batch payees amounts q"
proof -
  obtain c where c: "checksum E t = Inr c" "equalR E c token = Inr True"
    and len: "length payees = length (pqRecipients q)" "length amounts = length (pqRecipients q)"
    and ref: "ref = pqReference q"
    and all: "allR (map (samePay E) (zip (zip payees amounts) (pqRecipients q))) = Inr True"
    using assms(3) by (auto simp: assertCallRecipients_def)
  have each: "toLowerCase (payees ! i) = toLowerCase (fst (pqRecipients q ! i)) \<and>
      amounts ! i = read_nat (snd (pqRecipients q ! i))" if i: "i < length payees" for i
  proof -
    have "zip (zip payees amounts) (pqRecipients q) ! i = ((payees ! i, amounts ! i), pqRecipients q ! i)"
      "i < length (zip (zip payees amounts) (pqRecipients q))" using i len by simp_all
    then have "((payees ! i, amounts ! i), pqRecipients q ! i) \<in> set (zip (zip payees amounts) (pqRecipients q))"
      by (metis nth_mem)
    then have "samePay E ((payees ! i, amounts ! i), fst (pqRecipients q ! i), snd (pqRecipients q ! i)) = Inr True"
      using all by (auto simp: allR_True)
    moreover have "canonical_uint (snd (pqRecipients q ! i))"
      using assms(2) i len by (auto simp: payroll_query_ok_def list_all_length case_prod_beta)
    ultimately show ?thesis using samePay_True [OF assms(1)] by blast
  qed
  have "amounts = map (\<lambda>(_, amt). read_nat amt) (pqRecipients q)"
    using each len by (intro nth_equalityI) (auto simp: case_prod_beta)
  moreover have "toLowerCase t = toLowerCase token"
    using checksum_lower(1) [OF assms(1) c(1)] equalR_lower [OF assms(1) c(2)] by simp
  ultimately show ?thesis using each len ref by (simp add: same_batch_def)
qed

lemma mapR_checksum:
  assumes "evm_laws E" "mapR (checksum E) xs = Inr ys"
  shows "length ys = length xs \<and> (\<forall>i<length xs. toLowerCase (ys ! i) = toLowerCase (xs ! i))"
  using assms(2) checksum_lower(1) [OF assms(1)] by (auto simp: mapR_Inr list_all2_conv_all_nth)

lemma same_batch_checksum:
  assumes "evm_laws E" "same_batch payees amounts q" "mapR (checksum E) payees = Inr cs"
  shows "same_batch cs amounts q"
  using assms(2) mapR_checksum [OF assms(1,3)] by (simp add: same_batch_def)

lemma verifyMainnetCall_Inr:
  assumes "evm_laws E" "payroll_query_ok q" "verifyMainnetCall E N cl value token q = Inr vc"
  shows "toLowerCase (vcTokenOut vc) = toLowerCase token \<and> same_batch (vcRecipients vc) (vcAmounts vc) q"
proof (cases cl)
  case (Same_token t payees amounts ref)
  then obtain c cs where c: "assertCallRecipients E t token payees amounts ref q = Inr ()" "checksum E t = Inr c"
      "mapR (checksum E) payees = Inr cs" "vc = \<lparr>vcTokenIn = c, vcTokenOut = c, vcRecipients = cs, vcAmounts = amounts\<rparr>"
    using assms(3) by (auto simp: verifyMainnetCall_def)
  with assertCallRecipients_Inr [OF assms(1,2) c(1)] checksum_lower(1) [OF assms(1) c(2)]
    same_batch_checksum [OF assms(1) _ c(3)]
  show ?thesis by simp
next
  case (Cross_token tin t payees amounts gross ref)
  then obtain d c cs where c: "assertCallRecipients E t token payees amounts ref q = Inr ()" "checksum E t = Inr c"
      "mapR (checksum E) payees = Inr cs" "vc = \<lparr>vcTokenIn = d, vcTokenOut = c, vcRecipients = cs, vcAmounts = amounts\<rparr>"
    using assms(3) by (auto simp: verifyMainnetCall_def)
  with assertCallRecipients_Inr [OF assms(1,2) c(1)] checksum_lower(1) [OF assms(1) c(2)]
    same_batch_checksum [OF assms(1) _ c(3)]
  show ?thesis by simp
qed (use assms(3) in \<open>simp_all add: verifyMainnetCall_def\<close>)

section \<open>The events\<close>

definition paid_by :: "payroll_abi \<Rightarrow> event_query \<Rightarrow> nat \<Rightarrow> chain_log \<Rightarrow> bool" where
  "paid_by D q i l \<longleftrightarrow> toLowerCase (logAddress l) = toLowerCase (eqContract q) \<and>
     (\<exists>p. decodePayment D l = Some p \<and> pvIndex p = i \<and> pvHash p = eqHash q \<and>
        toLowerCase (pvEmployer p) = toLowerCase (eqEmployer q) \<and>
        toLowerCase (pvTokenOut p) = toLowerCase (eqTokenOut q) \<and>
        toLowerCase (pvRecipient p) = toLowerCase (eqRecipients q ! i) \<and> pvAmount p = eqAmounts q ! i)"

lemma scanLog_payments:
  assumes "evm_laws E" "scanLog E D q l sc = Some sc'" "equalR E (logAddress l) (eqContract q) = Inr True"
  shows "scPayments sc' = scPayments sc \<or>
    (\<exists>i. scPayments sc' = i # scPayments sc \<and> i \<notin> set (scPayments sc) \<and> i < length (eqRecipients q) \<and> paid_by D q i l)"
proof (cases "Option.bind (decodePayment D l) (\<lambda>p. map_option (Pair p) (paymentVerdict E q (scPayments sc) p))")
  case None
  then show ?thesis using assms(2) by (auto simp: scanLog_def split: option.splits if_splits)
next
  case (Some x)
  then obtain p good where p: "decodePayment D l = Some p" "paymentVerdict E q (scPayments sc) p = Some good" "x = (p, good)"
    by (auto simp: Option.bind_eq_Some_conv)
  with Some assms(2) have good: "good" "sc' = sc\<lparr>scPayments := pvIndex p # scPayments sc\<rparr>"
    by (auto simp: scanLog_def split: if_splits)
  then have "paymentVerdict E q (scPayments sc) p = Some True" using p(2) by simp
  then have checks: "pvHash p = eqHash q" "isAddressEqual E (pvEmployer p) (eqEmployer q) = Some True"
      "isAddressEqual E (pvTokenOut p) (eqTokenOut q) = Some True" "pvIndex p < length (eqRecipients q)"
      "pvIndex p \<notin> set (scPayments sc)" "isAddressEqual E (pvRecipient p) (eqRecipients q ! pvIndex p) = Some True"
      "pvAmount p = eqAmounts q ! pvIndex p"
    unfolding paymentVerdict_def all_checks_True by simp_all
  then have "paid_by D q (pvIndex p) l"
    using p(1) equalR_lower [OF assms(1,3)] by (auto simp: paid_by_def isAddressEqual_iff [OF assms(1)])
  with good(2) checks show ?thesis by auto
qed

lemma scanLogs_payments:
  assumes "evm_laws E" "scanLogs E D q ls sc = Inr True"
    and "distinct (scPayments sc)" "set (scPayments sc) \<subseteq> {..<length (eqRecipients q)}"
  shows "\<forall>i<length (eqRecipients q). i \<in> set (scPayments sc) \<or> (\<exists>l\<in>set ls. paid_by D q i l)"
  using assms(2-4)
proof (induction ls arbitrary: sc)
  case Nil
  then have "card (set (scPayments sc)) = length (eqRecipients q)" by (simp add: distinct_card)
  then have "set (scPayments sc) = {..<length (eqRecipients q)}"
    using Nil.prems(3) by (intro card_subset_eq) simp_all
  then show ?case by auto
next
  case (Cons l ls)
  show ?case
  proof (cases "equalR E (logAddress l) (eqContract q) = Inr True")
    case True
    with Cons.prems(1) obtain sc' where sc': "scanLog E D q l sc = Some sc'" "scanLogs E D q ls sc' = Inr True"
      by (auto split: option.splits)
    from scanLog_payments [OF assms(1) sc'(1) True] show ?thesis
    proof
      assume "scPayments sc' = scPayments sc"
      with Cons.IH [OF sc'(2)] Cons.prems show ?thesis by auto
    next
      assume "\<exists>i. scPayments sc' = i # scPayments sc \<and> i \<notin> set (scPayments sc) \<and> i < length (eqRecipients q) \<and> paid_by D q i l"
      with Cons.IH [OF sc'(2)] Cons.prems show ?thesis by (auto; blast)
    qed
  next
    case False
    with Cons.prems(1) have "scanLogs E D q ls sc = Inr True" by (auto split: if_splits)
    with Cons.IH [OF this] Cons.prems show ?thesis by auto
  qed
qed

section \<open>Soundness\<close>

lemma canonical_sum: "show_nat n = s \<Longrightarrow> n = read_nat s"
  by auto

text \<open>What an accepted receipt proves of the chain.\<close>

definition batch_paid :: "evm \<Rightarrow> payroll_abi \<Rightarrow> payroll_net \<Rightarrow> chain \<Rightarrow> payroll_query \<Rightarrow> bool" where
  "batch_paid E D N c q \<longleftrightarrow> (\<exists>tx rc contract latest.
     pnContract N = Some contract \<and> getChainId c = Some (pnChainId N) \<and>
     getTransaction c (pqHash q) = Some tx \<and> getTransactionReceipt c (pqHash q) = Some rc \<and> crSuccess rc \<and>
     toLowerCase (ctHash tx) = toLowerCase (pqHash q) \<and>
     map_option toLowerCase (ctTo tx) = Some (toLowerCase contract) \<and>
     toLowerCase (ctFrom tx) = toLowerCase (pqSource q) \<and>
     getBlockNumber c = Some latest \<and> crBlock rc \<le> latest \<and> pnRequired N \<le> latest - crBlock rc + 1 \<and>
     (\<forall>i<length (pqRecipients q). \<exists>l\<in>set (crLogs rc). \<exists>p.
        toLowerCase (logAddress l) = toLowerCase contract \<and> decodePayment D l = Some p \<and> pvIndex p = i \<and>
        toLowerCase (pvEmployer p) = toLowerCase (pqSource q) \<and>
        toLowerCase (pvTokenOut p) = toLowerCase (pqToken q) \<and>
        toLowerCase (pvRecipient p) = toLowerCase (fst (pqRecipients q ! i)) \<and>
        pvAmount p = read_nat (snd (pqRecipients q ! i))))"

lemma assertTransaction_Inr:
  assumes "evm_laws E" "assertTransaction E N tx rc h contract source = Inr u"
  shows "crSuccess rc \<and> toLowerCase (ctHash tx) = toLowerCase h \<and>
    map_option toLowerCase (ctTo tx) = Some (toLowerCase contract) \<and> toLowerCase (ctFrom tx) = toLowerCase source"
proof -
  obtain to a b where t: "crSuccess rc" "toLowerCase (ctHash tx) = toLowerCase h" "ctTo tx = Some to"
      "checksum E to = Inr a" "equalR E a contract = Inr True" "checksum E (ctFrom tx) = Inr b" "equalR E b source = Inr True"
    using assms(2) by (auto simp: assertTransaction_def split: option.splits)
  with checksum_lower(1) [OF assms(1)] equalR_lower [OF assms(1)] show ?thesis by fastforce
qed

lemma payrollConfirmations_Inr:
  "payrollConfirmations N c block = Inr n \<Longrightarrow>
   \<exists>latest. getBlockNumber c = Some latest \<and> block \<le> latest \<and> pnRequired N \<le> latest - block + 1 \<and> n = latest - block + 1"
  by (auto simp: payrollConfirmations_def)

lemma finishMainnet_Inr:
  assumes "evm_laws E" "finishMainnetReceipt E D N c tx rc contract source vc q = Inr e"
  shows "(\<exists>digest. createPayrollBatchDigest E (map (\<lambda>(a, amt). (a, vcTokenOut vc, amt)) (payees_of (vcRecipients vc) (vcAmounts vc))) = Inr digest \<and>
      digest = toLowerCase (pqDigest q) \<and> rcBatchDigest (peReceipt e) = Some (Some digest)) \<and>
    show_nat (sum_list (vcAmounts vc)) = pqTotal q \<and> rcAmount (peReceipt e) = pqTotal q \<and>
    rcHash (peReceipt e) = ctHash tx \<and> rcSource (peReceipt e) = source \<and> rcToken (peReceipt e) = vcTokenOut vc \<and>
    rcNetwork (peReceipt e) = pnKey N \<and> rcRecipient (peReceipt e) = None \<and>
    (\<exists>latest. getBlockNumber c = Some latest \<and> crBlock rc \<le> latest \<and> pnRequired N \<le> latest - crBlock rc + 1) \<and>
    (\<forall>i<length (vcRecipients vc). \<exists>l\<in>set (crLogs rc). \<exists>p.
        toLowerCase (logAddress l) = toLowerCase contract \<and> decodePayment D l = Some p \<and> pvIndex p = i \<and>
        toLowerCase (pvEmployer p) = toLowerCase source \<and>
        toLowerCase (pvTokenOut p) = toLowerCase (vcTokenOut vc) \<and>
        toLowerCase (pvRecipient p) = toLowerCase (vcRecipients vc ! i) \<and> pvAmount p = vcAmounts vc ! i)"
proof -
  let ?payees = "payees_of (vcRecipients vc) (vcAmounts vc)"
  obtain digest n where d: "assertBatch E (vcTokenOut vc) ?payees (vcAmounts vc) q = Inr digest"
      "payrollConfirmations N c (crBlock rc) = Inr n"
      "verifyMainnetPayrollEvents E D N (crLogs rc) contract source vc (pqReference q) = Inr True"
      "e = evidence N (ctHash tx) source (vcTokenOut vc) contract (pqReference q) ?payees digest (sum_list (vcAmounts vc)) (crBlock rc) n"
    using assms(2) by (auto simp: finishMainnetReceipt_def Let_def)
  have batch: "createPayrollBatchDigest E (map (\<lambda>(a, amt). (a, vcTokenOut vc, amt)) ?payees) = Inr digest"
      "digest = toLowerCase (pqDigest q)" "show_nat (sum_list (vcAmounts vc)) = pqTotal q"
    using d(1) by (auto simp: assertBatch_def)
  note paid = scanLogs_payments [OF assms(1) d(3) [unfolded verifyMainnetPayrollEvents_def], simplified]
  have "\<exists>l\<in>set (crLogs rc). \<exists>p.
        toLowerCase (logAddress l) = toLowerCase contract \<and> decodePayment D l = Some p \<and> pvIndex p = i \<and>
        toLowerCase (pvEmployer p) = toLowerCase source \<and>
        toLowerCase (pvTokenOut p) = toLowerCase (vcTokenOut vc) \<and>
        toLowerCase (pvRecipient p) = toLowerCase (vcRecipients vc ! i) \<and> pvAmount p = vcAmounts vc ! i"
    if "i < length (vcRecipients vc)" for i
    using paid [rule_format, OF that] by (auto simp: paid_by_def)
  with batch payrollConfirmations_Inr [OF d(2)] d(4) show ?thesis by (auto simp: evidence_def)
qed

lemma verifyPayroll_Inr:
  assumes "evm_laws E" "pnKey N = ARC_MAINNET" "verifyPayroll E D N c q = Inr e"
  shows "batch_paid E D N c q \<and>
    rcNetwork (peReceipt e) = ARC_MAINNET \<and> toLowerCase (rcHash (peReceipt e)) = toLowerCase (pqHash q) \<and>
    toLowerCase (rcSource (peReceipt e)) = toLowerCase (pqSource q) \<and>
    toLowerCase (rcToken (peReceipt e)) = toLowerCase (pqToken q) \<and>
    rcAmount (peReceipt e) = pqTotal q \<and>
    read_nat (pqTotal q) = sum_list (map (\<lambda>(_, amt). read_nat amt) (pqRecipients q)) \<and>
    rcBatchDigest (peReceipt e) = Some (Some (toLowerCase (pqDigest q)))"
proof -
  obtain configured source token contract tx rc cl vc where v: "pnContract N = Some configured" "payroll_query_ok q"
      "normalizedQuery E configured q = Inr (source, token, contract)" "fetchPayroll N c (pqHash q) = Inr (tx, rc)"
      "assertTransaction E N tx rc (pqHash q) contract source = Inr ()"
      "verifyMainnetCall E N cl (ctValue tx) token q = Inr vc"
      "finishMainnetReceipt E D N c tx rc contract source vc q = Inr e"
    using assms(2,3) by (auto simp: verifyPayroll_def split: if_splits)
  have lower: "toLowerCase source = toLowerCase (pqSource q)" "toLowerCase token = toLowerCase (pqToken q)"
      "toLowerCase contract = toLowerCase configured"
    using v(3) getAddress_Some(1) [OF assms(1)] by (auto simp: normalizedQuery_def split: option.splits if_splits)
  have fetched: "getChainId c = Some (pnChainId N)" "getTransaction c (pqHash q) = Some tx"
      "getTransactionReceipt c (pqHash q) = Some rc"
    using v(4) by (auto simp: fetchPayroll_def)
  note tx = assertTransaction_Inr [OF assms(1) v(5)]
  note call = verifyMainnetCall_Inr [OF assms(1) v(2,6)]
  note finish = finishMainnet_Inr [OF assms(1) v(7)]
  have same: "length (vcRecipients vc) = length (pqRecipients q)"
      "vcAmounts vc = map (\<lambda>(_, amt). read_nat amt) (pqRecipients q)"
      "\<forall>i<length (pqRecipients q). toLowerCase (vcRecipients vc ! i) = toLowerCase (fst (pqRecipients q ! i)) \<and>
         vcAmounts vc ! i = read_nat (snd (pqRecipients q ! i))"
    using call by (auto simp: same_batch_def case_prod_beta)
  obtain latest where latest: "getBlockNumber c = Some latest" "crBlock rc \<le> latest" "pnRequired N \<le> latest - crBlock rc + 1"
    using finish by blast
  have paid: "\<exists>l\<in>set (crLogs rc). \<exists>p. toLowerCase (logAddress l) = toLowerCase configured \<and>
      decodePayment D l = Some p \<and> pvIndex p = i \<and> toLowerCase (pvEmployer p) = toLowerCase (pqSource q) \<and>
      toLowerCase (pvTokenOut p) = toLowerCase (pqToken q) \<and>
      toLowerCase (pvRecipient p) = toLowerCase (fst (pqRecipients q ! i)) \<and> pvAmount p = read_nat (snd (pqRecipients q ! i))"
    if i: "i < length (pqRecipients q)" for i
  proof -
    obtain l p where l: "l \<in> set (crLogs rc)" "toLowerCase (logAddress l) = toLowerCase contract"
        "decodePayment D l = Some p" "pvIndex p = i" "toLowerCase (pvEmployer p) = toLowerCase source"
        "toLowerCase (pvTokenOut p) = toLowerCase (vcTokenOut vc)"
        "toLowerCase (pvRecipient p) = toLowerCase (vcRecipients vc ! i)" "pvAmount p = vcAmounts vc ! i"
      using finish i same(1) by metis
    with lower call same(3) i show ?thesis by (intro bexI [of _ l] exI [of _ p]) simp_all
  qed
  have "batch_paid E D N c q"
    unfolding batch_paid_def
    using v(1) fetched tx lower latest paid
    by (intro exI [of _ tx] exI [of _ rc] exI [of _ configured] exI [of _ latest]) simp
  moreover have "read_nat (pqTotal q) = sum_list (map (\<lambda>(_, amt). read_nat amt) (pqRecipients q))"
    using finish same(2) by (metis canonical_sum)
  ultimately show ?thesis using finish tx call lower assms(2) by auto
qed

text \<open>
  C22: a payroll receipt that verifies on Arc Mainnet proves that the batch was paid.  The transaction was
  sent by the employer to the configured payroll contract and succeeded with the confirmations required;
  for every recipient of the plan the contract emitted the payment of exactly its amount of the token to
  its address; and the evidence given to the execution intent has the plan's total, which is the sum of
  the amounts, and the digest the intent is bound to.
\<close>

theorem payroll_receipt_sound:
  assumes "evm_laws E" "pnKey N = ARC_MAINNET" "verifyPayroll E D N c q = Inr e"
  shows "batch_paid E D N c q \<and>
    rcNetwork (peReceipt e) = ARC_MAINNET \<and> toLowerCase (rcHash (peReceipt e)) = toLowerCase (pqHash q) \<and>
    toLowerCase (rcSource (peReceipt e)) = toLowerCase (pqSource q) \<and>
    toLowerCase (rcToken (peReceipt e)) = toLowerCase (pqToken q) \<and>
    rcAmount (peReceipt e) = pqTotal q \<and>
    read_nat (pqTotal q) = sum_list (map (\<lambda>(_, amt). read_nat amt) (pqRecipients q)) \<and>
    rcBatchDigest (peReceipt e) = Some (Some (toLowerCase (pqDigest q)))"
  by (rule verifyPayroll_Inr [OF assms])

section \<open>A batch of two\<close>

definition pay_abi :: payroll_abi where
  "pay_abi = \<lparr>
     decodePayrollCall = (\<lambda>_. Some (Same_token (addr (CHR ''5'')) [addr (CHR ''b''), addr (CHR ''c'')] [7, 8] ''PAY-1'')),
     decodePayment = (\<lambda>l. case logTopics l of
        [t] \<Rightarrow> if t = ''0'' then Some \<lparr>pvHash = hash_of (CHR ''a''), pvEmployer = addr (CHR ''a''), pvTokenOut = addr (CHR ''5''),
                 pvRecipient = addr (CHR ''b''), pvIndex = 0, pvAmount = 7\<rparr>
               else if t = ''1'' then Some \<lparr>pvHash = hash_of (CHR ''a''), pvEmployer = addr (CHR ''a''), pvTokenOut = addr (CHR ''5''),
                 pvRecipient = addr (CHR ''c''), pvIndex = 1, pvAmount = 8\<rparr> else None
      | _ \<Rightarrow> None),
     decodeReference = (\<lambda>l. if logTopics l = [''ref''] then Some \<lparr>rvHash = hash_of (CHR ''a''), rvEmployer = addr (CHR ''a''),
        rvTokenIn = addr (CHR ''5''), rvTokenOut = addr (CHR ''5''), rvTotalOutput = 15, rvCount = 2, rvReference = ''PAY-1''\<rparr> else None),
     decodeExecuted = (\<lambda>l. if logTopics l = [''run''] then Some \<lparr>bvEmployer = addr (CHR ''a''), bvTokenIn = addr (CHR ''5''),
        bvTokenOut = addr (CHR ''5''), bvTotal = 15, bvCount = 2, bvReference = ''PAY-1''\<rparr> else None),
     decodeRouted = (\<lambda>_. None), decodePaid = (\<lambda>_. None), encodeReference = (\<lambda>_ _ _ _. [])\<rparr>"

definition pay_log :: "string \<Rightarrow> chain_log" where
  "pay_log t = \<lparr>logAddress = addr (CHR ''1''), logTopics = [t], logData = []\<rparr>"

definition pay_chain :: chain where
  "pay_chain = \<lparr>getChainId = Some 5042,
     getTransaction = (\<lambda>h. Some \<lparr>ctHash = h, ctChainId = Some 5042, ctValue = 0, ctFrom = addr (CHR ''a''),
        ctTo = Some (addr (CHR ''1'')), ctInput = []\<rparr>),
     getTransactionReceipt = (\<lambda>h. Some \<lparr>crHash = h, crSuccess = True, crBlock = 9, crFrom = addr (CHR ''a''),
        crTo = Some (addr (CHR ''1'')), crLogs = [pay_log ''0'', pay_log ''1'', pay_log ''ref'', pay_log ''run'']\<rparr>),
     getBlockNumber = Some 9\<rparr>"

definition pay_net :: payroll_net where
  "pay_net = \<lparr>pnKey = ARC_MAINNET, pnChainId = 5042, pnContract = Some (addr (CHR ''1'')), pnUsdc = addr (CHR ''5''), pnRequired = 1\<rparr>"

definition digest_evm :: evm where
  "digest_evm = lower_evm\<lparr>sha256 := (\<lambda>_. replicate 64 (CHR ''a''))\<rparr>"

definition pay_query :: payroll_query where
  "pay_query = \<lparr>pqHash = hash_of (CHR ''c''), pqSource = addr (CHR ''a''), pqToken = addr (CHR ''5''), pqTotal = ''15'',
     pqDigest = replicate 64 (CHR ''a''), pqReference = ''PAY-1'',
     pqRecipients = [(addr (CHR ''b''), ''7''), (addr (CHR ''c''), ''8'')]\<rparr>"

lemma evm_laws_sha256: "evm_laws (E\<lparr>sha256 := f\<rparr>) = evm_laws E"
  by (cases E) (simp only: evm_laws_def evm.simps)

lemma digest_evm_laws: "evm_laws digest_evm"
  using lower_evm_laws by (simp add: evm_laws_sha256 digest_evm_def)

lemma digest_evm_calls:
  "is_hex_address a \<Longrightarrow> getAddress digest_evm a = Some (toLowerCase a)"
  "is_hex_address a \<Longrightarrow> is_hex_address b \<Longrightarrow> isAddressEqual digest_evm a b = Some (toLowerCase a = toLowerCase b)"
  "keccak256 digest_evm s = hash_of (CHR ''a'')" "sha256 digest_evm s = replicate 64 (CHR ''a'')"
  by (simp_all add: digest_evm_def lower_evm_def hash_of_def)

lemma pay_numerals: "canonical_uint ''7''" "canonical_uint ''8''" "canonical_uint ''15''" "positive_uint ''7''" "positive_uint ''8''"
  "read_nat ''7'' = 7" "read_nat ''8'' = 8" "read_nat ''15'' = 15"
  by (simp_all add: canonical_uint_def positive_uint_def is_digit_def read_nat_def digit_val_def)

lemma pay_digits: "show_nat 7 = ''7''" "show_nat 8 = ''8''" "show_nat 15 = ''15''"
  "toBigInt ''7'' = Inr 7" "toBigInt ''8'' = Inr 8"
  using show_read [OF pay_numerals(1)] show_read [OF pay_numerals(2)] show_read [OF pay_numerals(3)]
    toBigInt_positive [OF pay_numerals(4)] toBigInt_positive [OF pay_numerals(5)]
  by (simp_all add: pay_numerals)

lemma pay_call_ok: "verifyMainnetCall digest_evm pay_net (Same_token (addr (CHR ''5'')) [addr (CHR ''b''), addr (CHR ''c'')] [7, 8] ''PAY-1'') 0
    (addr (CHR ''5'')) pay_query =
  Inr \<lparr>vcTokenIn = addr (CHR ''5''), vcTokenOut = addr (CHR ''5''), vcRecipients = [addr (CHR ''b''), addr (CHR ''c'')], vcAmounts = [7, 8]\<rparr>"
  by (simp add: verifyMainnetCall_def assertCallRecipients_def samePay_def checksum_def equalR_def digest_evm_calls
      pay_query_def pay_digits ensureR_def fromSome_def)

abbreviation pay_vc :: verified_call where
  "pay_vc \<equiv> \<lparr>vcTokenIn = addr (CHR ''5''), vcTokenOut = addr (CHR ''5''), vcRecipients = [addr (CHR ''b''), addr (CHR ''c'')], vcAmounts = [7, 8]\<rparr>"

lemma pay_batch_ok:
  "assertBatch digest_evm (addr (CHR ''5'')) (payees_of [addr (CHR ''b''), addr (CHR ''c'')] [7, 8]) [7, 8] pay_query =
   Inr (replicate 64 (CHR ''a''))"
  by (simp add: assertBatch_def payees_of_def createPayrollBatchDigest_def digestEntry_def digest_evm_calls pay_digits
      pay_numerals stableJson_def sort_key_def pay_query_def toLowerCase_def map_replicate_const)

lemma pay_events_ok:
  "verifyMainnetPayrollEvents digest_evm pay_abi pay_net [pay_log ''0'', pay_log ''1'', pay_log ''ref'', pay_log ''run'']
     (addr (CHR ''1'')) (addr (CHR ''a'')) pay_vc ''PAY-1'' = Inr True"
  by (simp add: verifyMainnetPayrollEvents_def scanLog_def equalR_def paymentVerdict_def referenceVerdict_def
      executedVerdict_def pay_abi_def pay_log_def digest_evm_calls ex_bool_eq)

abbreviation pay_evidence :: payroll_evidence where
  "pay_evidence \<equiv> evidence pay_net (hash_of (CHR ''c'')) (addr (CHR ''a'')) (addr (CHR ''5'')) (addr (CHR ''1'')) ''PAY-1''
     (payees_of [addr (CHR ''b''), addr (CHR ''c'')] [7, 8]) (replicate 64 (CHR ''a'')) 15 9 1"

lemma pay_verified: "verifyPayroll digest_evm pay_abi pay_net pay_chain pay_query = Inr pay_evidence"
proof -
  have ok: "payroll_query_ok pay_query" "is_hash (pqHash pay_query)" "js_trim ''PAY-1'' = ''PAY-1''"
    by (simp_all add: payroll_query_ok_def pay_query_def pay_numerals is_digest_def js_trim_def is_space_def list_all_iff)
  have norm: "normalizedQuery digest_evm (addr (CHR ''1'')) pay_query = Inr (addr (CHR ''a''), addr (CHR ''5''), addr (CHR ''1''))"
    by (simp add: normalizedQuery_def pay_query_def digest_evm_calls)
  obtain tx rc where got: "fetchPayroll pay_net pay_chain (pqHash pay_query) = Inr (tx, rc)"
    "assertTransaction digest_evm pay_net tx rc (pqHash pay_query) (addr (CHR ''1'')) (addr (CHR ''a'')) = Inr ()"
    "ctValue tx = 0" "ctHash tx = hash_of (CHR ''c'')" "crBlock rc = 9" "crLogs rc = [pay_log ''0'', pay_log ''1'', pay_log ''ref'', pay_log ''run'']"
    by (simp add: fetchPayroll_def pay_chain_def pay_net_def assertTransaction_def checksum_def equalR_def digest_evm_calls ex_bool_eq pay_query_def)
  have ref: "pqReference pay_query = ''PAY-1''" "pnKey pay_net = ARC_MAINNET" "pnContract pay_net = Some (addr (CHR ''1''))"
    by (simp_all add: pay_query_def pay_net_def)
  have "payrollConfirmations pay_net pay_chain 9 = Inr 1"
    by (simp add: payrollConfirmations_def pay_chain_def pay_net_def)
  then have "finishMainnetReceipt digest_evm pay_abi pay_net pay_chain tx rc (addr (CHR ''1'')) (addr (CHR ''a'')) pay_vc pay_query =
      Inr pay_evidence"
    using got pay_batch_ok pay_events_ok ref by (simp add: finishMainnetReceipt_def)
  moreover have "decodePayrollCall pay_abi (ctInput tx) =
      Some (Same_token (addr (CHR ''5'')) [addr (CHR ''b''), addr (CHR ''c'')] [7, 8] ''PAY-1'')" by (simp add: pay_abi_def)
  ultimately show ?thesis
    using ok norm got ref pay_call_ok by (simp add: verifyPayroll_def)
qed

theorem payroll_receipt_sound_witness:
  "verifyPayroll digest_evm pay_abi pay_net pay_chain pay_query = Inr pay_evidence \<and>
     batch_paid digest_evm pay_abi pay_net pay_chain pay_query \<and> rcAmount (peReceipt pay_evidence) = ''15''"
proof -
  have "pnKey pay_net = ARC_MAINNET" by (simp add: pay_net_def)
  from payroll_receipt_sound [OF digest_evm_laws this pay_verified] pay_verified
  show ?thesis by (auto simp: pay_query_def)
qed

end
