(* ===== verification/PayrollTaskProperties.thy ===== *)
theory PayrollTaskProperties
  imports PayrollTask TaskProperties PayrollReceiptProperties IntentFrame IntentTheorems
begin

text \<open>
  Payroll tasks, their units and their intents together: a unit is reported as a success only with its
  intent completed by a transaction that paid the unit's recipients, and no call of the payroll service
  breaks the invariants of the tasks or of the intents.
\<close>

section \<open>Frames\<close>

lemma only_tasks_ok: "intents_only s t \<Longrightarrow> tasks_ok s \<Longrightarrow> tasks_ok t"
  by (simp add: intents_only_def tasks_ok_def)

lemma only_keeps_tasks: "keeps intents_only m \<Longrightarrow> keeps keeps_tasks m"
  unfolding keeps_def keeps_tasks_def using only_tasks_ok by blast

lemma only_details: "keeps intents_only (detailsOf e i)" "keeps intents_only (readTask e i)"
  by (auto simp: keeps_def details_run read_run intents_only_def split: option.splits)

lemma run_details: "keeps intent_run (detailsOf e i)" "keeps intent_run (readTask e i)"
  by (auto simp: keeps_def details_run read_run via_def split: option.splits)

definition same_intents :: "db \<Rightarrow> db \<Rightarrow> bool" where
  "same_intents s t \<longleftrightarrow> intents t = intents s"

lemma same_intents_refl: "reflp same_intents"
  by (simp add: reflp_def same_intents_def)

lemma same_intents_trans: "transp same_intents"
  by (simp add: transp_def same_intents_def)

lemmas same_rules =
  keeps_ok [OF same_intents_refl] keeps_throw [OF same_intents_refl] keeps_query [OF same_intents_refl]
  keeps_ensure [OF same_intents_refl] keeps_lift [OF same_intents_refl] keeps_andThen [OF same_intents_trans]
  keeps_catching [OF same_intents_trans] keeps_transaction [OF same_intents_refl] keeps_split

lemma same_tables:
  "keeps same_intents (onTasks m1)" "keeps same_intents (onUnits m2)" "keeps same_intents (appendLog l)"
  "keeps same_intents (interfere id)"
  by (auto simp: keeps_def same_intents_def onTasks_def onUnits_def appendLog_def interfere_def split: prod.splits)

lemma same_read: "keeps same_intents (detailsOf e i)" "keeps same_intents (readTask e i)"
  by (auto simp: keeps_def details_run read_run same_intents_def split: option.splits)

lemma same_updates: "keeps same_intents (updateTask i f)" "keeps same_intents (updateUnit uid g)"
    "keeps same_intents (insertTask t)" "keeps same_intents (insertUnit u)" "keeps same_intents (logStep i step st c)"
  unfolding updateTask_def updateUnit_def insertTask_def insertUnit_def logStep_def Let_def
  by (intro same_rules same_tables same_read)+

lemma same_report: "keeps same_intents (reportUnit (\<lambda>_. id) i uid x)"
  unfolding reportUnit_def reportPending_def getTaskDetailsInTransaction_def Let_def
  by (intro same_rules same_tables same_read same_updates)

lemma same_run: "keeps same_intents m \<Longrightarrow> keeps intent_run m"
  by (auto simp: keeps_def same_intents_def via_def)

section \<open>Confirmed units\<close>

lemma run_confirm: "keeps intent_run (confirmUnit V now i uid h iid)"
  unfolding confirmUnit_def Let_def getTaskById_def
  by (intro run_rules run_details run_get run_bindOp run_begin run_complete)

lemma only_confirm: "keeps intents_only (confirmUnit V now i uid h iid)"
  unfolding confirmUnit_def Let_def getTaskById_def
  by (intro only_rules only_details only_get only_bindOp only_begin only_complete)

text \<open>What a confirmed unit has on record and on the chain.\<close>

definition unit_paid :: "payroll_env \<Rightarrow> string \<Rightarrow> string \<Rightarrow> intent \<Rightarrow> js \<Rightarrow> bool" where
  "unit_paid V i h r payload \<longleftrightarrow>
     status r = COMPLETED \<and> taskId r = Some i \<and> transactionHash r = Some (toLowerCase h) \<and>
     JStr (externalReference r) = js_get ''referenceId'' payload \<and>
     (\<exists>q. unitQuery V r h payload = Inr q \<and> batch_paid (pyEvm V) (pyAbi V) (pyNet V) (pyChain V) q \<and>
        read_nat (amountUnits r) = sum_list (map (\<lambda>(_, amt). read_nat amt) (pqRecipients q)))"

lemma confirm_paid:
  assumes laws: "evm_laws (pyEvm V)" "pnKey (pyNet V) = ARC_MAINNET" and ok: "intents_ok (intents s)"
    and run: "confirmUnit V now i uid hash iid s = (Inr r', t)"
  shows "\<exists>d u. getTaskById i s = (Inr d, s) \<and> find (\<lambda>u. unitId u = uid) (dUnits d) = Some u \<and>
    lookup (the iid) t = Some r' \<and> unit_paid V i (the hash) r' (unitPayload u)"
proof -
  let ?E = "pyEvm V" and ?R = "pyRouting V"
  obtain d u r s1 s2 x1 x2 q e where steps: "getTaskById i s = (Inr d, s)"
      "find (\<lambda>u. unitId u = uid) (dUnits d) = Some u" "getIntent ?R (the iid) s = (Inr r, s)"
      "taskId r = Some i" "JStr (externalReference r) = js_get ''referenceId'' (unitPayload u)"
      "bindHashOp ?R now (intentId r) (the hash) None False s = (Inr x1, s1)"
      "beginVerification ?R now (intentId r) s1 = (Inr x2, s2)" "unitQuery V r (the hash) (unitPayload u) = Inr q"
      "verifyPayroll ?E (pyAbi V) (pyNet V) (pyChain V) q = Inr e"
      "completeWithVerifiedReceipt ?E ?R now (intentId r) (peReceipt e) s2 = (Inr r', t)"
  proof -
    have "getTaskById i s = (Inr y, s') \<Longrightarrow> s' = s" for y s'
      by (simp add: getTaskById_def details_run split: option.splits)
    with run that show ?thesis
      unfolding confirmUnit_def Let_def andThen_Inr_iff lift_eq ensure_eq fromSome_simps
      by (metis getIntent_state)
  qed
  have r: "lookup (the iid) s = Some r" "intentId r = the iid"
    using steps(3) find_row_Some [of "\<lambda>r. intentId r = the iid" "intents s" r] by (auto simp: getIntent_Inr)
  have "intent_write\<^sup>*\<^sup>* (intents s) (intents s1)" "intent_write\<^sup>*\<^sup>* (intents s1) (intents s2)"
    using keepsD [OF run_bindOp steps(6)] keepsD [OF run_begin steps(7)] by (simp_all add: via_def)
  then have w: "intent_write\<^sup>*\<^sup>* (intents s) (intents s2)" by (rule rtranclp_trans)
  obtain r2 where r2: "lookup (the iid) s2 = Some r2" "intent_evolves r r2"
    using intent_table.run_find [OF w r(1)] by blast
  note c = complete_facts [OF steps(10) laws(1) intents_ok_run [OF w ok]]
  then have fin: "lookup (the iid) t = Some r'" "status r' = COMPLETED" "fixed_columns r' = fixed_columns r2"
      "transactionHash r' = Some (toLowerCase (rcHash (peReceipt e)))" "amountUnits r' = rcAmount (peReceipt e)"
    using r2(1) r(2) by auto
  have same: "sourceWallet r' = sourceWallet r" "tokenOut r' = tokenOut r" "amountUnits r' = amountUnits r"
      "batchDigest r' = batchDigest r" "externalReference r' = externalReference r"
    using r2(2) fin(3) by (simp_all add: intent_evolves_def fixed_columns_def)
  have "intent_write\<^sup>*\<^sup>* (intents s2) (intents t)" using keepsD [OF run_complete steps(10)] by (simp add: via_def)
  with w have "intent_write\<^sup>*\<^sup>* (intents s) (intents t)" by (rule rtranclp_trans)
  then have "intent_evolves r r'" using intent_table.run_find r(1) fin(1) by (metis option.inject)
  then have task: "taskId r' = Some i" using steps(4) by (simp add: intent_evolves_def)
  have q: "unitQuery V r' (the hash) (unitPayload u) = Inr q" using steps(8) same by (simp add: unitQuery_def)
  have pq: "pqHash q = the hash" "pqTotal q = amountUnits r" using steps(8) by (auto simp: unitQuery_def)
  note sound = verifyPayroll_Inr [OF laws steps(9)]
  show ?thesis
    using steps(1,2,5) fin task q sound same pq
    by (intro exI [of _ d] exI [of _ u]) (auto simp: unit_paid_def)
qed

text \<open>
  C20: a unit reported as a success is paid.  When the endpoint answers such a report on Arc Mainnet, the
  execution intent named in it belongs to the task and the unit's reference, is completed by the reported
  transaction, and that transaction paid every recipient of the unit its exact amount, which together are
  the amount of the intent; a pending unit is then stored as a success.
\<close>

theorem reported_success_paid:
  assumes "evm_laws (pyEvm V)" "pnKey (pyNet V) = ARC_MAINNET" "tasks_ok s" "intents_ok (intents s)"
    and "reportTaskUnit V now i uid x iid s = (Inr y, t)" "repStatus x = UNIT_SUCCESS"
  shows "\<exists>r h d u v. repTxHash x = Some (Some h) \<and> lookup (the iid) t = Some r \<and>
    getTaskById i s = (Inr d, s) \<and> find (\<lambda>u. unitId u = uid) (dUnits d) = Some u \<and> unit_paid V i h r (unitPayload u) \<and>
    findUnit i uid s = Some v \<and> findUnit i uid t = Some (if unitStatus v = UNIT_PENDING then reported x v else v)"
proof -
  obtain r s1 where steps: "confirmUnit V now i uid (case repTxHash x of Some h \<Rightarrow> h | None \<Rightarrow> None) iid s = (Inr r, s1)"
      "reportUnit (\<lambda>_. id) i uid x s1 = (Inr y, t)"
    using assms(5,6) by (auto simp: reportTaskUnit_def andThen_Inr_iff)
  obtain h where h: "repTxHash x = Some (Some h)"
    using steps(1) by (auto simp: confirmUnit_def Let_def andThen_Inr_iff truthy_def split: option.splits)
  obtain d u where d: "getTaskById i s = (Inr d, s)" "find (\<lambda>u. unitId u = uid) (dUnits d) = Some u"
      "lookup (the iid) s1 = Some r" "unit_paid V i h r (unitPayload u)"
    using confirm_paid [OF assms(1,2,4) steps(1)] h by auto
  have frame: "intents_only s s1" by (rule keepsD [OF only_confirm steps(1)])
  have ok1: "tasks_ok s1" by (rule only_tasks_ok [OF frame assms(3)])
  have units: "findUnit i uid s1 = findUnit i uid s" using frame by (simp add: intents_only_def findUnit_def)
  obtain v where v: "findUnit i uid s1 = Some v"
    using steps(2) by (cases "findUnit i uid s1")
      (simp_all add: reportUnit_def transaction_def andThen_def query_def lift_def fromSome_def)
  obtain k where k: "findTask i s1 = Some k" using unit_parent [OF ok1 v] by blast
  have "findUnit i uid t = Some (if unitStatus v = UNIT_PENDING then reported x v else v)"
    using steps(2) v report_state_unit(1) [OF ok1 v] unfolding reportUnit_run [OF ok1 v k] Let_def
    by (auto split: if_splits)
  moreover have "lookup (the iid) t = Some r"
    using keepsD [OF same_report steps(2)] d(3) by (simp add: same_intents_def)
  ultimately show ?thesis using h d v units by auto
qed

section \<open>A reported unit\<close>

definition paying :: intent where
  "paying = sent\<lparr>operation := OP_PAYROLL, sourceWallet := addr (CHR ''a''), recipient := None,
     batchDigest := Some (replicate 64 (CHR ''a'')), tokenOut := addr (CHR ''5''), amountUnits := ''15'',
     externalReference := ''PAY-1'', taskId := Some ''t'', transactionHash := Some (hash_of (CHR ''c'')), status := COMPLETED\<rparr>"

definition payee_json :: "char \<Rightarrow> string \<Rightarrow> js" where
  "payee_json c amt = JObj [(''address'', JStr (addr c)), (''amountUnits'', JStr amt)]"

definition paying_unit :: task_unit where
  "paying_unit = pair_unit\<lparr>unitPayload := JObj [(''referenceId'', JStr ''PAY-1''),
     (''recipients'', JArr [payee_json (CHR ''b'') ''7'', payee_json (CHR ''c'') ''8''])]\<rparr>"

definition paying_db :: db where
  "paying_db = empty_db\<lparr>tasks := [pair_task], units := [paying_unit], intents := [paying]\<rparr>"

definition paying_env :: payroll_env where
  "paying_env = \<lparr>pyEvm = digest_evm, pyRouting = arc, pyAbi = pay_abi, pyNet = pay_net, pyChain = pay_chain,
     parseUnits = (\<lambda>_ _. None), rounded = (\<lambda>_ _. []), message_of = (\<lambda>_. [])\<rparr>"

definition paid_report :: unit_report where
  "paid_report = \<lparr>repStatus = UNIT_SUCCESS, repTxHash = Some (Some (hash_of (CHR ''c''))), repError = None\<rparr>"

lemma paying_query: "unitQuery paying_env paying (hash_of (CHR ''c'')) (unitPayload paying_unit) = Inr pay_query"
  by (simp add: unitQuery_def unitPayee_def paying_unit_def payee_json_def js_get_def js_items_def js_or_def paying_def
      pay_query_def)

lemma paying_ok: "tasks_ok paying_db" "intents_ok (intents paying_db)" "findTask ''t'' paying_db = Some pair_task"
    "findUnit ''t'' ''u'' paying_db = Some paying_unit" "unitStatus paying_unit = UNIT_PENDING"
  by (simp_all add: tasks_ok_def paying_db_def empty_db_def pair_task_def pair_unit_def paying_unit_def newTask_def newUnit_def
      units_unique_def counted_def count_rows_def in_status_def findTask_def findUnit_def intents_ok_def row_ok_def paying_def)

lemma paying_steps:
  "bindHashOp arc 0 ''i'' (hash_of (CHR ''c'')) None False paying_db = (Inr paying, paying_db)"
  "beginVerification arc 0 ''i'' paying_db = (Inr paying, paying_db)"
  "completeWithVerifiedReceipt digest_evm arc 0 ''i'' (peReceipt pay_evidence) paying_db = (Inr paying, paying_db)"
  by (simp_all add: bindHashOp_def numeral_2_eq_2 bindHashAttempt_def beginVerification_def completeWithVerifiedReceipt_def
      andThen_def lift_def ensure_def ok_def getIntent_eq paying_db_def paying_def sent_def arc_def transactionHashOf_cases
      evidence_def receiptMatches_def andR_def sameAddress_def digest_evm_calls pay_net_def pay_digits fromSome_def)

lemma paying_reported: "\<exists>y t. reportTaskUnit paying_env 0 ''t'' ''u'' paid_report (Some ''i'') paying_db = (Inr y, t)"
proof -
  have details: "\<exists>d. getTaskById ''t'' paying_db = (Inr d, paying_db) \<and> find (\<lambda>u. unitId u = ''u'') (dUnits d) = Some paying_unit"
    by (simp add: getTaskById_def details_run paying_ok(3) mapTask_def taskWithRelations_def Let_def mapUnit_def)
      (simp add: paying_db_def pair_task_def newTask_def empty_db_def paying_unit_def pair_unit_def newUnit_def mapUnit_def
        mapJsonObject_def)
  have get: "getIntent arc ''i'' paying_db = (Inr paying, paying_db)"
    by (simp add: getIntent_eq paying_db_def paying_def sent_def arc_def)
  have facts: "intentId paying = ''i''" "taskId paying = Some ''t''" "truthy (batchDigest paying)"
      "JStr (externalReference paying) = js_get ''referenceId'' (unitPayload paying_unit)"
    by (simp_all add: paying_def sent_def paying_unit_def js_get_def)
  have "confirmUnit paying_env 0 ''t'' ''u'' (Some (hash_of (CHR ''c''))) (Some ''i'') paying_db = (Inr paying, paying_db)"
    using details get facts paying_steps paying_query pay_verified
    by (auto simp: confirmUnit_def Let_def andThen_def lift_def ensure_def paying_env_def fromSome_def)
  then show ?thesis
    using reportUnit_run [OF paying_ok(1,4,3), of paid_report] paying_ok(5)
    by (simp add: reportTaskUnit_def andThen_def lift_def ok_def paid_report_def paying_env_def arc_def assertCapability_def
        ensureR_def Let_def)
qed

theorem reported_success_paid_witness:
  "\<exists>y t r. reportTaskUnit paying_env 0 ''t'' ''u'' paid_report (Some ''i'') paying_db = (Inr y, t) \<and>
     lookup ''i'' t = Some r \<and> status r = COMPLETED \<and> findUnit ''t'' ''u'' t = Some (reported paid_report paying_unit)"
proof -
  obtain y t where run: "reportTaskUnit paying_env 0 ''t'' ''u'' paid_report (Some ''i'') paying_db = (Inr y, t)"
    using paying_reported by blast
  have "evm_laws (pyEvm paying_env)" "pnKey (pyNet paying_env) = ARC_MAINNET" "repStatus paid_report = UNIT_SUCCESS"
    by (simp_all add: paying_env_def digest_evm_laws pay_net_def paid_report_def)
  from reported_success_paid [OF this(1,2) paying_ok(1,2) run this(3)] run paying_ok(4,5)
  show ?thesis by (auto simp: unit_paid_def)
qed

section \<open>Every call of the payroll service\<close>

definition payroll_inv :: "db \<Rightarrow> bool" where
  "payroll_inv s \<longleftrightarrow> tasks_ok s \<and> intents_ok (intents s)"

definition keeps_payroll :: "db \<Rightarrow> db \<Rightarrow> bool" where
  "keeps_payroll s t \<longleftrightarrow> (payroll_inv s \<longrightarrow> payroll_inv t)"

lemma payroll_refl: "reflp keeps_payroll"
  by (simp add: reflp_def keeps_payroll_def)

lemma payroll_trans: "transp keeps_payroll"
  by (auto simp: transp_def keeps_payroll_def)

lemmas payroll_rules =
  keeps_ok [OF payroll_refl] keeps_throw [OF payroll_refl] keeps_query [OF payroll_refl]
  keeps_ensure [OF payroll_refl] keeps_lift [OF payroll_refl] keeps_andThen [OF payroll_trans]
  keeps_catching [OF payroll_trans] keeps_split

lemma payroll_split: "keeps keeps_tasks m \<Longrightarrow> keeps intent_run m \<Longrightarrow> keeps keeps_payroll m"
  unfolding keeps_def keeps_tasks_def keeps_payroll_def payroll_inv_def via_def using intents_ok_run by blast

lemma payroll_intents: "keeps intents_only m \<Longrightarrow> keeps intent_run m \<Longrightarrow> keeps keeps_payroll m"
  by (rule payroll_split [OF only_keeps_tasks])

lemma payroll_tasks: "keeps keeps_tasks m \<Longrightarrow> keeps same_intents m \<Longrightarrow> keeps keeps_payroll m"
  by (rule payroll_split [OF _ same_run])

lemma payroll_report: "keeps keeps_payroll (reportUnit (\<lambda>_. id) i uid x)"
  by (rule payroll_tasks [OF keeps_report same_report])

lemma payroll_endpoint: "keeps keeps_payroll (reportTaskUnit V now i uid x iid)"
  unfolding reportTaskUnit_def
  by (intro payroll_rules payroll_report payroll_intents [OF only_confirm run_confirm])

lemmas payroll_intent_ops =
  payroll_intents [OF only_get run_get] payroll_intents [OF only_begin run_begin]
  payroll_intents [OF only_attach run_attach] payroll_intents [OF only_complete run_complete]

lemma payroll_fail: "keeps keeps_payroll (failUnit V now i uid r e)"
  unfolding failUnit_def
  by (intro payroll_rules payroll_report payroll_intents [OF only_transition run_transition]) simp

lemma payroll_settle: "keeps keeps_payroll (settleUnit V now i uid b h r)"
  unfolding settleUnit_def by (intro payroll_rules payroll_report payroll_intent_ops payroll_fail)

lemma keeps_branching:
  assumes "keeps keeps_payroll m" "\<And>e. keeps keeps_payroll (h e)" "\<And>x. keeps keeps_payroll (f x)"
  shows "keeps keeps_payroll (branching m h f)"
proof (rule keepsI)
  fix s r u
  assume run: "branching m h f s = (r, u)"
  obtain a t where m: "m s = (a, t)" by (cases "m s")
  have "keeps_payroll s t" using keepsD [OF assms(1) m] .
  moreover have "keeps_payroll t u"
    using run m keepsD [OF assms(2)] keepsD [OF assms(3)] by (cases a) (auto simp: branching_def)
  ultimately show "keeps_payroll s u" by (simp add: keeps_payroll_def)
qed

lemma payroll_reconcileUnit: "keeps keeps_payroll (reconcileUnit V now i uid b plan)"
  unfolding reconcileUnit_def Let_def
  by (intro payroll_rules payroll_report payroll_intent_ops payroll_fail payroll_settle keeps_branching)

lemma payroll_each: "(\<And>m. m \<in> set ms \<Longrightarrow> keeps keeps_payroll m) \<Longrightarrow> keeps keeps_payroll (runEach ms)"
  by (induction ms) (auto intro!: payroll_rules)

lemma payroll_all:
  assumes "\<And>m. m \<in> set ms \<Longrightarrow> keeps keeps_payroll m"
  shows "keeps keeps_payroll (runAll ms)"
proof (rule keepsI)
  fix s r t
  assume "runAll ms s = (r, t)"
  with assms show "keeps_payroll s t"
  proof (induction ms arbitrary: s r)
    case Nil
    then show ?case by (simp add: keeps_payroll_def)
  next
    case (Cons m ms)
    then have "keeps_payroll s (snd (m s))" "keeps_payroll (snd (m s)) t"
      using keepsD [of keeps_payroll m s] by (auto split: prod.splits)
    then show ?case by (simp add: keeps_payroll_def)
  qed
qed

lemma tasks_ok_units:
  assumes "tasks_ok s" "\<And>u. unitId (f u) = unitId u \<and> unitTaskId (f u) = unitTaskId u \<and> unitIndex (f u) = unitIndex u \<and>
      unitStatus (f u) = unitStatus u"
  shows "tasks_ok (s\<lparr>units := update_rows p f (units s)\<rparr>)"
proof -
  let ?U = "update_rows p f (units s)"
  have "map unitId ?U = map unitId (units s)" "map unitTaskId ?U = map unitTaskId (units s)"
    "map (\<lambda>u. (unitTaskId u, unitIndex u)) ?U = map (\<lambda>u. (unitTaskId u, unitIndex u)) (units s)"
    using assms(2) by simp_all
  note keys = this this(2) [THEN arg_cong, of set, unfolded list.set_map]
  have "count_rows P ?U = count_rows P (units s)" if "\<And>u. P (f u) = P u" for P
    using that by (intro count_same)
  then have "counted ?U t = counted (units s) t" for t using assms(2) by (simp add: counted_def in_status_def)
  with assms(1) keys show ?thesis by (simp add: tasks_ok_def units_unique_def list_all_iff)
qed

lemma keeps_updateUnit:
  assumes "\<And>u. unitId (f u) = unitId u \<and> unitTaskId (f u) = unitTaskId u \<and> unitIndex (f u) = unitIndex u \<and>
      unitStatus (f u) = unitStatus u"
  shows "keeps keeps_tasks (updateUnit uid f)"
proof (rule keepsI)
  fix s r t
  assume "updateUnit uid f s = (r, t)"
  then have "t = s\<lparr>units := update_rows (\<lambda>u. unitId u = uid) f (units s)\<rparr>"
    by (auto simp: updateUnit_def andThen_def onUnits_def updateMany_def query_def lift_def)
  then show "keeps_tasks s t" using tasks_ok_units [OF _ assms] by (simp add: keeps_tasks_def)
qed

lemma payroll_reconcile: "keeps keeps_payroll (reconcilePayrollIntents V now d plans batches)"
proof -
  have unit: "keeps keeps_payroll (case unitAt d n of None \<Rightarrow> ok ()
      | Some u \<Rightarrow> if n < length batches then reconcileUnit V now i (unitId u) (batches ! n) (intentId p) else ok ())" for n i p
    by (intro payroll_rules payroll_reconcileUnit)
  have status: "keeps keeps_payroll (case unitAt d n of None \<Rightarrow> ok () | Some u \<Rightarrow>
      andThen (getIntent (pyRouting V) (intentId p)) (\<lambda>r.
      andThen (updateUnit (unitId u) (\<lambda>v. v\<lparr>unitPayload := g u r\<rparr>)) (\<lambda>_. ok ())))" for n p g
    by (intro payroll_rules payroll_intent_ops payroll_tasks [OF keeps_updateUnit same_updates(2)]) simp
  show ?thesis
    unfolding reconcilePayrollIntents_def Let_def
    by (intro payroll_rules payroll_each payroll_all payroll_intents [OF only_details(2) run_details(2)])
      (auto simp: unit status)
qed

lemma payroll_acquire: "keeps keeps_payroll (acquireBatches V now fresh owner source ref bs)"
proof (rule keepsI)
  fix s r t
  have undisturbed: "polite_attempt undisturbed" by (simp add: polite_attempt_def undisturbed_def)
  assume "acquireBatches V now fresh owner source ref bs s = (r, t)"
  then show "keeps_payroll s t"
  proof (induction bs arbitrary: s r t)
    case Nil
    then show ?case by (simp add: keeps_payroll_def)
  next
    case (Cons b bs)
    show ?case
    proof (cases "digestOf (pyEvm V) b")
      case (Inl e)
      with Cons.prems show ?thesis by (simp add: keeps_payroll_def)
    next
      case (Inr digest)
      obtain a u where a: "acquire (pyEvm V) (pyRouting V) now (fresh (bIndex b)) (\<lambda>_. undisturbed)
          (planInput V owner source ref b digest) s = (a, u)" by fastforce
      obtain as w where as: "acquireBatches V now fresh owner source ref bs u = (as, w)" by fastforce
      have "keeps_payroll s u" by (rule keepsD [OF payroll_intents [OF only_acquire run_acquire [OF undisturbed]] a])
      moreover have "keeps_payroll u w" by (rule Cons.IH [OF as])
      moreover have "t = w" using Cons.prems Inr a as by simp
      ultimately show ?thesis by (simp add: keeps_payroll_def)
    qed
  qed
qed

lemma runEach_insert:
  "runEach (map insertUnit us) s = (Inr (), t) \<Longrightarrow> units_unique (units s) \<Longrightarrow>
   t = s\<lparr>units := units s @ us\<rparr> \<and> units_unique (units s @ us)"
proof (induction us arbitrary: s)
  case Nil
  then show ?case by simp
next
  case (Cons u us)
  then have u: "insertUnit u s = (Inr u, s\<lparr>units := units s @ [u]\<rparr>)" "units_unique (units s @ [u])"
    by (auto simp: andThen_Inr_iff insertUnit_def onUnits_def insertUnique_def split: if_splits)
  from u(1) Cons.prems(1) have "runEach (map insertUnit us) (s\<lparr>units := units s @ [u]\<rparr>) = (Inr (), t)"
    by (simp add: andThen_Inr_iff)
  from Cons.IH [OF this] u(2) show ?case by simp
qed

lemma keeps_seeded:
  assumes "totalUnits t = length us" "completedUnits t = 0" "failedUnits t = 0"
    and "\<forall>u\<in>set us. unitTaskId u = tId t \<and> unitStatus u = UNIT_PENDING" "keeps keeps_tasks rest"
  shows "keeps keeps_tasks (transaction (andThen (insertTask t) (\<lambda>_. andThen (runEach (map insertUnit us)) (\<lambda>_. rest))))"
proof (rule keepsI)
  fix s r s'
  assume run: "transaction (andThen (insertTask t) (\<lambda>_. andThen (runEach (map insertUnit us)) (\<lambda>_. rest))) s = (r, s')"
  have "tasks_ok s'" if okay: "tasks_ok s"
  proof (cases r)
    case (Inl e)
    then show ?thesis using run okay by (auto simp: transaction_def split: prod.splits sum.splits)
  next
    case (Inr z)
    then obtain t' s1 s2 where steps: "insertTask t s = (Inr t', s1)"
        "runEach (map insertUnit us) s1 = (Inr (), s2)" "rest s2 = (Inr z, s')"
      using run by (auto simp: transaction_Inr andThen_Inr_iff)
    have s1: "s1 = s\<lparr>tasks := tasks s @ [t]\<rparr>" "distinct (map tId (tasks s @ [t]))"
      using steps(1) by (auto simp: insertTask_def onTasks_def insertUnique_def split: if_splits)
    have "units_unique (units s1)" using okay by (simp add: s1(1) tasks_ok_def)
    note ins = runEach_insert [OF steps(2) this]
    have "tasks_ok s2" using insert_with_units [OF okay assms(1-4) s1(2)] ins by (simp add: s1(1))
    then show ?thesis using keepsD [OF assms(5) steps(3)] by (simp add: keeps_tasks_def)
  qed
  then show "keeps_tasks s s'" by (simp add: keeps_tasks_def)
qed

lemma keeps_insertPayroll:
  assumes "totalUnits t = length us" "completedUnits t = 0" "failedUnits t = 0"
    and "\<forall>u\<in>set us. unitTaskId u = tId t \<and> unitStatus u = UNIT_PENDING"
  shows "keeps keeps_tasks (insertPayroll t us source ref n)"
  unfolding insertPayroll_def by (rule keeps_seeded [OF assms]) (intro keeps_task_rules keeps_log keeps_read)

lemma same_insertPayroll: "keeps same_intents (insertPayroll t us source ref n)"
proof -
  have "keeps same_intents (runEach (map insertUnit us))" for us
    by (induction us) (auto intro!: same_rules same_updates)
  then show ?thesis unfolding insertPayroll_def by (intro same_rules same_updates same_read)
qed

lemma payroll_create: "keeps keeps_payroll (createPayrollTask V now freshIntent freshUnit id payload)"
proof -
  have attach: "keeps keeps_payroll (runAll (map (\<lambda>p. attachTask R (intentId p) i) ps))" for R i ps
    by (rule payroll_all) (auto intro: payroll_intent_ops)
  have insert: "keeps keeps_payroll (insertPayroll (payroll_task i payload owner source ref approval totals (length us)) us source ref n)"
    if "\<forall>u\<in>set us. unitTaskId u = i \<and> unitStatus u = UNIT_PENDING" for i owner source ref approval totals us n
    using that by (intro payroll_tasks [OF keeps_insertPayroll same_insertPayroll]) (simp_all add: payroll_task_def newTask_def)
  have nobody: "keeps keeps_payroll (interfere id)" by (simp add: keeps_def interfere_def keeps_payroll_def)
  show ?thesis
    unfolding createPayrollTask_def Let_def
    by (intro payroll_rules payroll_acquire payroll_reconcile attach insert nobody) (auto simp: newUnit_def)
qed

text \<open>A call of the payroll service, of the task service or of the intent service.\<close>

datatype service_call =
    On_tasks task_call
  | On_intents int intent_call
  | Create_payroll int "nat \<Rightarrow> string" "nat \<Rightarrow> string" js
  | Report_endpoint int string string unit_report "string option"

fun run_payroll :: "payroll_env \<Rightarrow> (transfer_query \<Rightarrow> verified_receipt res) \<Rightarrow> service_call \<Rightarrow> db \<Rightarrow> db" where
  "run_payroll V W (On_tasks c) s = run_task (pyEvm V) (pyRouting V) c s"
| "run_payroll V W (On_intents now c) s = call (pyEvm V) (pyRouting V) W (now, c) s"
| "run_payroll V W (Create_payroll now freshIntent freshUnit p) s = snd (createPayrollTask V now freshIntent freshUnit id p s)"
| "run_payroll V W (Report_endpoint now i u x iid) s = snd (reportTaskUnit V now i u x iid s)"

lemma same_status:
  "keeps same_intents (updateStatus (\<lambda>_. id) i st step r)"
  "keeps same_intents (transitionWithAudit (\<lambda>_. id) now i st step r c)"
  "keeps same_intents (tryPickupForExecution now i)"
  unfolding updateStatus_def transitionWithAudit_def tryPickupForExecution_def getTaskById_def appendTransitionLog_def moveTask_def
  by (intro same_rules same_tables same_read same_updates)+

lemma same_create: "keeps same_intents (createTask E R fresh ty p)" "keeps same_intents (createLiquidityTask R i u p)"
  unfolding createTask_def createLiquidityTask_def Let_def getTaskById_def
  by (intro same_rules same_updates same_read)+

lemma same_tx: "keeps same_intents (appendTransaction fresh i tx p a c n)" "keeps same_intents (updateTransaction tx x)"
proof -
  have tx: "keeps same_intents (onTransactions m)" for m :: "(task_tx list, 'c) op"
    by (auto simp: keeps_def same_intents_def onTransactions_def split: prod.splits)
  show "keeps same_intents (appendTransaction fresh i tx p a c n)" "keeps same_intents (updateTransaction tx x)"
    unfolding appendTransaction_def updateTransaction_def by (intro same_rules tx)+
qed

lemma run_task_intents: "intents (run_task E R c s) = intents s"
proof -
  have snd: "keeps same_intents m \<Longrightarrow> intents (snd (m s)) = intents s" for m :: "(db, 'a) op"
    by (auto simp: keeps_def same_intents_def)
  show ?thesis by (cases c) (simp_all add: snd same_status same_create same_tx same_report same_updates)
qed

lemma run_payroll_inv: "payroll_inv s \<Longrightarrow> payroll_inv (run_payroll V W c s)"
proof (cases c)
  case (On_tasks k)
  then show "payroll_inv s \<Longrightarrow> ?thesis" by (simp add: payroll_inv_def run_task_ok run_task_intents)
next
  case (On_intents now k)
  then show "payroll_inv s \<Longrightarrow> ?thesis"
    using only_tasks_ok [OF only_call] intents_ok_run [OF run_call [unfolded via_def]] by (simp add: payroll_inv_def)
next
  case (Create_payroll now fi fu p)
  then show "payroll_inv s \<Longrightarrow> ?thesis" using payroll_create by (auto simp: keeps_def keeps_payroll_def)
next
  case (Report_endpoint now i u x iid)
  then show "payroll_inv s \<Longrightarrow> ?thesis" using payroll_endpoint by (auto simp: keeps_def keeps_payroll_def)
qed

text \<open>
  C21: the counters of a task are the numbers of its units.  After any sequence of calls of the task,
  payroll and intent services on an empty database the ids are unique, every unit belongs to a task, and
  of every task \<open>totalUnits\<close> counts the units, \<open>completedUnits\<close> those reported as a success and
  \<open>failedUnits\<close> those reported as a failure, so a unit is counted once however often it is reported; and
  the intents keep their own invariant.
\<close>

theorem unit_counters: "payroll_inv (fold (run_payroll V W) history empty_db)"
proof -
  have "payroll_inv s \<Longrightarrow> payroll_inv (fold (run_payroll V W) history s)" for s
    by (induction history arbitrary: s) (auto intro: run_payroll_inv)
  moreover have "payroll_inv empty_db" by (simp add: payroll_inv_def tasks_ok_def empty_db_def units_unique_def)
  ultimately show ?thesis by blast
qed

end
