(* ===== verification/SwapProtocol.thy ===== *)
theory SwapProtocol
  imports Chain
begin

text \<open>
  The swap protocol of Arc Mainnet (\<open>apps/backend/src/user-swap/mainnet-uniswap-v4-protocol.ts\<close>): price
  floors, the validation of quotes, the transaction a wallet signs and the verification of its receipt.
  The ABI codecs of viem are a \<open>swap_abi\<close>; a codec is \<open>None\<close> where viem throws.  The encoders for the
  Universal Router and for Permit2 have no caller in the services and are left out.
\<close>

section \<open>Constants and codecs\<close>

definition SWAP_USDC :: string where
  "SWAP_USDC = ''0x3600000000000000000000000000000000000000''"

definition SWAP_EURC :: string where
  "SWAP_EURC = ''0xbEf5f6d51CB62b58e6A8f77868681825C6fe21c1''"

definition SWAP_QUOTER :: string where
  "SWAP_QUOTER = ''0x8dc178efb8111bb0973dd9d722ebeff267c98f94''"

definition SWAP_EXECUTOR :: string where
  "SWAP_EXECUTOR = ''0x7A051F17B237750EF9D4E63fb75381B9F8755774''"

definition NATIVE_EMITTER :: string where
  "NATIVE_EMITTER = ''0xfffffffffffffffffffffffffffffffffffffffe''"

definition SWAP_POOL_ID :: string where
  "SWAP_POOL_ID = ''0xeb0fd02fb8044d5514fb6e165ee134fd547eff0378bb33b76f4b81d8b03bd1ae''"

definition SWAP_TRANSFER_TOPIC :: string where
  "SWAP_TRANSFER_TOPIC = ''0xddf252ad1be2c89b69c2b068fc378daa952ba7f163c4a11628f55a4df523b3ef''"

definition NATIVE_SCALE :: nat where
  "NATIVE_SCALE = 1000000000000"

definition SWAP_CHAIN :: int where
  "SWAP_CHAIN = 5042"

abbreviation INVALID_RECEIPT :: exn where
  "INVALID_RECEIPT \<equiv> PlainError ''INVALID_RECEIPT''"

abbreviation INVALID_QUOTE :: exn where
  "INVALID_QUOTE \<equiv> PlainError ''INVALID_QUOTE''"

record pool_key =
  pkCurrency0 :: string
  pkCurrency1 :: string
  pkFee :: nat
  pkTickSpacing :: nat
  pkHooks :: string

definition SWAP_POOL_KEY :: pool_key where
  "SWAP_POOL_KEY = \<lparr>pkCurrency0 = SWAP_USDC, pkCurrency1 = SWAP_EURC, pkFee = 500, pkTickSpacing = 10,
     pkHooks = zeroAddress\<rparr>"

record swap_args =
  saTokenIn :: string
  saTokenOut :: string
  saAmountIn :: nat
  saMinOut :: nat
  saMinHop :: nat
  saDeadline :: int

record swap_event =
  seCaller :: string
  seTokenIn :: string
  seTokenOut :: string
  seAmountIn :: nat
  seAmountOut :: nat

record swap_abi =
  encodeSwap :: "swap_args \<Rightarrow> string option"
  decodeSwap :: "string \<Rightarrow> swap_args option"
  encodeApprove :: "string \<Rightarrow> nat \<Rightarrow> string option"
  encodeQuoteCall :: "pool_key \<Rightarrow> bool \<Rightarrow> nat \<Rightarrow> string option"
  decodeQuote :: "string \<Rightarrow> (nat \<times> nat) option"
  encodePoolKey :: "pool_key \<Rightarrow> string"
  decodeSwapEvent :: "chain_log \<Rightarrow> swap_event option"

section \<open>The pool\<close>

definition deriveMainnetUniswapV4PoolId :: "evm \<Rightarrow> swap_abi \<Rightarrow> pool_key \<Rightarrow> string" where
  "deriveMainnetUniswapV4PoolId E D k = keccak256 E (encodePoolKey D k)"

definition assertCandidatePoolKeyMatchesEvidence :: "evm \<Rightarrow> swap_abi \<Rightarrow> string \<Rightarrow> string res" where
  "assertCandidatePoolKeyMatchesEvidence E D pool =
     (let derived = deriveMainnetUniswapV4PoolId E D SWAP_POOL_KEY in
      bindR (ensureR (derived = SWAP_POOL_ID \<and> toLowerCase pool = SWAP_POOL_ID) (PlainError ''POOL_ID_MISMATCH'')) (\<lambda>_.
      Inr derived))"

definition zeroForOneFromTokens :: "evm \<Rightarrow> string \<Rightarrow> string \<Rightarrow> bool res" where
  "zeroForOneFromTokens E tin tout =
     bindR (allR [equalR E tin SWAP_USDC, equalR E tout SWAP_EURC]) (\<lambda>sell.
     if sell then Inr True
     else bindR (allR [equalR E tin SWAP_EURC, equalR E tout SWAP_USDC]) (\<lambda>buy.
       if buy then Inr False else Inl (PlainError ''UNSUPPORTED_PAIR'')))"

section \<open>Price floors\<close>

definition applySlippage :: "nat \<Rightarrow> int \<Rightarrow> nat res" where
  "applySlippage amountOut bps =
     bindR (ensureR (1 \<le> bps \<and> bps \<le> 500) (PlainError ''INVALID_SLIPPAGE'')) (\<lambda>_.
     let least = amountOut * (10000 - nat bps) div 10000 in
     bindR (ensureR (0 < least) INVALID_QUOTE) (\<lambda>_. Inr least))"

definition calculateMinHopPriceX36 :: "nat \<Rightarrow> nat \<Rightarrow> int \<Rightarrow> nat res" where
  "calculateMinHopPriceX36 amountIn amountOut bps =
     bindR (ensureR (0 < amountIn) INVALID_QUOTE) (\<lambda>_.
     bindR (applySlippage amountOut bps) (\<lambda>_.
     let price = amountOut * (10000 - nat bps) * 10 ^ 36 div (amountIn * 10000) in
     bindR (ensureR (0 < price) INVALID_QUOTE) (\<lambda>_. Inr price)))"

definition requireCanonicalUint :: "string \<Rightarrow> nat res" where
  "requireCanonicalUint v = bindR (ensureR (positive_uint v) INVALID_QUOTE) (\<lambda>_. Inr (read_nat v))"

section \<open>Quotes\<close>

definition encodeQuoteExactInputSingle :: "evm \<Rightarrow> swap_abi \<Rightarrow> string \<Rightarrow> string \<Rightarrow> nat \<Rightarrow> string res" where
  "encodeQuoteExactInputSingle E D tin tout amount =
     bindR (zeroForOneFromTokens E tin tout) (\<lambda>sell.
     fromSome (PlainError ''AbiEncodingError'') (encodeQuoteCall D SWAP_POOL_KEY sell amount))"

record swap_request =
  sqTokenIn :: string
  sqTokenOut :: string
  sqAmountIn :: nat
  sqRecipient :: string
  sqWallet :: string
  sqControl :: string
  sqSlippage :: int
  sqDeadline :: int

record quote_observation =
  obChainId :: int
  obQuoter :: string
  obPool :: string
  obTokenIn :: string
  obTokenOut :: string
  obAmountIn :: string
  obBlock :: int
  obAmountOut :: string
  obGas :: string

record validated_quote =
  vqZeroForOne :: bool
  vqTokenIn :: string
  vqTokenOut :: string
  vqAmountIn :: nat
  vqAmountOut :: nat
  vqGas :: nat
  vqMinOut :: nat
  vqMinHop :: nat
  vqSlippage :: int

definition validateQuoteObservation :: "evm \<Rightarrow> swap_request \<Rightarrow> quote_observation \<Rightarrow> validated_quote res" where
  "validateQuoteObservation E r ob =
     bindR (allR [Inr (obChainId ob = SWAP_CHAIN), Inr (isAddress E (obQuoter ob)), equalR E (obQuoter ob) SWAP_QUOTER,
        Inr (is_hash (obPool ob)), Inr (toLowerCase (obPool ob) = SWAP_POOL_ID),
        Inr (isAddress E (obTokenIn ob)), Inr (isAddress E (obTokenOut ob)),
        equalR E (obTokenIn ob) (sqTokenIn r), equalR E (obTokenOut ob) (sqTokenOut r),
        Inr (obAmountIn ob = show_nat (sqAmountIn r)), Inr (\<bar>obBlock ob\<bar> \<le> int MAX_SAFE_INTEGER), Inr (0 < obBlock ob)]) (\<lambda>fits.
     bindR (ensureR fits INVALID_QUOTE) (\<lambda>_.
     bindR (requireCanonicalUint (obAmountOut ob)) (\<lambda>amountOut.
     bindR (requireCanonicalUint (obGas ob)) (\<lambda>gas.
     bindR (applySlippage amountOut (sqSlippage r)) (\<lambda>least.
     bindR (calculateMinHopPriceX36 (sqAmountIn r) amountOut (sqSlippage r)) (\<lambda>price.
     bindR (zeroForOneFromTokens E (sqTokenIn r) (sqTokenOut r)) (\<lambda>sell.
     Inr \<lparr>vqZeroForOne = sell, vqTokenIn = sqTokenIn r, vqTokenOut = sqTokenOut r, vqAmountIn = sqAmountIn r,
          vqAmountOut = amountOut, vqGas = gas, vqMinOut = least, vqMinHop = price, vqSlippage = sqSlippage r\<rparr>)))))))"

section \<open>The plan\<close>

record swap_call =
  scTo :: string
  scData :: string
  scValue :: nat

record swap_plan =
  spControl :: string
  spQuote :: validated_quote
  spApprovals :: "swap_call list"
  spSwap :: swap_call
  spRecipient :: string
  spDeadline :: int

definition encodeExecuteSwap :: "evm \<Rightarrow> swap_abi \<Rightarrow> swap_args \<Rightarrow> string res" where
  "encodeExecuteSwap E D a =
     bindR (zeroForOneFromTokens E (saTokenIn a) (saTokenOut a)) (\<lambda>_.
     fromSome (PlainError ''AbiEncodingError'') (encodeSwap D a))"

definition decodeExecuteSwap :: "evm \<Rightarrow> swap_abi \<Rightarrow> string \<Rightarrow> swap_args res" where
  "decodeExecuteSwap E D v =
     bindR (fromSome (PlainError ''AbiDecodingError'') (decodeSwap D v)) (\<lambda>a.
     bindR (zeroForOneFromTokens E (saTokenIn a) (saTokenOut a)) (\<lambda>_. Inr a))"

definition encodeErc20ApproveExecutor :: "swap_abi \<Rightarrow> nat \<Rightarrow> string res" where
  "encodeErc20ApproveExecutor D amount =
     fromSome (PlainError ''AbiEncodingError'') (encodeApprove D SWAP_EXECUTOR amount)"

definition quote_args :: "validated_quote \<Rightarrow> int \<Rightarrow> swap_args" where
  "quote_args q deadline = \<lparr>saTokenIn = vqTokenIn q, saTokenOut = vqTokenOut q, saAmountIn = vqAmountIn q,
     saMinOut = vqMinOut q, saMinHop = vqMinHop q, saDeadline = deadline\<rparr>"

definition buildUserControlledSwapPlan ::
  "evm \<Rightarrow> swap_abi \<Rightarrow> swap_request \<Rightarrow> quote_observation \<Rightarrow> swap_plan res" where
  "buildUserControlledSwapPlan E D r ob =
     bindR (assertCandidatePoolKeyMatchesEvidence E D SWAP_POOL_ID) (\<lambda>_.
     bindR (validateQuoteObservation E r ob) (\<lambda>q.
     bindR (equalR E (vqTokenIn q) SWAP_USDC) (\<lambda>native.
     bindR (if native then Inr []
            else bindR (encodeErc20ApproveExecutor D (vqAmountIn q)) (\<lambda>data.
              Inr [\<lparr>scTo = vqTokenIn q, scData = data, scValue = 0\<rparr>])) (\<lambda>approvals.
     bindR (encodeExecuteSwap E D (quote_args q (sqDeadline r))) (\<lambda>data.
     Inr \<lparr>spControl = sqControl r, spQuote = q, spApprovals = approvals,
          spSwap = \<lparr>scTo = SWAP_EXECUTOR, scData = data, scValue = (if native then vqAmountIn q * NATIVE_SCALE else 0)\<rparr>,
          spRecipient = sqRecipient r, spDeadline = sqDeadline r\<rparr>)))))"

section \<open>Receipts\<close>

record swap_receipt =
  srChainId :: int
  srSuccess :: bool
  srFrom :: string
  srTo :: string
  srInput :: string
  srValue :: string
  srLogs :: "chain_log list"

record swap_expected =
  xpWallet :: string
  xpRecipient :: string
  xpTokenIn :: string
  xpTokenOut :: string
  xpAmountIn :: nat
  xpMinOut :: nat
  xpData :: string
  xpValue :: nat

record tally =
  tlSpent :: nat
  tlOut :: nat
  tlNative :: nat
  tlEvents :: nat
  tlEventOut :: nat

definition requireAddress :: "evm \<Rightarrow> string \<Rightarrow> string res" where
  "requireAddress E v =
     bindR (ensureR (isAddress E v) INVALID_RECEIPT) (\<lambda>_.
     bindR (equalR E v zeroAddress) (\<lambda>zero.
     bindR (ensureR (\<not> zero) INVALID_RECEIPT) (\<lambda>_. checksum E v)))"

text \<open>The \<open>try\<close> on a log of the executor: \<open>None\<close> where it is left by \<open>continue\<close>.\<close>

definition swapVerdict :: "evm \<Rightarrow> swap_expected \<Rightarrow> swap_event \<Rightarrow> bool option" where
  "swapVerdict E x ev = all_checks
     [isAddressEqual E (seCaller ev) (xpWallet x), isAddressEqual E (seTokenIn ev) (xpTokenIn x),
      isAddressEqual E (seTokenOut ev) (xpTokenOut x), Some (seAmountIn ev = xpAmountIn x), Some (xpMinOut x \<le> seAmountOut ev)]"

definition tallyEvent :: "evm \<Rightarrow> swap_abi \<Rightarrow> swap_expected \<Rightarrow> chain_log \<Rightarrow> tally \<Rightarrow> tally option" where
  "tallyEvent E D x l t =
     (case decodeSwapEvent D l of
        None \<Rightarrow> None
      | Some ev \<Rightarrow> map_option (\<lambda>good. if good then t\<lparr>tlEvents := tlEvents t + 1, tlEventOut := seAmountOut ev\<rparr> else t)
          (swapVerdict E x ev))"

definition topic_address :: "string \<Rightarrow> string" where
  "topic_address v = ''0x'' @ drop (length v - 40) v"

definition transferLogShape :: "chain_log \<Rightarrow> bool" where
  "transferLogShape l \<longleftrightarrow> 3 \<le> length (logTopics l) \<and> toLowerCase (logTopics l ! 0) = SWAP_TRANSFER_TOPIC \<and>
     is_hash (logTopics l ! 1) \<and> is_hash (logTopics l ! 2)"

definition hex_quantity :: "string \<Rightarrow> bool" where
  "hex_quantity v \<longleftrightarrow> take 2 v = ''0x'' \<and> 3 \<le> length v \<and> length v \<le> 66 \<and> list_all is_hex (drop 2 v)"

definition tallyTransfer :: "evm \<Rightarrow> swap_expected \<Rightarrow> string \<Rightarrow> string \<Rightarrow> string \<Rightarrow> nat \<Rightarrow> tally \<Rightarrow> tally res" where
  "tallyTransfer E x token src dst v t =
     bindR (allR [equalR E token (xpTokenIn x), equalR E src (xpWallet x), equalR E dst SWAP_EXECUTOR]) (\<lambda>spent.
     bindR (allR [equalR E token NATIVE_EMITTER, equalR E src (xpWallet x), equalR E dst SWAP_EXECUTOR]) (\<lambda>native.
     bindR (allR [equalR E token (xpTokenOut x), equalR E dst (xpRecipient x)]) (\<lambda>out.
     Inr (t\<lparr>tlSpent := tlSpent t + (if spent then v else 0), tlNative := tlNative t + (if native then v else 0),
            tlOut := tlOut t + (if out then v else 0)\<rparr>))))"

definition tallyLog :: "evm \<Rightarrow> swap_abi \<Rightarrow> swap_expected \<Rightarrow> chain_log \<Rightarrow> tally \<Rightarrow> tally res" where
  "tallyLog E D x l t =
     (if \<not> isAddress E (logAddress l) then Inr t
      else
        bindR (checksum E (logAddress l)) (\<lambda>a.
        bindR (equalR E a SWAP_EXECUTOR) (\<lambda>ours.
        case (if ours then tallyEvent E D x l t else Some t) of
          None \<Rightarrow> Inr t
        | Some u \<Rightarrow>
            if \<not> transferLogShape l then Inr u
            else
              bindR (checksum E (topic_address (logTopics l ! 1))) (\<lambda>src.
              bindR (checksum E (topic_address (logTopics l ! 2))) (\<lambda>dst.
              if \<not> hex_quantity (logData l) then Inr u
              else tallyTransfer E x a src dst (read_base 16 (drop 2 (logData l))) u)))))"

fun tallyLogs :: "evm \<Rightarrow> swap_abi \<Rightarrow> swap_expected \<Rightarrow> chain_log list \<Rightarrow> tally \<Rightarrow> tally res" where
  "tallyLogs E D x [] t = Inr t"
| "tallyLogs E D x (l # ls) t = bindR (tallyLog E D x l t) (tallyLogs E D x ls)"

definition no_tally :: tally where
  "no_tally = \<lparr>tlSpent = 0, tlOut = 0, tlNative = 0, tlEvents = 0, tlEventOut = 0\<rparr>"

text \<open>The answer is the output the event reports and the input spent.\<close>

definition verifySwapReceipt :: "evm \<Rightarrow> swap_abi \<Rightarrow> swap_receipt \<Rightarrow> swap_expected \<Rightarrow> (nat \<times> nat) res" where
  "verifySwapReceipt E D rc x =
     bindR (equalR E (xpWallet x) (xpRecipient x)) (\<lambda>own.
     bindR (ensureR (own \<and> srChainId rc = SWAP_CHAIN \<and> srSuccess rc) INVALID_RECEIPT) (\<lambda>_.
     bindR (requireAddress E (srFrom rc)) (\<lambda>payer.
     bindR (requireAddress E (srTo rc)) (\<lambda>target.
     bindR (equalR E payer (xpWallet x)) (\<lambda>mine.
     bindR (ensureR mine INVALID_RECEIPT) (\<lambda>_.
     bindR (equalR E target SWAP_EXECUTOR) (\<lambda>ours.
     bindR (ensureR (ours \<and> toLowerCase (srInput rc) = toLowerCase (xpData x) \<and> numeral_of is_digit (srValue rc) \<and>
        read_nat (srValue rc) = xpValue x) INVALID_RECEIPT) (\<lambda>_.
     bindR (tallyLogs E D x (srLogs rc) no_tally) (\<lambda>t.
     bindR (equalR E (xpTokenIn x) SWAP_USDC) (\<lambda>native.
     let spent = (if native then xpAmountIn x else tlSpent t) in
     bindR (ensureR (tlEvents t = 1 \<and> xpMinOut x \<le> tlEventOut t) INVALID_RECEIPT) (\<lambda>_.
     bindR (ensureR (native \<or> spent = xpAmountIn x) INVALID_RECEIPT) (\<lambda>_.
     bindR (ensureR (\<not> native \<or> tlNative t = xpValue x) INVALID_RECEIPT) (\<lambda>_.
     bindR (ensureR (xpMinOut x \<le> tlOut t) INVALID_RECEIPT) (\<lambda>_.
     Inr (tlEventOut t, spent)))))))))))))))"

end
