(* ===== verification/SwapService.thy ===== *)
theory SwapService
  imports SwapProtocol Capability
begin

text \<open>
  The swap services (\<open>mainnet-uniswap-v4-readiness.service.ts\<close>, \<open>mainnet-uniswap-v4-quote.service.ts\<close>,
  \<open>mainnet-uniswap-v4.service.ts\<close>, \<open>user-swap.service.ts\<close> and the controller of the Mainnet endpoints).
  A \<open>swap_world\<close> is what one request sees of the outside: the clock and, for each RPC address, the answers
  of its node (\<open>None\<close> where the call throws).  The quorum cache of the quote service and the table of
  verified swaps are states of their own.  Points in time are milliseconds; amounts the service writes
  out as decimal strings are kept as numbers.
\<close>

abbreviation SWAP_INVALID :: exn where
  "SWAP_INVALID \<equiv> BadRequest ''ARC_MAINNET_UNISWAP_V4_INVALID_REQUEST''"

abbreviation SWAP_UNAVAILABLE :: exn where
  "SWAP_UNAVAILABLE \<equiv> ServiceUnavailable ''ARC_MAINNET_UNISWAP_V4_UNAVAILABLE'' False"

definition MAX_UINT128 :: nat where
  "MAX_UINT128 = 2 ^ 128 - 1"

section \<open>The boundary of a request\<close>

text \<open>A request field of unknown type as a number: no number at all, a fraction, or an integer.\<close>

datatype js_number = NotNumber | Fraction | Integer int

fun integer_of :: "js_number \<Rightarrow> int option" where
  "integer_of (Integer n) = Some n"
| "integer_of _ = None"

record boundary_request =
  brChainId :: js_number
  brTokenIn :: js
  brTokenOut :: js
  brAmountIn :: js
  brRecipient :: js
  brWallet :: js
  brControl :: js
  brSlippage :: js_number
  brDeadline :: js_number

definition boundaryAddress :: "evm \<Rightarrow> js \<Rightarrow> string res" where
  "boundaryAddress E v =
     (case v of
        JStr s \<Rightarrow>
          bindR (ensureR (isAddress E s) SWAP_INVALID) (\<lambda>_.
          bindR (checksum E s) (\<lambda>a.
          bindR (equalR E a zeroAddress) (\<lambda>zero.
          bindR (ensureR (\<not> zero) SWAP_INVALID) (\<lambda>_. Inr a))))
      | _ \<Rightarrow> Inl SWAP_INVALID)"

definition officialToken :: "evm \<Rightarrow> string \<Rightarrow> bool res" where
  "officialToken E a = bindR (equalR E a SWAP_USDC) (\<lambda>usdc. if usdc then Inr True else equalR E a SWAP_EURC)"

definition boundaryAmount :: "js \<Rightarrow> nat res" where
  "boundaryAmount v =
     (case v of
        JStr s \<Rightarrow>
          bindR (ensureR (length s \<le> 39 \<and> positive_uint s) SWAP_INVALID) (\<lambda>_.
          bindR (ensureR (read_nat s \<le> MAX_UINT128) SWAP_INVALID) (\<lambda>_. Inr (read_nat s)))
      | _ \<Rightarrow> Inl SWAP_INVALID)"

definition boundaryNumbers :: "int \<Rightarrow> js_number \<Rightarrow> js_number \<Rightarrow> (int \<times> int) res" where
  "boundaryNumbers now slippage deadline =
     bindR (fromSome SWAP_INVALID (integer_of slippage)) (\<lambda>bps.
     bindR (ensureR (1 \<le> bps \<and> bps \<le> 500) SWAP_INVALID) (\<lambda>_.
     bindR (fromSome SWAP_INVALID (integer_of deadline)) (\<lambda>d.
     bindR (ensureR (\<bar>d\<bar> \<le> int MAX_SAFE_INTEGER \<and> now < d \<and> d \<le> now + 1200) SWAP_INVALID) (\<lambda>_.
     Inr (bps, d)))))"

definition validateBoundary :: "evm \<Rightarrow> int \<Rightarrow> boundary_request \<Rightarrow> swap_request res" where
  "validateBoundary E now r =
     bindR (ensureR (brChainId r = Integer 5042) SWAP_INVALID) (\<lambda>_.
     bindR (boundaryAddress E (brTokenIn r)) (\<lambda>tin.
     bindR (boundaryAddress E (brTokenOut r)) (\<lambda>tout.
     bindR (officialToken E tin) (\<lambda>official.
     bindR (ensureR official SWAP_INVALID) (\<lambda>_.
     bindR (officialToken E tout) (\<lambda>official.
     bindR (ensureR official SWAP_INVALID) (\<lambda>_.
     bindR (equalR E tin tout) (\<lambda>both.
     bindR (ensureR (\<not> both) SWAP_INVALID) (\<lambda>_.
     bindR (boundaryAmount (brAmountIn r)) (\<lambda>amount.
     bindR (boundaryAddress E (brWallet r)) (\<lambda>wallet.
     bindR (boundaryAddress E (brRecipient r)) (\<lambda>to.
     bindR (equalR E wallet to) (\<lambda>own.
     bindR (ensureR own SWAP_INVALID) (\<lambda>_.
     bindR (ensureR (brControl r = JStr ''external-wallet'') SWAP_INVALID) (\<lambda>_.
     bindR (boundaryNumbers now (brSlippage r) (brDeadline r)) (\<lambda>(bps, deadline).
     Inr \<lparr>sqTokenIn = tin, sqTokenOut = tout, sqAmountIn = amount, sqRecipient = to, sqWallet = wallet,
          sqControl = ''external-wallet'', sqSlippage = bps, sqDeadline = deadline\<rparr>))))))))))))))))"

section \<open>The quorum of RPC nodes\<close>

definition PAYROLL_CONTRACT :: string where
  "PAYROLL_CONTRACT = ''0x77AC7Cb6507D404b5530fC03e3D39BAaEdE10C34''"

definition EXPECTED_UNIVERSAL_ROUTER :: string where
  "EXPECTED_UNIVERSAL_ROUTER = ''0x4fca4a51ab4f23a7447b3284fbd7d73289a89fb1''"

definition EXPECTED_PERMIT2 :: string where
  "EXPECTED_PERMIT2 = ''0x000000000022D473030F116dDEE9F6B43aC78BA3''"

definition QUORUM_RPC_URL :: string where
  "QUORUM_RPC_URL = ''https://rpc.quicknode.mainnet.arc.io''"

record rpc_node =
  nodeChainId :: "nat option"
  nodeSlot0 :: "(int \<times> nat) option"
  nodeLiquidity :: "nat option"
  nodePaused :: "bool option"
  nodeFeeBps :: "nat option"
  nodeRouter :: "string option"
  nodePermit2 :: "string option"
  nodeUsdc :: "string option"
  nodeEurc :: "string option"
  nodeBlock :: "nat option"
  nodeCall :: "string \<Rightarrow> string \<Rightarrow> nat \<Rightarrow> string option"
  nodePayrollFee :: "string \<Rightarrow> nat option"

record swap_world =
  swNow :: int
  swRpcUrl :: string
  swNode :: "string \<Rightarrow> rpc_node"

record snapshot =
  ssChainId :: nat
  ssTick :: string
  ssLpFee :: string
  ssLiquidity :: string
  ssPaused :: bool
  ssFeeBps :: string
  ssRouter :: string
  ssPermit2 :: string
  ssUsdc :: string
  ssEurc :: string

type_synonym quorum_cache = "(int \<times> string option) option"

abbreviation RPC_FAILED :: exn where
  "RPC_FAILED \<equiv> PlainError ''RpcError''"

definition strip_slash :: "string \<Rightarrow> string" where
  "strip_slash u = (if u \<noteq> [] \<and> last u = CHR ''/'' then butlast u else u)"

definition rpcUrls :: "swap_world \<Rightarrow> string list" where
  "rpcUrls W = remdups (map strip_slash [swRpcUrl W, QUORUM_RPC_URL])"

definition snapshotRpc :: "evm \<Rightarrow> rpc_node \<Rightarrow> snapshot res" where
  "snapshotRpc E n =
     bindR (fromSome RPC_FAILED (nodeChainId n)) (\<lambda>chain.
     bindR (fromSome RPC_FAILED (nodeSlot0 n)) (\<lambda>(tick, lpFee).
     bindR (fromSome RPC_FAILED (nodeLiquidity n)) (\<lambda>liquidity.
     bindR (fromSome RPC_FAILED (nodePaused n)) (\<lambda>paused.
     bindR (fromSome RPC_FAILED (nodeFeeBps n)) (\<lambda>fee.
     bindR (fromSome RPC_FAILED (nodeRouter n)) (\<lambda>router.
     bindR (fromSome RPC_FAILED (nodePermit2 n)) (\<lambda>permit.
     bindR (fromSome RPC_FAILED (nodeUsdc n)) (\<lambda>usdc.
     bindR (fromSome RPC_FAILED (nodeEurc n)) (\<lambda>eurc.
     bindR (checksum E router) (\<lambda>router.
     bindR (checksum E permit) (\<lambda>permit.
     bindR (checksum E usdc) (\<lambda>usdc.
     bindR (checksum E eurc) (\<lambda>eurc.
     Inr \<lparr>ssChainId = chain, ssTick = show_int tick, ssLpFee = show_nat lpFee, ssLiquidity = show_nat liquidity,
          ssPaused = paused, ssFeeBps = show_nat fee, ssRouter = router, ssPermit2 = permit, ssUsdc = usdc,
          ssEurc = eurc\<rparr>)))))))))))))"

definition quorumDigest :: "snapshot \<Rightarrow> string option" where
  "quorumDigest s = serialize (JObj
     [(''chainId'', JNum (ssChainId s)), (''lpFee'', JStr (ssLpFee s)), (''paused'', JBool (ssPaused s)),
      (''feeBps'', JStr (ssFeeBps s)), (''router'', JStr (ssRouter s)), (''permit2'', JStr (ssPermit2 s)),
      (''usdc'', JStr (ssUsdc s)), (''eurc'', JStr (ssEurc s))])"

definition deployed :: "evm \<Rightarrow> string \<Rightarrow> string \<Rightarrow> bool res" where
  "deployed E v constant = bindR (checksum E constant) (equalR E v)"

text \<open>The body of the \<open>try\<close>; it answers with the digest that is cached.\<close>

definition quorumCheck :: "evm \<Rightarrow> swap_world \<Rightarrow> string list \<Rightarrow> string option res" where
  "quorumCheck E W urls =
     bindR (mapR (\<lambda>u. snapshotRpc E (swNode W u)) urls) (\<lambda>ss.
     let ds = map quorumDigest ss; s = ss ! 0 in
     bindR (ensureR (length (remdups ds) = 1) SWAP_UNAVAILABLE) (\<lambda>_.
     bindR (ensureR (ssChainId s = 5042) SWAP_UNAVAILABLE) (\<lambda>_.
     bindR (ensureR (ssLpFee s = ''500'') SWAP_UNAVAILABLE) (\<lambda>_.
     bindR (allR (map (\<lambda>c. bindR (toBigInt (ssLiquidity c)) (\<lambda>v. Inr (0 < v))) ss)) (\<lambda>liquid.
     bindR (ensureR liquid SWAP_UNAVAILABLE) (\<lambda>_.
     bindR (ensureR (\<not> ssPaused s) SWAP_UNAVAILABLE) (\<lambda>_.
     bindR (allR [deployed E (ssRouter s) EXPECTED_UNIVERSAL_ROUTER, deployed E (ssPermit2 s) EXPECTED_PERMIT2,
                  deployed E (ssUsdc s) SWAP_USDC, deployed E (ssEurc s) SWAP_EURC]) (\<lambda>official.
     bindR (ensureR official SWAP_UNAVAILABLE) (\<lambda>_.
     Inr (ds ! 0))))))))))"

fun has_code :: "exn \<Rightarrow> bool" where
  "has_code (PlainError _) = False"
| "has_code (DbError _) = False"
| "has_code (VerificationError _ _) = False"
| "has_code _ = True"

definition assertLiveStaticQuorum :: "evm \<Rightarrow> swap_world \<Rightarrow> (quorum_cache, unit) op" where
  "assertLiveStaticQuorum E W c =
     (if (case c of Some (at, _) \<Rightarrow> swNow W - at < 30000 | None \<Rightarrow> False) then ok () c
      else
        let urls = rpcUrls W in
        if length urls < 2 then throw SWAP_UNAVAILABLE c
        else case quorumCheck E W urls of
               Inr d \<Rightarrow> ok () (Some (swNow W, d))
             | Inl e \<Rightarrow> throw (if has_code e then e else SWAP_UNAVAILABLE) c)"

section \<open>Live quotes\<close>

definition QUOTE_MAX_BLOCK_AGE :: int where
  "QUOTE_MAX_BLOCK_AGE = 60"

record live_quote =
  lqObservation :: quote_observation
  lqValidated :: validated_quote
  lqQuotedAt :: int
  lqExpiresAt :: int
  lqExpiresAtBlock :: int

definition primaryNode :: "swap_world \<Rightarrow> rpc_node" where
  "primaryNode W = swNode W (rpcUrls W ! 0)"

definition decodeQuoteExactInputSingleResult :: "swap_abi \<Rightarrow> string \<Rightarrow> (nat \<times> nat) res" where
  "decodeQuoteExactInputSingleResult D data = fromSome (PlainError ''AbiDecodingError'') (decodeQuote D data)"

definition observe :: "swap_request \<Rightarrow> nat \<Rightarrow> nat \<Rightarrow> nat \<Rightarrow> quote_observation" where
  "observe r block amountOut gas =
     \<lparr>obChainId = 5042, obQuoter = SWAP_QUOTER, obPool = SWAP_POOL_ID, obTokenIn = sqTokenIn r,
      obTokenOut = sqTokenOut r, obAmountIn = show_nat (sqAmountIn r), obBlock = int block,
      obAmountOut = show_nat amountOut, obGas = show_nat gas\<rparr>"

text \<open>The two \<open>try\<close> blocks turn whatever is thrown in them into the same exception.\<close>

definition quoteLive :: "evm \<Rightarrow> swap_abi \<Rightarrow> swap_world \<Rightarrow> swap_request \<Rightarrow> live_quote res" where
  "quoteLive E D W r =
     bindR (encodeQuoteExactInputSingle E D (sqTokenIn r) (sqTokenOut r) (sqAmountIn r)) (\<lambda>data.
     bindR (fromSome SWAP_UNAVAILABLE (nodeBlock (primaryNode W))) (\<lambda>block.
     bindR (fromSome SWAP_UNAVAILABLE (nodeCall (primaryNode W) SWAP_QUOTER data block)) (\<lambda>answer.
     bindR (case decodeQuoteExactInputSingleResult D answer of Inl _ \<Rightarrow> Inl SWAP_UNAVAILABLE | Inr q \<Rightarrow> Inr q)
       (\<lambda>(amountOut, gas).
     let ob = observe r block amountOut gas in
     bindR (validateQuoteObservation E r ob) (\<lambda>q.
     Inr \<lparr>lqObservation = ob, lqValidated = q, lqQuotedAt = swNow W, lqExpiresAt = swNow W + 60000,
          lqExpiresAtBlock = int block + QUOTE_MAX_BLOCK_AGE\<rparr>)))))"

definition liveQuote :: "evm \<Rightarrow> swap_abi \<Rightarrow> swap_world \<Rightarrow> swap_request \<Rightarrow> (quorum_cache, live_quote) op" where
  "liveQuote E D W r =
     andThen (assertLiveStaticQuorum E W) (\<lambda>_. lift (quoteLive E D W r))"

definition assertQuoteFresh :: "swap_world \<Rightarrow> quote_observation \<Rightarrow> unit res" where
  "assertQuoteFresh W ob =
     bindR (fromSome SWAP_UNAVAILABLE (nodeBlock (primaryNode W))) (\<lambda>head.
     ensureR (int head - obBlock ob \<le> QUOTE_MAX_BLOCK_AGE) SWAP_UNAVAILABLE)"

definition payrollFeeBps :: "swap_world \<Rightarrow> nat res" where
  "payrollFeeBps W = fromSome SWAP_UNAVAILABLE (nodePayrollFee (primaryNode W) PAYROLL_CONTRACT)"

section \<open>The Mainnet swap service\<close>

record swap_config =
  cfgArcKey :: "string option"
  cfgEnvKey :: "string option"

definition assertMainnetProcess :: "swap_config \<Rightarrow> unit res" where
  "assertMainnetProcess c =
     ensureR ((case cfgArcKey c of Some k \<Rightarrow> Some k | None \<Rightarrow> cfgEnvKey c) = Some ''arc-mainnet'') SWAP_INVALID"

definition now_seconds :: "swap_world \<Rightarrow> int" where
  "now_seconds W = swNow W div 1000"

definition liveReadiness :: "evm \<Rightarrow> swap_config \<Rightarrow> swap_world \<Rightarrow> (quorum_cache, bool) op" where
  "liveReadiness E c W =
     andThen (lift (assertMainnetProcess c)) (\<lambda>_. andThen (assertLiveStaticQuorum E W) (\<lambda>_. ok True))"

text \<open>The endpoint answers with whether swaps are available, whatever the check throws.\<close>

definition readinessEndpoint :: "evm \<Rightarrow> swap_config \<Rightarrow> swap_world \<Rightarrow> (quorum_cache, bool) op" where
  "readinessEndpoint E c W = catching (liveReadiness E c W) (\<lambda>_. ok False)"

record swap_quote =
  wqCall :: string
  wqLive :: live_quote
  wqControl :: string

definition inspectQuote ::
  "evm \<Rightarrow> swap_abi \<Rightarrow> swap_config \<Rightarrow> swap_world \<Rightarrow> boundary_request \<Rightarrow> (quorum_cache, swap_quote) op" where
  "inspectQuote E D c W b =
     andThen (lift (assertMainnetProcess c)) (\<lambda>_.
     andThen (lift (validateBoundary E (now_seconds W) b)) (\<lambda>r.
     andThen (liveQuote E D W r) (\<lambda>live.
     andThen (lift (encodeQuoteExactInputSingle E D (sqTokenIn r) (sqTokenOut r) (sqAmountIn r))) (\<lambda>data.
     ok \<lparr>wqCall = data, wqLive = live, wqControl = sqControl r\<rparr>))))"

record prepare_request =
  prBoundary :: boundary_request
  prQuote :: "quote_observation option"
  prPermit :: bool

text \<open>What \<open>prepare\<close> and \<open>verifyPreparedReceipt\<close> have in common: the request and the plan built from its quote.\<close>

definition plannedSwap ::
  "evm \<Rightarrow> swap_abi \<Rightarrow> swap_config \<Rightarrow> swap_world \<Rightarrow> prepare_request \<Rightarrow> (swap_request \<times> swap_plan) res" where
  "plannedSwap E D c W p =
     bindR (assertMainnetProcess c) (\<lambda>_.
     bindR (validateBoundary E (now_seconds W) (prBoundary p)) (\<lambda>r.
     bindR (fromSome SWAP_INVALID (prQuote p)) (\<lambda>ob.
     bindR (assertQuoteFresh W ob) (\<lambda>_.
     bindR (buildUserControlledSwapPlan E D r ob) (\<lambda>plan.
     bindR (ensureR (\<not> prPermit p) SWAP_INVALID) (\<lambda>_. Inr (r, plan)))))))"

definition prepareSwap ::
  "evm \<Rightarrow> swap_abi \<Rightarrow> swap_config \<Rightarrow> swap_world \<Rightarrow> prepare_request \<Rightarrow> swap_plan res" where
  "prepareSwap E D c W p = bindR (plannedSwap E D c W p) (\<lambda>(r, plan). Inr plan)"

definition executeSwap :: "evm \<Rightarrow> swap_config \<Rightarrow> swap_world \<Rightarrow> boundary_request \<Rightarrow> 'a res" where
  "executeSwap E c W b =
     bindR (assertMainnetProcess c) (\<lambda>_.
     bindR (validateBoundary E (now_seconds W) b) (\<lambda>_. Inl SWAP_UNAVAILABLE))"

definition plan_expected :: "swap_request \<Rightarrow> swap_plan \<Rightarrow> swap_expected" where
  "plan_expected r plan =
     \<lparr>xpWallet = sqWallet r, xpRecipient = sqRecipient r, xpTokenIn = vqTokenIn (spQuote plan),
      xpTokenOut = vqTokenOut (spQuote plan), xpAmountIn = vqAmountIn (spQuote plan),
      xpMinOut = vqMinOut (spQuote plan), xpData = scData (spSwap plan), xpValue = scValue (spSwap plan)\<rparr>"

definition verifyPreparedReceipt ::
  "evm \<Rightarrow> swap_abi \<Rightarrow> swap_config \<Rightarrow> swap_world \<Rightarrow> swap_receipt \<Rightarrow> prepare_request \<Rightarrow> (nat \<times> nat) res" where
  "verifyPreparedReceipt E D c W rc p =
     bindR (plannedSwap E D c W p) (\<lambda>(r, plan). verifySwapReceipt E D rc (plan_expected r plan))"

section \<open>Confirmed swaps\<close>

abbreviation SWAP_PENDING :: exn where
  "SWAP_PENDING \<equiv> ServiceUnavailable ''SWAP_RECEIPT_PENDING'' True"

abbreviation SWAP_MISMATCH :: exn where
  "SWAP_MISMATCH \<equiv> BadRequest ''SWAP_RECEIPT_MISMATCH''"

abbreviation OWNER_CONFLICT :: exn where
  "OWNER_CONFLICT \<equiv> BadRequest ''SWAP_RECEIPT_OWNER_CONFLICT''"

record confirmed_swap =
  csHash :: string
  csWallet :: string
  csChainId :: nat
  csTokenIn :: string
  csTokenOut :: string
  csAmountIn :: nat
  csAmountOut :: nat

definition chain_swap_receipt :: "nat \<Rightarrow> chain_tx \<Rightarrow> chain_receipt \<Rightarrow> string \<Rightarrow> swap_receipt" where
  "chain_swap_receipt chain tx rc to =
     \<lparr>srChainId = int chain, srSuccess = crSuccess rc, srFrom = ctFrom tx, srTo = to, srInput = ctInput tx,
      srValue = show_nat (ctValue tx), srLogs = crLogs rc\<rparr>"

definition chain_expected :: "string \<Rightarrow> chain_tx \<Rightarrow> swap_args \<Rightarrow> swap_expected" where
  "chain_expected wallet tx a =
     \<lparr>xpWallet = wallet, xpRecipient = wallet, xpTokenIn = saTokenIn a, xpTokenOut = saTokenOut a,
      xpAmountIn = saAmountIn a, xpMinOut = saMinOut a, xpData = ctInput tx, xpValue = ctValue tx\<rparr>"

text \<open>
  The service is deployed with the chain id of its configuration (\<open>network\<close>).  The last argument of the
  receipt verifier, \<open>zeroForOne\<close>, is computed but not read there; computing it can throw.
\<close>

definition confirmTransaction ::
  "evm \<Rightarrow> swap_abi \<Rightarrow> chain \<Rightarrow> nat \<Rightarrow> string \<Rightarrow> string \<Rightarrow> confirmed_swap res" where
  "confirmTransaction E D C networkChain hash wallet =
     bindR (ensureR (is_hash hash \<and> isAddress E wallet) SWAP_INVALID) (\<lambda>_.
     bindR (fromSome SWAP_PENDING (getChainId C)) (\<lambda>chain.
     bindR (fromSome SWAP_PENDING (getTransaction C hash)) (\<lambda>tx.
     bindR (fromSome SWAP_PENDING (getTransactionReceipt C hash)) (\<lambda>rc.
     bindR (ensureR (chain = networkChain) SWAP_MISMATCH) (\<lambda>_.
     bindR (ensureR (crSuccess rc) SWAP_MISMATCH) (\<lambda>_.
     bindR (fromSome SWAP_MISMATCH (ctTo tx)) (\<lambda>to.
     bindR (decodeExecuteSwap E D (ctInput tx)) (\<lambda>a.
     bindR (checksum E wallet) (\<lambda>w.
     bindR (equalR E (saTokenIn a) SWAP_USDC) (\<lambda>_.
     bindR (verifySwapReceipt E D (chain_swap_receipt chain tx rc to) (chain_expected w tx a)) (\<lambda>(amountOut, spent).
     Inr \<lparr>csHash = toLowerCase hash, csWallet = w, csChainId = networkChain, csTokenIn = saTokenIn a,
          csTokenOut = saTokenOut a, csAmountIn = spent, csAmountOut = amountOut\<rparr>)))))))))))"

text \<open>The table \<open>VerifiedSwapTransaction\<close>; the update of the \<open>upsert\<close> is empty.\<close>

record swap_row = confirmed_swap +
  swCompletedAt :: int

definition with_time :: "int \<Rightarrow> confirmed_swap \<Rightarrow> swap_row" where
  "with_time now v = confirmed_swap.extend v \<lparr>swCompletedAt = now\<rparr>"

definition upsertSwap :: "int \<Rightarrow> confirmed_swap \<Rightarrow> (swap_row list, swap_row) op" where
  "upsertSwap now v T =
     (case find_row (\<lambda>r. csHash r = csHash v) T of
        Some r \<Rightarrow> ok r T
      | None \<Rightarrow> let r = with_time now v in ok r (T @ [r]))"

definition confirmSwap ::
  "evm \<Rightarrow> swap_abi \<Rightarrow> (string option \<Rightarrow> string res) \<Rightarrow> chain \<Rightarrow> nat \<Rightarrow> int \<Rightarrow> string option \<Rightarrow> js \<Rightarrow>
   (swap_row list, swap_row) op" where
  "confirmSwap E D authenticate C networkChain now authorization hash =
     andThen (lift (authenticate authorization)) (\<lambda>wallet.
     andThen (lift (confirmTransaction E D C networkChain (case hash of JStr h \<Rightarrow> h | _ \<Rightarrow> []) wallet)) (\<lambda>v.
     andThen (upsertSwap now v) (\<lambda>r.
     andThen (ensure (toLowerCase (csWallet r) = toLowerCase (csWallet v)) OWNER_CONFLICT) (\<lambda>_. ok r))))"

section \<open>Funding a cross-token payroll\<close>

record payroll_quote_request =
  pqTokenIn :: js
  pqTokenOut :: js
  pqOutputTotals :: js
  pqSlippage :: js_number
  pqWallet :: js
  pqRecipient :: js

record payroll_quote =
  pqInput :: string
  pqOutput :: string
  pqObligations :: nat
  pqGross :: nat
  pqFee :: nat
  pqNet :: nat
  pqMinOut :: nat
  pqMinHop :: nat
  pqBps :: int
  pqFeeBps :: nat
  pqBlock :: int
  pqQuotedAt :: int
  pqExpiresAt :: int
  pqExpiresAtBlock :: int

definition payrollAddress :: "evm \<Rightarrow> js \<Rightarrow> string res" where
  "payrollAddress E v =
     (case v of
        JStr s \<Rightarrow>
          bindR (ensureR (isAddress E s) SWAP_INVALID) (\<lambda>_.
          bindR (checksum E s) (\<lambda>a.
          bindR (equalR E a zeroAddress) (\<lambda>zero.
          bindR (ensureR (\<not> zero) SWAP_INVALID) (\<lambda>_. Inr a))))
      | _ \<Rightarrow> Inl SWAP_INVALID)"

definition payrollUint :: "js \<Rightarrow> nat res" where
  "payrollUint v =
     (case v of
        JStr s \<Rightarrow>
          bindR (ensureR (positive_uint s) SWAP_INVALID) (\<lambda>_.
          bindR (ensureR (read_nat s \<le> MAX_UINT128) SWAP_INVALID) (\<lambda>_. Inr (read_nat s)))
      | _ \<Rightarrow> Inl SWAP_INVALID)"

definition payrollSlippage :: "js_number \<Rightarrow> int res" where
  "payrollSlippage v =
     (case (case v of NotNumber \<Rightarrow> Integer 200 | _ \<Rightarrow> v) of
        Integer bps \<Rightarrow> bindR (ensureR (1 \<le> bps \<and> bps \<le> 500) SWAP_INVALID) (\<lambda>_. Inr bps)
      | _ \<Rightarrow> Inl SWAP_INVALID)"

record funding =
  fdTokenIn :: string
  fdTokenOut :: string
  fdObligations :: nat
  fdBps :: int
  fdWallet :: string
  fdRecipient :: string
  fdFeeBps :: nat
  fdDeadline :: int

definition fundingRequest :: "evm \<Rightarrow> swap_world \<Rightarrow> payroll_quote_request \<Rightarrow> funding res" where
  "fundingRequest E W p =
     bindR (payrollAddress E (pqTokenIn p)) (\<lambda>tin.
     bindR (payrollAddress E (pqTokenOut p)) (\<lambda>tout.
     bindR (officialToken E tin) (\<lambda>official.
     bindR (ensureR official SWAP_INVALID) (\<lambda>_.
     bindR (officialToken E tout) (\<lambda>official.
     bindR (ensureR official SWAP_INVALID) (\<lambda>_.
     bindR (equalR E tin tout) (\<lambda>both.
     bindR (ensureR (\<not> both) SWAP_INVALID) (\<lambda>_.
     bindR (payrollUint (pqOutputTotals p)) (\<lambda>obligations.
     bindR (payrollSlippage (pqSlippage p)) (\<lambda>bps.
     bindR (payrollAddress E (pqWallet p)) (\<lambda>wallet.
     bindR (payrollAddress E (pqRecipient p)) (\<lambda>to.
     bindR (equalR E wallet to) (\<lambda>own.
     bindR (ensureR own SWAP_INVALID) (\<lambda>_.
     bindR (payrollFeeBps W) (\<lambda>fee.
     bindR (ensureR (fee \<le> 100) SWAP_INVALID) (\<lambda>_.
     Inr \<lparr>fdTokenIn = tin, fdTokenOut = tout, fdObligations = obligations, fdBps = bps, fdWallet = wallet,
          fdRecipient = to, fdFeeBps = fee, fdDeadline = now_seconds W + 600\<rparr>))))))))))))))))"

definition funding_boundary :: "funding \<Rightarrow> nat \<Rightarrow> boundary_request" where
  "funding_boundary f net =
     \<lparr>brChainId = Integer 5042, brTokenIn = JStr (fdTokenIn f), brTokenOut = JStr (fdTokenOut f),
      brAmountIn = JStr (show_nat net), brRecipient = JStr (fdRecipient f), brWallet = JStr (fdWallet f),
      brControl = JStr ''external-wallet'', brSlippage = Integer (fdBps f), brDeadline = Integer (fdDeadline f)\<rparr>"

definition fundingFee :: "funding \<Rightarrow> nat \<Rightarrow> nat" where
  "fundingFee f gross = gross * fdFeeBps f div 10000"

definition nextGross :: "nat \<Rightarrow> nat \<Rightarrow> nat \<Rightarrow> nat" where
  "nextGross gross obligations least = (gross * obligations + least - 1) div least + 1"

definition funded_quote :: "funding \<Rightarrow> nat \<Rightarrow> live_quote \<Rightarrow> payroll_quote" where
  "funded_quote f gross live =
     \<lparr>pqInput = fdTokenIn f, pqOutput = fdTokenOut f, pqObligations = fdObligations f, pqGross = gross,
      pqFee = fundingFee f gross, pqNet = gross - fundingFee f gross, pqMinOut = vqMinOut (lqValidated live),
      pqMinHop = vqMinHop (lqValidated live), pqBps = fdBps f, pqFeeBps = fdFeeBps f,
      pqBlock = obBlock (lqObservation live), pqQuotedAt = lqQuotedAt live, pqExpiresAt = lqExpiresAt live,
      pqExpiresAtBlock = lqExpiresAtBlock live\<rparr>"

text \<open>The loop over the attempts; each attempt sees the world of its own moment.\<close>

fun fundingLoop ::
  "evm \<Rightarrow> swap_abi \<Rightarrow> funding \<Rightarrow> swap_world list \<Rightarrow> nat \<Rightarrow> (quorum_cache, payroll_quote) op" where
  "fundingLoop E D f [] gross = throw SWAP_UNAVAILABLE"
| "fundingLoop E D f (W # Ws) gross =
     (let net = gross - fundingFee f gross in
      andThen (ensure (0 < net \<and> gross \<le> MAX_UINT128 \<and> net \<le> MAX_UINT128) SWAP_UNAVAILABLE) (\<lambda>_.
      andThen (lift (validateBoundary E (now_seconds W) (funding_boundary f net))) (\<lambda>r.
      andThen (liveQuote E D W r) (\<lambda>live.
      let least = vqMinOut (lqValidated live); next = nextGross gross (fdObligations f) least in
      if fdObligations f \<le> least then ok (funded_quote f gross live)
      else
        andThen (ensure (0 < least) SWAP_UNAVAILABLE) (\<lambda>_.
        andThen (ensure (gross < next \<and> next \<le> MAX_UINT128) SWAP_UNAVAILABLE) (\<lambda>_.
        fundingLoop E D f Ws next))))))"

definition payrollCrossTokenQuote ::
  "evm \<Rightarrow> swap_abi \<Rightarrow> swap_config \<Rightarrow> swap_world \<Rightarrow> swap_world \<times> swap_world \<times> swap_world \<times> swap_world \<Rightarrow>
   payroll_quote_request \<Rightarrow> (quorum_cache, payroll_quote) op" where
  "payrollCrossTokenQuote E D c W attempts p =
     (case attempts of (W1, W2, W3, W4) \<Rightarrow>
        andThen (lift (assertMainnetProcess c)) (\<lambda>_.
        andThen (lift (fundingRequest E W p)) (\<lambda>f.
        fundingLoop E D f [W1, W2, W3, W4] (fdObligations f))))"

section \<open>Quotes for the browser\<close>

record user_swap_request =
  usTokenIn :: string
  usTokenOut :: string
  usAmountIn :: string
  usFrom :: string
  usTo :: "string option"
  usChain :: string
  usSlippage :: "js_number option"

record user_swap =
  nsTokenIn :: token_symbol
  nsTokenOut :: token_symbol
  nsAmountIn :: string
  nsFrom :: string
  nsTo :: string
  nsSlippage :: int
  nsDeadline :: int

abbreviation USER_SWAP_INVALID :: exn where
  "USER_SWAP_INVALID \<equiv> BadRequest ''USER_SWAP_INVALID_REQUEST''"

definition swapSymbol :: "string \<Rightarrow> token_symbol option" where
  "swapSymbol s = (if s = ''USDC'' then Some USDC else if s = ''EURC'' then Some EURC else None)"

fun swapTokenAddress :: "token_symbol \<Rightarrow> string" where
  "swapTokenAddress USDC = SWAP_USDC"
| "swapTokenAddress EURC = SWAP_EURC"

definition normalizeUserSwap :: "swap_world \<Rightarrow> user_swap_request \<Rightarrow> user_swap res" where
  "normalizeUserSwap W u =
     bindR (ensureR (usChain u = ''ARC-MAINNET'') USER_SWAP_INVALID) (\<lambda>_.
     bindR (fromSome USER_SWAP_INVALID (swapSymbol (usTokenIn u))) (\<lambda>tin.
     bindR (fromSome USER_SWAP_INVALID (swapSymbol (usTokenOut u))) (\<lambda>tout.
     bindR (ensureR (usTokenIn u \<noteq> usTokenOut u) USER_SWAP_INVALID) (\<lambda>_.
     bindR (ensureR (is_hex_address (usFrom u)) USER_SWAP_INVALID) (\<lambda>_.
     let to = (case usTo u of Some a \<Rightarrow> a | None \<Rightarrow> usFrom u) in
     bindR (ensureR (toLowerCase to = toLowerCase (usFrom u)) USER_SWAP_INVALID) (\<lambda>_.
     bindR (ensureR (positive_uint (usAmountIn u)) USER_SWAP_INVALID) (\<lambda>_.
     bindR (fromSome USER_SWAP_INVALID (integer_of (case usSlippage u of Some v \<Rightarrow> v | None \<Rightarrow> Integer 50))) (\<lambda>bps.
     bindR (ensureR (1 \<le> bps \<and> bps \<le> 500) USER_SWAP_INVALID) (\<lambda>_.
     Inr \<lparr>nsTokenIn = tin, nsTokenOut = tout, nsAmountIn = usAmountIn u, nsFrom = usFrom u, nsTo = to,
          nsSlippage = bps, nsDeadline = now_seconds W + 600\<rparr>)))))))))"

definition user_boundary :: "user_swap \<Rightarrow> boundary_request" where
  "user_boundary n =
     \<lparr>brChainId = Integer 5042, brTokenIn = JStr (swapTokenAddress (nsTokenIn n)),
      brTokenOut = JStr (swapTokenAddress (nsTokenOut n)), brAmountIn = JStr (nsAmountIn n),
      brRecipient = JStr (nsTo n), brWallet = JStr (nsFrom n), brControl = JStr ''external-wallet'',
      brSlippage = Integer (nsSlippage n), brDeadline = Integer (nsDeadline n)\<rparr>"

definition userSwapQuote ::
  "evm \<Rightarrow> swap_abi \<Rightarrow> swap_config \<Rightarrow> routing \<Rightarrow> swap_world \<Rightarrow> user_swap_request \<Rightarrow>
   (quorum_cache, user_swap \<times> swap_quote) op" where
  "userSwapQuote E D c R W u =
     andThen (lift (assertCapability R Cap_swap)) (\<lambda>_.
     andThen (lift (normalizeUserSwap W u)) (\<lambda>n.
     andThen (inspectQuote E D c W (user_boundary n)) (\<lambda>q. ok (n, q))))"

end
