(* ===== verification/SwapProperties.thy ===== *)
theory SwapProperties
  imports SwapProtocol
begin

text \<open>
  What the swap protocol guarantees: the price floors are exact, and the receipt verifier accepts a
  transaction exactly when it executed the prepared swap, read off the logs of the receipt at once
  instead of log by log.
\<close>

section \<open>Addresses\<close>

lemma swap_addresses:
  "is_hex_address SWAP_USDC" "is_hex_address SWAP_EURC" "is_hex_address SWAP_EXECUTOR" "is_hex_address NATIVE_EMITTER"
  "is_hex_address zeroAddress" "toLowerCase SWAP_USDC \<noteq> toLowerCase SWAP_EURC"
  "toLowerCase SWAP_USDC \<noteq> toLowerCase SWAP_EXECUTOR" "toLowerCase SWAP_EURC \<noteq> toLowerCase SWAP_EXECUTOR"
  "toLowerCase NATIVE_EMITTER \<noteq> toLowerCase SWAP_EXECUTOR"
  by (simp_all add: is_hex_string_def SWAP_USDC_def SWAP_EURC_def SWAP_EXECUTOR_def NATIVE_EMITTER_def zeroAddress_def
      is_hex_def toLowerCase_def lower_char_def Let_def list_all_iff)

text \<open>Two addresses spelled the same but for case.\<close>

definition same :: "string \<Rightarrow> string \<Rightarrow> bool" where
  "same a b \<longleftrightarrow> toLowerCase a = toLowerCase b"

lemma same_equalR: "evm_laws E \<Longrightarrow> is_hex_address a \<Longrightarrow> is_hex_address b \<Longrightarrow> equalR E a b = Inr (same a b)"
  by (simp add: equalR_def isAddressEqual_eq same_def)

lemma equalR_Inr: "evm_laws E \<Longrightarrow> equalR E a b = Inr v \<longleftrightarrow> is_hex_address a \<and> is_hex_address b \<and> v = same a b"
  by (auto simp: equalR_def isAddressEqual_iff same_def)

lemma allR_values: "allR (map Inr bs) = Inr (list_all id bs)"
  by (induction bs) auto

lemma zeroForOne_Inr:
  assumes "evm_laws E" "zeroForOneFromTokens E a b = Inr sell"
  shows "same a (if sell then SWAP_USDC else SWAP_EURC)" "same b (if sell then SWAP_EURC else SWAP_USDC)"
  using assms by (auto simp: zeroForOneFromTokens_def allR_True equalR_Inr [OF assms(1)] split: if_splits)

section \<open>Price floors\<close>

lemma applySlippage_Inr: "applySlippage n bps = Inr m \<longleftrightarrow>
    1 \<le> bps \<and> bps \<le> 500 \<and> m = n * (10000 - nat bps) div 10000 \<and> 0 < m"
  by (auto simp: applySlippage_def Let_def)

lemma floor_bounds: "(0::nat) < d \<Longrightarrow> d * (n div d) \<le> n \<and> n < d * (n div d) + d"
  by (metis add.commute dividend_less_times_div times_div_less_eq_dividend)

lemma validateQuote_Inr:
  assumes "evm_laws E" "validateQuoteObservation E r ob = Inr q"
  shows "vqTokenIn q = sqTokenIn r" "vqTokenOut q = sqTokenOut r" "vqAmountIn q = sqAmountIn r" "vqSlippage q = sqSlippage r"
    "zeroForOneFromTokens E (sqTokenIn r) (sqTokenOut r) = Inr (vqZeroForOne q)"
    "applySlippage (vqAmountOut q) (sqSlippage r) = Inr (vqMinOut q)"
    "calculateMinHopPriceX36 (sqAmountIn r) (vqAmountOut q) (sqSlippage r) = Inr (vqMinHop q)"
    "obAmountOut ob = show_nat (vqAmountOut q)" "obAmountIn ob = show_nat (sqAmountIn r)" "0 < vqAmountOut q"
    "same (obTokenIn ob) (sqTokenIn r)" "same (obTokenOut ob) (sqTokenOut r)" "0 < obBlock ob"
  using assms(2)
  by (auto simp: validateQuoteObservation_def requireCanonicalUint_def allR_True equalR_Inr [OF assms(1)] read_positive
      simp del: allR.simps)

text \<open>Reaching the price floor of the only hop is reaching the minimum output.\<close>

lemma hop_price_enough:
  assumes "calculateMinHopPriceX36 a n bps = Inr p" "a \<le> 10 ^ 36" "p * a \<le> 10 ^ 36 * y"
  shows "n * (10000 - nat bps) div 10000 \<le> y"
proof -
  let ?n = "n * (10000 - nat bps)"
  have a: "0 < a" and p: "p = ?n * 10 ^ 36 div (a * 10000)"
    using assms(1) by (auto simp: calculateMinHopPriceX36_def Let_def)
  have "?n * 10 ^ 36 < (a * 10000) * p + a * 10000"
    using floor_bounds [of "a * 10000" "?n * 10 ^ 36"] a p by simp
  also have "\<dots> = (p * a + a) * 10000" by (simp add: algebra_simps)
  also have "\<dots> \<le> (10 ^ 36 * y + 10 ^ 36) * 10000" using assms(2,3) by (intro mult_right_mono add_mono) auto
  also have "\<dots> = 10 ^ 36 * ((y + 1) * 10000)" by (simp only: algebra_simps)
  finally have "10 ^ 36 * ?n < 10 ^ 36 * ((y + 1) * 10000)" by (simp only: mult.commute)
  then have "?n < (y + 1) * 10000" by (subst (asm) mult_less_cancel1) blast
  then have "?n div 10000 < y + 1" by (subst div_less_iff_less_mult) simp_all
  then show ?thesis by simp
qed

text \<open>
  The floors of a validated quote.  The minimum output is the quoted output less the slippage,
  rounded down, so it is positive, at most the quoted output and within five percent and one unit of it;
  the quote is for the requested tokens and the exact amount; and, for inputs up to 10^36 units, a swap that
  reaches the price floor of the hop also reaches the minimum output.
\<close>

theorem quote_floors:
  assumes "evm_laws E" "validateQuoteObservation E r ob = Inr q"
  shows "10000 * vqMinOut q \<le> vqAmountOut q * nat (10000 - sqSlippage r) \<and>
    vqAmountOut q * nat (10000 - sqSlippage r) < 10000 * (vqMinOut q + 1) \<and>
    0 < vqMinOut q \<and> vqMinOut q \<le> vqAmountOut q \<and> 95 * vqAmountOut q < 100 * (vqMinOut q + 1) \<and>
    vqTokenIn q = sqTokenIn r \<and> vqTokenOut q = sqTokenOut r \<and> vqAmountIn q = sqAmountIn r \<and>
    (\<forall>y. sqAmountIn r \<le> 10 ^ 36 \<longrightarrow> vqMinHop q * sqAmountIn r \<le> 10 ^ 36 * y \<longrightarrow> vqMinOut q \<le> y)"
proof -
  note v = validateQuote_Inr [OF assms]
  have s: "1 \<le> sqSlippage r" "sqSlippage r \<le> 500" and least: "vqMinOut q = vqAmountOut q * (10000 - nat (sqSlippage r)) div 10000"
    and pos: "0 < vqMinOut q"
    using v(6) by (simp_all add: applySlippage_Inr)
  have n: "nat (10000 - sqSlippage r) = 10000 - nat (sqSlippage r)" using s by simp
  have low: "10000 * vqMinOut q \<le> vqAmountOut q * nat (10000 - sqSlippage r)"
    and high: "vqAmountOut q * nat (10000 - sqSlippage r) < 10000 * (vqMinOut q + 1)"
    using floor_bounds [of 10000 "vqAmountOut q * (10000 - nat (sqSlippage r))"] unfolding n least by (simp_all add: mult.commute)
  have "vqAmountOut q * nat (10000 - sqSlippage r) \<le> vqAmountOut q * 10000"
    "vqAmountOut q * 9500 \<le> vqAmountOut q * nat (10000 - sqSlippage r)"
    using s by (simp_all add: n mult_left_mono del: mult_le_cancel1)
  with low high have "vqMinOut q \<le> vqAmountOut q" "95 * vqAmountOut q < 100 * (vqMinOut q + 1)" by linarith+
  moreover have "vqMinOut q \<le> y" if "sqAmountIn r \<le> 10 ^ 36" "vqMinHop q * sqAmountIn r \<le> 10 ^ 36 * y" for y
    unfolding least by (rule hop_price_enough [OF v(7) that])
  ultimately show ?thesis using low high pos v(1-3) by blast
qed

section \<open>What a receipt says\<close>

text \<open>A log read as a transfer: the token, the sender, the receiver and the amount.\<close>

definition swap_transfer :: "evm \<Rightarrow> chain_log \<Rightarrow> (string \<times> string \<times> string \<times> nat) option" where
  "swap_transfer E l =
     (if isAddress E (logAddress l) \<and> transferLogShape l \<and> hex_quantity (logData l)
      then Some (logAddress l, topic_address (logTopics l ! 1), topic_address (logTopics l ! 2),
             read_base 16 (drop 2 (logData l)))
      else None)"

definition value_of :: "evm \<Rightarrow> (string \<Rightarrow> string \<Rightarrow> string \<Rightarrow> bool) \<Rightarrow> chain_log \<Rightarrow> nat" where
  "value_of E p l = (case swap_transfer E l of None \<Rightarrow> 0 | Some (token, src, dst, v) \<Rightarrow> if p token src dst then v else 0)"

definition moved_sum :: "evm \<Rightarrow> (string \<Rightarrow> string \<Rightarrow> string \<Rightarrow> bool) \<Rightarrow> chain_log list \<Rightarrow> nat" where
  "moved_sum E p ls = sum_list (map (value_of E p) ls)"

definition spends :: "swap_expected \<Rightarrow> string \<Rightarrow> string \<Rightarrow> string \<Rightarrow> bool" where
  "spends x token src dst \<longleftrightarrow> same token (xpTokenIn x) \<and> same src (xpWallet x) \<and> same dst SWAP_EXECUTOR"

definition funds :: "swap_expected \<Rightarrow> string \<Rightarrow> string \<Rightarrow> string \<Rightarrow> bool" where
  "funds x token src dst \<longleftrightarrow> same token NATIVE_EMITTER \<and> same src (xpWallet x) \<and> same dst SWAP_EXECUTOR"

definition delivers :: "swap_expected \<Rightarrow> string \<Rightarrow> string \<Rightarrow> string \<Rightarrow> bool" where
  "delivers x token src dst \<longleftrightarrow> same token (xpTokenOut x) \<and> same dst (xpRecipient x)"

definition event_of :: "evm \<Rightarrow> swap_abi \<Rightarrow> swap_expected \<Rightarrow> chain_log \<Rightarrow> swap_event option" where
  "event_of E D x l =
     (if isAddress E (logAddress l) \<and> same (logAddress l) SWAP_EXECUTOR
      then Option.bind (decodeSwapEvent D l) (\<lambda>ev. if swapVerdict E x ev = Some True then Some ev else None)
      else None)"

definition swap_events :: "evm \<Rightarrow> swap_abi \<Rightarrow> swap_expected \<Rightarrow> chain_log list \<Rightarrow> swap_event list" where
  "swap_events E D x ls = List.map_filter (event_of E D x) ls"

definition expected_ok :: "swap_expected \<Rightarrow> bool" where
  "expected_ok x \<longleftrightarrow> is_hex_address (xpWallet x) \<and> is_hex_address (xpRecipient x) \<and> is_hex_address (xpTokenIn x) \<and>
     is_hex_address (xpTokenOut x) \<and> \<not> same (xpTokenIn x) SWAP_EXECUTOR \<and> \<not> same (xpTokenOut x) SWAP_EXECUTOR"

lemma topic_address_hex: "is_hash v \<Longrightarrow> is_hex_address (topic_address v)"
proof -
  assume v: "is_hash v"
  then have "drop 2 (topic_address v) = drop 24 (drop 2 v)" "length v = 66"
    by (simp_all add: is_hex_string_def topic_address_def)
  moreover have "set (drop 24 (drop 2 v)) \<subseteq> set (drop 2 v)" by (rule set_drop_subset)
  ultimately show ?thesis
    using v by (auto simp: is_hex_string_def topic_address_def list_all_iff)
qed

lemma checksum_same:
  assumes "evm_laws E" "is_hex_address a"
  obtains c where "checksum E a = Inr c" "is_hex_address c" "toLowerCase c = toLowerCase a"
proof -
  obtain c where "getAddress E a = Some c"
    using getAddress_defined [OF assms(1), of a] assms(2) by (cases "getAddress E a") auto
  with getAddress_Some [OF assms(1) this] that show ?thesis by (simp add: checksum_def fromSome_def)
qed

lemma tallyTransfer_eq:
  assumes "evm_laws E" "expected_ok x" "is_hex_address token" "is_hex_address src" "is_hex_address dst"
  shows "tallyTransfer E x token src dst v t = Inr (t\<lparr>tlSpent := tlSpent t + (if spends x token src dst then v else 0),
    tlNative := tlNative t + (if funds x token src dst then v else 0),
    tlOut := tlOut t + (if delivers x token src dst then v else 0)\<rparr>)"
proof -
  note eq = same_equalR [OF assms(1)] and x = assms(2) [unfolded expected_ok_def]
  have "allR [equalR E token (xpTokenIn x), equalR E src (xpWallet x), equalR E dst SWAP_EXECUTOR] = Inr (spends x token src dst)"
    "allR [equalR E token NATIVE_EMITTER, equalR E src (xpWallet x), equalR E dst SWAP_EXECUTOR] = Inr (funds x token src dst)"
    "allR [equalR E token (xpTokenOut x), equalR E dst (xpRecipient x)] = Inr (delivers x token src dst)"
    using allR_values [of "[same token (xpTokenIn x), same src (xpWallet x), same dst SWAP_EXECUTOR]"]
      allR_values [of "[same token NATIVE_EMITTER, same src (xpWallet x), same dst SWAP_EXECUTOR]"]
      allR_values [of "[same token (xpTokenOut x), same dst (xpRecipient x)]"]
    by (simp_all add: eq x assms(3-) swap_addresses spends_def funds_def delivers_def del: allR.simps)
  then show ?thesis by (simp add: tallyTransfer_def del: allR.simps)
qed

definition seen :: "evm \<Rightarrow> swap_abi \<Rightarrow> swap_expected \<Rightarrow> chain_log \<Rightarrow> tally \<Rightarrow> tally" where
  "seen E D x l t = \<lparr>tlSpent = tlSpent t + value_of E (spends x) l, tlOut = tlOut t + value_of E (delivers x) l,
     tlNative = tlNative t + value_of E (funds x) l,
     tlEvents = tlEvents t + (if event_of E D x l = None then 0 else 1),
     tlEventOut = (case event_of E D x l of None \<Rightarrow> tlEventOut t | Some ev \<Rightarrow> seAmountOut ev)\<rparr>"

lemma tallyEvent_cases:
  "tallyEvent E D x l t =
    (case decodeSwapEvent D l of None \<Rightarrow> None | Some ev \<Rightarrow>
       (case swapVerdict E x ev of None \<Rightarrow> None
        | Some good \<Rightarrow> Some (if good then t\<lparr>tlEvents := tlEvents t + 1, tlEventOut := seAmountOut ev\<rparr> else t)))"
  by (simp add: tallyEvent_def map_option_case split: option.splits)

lemma tallyLog_eq:
  assumes "evm_laws E" "expected_ok x"
  shows "tallyLog E D x l t = Inr (seen E D x l t)"
proof (cases "isAddress E (logAddress l)")
  case False
  then show ?thesis by (simp add: tallyLog_def seen_def value_of_def swap_transfer_def event_of_def)
next
  case True
  obtain a where a: "checksum E (logAddress l) = Inr a" "is_hex_address a" "toLowerCase a = toLowerCase (logAddress l)"
    using checksum_same [OF assms(1) isAddress_hex [OF assms(1) True]] by blast
  have ours: "equalR E a SWAP_EXECUTOR = Inr (same (logAddress l) SWAP_EXECUTOR)"
    using same_equalR [OF assms(1) a(2) swap_addresses(3)] a(3) by (simp add: same_def)
  have other: "value_of E (spends x) l = 0" "value_of E (funds x) l = 0" "value_of E (delivers x) l = 0"
    if "same (logAddress l) SWAP_EXECUTOR"
    using that assms(2) swap_addresses(9)
    by (auto simp: value_of_def swap_transfer_def spends_def funds_def delivers_def expected_ok_def same_def)
  show ?thesis
  proof (cases "transferLogShape l")
    case shape: True
    obtain src where src: "checksum E (topic_address (logTopics l ! 1)) = Inr src" "is_hex_address src"
        "toLowerCase src = toLowerCase (topic_address (logTopics l ! 1))"
      using checksum_same [OF assms(1) topic_address_hex] shape by (auto simp: transferLogShape_def)
    obtain dst where dst: "checksum E (topic_address (logTopics l ! 2)) = Inr dst" "is_hex_address dst"
        "toLowerCase dst = toLowerCase (topic_address (logTopics l ! 2))"
      using checksum_same [OF assms(1) topic_address_hex] shape by (auto simp: transferLogShape_def)
    have moves: "tallyTransfer E x a src dst (read_base 16 (drop 2 (logData l))) u =
        Inr (u\<lparr>tlSpent := tlSpent u + value_of E (spends x) l, tlNative := tlNative u + value_of E (funds x) l,
          tlOut := tlOut u + value_of E (delivers x) l\<rparr>)" if "hex_quantity (logData l)" for u
      using that True shape a(3) src(3) dst(3)
      by (simp add: tallyTransfer_eq [OF assms a(2) src(2) dst(2)] value_of_def swap_transfer_def spends_def funds_def
          delivers_def same_def)
    have none: "value_of E p l = 0" if "\<not> hex_quantity (logData l)" for p
      using that by (simp add: value_of_def swap_transfer_def)
    show ?thesis
      using True a(1) ours shape src(1) dst(1) moves none other
      by (auto simp: tallyLog_def seen_def event_of_def tallyEvent_cases split: option.splits)
  next
    case False
    then have "value_of E p l = 0" for p by (simp add: value_of_def swap_transfer_def)
    with True a(1) ours False show ?thesis
      by (auto simp: tallyLog_def seen_def event_of_def tallyEvent_cases split: option.splits)
  qed
qed

lemma tallyLogs_eq:
  assumes "evm_laws E" "expected_ok x"
  shows "tallyLogs E D x ls t = Inr \<lparr>tlSpent = tlSpent t + moved_sum E (spends x) ls,
    tlOut = tlOut t + moved_sum E (delivers x) ls, tlNative = tlNative t + moved_sum E (funds x) ls,
    tlEvents = tlEvents t + length (swap_events E D x ls),
    tlEventOut = (if swap_events E D x ls = [] then tlEventOut t else seAmountOut (last (swap_events E D x ls)))\<rparr>"
proof (induction ls arbitrary: t)
  case Nil
  show ?case by (simp add: moved_sum_def swap_events_def map_filter_simps)
next
  case (Cons l ls)
  show ?case
    by (cases "event_of E D x l")
      (simp_all add: tallyLog_eq [OF assms] Cons.IH seen_def moved_sum_def swap_events_def map_filter_simps)
qed

text \<open>The prepared swap was executed, as a statement on the receipt as a whole.\<close>

definition swap_proved :: "evm \<Rightarrow> swap_abi \<Rightarrow> swap_receipt \<Rightarrow> swap_expected \<Rightarrow> nat \<Rightarrow> bool" where
  "swap_proved E D rc x out \<longleftrightarrow>
     same (xpWallet x) (xpRecipient x) \<and> srChainId rc = SWAP_CHAIN \<and> srSuccess rc \<and>
     isAddress E (srFrom rc) \<and> same (srFrom rc) (xpWallet x) \<and> \<not> same (srFrom rc) zeroAddress \<and>
     isAddress E (srTo rc) \<and> same (srTo rc) SWAP_EXECUTOR \<and>
     toLowerCase (srInput rc) = toLowerCase (xpData x) \<and> numeral_of is_digit (srValue rc) \<and>
     read_nat (srValue rc) = xpValue x \<and>
     map seAmountOut (swap_events E D x (srLogs rc)) = [out] \<and>
     (if same (xpTokenIn x) SWAP_USDC then moved_sum E (funds x) (srLogs rc) = xpValue x
      else moved_sum E (spends x) (srLogs rc) = xpAmountIn x) \<and>
     xpMinOut x \<le> moved_sum E (delivers x) (srLogs rc)"

lemma requireAddress_Inr:
  assumes "evm_laws E"
  shows "requireAddress E v = Inr c \<longleftrightarrow> isAddress E v \<and> \<not> same v zeroAddress \<and> checksum E v = Inr c"
  using isAddress_hex [OF assms] swap_addresses(5)
  by (auto simp: requireAddress_def equalR_Inr [OF assms])

lemma event_facts:
  assumes "evm_laws E" "ev \<in> set (swap_events E D x ls)"
  shows "same (seCaller ev) (xpWallet x)" "same (seTokenIn ev) (xpTokenIn x)" "same (seTokenOut ev) (xpTokenOut x)"
    "seAmountIn ev = xpAmountIn x" "xpMinOut x \<le> seAmountOut ev"
proof -
  have "swapVerdict E x ev = Some True"
    using assms(2) by (auto simp: swap_events_def map_filter_def event_of_def bind_eq_Some_conv split: if_splits)
  then show "same (seCaller ev) (xpWallet x)" "same (seTokenIn ev) (xpTokenIn x)" "same (seTokenOut ev) (xpTokenOut x)"
    "seAmountIn ev = xpAmountIn x" "xpMinOut x \<le> seAmountOut ev"
    by (simp_all add: swapVerdict_def all_checks_True isAddressEqual_iff [OF assms(1)] same_def)
qed

lemma verifySwapReceipt_checks:
  assumes "evm_laws E" "expected_ok x" "tallyLogs E D x (srLogs rc) no_tally = Inr t"
  shows "verifySwapReceipt E D rc x = Inr (out, spent) \<longleftrightarrow>
    same (xpWallet x) (xpRecipient x) \<and> srChainId rc = SWAP_CHAIN \<and> srSuccess rc \<and>
    isAddress E (srFrom rc) \<and> same (srFrom rc) (xpWallet x) \<and> \<not> same (srFrom rc) zeroAddress \<and>
    isAddress E (srTo rc) \<and> same (srTo rc) SWAP_EXECUTOR \<and>
    toLowerCase (srInput rc) = toLowerCase (xpData x) \<and> numeral_of is_digit (srValue rc) \<and>
    read_nat (srValue rc) = xpValue x \<and> tlEvents t = 1 \<and> xpMinOut x \<le> tlEventOut t \<and> out = tlEventOut t \<and>
    spent = xpAmountIn x \<and> (if same (xpTokenIn x) SWAP_USDC then tlNative t = xpValue x else tlSpent t = xpAmountIn x) \<and>
    xpMinOut x \<le> tlOut t"
proof -
  note eq = same_equalR [OF assms(1)] and x = assms(2) [unfolded expected_ok_def]
  have cs: "checksum E a = Inr c \<Longrightarrow> is_hex_address c \<and> toLowerCase c = toLowerCase a" for a c
    using getAddress_Some [OF assms(1)] by (simp add: checksum_def)
  have ex: "\<exists>c. checksum E a = Inr c \<and> is_hex_address c \<and> toLowerCase c = toLowerCase a" if "isAddress E a" for a
    using checksum_same [OF assms(1) isAddress_hex [OF assms(1) that]] by metis
  have zero: "toLowerCase SWAP_EXECUTOR \<noteq> toLowerCase zeroAddress"
    by code_simp
  show ?thesis
    using x zero swap_addresses
    by (auto simp: verifySwapReceipt_def Let_def requireAddress_Inr [OF assms(1)] assms(3) equalR_Inr [OF assms(1)] same_def
        dest!: cs) (use ex in metis)+
qed

lemma verifySwapReceipt_iff:
  assumes "evm_laws E" "expected_ok x"
  shows "verifySwapReceipt E D rc x = Inr (out, spent) \<longleftrightarrow> swap_proved E D rc x out \<and> spent = xpAmountIn x"
proof -
  let ?es = "swap_events E D x (srLogs rc)"
  note tally = tallyLogs_eq [OF assms, of D "srLogs rc" no_tally]
  have one: "length ?es = 1 \<and> xpMinOut x \<le> (if ?es = [] then 0 else seAmountOut (last ?es)) \<and>
      out = (if ?es = [] then 0 else seAmountOut (last ?es)) \<longleftrightarrow> map seAmountOut ?es = [out]"
    using event_facts(5) [OF assms(1), of _ D x "srLogs rc"] by (auto simp: length_Suc_conv)
  show ?thesis
  proof (cases "map seAmountOut ?es = [out]")
    case True
    then obtain ev where es: "?es = [ev]" "seAmountOut ev = out" by auto
    with one True have "xpMinOut x \<le> out" by simp
    with es show ?thesis
      unfolding verifySwapReceipt_checks [OF assms tally] swap_proved_def by (auto simp: no_tally_def)
  next
    case False
    with one show ?thesis
      unfolding verifySwapReceipt_checks [OF assms tally] swap_proved_def by (auto simp: no_tally_def)
  qed
qed

text \<open>
  C27: the receipt verifier accepts exactly the receipts of the prepared swap.  It answers with an output
  if and only if the wallet itself sent the prepared call data with the prepared value to the executor
  on Arc Mainnet, the executor reported this swap exactly once and with that output, the input left the
  wallet (as a native transfer of the value for USDC, as token transfers of the exact amount for EURC),
  and transfers of at least the minimum of the output token reached the recipient, who is the wallet.
\<close>

theorem swap_receipt_iff:
  assumes "evm_laws E" "expected_ok x"
  shows "verifySwapReceipt E D rc x = Inr (out, spent) \<longleftrightarrow> swap_proved E D rc x out \<and> spent = xpAmountIn x"
  by (rule verifySwapReceipt_iff [OF assms])

end
