(* ===== verification/SwapServiceProperties.thy ===== *)
theory SwapServiceProperties
  imports SwapService SwapProperties
begin

text \<open>
  What the swap services guarantee: the quorum gate opens only on a recent agreement of both nodes, a
  payroll quote funds its obligations with the exact fee, and a swap is recorded only when the chain shows
  it.
\<close>

section \<open>The boundary\<close>

lemma boundaryAddress_Inr:
  assumes "evm_laws E" "boundaryAddress E v = Inr a"
  shows "is_hex_address a" "getAddress E a = Some a" "\<not> same a zeroAddress"
  using assms(2) getAddress_Some(3) [OF assms(1)] getAddress_canonical [OF assms(1)]
  by (auto simp: boundaryAddress_def checksum_def equalR_Inr [OF assms(1)] split: js.splits)

lemma officialToken_Inr:
  assumes "evm_laws E"
  shows "officialToken E a = Inr v \<longleftrightarrow> is_hex_address a \<and> v = (same a SWAP_USDC \<or> same a SWAP_EURC)"
  using swap_addresses by (auto simp: officialToken_def equalR_Inr [OF assms] split: if_splits)

lemma boundaryAddress_unique:
  assumes "evm_laws E" "boundaryAddress E v = Inr a" "boundaryAddress E w = Inr b" "same a b"
  shows "b = a"
  using getAddress_unique [OF assms(1) boundaryAddress_Inr(2) [OF assms(1,3)] boundaryAddress_Inr(2) [OF assms(1,2)]] assms(4)
  by (simp add: same_def)

definition request_ok :: "int \<Rightarrow> swap_request \<Rightarrow> bool" where
  "request_ok now r \<longleftrightarrow> is_hex_address (sqTokenIn r) \<and> is_hex_address (sqTokenOut r) \<and>
     (same (sqTokenIn r) SWAP_USDC \<and> same (sqTokenOut r) SWAP_EURC \<or>
      same (sqTokenIn r) SWAP_EURC \<and> same (sqTokenOut r) SWAP_USDC) \<and>
     0 < sqAmountIn r \<and> sqAmountIn r \<le> MAX_UINT128 \<and> is_hex_address (sqWallet r) \<and> sqRecipient r = sqWallet r \<and>
     \<not> same (sqWallet r) zeroAddress \<and> 1 \<le> sqSlippage r \<and> sqSlippage r \<le> 500 \<and>
     now < sqDeadline r \<and> sqDeadline r \<le> now + 1200"

lemma boundaryAmount_Inr: "boundaryAmount v = Inr n \<Longrightarrow> v = JStr (show_nat n) \<and> 0 < n \<and> n \<le> MAX_UINT128"
  by (auto simp: boundaryAmount_def read_positive split: js.splits)

lemma boundaryNumbers_Inr: "boundaryNumbers now s d = Inr (bps, deadline) \<longleftrightarrow>
    s = Integer bps \<and> 1 \<le> bps \<and> bps \<le> 500 \<and> d = Integer deadline \<and> \<bar>deadline\<bar> \<le> int MAX_SAFE_INTEGER \<and>
    now < deadline \<and> deadline \<le> now + 1200"
  by (cases s; cases d) (auto simp: boundaryNumbers_def fromSome_def)

lemma validateBoundary_Inr:
  assumes "evm_laws E" "validateBoundary E now b = Inr r"
  shows "request_ok now r" "brAmountIn b = JStr (show_nat (sqAmountIn r))"
    "boundaryAddress E (brTokenIn b) = Inr (sqTokenIn r)" "boundaryAddress E (brTokenOut b) = Inr (sqTokenOut r)"
    "boundaryAddress E (brWallet b) = Inr (sqWallet r)" "brSlippage b = Integer (sqSlippage r)"
    "brDeadline b = Integer (sqDeadline r)"
proof -
  have addresses: "boundaryAddress E (brTokenIn b) = Inr (sqTokenIn r)"
      "boundaryAddress E (brTokenOut b) = Inr (sqTokenOut r)" "boundaryAddress E (brWallet b) = Inr (sqWallet r)"
      "boundaryAddress E (brRecipient b) = Inr (sqRecipient r)"
    and tokens: "same (sqTokenIn r) SWAP_USDC \<or> same (sqTokenIn r) SWAP_EURC"
      "same (sqTokenOut r) SWAP_USDC \<or> same (sqTokenOut r) SWAP_EURC" "\<not> same (sqTokenIn r) (sqTokenOut r)"
    and amount: "boundaryAmount (brAmountIn b) = Inr (sqAmountIn r)" and own: "same (sqWallet r) (sqRecipient r)"
    and numbers: "boundaryNumbers now (brSlippage b) (brDeadline b) = Inr (sqSlippage r, sqDeadline r)"
    using assms(2)
    by (auto simp: validateBoundary_def officialToken_Inr [OF assms(1)] equalR_Inr [OF assms(1)])
  have to: "sqRecipient r = sqWallet r" by (rule boundaryAddress_unique [OF assms(1) addresses(3,4) own])
  show "boundaryAddress E (brTokenIn b) = Inr (sqTokenIn r)" "boundaryAddress E (brTokenOut b) = Inr (sqTokenOut r)"
    "boundaryAddress E (brWallet b) = Inr (sqWallet r)" by fact+
  show "brAmountIn b = JStr (show_nat (sqAmountIn r))" "brSlippage b = Integer (sqSlippage r)"
    "brDeadline b = Integer (sqDeadline r)"
    using boundaryAmount_Inr [OF amount] numbers by (simp_all add: boundaryNumbers_Inr)
  show "request_ok now r"
    using tokens to boundaryAddress_Inr [OF assms(1) addresses(1)] boundaryAddress_Inr [OF assms(1) addresses(2)]
      boundaryAddress_Inr [OF assms(1) addresses(3)] boundaryAmount_Inr [OF amount] numbers
    by (auto simp: request_ok_def boundaryNumbers_Inr same_def)
qed

section \<open>The quorum\<close>

lemma quorumDigest_inj:
  assumes "quorumDigest s = quorumDigest t"
  shows "ssChainId s = ssChainId t \<and> ssLpFee s = ssLpFee t \<and> ssPaused s = ssPaused t \<and> ssRouter s = ssRouter t \<and>
    ssPermit2 s = ssPermit2 t \<and> ssUsdc s = ssUsdc t \<and> ssEurc s = ssEurc t"
  using serialize_inj [OF _ _ assms [unfolded quorumDigest_def]] by simp

text \<open>What the gate is about: the deployment a node reports is the official one and can trade.\<close>

definition node_official :: "rpc_node \<Rightarrow> bool" where
  "node_official n \<longleftrightarrow> nodeChainId n = Some 5042 \<and> (\<exists>tick. nodeSlot0 n = Some (tick, 500)) \<and>
     (\<exists>l>0. nodeLiquidity n = Some l) \<and> nodePaused n = Some False \<and>
     (\<exists>a. nodeRouter n = Some a \<and> same a EXPECTED_UNIVERSAL_ROUTER) \<and>
     (\<exists>a. nodePermit2 n = Some a \<and> same a EXPECTED_PERMIT2) \<and>
     (\<exists>a. nodeUsdc n = Some a \<and> same a SWAP_USDC) \<and> (\<exists>a. nodeEurc n = Some a \<and> same a SWAP_EURC)"

definition quorum_holds :: "swap_world \<Rightarrow> bool" where
  "quorum_holds W \<longleftrightarrow> 2 \<le> length (rpcUrls W) \<and> (\<forall>u\<in>set (rpcUrls W). node_official (swNode W u))"

lemma snapshotRpc_Inr:
  assumes "evm_laws E" "snapshotRpc E n = Inr s"
  shows "nodeChainId n = Some (ssChainId s)" "\<exists>tick fee. nodeSlot0 n = Some (tick, fee) \<and> ssLpFee s = show_nat fee"
    "\<exists>l. nodeLiquidity n = Some l \<and> ssLiquidity s = show_nat l" "nodePaused n = Some (ssPaused s)"
    "\<exists>a. nodeRouter n = Some a \<and> same a (ssRouter s)" "\<exists>a. nodePermit2 n = Some a \<and> same a (ssPermit2 s)"
    "\<exists>a. nodeUsdc n = Some a \<and> same a (ssUsdc s)" "\<exists>a. nodeEurc n = Some a \<and> same a (ssEurc s)"
  using assms(2) checksum_lower(1) [OF assms(1)] by (auto simp: snapshotRpc_def same_def)

lemma deployed_same: "evm_laws E \<Longrightarrow> deployed E v a = Inr True \<Longrightarrow> same v a"
  by (auto simp: deployed_def equalR_Inr same_def dest: checksum_lower)

lemma show_500: "show_nat n = ''500'' \<Longrightarrow> n = 500"
proof -
  assume "show_nat n = ''500''"
  also have "''500'' = show_nat 500" by code_simp
  finally have "show_nat n = show_nat 500" .
  then show ?thesis by simp
qed

lemma Inr_and_true: "(\<exists>x. r = Inr x \<and> x \<and> P) \<longleftrightarrow> r = Inr True \<and> P"
  by auto

lemma toBigInt_show: "toBigInt (show_nat n) = Inr (int n)"
  using toBigInt_digits [OF show_nat_digits show_nat_nonempty] by simp

lemma quorumCheck_Inr:
  assumes "evm_laws E" "quorumCheck E W urls = Inr d" "u \<in> set urls"
  shows "node_official (swNode W u)"
proof -
  obtain ss where ss: "list_all2 (\<lambda>u s. snapshotRpc E (swNode W u) = Inr s) urls ss"
    and rest: "length (remdups (map quorumDigest ss)) = 1 \<and> ssChainId (ss ! 0) = 5042 \<and> ssLpFee (ss ! 0) = ''500'' \<and>
      \<not> ssPaused (ss ! 0) \<and> allR (map (\<lambda>c. bindR (toBigInt (ssLiquidity c)) (\<lambda>v. Inr (0 < v))) ss) = Inr True \<and>
      allR [deployed E (ssRouter (ss ! 0)) EXPECTED_UNIVERSAL_ROUTER, deployed E (ssPermit2 (ss ! 0)) EXPECTED_PERMIT2,
            deployed E (ssUsdc (ss ! 0)) SWAP_USDC, deployed E (ssEurc (ss ! 0)) SWAP_EURC] = Inr True"
    using assms(2) by (simp add: quorumCheck_def Let_def mapR_Inr Inr_and_true del: allR.simps length_remdups_card_conv)
      (elim exE, blast)
  from rest have one: "length (remdups (map quorumDigest ss)) = 1" by blast
  from rest have first: "ssChainId (ss ! 0) = 5042" "ssLpFee (ss ! 0) = ''500''" "\<not> ssPaused (ss ! 0)"
      "same (ssRouter (ss ! 0)) EXPECTED_UNIVERSAL_ROUTER" "same (ssPermit2 (ss ! 0)) EXPECTED_PERMIT2"
      "same (ssUsdc (ss ! 0)) SWAP_USDC" "same (ssEurc (ss ! 0)) SWAP_EURC"
    by (simp_all add: allR_True deployed_same [OF assms(1)] del: allR.simps)
  from rest have liquid: "\<forall>c\<in>set ss. bindR (toBigInt (ssLiquidity c)) (\<lambda>v. Inr (0 < v)) = Inr True"
    by (simp add: allR_True del: allR.simps bindR_Inr_iff)
  obtain i where "i < length urls" "urls ! i = u" using assms(3) by (auto simp: in_set_conv_nth)
  with list_all2_nthD [OF ss this(1)] list_all2_lengthD [OF ss] obtain s
    where s: "s \<in> set ss" "snapshotRpc E (swNode W u) = Inr s" by fastforce
  have "ss \<noteq> []" using s by auto
  then have "quorumDigest (ss ! 0) \<in> set (map quorumDigest ss)" "quorumDigest s \<in> set (map quorumDigest ss)"
    using s by (simp_all add: hd_conv_nth [symmetric])
  moreover have "card (set (map quorumDigest ss)) = 1" using one by (simp only: length_remdups_card_conv)
  ultimately have "quorumDigest s = quorumDigest (ss ! 0)" by (metis card_1_singletonE singletonD)
  note equal = quorumDigest_inj [OF this]
  note node = snapshotRpc_Inr [OF assms(1) s(2)]
  obtain l where l: "nodeLiquidity (swNode W u) = Some l" "ssLiquidity s = show_nat l" using node(3) by blast
  with liquid s(1) have "0 < l" by (auto simp: toBigInt_show)
  moreover obtain tick fee where fee: "nodeSlot0 (swNode W u) = Some (tick, fee)" "ssLpFee s = show_nat fee"
    using node(2) by blast
  moreover have "fee = 500" using fee equal first(2) show_500 by simp
  ultimately show ?thesis
    using node(1,4-) equal first(1,3-) l(1) by (auto simp: node_official_def same_def)
qed

lemma quorum_opens:
  assumes "evm_laws E" "assertLiveStaticQuorum E W c = (Inr (), c')"
  shows "c' = c \<and> (\<exists>at d. c = Some (at, d) \<and> swNow W - at < 30000) \<or> (\<exists>d. c' = Some (swNow W, d)) \<and> quorum_holds W"
  using assms(2) quorumCheck_Inr [OF assms(1)]
  by (auto simp: assertLiveStaticQuorum_def Let_def quorum_holds_def ok_def throw_def split: if_splits option.splits sum.splits)

lemma quorum_closed: "assertLiveStaticQuorum E W c = (Inl e, c') \<Longrightarrow> c' = c"
  by (auto simp: assertLiveStaticQuorum_def Let_def ok_def throw_def split: if_splits sum.splits)

text \<open>The gate over a run of requests, oldest first, starting from an empty cache.\<close>

primrec quorum_run :: "evm \<Rightarrow> swap_world list \<Rightarrow> quorum_cache \<Rightarrow> quorum_cache" where
  "quorum_run E [] c = c"
| "quorum_run E (W # Ws) c = quorum_run E Ws (snd (assertLiveStaticQuorum E W c))"

definition cache_honest :: "swap_world set \<Rightarrow> quorum_cache \<Rightarrow> bool" where
  "cache_honest S c \<longleftrightarrow> (\<forall>at d. c = Some (at, d) \<longrightarrow> (\<exists>W\<in>S. swNow W = at \<and> quorum_holds W))"

lemma cache_step:
  assumes "evm_laws E" "cache_honest S c" "W \<in> S"
  shows "cache_honest S (snd (assertLiveStaticQuorum E W c))"
proof (cases "assertLiveStaticQuorum E W c")
  case (Pair r c')
  then show ?thesis
    using assms quorum_opens [OF assms(1), of W c c'] quorum_closed [of E W c _ c']
    by (cases r) (auto simp: cache_honest_def)
qed

lemma cache_run: "evm_laws E \<Longrightarrow> cache_honest S c \<Longrightarrow> set Ws \<subseteq> S \<Longrightarrow> cache_honest S (quorum_run E Ws c)"
  by (induction Ws arbitrary: c) (auto intro: cache_step)

text \<open>
  Swaps are only quoted on a recent quorum.  Whatever requests came before, if the gate lets a request
  pass then some request at most thirty seconds older (or this one) found two different RPC addresses,
  both reporting Arc Mainnet, the pool with the expected fee and some liquidity, and the executor
  unpaused with the official router, Permit2 and tokens.
\<close>

theorem quorum_recent:
  assumes "evm_laws E" "assertLiveStaticQuorum E W (quorum_run E Ws None) = (Inr (), c)"
  shows "\<exists>V\<in>insert W (set Ws). swNow W - swNow V < 30000 \<and> quorum_holds V"
proof -
  have "cache_honest (insert W (set Ws)) (quorum_run E Ws None)"
    by (rule cache_run [OF assms(1)]) (auto simp: cache_honest_def)
  then show ?thesis using quorum_opens [OF assms] by (auto simp: cache_honest_def)
qed

section \<open>Live quotes\<close>

text \<open>The Quoter of the first node answers \<open>out\<close> for \<open>amount\<close> in the given direction, at its latest block.\<close>

definition quoted :: "swap_abi \<Rightarrow> swap_world \<Rightarrow> bool \<Rightarrow> nat \<Rightarrow> nat \<Rightarrow> bool" where
  "quoted D W sell amount out \<longleftrightarrow>
     (\<exists>data block answer gas. encodeQuoteCall D SWAP_POOL_KEY sell amount = Some data \<and>
        nodeBlock (primaryNode W) = Some block \<and> nodeCall (primaryNode W) SWAP_QUOTER data block = Some answer \<and>
        decodeQuote D answer = Some (out, gas))"

lemma quoteLive_Inr:
  assumes "evm_laws E" "quoteLive E D W r = Inr live"
  shows "quoted D W (same (sqTokenIn r) SWAP_USDC) (sqAmountIn r) (vqAmountOut (lqValidated live))"
    "vqMinOut (lqValidated live) = vqAmountOut (lqValidated live) * (10000 - nat (sqSlippage r)) div 10000"
    "lqQuotedAt live = swNow W" "lqExpiresAt live = swNow W + 60000"
proof -
  obtain data sell block answer amountOut gas where sell: "zeroForOneFromTokens E (sqTokenIn r) (sqTokenOut r) = Inr sell"
    and steps: "encodeQuoteCall D SWAP_POOL_KEY sell (sqAmountIn r) = Some data" "nodeBlock (primaryNode W) = Some block"
      "nodeCall (primaryNode W) SWAP_QUOTER data block = Some answer" "decodeQuote D answer = Some (amountOut, gas)"
    and valid: "validateQuoteObservation E r (observe r block amountOut gas) = Inr (lqValidated live)"
    and times: "lqQuotedAt live = swNow W" "lqExpiresAt live = swNow W + 60000"
    using assms(2)
    by (auto simp: quoteLive_def encodeQuoteExactInputSingle_def decodeQuoteExactInputSingleResult_def Let_def
        split: sum.splits)
  note q = validateQuote_Inr [OF assms(1) valid]
  have "amountOut = vqAmountOut (lqValidated live)" using q(8) by (simp add: observe_def)
  moreover have "sell = same (sqTokenIn r) SWAP_USDC"
    using zeroForOne_Inr(1) [OF assms(1) sell] swap_addresses(6) by (auto simp: same_def split: if_splits)
  ultimately show "quoted D W (same (sqTokenIn r) SWAP_USDC) (sqAmountIn r) (vqAmountOut (lqValidated live))"
    using steps by (auto simp: quoted_def)
  show "vqMinOut (lqValidated live) = vqAmountOut (lqValidated live) * (10000 - nat (sqSlippage r)) div 10000"
    using q(6) by (simp add: applySlippage_Inr)
  show "lqQuotedAt live = swNow W" "lqExpiresAt live = swNow W + 60000" by fact+
qed

lemma liveQuote_Inr: "liveQuote E D W r c = (Inr live, c') \<Longrightarrow> quoteLive E D W r = Inr live"
  by (auto simp: liveQuote_def andThen_def lift_def split: prod.splits sum.splits)

section \<open>Funding a payroll\<close>

text \<open>More input is tried exactly when the output did not suffice, so the guard \<open>next <= gross\<close> never fires.\<close>

lemma nextGross_grows:
  assumes "0 < least" "least < obligations"
  shows "gross < nextGross gross obligations least"
proof -
  have "gross * least \<le> gross * obligations + least - 1" using assms mult_le_mono2 [of least obligations gross] by linarith
  then have "gross * least div least \<le> (gross * obligations + least - 1) div least" by (rule div_le_mono)
  then show ?thesis using assms(1) by (simp add: nextGross_def)
qed

definition funds_payroll :: "swap_abi \<Rightarrow> swap_world set \<Rightarrow> payroll_quote \<Rightarrow> bool" where
  "funds_payroll D S q \<longleftrightarrow>
     pqObligations q \<le> pqMinOut q \<and> pqFee q = pqGross q * pqFeeBps q div 10000 \<and> pqNet q + pqFee q = pqGross q \<and>
     0 < pqNet q \<and> pqObligations q \<le> pqGross q \<and> pqGross q \<le> MAX_UINT128 \<and>
     (\<exists>W\<in>S. \<exists>out. quoted D W (same (pqInput q) SWAP_USDC) (pqNet q) out \<and>
        pqMinOut q = out * (10000 - nat (pqBps q)) div 10000 \<and>
        pqQuotedAt q = swNow W \<and> pqExpiresAt q = swNow W + 60000)"

lemma funds_payroll_mono: "funds_payroll D S q \<Longrightarrow> S \<subseteq> T \<Longrightarrow> funds_payroll D T q"
  unfolding funds_payroll_def by blast

lemma fundingLoop_Inr:
  assumes "evm_laws E" "getAddress E (fdTokenIn f) = Some (fdTokenIn f)" "fdObligations f \<le> gross" "fdFeeBps f \<le> 100"
    "fundingLoop E D f Ws gross c = (Inr q, c')"
  shows "funds_payroll D (set Ws) q \<and> pqInput q = fdTokenIn f \<and> pqOutput q = fdTokenOut f \<and>
    pqObligations q = fdObligations f \<and> pqBps q = fdBps f \<and> pqFeeBps q = fdFeeBps f"
  using assms(3,5)
proof (induction Ws arbitrary: gross c)
  case Nil
  then show ?case by (simp add: throw_def)
next
  case (Cons W Ws)
  let ?net = "gross - fundingFee f gross"
  obtain r live c1 where net: "0 < ?net" "gross \<le> MAX_UINT128"
    and r: "validateBoundary E (now_seconds W) (funding_boundary f ?net) = Inr r"
    and live: "liveQuote E D W r c = (Inr live, c1)"
    and rest: "if fdObligations f \<le> vqMinOut (lqValidated live) then q = funded_quote f gross live
      else fundingLoop E D f Ws (nextGross gross (fdObligations f) (vqMinOut (lqValidated live))) c1 = (Inr q, c') \<and>
        gross < nextGross gross (fdObligations f) (vqMinOut (lqValidated live))"
    using Cons.prems(2) by (auto simp: Let_def andThen_Inr_iff split: if_splits)
  note b = validateBoundary_Inr [OF assms(1) r]
  have amount: "sqAmountIn r = ?net" "sqSlippage r = fdBps f"
    using b(2,6) by (simp_all add: funding_boundary_def)
  have tin: "sqTokenIn r = fdTokenIn f"
    using b(3) assms(2) by (auto simp: funding_boundary_def boundaryAddress_def checksum_def)
  show ?case
  proof (cases "fdObligations f \<le> vqMinOut (lqValidated live)")
    case True
    have fee: "fundingFee f gross \<le> gross"
      using net(1) by simp
    show ?thesis
      using True rest net Cons.prems(1) fee quoteLive_Inr [OF assms(1) liveQuote_Inr [OF live]]
      by (auto simp: funds_payroll_def funded_quote_def fundingFee_def amount tin)
  next
    case False
    with rest have "fdObligations f \<le> nextGross gross (fdObligations f) (vqMinOut (lqValidated live))"
      "fundingLoop E D f Ws (nextGross gross (fdObligations f) (vqMinOut (lqValidated live))) c1 = (Inr q, c')"
      using Cons.prems(1) by simp_all
    from Cons.IH [OF this] show ?thesis using funds_payroll_mono [of D "set Ws" q "set (W # Ws)"] by auto
  qed
qed

lemma payrollAddress_Inr:
  assumes "evm_laws E" "payrollAddress E v = Inr a"
  shows "is_hex_address a" "getAddress E a = Some a"
  using assms(2) getAddress_Some(3) [OF assms(1)] getAddress_canonical [OF assms(1)]
  by (auto simp: payrollAddress_def checksum_def split: js.splits)

text \<open>
  C25: a payroll quote funds its obligations.  The quote that is answered is for the requested amount of
  output; the fee is exactly the fee the contract takes of the gross input (rounded down), what is left
  is swapped, and the minimum output of that swap, by the answer of the Quoter for exactly this input and
  the slippage, covers the obligations.  The gross input is at least the obligations and below 2^128, and the quote
  expires a minute after the attempt it came from.
\<close>

theorem payroll_funded:
  assumes "evm_laws E" "payrollCrossTokenQuote E D c W (W1, W2, W3, W4) p k = (Inr q, k')"
  shows "funds_payroll D {W1, W2, W3, W4} q \<and> payrollUint (pqOutputTotals p) = Inr (pqObligations q) \<and>
    payrollFeeBps W = Inr (pqFeeBps q) \<and> pqFeeBps q \<le> 100 \<and> 1 \<le> pqBps q \<and> pqBps q \<le> 500 \<and>
    (same (pqInput q) SWAP_USDC \<and> same (pqOutput q) SWAP_EURC \<or> same (pqInput q) SWAP_EURC \<and> same (pqOutput q) SWAP_USDC)"
proof -
  obtain f where f: "fundingRequest E W p = Inr f" "fundingLoop E D f [W1, W2, W3, W4] (fdObligations f) k = (Inr q, k')"
    using assms(2) by (auto simp: payrollCrossTokenQuote_def andThen_Inr_iff simp del: fundingLoop.simps)
  have tokens: "payrollAddress E (pqTokenIn p) = Inr (fdTokenIn f)"
      "same (fdTokenIn f) SWAP_USDC \<or> same (fdTokenIn f) SWAP_EURC"
      "same (fdTokenOut f) SWAP_USDC \<or> same (fdTokenOut f) SWAP_EURC" "\<not> same (fdTokenIn f) (fdTokenOut f)"
    and amounts: "payrollUint (pqOutputTotals p) = Inr (fdObligations f)" "payrollFeeBps W = Inr (fdFeeBps f)" "fdFeeBps f \<le> 100"
    and bps: "payrollSlippage (pqSlippage p) = Inr (fdBps f)"
    using f(1) by (auto simp: fundingRequest_def officialToken_Inr [OF assms(1)] equalR_Inr [OF assms(1)])
  have "1 \<le> fdBps f \<and> fdBps f \<le> 500" using bps by (auto simp: payrollSlippage_def split: js_number.splits)
  with fundingLoop_Inr [OF assms(1) payrollAddress_Inr(2) [OF assms(1) tokens(1)] order.refl amounts(3) f(2)]
  show ?thesis using tokens amounts by (auto simp: same_def)
qed

section \<open>Confirmed swaps\<close>

lemma decodeExecuteSwap_Inr:
  assumes "evm_laws E" "decodeExecuteSwap E D v = Inr a"
  shows "decodeSwap D v = Some a" "is_hex_address (saTokenIn a)" "is_hex_address (saTokenOut a)"
    "\<not> same (saTokenIn a) SWAP_EXECUTOR" "\<not> same (saTokenOut a) SWAP_EXECUTOR"
proof -
  obtain sell where sell: "zeroForOneFromTokens E (saTokenIn a) (saTokenOut a) = Inr sell" "decodeSwap D v = Some a"
    using assms(2) by (auto simp: decodeExecuteSwap_def)
  then show "decodeSwap D v = Some a" by simp
  show "is_hex_address (saTokenIn a)" "is_hex_address (saTokenOut a)"
    using sell(1) by (auto simp: zeroForOneFromTokens_def allR_True equalR_Inr [OF assms(1)] split: if_splits)
  show "\<not> same (saTokenIn a) SWAP_EXECUTOR" "\<not> same (saTokenOut a) SWAP_EXECUTOR"
    using zeroForOne_Inr [OF assms(1) sell(1)] swap_addresses(7,8) by (auto simp: same_def split: if_splits)
qed

text \<open>The transaction \<open>h\<close> is, on this chain, a proved swap of the wallet with these amounts.\<close>

definition swap_on_chain :: "evm \<Rightarrow> swap_abi \<Rightarrow> chain \<Rightarrow> nat \<Rightarrow> string \<Rightarrow> confirmed_swap \<Rightarrow> bool" where
  "swap_on_chain E D C n h v \<longleftrightarrow>
     (\<exists>tx rc to a. getTransaction C h = Some tx \<and> getTransactionReceipt C h = Some rc \<and> ctTo tx = Some to \<and>
        decodeSwap D (ctInput tx) = Some a \<and> csChainId v = n \<and> csTokenIn v = saTokenIn a \<and> csTokenOut v = saTokenOut a \<and>
        csAmountIn v = saAmountIn a \<and>
        swap_proved E D (chain_swap_receipt n tx rc to) (chain_expected (csWallet v) tx a) (csAmountOut v))"

lemma confirmTransaction_Inr:
  assumes "evm_laws E" "confirmTransaction E D C n h wallet = Inr v"
  shows "csHash v = toLowerCase h" "checksum E wallet = Inr (csWallet v)" "swap_on_chain E D C n h v"
proof -
  obtain tx rc to a w out spent where steps: "getTransaction C h = Some tx" "getTransactionReceipt C h = Some rc"
      "ctTo tx = Some to" "decodeExecuteSwap E D (ctInput tx) = Inr a" "checksum E wallet = Inr w"
      "verifySwapReceipt E D (chain_swap_receipt n tx rc to) (chain_expected w tx a) = Inr (out, spent)"
    and v: "v = \<lparr>csHash = toLowerCase h, csWallet = w, csChainId = n, csTokenIn = saTokenIn a,
          csTokenOut = saTokenOut a, csAmountIn = spent, csAmountOut = out\<rparr>"
    using assms(2) by (auto simp: confirmTransaction_def)
  note a = decodeExecuteSwap_Inr [OF assms(1) steps(4)]
  have "is_hex_address w" using steps(5) getAddress_Some(3) [OF assms(1)] by (simp add: checksum_def)
  then have "expected_ok (chain_expected w tx a)"
    using a(2-) by (simp add: expected_ok_def chain_expected_def)
  from verifySwapReceipt_iff [OF assms(1) this, of D] steps(6)
  have proved: "swap_proved E D (chain_swap_receipt n tx rc to) (chain_expected w tx a) out" "spent = saAmountIn a"
    by (simp_all add: chain_expected_def)
  show "csHash v = toLowerCase h" "checksum E wallet = Inr (csWallet v)" using v steps(5) by simp_all
  show "swap_on_chain E D C n h v"
    unfolding swap_on_chain_def using steps(1-3) a(1) proved v
    by (intro exI [of _ tx] exI [of _ rc] exI [of _ to] exI [of _ a]) simp
qed

definition swap_table_ok :: "evm \<Rightarrow> swap_abi \<Rightarrow> chain \<Rightarrow> nat \<Rightarrow> swap_row list \<Rightarrow> bool" where
  "swap_table_ok E D C n T \<longleftrightarrow> distinct (map csHash T) \<and>
     (\<forall>r\<in>set T. \<exists>h. csHash r = toLowerCase h \<and> swap_on_chain E D C n h (confirmed_swap.truncate r))"

lemma truncate_with_time: "confirmed_swap.truncate (with_time now v) = v" "csHash (with_time now v) = csHash v"
  "csWallet (with_time now v) = csWallet v"
  by (simp_all add: with_time_def confirmed_swap.defs)

text \<open>
  C26: the table of verified swaps records only swaps the chain shows, each transaction once.  Whatever a
  confirmation ends with, the table keeps its rows as they are and stays that way.  An answered row is in the
  table, carries the hash that was asked for and belongs to the wallet that is authenticated; after an exception
  the table is unchanged.
\<close>

theorem confirmed_swaps:
  assumes "evm_laws E" "swap_table_ok E D C n T" "confirmSwap E D authenticate C n now token hash T = (r, T')"
  shows "swap_table_ok E D C n T' \<and> take (length T) T' = T \<and>
    (case r of
       Inl e \<Rightarrow> T' = T
     | Inr row \<Rightarrow> row \<in> set T' \<and>
         (\<exists>h wallet. hash = JStr h \<and> csHash row = toLowerCase h \<and> authenticate token = Inr wallet \<and>
            same (csWallet row) wallet))"
proof (cases "\<exists>wallet v. authenticate token = Inr wallet \<and>
    confirmTransaction E D C n (case hash of JStr h \<Rightarrow> h | _ \<Rightarrow> []) wallet = Inr v")
  case False
  then have "\<exists>e. r = Inl e \<and> T' = T"
    using assms(3) by (cases "authenticate token") (auto simp: confirmSwap_def andThen_def lift_def split: sum.splits)
  then show ?thesis using assms(2) by auto
next
  case True
  then obtain wallet v h where auth: "authenticate token = Inr wallet" and h: "hash = JStr h"
    and v: "confirmTransaction E D C n h wallet = Inr v"
    by (cases hash) (auto simp: confirmTransaction_def is_hex_string_def)
  note proved = confirmTransaction_Inr [OF assms(1) v]
  have own: "same (csWallet v) wallet" using checksum_lower(1) [OF assms(1) proved(2)] by (simp add: same_def)
  show ?thesis
  proof (cases "find_row (\<lambda>r. csHash r = csHash v) T")
    case (Some row)
    then have "T' = T \<and> (case r of Inl e \<Rightarrow> True | Inr x \<Rightarrow> x = row \<and> same (csWallet row) (csWallet v))"
      using assms(3) auth h v
      by (auto simp: confirmSwap_def upsertSwap_def andThen_def lift_def ensure_def ok_def same_def split: if_splits)
    moreover have "row \<in> set T" "csHash row = toLowerCase h" using find_row_Some [OF Some] proved(1) by auto
    ultimately show ?thesis
      using assms(2) auth h own by (auto simp: same_def split: sum.splits)
  next
    case None
    then have new: "csHash v \<notin> csHash ` set T" by (auto simp: find_row_None)
    have "r = Inr (with_time now v)" "T' = T @ [with_time now v]"
      using assms(3) auth h v None
      by (auto simp: confirmSwap_def upsertSwap_def andThen_def lift_def ensure_def ok_def Let_def truncate_with_time)
    moreover have "swap_table_ok E D C n (T @ [with_time now v])"
      using assms(2) new proved by (auto simp: swap_table_ok_def truncate_with_time)
    ultimately show ?thesis using auth h own proved(1) by (auto simp: truncate_with_time)
  qed
qed

section \<open>From the plan to the confirmation\<close>

text \<open>What viem's ABI codec promises for the call the wallet signs.\<close>

definition swap_codec :: "swap_abi \<Rightarrow> bool" where
  "swap_codec D \<longleftrightarrow> (\<forall>a data. encodeSwap D a = Some data \<longrightarrow> decodeSwap D data = Some a)"

lemma plannedSwap_Inr:
  assumes "evm_laws E" "plannedSwap E D c W p = Inr (r, plan)"
  obtains ob block where "validateBoundary E (now_seconds W) (prBoundary p) = Inr r" "prQuote p = Some ob"
    "nodeBlock (primaryNode W) = Some block" "int block - obBlock ob \<le> 60"
    "validateQuoteObservation E r ob = Inr (spQuote plan)" "scTo (spSwap plan) = SWAP_EXECUTOR"
    "encodeSwap D (quote_args (spQuote plan) (sqDeadline r)) = Some (scData (spSwap plan))"
    "scValue (spSwap plan) = (if same (sqTokenIn r) SWAP_USDC then sqAmountIn r * NATIVE_SCALE else 0)"
    "length (spApprovals plan) = (if same (sqTokenIn r) SWAP_USDC then 0 else 1)"
    "\<forall>a\<in>set (spApprovals plan). scTo a = sqTokenIn r \<and> scValue a = 0 \<and>
       encodeApprove D SWAP_EXECUTOR (sqAmountIn r) = Some (scData a)"
    "spRecipient plan = sqWallet r" "spDeadline plan = sqDeadline r"
proof -
  obtain ob block where steps: "validateBoundary E (now_seconds W) (prBoundary p) = Inr r" "prQuote p = Some ob"
      "nodeBlock (primaryNode W) = Some block" "int block - obBlock ob \<le> 60" "buildUserControlledSwapPlan E D r ob = Inr plan"
    using assms(2) by (auto simp: plannedSwap_def assertQuoteFresh_def QUOTE_MAX_BLOCK_AGE_def)
  obtain q native approvals data where q: "validateQuoteObservation E r ob = Inr q"
      "native = same (vqTokenIn q) SWAP_USDC"
      "(if native then Inr [] else bindR (encodeErc20ApproveExecutor D (vqAmountIn q)) (\<lambda>data.
         Inr [\<lparr>scTo = vqTokenIn q, scData = data, scValue = 0\<rparr>])) = Inr approvals"
      "encodeExecuteSwap E D (quote_args q (sqDeadline r)) = Inr data"
    and plan: "plan = \<lparr>spControl = sqControl r, spQuote = q, spApprovals = approvals,
       spSwap = \<lparr>scTo = SWAP_EXECUTOR, scData = data, scValue = (if native then vqAmountIn q * NATIVE_SCALE else 0)\<rparr>,
       spRecipient = sqRecipient r, spDeadline = sqDeadline r\<rparr>"
    using steps(5) by (auto simp: buildUserControlledSwapPlan_def equalR_Inr [OF assms(1)])
  note v = validateQuote_Inr [OF assms(1) q(1)]
  have "sqRecipient r = sqWallet r"
    using validateBoundary_Inr(1) [OF assms(1) steps(1)] by (simp add: request_ok_def)
  with that steps q v(1,3) plan show thesis
    by (auto simp: encodeExecuteSwap_def encodeErc20ApproveExecutor_def split: if_splits)
qed


end
