(* ===== verification/SwapExamples.thy ===== *)
theory SwapExamples
  imports SwapServiceProperties
begin

text \<open>
  A sale of 100 units of EURC, from the quote to the recorded swap, on which the theorems about swaps are
  exercised.
\<close>

definition pool_evm :: evm where
  "pool_evm = lower_evm\<lparr>keccak256 := (\<lambda>_. SWAP_POOL_ID)\<rparr>"

lemma pool_evm_laws: "evm_laws pool_evm"
proof -
  have same: "isAddress pool_evm = isAddress lower_evm" "getAddress pool_evm = getAddress lower_evm"
    "isAddressEqual pool_evm = isAddressEqual lower_evm" "isHex pool_evm = isHex lower_evm"
    by (simp_all add: pool_evm_def)
  have "evm_laws pool_evm = evm_laws lower_evm" unfolding evm_laws_def same by (rule refl)
  then show ?thesis using lower_evm_laws by blast
qed

definition eurc :: string where
  "eurc = toLowerCase SWAP_EURC"

definition seller :: string where
  "seller = addr (CHR ''a'')"

definition sale_args :: swap_args where
  "sale_args = \<lparr>saTokenIn = eurc, saTokenOut = SWAP_USDC, saAmountIn = 100, saMinOut = 99, saMinHop = 99 * 10 ^ 34,
     saDeadline = 1600\<rparr>"

definition sale_event :: swap_event where
  "sale_event = \<lparr>seCaller = seller, seTokenIn = eurc, seTokenOut = SWAP_USDC, seAmountIn = 100, seAmountOut = 100\<rparr>"

definition sale_abi :: swap_abi where
  "sale_abi = \<lparr>encodeSwap = (\<lambda>a. if a = sale_args then Some ''0x5a'' else None),
     decodeSwap = (\<lambda>d. if d = ''0x5a'' then Some sale_args else None),
     encodeApprove = (\<lambda>_ _. Some ''0xa0''), encodeQuoteCall = (\<lambda>_ _ _. Some ''0xc0''),
     decodeQuote = (\<lambda>_. Some (100, 7)), encodePoolKey = (\<lambda>_. []),
     decodeSwapEvent = (\<lambda>l. if logTopics l = [''event''] then Some sale_event else None)\<rparr>"

lemma sale_codec: "swap_codec sale_abi"
  by (simp add: swap_codec_def sale_abi_def)

definition sale_node :: rpc_node where
  "sale_node = \<lparr>nodeChainId = Some 5042, nodeSlot0 = Some (0, 500), nodeLiquidity = Some 9, nodePaused = Some False,
     nodeFeeBps = Some 0, nodeRouter = Some EXPECTED_UNIVERSAL_ROUTER, nodePermit2 = Some EXPECTED_PERMIT2,
     nodeUsdc = Some SWAP_USDC, nodeEurc = Some SWAP_EURC, nodeBlock = Some 7, nodeCall = (\<lambda>_ _ _. Some ''0xd0''),
     nodePayrollFee = (\<lambda>_. Some 25)\<rparr>"

definition sale_world :: "int \<Rightarrow> swap_world" where
  "sale_world now = \<lparr>swNow = now, swRpcUrl = ''https://rpc.mainnet.arc.io/'', swNode = (\<lambda>_. sale_node)\<rparr>"

definition sale_request :: boundary_request where
  "sale_request = \<lparr>brChainId = Integer 5042, brTokenIn = JStr SWAP_EURC, brTokenOut = JStr SWAP_USDC,
     brAmountIn = JStr ''100'', brRecipient = JStr seller, brWallet = JStr seller, brControl = JStr ''external-wallet'',
     brSlippage = Integer 100, brDeadline = Integer 1600\<rparr>"

definition sale_normalized :: swap_request where
  "sale_normalized = \<lparr>sqTokenIn = eurc, sqTokenOut = SWAP_USDC, sqAmountIn = 100, sqRecipient = seller, sqWallet = seller,
     sqControl = ''external-wallet'', sqSlippage = 100, sqDeadline = 1600\<rparr>"

definition sale_quote :: validated_quote where
  "sale_quote = \<lparr>vqZeroForOne = False, vqTokenIn = eurc, vqTokenOut = SWAP_USDC, vqAmountIn = 100, vqAmountOut = 100,
     vqGas = 7, vqMinOut = 99, vqMinHop = 99 * 10 ^ 34, vqSlippage = 100\<rparr>"

lemma sale_addresses:
  "is_hex_address eurc" "is_hex_address seller" "is_hex_address SWAP_QUOTER" "is_hex_address EXPECTED_UNIVERSAL_ROUTER"
  "is_hex_address EXPECTED_PERMIT2" "toLowerCase eurc = eurc" "toLowerCase SWAP_USDC = SWAP_USDC"
  "toLowerCase seller = seller" "toLowerCase zeroAddress = zeroAddress" "toLowerCase SWAP_EURC = eurc"
  "eurc \<noteq> SWAP_USDC" "eurc \<noteq> zeroAddress" "SWAP_USDC \<noteq> zeroAddress" "seller \<noteq> zeroAddress" "SWAP_USDC \<noteq> eurc"
  "is_hash SWAP_POOL_ID" "toLowerCase SWAP_POOL_ID = SWAP_POOL_ID" "toLowerCase ''0x5a'' = ''0x5a''"
  by code_simp+

lemma pool_get: "is_hex_address a \<Longrightarrow> getAddress pool_evm a = Some (toLowerCase a)"
  by (simp add: pool_evm_def lower_evm_def)

lemma pool_is: "isAddress pool_evm a = is_hex_address a"
  by (simp add: pool_evm_def lower_evm_def)

lemma pool_equal: "is_hex_address a \<Longrightarrow> is_hex_address b \<Longrightarrow> equalR pool_evm a b = Inr (toLowerCase a = toLowerCase b)"
  using same_equalR [OF pool_evm_laws] by (simp add: same_def)

lemma pool_checksum: "is_hex_address a \<Longrightarrow> checksum pool_evm a = Inr (toLowerCase a)"
  by (simp add: checksum_def pool_get)

lemmas sale_simps = sale_addresses swap_addresses pool_is pool_equal pool_checksum

lemma sale_boundary: "1000 \<le> now \<Longrightarrow> now < 1600 \<Longrightarrow> validateBoundary pool_evm now sale_request = Inr sale_normalized"
proof -
  assume now: "1000 \<le> now" "now < 1600"
  have "positive_uint ''100''" "read_nat ''100'' = 100" by code_simp+
  with now show ?thesis
    by (simp add: validateBoundary_def sale_request_def sale_normalized_def boundaryAddress_def officialToken_def
        boundaryAmount_def MAX_UINT128_def boundaryNumbers_def MAX_SAFE_INTEGER_def sale_simps fromSome_def ex_bool_eq)
qed

lemma sale_direction: "zeroForOneFromTokens pool_evm eurc SWAP_USDC = Inr False"
  by (simp add: zeroForOneFromTokens_def sale_simps)

lemma sale_validated: "validateQuoteObservation pool_evm sale_normalized (observe sale_normalized 7 100 7) = Inr sale_quote"
proof -
  have "applySlippage 100 100 = Inr 99" "calculateMinHopPriceX36 100 100 100 = Inr (99 * 10 ^ 34)"
    by (simp_all add: applySlippage_def calculateMinHopPriceX36_def)
  then show ?thesis
    by (simp add: validateQuoteObservation_def observe_def sale_normalized_def sale_quote_def SWAP_CHAIN_def sale_simps
        MAX_SAFE_INTEGER_def requireCanonicalUint_def positive_show sale_direction)
qed

theorem quote_floors_witness:
  "\<exists>q. validateQuoteObservation pool_evm sale_normalized (observe sale_normalized 7 100 7) = Inr q \<and>
     vqMinOut q = 99 \<and> vqMinOut q \<le> vqAmountOut q \<and> 95 * vqAmountOut q < 100 * (vqMinOut q + 1)"
  using quote_floors [OF pool_evm_laws sale_validated] sale_validated by (auto simp: sale_quote_def)

section \<open>The quorum\<close>

lemma sale_urls: "rpcUrls (sale_world now) = [''https://rpc.mainnet.arc.io'', QUORUM_RPC_URL]"
  by (simp add: rpcUrls_def sale_world_def strip_slash_def QUORUM_RPC_URL_def)

lemma sale_deployed: "is_hex_address a \<Longrightarrow> deployed pool_evm (toLowerCase a) a = Inr True"
  by (simp add: deployed_def pool_checksum pool_equal is_hex_string_lower)

lemma sale_quorum: "\<exists>d. quorumCheck pool_evm (sale_world now) (rpcUrls (sale_world now)) = Inr d"
proof -
  obtain s where s: "snapshotRpc pool_evm sale_node = Inr s" "ssChainId s = 5042" "ssLpFee s = show_nat 500"
      "ssLiquidity s = show_nat 9" "\<not> ssPaused s" "ssRouter s = toLowerCase EXPECTED_UNIVERSAL_ROUTER"
      "ssPermit2 s = toLowerCase EXPECTED_PERMIT2" "ssUsdc s = toLowerCase SWAP_USDC" "ssEurc s = toLowerCase SWAP_EURC"
    by (simp add: snapshotRpc_def sale_node_def sale_simps ex_bool_eq)
  have "swNode (sale_world now) = (\<lambda>_. sale_node)" by (simp add: sale_world_def)
  then have "mapR (\<lambda>u. snapshotRpc pool_evm (swNode (sale_world now) u)) (rpcUrls (sale_world now)) = Inr [s, s]"
    by (simp add: sale_urls s(1))
  moreover have "allR (map (\<lambda>c. bindR (toBigInt (ssLiquidity c)) (\<lambda>v. Inr (0 < v))) [s, s]) = Inr True"
    by (simp add: s toBigInt_show)
  moreover have "allR [deployed pool_evm (ssRouter s) EXPECTED_UNIVERSAL_ROUTER, deployed pool_evm (ssPermit2 s) EXPECTED_PERMIT2,
      deployed pool_evm (ssUsdc s) SWAP_USDC, deployed pool_evm (ssEurc s) SWAP_EURC] = Inr True"
    unfolding s by (simp add: sale_deployed sale_addresses(4,5) swap_addresses(1,2))
  moreover have "show_nat 500 = ''500''" by code_simp
  ultimately show ?thesis using s(2-5) by (simp add: quorumCheck_def Let_def del: allR.simps)
qed

lemma sale_gate: "\<exists>d. assertLiveStaticQuorum pool_evm (sale_world now) None = (Inr (), Some (now, d))"
  using sale_quorum [of now] by (auto simp: assertLiveStaticQuorum_def sale_urls Let_def ok_def QUORUM_RPC_URL_def)
    (simp add: sale_world_def)

lemma sale_cached: "now - at < 30000 \<Longrightarrow>
    assertLiveStaticQuorum pool_evm (sale_world now) (Some (at, d)) = (Inr (), Some (at, d))"
  by (simp add: assertLiveStaticQuorum_def sale_world_def ok_def)

theorem quorum_recent_witness:
  "\<exists>V\<in>{sale_world 1020000, sale_world 1000000}. swNow (sale_world 1020000) - swNow V < 30000 \<and> quorum_holds V"
proof -
  obtain d where "quorum_run pool_evm [sale_world 1000000] None = Some (1000000, d)"
    using sale_gate [of 1000000] by auto
  then have "assertLiveStaticQuorum pool_evm (sale_world 1020000) (quorum_run pool_evm [sale_world 1000000] None)
      = (Inr (), Some (1000000, d))" by (simp add: sale_cached)
  from quorum_recent [OF pool_evm_laws this] show ?thesis by simp
qed

section \<open>A funded payroll\<close>

definition sale_config :: swap_config where
  "sale_config = \<lparr>cfgArcKey = Some ''arc-mainnet'', cfgEnvKey = None\<rparr>"

definition sale_payroll :: payroll_quote_request where
  "sale_payroll = \<lparr>pqTokenIn = JStr SWAP_EURC, pqTokenOut = JStr SWAP_USDC, pqOutputTotals = JStr ''98'',
     pqSlippage = Integer 100, pqWallet = JStr seller, pqRecipient = JStr seller\<rparr>"

definition sale_funding :: funding where
  "sale_funding = \<lparr>fdTokenIn = eurc, fdTokenOut = SWAP_USDC, fdObligations = 98, fdBps = 100, fdWallet = seller,
     fdRecipient = seller, fdFeeBps = 25, fdDeadline = 1600\<rparr>"

lemma sale_fundingRequest: "fundingRequest pool_evm (sale_world 1000000) sale_payroll = Inr sale_funding"
proof -
  have "positive_uint ''98''" "read_nat ''98'' = 98" by code_simp+
  then show ?thesis
    by (simp add: fundingRequest_def sale_payroll_def sale_funding_def payrollAddress_def officialToken_def payrollUint_def
        MAX_UINT128_def payrollSlippage_def payrollFeeBps_def primaryNode_def sale_world_def sale_node_def now_seconds_def
        sale_simps ex_bool_eq)
qed

lemma sale_fundingBoundary:
  "validateBoundary pool_evm 1000 (funding_boundary sale_funding 98) = Inr (sale_normalized\<lparr>sqAmountIn := 98\<rparr>)"
proof -
  have "show_nat 98 = ''98''" "positive_uint ''98''" "read_nat ''98'' = 98" by code_simp+
  then show ?thesis
    by (simp add: validateBoundary_def funding_boundary_def sale_funding_def sale_normalized_def boundaryAddress_def
        officialToken_def boundaryAmount_def MAX_UINT128_def boundaryNumbers_def MAX_SAFE_INTEGER_def sale_simps fromSome_def
        ex_bool_eq)
qed

lemma sale_live:
  "\<exists>live. quoteLive pool_evm sale_abi (sale_world now) (sale_normalized\<lparr>sqAmountIn := 98\<rparr>) = Inr live \<and>
     vqMinOut (lqValidated live) = 99"
proof -
  have "applySlippage 100 100 = Inr 99" "\<exists>p. calculateMinHopPriceX36 98 100 100 = Inr p"
    by (simp_all add: applySlippage_def calculateMinHopPriceX36_def)
  moreover have "0 < length (rpcUrls (sale_world now))" by (simp add: sale_urls)
  ultimately show ?thesis
    by (auto simp: quoteLive_def encodeQuoteExactInputSingle_def sale_normalized_def sale_direction sale_abi_def
        primaryNode_def sale_world_def sale_node_def decodeQuoteExactInputSingleResult_def validateQuoteObservation_def
        observe_def SWAP_CHAIN_def sale_simps MAX_SAFE_INTEGER_def requireCanonicalUint_def positive_show fromSome_def)
qed

theorem payroll_funded_witness:
  "\<exists>q k. payrollCrossTokenQuote pool_evm sale_abi sale_config (sale_world 1000000)
      (sale_world 1000000, sale_world 1000000, sale_world 1000000, sale_world 1000000) sale_payroll None = (Inr q, k) \<and>
     pqObligations q = 98 \<and> 98 \<le> pqMinOut q \<and> pqGross q \<le> MAX_UINT128"
proof -
  let ?W = "sale_world 1000000"
  obtain live where live: "quoteLive pool_evm sale_abi ?W (sale_normalized\<lparr>sqAmountIn := 98\<rparr>) = Inr live"
      "vqMinOut (lqValidated live) = 99" using sale_live by blast
  obtain d where d: "assertLiveStaticQuorum pool_evm ?W None = (Inr (), Some (1000000, d))" using sale_gate by blast
  have fee: "fundingFee sale_funding 98 = 0" "fdObligations sale_funding = 98" by (simp_all add: fundingFee_def sale_funding_def)
  have quote: "liveQuote pool_evm sale_abi ?W (sale_normalized\<lparr>sqAmountIn := 98\<rparr>) None = (Inr live, Some (1000000, d))"
    by (simp add: liveQuote_def andThen_Inr_iff d live)
  have now: "now_seconds ?W = 1000" by (simp add: now_seconds_def sale_world_def)
  have run: "payrollCrossTokenQuote pool_evm sale_abi sale_config ?W (?W, ?W, ?W, ?W) sale_payroll None =
      (Inr (funded_quote sale_funding 98 live), Some (1000000, d))"
    by (simp add: payrollCrossTokenQuote_def assertMainnetProcess_def sale_config_def andThen_Inr_iff sale_fundingRequest
        fee now sale_fundingBoundary quote live(2) MAX_UINT128_def)
  from payroll_funded [OF pool_evm_laws run] run show ?thesis
    by (auto simp: funded_quote_def funds_payroll_def sale_funding_def)
qed

section \<open>The confirmed sale\<close>

definition topic_of :: "string \<Rightarrow> string" where
  "topic_of a = ''0x'' @ replicate 24 (CHR ''0'') @ drop 2 (toLowerCase a)"

definition event_log :: chain_log where
  "event_log = \<lparr>logAddress = SWAP_EXECUTOR, logTopics = [''event''], logData = ''0x''\<rparr>"

definition input_log :: chain_log where
  "input_log = \<lparr>logAddress = eurc, logTopics = [SWAP_TRANSFER_TOPIC, topic_of seller, topic_of SWAP_EXECUTOR], logData = ''0x64''\<rparr>"

definition output_log :: chain_log where
  "output_log = \<lparr>logAddress = SWAP_USDC, logTopics = [SWAP_TRANSFER_TOPIC, topic_of SWAP_EXECUTOR, topic_of seller], logData = ''0x64''\<rparr>"

definition sale_tx :: chain_tx where
  "sale_tx = \<lparr>ctHash = hash_of (CHR ''1''), ctChainId = Some 5042, ctValue = 0, ctFrom = seller, ctTo = Some SWAP_EXECUTOR,
     ctInput = ''0x5a''\<rparr>"

definition sale_receipt :: chain_receipt where
  "sale_receipt = \<lparr>crHash = hash_of (CHR ''1''), crSuccess = True, crBlock = 8, crFrom = seller, crTo = Some SWAP_EXECUTOR,
     crLogs = [event_log, input_log, output_log]\<rparr>"

definition sale_chain :: chain where
  "sale_chain = \<lparr>getChainId = Some 5042, getTransaction = (\<lambda>_. Some sale_tx),
     getTransactionReceipt = (\<lambda>_. Some sale_receipt), getBlockNumber = Some 9\<rparr>"

abbreviation sale_expected :: swap_expected where
  "sale_expected \<equiv> chain_expected seller sale_tx sale_args"

lemma sale_transfers:
  "swap_transfer pool_evm event_log = None"
  "swap_transfer pool_evm input_log = Some (eurc, seller, toLowerCase SWAP_EXECUTOR, 100)"
  "swap_transfer pool_evm output_log = Some (SWAP_USDC, toLowerCase SWAP_EXECUTOR, seller, 100)"
  by code_simp+

lemma sale_events: "swap_events pool_evm sale_abi sale_expected [event_log, input_log, output_log] = [sale_event]"
proof -
  have "event_of pool_evm sale_abi sale_expected event_log = Some sale_event"
    by (simp add: event_of_def event_log_def sale_simps same_def sale_abi_def swapVerdict_def sale_event_def chain_expected_def
        sale_args_def isAddressEqual_eq [OF pool_evm_laws])
  moreover have "event_of pool_evm sale_abi sale_expected input_log = None" "event_of pool_evm sale_abi sale_expected output_log = None"
    using swap_addresses(7,8) sale_addresses
    by (simp_all add: event_of_def input_log_def output_log_def same_def)
  ultimately show ?thesis by (simp add: swap_events_def map_filter_simps)
qed

lemma sale_expected_ok: "expected_ok sale_expected"
  using swap_addresses(7,8) by (simp add: expected_ok_def chain_expected_def sale_args_def sale_simps same_def)

lemma lower_lower: "toLowerCase (toLowerCase SWAP_EXECUTOR) = toLowerCase SWAP_EXECUTOR"
  by code_simp

lemma sale_proved: "swap_proved pool_evm sale_abi (chain_swap_receipt 5042 sale_tx sale_receipt SWAP_EXECUTOR) sale_expected 100"
proof -
  have "moved_sum pool_evm (spends sale_expected) [event_log, input_log, output_log] = 100"
    "moved_sum pool_evm (delivers sale_expected) [event_log, input_log, output_log] = 100"
    by (simp_all add: moved_sum_def value_of_def sale_transfers spends_def delivers_def chain_expected_def sale_args_def same_def
        sale_simps lower_lower)
  moreover have "numeral_of is_digit (show_nat 0)" by code_simp
  moreover have "same SWAP_EXECUTOR SWAP_EXECUTOR" by (simp add: same_def)
  ultimately show ?thesis
    by (simp add: swap_proved_def chain_swap_receipt_def sale_receipt_def sale_events)
      (simp add: sale_tx_def chain_expected_def sale_args_def same_def sale_simps SWAP_CHAIN_def sale_event_def)
qed

theorem swap_receipt_iff_witness:
  "verifySwapReceipt pool_evm sale_abi (chain_swap_receipt 5042 sale_tx sale_receipt SWAP_EXECUTOR) sale_expected = Inr (100, 100)"
  using swap_receipt_iff [OF pool_evm_laws sale_expected_ok] sale_proved
  by (simp add: chain_expected_def sale_args_def)

definition sale_confirmed :: confirmed_swap where
  "sale_confirmed = \<lparr>csHash = hash_of (CHR ''1''), csWallet = seller, csChainId = 5042, csTokenIn = eurc,
     csTokenOut = SWAP_USDC, csAmountIn = 100, csAmountOut = 100\<rparr>"

lemma sale_confirms: "confirmTransaction pool_evm sale_abi sale_chain 5042 (hash_of (CHR ''1'')) seller = Inr sale_confirmed"
proof -
  have "verifySwapReceipt pool_evm sale_abi (chain_swap_receipt 5042 sale_tx sale_receipt SWAP_EXECUTOR) sale_expected = Inr (100, 100)"
    using verifySwapReceipt_iff [OF pool_evm_laws sale_expected_ok] sale_proved by (simp add: chain_expected_def sale_args_def)
  moreover have "decodeExecuteSwap pool_evm sale_abi (ctInput sale_tx) = Inr sale_args"
    by (simp add: decodeExecuteSwap_def sale_tx_def sale_abi_def sale_args_def sale_direction fromSome_def)
  moreover have "is_hash (hash_of (CHR ''1''))" "toLowerCase (hash_of (CHR ''1'')) = hash_of (CHR ''1'')" by code_simp+
  moreover have "crSuccess sale_receipt" "ctTo sale_tx = Some SWAP_EXECUTOR" "saTokenIn sale_args = eurc" "saTokenOut sale_args = SWAP_USDC"
    by (simp_all add: sale_receipt_def sale_tx_def sale_args_def)
  ultimately show ?thesis
    by (simp add: confirmTransaction_def sale_chain_def sale_simps sale_confirmed_def ex_bool_eq)
qed

theorem confirmed_swaps_witness:
  "\<exists>row. confirmSwap pool_evm sale_abi (\<lambda>_. Inr seller) sale_chain 5042 7 None (JStr (hash_of (CHR ''1''))) [] = (Inr row, [row]) \<and>
     swap_table_ok pool_evm sale_abi sale_chain 5042 [row] \<and> csAmountIn row = 100"
proof -
  have run: "confirmSwap pool_evm sale_abi (\<lambda>_. Inr seller) sale_chain 5042 7 None (JStr (hash_of (CHR ''1''))) [] =
      (Inr (with_time 7 sale_confirmed), [with_time 7 sale_confirmed])"
    by (simp add: confirmSwap_def andThen_Inr_iff sale_confirms upsertSwap_def truncate_with_time Let_def)
  have "swap_table_ok pool_evm sale_abi sale_chain 5042 []" by (simp add: swap_table_ok_def)
  from confirmed_swaps [OF pool_evm_laws this run] run show ?thesis
    by (auto simp: with_time_def sale_confirmed_def confirmed_swap.defs)
qed

lemma sale_prepared:
  "\<exists>plan. prepareSwap pool_evm sale_abi sale_config (sale_world 1000000)
      \<lparr>prBoundary = sale_request, prQuote = Some (observe sale_normalized 7 100 7), prPermit = False\<rparr> = Inr plan \<and>
     scData (spSwap plan) = ''0x5a'' \<and> spQuote plan = sale_quote"
proof -
  have "quote_args sale_quote 1600 = sale_args" by (simp add: quote_args_def sale_quote_def sale_args_def)
  moreover have "assertCandidatePoolKeyMatchesEvidence pool_evm sale_abi SWAP_POOL_ID = Inr SWAP_POOL_ID"
    by (simp add: assertCandidatePoolKeyMatchesEvidence_def deriveMainnetUniswapV4PoolId_def pool_evm_def Let_def sale_addresses)
  moreover have "encodeExecuteSwap pool_evm sale_abi sale_args = Inr ''0x5a''"
    by (simp add: encodeExecuteSwap_def sale_args_def sale_direction sale_abi_def)
  moreover have "obBlock (observe sale_normalized 7 100 7) = 7" by (simp add: observe_def)
  moreover have "vqTokenIn sale_quote = eurc" "sqDeadline sale_normalized = 1600" by (simp_all add: sale_quote_def sale_normalized_def)
  moreover have "nodeBlock (primaryNode (sale_world 1000000)) = Some 7" "now_seconds (sale_world 1000000) = 1000"
    by (simp_all add: primaryNode_def sale_world_def sale_node_def now_seconds_def)
  moreover have "encodeErc20ApproveExecutor sale_abi n = Inr ''0xa0''" for n
    by (simp add: encodeErc20ApproveExecutor_def sale_abi_def)
  ultimately show ?thesis
    by (simp add: prepareSwap_def plannedSwap_def assertMainnetProcess_def sale_config_def sale_boundary assertQuoteFresh_def
        QUOTE_MAX_BLOCK_AGE_def buildUserControlledSwapPlan_def sale_validated pool_equal sale_addresses swap_addresses(1)
        ex_bool_eq)
qed


end
