(* ===== verification/WalletAuth.thy ===== *)
theory WalletAuth
  imports Table
begin

text \<open>
  Wallet authentication (\<open>apps/backend/src/modules/wallet/wallet-auth.service.ts\<close>) and the registry of
  external wallets (\<open>wallet.service.ts\<close>).  A client asks for a challenge, signs its message with the wallet
  and exchanges the signature for an opaque session token; every account-scoped endpoint authenticates by
  the token.  Secrets are stored as hashes.  Random values, identifiers and the clock are arguments;
  \<open>verifyMessage\<close> of viem, which may ask the chain, is a field of the environment (\<open>None\<close> where it throws).
\<close>

definition CHALLENGE_TTL_MS :: int where
  "CHALLENGE_TTL_MS = 5 * 60000"

definition SESSION_TTL_MS :: int where
  "SESSION_TTL_MS = 12 * 60 * 60000"

abbreviation MAINNET_REQUIRED :: exn where
  "MAINNET_REQUIRED \<equiv> Unauthorized ''WALLET_AUTH_ARC_MAINNET_REQUIRED''"

abbreviation INVALID_SIGNATURE :: exn where
  "INVALID_SIGNATURE \<equiv> Unauthorized ''WALLET_AUTH_INVALID_SIGNATURE''"

abbreviation SESSION_REQUIRED :: exn where
  "SESSION_REQUIRED \<equiv> Unauthorized ''WALLET_AUTH_SESSION_REQUIRED''"

abbreviation CHALLENGE_USED :: string where
  "CHALLENGE_USED \<equiv> ''WALLET_AUTH_CHALLENGE_USED''"

section \<open>The tables\<close>

record challenge =
  chId :: string
  chNonceHash :: string
  chWallet :: string
  chChainId :: int
  chMessage :: string
  chExpiresAt :: int
  chUsedAt :: "int option"

record session =
  seId :: string
  seHash :: string
  seOwner :: string
  seWallet :: string
  seExpiresAt :: int
  seRevokedAt :: "int option"
  seLastUsedAt :: "int option"

record user_wallet =
  uwUser :: string
  uwEmail :: "string option"
  uwChain :: string
  uwBlockchain :: string
  uwWalletId :: string
  uwAddress :: string
  uwSetId :: "string option"

record auth_db =
  challenges :: "challenge list"
  sessions :: "session list"
  wallets :: "user_wallet list"

definition onChallenges :: "(challenge list, 'a) op \<Rightarrow> (auth_db, 'a) op" where
  "onChallenges m s = (case m (challenges s) of (r, T) \<Rightarrow> (r, s\<lparr>challenges := T\<rparr>))"

definition onSessions :: "(session list, 'a) op \<Rightarrow> (auth_db, 'a) op" where
  "onSessions m s = (case m (sessions s) of (r, T) \<Rightarrow> (r, s\<lparr>sessions := T\<rparr>))"

definition onWallets :: "(user_wallet list, 'a) op \<Rightarrow> (auth_db, 'a) op" where
  "onWallets m s = (case m (wallets s) of (r, T) \<Rightarrow> (r, s\<lparr>wallets := T\<rparr>))"

text \<open>The unique columns of the schema.\<close>

definition challenges_unique :: "challenge list \<Rightarrow> bool" where
  "challenges_unique T \<longleftrightarrow> distinct (map chId T) \<and> distinct (map chNonceHash T)"

definition sessions_unique :: "session list \<Rightarrow> bool" where
  "sessions_unique T \<longleftrightarrow> distinct (map seId T) \<and> distinct (map seHash T)"

definition wallets_unique :: "user_wallet list \<Rightarrow> bool" where
  "wallets_unique T \<longleftrightarrow> distinct (map uwWalletId T) \<and> distinct (map (\<lambda>w. (uwUser w, uwBlockchain w)) T)"

section \<open>Hashes, messages and tokens\<close>

record auth_env =
  authEvm :: evm
  verifyMessage :: "string \<Rightarrow> string \<Rightarrow> string \<Rightarrow> bool option"
  isoTime :: "int \<Rightarrow> string"

definition hash_in :: "evm \<Rightarrow> string \<Rightarrow> string \<Rightarrow> string" where
  "hash_in E domain value = sha256 E (domain @ [CHR 0x00] @ value)"

definition sessionHash :: "evm \<Rightarrow> string \<Rightarrow> string" where
  "sessionHash E token = hash_in E ''wizpay.wallet.session.v1'' token"

fun join_lines :: "string list \<Rightarrow> string" where
  "join_lines [] = []"
| "join_lines [l] = l"
| "join_lines (l # m # ls) = l @ CHR 0x0A # join_lines (m # ls)"

definition challenge_message :: "auth_env \<Rightarrow> string \<Rightarrow> string \<Rightarrow> int \<Rightarrow> int \<Rightarrow> string" where
  "challenge_message V address nonce issued expires = join_lines
     [''WizPay wallet authentication'', [],
      ''Sign this message to prove control of your wallet. This does not send a transaction or spend funds.'',
      ''Wallet: '' @ address, ''Chain ID: 5042'', ''Nonce: '' @ nonce,
      ''Issued At: '' @ isoTime V issued, ''Expiration Time: '' @ isoTime V expires]"

text \<open>\<open>/^Bearer\s+([^\s]+)$/i\<close>\<close>

definition bearerToken :: "string option \<Rightarrow> string res" where
  "bearerToken authorization =
     (case authorization of
        None \<Rightarrow> Inl SESSION_REQUIRED
      | Some a \<Rightarrow>
          let rest = drop 6 a; token = dropWhile is_space rest in
          bindR (ensureR (toLowerCase (take 6 a) = ''bearer'' \<and> takeWhile is_space rest \<noteq> [] \<and> token \<noteq> [] \<and>
            list_all (\<lambda>c. \<not> is_space c) token) SESSION_REQUIRED) (\<lambda>_. Inr token))"

definition hex_signature :: "string \<Rightarrow> bool" where
  "hex_signature v \<longleftrightarrow> take 2 v = ''0x'' \<and> drop 2 v \<noteq> [] \<and> list_all is_hex (drop 2 v)"

section \<open>Challenges\<close>

definition createChallenge ::
  "auth_env \<Rightarrow> int \<Rightarrow> string \<Rightarrow> string \<Rightarrow> string \<Rightarrow> int option \<Rightarrow> (auth_db, challenge) op" where
  "createChallenge V now nonce fresh raw chain =
     andThen (ensure (chain = Some 5042 \<and> isAddress (authEvm V) raw) MAINNET_REQUIRED) (\<lambda>_.
     andThen (lift (fromSome (PlainError ''InvalidAddressError'') (getAddress (authEvm V) raw))) (\<lambda>a.
     onChallenges (insertUnique challenges_unique
       \<lparr>chId = fresh, chNonceHash = hash_in (authEvm V) ''wizpay.wallet.challenge.v1'' nonce, chWallet = toLowerCase a,
        chChainId = 5042, chMessage = challenge_message V a nonce now (now + CHALLENGE_TTL_MS),
        chExpiresAt = now + CHALLENGE_TTL_MS, chUsedAt = None\<rparr>)))"

section \<open>Owners\<close>

definition EXTERNAL_WALLET_BLOCKCHAIN :: string where
  "EXTERNAL_WALLET_BLOCKCHAIN = ''ARC-MAINNET''"

definition external_id :: "string \<Rightarrow> string" where
  "external_id canonical = ''external:arc-mainnet:'' @ canonical"

definition wallets_at :: "string \<Rightarrow> user_wallet list \<Rightarrow> user_wallet list" where
  "wallets_at canonical T =
     filter (\<lambda>w. uwBlockchain w = EXTERNAL_WALLET_BLOCKCHAIN \<and> toLowerCase (uwAddress w) = canonical) T"

definition resolveOwner :: "auth_env \<Rightarrow> string \<Rightarrow> string \<Rightarrow> (auth_db, string) op" where
  "resolveOwner V fresh address =
     (let canonical = toLowerCase address in
      andThen (query (\<lambda>s. wallets_at canonical (wallets s))) (\<lambda>matches.
      andThen (ensure (length (remdups (map uwUser matches)) \<le> 1) (Conflict ''WALLET_AUTH_OWNER_CONFLICT'')) (\<lambda>_.
      case matches of
        w # _ \<Rightarrow> ok (uwUser w)
      | [] \<Rightarrow>
          andThen (query (\<lambda>s. find_row (\<lambda>w. uwWalletId w = external_id canonical) (wallets s))) (\<lambda>found.
          case found of
            Some w \<Rightarrow> ok (uwUser w)
          | None \<Rightarrow>
              andThen (lift (fromSome (PlainError ''InvalidAddressError'') (getAddress (authEvm V) address))) (\<lambda>a.
              andThen (onWallets (insertUnique wallets_unique
                \<lparr>uwUser = fresh, uwEmail = None, uwChain = ''EVM'', uwBlockchain = EXTERNAL_WALLET_BLOCKCHAIN,
                 uwWalletId = external_id canonical, uwAddress = a, uwSetId = None\<rparr>)) (\<lambda>w.
              ok (uwUser w)))))))"

section \<open>Sessions\<close>

record session_answer =
  anToken :: string
  anExpiresAt :: int
  anAddress :: string
  anUser :: string

text \<open>Fresh values one verification draws: the session token, the ids of a session and of a new owner.\<close>

record draws =
  drToken :: string
  drSession :: string
  drOwner :: string

definition openSession :: "auth_env \<Rightarrow> int \<Rightarrow> draws \<Rightarrow> string \<Rightarrow> string \<Rightarrow> (auth_db, string) op" where
  "openSession V now d i address = transaction
     (andThen (onChallenges (updateMany (\<lambda>c. chId c = i \<and> chUsedAt c = None \<and> now < chExpiresAt c)
        (\<lambda>c. c\<lparr>chUsedAt := Some now\<rparr>))) (\<lambda>count.
      andThen (ensure (count = 1) (Conflict CHALLENGE_USED)) (\<lambda>_.
      andThen (resolveOwner V (drOwner d) address) (\<lambda>owner.
      andThen (onSessions (updateMany (\<lambda>x. seOwner x = owner \<and> seRevokedAt x = None) (\<lambda>x. x\<lparr>seRevokedAt := Some now\<rparr>))) (\<lambda>_.
      andThen (onSessions (insertUnique sessions_unique
        \<lparr>seId = drSession d, seHash = sessionHash (authEvm V) (drToken d), seOwner = owner,
         seWallet = toLowerCase address, seExpiresAt = now + SESSION_TTL_MS, seRevokedAt = None, seLastUsedAt = None\<rparr>)) (\<lambda>_.
      ok owner))))))"

text \<open>\<open>others\<close> is what other requests do while the signature is checked.\<close>

definition verifyChallenge ::
  "auth_env \<Rightarrow> int \<Rightarrow> draws \<Rightarrow> (auth_db \<Rightarrow> auth_db) \<Rightarrow> string \<Rightarrow> string \<Rightarrow> (auth_db, session_answer) op" where
  "verifyChallenge V now d others i signature =
     andThen (ensure (hex_signature signature) INVALID_SIGNATURE) (\<lambda>_.
     andThen (query (\<lambda>s. find_row (\<lambda>c. chId c = i) (challenges s))) (\<lambda>found.
     case found of
       None \<Rightarrow> throw (Unauthorized ''WALLET_AUTH_CHALLENGE_EXPIRED'')
     | Some c \<Rightarrow>
         andThen (ensure (chUsedAt c = None) (Unauthorized CHALLENGE_USED)) (\<lambda>_.
         andThen (ensure (now < chExpiresAt c) (Unauthorized ''WALLET_AUTH_CHALLENGE_EXPIRED'')) (\<lambda>_.
         andThen (lift (fromSome (PlainError ''InvalidAddressError'') (getAddress (authEvm V) (chWallet c)))) (\<lambda>a.
         andThen (ensure (verifyMessage V a (chMessage c) signature = Some True) INVALID_SIGNATURE) (\<lambda>_.
         andThen (\<lambda>s. (Inr (), others s)) (\<lambda>_.
         andThen (openSession V now d (chId c) a) (\<lambda>owner.
         ok \<lparr>anToken = drToken d, anExpiresAt = now + SESSION_TTL_MS, anAddress = a, anUser = owner\<rparr>))))))))"

record principal =
  plUser :: string
  plWallet :: string

definition live_session :: "int \<Rightarrow> session \<Rightarrow> bool" where
  "live_session now x \<longleftrightarrow> seRevokedAt x = None \<and> now < seExpiresAt x"

definition authenticate :: "auth_env \<Rightarrow> int \<Rightarrow> string option \<Rightarrow> (auth_db, principal) op" where
  "authenticate V now authorization =
     andThen (lift (bearerToken authorization)) (\<lambda>token.
     andThen (query (\<lambda>s. find_row (\<lambda>x. seHash x = sessionHash (authEvm V) token \<and> live_session now x) (sessions s))) (\<lambda>found.
     case found of
       None \<Rightarrow> throw SESSION_REQUIRED
     | Some x \<Rightarrow>
         andThen (ensure (isAddress (authEvm V) (seWallet x)) SESSION_REQUIRED) (\<lambda>_.
         andThen (onSessions (updateMany (\<lambda>y. seId y = seId x \<and> live_session now y) (\<lambda>y. y\<lparr>seLastUsedAt := Some now\<rparr>))) (\<lambda>_.
         andThen (lift (fromSome (PlainError ''InvalidAddressError'') (getAddress (authEvm V) (seWallet x)))) (\<lambda>a.
         ok \<lparr>plUser = seOwner x, plWallet = a\<rparr>)))))"

definition revoke :: "auth_env \<Rightarrow> int \<Rightarrow> string option \<Rightarrow> (auth_db, unit) op" where
  "revoke V now authorization =
     andThen (lift (bearerToken authorization)) (\<lambda>token.
     andThen (onSessions (updateMany (\<lambda>x. seHash x = sessionHash (authEvm V) token \<and> seRevokedAt x = None)
       (\<lambda>x. x\<lparr>seRevokedAt := Some now\<rparr>))) (\<lambda>_. ok ()))"

section \<open>The registry of external wallets\<close>

definition trimmed :: "string option \<Rightarrow> string option" where
  "trimmed v = (case v of None \<Rightarrow> None | Some x \<Rightarrow> if js_trim x = [] then None else Some (js_trim x))"

abbreviation WALLET_EXISTS :: exn where
  "WALLET_EXISTS \<equiv> PlainError ''WALLET_ALREADY_EXISTS''"

definition requireWalletAddress :: "evm \<Rightarrow> string \<Rightarrow> string res" where
  "requireWalletAddress E address =
     bindR (ensureR (isAddress E (js_trim address)) (BadRequest [])) (\<lambda>_.
     fromSome (PlainError ''InvalidAddressError'') (getAddress E (js_trim address)))"

definition of_user :: "string \<Rightarrow> user_wallet \<Rightarrow> bool" where
  "of_user user w \<longleftrightarrow> uwUser w = user \<and> uwBlockchain w = EXTERNAL_WALLET_BLOCKCHAIN"

definition registerExternalWallet ::
  "auth_env \<Rightarrow> string \<Rightarrow> string \<Rightarrow> string option \<Rightarrow> (auth_db, user_wallet) op" where
  "registerExternalWallet V userId address email =
     andThen (lift (fromSome (BadRequest []) (trimmed (Some userId)))) (\<lambda>user.
     andThen (lift (requireWalletAddress (authEvm V) address)) (\<lambda>a.
     let mail = map_option toLowerCase (trimmed email); wid = external_id (toLowerCase a);
         row = \<lparr>uwUser = user, uwEmail = mail, uwChain = ''EVM'', uwBlockchain = EXTERNAL_WALLET_BLOCKCHAIN,
           uwWalletId = wid, uwAddress = a, uwSetId = None\<rparr> in
     andThen (query (\<lambda>s. find_row (\<lambda>w. uwWalletId w = wid) (wallets s))) (\<lambda>existing.
     case existing of
       Some w \<Rightarrow>
         andThen (ensure (uwUser w = user) WALLET_EXISTS) (\<lambda>_.
         andThen (onWallets (updateManyUnique wallets_unique (\<lambda>w. uwWalletId w = wid) (\<lambda>_. row))) (\<lambda>_. ok row))
     | None \<Rightarrow>
         andThen (query (\<lambda>s. find_row (of_user user) (wallets s))) (\<lambda>mine.
         case mine of
           Some w \<Rightarrow>
             andThen (onWallets (updateManyUnique wallets_unique (of_user user)
               (\<lambda>w. w\<lparr>uwAddress := a, uwEmail := mail, uwWalletId := wid, uwSetId := None\<rparr>))) (\<lambda>_.
             ok (w\<lparr>uwAddress := a, uwEmail := mail, uwWalletId := wid, uwSetId := None\<rparr>))
         | None \<Rightarrow> onWallets (insertUnique wallets_unique row)))))"

definition getExternalWalletByUser :: "string \<Rightarrow> (auth_db, user_wallet option) op" where
  "getExternalWalletByUser userId =
     (case trimmed (Some userId) of
        None \<Rightarrow> ok None
      | Some user \<Rightarrow> query (\<lambda>s. find_row (of_user user) (wallets s)))"

definition findExternalWalletsByAddress :: "auth_env \<Rightarrow> string \<Rightarrow> (auth_db, user_wallet list) op" where
  "findExternalWalletsByAddress V address =
     (if \<not> isAddress (authEvm V) (js_trim address) then ok []
      else andThen (lift (fromSome (PlainError ''InvalidAddressError'') (getAddress (authEvm V) (js_trim address)))) (\<lambda>a.
        query (\<lambda>s. wallets_at (toLowerCase a) (wallets s))))"

end
