(* ===== verification/WalletAuthProperties.thy ===== *)
theory WalletAuthProperties
  imports WalletAuth
begin

text \<open>
  What wallet authentication guarantees over any sequence of requests: an accepted token goes back to a
  signature of the wallet on a challenge of this service, a challenge is worth one session, and owners,
  wallets and live sessions correspond.
\<close>

section \<open>Sequences of requests\<close>

text \<open>A verification carries the requests that are served while its signature is checked.\<close>

datatype auth_call =
    Challenge int string string string "int option"
  | Verify int draws "auth_call list" string string
  | Authenticate int "string option"
  | Revoke int "string option"

fun do_call :: "auth_env \<Rightarrow> auth_call \<Rightarrow> auth_db \<Rightarrow> auth_db"
  and do_calls :: "auth_env \<Rightarrow> auth_call list \<Rightarrow> auth_db \<Rightarrow> auth_db" where
  "do_call V (Challenge now nonce fresh raw chain) = (\<lambda>s. snd (createChallenge V now nonce fresh raw chain s))"
| "do_call V (Verify now d cs i signature) = (\<lambda>s. snd (verifyChallenge V now d (do_calls V cs) i signature s))"
| "do_call V (Authenticate now authorization) = (\<lambda>s. snd (authenticate V now authorization s))"
| "do_call V (Revoke now authorization) = (\<lambda>s. snd (revoke V now authorization s))"
| "do_calls V [] = (\<lambda>s. s)"
| "do_calls V (c # cs) = (\<lambda>s. do_calls V cs (do_call V c s))"

fun served :: "auth_call \<Rightarrow> auth_call set" and all_served :: "auth_call list \<Rightarrow> auth_call set" where
  "served (Verify now d cs i signature) = insert (Verify now d cs i signature) (all_served cs)"
| "served (Challenge now nonce fresh raw chain) = {Challenge now nonce fresh raw chain}"
| "served (Authenticate now authorization) = {Authenticate now authorization}"
| "served (Revoke now authorization) = {Revoke now authorization}"
| "all_served [] = {}"
| "all_served (c # cs) = served c \<union> all_served cs"

definition empty_auth :: auth_db where
  "empty_auth = \<lparr>challenges = [], sessions = [], wallets = []\<rparr>"

section \<open>The invariant\<close>

definition challenge_from :: "auth_env \<Rightarrow> auth_call set \<Rightarrow> challenge \<Rightarrow> bool" where
  "challenge_from V S c \<longleftrightarrow>
     (\<exists>now nonce raw a. Challenge now nonce (chId c) raw (Some 5042) \<in> S \<and> getAddress (authEvm V) raw = Some a \<and>
        chWallet c = toLowerCase a \<and> chMessage c = challenge_message V a nonce now (now + CHALLENGE_TTL_MS) \<and>
        chExpiresAt c = now + CHALLENGE_TTL_MS)"

definition session_from :: "auth_env \<Rightarrow> auth_call set \<Rightarrow> session \<Rightarrow> bool" where
  "session_from V S x \<longleftrightarrow>
     (\<exists>now d cs c signature a. Verify now d cs (chId c) signature \<in> S \<and> challenge_from V S c \<and> now < chExpiresAt c \<and>
        getAddress (authEvm V) (chWallet c) = Some a \<and> verifyMessage V a (chMessage c) signature = Some True \<and>
        seHash x = sessionHash (authEvm V) (drToken d) \<and> seWallet x = toLowerCase a \<and>
        seExpiresAt x = now + SESSION_TTL_MS)"

definition wallet_ok :: "user_wallet list \<Rightarrow> bool" where
  "wallet_ok T \<longleftrightarrow> wallets_unique T \<and>
     (\<forall>w\<in>set T. uwBlockchain w = EXTERNAL_WALLET_BLOCKCHAIN \<and> uwWalletId w = external_id (toLowerCase (uwAddress w)))"

definition owned_session :: "user_wallet list \<Rightarrow> session \<Rightarrow> bool" where
  "owned_session T x \<longleftrightarrow> (\<exists>w\<in>set T. uwUser w = seOwner x \<and> toLowerCase (uwAddress w) = seWallet x)"

definition one_live :: "session list \<Rightarrow> bool" where
  "one_live T \<longleftrightarrow> (\<forall>x\<in>set T. \<forall>y\<in>set T. seRevokedAt x = None \<longrightarrow> seRevokedAt y = None \<longrightarrow> seOwner x = seOwner y \<longrightarrow>
     seId x = seId y)"

definition auth_inv :: "auth_env \<Rightarrow> auth_call set \<Rightarrow> auth_db \<Rightarrow> bool" where
  "auth_inv V S s \<longleftrightarrow> challenges_unique (challenges s) \<and> sessions_unique (sessions s) \<and> wallet_ok (wallets s) \<and>
     (\<forall>c\<in>set (challenges s). challenge_from V S c) \<and>
     (\<forall>x\<in>set (sessions s). session_from V S x \<and> owned_session (wallets s) x) \<and> one_live (sessions s)"

named_theorems auth_defs "the statements of the authentication service"

lemmas [auth_defs] = op_defs onChallenges_def onSessions_def onWallets_def updateMany_def updateManyUnique_def insertUnique_def

lemma update_fields:
  "(\<And>x. f (g x) = f x) \<Longrightarrow> map f (update_rows p g T) = map f T"
  by (simp add: update_rows_def comp_def)

text \<open>Updates of a session that leave what it proves alone.\<close>

lemma session_update:
  assumes "auth_inv V S s" "\<And>x. seId (g x) = seId x \<and> seHash (g x) = seHash x \<and> seOwner (g x) = seOwner x \<and>
      seWallet (g x) = seWallet x \<and> seExpiresAt (g x) = seExpiresAt x \<and> (seRevokedAt (g x) = None \<longrightarrow> seRevokedAt x = None)"
  shows "auth_inv V S (s\<lparr>sessions := update_rows p g (sessions s)\<rparr>)"
proof -
  have same: "\<And>y. y \<in> set (update_rows p g (sessions s)) \<Longrightarrow> \<exists>x\<in>set (sessions s). seId y = seId x \<and> seHash y = seHash x \<and> seOwner y = seOwner x \<and> seWallet y = seWallet x \<and>
      seExpiresAt y = seExpiresAt x \<and> (seRevokedAt y = None \<longrightarrow> seRevokedAt x = None)"
    using assms(2) by (auto simp: update_rows_def)
  have "sessions_unique (update_rows p g (sessions s))"
    using assms by (simp add: auth_inv_def sessions_unique_def update_fields)
  moreover have "session_from V S y \<and> owned_session (wallets s) y" if y: "y \<in> set (update_rows p g (sessions s))" for y
  proof -
    obtain x where "x \<in> set (sessions s)" "seHash y = seHash x" "seOwner y = seOwner x" "seWallet y = seWallet x"
        "seExpiresAt y = seExpiresAt x" using same [OF y] by blast
    then show ?thesis using assms(1) unfolding auth_inv_def session_from_def owned_session_def by metis
  qed
  moreover have "one_live (update_rows p g (sessions s))"
    unfolding one_live_def
  proof (intro ballI impI)
    fix y z
    assume y: "y \<in> set (update_rows p g (sessions s))" and z: "z \<in> set (update_rows p g (sessions s))"
      and live: "seRevokedAt y = None" "seRevokedAt z = None" "seOwner y = seOwner z"
    from same [rule_format, OF y] same [rule_format, OF z] live assms(1) show "seId y = seId z"
      unfolding auth_inv_def one_live_def by metis
  qed
  ultimately show ?thesis using assms(1) by (simp add: auth_inv_def)
qed

lemma challenge_update:
  assumes "auth_inv V S s" "\<And>c. chId (g c) = chId c \<and> chNonceHash (g c) = chNonceHash c \<and> chWallet (g c) = chWallet c \<and>
      chMessage (g c) = chMessage c \<and> chExpiresAt (g c) = chExpiresAt c"
  shows "auth_inv V S (s\<lparr>challenges := update_rows p g (challenges s)\<rparr>)"
proof -
  have "challenges_unique (update_rows p g (challenges s))"
    using assms by (simp add: auth_inv_def challenges_unique_def update_fields)
  moreover have "challenge_from V S c" if c: "c \<in> set (update_rows p g (challenges s))" for c
  proof -
    obtain b where "b \<in> set (challenges s)" "chId c = chId b" "chWallet c = chWallet b" "chMessage c = chMessage b"
        "chExpiresAt c = chExpiresAt b"
      using c assms(2) by (auto simp: update_rows_def)
    then show ?thesis using assms(1) by (simp add: auth_inv_def challenge_from_def)
  qed
  ultimately show ?thesis using assms(1) by (simp add: auth_inv_def)
qed

lemma createChallenge_inv:
  assumes "auth_inv V S s" "Challenge now nonce fresh raw chain \<in> S"
  shows "auth_inv V S (snd (createChallenge V now nonce fresh raw chain s))"
proof (cases "chain = Some 5042 \<and> isAddress (authEvm V) raw")
  case True
  show ?thesis
  proof (cases "getAddress (authEvm V) raw")
    case (Some a)
    then show ?thesis
      using True assms by (auto simp: createChallenge_def auth_defs fromSome_def auth_inv_def challenge_from_def)
  qed (use True assms(1) in \<open>simp add: createChallenge_def auth_defs fromSome_def\<close>)
qed (use assms(1) in \<open>auto simp: createChallenge_def auth_defs\<close>)

lemma authenticate_inv: "auth_inv V S s \<Longrightarrow> auth_inv V S (snd (authenticate V now authorization s))"
  using session_update [of V S s "\<lambda>x. x\<lparr>seLastUsedAt := Some now\<rparr>"]
  by (auto simp: authenticate_def auth_defs split: option.splits sum.splits)

lemma revoke_inv: "auth_inv V S s \<Longrightarrow> auth_inv V S (snd (revoke V now authorization s))"
  using session_update [of V S s "\<lambda>x. x\<lparr>seRevokedAt := Some now\<rparr>"]
  by (auto simp: revoke_def auth_defs split: sum.splits)

lemma find_row_strict: "find_row p T = Some x \<Longrightarrow> q x \<Longrightarrow> find_row (\<lambda>x. p x \<and> q x) T = Some x"
  by (induction T) (auto split: if_splits)

section \<open>Opening a session\<close>

lemma resolveOwner_ok:
  assumes "resolveOwner V fresh a s = (Inr owner, s')" "wallet_ok (wallets s)" "\<And>a b. getAddress (authEvm V) a = Some b \<Longrightarrow> toLowerCase b = toLowerCase a"
  shows "wallet_ok (wallets s')" "set (wallets s) \<subseteq> set (wallets s')" "challenges s' = challenges s" "sessions s' = sessions s"
    "\<exists>w\<in>set (wallets s'). uwUser w = owner \<and> toLowerCase (uwAddress w) = toLowerCase a"
proof -
  let ?ok = "wallet_ok (wallets s') \<and> set (wallets s) \<subseteq> set (wallets s') \<and> challenges s' = challenges s \<and>
      sessions s' = sessions s \<and> (\<exists>w\<in>set (wallets s'). uwUser w = owner \<and> toLowerCase (uwAddress w) = toLowerCase a)"
  have ?ok
  proof (cases "wallets_at (toLowerCase a) (wallets s)")
    case (Cons w ws)
    then have "w \<in> set (wallets_at (toLowerCase a) (wallets s))" by simp
    then have "w \<in> set (wallets s)" "toLowerCase (uwAddress w) = toLowerCase a" by (simp_all add: wallets_at_def)
    moreover have "s' = s \<and> owner = uwUser w"
      using assms(1) Cons by (simp add: resolveOwner_def Let_def andThen_Inr_iff)
    ultimately show ?thesis using assms(2) by auto
  next
    case Nil
    show ?thesis
    proof (cases "find_row (\<lambda>w. uwWalletId w = external_id (toLowerCase a)) (wallets s)")
      case (Some w)
      then have "s' = s \<and> owner = uwUser w" using assms(1) Nil by (simp add: resolveOwner_def Let_def andThen_Inr_iff)
      then show ?thesis using assms(2) find_row_Some [OF Some] by (auto simp: wallet_ok_def external_id_def)
    next
      case None
      obtain b where b: "getAddress (authEvm V) a = Some b"
        using assms(1) Nil None by (auto simp: resolveOwner_def Let_def andThen_Inr_iff)
      let ?w = "\<lparr>uwUser = fresh, uwEmail = None, uwChain = ''EVM'', uwBlockchain = EXTERNAL_WALLET_BLOCKCHAIN,
                 uwWalletId = external_id (toLowerCase a), uwAddress = b, uwSetId = None\<rparr>"
      have "wallets_unique (wallets s @ [?w]) \<and> s' = s\<lparr>wallets := wallets s @ [?w]\<rparr> \<and> owner = fresh"
        using assms(1) Nil None b
        by (simp add: resolveOwner_def Let_def andThen_Inr_iff onWallets_def insertUnique_def split: if_splits)
          (elim exE conjE, simp)
      then show ?thesis using assms(2) assms(3) [OF b] by (auto simp: wallet_ok_def)
    qed
  qed
  then show "wallet_ok (wallets s')" "set (wallets s) \<subseteq> set (wallets s')" "challenges s' = challenges s" "sessions s' = sessions s"
    "\<exists>w\<in>set (wallets s'). uwUser w = owner \<and> toLowerCase (uwAddress w) = toLowerCase a" by blast+
qed

lemma owned_mono: "owned_session T x \<Longrightarrow> set T \<subseteq> set U \<Longrightarrow> owned_session U x"
  by (auto simp: owned_session_def)

lemma statements_Inr:
  "onChallenges (updateMany p f) s = (Inr n, s') \<longleftrightarrow>
     n = count_rows p (challenges s) \<and> s' = s\<lparr>challenges := update_rows p f (challenges s)\<rparr>"
  "onSessions (updateMany q g) s = (Inr n, s') \<longleftrightarrow>
     n = count_rows q (sessions s) \<and> s' = s\<lparr>sessions := update_rows q g (sessions s)\<rparr>"
  "onSessions (insertUnique u x) s = (Inr y, s') \<longleftrightarrow>
     y = x \<and> u (sessions s @ [x]) \<and> s' = s\<lparr>sessions := sessions s @ [x]\<rparr>"
  by (auto simp: onChallenges_def onSessions_def updateMany_def insertUnique_def)

text \<open>A verified session enters the table when all others of its owner are revoked.\<close>

lemma session_insert:
  assumes "auth_inv V S s" "\<forall>x\<in>set (sessions s). seOwner x = seOwner y \<longrightarrow> seRevokedAt x \<noteq> None"
    "sessions_unique (sessions s @ [y])" "session_from V S y" "owned_session (wallets s) y"
  shows "auth_inv V S (s\<lparr>sessions := sessions s @ [y]\<rparr>)"
proof -
  have "one_live (sessions s @ [y])"
    unfolding one_live_def
  proof (intro ballI impI)
    fix x z
    assume x: "x \<in> set (sessions s @ [y])" and z: "z \<in> set (sessions s @ [y])"
      and live: "seRevokedAt x = None" "seRevokedAt z = None" "seOwner x = seOwner z"
    show "seId x = seId z"
    proof (cases "x = y \<or> z = y")
      case True
      then have "x = z" using x z live assms(2) by (metis rotate1.simps(2) set_ConsD set_rotate1)
      then show ?thesis by simp
    next
      case False
      then have "x \<in> set (sessions s)" "z \<in> set (sessions s)" using x z by simp_all
      moreover have "one_live (sessions s)" using assms(1) by (simp add: auth_inv_def)
      ultimately show ?thesis using live unfolding one_live_def by blast
    qed
  qed
  then show ?thesis using assms by (simp add: auth_inv_def)
qed

definition used_at :: "int \<Rightarrow> string \<Rightarrow> auth_db \<Rightarrow> auth_db" where
  "used_at now i s = s\<lparr>challenges := update_rows (\<lambda>c. chId c = i \<and> chUsedAt c = None \<and> now < chExpiresAt c)
     (\<lambda>c. c\<lparr>chUsedAt := Some now\<rparr>) (challenges s)\<rparr>"

definition revoked_at :: "int \<Rightarrow> string \<Rightarrow> auth_db \<Rightarrow> auth_db" where
  "revoked_at now owner s = s\<lparr>sessions := update_rows (\<lambda>x. seOwner x = owner \<and> seRevokedAt x = None)
     (\<lambda>x. x\<lparr>seRevokedAt := Some now\<rparr>) (sessions s)\<rparr>"

definition new_session :: "auth_env \<Rightarrow> int \<Rightarrow> draws \<Rightarrow> string \<Rightarrow> string \<Rightarrow> session" where
  "new_session V now d owner a = \<lparr>seId = drSession d, seHash = sessionHash (authEvm V) (drToken d), seOwner = owner,
     seWallet = toLowerCase a, seExpiresAt = now + SESSION_TTL_MS, seRevokedAt = None, seLastUsedAt = None\<rparr>"

lemma updated_row: "x \<in> set (update_rows p f T) \<Longrightarrow> \<exists>z\<in>set T. x = (if p z then f z else z)"
  unfolding update_rows_def set_map by blast

lemma revoked_all:
  assumes "x \<in> set (sessions (revoked_at now owner s))" "seOwner x = owner"
  shows "seRevokedAt x \<noteq> None"
proof -
  have "x \<in> set (update_rows (\<lambda>x. seOwner x = owner \<and> seRevokedAt x = None) (\<lambda>x. x\<lparr>seRevokedAt := Some now\<rparr>) (sessions s))"
    using assms(1) by (simp add: revoked_at_def)
  from updated_row [OF this] obtain z
    where "x = (if seOwner z = owner \<and> seRevokedAt z = None then z\<lparr>seRevokedAt := Some now\<rparr> else z)" by blast
  with assms(2) show ?thesis by (cases "seOwner z = owner \<and> seRevokedAt z = None") auto
qed

lemma openSession_Inr:
  "openSession V now d i a s = (Inr owner, s') \<longleftrightarrow>
     count_rows (\<lambda>c. chId c = i \<and> chUsedAt c = None \<and> now < chExpiresAt c) (challenges s) = 1 \<and>
     (\<exists>s2. resolveOwner V (drOwner d) a (used_at now i s) = (Inr owner, s2) \<and>
        sessions_unique (sessions (revoked_at now owner s2) @ [new_session V now d owner a]) \<and>
        s' = (revoked_at now owner s2)\<lparr>sessions := sessions (revoked_at now owner s2) @ [new_session V now d owner a]\<rparr>)"
  by (simp add: openSession_def transaction_Inr andThen_Inr_iff statements_Inr used_at_def revoked_at_def new_session_def
      eq_commute [of s'])

lemma transaction_Inl: "transaction m s = (Inl e, t) \<Longrightarrow> t = s"
  by (auto simp: transaction_def split: prod.splits sum.splits)

lemma openSession_Inl: "openSession V now d i a s = (Inl e, s') \<Longrightarrow> s' = s"
  unfolding openSession_def by (rule transaction_Inl)

lemma openSession_inv:
  assumes "evm_laws (authEvm V)" "auth_inv V S s" "openSession V now d i a s = (r, s')"
    and "\<And>x. seHash x = sessionHash (authEvm V) (drToken d) \<Longrightarrow> seWallet x = toLowerCase a \<Longrightarrow>
      seExpiresAt x = now + SESSION_TTL_MS \<Longrightarrow> session_from V S x"
  shows "auth_inv V S s'"
proof (cases r)
  case (Inl e)
  then show ?thesis using assms(2,3) openSession_Inl by metis
next
  case (Inr owner)
  let ?s1 = "used_at now i s" and ?y = "new_session V now d owner a"
  obtain s2 where s2: "resolveOwner V (drOwner d) a ?s1 = (Inr owner, s2)"
    and unique: "sessions_unique (sessions (revoked_at now owner s2) @ [?y])"
    and s': "s' = (revoked_at now owner s2)\<lparr>sessions := sessions (revoked_at now owner s2) @ [?y]\<rparr>"
    using assms(3) [unfolded Inr openSession_Inr] by blast
  have i1: "auth_inv V S ?s1" unfolding used_at_def by (rule challenge_update [OF assms(2)]) simp
  have "wallet_ok (wallets ?s1)" using i1 by (simp add: auth_inv_def)
  note owner = resolveOwner_ok [OF s2 this getAddress_Some(1) [OF assms(1)]]
  have i2: "auth_inv V S s2"
    using i1 owner(1) owned_mono [OF _ owner(2)] by (simp add: auth_inv_def owner(3,4))
  have i3: "auth_inv V S (revoked_at now owner s2)" unfolding revoked_at_def by (rule session_update [OF i2]) simp
  have w: "wallets (revoked_at now owner s2) = wallets s2" by (simp add: revoked_at_def)
  show ?thesis
    unfolding s'
  proof (rule session_insert [OF i3 _ unique])
    show "\<forall>x\<in>set (sessions (revoked_at now owner s2)). seOwner x = seOwner ?y \<longrightarrow> seRevokedAt x \<noteq> None"
      using revoked_all by (simp add: new_session_def)
    show "session_from V S ?y" by (rule assms(4)) (simp_all add: new_session_def)
    show "owned_session (wallets (revoked_at now owner s2)) ?y" using owner(5) by (auto simp: w owned_session_def new_session_def)
  qed
qed

lemma challenge_row: "auth_inv V S s \<Longrightarrow> find_row (\<lambda>c. chId c = i) (challenges s) = Some c \<Longrightarrow> challenge_from V S c \<and> chId c = i"
  using find_row_Some by (fastforce simp: auth_inv_def)

lemma verifyChallenge_inv:
  assumes "evm_laws (authEvm V)" "auth_inv V S s" "Verify now d cs i signature \<in> S" "auth_inv V S (others s)"
  shows "auth_inv V S (snd (verifyChallenge V now d others i signature s))"
proof (cases "\<exists>c a. find_row (\<lambda>c. chId c = i) (challenges s) = Some c \<and> now < chExpiresAt c \<and>
    getAddress (authEvm V) (chWallet c) = Some a \<and> verifyMessage V a (chMessage c) signature = Some True")
  case False
  then have "snd (verifyChallenge V now d others i signature s) = s"
    by (auto simp: verifyChallenge_def op_defs fromSome_def split: option.splits)
  with assms(2) show ?thesis by simp
next
  case True
  then obtain c a where c: "find_row (\<lambda>c. chId c = i) (challenges s) = Some c" "now < chExpiresAt c"
      "getAddress (authEvm V) (chWallet c) = Some a" "verifyMessage V a (chMessage c) signature = Some True" by blast
  have c': "challenge_from V S c" "chId c = i" using challenge_row [OF assms(2) c(1)] by simp_all
  have "session_from V S x" if "seHash x = sessionHash (authEvm V) (drToken d)" "seWallet x = toLowerCase a"
      "seExpiresAt x = now + SESSION_TTL_MS" for x
    unfolding session_from_def using assms(3) c c' that by blast
  then have opened: "auth_inv V S (snd (openSession V now d i a (others s)))"
    using openSession_inv [OF assms(1,4)] by (metis prod.collapse)
  have "snd (verifyChallenge V now d others i signature s) \<in> {s, snd (openSession V now d i a (others s))}"
    using c c'(2) by (auto simp: verifyChallenge_def andThen_def ensure_def query_def throw_def lift_def ok_def fromSome_def
        split: prod.splits sum.splits)
  then show ?thesis using opened assms(2) by auto
qed

lemma auth_inv_calls:
  shows "evm_laws (authEvm V) \<Longrightarrow> served c \<subseteq> S \<Longrightarrow> auth_inv V S s \<Longrightarrow> auth_inv V S (do_call V c s)"
    "evm_laws (authEvm V) \<Longrightarrow> all_served cs \<subseteq> S \<Longrightarrow> auth_inv V S s \<Longrightarrow> auth_inv V S (do_calls V cs s)"
proof (induction V c and V cs arbitrary: s and s rule: do_call_do_calls.induct)
qed (auto intro!: createChallenge_inv verifyChallenge_inv authenticate_inv revoke_inv)

lemma empty_inv: "auth_inv V S empty_auth"
  by (simp add: auth_inv_def empty_auth_def challenges_unique_def sessions_unique_def wallet_ok_def wallets_unique_def one_live_def)

lemma auth_inv_reached:
  assumes "evm_laws (authEvm V)"
  shows "auth_inv V (all_served cs) (do_calls V cs empty_auth)"
    "auth_inv V (all_served cs \<union> all_served ds) (do_calls V ds (do_calls V cs empty_auth))"
  using auth_inv_calls(2) [OF assms _ empty_inv] auth_inv_calls(2) [OF assms _ auth_inv_calls(2) [OF assms _ empty_inv]]
  by simp_all

section \<open>What a session proves\<close>

lemma authenticate_Inr:
  assumes "authenticate V now authorization s = (Inr p, s')"
  obtains token x where "bearerToken authorization = Inr token" "x \<in> set (sessions s)"
    "seHash x = sessionHash (authEvm V) token" "live_session now x" "getAddress (authEvm V) (seWallet x) = Some (plWallet p)"
    "seOwner x = plUser p"
proof -
  obtain token x where x: "bearerToken authorization = Inr token"
      "find_row (\<lambda>x. seHash x = sessionHash (authEvm V) token \<and> live_session now x) (sessions s) = Some x"
      "getAddress (authEvm V) (seWallet x) = Some (plWallet p)" "seOwner x = plUser p"
    using assms by (auto simp: authenticate_def andThen_Inr_iff split: option.splits)
  from find_row_Some [OF x(2)] x that show thesis by blast
qed

text \<open>
  C28: a token is worth what was signed for it.  When a request is authenticated, whatever requests were
  served before, then the wallet it is answered with has signed the message of a challenge this service
  made for that wallet, the signature was presented within five minutes of the challenge, a token with the
  same hash was drawn for it, and the request comes within twelve hours.
\<close>

theorem session_proves_signature:
  assumes "evm_laws (authEvm V)" "authenticate V now authorization (do_calls V cs empty_auth) = (Inr p, s)"
  shows "\<exists>token asked nonce i raw verified d ds signature.
    bearerToken authorization = Inr token \<and>
    Challenge asked nonce i raw (Some 5042) \<in> all_served cs \<and> Verify verified d ds i signature \<in> all_served cs \<and>
    getAddress (authEvm V) raw = Some (plWallet p) \<and>
    verifyMessage V (plWallet p) (challenge_message V (plWallet p) nonce asked (asked + CHALLENGE_TTL_MS)) signature = Some True \<and>
    sessionHash (authEvm V) token = sessionHash (authEvm V) (drToken d) \<and>
    verified < asked + CHALLENGE_TTL_MS \<and> now < verified + SESSION_TTL_MS"
proof -
  obtain token x where x: "bearerToken authorization = Inr token" "x \<in> set (sessions (do_calls V cs empty_auth))"
      "seHash x = sessionHash (authEvm V) token" "live_session now x" "getAddress (authEvm V) (seWallet x) = Some (plWallet p)"
    using authenticate_Inr [OF assms(2)] by metis
  then have "session_from V (all_served cs) x" using auth_inv_reached(1) [OF assms(1)] by (simp add: auth_inv_def)
  then obtain verified d ds c signature a where c: "Verify verified d ds (chId c) signature \<in> all_served cs"
      "challenge_from V (all_served cs) c" "verified < chExpiresAt c" "getAddress (authEvm V) (chWallet c) = Some a"
      "verifyMessage V a (chMessage c) signature = Some True" "seHash x = sessionHash (authEvm V) (drToken d)"
      "seWallet x = toLowerCase a" "seExpiresAt x = verified + SESSION_TTL_MS"
    unfolding session_from_def by blast
  then obtain asked nonce raw b where b: "Challenge asked nonce (chId c) raw (Some 5042) \<in> all_served cs"
      "getAddress (authEvm V) raw = Some b" "chWallet c = toLowerCase b"
      "chMessage c = challenge_message V b nonce asked (asked + CHALLENGE_TTL_MS)" "chExpiresAt c = asked + CHALLENGE_TTL_MS"
    unfolding challenge_from_def by blast
  have lower: "toLowerCase a = toLowerCase (chWallet c)" "toLowerCase (plWallet p) = toLowerCase (seWallet x)"
    using getAddress_Some(1) [OF assms(1)] c(4) x(5) by blast+
  have "b = a" using getAddress_unique [OF assms(1) getAddress_canonical [OF assms(1) b(2)] c(4)] lower(1) b(3) by simp
  moreover have "plWallet p = a"
    using getAddress_unique [OF assms(1) x(5) getAddress_canonical [OF assms(1) c(4)]] c(7) by simp
  moreover have "now < verified + SESSION_TTL_MS" using x(4) c(8) by (simp add: live_session_def)
  ultimately show ?thesis using x(1,3) b c by (metis (no_types))
qed

text \<open>
  C30: owners, wallets and sessions.  After any sequence of requests two sessions have the same owner exactly
  when they are of the same wallet, and an owner has at most one session that is not revoked.
\<close>

theorem one_owner_one_session:
  assumes "evm_laws (authEvm V)" "x \<in> set (sessions (do_calls V cs empty_auth))" "y \<in> set (sessions (do_calls V cs empty_auth))"
  shows "(seOwner x = seOwner y \<longleftrightarrow> seWallet x = seWallet y) \<and>
    (seRevokedAt x = None \<and> seRevokedAt y = None \<and> seWallet x = seWallet y \<longrightarrow> x = y)"
proof -
  let ?s = "do_calls V cs empty_auth"
  have ok: "auth_inv V (all_served cs) ?s" by (rule auth_inv_reached(1) [OF assms(1)])
  have owned: "owned_session (wallets ?s) x" "owned_session (wallets ?s) y"
    using ok assms(2,3) by (simp_all add: auth_inv_def)
  obtain v w where v: "v \<in> set (wallets ?s)" "uwUser v = seOwner x" "toLowerCase (uwAddress v) = seWallet x"
    and w: "w \<in> set (wallets ?s)" "uwUser w = seOwner y" "toLowerCase (uwAddress w) = seWallet y"
    using owned by (auto simp: owned_session_def)
  have table: "wallet_ok (wallets ?s)" using ok by (simp add: auth_inv_def)
  then have inj: "inj_on uwWalletId (set (wallets ?s))" "inj_on (\<lambda>w. (uwUser w, uwBlockchain w)) (set (wallets ?s))"
    by (simp_all add: wallet_ok_def wallets_unique_def distinct_map)
  have ids: "uwWalletId v = external_id (seWallet x)" "uwWalletId w = external_id (seWallet y)" "uwBlockchain v = uwBlockchain w"
    using table v w by (simp_all add: wallet_ok_def)
  have "v = w" if "seOwner x = seOwner y"
    by (rule inj_onD [OF inj(2) _ v(1) w(1)]) (simp add: that ids v w)
  moreover have "v = w" if "seWallet x = seWallet y"
    by (rule inj_onD [OF inj(1) _ v(1) w(1)]) (simp add: that ids)
  ultimately have same: "seOwner x = seOwner y \<longleftrightarrow> v = w" "seWallet x = seWallet y \<longleftrightarrow> v = w"
    using v(2,3) w(2,3) by metis+
  moreover have "x = y" if "seRevokedAt x = None" "seRevokedAt y = None" "seOwner x = seOwner y"
  proof -
    have "one_live (sessions ?s)" "distinct (map seId (sessions ?s))"
      using ok by (simp_all add: auth_inv_def sessions_unique_def)
    then show ?thesis using that assms(2,3) unfolding one_live_def distinct_map inj_on_def by blast
  qed
  ultimately show ?thesis by blast
qed

section \<open>A challenge is used once\<close>

definition challenge_evolves :: "challenge \<Rightarrow> challenge \<Rightarrow> bool" where
  "challenge_evolves c d \<longleftrightarrow> chId d = chId c \<and> chWallet d = chWallet c \<and> chMessage d = chMessage c \<and>
     chExpiresAt d = chExpiresAt c \<and> (chUsedAt c \<noteq> None \<longrightarrow> chUsedAt d = chUsedAt c)"

interpretation challenge_rows: row_evolution chId challenge_evolves
  by unfold_locales (auto simp: challenge_evolves_def)

definition keeps_challenges :: "auth_db \<Rightarrow> auth_db \<Rightarrow> bool" where
  "keeps_challenges s t \<longleftrightarrow> table_evolves challenge_evolves (challenges s) (challenges t)"

lemma challenges_refl: "reflp keeps_challenges"
  using challenge_rows.table_refl by (auto simp: reflp_def keeps_challenges_def)

lemma challenges_trans: "transp keeps_challenges"
  using challenge_rows.table_trans unfolding transp_def keeps_challenges_def by blast

lemma keeps_tables:
  "keeps (table_evolves challenge_evolves) m \<Longrightarrow> keeps keeps_challenges (onChallenges m)"
  "keeps keeps_challenges (onSessions n)" "keeps keeps_challenges (onWallets k)"
  using challenges_refl
  by (auto simp: keeps_def keeps_challenges_def onChallenges_def onSessions_def onWallets_def reflp_def split: prod.splits)
    (metis snd_conv)

lemmas keeps_auth = keeps_ok [OF challenges_refl] keeps_throw [OF challenges_refl] keeps_query [OF challenges_refl]
  keeps_ensure [OF challenges_refl] keeps_lift [OF challenges_refl] keeps_andThen [OF challenges_trans]
  keeps_transaction [OF challenges_refl] keeps_tables challenge_rows.keeps_insertUnique challenge_rows.keeps_updateMany keeps_split

lemma keeps_resolveOwner: "keeps keeps_challenges (resolveOwner V fresh a)"
  unfolding resolveOwner_def Let_def
  by (intro keeps_auth) (auto split: list.splits intro!: keeps_auth)

lemma keeps_openSession: "keeps keeps_challenges (openSession V now d i a)"
  unfolding openSession_def
  by (intro keeps_auth keeps_resolveOwner) (auto simp: challenge_evolves_def)

lemma keeps_calls:
  "keeps_challenges s (do_call V c s)" "keeps_challenges s (do_calls V cs s)"
proof (induction V c and V cs arbitrary: s and s rule: do_call_do_calls.induct)
  case (1 V now nonce fresh raw chain)
  have "keeps keeps_challenges (createChallenge V now nonce fresh raw chain)"
    unfolding createChallenge_def by (intro keeps_auth)
  then show ?case by (simp add: keeps_def)
next
  case (2 V now d cs i signature)
  have "keeps keeps_challenges (\<lambda>s. (Inr (), do_calls V cs s) :: unit res \<times> auth_db)" using 2 by (simp add: keeps_def)
  then have "keeps keeps_challenges (verifyChallenge V now d (do_calls V cs) i signature)"
    unfolding verifyChallenge_def by (intro keeps_auth keeps_openSession)
  then show ?case by (simp add: keeps_def)
next
  case (3 V now authorization)
  have "keeps keeps_challenges (authenticate V now authorization)"
    unfolding authenticate_def by (intro keeps_auth)
  then show ?case by (simp add: keeps_def)
next
  case (4 V now authorization)
  have "keeps keeps_challenges (revoke V now authorization)"
    unfolding revoke_def by (intro keeps_auth)
  then show ?case by (simp add: keeps_def)
next
  case (5 V)
  then show ?case using challenges_refl by (simp add: reflp_def)
next
  case (6 V c cs)
  then show ?case using challenges_trans by (simp add: transp_def) blast
qed

lemma verifyChallenge_Inr:
  assumes "verifyChallenge V now d others i signature s = (Inr ans, s')"
  obtains c where "find_row (\<lambda>c. chId c = i) (challenges s) = Some c" "chUsedAt c = None" "now < chExpiresAt c"
    "getAddress (authEvm V) (chWallet c) = Some (anAddress ans)"
    "openSession V now d i (anAddress ans) (others s) = (Inr (anUser ans), s')"
    "anToken ans = drToken d" "anExpiresAt ans = now + SESSION_TTL_MS"
proof -
  obtain c where c: "find_row (\<lambda>c. chId c = i) (challenges s) = Some c" "chUsedAt c = None" "now < chExpiresAt c"
      "getAddress (authEvm V) (chWallet c) = Some (anAddress ans)"
      "openSession V now d (chId c) (anAddress ans) (others s) = (Inr (anUser ans), s')"
      "anToken ans = drToken d" "anExpiresAt ans = now + SESSION_TTL_MS"
    using assms by (auto simp: verifyChallenge_def andThen_Inr_iff split: option.splits)
  with that find_row_Some [OF c(1)] show thesis by blast
qed

lemma openSession_spends:
  assumes "evm_laws (authEvm V)" "auth_inv V S s" "openSession V now d i a s = (Inr owner, s')"
  shows "\<exists>c. find_row (\<lambda>c. chId c = i) (challenges s') = Some c \<and> chUsedAt c = Some now"
    "find_row (\<lambda>x. seHash x = sessionHash (authEvm V) (drToken d)) (sessions s') = Some (new_session V now d owner a)"
proof -
  obtain s2 where one: "count_rows (\<lambda>c. chId c = i \<and> chUsedAt c = None \<and> now < chExpiresAt c) (challenges s) = 1"
    and s2: "resolveOwner V (drOwner d) a (used_at now i s) = (Inr owner, s2)"
    and unique: "sessions_unique (sessions (revoked_at now owner s2) @ [new_session V now d owner a])"
    and s': "s' = (revoked_at now owner s2)\<lparr>sessions := sessions (revoked_at now owner s2) @ [new_session V now d owner a]\<rparr>"
    using assms(3) unfolding openSession_Inr by blast
  have ids: "distinct (map chId (challenges s))" "wallet_ok (wallets (used_at now i s))"
    using assms(2) by (simp_all add: auth_inv_def challenges_unique_def used_at_def)
  have "challenges s' = challenges s2" by (simp add: s' revoked_at_def)
  also have "\<dots> = challenges (used_at now i s)"
    by (rule resolveOwner_ok(3) [OF s2 ids(2) getAddress_Some(1) [OF assms(1)]])
  finally have same: "challenges s' = challenges (used_at now i s)" .
  from one count_unique [OF ids(1), of i] obtain c where c: "find_row (\<lambda>c. chId c = i) (challenges s) = Some c"
      "chUsedAt c = None" "now < chExpiresAt c"
    by (auto split: option.splits if_splits)
  with find_row_Some [OF c(1)] show "\<exists>c. find_row (\<lambda>c. chId c = i) (challenges s') = Some c \<and> chUsedAt c = Some now"
    unfolding same used_at_def by (simp add: find_update)
  have "new_session V now d owner a \<in> set (sessions s')" "distinct (map seHash (sessions s'))"
    using unique by (simp_all add: s' sessions_unique_def)
  from find_row_unique [OF this(2,1)]
  show "find_row (\<lambda>x. seHash x = sessionHash (authEvm V) (drToken d)) (sessions s') = Some (new_session V now d owner a)"
    by (simp add: new_session_def)
qed

text \<open>
  C29: a challenge is worth one session.  Once a verification of a challenge has succeeded, whatever was served
  before, meanwhile and since, every further verification of it is refused and changes nothing.
\<close>

theorem challenge_once:
  assumes "evm_laws (authEvm V)"
    and "verifyChallenge V now d (do_calls V meanwhile) i signature (do_calls V cs empty_auth) = (Inr ans, s)"
  shows "\<exists>e\<in>{INVALID_SIGNATURE, Unauthorized CHALLENGE_USED}.
    verifyChallenge V later d' others i signature' (do_calls V since s) = (Inl e, do_calls V since s)"
proof -
  let ?s0 = "do_calls V cs empty_auth" and ?S = "all_served cs \<union> all_served meanwhile"
  have mid: "auth_inv V ?S (do_calls V meanwhile ?s0)" by (rule auth_inv_reached(2) [OF assms(1)])
  obtain c where c: "find_row (\<lambda>c. chId c = i) (challenges s) = Some c" "chUsedAt c = Some now"
    using verifyChallenge_Inr [OF assms(2)] openSession_spends(1) [OF assms(1) mid] by metis
  have "table_evolves challenge_evolves (challenges s) (challenges (do_calls V since s))"
    using keeps_calls(2) by (simp add: keeps_challenges_def)
  from challenge_rows.table_find [OF this c(1)] c(2) obtain b where
    "find_row (\<lambda>c. chId c = i) (challenges (do_calls V since s)) = Some b" "chUsedAt b = Some now"
    by (auto simp: challenge_evolves_def)
  then show ?thesis by (auto simp: verifyChallenge_def op_defs)
qed

text \<open>
  The token that is answered is the token that is accepted.  After a successful verification the
  token authenticates its wallet and its owner until it expires.
\<close>

theorem token_accepted:
  assumes "evm_laws (authEvm V)"
    and "verifyChallenge V now d (do_calls V meanwhile) i signature (do_calls V cs empty_auth) = (Inr ans, s)"
    and "bearerToken authorization = Inr (anToken ans)" "later < anExpiresAt ans"
    and "isAddress (authEvm V) (toLowerCase (anAddress ans))"
  shows "\<exists>s'. authenticate V later authorization s = (Inr \<lparr>plUser = anUser ans, plWallet = anAddress ans\<rparr>, s')"
proof -
  let ?s0 = "do_calls V cs empty_auth" and ?S = "all_served cs \<union> all_served meanwhile"
  have mid: "auth_inv V ?S (do_calls V meanwhile ?s0)" by (rule auth_inv_reached(2) [OF assms(1)])
  obtain c where "find_row (\<lambda>c. chId c = i) (challenges ?s0) = Some c" "chUsedAt c = None" "now < chExpiresAt c"
    and c: "getAddress (authEvm V) (chWallet c) = Some (anAddress ans)"
      "openSession V now d i (anAddress ans) (do_calls V meanwhile ?s0) = (Inr (anUser ans), s)"
      "anToken ans = drToken d" "anExpiresAt ans = now + SESSION_TTL_MS"
    by (rule verifyChallenge_Inr [OF assms(2)])
  let ?x = "new_session V now d (anUser ans) (anAddress ans)"
  have found: "find_row (\<lambda>x. seHash x = sessionHash (authEvm V) (drToken d)) (sessions s) = Some ?x"
    by (rule openSession_spends(2) [OF assms(1) mid c(2)])
  have live: "live_session later ?x" using assms(4) c(4) by (simp add: live_session_def new_session_def)
  have "find_row (\<lambda>x. seHash x = sessionHash (authEvm V) (drToken d) \<and> live_session later x) (sessions s) = Some ?x"
    using find_row_strict [of _ _ ?x "live_session later", OF found live] by simp
  moreover have "getAddress (authEvm V) (toLowerCase (anAddress ans)) = Some (anAddress ans)"
    using getAddress_same [OF assms(1) isAddress_hex [OF assms(1,5)], of "anAddress ans"]
      getAddress_Some [OF assms(1) c(1)] getAddress_canonical [OF assms(1) c(1)] by simp
  moreover have "seWallet ?x = toLowerCase (anAddress ans)" "seOwner ?x = anUser ans" by (simp_all add: new_session_def)
  moreover have "bearerToken authorization = Inr (drToken d)" using assms(3) c(3) by simp
  ultimately show ?thesis
    using assms(5)
    by (simp add: authenticate_def andThen_def lift_def query_def ensure_def ok_def fromSome_def onSessions_def updateMany_def)
qed

section \<open>A login\<close>

definition login_env :: auth_env where
  "login_env = \<lparr>authEvm = lower_evm, verifyMessage = (\<lambda>a m signature. Some (signature = ''0x51'')), isoTime = (\<lambda>t. [])\<rparr>"

definition login_draws :: draws where
  "login_draws = \<lparr>drToken = ''tok'', drSession = ''s'', drOwner = ''o''\<rparr>"

definition ask :: auth_call where
  "ask = Challenge 0 ''n'' ''c'' (addr (CHR ''a'')) (Some 5042)"

definition login :: auth_call where
  "login = Verify 1000 login_draws [] ''c'' ''0x51''"

definition login_principal :: principal where
  "login_principal = \<lparr>plUser = ''o'', plWallet = addr (CHR ''a'')\<rparr>"

lemma login_laws: "evm_laws (authEvm login_env)"
  using lower_evm_laws by (simp add: login_env_def)

lemma login_authenticates:
  "fst (authenticate login_env 2000 (Some ''Bearer tok'') (do_calls login_env [ask, login] empty_auth)) = Inr login_principal"
  by code_simp

lemma login_verifies:
  "fst (verifyChallenge login_env 1000 login_draws (do_calls login_env []) ''c'' ''0x51'' (do_calls login_env [ask] empty_auth)) =
    Inr \<lparr>anToken = ''tok'', anExpiresAt = 1000 + SESSION_TTL_MS, anAddress = addr (CHR ''a''), anUser = ''o''\<rparr>"
  by code_simp

theorem session_proves_signature_witness:
  "\<exists>asked nonce i raw. Challenge asked nonce i raw (Some 5042) \<in> all_served [ask, login] \<and>
     getAddress (authEvm login_env) raw = Some (plWallet login_principal) \<and> 2000 < asked + CHALLENGE_TTL_MS + SESSION_TTL_MS"
proof -
  obtain s where "authenticate login_env 2000 (Some ''Bearer tok'') (do_calls login_env [ask, login] empty_auth) =
      (Inr login_principal, s)" using login_authenticates by (metis prod.collapse)
  from session_proves_signature [OF login_laws this] show ?thesis by (elim exE conjE) (intro exI conjI, assumption+, linarith)
qed

theorem one_owner_one_session_witness:
  "\<exists>x. sessions (do_calls login_env [ask, login] empty_auth) = [x] \<and> (seOwner x = seOwner x \<longleftrightarrow> seWallet x = seWallet x)"
proof -
  have "length (sessions (do_calls login_env [ask, login] empty_auth)) = 1" by code_simp
  then obtain x where "sessions (do_calls login_env [ask, login] empty_auth) = [x]"
    by (metis One_nat_def length_0_conv length_Suc_conv)
  with one_owner_one_session [OF login_laws, of x "[ask, login]" x] show ?thesis by auto
qed

theorem challenge_once_witness:
  "\<exists>s e. verifyChallenge login_env 1000 login_draws (do_calls login_env []) ''c'' ''0x51'' (do_calls login_env [ask] empty_auth) =
     (Inr \<lparr>anToken = ''tok'', anExpiresAt = 1000 + SESSION_TTL_MS, anAddress = addr (CHR ''a''), anUser = ''o''\<rparr>, s) \<and>
     verifyChallenge login_env 1500 login_draws id ''c'' ''0x51'' s = (Inl e, s)"
proof -
  obtain s where s: "verifyChallenge login_env 1000 login_draws (do_calls login_env []) ''c'' ''0x51'' (do_calls login_env [ask] empty_auth) =
     (Inr \<lparr>anToken = ''tok'', anExpiresAt = 1000 + SESSION_TTL_MS, anAddress = addr (CHR ''a''), anUser = ''o''\<rparr>, s)"
    using login_verifies by (metis prod.collapse)
  from challenge_once [OF login_laws s, of 1500 login_draws id "''0x51''" "[]"] s show ?thesis by auto
qed

theorem token_accepted_witness:
  "\<exists>s s'. authenticate login_env 2000 (Some ''Bearer tok'') s = (Inr login_principal, s')"
proof -
  obtain s where s: "verifyChallenge login_env 1000 login_draws (do_calls login_env []) ''c'' ''0x51'' (do_calls login_env [ask] empty_auth) =
     (Inr \<lparr>anToken = ''tok'', anExpiresAt = 1000 + SESSION_TTL_MS, anAddress = addr (CHR ''a''), anUser = ''o''\<rparr>, s)"
    using login_verifies by (metis prod.collapse)
  have "bearerToken (Some ''Bearer tok'') = Inr ''tok''" "isAddress (authEvm login_env) (toLowerCase (addr (CHR ''a'')))"
    by code_simp+
  then show ?thesis
    using token_accepted [OF login_laws s, of "Some ''Bearer tok''" 2000] by (auto simp: SESSION_TTL_MS_def login_principal_def)
qed

end
