(* ===== verification/TaskExecution.thy ===== *)
theory TaskExecution
  imports Tasks PayrollPlan
begin

text \<open>
  The execution of queued tasks: the orchestrator (\<open>orchestrator/orchestrator.service.ts\<close>), the execution
  router and the agents it reaches, the queue service and the poller that finalizes the transactions of a
  task (\<open>queue/processors/transaction-poller.service.ts\<close>).  What the queue service hands to BullMQ is kept as
  the list of jobs added, oldest first; \<open>queueDown\<close> is the case that adding one throws.
\<close>

record task_job =
  tjNetwork :: string
  tjTask :: string
  tjType :: string
  tjPayload :: js

record poll_job =
  pjNetwork :: string
  pjTask :: string
  pjTx :: string
  pjAttempt :: nat

record exec =
  exDb :: db
  exJobs :: "(string \<times> task_job) list"
  exPolls :: "poll_job list"

record exec_env =
  exEvm :: evm
  exRouting :: routing
  exNetwork :: string
  queueDown :: bool
  exOthers :: "nat \<Rightarrow> db \<Rightarrow> db"

abbreviation QUEUE_FAILED :: exn where
  "QUEUE_FAILED \<equiv> PlainError ''RedisError''"

definition onDb :: "(db, 'a) op \<Rightarrow> (exec, 'a) op" where
  "onDb m s = (case m (exDb s) of (r, d) \<Rightarrow> (r, s\<lparr>exDb := d\<rparr>))"

definition setStatus :: "exec_env \<Rightarrow> string \<Rightarrow> task_status \<Rightarrow> string \<Rightarrow> js option \<Rightarrow> (exec, task_details) op" where
  "setStatus X i next step result = onDb (updateStatus (exOthers X) i next step result)"

definition note_step :: "string \<Rightarrow> string \<Rightarrow> task_status \<Rightarrow> (exec, unit) op" where
  "note_step i step st = onDb (andThen (logStep i step st JNull) (\<lambda>_. ok ()))"

section \<open>The queue service\<close>

definition addTaskJob :: "exec_env \<Rightarrow> string \<Rightarrow> task_job \<Rightarrow> (exec, unit) op" where
  "addTaskJob X queue j =
     andThen (ensure (\<not> queueDown X) QUEUE_FAILED) (\<lambda>_ s. (Inr (), s\<lparr>exJobs := exJobs s @ [(queue, j)]\<rparr>))"

definition addPollJob :: "exec_env \<Rightarrow> poll_job \<Rightarrow> (exec, unit) op" where
  "addPollJob X j =
     andThen (ensure (\<not> queueDown X) QUEUE_FAILED) (\<lambda>_ s. (Inr (), s\<lparr>exPolls := exPolls s @ [j]\<rparr>))"

definition assertSelectedJobNetwork :: "exec_env \<Rightarrow> string \<Rightarrow> unit res" where
  "assertSelectedJobNetwork X net = ensureR (net = exNetwork X) (PlainError ''JOB_NETWORK_MISMATCH'')"

definition bindSelectedNetwork :: "exec_env \<Rightarrow> string option \<Rightarrow> string res" where
  "bindSelectedNetwork X net =
     bindR (case net of None \<Rightarrow> Inr () | Some n \<Rightarrow> assertSelectedJobNetwork X n) (\<lambda>_. Inr (exNetwork X))"

definition enqueueTask :: "exec_env \<Rightarrow> string \<Rightarrow> string option \<Rightarrow> string \<Rightarrow> string \<Rightarrow> js \<Rightarrow> (exec, unit) op" where
  "enqueueTask X queue net i ty payload =
     andThen (lift (bindSelectedNetwork X net)) (\<lambda>n.
     andThen (lift (assertTaskCapability (exEvm X) (exRouting X) ty payload)) (\<lambda>_.
     andThen (addTaskJob X queue \<lparr>tjNetwork = n, tjTask = i, tjType = ty, tjPayload = payload\<rparr>) (\<lambda>_.
     note_step i ''queue.enqueued'' TS_ASSIGNED)))"

definition enqueueTransactionPoll :: "exec_env \<Rightarrow> string \<Rightarrow> string \<Rightarrow> string \<Rightarrow> nat \<Rightarrow> (exec, unit) op" where
  "enqueueTransactionPoll X net i tx attempt =
     andThen (lift (bindSelectedNetwork X (Some net))) (\<lambda>n.
     addPollJob X \<lparr>pjNetwork = n, pjTask = i, pjTx = tx, pjAttempt = attempt\<rparr>)"

section \<open>The agents\<close>

definition hasCrossCurrencyPayroll :: "js \<Rightarrow> bool" where
  "hasCrossCurrencyPayroll payload =
     (let source = (case js_get ''sourceToken'' payload of JStr t \<Rightarrow> if js_trim t = [] then ''USDC'' else js_trim t | _ \<Rightarrow> ''USDC'') in
      list_ex (\<lambda>r. case js_get ''targetToken'' r of JStr t \<Rightarrow> t \<noteq> source | _ \<Rightarrow> False)
        (case js_get ''recipients'' payload of JArr rs \<Rightarrow> rs | _ \<Rightarrow> []))"

definition agent_result :: "task \<Rightarrow> js option" where
  "agent_result t = (case taskResult t of
     Some (JObj es) \<Rightarrow> if ''agent'' \<in> fst ` set es then Some (JObj es) else None
   | _ \<Rightarrow> None)"

definition payrollAgent :: "exec_env \<Rightarrow> task \<Rightarrow> (exec, js) op" where
  "payrollAgent X t =
     (case agent_result t of
        Some r \<Rightarrow> ok r
      | None \<Rightarrow>
          andThen (ensure (fst (validatePayroll (exEvm X) (taskPayload t)) = []) (BadRequest [])) (\<lambda>_.
          andThen (note_step (tId t) ''payroll.validated'' TS_IN_PROGRESS) (\<lambda>_.
          throw (ServiceUnavailable ''PAYROLL_BACKEND_SUBMISSION_UNAVAILABLE'' False))))"

definition fxAgent :: "task \<Rightarrow> (exec, js) op" where
  "fxAgent t =
     andThen (note_step (tId t) ''fx.execution_refused'' TS_FAILED) (\<lambda>_.
     throw (ServiceUnavailable ''FX_BACKEND_EXECUTION_UNAVAILABLE'' False))"

definition agentRouter :: "exec_env \<Rightarrow> task \<Rightarrow> (exec, js) op" where
  "agentRouter X t =
     (if taskType t = ''payroll'' then
        andThen (ensure (\<not> hasCrossCurrencyPayroll (taskPayload t))
          (ServiceUnavailable ''PAYROLL_CROSS_TOKEN_BACKEND_UNAVAILABLE'' False)) (\<lambda>_. payrollAgent X t)
      else if taskType t = ''swap'' then throw (ServiceUnavailable ''SWAP_BACKEND_EXECUTION_UNAVAILABLE'' False)
      else if taskType t = ''bridge'' then throw (BadRequest [])
      else if taskType t = ''liquidity'' then throw (ServiceUnavailable ''LIQUIDITY_BACKEND_EXECUTION_UNAVAILABLE'' False)
      else if taskType t = ''fx'' then fxAgent t
      else throw (BadRequest []))"

definition resolveWalletMode :: "js \<Rightarrow> unit res" where
  "resolveWalletMode payload =
     ensureR (js_get ''walletMode'' payload \<in> {JUndefined, JNull, JStr ''EXTERNAL_WALLET''}) (BadRequest [])"

definition executionRouter :: "exec_env \<Rightarrow> task \<Rightarrow> (exec, js) op" where
  "executionRouter X t =
     andThen (ensure (taskType t \<noteq> ''bridge'') (BadRequest [])) (\<lambda>_.
     andThen (lift (if taskType t = ''liquidity'' then assertCapability (exRouting X) Cap_liquidity else Inr ())) (\<lambda>_.
     andThen (lift (resolveWalletMode (taskPayload t))) (\<lambda>_.
     agentRouter X t)))"

section \<open>The orchestrator\<close>

definition TASK_QUEUE_MAP :: "string \<Rightarrow> string option" where
  "TASK_QUEUE_MAP ty =
     (if ty = ''payroll'' then Some ''payroll'' else if ty \<in> {''swap'', ''liquidity'', ''fx''} then Some ''swap'' else None)"

definition handleTask :: "exec_env \<Rightarrow> string \<Rightarrow> string \<Rightarrow> js \<Rightarrow> (exec, task_details) op" where
  "handleTask X fresh ty payload =
     andThen (lift (assertTaskCapability (exEvm X) (exRouting X) ty payload)) (\<lambda>_.
     andThen (ensure (ty \<noteq> ''bridge'') (BadRequest [])) (\<lambda>_.
     andThen (ensure (ty \<noteq> ''fx'') (ServiceUnavailable ''FX_TASK_TYPE_RETIRED'' False)) (\<lambda>_.
     andThen (lift (fromSome (BadRequest []) (TASK_QUEUE_MAP ty))) (\<lambda>queue.
     andThen (onDb (createTask (exEvm X) (exRouting X) fresh ty payload)) (\<lambda>d.
     let i = tId (dTask d) in
     andThen
       (catching
          (andThen (setStatus X i TS_ASSIGNED ''task.assigned'' None) (\<lambda>_.
           enqueueTask X queue None i ty payload))
          (\<lambda>e. andThen (setStatus X i TS_FAILED ''orchestrator.failed'' None) (\<lambda>_. throw e))) (\<lambda>_.
     onDb (getTaskById i)))))))"

text \<open>What follows the agent's answer, and the \<open>catch\<close> around both.\<close>

definition finishExecution :: "exec_env \<Rightarrow> task \<Rightarrow> js \<Rightarrow> (exec, js option) op" where
  "finishExecution X t r =
     (if taskType t = ''payroll''
      then andThen (note_step (tId t) ''task.submissions_complete'' TS_IN_PROGRESS) (\<lambda>_. ok (Some r))
      else andThen (setStatus X (tId t) TS_EXECUTED ''task.executed'' (Some r)) (\<lambda>_. ok (Some r)))"

definition failExecution :: "exec_env \<Rightarrow> string \<Rightarrow> exn \<Rightarrow> (exec, js option) op" where
  "failExecution X i e =
     andThen
       (catching (andThen (setStatus X i TS_FAILED ''task.failed'' None) (\<lambda>_. ok ()))
          (\<lambda>_. note_step i ''task.failed.log'' TS_FAILED)) (\<lambda>_.
     throw e)"

definition executeTask :: "exec_env \<Rightarrow> string \<Rightarrow> (exec, js option) op" where
  "executeTask X i =
     andThen (onDb (getTaskById i)) (\<lambda>d.
     let t = dTask d in
     andThen (lift (assertTaskCapability (exEvm X) (exRouting X) (taskType t) (taskPayload t))) (\<lambda>_.
     if taskStatus t \<noteq> TS_ASSIGNED then ok None
     else
       andThen (setStatus X i TS_IN_PROGRESS ''task.in_progress'' None) (\<lambda>_.
       catching (andThen (executionRouter X t) (finishExecution X t)) (failExecution X i))))"

text \<open>A worker of the task queues.\<close>

definition processJob :: "exec_env \<Rightarrow> task_job \<Rightarrow> (exec, js option) op" where
  "processJob X j = andThen (lift (assertSelectedJobNetwork X (tjNetwork j))) (\<lambda>_. executeTask X (tjTask j))"

section \<open>The poller\<close>

definition MAX_POLL_ATTEMPTS :: nat where
  "MAX_POLL_ATTEMPTS = 180"

text \<open>An answer of \<open>eth_getTransactionReceipt\<close>: it throws, has no receipt, or has its status and hash.\<close>

datatype receipt_answer = Rpc_error | No_receipt | Receipt string string

definition reason_timeout :: string where
  "reason_timeout = ''Transaction did not reach terminal state within 180 poll attempts (360s)''"

definition reason_status :: "string \<Rightarrow> string" where
  "reason_status st = ''Mainnet transaction ended with receipt status: '' @ st"

definition reason_network :: "string \<Rightarrow> string" where
  "reason_network n = ''Transaction polling supports Arc Mainnet only (got network='' @ [CHR 0x22] @ n @ [CHR 0x22] @ '').''"

definition set_tx :: "string \<Rightarrow> tx_status \<Rightarrow> string option \<Rightarrow> string option \<Rightarrow> nat \<Rightarrow> (exec, unit) op" where
  "set_tx tx st hash reason attempts =
     onDb (andThen (updateTransaction tx
       \<lparr>upStatus = st, upHash = map_option Some hash, upReason = map_option Some reason, upAttempts = Some attempts\<rparr>) (\<lambda>_. ok ()))"

definition poll_result :: "tx_aggregation \<Rightarrow> js" where
  "poll_result a = JObj [(''agent'', JStr ''payroll''), (''total'', JNum (agTotal a)), (''completed'', JNum (agCompleted a)),
     (''failed'', JNum (agFailed a)), (''txHashes'', JArr (map JStr (agHashes a)))]"

definition final_status :: "tx_aggregation \<Rightarrow> task_status \<times> string" where
  "final_status a =
     (if agFailed a = 0 then (TS_EXECUTED, ''task.executed'')
      else if agCompleted a = 0 then (TS_FAILED, ''task.failed'')
      else (TS_PARTIAL, ''task.partial''))"

definition checkAndFinalizeTask :: "exec_env \<Rightarrow> string \<Rightarrow> (exec, unit) op" where
  "checkAndFinalizeTask X i =
     andThen (onDb (hasLogStep i ''task.submissions_complete'')) (\<lambda>complete.
     if \<not> complete then ok ()
     else
       andThen (onDb (getTransactionAggregation i)) (\<lambda>a.
       if \<not> agAllTerminal a then ok ()
       else andThen (setStatus X i (fst (final_status a)) (snd (final_status a)) (Some (poll_result a))) (\<lambda>_. ok ())))"

definition failVerification :: "exec_env \<Rightarrow> string \<Rightarrow> string \<Rightarrow> nat \<Rightarrow> string \<Rightarrow> (exec, unit) op" where
  "failVerification X i tx attempt reason =
     andThen (set_tx tx TX_FAILED None (Some reason) (attempt + 1)) (\<lambda>_.
     andThen (note_step i ''tx.receipt_verification_failed'' TS_IN_PROGRESS) (\<lambda>_.
     checkAndFinalizeTask X i))"

definition poll :: "exec_env \<Rightarrow> receipt_answer \<Rightarrow> poll_job \<Rightarrow> (exec, unit) op" where
  "poll X answer j =
     (let i = pjTask j; tx = pjTx j; n = pjAttempt j in
      if pjNetwork j \<noteq> ''arc-mainnet'' then failVerification X i tx n (reason_network (pjNetwork j))
      else if MAX_POLL_ATTEMPTS \<le> n then
        andThen (set_tx tx TX_FAILED None (Some reason_timeout) n) (\<lambda>_.
        andThen (note_step i ''tx.timeout'' TS_IN_PROGRESS) (\<lambda>_.
        checkAndFinalizeTask X i))
      else case answer of
        Rpc_error \<Rightarrow>
          andThen (enqueueTransactionPoll X (pjNetwork j) i tx (n + 1)) (\<lambda>_. set_tx tx TX_PENDING None None (n + 1))
      | No_receipt \<Rightarrow>
          andThen (set_tx tx TX_PENDING None None (n + 1)) (\<lambda>_. enqueueTransactionPoll X (pjNetwork j) i tx (n + 1))
      | Receipt st hash \<Rightarrow>
          andThen
            (if st = ''0x1''
             then andThen (set_tx tx TX_COMPLETED (Some hash) None (n + 1)) (\<lambda>_. note_step i ''tx.completed'' TS_IN_PROGRESS)
             else andThen (set_tx tx TX_FAILED None (Some (reason_status st)) (n + 1)) (\<lambda>_. note_step i ''tx.failed'' TS_IN_PROGRESS)) (\<lambda>_.
          checkAndFinalizeTask X i))"

text \<open>A worker of the poll queue; what \<open>poll\<close> throws is logged and swallowed by the processor.\<close>

definition processPoll :: "exec_env \<Rightarrow> receipt_answer \<Rightarrow> poll_job \<Rightarrow> (exec, unit) op" where
  "processPoll X answer j =
     andThen (lift (assertSelectedJobNetwork X (pjNetwork j))) (\<lambda>_. catching (poll X answer j) (\<lambda>_. ok ()))"

end
