(* ===== verification/TaskExecutionProperties.thy ===== *)
theory TaskExecutionProperties
  imports TaskExecution TaskProperties
begin

text \<open>
  What becomes of a queued task: the backend submits nothing, so a task that is picked up ends refused, and
  only a payroll whose payments were tracked before is finished, by the poller.  The polls of a transaction
  come to an end whatever the node answers, and leave the transaction settled.
\<close>

section \<open>Statements\<close>

definition with_status :: "task_status \<Rightarrow> js option \<Rightarrow> task \<Rightarrow> task" where
  "with_status st result t = t\<lparr>taskStatus := st, taskResult := (if result = None then taskResult t else result)\<rparr>"

definition info_log :: "string \<Rightarrow> string \<Rightarrow> task_status \<Rightarrow> task_log" where
  "info_log i step st = \<lparr>logTaskId = i, logLevel = LEVEL_INFO, logStepName = step, logStatus = st, logContext = JNull\<rparr>"

definition moved_db :: "string \<Rightarrow> task_status \<Rightarrow> string \<Rightarrow> js option \<Rightarrow> db \<Rightarrow> db" where
  "moved_db i st step result d =
     d\<lparr>tasks := update_rows (\<lambda>t. tId t = i) (with_status st result) (tasks d), logs := logs d @ [info_log i step st]\<rparr>"

lemma with_status_simps [simp]:
  "tId (with_status st result t) = tId t" "taskStatus (with_status st result t) = st"
  "taskType (with_status st result t) = taskType t" "taskPayload (with_status st result t) = taskPayload t"
  "taskResult (with_status st result t) = (if result = None then taskResult t else result)"
  "totalUnits (with_status st result t) = totalUnits t"
  by (simp_all add: with_status_def)

lemma moved_simps' [simp]:
  "transactions (moved_db i st step result d) = transactions d" "units (moved_db i st step result d) = units d"
  "logs (moved_db i st step result d) = logs d @ [info_log i step st]"
  "intents (moved_db i st step result d) = intents d" "invoices (moved_db i st step result d) = invoices d"
  "payments (moved_db i st step result d) = payments d" "bridges (moved_db i st step result d) = bridges d"
  by (simp_all add: moved_db_def)

lemma find_moved:
  "findTask j (moved_db i st step result d) =
     map_option (\<lambda>t. if tId t = i then with_status st result t else t) (findTask j d)"
  by (simp add: findTask_def moved_db_def find_updated)

lemma findTask_id: "findTask i d = Some t \<Longrightarrow> tId t = i"
  using find_row_Some [of "\<lambda>t. tId t = i" "tasks d" t] by (simp add: findTask_def)

lemma find_moved_same: "findTask i d = Some t \<Longrightarrow> findTask i (moved_db i st step result d) = Some (with_status st result t)"
  by (simp add: find_moved findTask_id)

lemma updateStatus_moves:
  assumes "findTask i d = Some t" "taskStatus t \<noteq> st" "isValidTransition (taskStatus t) st"
  shows "updateStatus (\<lambda>_. id) i st step result d =
    (Inr (mapTask (taskWithRelations (with_status st result t) (moved_db i st step result d))), moved_db i st step result d)"
proof -
  have move: "moveTask i st result d =
      (Inr (with_status st result t), d\<lparr>tasks := update_rows (\<lambda>t. tId t = i) (with_status st result) (tasks d)\<rparr>)"
    using updateTask_run [OF assms(1), of "with_status st result"]
    by (simp add: moveTask_def with_status_def [abs_def])
  have "ensureTransition (taskStatus t) st = Inr ()"
    using assms(3) by (auto simp: ensureTransition_def isValidTransition_def ensureR_def split: option.splits)
  with assms move show ?thesis
    using find_moved_same [OF assms(1), of st step result]
    by (simp add: updateStatus_def andThen_def read_run lift_def interfere_def logStep_def Let_def appendLog_def ok_def
        getTaskById_def details_run moved_db_def info_log_def)
qed

lemma setStatus_moves:
  assumes "findTask i (exDb s) = Some t" "taskStatus t \<noteq> st" "isValidTransition (taskStatus t) st"
    "exOthers X = (\<lambda>_. id)"
  shows "setStatus X i st step result s =
    (Inr (mapTask (taskWithRelations (with_status st result t) (moved_db i st step result (exDb s)))),
     s\<lparr>exDb := moved_db i st step result (exDb s)\<rparr>)"
  using updateStatus_moves [OF assms(1-3)] assms(4) by (simp add: setStatus_def onDb_def)

lemma valid_moves [simp]:
  "isValidTransition TS_CREATED TS_ASSIGNED" "isValidTransition TS_CREATED TS_FAILED" "isValidTransition TS_ASSIGNED TS_FAILED"
  "isValidTransition TS_ASSIGNED TS_IN_PROGRESS" "isValidTransition TS_IN_PROGRESS TS_FAILED"
  "isValidTransition TS_IN_PROGRESS TS_EXECUTED" "isValidTransition TS_IN_PROGRESS TS_PARTIAL"
  by (simp_all add: isValidTransition_def)

lemma note_run: "note_step i step st s =
    (Inr (), s\<lparr>exDb := exDb s\<lparr>logs := logs (exDb s) @ [info_log i step st]\<rparr>\<rparr>)"
  by (simp add: note_step_def onDb_def logStep_def Let_def andThen_def appendLog_def ok_def info_log_def)

lemma find_logs [simp]: "findTask i (d\<lparr>logs := L\<rparr>) = findTask i d"
  by (simp add: findTask_def)

lemma onDb_run: "m (exDb s) = (r, d) \<Longrightarrow> onDb m s = (r, s\<lparr>exDb := d\<rparr>)"
  by (simp add: onDb_def)

section \<open>The agents\<close>

text \<open>What an agent leaves behind: at most one line in the log of its task.\<close>

definition only_logged :: "string \<Rightarrow> exec \<Rightarrow> exec \<Rightarrow> bool" where
  "only_logged i s s' \<longleftrightarrow> (\<exists>L. (\<forall>l\<in>set L. logTaskId l = i \<and> logStepName l \<noteq> ''task.submissions_complete'') \<and>
     s' = s\<lparr>exDb := exDb s\<lparr>logs := logs (exDb s) @ L\<rparr>\<rparr>)"

lemma only_logged_refl: "only_logged i s s"
  unfolding only_logged_def by (rule exI [of _ "[]"]) simp

lemma only_logged_note: "step \<noteq> ''task.submissions_complete'' \<Longrightarrow> only_logged i s (snd (note_step i step st s))"
  unfolding only_logged_def note_run by (rule exI [of _ "[info_log i step st]"]) (simp add: info_log_def)

lemma payrollAgent_run:
  assumes "payrollAgent X t s = (r, s')"
  shows "only_logged (tId t) s s' \<and> (case r of Inr x \<Rightarrow> agent_result t = Some x \<and> s' = s
    | Inl e \<Rightarrow> agent_result t = None \<and> e \<in> {BadRequest [], ServiceUnavailable ''PAYROLL_BACKEND_SUBMISSION_UNAVAILABLE'' False})"
proof (cases "agent_result t")
  case None
  have "only_logged (tId t) s (snd (note_step (tId t) ''payroll.validated'' TS_IN_PROGRESS s))"
    by (rule only_logged_note) simp
  with None assms show ?thesis
    by (auto simp: payrollAgent_def andThen_def ensure_def note_run throw_def only_logged_refl split: if_splits)
next
  case (Some x)
  with assms show ?thesis by (auto simp: payrollAgent_def ok_def only_logged_refl)
qed

definition refusals :: "exn set" where
  "refusals = {BadRequest [], CAPABILITY_DISABLED} \<union> (\<lambda>c. ServiceUnavailable c False) `
     {''PAYROLL_BACKEND_SUBMISSION_UNAVAILABLE'', ''PAYROLL_CROSS_TOKEN_BACKEND_UNAVAILABLE'', ''SWAP_BACKEND_EXECUTION_UNAVAILABLE'',
      ''LIQUIDITY_BACKEND_EXECUTION_UNAVAILABLE'', ''FX_BACKEND_EXECUTION_UNAVAILABLE''}"

text \<open>The answer of an agent, which is one only for a payroll that has a result already.\<close>

definition routed :: "task \<Rightarrow> js res \<Rightarrow> bool" where
  "routed t r \<longleftrightarrow> (case r of Inr x \<Rightarrow> taskType t = ''payroll'' \<and> agent_result t = Some x
     | Inl e \<Rightarrow> e \<in> refusals)"

lemma fxAgent_run: "only_logged (tId t) s (snd (fxAgent t s)) \<and> routed t (fst (fxAgent t s))"
proof -
  have "only_logged (tId t) s (snd (note_step (tId t) ''fx.execution_refused'' TS_FAILED s))"
    by (rule only_logged_note) simp
  then show ?thesis by (simp add: fxAgent_def andThen_def note_run throw_def routed_def refusals_def)
qed

lemma agentRouter_run: "only_logged (tId t) s (snd (agentRouter X t s)) \<and> routed t (fst (agentRouter X t s))"
proof (cases "taskType t = ''payroll''")
  case True
  obtain r s' where run: "payrollAgent X t s = (r, s')" by fastforce
  have "routed t r" using payrollAgent_run [OF run] True by (auto simp: routed_def refusals_def split: sum.splits)
  with run payrollAgent_run [OF run] True show ?thesis
    by (auto simp: agentRouter_def andThen_def ensure_def only_logged_refl) (simp_all add: routed_def refusals_def)
next
  case False
  show ?thesis
  proof (cases "taskType t = ''fx''")
    case True
    with False fxAgent_run show ?thesis by (simp add: agentRouter_def)
  next
    case other: False
    with False show ?thesis by (simp add: agentRouter_def throw_def only_logged_refl routed_def refusals_def)
  qed
qed

lemma executionRouter_run:
  "only_logged (tId t) s (snd (executionRouter X t s)) \<and> routed t (fst (executionRouter X t s))"
proof -
  have step: "only_logged (tId t) s (snd (m s)) \<and> routed t (fst (m s)) \<Longrightarrow> fails_in refusals g \<Longrightarrow>
      only_logged (tId t) s (snd (andThen (lift g) (\<lambda>_. m) s)) \<and> routed t (fst (andThen (lift g) (\<lambda>_. m) s))"
    for g :: "unit res" and m :: "(exec, js) op"
    by (cases g) (auto simp: andThen_def lift_def only_logged_refl fails_in_def routed_def)
  have ensures: "ensure b e = lift (ensureR b e)" for b e
    by (rule ext) (simp add: ensure_def lift_def ensureR_def)
  have "fails_in refusals (if taskType t = ''liquidity'' then assertCapability (exRouting X) Cap_liquidity else Inr ())"
      "fails_in refusals (resolveWalletMode (taskPayload t))" "fails_in refusals (ensureR (taskType t \<noteq> ''bridge'') (BadRequest []))"
    by (auto simp: resolveWalletMode_def assertCapability_def fails_in_def ensureR_def refusals_def)
  then show ?thesis unfolding executionRouter_def ensures by (intro step agentRouter_run)
qed

section \<open>Execution\<close>

lemma mapped_task [simp]:
  "tId (dTask (mapTask (taskWithRelations t d))) = tId t" "taskType (dTask (mapTask (taskWithRelations t d))) = taskType t"
  "taskStatus (dTask (mapTask (taskWithRelations t d))) = taskStatus t"
  "taskPayload (dTask (mapTask (taskWithRelations t d))) = mapJsonObject (taskPayload t)"
  by (simp_all add: mapTask_def taskWithRelations_def Let_def)

lemma mapped_result [simp]: "agent_result (dTask (mapTask (taskWithRelations t d))) = agent_result t"
proof (cases "taskResult t")
  case (Some r)
  then show ?thesis
    by (cases r) (simp_all add: mapTask_def taskWithRelations_def Let_def agent_result_def mapJsonObject_def js_truthy_def)
qed (simp add: mapTask_def taskWithRelations_def Let_def agent_result_def)

text \<open>What an execution leaves of everything else.\<close>

definition else_same :: "string \<Rightarrow> exec \<Rightarrow> exec \<Rightarrow> bool" where
  "else_same i s s' \<longleftrightarrow> exJobs s' = exJobs s \<and> exPolls s' = exPolls s \<and> transactions (exDb s') = transactions (exDb s) \<and>
     units (exDb s') = units (exDb s) \<and> intents (exDb s') = intents (exDb s) \<and>
     (\<forall>j. j \<noteq> i \<longrightarrow> findTask j (exDb s') = findTask j (exDb s))"

lemma else_same_moved: "else_same i s (s\<lparr>exDb := moved_db i st step result (exDb s)\<rparr>)"
proof -
  have "findTask j (moved_db i st step result (exDb s)) = findTask j (exDb s)" if "j \<noteq> i" for j
    using that by (cases "findTask j (exDb s)") (auto simp: find_moved dest: findTask_id)
  then show ?thesis by (simp add: else_same_def)
qed

lemma else_same_trans: "else_same i s u \<Longrightarrow> else_same i u v \<Longrightarrow> else_same i s v"
  by (simp add: else_same_def)

lemma else_same_logged: "only_logged j s s' \<Longrightarrow> else_same i s s' \<and> findTask i (exDb s') = findTask i (exDb s)"
  by (auto simp: only_logged_def else_same_def)

lemma failExecution_run:
  assumes "findTask i (exDb s) = Some t" "taskStatus t = TS_IN_PROGRESS" "exOthers X = (\<lambda>_. id)"
  shows "failExecution X i e s = (Inl e, s\<lparr>exDb := moved_db i TS_FAILED ''task.failed'' None (exDb s)\<rparr>)"
  using setStatus_moves [OF assms(1) _ _ assms(3)] assms(2)
  by (simp add: failExecution_def andThen_def catching_def ok_def throw_def)

text \<open>The part of \<open>executeTask\<close> after the guards.\<close>

lemma pickup_run:
  assumes t: "findTask i (exDb s) = Some t" "taskStatus t = TS_ASSIGNED" and alone: "exOthers X = (\<lambda>_. id)"
    and same: "tId u = i" "taskType u = taskType t" "agent_result u = agent_result t"
    and run: "andThen (setStatus X i TS_IN_PROGRESS ''task.in_progress'' None) (\<lambda>_.
       catching (andThen (executionRouter X u) (finishExecution X u)) (failExecution X i)) s = (r, s')"
  shows "else_same i s s' \<and> (\<exists>t'. findTask i (exDb s') = Some t' \<and>
    (case r of
       Inr x \<Rightarrow> taskType t = ''payroll'' \<and> x \<noteq> None \<and> x = agent_result t \<and> t' = with_status TS_IN_PROGRESS None t
     | Inl e \<Rightarrow> e \<in> refusals \<and> t' = with_status TS_FAILED None t))"
proof -
  let ?s1 = "s\<lparr>exDb := moved_db i TS_IN_PROGRESS ''task.in_progress'' None (exDb s)\<rparr>"
  have "\<exists>d. setStatus X i TS_IN_PROGRESS ''task.in_progress'' None s = (Inr d, ?s1)"
    using setStatus_moves [OF t(1) _ _ alone] t(2) by simp
  with run have rest: "catching (andThen (executionRouter X u) (finishExecution X u)) (failExecution X i) ?s1 = (r, s')"
    by (auto simp: andThen_def)
  obtain a s2 where routed: "executionRouter X u ?s1 = (a, s2)" by fastforce
  with executionRouter_run [of u ?s1 X] same have a: "only_logged i ?s1 s2" "routed u a" by simp_all
  have t2: "findTask i (exDb s2) = Some (with_status TS_IN_PROGRESS None t)"
    using else_same_logged [OF a(1), of i] find_moved_same [OF t(1)] by simp
  have s2: "else_same i s s2"
    using else_same_trans [OF else_same_moved] else_same_logged [OF a(1)] by blast
  show ?thesis
  proof (cases a)
    case (Inl e)
    then have "failExecution X i e s2 = (r, s')" using rest routed by (simp add: catching_def andThen_def)
    then have fin: "r = Inl e" "s' = s2\<lparr>exDb := moved_db i TS_FAILED ''task.failed'' None (exDb s2)\<rparr>"
      using failExecution_run [OF t2 _ alone, of e] by simp_all
    have "else_same i s s'" unfolding fin(2) by (rule else_same_trans [OF s2 else_same_moved])
    moreover have "findTask i (exDb s') = Some (with_status TS_FAILED None t)"
      using find_moved_same [OF t2, of TS_FAILED "''task.failed''" None] by (simp add: fin(2) with_status_def)
    ultimately show ?thesis using a(2) Inl fin(1) by (simp add: routed_def)
  next
    case (Inr x)
    then have x: "taskType t = ''payroll''" "agent_result t = Some x" using a(2) same by (simp_all add: routed_def)
    with rest routed Inr same have fin: "r = Inr (Some x)" "s' = s2\<lparr>exDb := exDb s2\<lparr>logs := logs (exDb s2) @
        [info_log i ''task.submissions_complete'' TS_IN_PROGRESS]\<rparr>\<rparr>"
      by (auto simp: catching_def andThen_def finishExecution_def note_run ok_def)
    have "else_same i s s'" using s2 by (simp add: fin(2) else_same_def)
    moreover have "findTask i (exDb s') = Some (with_status TS_IN_PROGRESS None t)" using t2 by (simp add: fin(2))
    ultimately show ?thesis using x by (simp add: fin(1))
  qed
qed

lemma execution_run:
  assumes "findTask i (exDb s) = Some t" "exOthers X = (\<lambda>_. id)" "executeTask X i s = (r, s')"
  shows "case assertTaskCapability (exEvm X) (exRouting X) (taskType t) (mapJsonObject (taskPayload t)) of
      Inl e \<Rightarrow> r = Inl e \<and> s' = s
    | Inr _ \<Rightarrow>
        if taskStatus t \<noteq> TS_ASSIGNED then r = Inr None \<and> s' = s
        else else_same i s s' \<and> (\<exists>t'. findTask i (exDb s') = Some t' \<and>
          (case r of
             Inr x \<Rightarrow> taskType t = ''payroll'' \<and> x \<noteq> None \<and> x = agent_result t \<and> t' = with_status TS_IN_PROGRESS None t
           | Inl e \<Rightarrow> e \<in> refusals \<and> t' = with_status TS_FAILED None t))"
proof -
  let ?u = "dTask (mapTask (taskWithRelations t (exDb s)))"
  have "onDb (getTaskById i) s = (Inr (mapTask (taskWithRelations t (exDb s))), s)"
    using assms(1) by (simp add: onDb_def getTaskById_def details_run)
  with assms(3) have run: "andThen (lift (assertTaskCapability (exEvm X) (exRouting X) (taskType t) (mapJsonObject (taskPayload t)))) (\<lambda>_.
      if taskStatus t \<noteq> TS_ASSIGNED then ok None
      else andThen (setStatus X i TS_IN_PROGRESS ''task.in_progress'' None) (\<lambda>_.
        catching (andThen (executionRouter X ?u) (finishExecution X ?u)) (failExecution X i))) s = (r, s')"
    by (simp add: executeTask_def andThen_run(1) Let_def)
  show ?thesis
  proof (cases "assertTaskCapability (exEvm X) (exRouting X) (taskType t) (mapJsonObject (taskPayload t))")
    case (Inl e)
    with run show ?thesis by (simp add: andThen_def lift_def)
  next
    case (Inr x)
    with run pickup_run [OF assms(1) _ assms(2), of ?u r s'] findTask_id [OF assms(1)] show ?thesis
      by (auto simp: andThen_run lift_def ok_def split: if_splits)
  qed
qed

section \<open>Accepting a task\<close>

lemma owner_object: "normalizeTaskOwner allowed payload = Inr x \<Longrightarrow> \<exists>es. payload = JObj es"
proof -
  assume run: "normalizeTaskOwner allowed payload = Inr x"
  then obtain k s where "js_get k payload = JStr s"
    by (auto simp: normalizeTaskOwner_def split: option.splits js.splits)
  then show ?thesis by (auto simp: js_get_def split: js.splits)
qed

text \<open>A created task, and the state after its creation.\<close>

definition created_db :: "task \<Rightarrow> db \<Rightarrow> db" where
  "created_db t d = d\<lparr>tasks := tasks d @ [t], logs := logs d @ [info_log (tId t) ''task.created'' TS_CREATED]\<rparr>"

lemma createTask_run:
  assumes "createTask E R fresh ty payload d = (r, d')" "distinct (map tId (tasks d))"
  shows "case r of Inl e \<Rightarrow> d' = d
    | Inr x \<Rightarrow> \<exists>m. d' = created_db ((newTask fresh ty TS_CREATED payload)\<lparr>taskMetadata := m\<rparr>) d \<and> findTask fresh d = None \<and>
        tId (dTask x) = fresh \<and> (\<exists>es. payload = JObj es)"
proof -
  consider e where "assertTaskCapability E R ty payload = Inl e" |
    e where "assertTaskCapability E R ty payload = Inr ()" "normalizeTaskOwner owner_fields payload = Inl e" |
    k a where "assertTaskCapability E R ty payload = Inr ()" "normalizeTaskOwner owner_fields payload = Inr (k, a)"
    by (cases "assertTaskCapability E R ty payload"; cases "normalizeTaskOwner owner_fields payload") auto
  then show ?thesis
  proof cases
    case 1
    with assms(1) show ?thesis by (auto simp: createTask_def andThen_def lift_def)
  next
    case 2
    with assms(1) show ?thesis by (auto simp: createTask_def andThen_def lift_def)
  next
    case 3
    let ?t = "(newTask fresh ty TS_CREATED payload)\<lparr>taskMetadata := JObj (spread (js_fields payload) [(k, JStr a)])\<rparr>"
    have run: "andThen (insertTask ?t) (\<lambda>t. andThen (logStep (tId t) ''task.created'' TS_CREATED JNull) (\<lambda>_. getTaskById (tId t))) d = (r, d')"
      using assms(1) 3 by (simp add: createTask_def andThen_def lift_def)
    show ?thesis
    proof (cases "fresh \<in> tId ` set (tasks d)")
      case True
      with run show ?thesis by (auto simp: andThen_def insertTask_def onTasks_def insertUnique_def newTask_def)
    next
      case False
      then have none: "findTask fresh d = None" by (auto simp: findTask_def find_row_None)
      have found: "findTask fresh (created_db ?t d) = Some ?t"
        using none by (simp add: findTask_def created_db_def find_row_append newTask_def)
      have "andThen (insertTask ?t) (\<lambda>t. andThen (logStep (tId t) ''task.created'' TS_CREATED JNull) (\<lambda>_. getTaskById (tId t))) d
          = getTaskById fresh (created_db ?t d)"
        using assms(2) False by (simp add: andThen_def insertTask_def onTasks_def insertUnique_def newTask_def logStep_def Let_def
            appendLog_def ok_def created_db_def info_log_def)
      with run have "getTaskById fresh (created_db ?t d) = (r, d')" by (simp only:)
      then have "r = Inr (mapTask (taskWithRelations ?t (created_db ?t d)))" "d' = created_db ?t d"
        using found by (auto simp: getTaskById_def details_run)
      then show ?thesis using none owner_object [OF 3(2)] by (auto simp: newTask_def)
    qed
  qed
qed

lemma find_created: "findTask (tId t) d = None \<Longrightarrow> findTask (tId t) (created_db t d) = Some t"
  by (simp add: findTask_def created_db_def find_row_append)

lemma enqueueTask_run:
  assumes "assertTaskCapability (exEvm X) (exRouting X) ty payload = Inr ()"
  shows "enqueueTask X queue None i ty payload s =
    (if queueDown X then (Inl QUEUE_FAILED, s)
     else (Inr (), s\<lparr>exJobs := exJobs s @ [(queue, \<lparr>tjNetwork = exNetwork X, tjTask = i, tjType = ty, tjPayload = payload\<rparr>)],
       exDb := (exDb s)\<lparr>logs := logs (exDb s) @ [info_log i ''queue.enqueued'' TS_ASSIGNED]\<rparr>\<rparr>))"
  using assms by (simp add: enqueueTask_def andThen_def lift_def bindSelectedNetwork_def addTaskJob_def ensure_def note_run)

text \<open>
  An accepted task is a new row, assigned, and one job on the queue of its type.  A refused one leaves no
  trace, unless the queue is down: then the new row is failed and no job was added.
\<close>

lemma handle_run:
  assumes "exOthers X = (\<lambda>_. id)" "distinct (map tId (tasks (exDb s)))" "handleTask X fresh ty payload s = (r, s')"
  shows "case r of
      Inr d \<Rightarrow> \<exists>queue t. TASK_QUEUE_MAP ty = Some queue \<and>
        exJobs s' = exJobs s @ [(queue, \<lparr>tjNetwork = exNetwork X, tjTask = fresh, tjType = ty, tjPayload = payload\<rparr>)] \<and>
        findTask fresh (exDb s) = None \<and> findTask fresh (exDb s') = Some t \<and> dTask d = dTask (mapTask (taskWithRelations t (exDb s'))) \<and>
        taskStatus t = TS_ASSIGNED \<and> taskType t = ty \<and> taskPayload t = payload \<and> taskResult t = None \<and>
        mapJsonObject payload = payload \<and> assertTaskCapability (exEvm X) (exRouting X) ty payload = Inr () \<and>
        transactions (exDb s') = transactions (exDb s) \<and> intents (exDb s') = intents (exDb s) \<and> units (exDb s') = units (exDb s)
    | Inl e \<Rightarrow> exJobs s' = exJobs s \<and> (s' = s \<or> queueDown X \<and> e = QUEUE_FAILED \<and>
        (\<exists>t. findTask fresh (exDb s') = Some t \<and> taskStatus t = TS_FAILED))"
proof -
  let ?K = "assertTaskCapability (exEvm X) (exRouting X) ty payload"
  let ?j = "\<lparr>tjNetwork = exNetwork X, tjTask = fresh, tjType = ty, tjPayload = payload\<rparr>"
  have early: "r = Inl e \<Longrightarrow> s' = s \<Longrightarrow> ?thesis" for e by simp
  show ?thesis
  proof (cases "?K = Inr () \<and> ty \<noteq> ''bridge'' \<and> ty \<noteq> ''fx'' \<and> TASK_QUEUE_MAP ty \<noteq> None")
    case False
    then have "\<exists>e. r = Inl e \<and> s' = s" using assms(3)
      by (cases ?K) (auto simp: handleTask_def andThen_def lift_def ensure_def fromSome_def split: if_splits)
    then show ?thesis using early by blast
  next
    case True
    then obtain queue where queue: "TASK_QUEUE_MAP ty = Some queue" by blast
    obtain c d1 where created: "createTask (exEvm X) (exRouting X) fresh ty payload (exDb s) = (c, d1)" by fastforce
    show ?thesis
    proof (cases c)
      case (Inl e)
      then have "r = Inl e \<and> s' = s" using createTask_run [OF created assms(2)] assms(3) True created
        by (auto simp: handleTask_def andThen_def lift_def ensure_def fromSome_def onDb_def)
      then show ?thesis using early by blast
    next
      case (Inr x)
      then obtain m where c: "d1 = created_db ((newTask fresh ty TS_CREATED payload)\<lparr>taskMetadata := m\<rparr>) (exDb s)"
          "findTask fresh (exDb s) = None" "tId (dTask x) = fresh" "mapJsonObject payload = payload"
        using createTask_run [OF created assms(2)] by (auto simp: mapJsonObject_def)
      let ?t = "(newTask fresh ty TS_CREATED payload)\<lparr>taskMetadata := m\<rparr>"
      let ?s1 = "s\<lparr>exDb := d1\<rparr>"
      let ?s2 = "s\<lparr>exDb := moved_db fresh TS_ASSIGNED ''task.assigned'' None d1\<rparr>"
      have t1: "findTask fresh (exDb ?s1) = Some ?t" using find_created [of ?t] c by (simp add: newTask_def)
      have assigned: "\<exists>y. setStatus X fresh TS_ASSIGNED ''task.assigned'' None ?s1 = (Inr y, ?s2)"
        using setStatus_moves [OF t1 _ _ assms(1)] by (simp add: newTask_def)
      have t2: "findTask fresh (exDb ?s2) = Some (with_status TS_ASSIGNED None ?t)" using find_moved_same t1 by simp
      have rest: "andThen
       (catching
          (andThen (setStatus X fresh TS_ASSIGNED ''task.assigned'' None) (\<lambda>_. enqueueTask X queue None fresh ty payload))
          (\<lambda>e. andThen (setStatus X fresh TS_FAILED ''orchestrator.failed'' None) (\<lambda>_. throw e))) (\<lambda>_.
       onDb (getTaskById fresh)) ?s1 = (r, s')"
        using assms(3) True created Inr queue c(3)
        by (simp add: handleTask_def andThen_run(1) lift_def ensure_def fromSome_def onDb_run [of "createTask _ _ _ _ _"] Let_def)
      show ?thesis
      proof (cases "queueDown X")
        case down: True
        have "\<exists>y. setStatus X fresh TS_FAILED ''orchestrator.failed'' None ?s2 =
            (Inr y, ?s2\<lparr>exDb := moved_db fresh TS_FAILED ''orchestrator.failed'' None (exDb ?s2)\<rparr>)"
          using setStatus_moves [OF t2 _ _ assms(1)] by simp
        with rest assigned True down have "r = Inl QUEUE_FAILED"
            "s' = ?s2\<lparr>exDb := moved_db fresh TS_FAILED ''orchestrator.failed'' None (exDb ?s2)\<rparr>"
          by (auto simp: andThen_def catching_def enqueueTask_run throw_def)
        with down find_moved_same [OF t2] show ?thesis by simp
      next
        case False
        let ?s3 = "?s2\<lparr>exJobs := exJobs s @ [(queue, ?j)], exDb := (exDb ?s2)\<lparr>logs := logs (exDb ?s2) @ [info_log fresh ''queue.enqueued'' TS_ASSIGNED]\<rparr>\<rparr>"
        have t3: "findTask fresh (exDb ?s3) = Some (with_status TS_ASSIGNED None ?t)" using t2 by simp
        have "onDb (getTaskById fresh) ?s3 = (r, s')"
          using rest assigned True False by (auto simp: andThen_def catching_def enqueueTask_run)
        with t3 have "r = Inr (mapTask (taskWithRelations (with_status TS_ASSIGNED None ?t) (exDb s')))" "s' = ?s3"
          by (auto simp: onDb_def getTaskById_def details_run)
        with t3 queue c True show ?thesis by (simp add: newTask_def created_db_def)
      qed
    qed
  qed
qed

text \<open>
  Executing a task, in a state where no other request interferes.  A capability that is off, or a task
  that is not waiting, changes nothing.  Otherwise no transaction, unit, intent, job or other task changes,
  and the task ends failed with the refusal that is thrown, or, for a payroll that has a result already,
  stays in progress and gives that result: the backend never executes a task itself.
\<close>

theorem execution_refused:
  assumes "findTask i (exDb s) = Some t" "exOthers X = (\<lambda>_. id)" "executeTask X i s = (r, s')"
  shows "case assertTaskCapability (exEvm X) (exRouting X) (taskType t) (mapJsonObject (taskPayload t)) of
      Inl e \<Rightarrow> r = Inl e \<and> s' = s
    | Inr _ \<Rightarrow>
        if taskStatus t \<noteq> TS_ASSIGNED then r = Inr None \<and> s' = s
        else else_same i s s' \<and> (\<exists>t'. findTask i (exDb s') = Some t' \<and>
          (case r of
             Inr x \<Rightarrow> taskType t = ''payroll'' \<and> x \<noteq> None \<and> x = agent_result t \<and> t' = with_status TS_IN_PROGRESS None t
           | Inl e \<Rightarrow> e \<in> refusals \<and> t' = with_status TS_FAILED None t))"
  using assms by (rule execution_run)

text \<open>
  C31: the whole life of a task the backend accepts, in a state where no other request interferes.  It is a
  new row and one job; the worker that takes the job gets a refusal, the task ends failed, no transaction,
  unit or intent was touched, and every further delivery of the job changes nothing.
\<close>

theorem accepted_task_refused:
  assumes "exOthers X = (\<lambda>_. id)" "distinct (map tId (tasks (exDb s)))"
    "handleTask X fresh ty payload s = (Inr d, s1)" "processJob X (snd (last (exJobs s1))) s1 = (r, s2)"
  shows "exJobs s2 = exJobs s @ [last (exJobs s1)] \<and> (\<exists>e t. r = Inl e \<and> e \<in> refusals \<and> findTask fresh (exDb s) = None \<and>
    findTask fresh (exDb s2) = Some t \<and> taskStatus t = TS_FAILED \<and> taskType t = ty \<and> taskPayload t = payload \<and>
    transactions (exDb s2) = transactions (exDb s) \<and> units (exDb s2) = units (exDb s) \<and> intents (exDb s2) = intents (exDb s) \<and>
    processJob X (snd (last (exJobs s1))) s2 = (Inr None, s2))"
proof -
  obtain queue t where h: "exJobs s1 = exJobs s @ [(queue, \<lparr>tjNetwork = exNetwork X, tjTask = fresh, tjType = ty, tjPayload = payload\<rparr>)]"
      "findTask fresh (exDb s) = None" "findTask fresh (exDb s1) = Some t" "taskStatus t = TS_ASSIGNED" "taskType t = ty"
      "taskPayload t = payload" "taskResult t = None" "mapJsonObject payload = payload"
      "assertTaskCapability (exEvm X) (exRouting X) ty payload = Inr ()" "transactions (exDb s1) = transactions (exDb s)"
      "intents (exDb s1) = intents (exDb s)" "units (exDb s1) = units (exDb s)"
    using handle_run [OF assms(1-3)] by auto
  have job: "processJob X (snd (last (exJobs s1))) u = executeTask X fresh u" for u
    using h(1) by (simp add: processJob_def assertSelectedJobNetwork_def andThen_def lift_def ensureR_def)
  with assms(4) have run: "executeTask X fresh s1 = (r, s2)" by simp
  have none: "agent_result t = None" using h(7) by (simp add: agent_result_def)
  have "else_same fresh s1 s2 \<and> (\<exists>t'. findTask fresh (exDb s2) = Some t' \<and>
      (case r of Inr x \<Rightarrow> False | Inl e \<Rightarrow> e \<in> refusals \<and> t' = with_status TS_FAILED None t))"
    using execution_run [OF h(3) assms(1) run] h(4-6) h(8,9) none by (auto split: sum.splits)
  then obtain e where e: "else_same fresh s1 s2" "findTask fresh (exDb s2) = Some (with_status TS_FAILED None t)"
      "r = Inl e" "e \<in> refusals"
    by (cases r) auto
  obtain r3 s3 where again: "executeTask X fresh s2 = (r3, s3)" by fastforce
  have "r3 = Inr None \<and> s3 = s2" using execution_run [OF e(2) assms(1) again] h(5,6,8,9) by simp
  with again job e h show ?thesis by (auto simp: else_same_def)
qed

section \<open>A swap task\<close>

definition swap_worker :: exec_env where
  "swap_worker = \<lparr>exEvm = lower_evm,
     exRouting = \<lparr>network = ARC_MAINNET, chainId = ARC_MAINNET_CHAIN_ID, capabilities = (\<lambda>c. c = Cap_swap), tokens = (\<lambda>_. None)\<rparr>,
     exNetwork = ARC_MAINNET, queueDown = False, exOthers = (\<lambda>_. id)\<rparr>"

definition swap_payload :: js where
  "swap_payload = JObj [(''walletAddress'', JStr (addr (CHR ''5'')))]"

definition idle :: exec where
  "idle = \<lparr>exDb = empty_db, exJobs = [], exPolls = []\<rparr>"

lemma swap_accepted: "\<exists>d s1. handleTask swap_worker ''t'' ''swap'' swap_payload idle = (Inr d, s1)"
proof -
  have "\<not> isl (fst (handleTask swap_worker ''t'' ''swap'' swap_payload idle))" by code_simp
  then show ?thesis by (metis isl_def old.sum.exhaust prod.collapse)
qed

lemma swap_worker_alone: "exOthers swap_worker = (\<lambda>_. id)" "distinct (map tId (tasks (exDb idle)))"
  by (simp_all add: swap_worker_def idle_def empty_db_def)

theorem accepted_task_refused_witness:
  "\<exists>d s1 e s2 t. handleTask swap_worker ''t'' ''swap'' swap_payload idle = (Inr d, s1) \<and>
     processJob swap_worker (snd (last (exJobs s1))) s1 = (Inl e, s2) \<and> e \<in> refusals \<and>
     findTask ''t'' (exDb s2) = Some t \<and> taskStatus t = TS_FAILED"
proof -
  obtain d s1 where h: "handleTask swap_worker ''t'' ''swap'' swap_payload idle = (Inr d, s1)"
    using swap_accepted by blast
  obtain r s2 where p: "processJob swap_worker (snd (last (exJobs s1))) s1 = (r, s2)" by fastforce
  show ?thesis using accepted_task_refused [OF swap_worker_alone h p] h p by blast
qed

definition swap_waiting :: exec where
  "swap_waiting = idle\<lparr>exDb := empty_db\<lparr>tasks := [newTask ''t'' ''swap'' TS_ASSIGNED swap_payload]\<rparr>\<rparr>"

theorem execution_refused_witness:
  "\<exists>e s' t. executeTask swap_worker ''t'' swap_waiting = (Inl e, s') \<and> e \<in> refusals \<and>
     findTask ''t'' (exDb s') = Some t \<and> taskStatus t = TS_FAILED \<and> else_same ''t'' swap_waiting s'"
proof -
  obtain r s' where run: "executeTask swap_worker ''t'' swap_waiting = (r, s')" by fastforce
  have row: "findTask ''t'' (exDb swap_waiting) = Some (newTask ''t'' ''swap'' TS_ASSIGNED swap_payload)"
    by (simp add: swap_waiting_def idle_def empty_db_def findTask_def newTask_def)
  have "assertTaskCapability (exEvm swap_worker) (exRouting swap_worker) ''swap'' p = Inr ()" for p
    by (simp add: assertTaskCapability_def assertCapability_def swap_worker_def ensureR_def)
  with execution_refused [OF row swap_worker_alone(1) run] run show ?thesis
    by (cases r) (auto simp: newTask_def)
qed

end
