(* ===== verification/TaskPolls.thy ===== *)
theory TaskPolls
  imports TaskExecutionProperties
begin

text \<open>
  The poller of tracked transactions.  Every poll is answered or repeated with a higher attempt, so the
  queue of polls runs empty whatever the node answers and in whatever order the polls are delivered, and it
  leaves each transaction settled; the poll that settles the last one finishes the task.
\<close>

section \<open>Statements\<close>

definition tracked_row :: "string \<Rightarrow> exec \<Rightarrow> task_tx option" where
  "tracked_row tx s = find_row (\<lambda>r. txId r = tx) (transactions (exDb s))"

definition row_ids :: "exec \<Rightarrow> bool" where
  "row_ids s \<longleftrightarrow> distinct (map txRowId (transactions (exDb s)))"

lemma apply_update_ids [simp]: "txId (apply_update x r) = txId r" "txRowId (apply_update x r) = txRowId r"
    "txTaskId (apply_update x r) = txTaskId r"
  by (simp_all add: apply_update_def)

definition after_update :: "string \<Rightarrow> tx_update \<Rightarrow> task_tx \<Rightarrow> db \<Rightarrow> db" where
  "after_update tx x r d = d\<lparr>transactions := update_rows (\<lambda>q. txRowId q = txRowId r) (apply_update x) (transactions d)\<rparr>"

lemma updateTransaction_run:
  "updateTransaction tx x d = (case find_row (\<lambda>r. txId r = tx) (transactions d) of
     None \<Rightarrow> (Inl TX_NOT_FOUND, d) | Some r \<Rightarrow> (Inr (the (find_row (\<lambda>q. txRowId q = txRowId r) (transactions (after_update tx x r d)))), after_update tx x r d))"
proof (cases "find_row (\<lambda>r. txId r = tx) (transactions d)")
  case None
  then show ?thesis by (simp add: updateTransaction_def andThen_def query_def lift_def fromSome_def)
next
  case (Some r)
  have "find_row (\<lambda>q. txRowId q = txRowId r) (transactions d) \<noteq> None"
    using find_row_Some [OF Some] by (auto simp: find_row_None)
  then have "find_row (\<lambda>q. txRowId q = txRowId r) (transactions (after_update tx x r d)) \<noteq> None"
    by (auto simp: after_update_def find_updated)
  with Some show ?thesis
    by (auto simp: updateTransaction_def andThen_def query_def lift_def fromSome_def onTransactions_def updateMany_def
        after_update_def)
qed

definition poll_update :: "tx_status \<Rightarrow> string option \<Rightarrow> string option \<Rightarrow> nat \<Rightarrow> tx_update" where
  "poll_update st hash reason n =
     \<lparr>upStatus = st, upHash = map_option Some hash, upReason = map_option Some reason, upAttempts = Some n\<rparr>"

lemma set_tx_run: "set_tx tx st hash reason n s = (case tracked_row tx s of None \<Rightarrow> (Inl TX_NOT_FOUND, s)
    | Some r \<Rightarrow> (Inr (), s\<lparr>exDb := after_update tx (poll_update st hash reason n) r (exDb s)\<rparr>))"
  by (simp add: set_tx_def onDb_def andThen_def updateTransaction_run ok_def tracked_row_def poll_update_def split: option.splits)

lemma tracked_after:
  assumes "tracked_row tx s = Some r"
  shows "tracked_row tx (s\<lparr>exDb := after_update tx x r (exDb s)\<rparr>) = Some (apply_update x r)"
  using assms by (simp add: tracked_row_def after_update_def find_updated)

lemma tracked_other:
  assumes "tracked_row tx s = Some r" "row_ids s" "tx' \<noteq> tx"
  shows "tracked_row tx' (s\<lparr>exDb := after_update tx x r (exDb s)\<rparr>) = tracked_row tx' s"
proof -
  have "\<not> (txRowId q = txRowId r)" if "tracked_row tx' s = Some q" for q
    using that assms find_row_Some [of _ "transactions (exDb s)"]
    unfolding tracked_row_def row_ids_def by (metis (mono_tags, lifting) eq_key_imp_eq_value inj_on_eq_iff distinct_map)
  then show ?thesis
    by (cases "tracked_row tx' s") (auto simp: tracked_row_def after_update_def find_updated)
qed

lemma row_ids_after: "row_ids (s\<lparr>exDb := after_update tx x r (exDb s)\<rparr>) = row_ids s"
  by (simp add: row_ids_def after_update_def)

section \<open>One poll\<close>

text \<open>What leaves the transactions and the queue of polls alone.\<close>

definition same_polls :: "exec \<Rightarrow> exec \<Rightarrow> bool" where
  "same_polls s t \<longleftrightarrow> exPolls t = exPolls s \<and> transactions (exDb t) = transactions (exDb s)"

lemma same_polls_order: "reflp same_polls" "transp same_polls"
  by (auto simp: same_polls_def reflp_def transp_def)

lemmas same_polls_rules = keeps_ok [OF same_polls_order(1)] keeps_throw [OF same_polls_order(1)]
  keeps_andThen [OF same_polls_order(2)] keeps_catching [OF same_polls_order(2)] keeps_split

lemma same_onDb: "keeps (\<lambda>d e. transactions e = transactions d) m \<Longrightarrow> keeps same_polls (onDb m)"
  by (auto simp: keeps_def onDb_def same_polls_def split: prod.splits) (metis snd_conv)

definition others_keep :: "exec_env \<Rightarrow> bool" where
  "others_keep X \<longleftrightarrow> (\<forall>n d. transactions (exOthers X n d) = transactions d)"

lemma same_readTask: "keeps (\<lambda>d e. transactions e = transactions d) (getTaskById i)"
  by (auto simp: keeps_def getTaskById_def details_run split: option.splits)

lemma same_updateStatus:
  assumes "others_keep X"
  shows "keeps (\<lambda>d e. transactions e = transactions d) (updateStatus (exOthers X) i st step result)"
proof -
  have order: "reflp (\<lambda>d e. transactions e = transactions d)" "transp (\<lambda>d e. transactions e = transactions d)"
    by (auto simp: reflp_def transp_def)
  have "keeps (\<lambda>d e. transactions e = transactions d) (interfere (exOthers X n))" for n
    using assms by (simp add: keeps_def interfere_def others_keep_def)
  moreover have "keeps (\<lambda>d e. transactions e = transactions d) (moveTask i st result)"
    by (auto simp: keeps_def moveTask_def updateTask_def andThen_def onTasks_def updateMany_def read_run split: option.splits)
  moreover have "keeps (\<lambda>d e. transactions e = transactions d) (logStep i step st c)" for c
    by (simp add: keeps_def logStep_def Let_def andThen_def appendLog_def ok_def)
  moreover have "keeps (\<lambda>d e. transactions e = transactions d) (readTask e i)" for e
    by (auto simp: keeps_def read_run split: option.splits)
  ultimately show ?thesis
    unfolding updateStatus_def
    by (intro keeps_andThen [OF order(2)] keeps_if keeps_lift [OF order(1)] same_readTask)
qed

lemma same_note: "keeps same_polls (note_step i step st)"
  by (simp add: keeps_def note_run same_polls_def)

lemma same_finalize: "others_keep X \<Longrightarrow> keeps same_polls (checkAndFinalizeTask X i)"
  unfolding checkAndFinalizeTask_def setStatus_def
  by (intro same_polls_rules same_onDb same_updateStatus)
    (simp_all add: keeps_def hasLogStep_def getTransactionAggregation_def query_def)

text \<open>
  What one delivery of a poll does to the row of its transaction and to the queue.  \<open>a\<close> is the answer of
  the node, which is only asked when the attempts are not used up.
\<close>

definition poll_outcome :: "receipt_answer \<Rightarrow> poll_job \<Rightarrow> exec \<Rightarrow> exec \<Rightarrow> bool" where
  "poll_outcome a j s s' \<longleftrightarrow> (\<exists>r. tracked_row (pjTx j) s' = Some r \<and>
     (case txStatus r of
        TX_PENDING \<Rightarrow> pjAttempt j < MAX_POLL_ATTEMPTS \<and> exPolls s' = exPolls s @ [j\<lparr>pjAttempt := pjAttempt j + 1\<rparr>]
      | TX_COMPLETED \<Rightarrow> (\<exists>h. a = Receipt ''0x1'' h \<and> txHash r = Some h) \<and> exPolls s' = exPolls s
      | TX_FAILED \<Rightarrow> txErrorReason r \<noteq> None \<and> exPolls s' = exPolls s))"

definition poll_frame :: "poll_job \<Rightarrow> exec \<Rightarrow> exec \<Rightarrow> bool" where
  "poll_frame j s s' \<longleftrightarrow> row_ids s' \<and> (\<forall>tx. tx \<noteq> pjTx j \<longrightarrow> tracked_row tx s' = tracked_row tx s) \<and>
     (exPolls s' = exPolls s \<or>
      pjAttempt j < MAX_POLL_ATTEMPTS \<and> exPolls s' = exPolls s @ [j\<lparr>pjAttempt := pjAttempt j + 1\<rparr>])"

lemma same_polls_row: "same_polls s t \<Longrightarrow> tracked_row tx t = tracked_row tx s \<and> row_ids t = row_ids s"
  by (simp add: same_polls_def tracked_row_def row_ids_def)

lemma frame_same: "row_ids s \<Longrightarrow> same_polls s t \<Longrightarrow> poll_frame j s t"
  by (simp add: poll_frame_def same_polls_def tracked_row_def row_ids_def)

lemma enqueue_run: "enqueueTransactionPoll X net i tx n s =
    (if net \<noteq> exNetwork X then (Inl (PlainError ''JOB_NETWORK_MISMATCH''), s)
     else if queueDown X then (Inl QUEUE_FAILED, s)
     else (Inr (), s\<lparr>exPolls := exPolls s @ [\<lparr>pjNetwork = net, pjTask = i, pjTx = tx, pjAttempt = n\<rparr>]\<rparr>))"
proof (cases "net = exNetwork X")
  case True
  then have "bindSelectedNetwork X (Some net) = Inr net"
    by (simp add: bindSelectedNetwork_def assertSelectedJobNetwork_def ensureR_def)
  with True show ?thesis
    by (cases "queueDown X") (simp_all add: enqueueTransactionPoll_def andThen_def lift_def addPollJob_def ensure_def)
next
  case False
  then have "bindSelectedNetwork X (Some net) = Inl (PlainError ''JOB_NETWORK_MISMATCH'')"
    by (simp add: bindSelectedNetwork_def assertSelectedJobNetwork_def ensureR_def)
  with False show ?thesis by (simp add: enqueueTransactionPoll_def andThen_def lift_def)
qed

text \<open>An update of the row followed by steps that leave rows and polls alone.\<close>

lemma settle_run:
  assumes "row_ids s" "\<And>u. keeps same_polls (m u)" "andThen (set_tx (pjTx j) st hash reason n) m s = (r, s')"
  shows "poll_frame j s s' \<and> exPolls s' = exPolls s \<and> (case tracked_row (pjTx j) s of None \<Rightarrow> s' = s
    | Some q \<Rightarrow> tracked_row (pjTx j) s' = Some (apply_update (poll_update st hash reason n) q))"
proof (cases "tracked_row (pjTx j) s")
  case None
  with assms(1,3) show ?thesis by (auto simp: andThen_def set_tx_run poll_frame_def)
next
  case (Some q)
  let ?s1 = "s\<lparr>exDb := after_update (pjTx j) (poll_update st hash reason n) q (exDb s)\<rparr>"
  have "m () ?s1 = (r, s')" using assms(3) Some by (simp add: andThen_def set_tx_run)
  then have same: "same_polls ?s1 s'" using keepsD [OF assms(2)] by blast
  have "exPolls s' = exPolls s" using same by (simp add: same_polls_def)
  moreover have "tracked_row tx s' = tracked_row tx ?s1" "row_ids s'" for tx
    using same_polls_row [OF same] assms(1) by (simp_all add: row_ids_after)
  ultimately show ?thesis
    using tracked_after [OF Some] tracked_other [OF Some assms(1)] Some by (simp add: poll_frame_def)
qed

text \<open>The branches that settle the row.\<close>

lemma failed_run:
  assumes "row_ids s" "\<And>u. keeps same_polls (m u)" "andThen (set_tx (pjTx j) TX_FAILED None (Some why) n) m s = (r, s')"
  shows "poll_frame j s s' \<and> (tracked_row (pjTx j) s \<noteq> None \<longrightarrow> poll_outcome a j s s')"
  using settle_run [OF assms] by (auto simp: poll_outcome_def apply_update_def poll_update_def)

lemma completed_run:
  assumes "row_ids s" "\<And>u. keeps same_polls (m u)" "andThen (set_tx (pjTx j) TX_COMPLETED (Some h) None n) m s = (r, s')"
  shows "poll_frame j s s' \<and> (tracked_row (pjTx j) s \<noteq> None \<longrightarrow> poll_outcome (Receipt ''0x1'' h) j s s')"
  using settle_run [OF assms] by (auto simp: poll_outcome_def apply_update_def poll_update_def)

text \<open>The two orders of repeating the poll and of noting the attempt.\<close>

lemma repeat_run:
  assumes "row_ids s" "pjAttempt j < MAX_POLL_ATTEMPTS"
    and "again = enqueueTransactionPoll X (pjNetwork j) (pjTask j) (pjTx j) (pjAttempt j + 1)"
    and "note = set_tx (pjTx j) TX_PENDING None None (pjAttempt j + 1)"
    and run: "andThen again (\<lambda>_. note) s = (r, s') \<or> andThen note (\<lambda>_. again) s = (r, s')"
  shows "poll_frame j s s' \<and> (tracked_row (pjTx j) s \<noteq> None \<and> \<not> queueDown X \<and> pjNetwork j = exNetwork X \<longrightarrow>
    poll_outcome a j s s')"
proof -
  let ?u = "poll_update TX_PENDING None None (pjAttempt j + 1)"
  let ?j = "j\<lparr>pjAttempt := pjAttempt j + 1\<rparr>"
  let ?row = "case tracked_row (pjTx j) s of None \<Rightarrow> s | Some q \<Rightarrow> s\<lparr>exDb := after_update (pjTx j) ?u q (exDb s)\<rparr>"
  let ?queued = "pjNetwork j = exNetwork X \<and> \<not> queueDown X"
  have j: "\<lparr>pjNetwork = pjNetwork j, pjTask = pjTask j, pjTx = pjTx j, pjAttempt = pjAttempt j + 1\<rparr> = ?j" by simp
  have row: "poll_frame j s ?row" "exPolls ?row = exPolls s"
    using tracked_other assms(1) row_ids_after by (auto simp: poll_frame_def split: option.splits)
  have polls: "tracked_row tx (v\<lparr>exPolls := ps\<rparr>) = tracked_row tx v" "row_ids (v\<lparr>exPolls := ps\<rparr>) = row_ids v" for tx v ps
    by (simp_all add: tracked_row_def row_ids_def)
  have "s' \<in> {s, ?row, s\<lparr>exPolls := exPolls s @ [?j]\<rparr>, ?row\<lparr>exPolls := exPolls s @ [?j]\<rparr>}"
    using run assms(3,4) by (auto simp: andThen_def enqueue_run set_tx_run polls split: option.splits if_splits)
  then have "poll_frame j s s'"
    using row assms(1,2) by (auto simp: poll_frame_def polls)
  moreover have "poll_outcome a j s s'" if ok: "tracked_row (pjTx j) s \<noteq> None" ?queued
  proof -
    from ok obtain q where q: "tracked_row (pjTx j) s = Some q" by blast
    then have "s' = s\<lparr>exDb := after_update (pjTx j) ?u q (exDb s), exPolls := exPolls s @ [?j]\<rparr>"
      using run assms(3,4) ok by (auto simp: andThen_def enqueue_run set_tx_run polls)
    then show ?thesis
      using tracked_after [OF q, of ?u] assms(2)
      by (auto simp: poll_outcome_def polls apply_update_def poll_update_def)
  qed
  ultimately show ?thesis by blast
qed

lemma poll_run:
  assumes "others_keep X" "row_ids s" "poll X a j s = (r, s')"
  shows "poll_frame j s s' \<and> (tracked_row (pjTx j) s \<noteq> None \<and> \<not> queueDown X \<and> pjNetwork j = exNetwork X \<longrightarrow>
    poll_outcome a j s s')"
proof -
  have noted: "keeps same_polls (andThen (note_step i step st) (\<lambda>_. checkAndFinalizeTask X i))" for i step st
    by (intro same_polls_rules same_note same_finalize assms(1))
  consider "pjNetwork j \<noteq> ''arc-mainnet''" | "pjNetwork j = ''arc-mainnet''" "MAX_POLL_ATTEMPTS \<le> pjAttempt j" |
    "pjNetwork j = ''arc-mainnet''" "pjAttempt j < MAX_POLL_ATTEMPTS"
    by linarith
  then show ?thesis
  proof cases
    case 1
    then have "failVerification X (pjTask j) (pjTx j) (pjAttempt j) (reason_network (pjNetwork j)) s = (r, s')"
      using assms(3) by (simp add: poll_def Let_def)
    from failed_run [OF assms(2) noted this [unfolded failVerification_def], of a] show ?thesis by blast
  next
    case 2
    then have "andThen (set_tx (pjTx j) TX_FAILED None (Some reason_timeout) (pjAttempt j)) (\<lambda>_.
        andThen (note_step (pjTask j) ''tx.timeout'' TS_IN_PROGRESS) (\<lambda>_. checkAndFinalizeTask X (pjTask j))) s = (r, s')"
      using assms(3) by (simp add: poll_def Let_def)
    from failed_run [OF assms(2) noted this, of a] show ?thesis by blast
  next
    case 3
    note answer = assms(3) [unfolded poll_def Let_def]
    have assoc: "andThen (andThen m (\<lambda>_. n)) (\<lambda>_. k) u = andThen m (\<lambda>_. andThen n (\<lambda>_. k)) u"
      for m n k :: "(exec, unit) op" and u
      by (simp add: andThen_def split: prod.splits sum.splits)
    show ?thesis
    proof (cases a)
      case Rpc_error
      with 3 answer show ?thesis by (intro repeat_run [OF assms(2) 3(2) refl refl, of _ r]) simp
    next
      case No_receipt
      with 3 answer show ?thesis by (intro repeat_run [OF assms(2) 3(2) refl refl, of _ r]) simp
    next
      case (Receipt st h)
      show ?thesis
      proof (cases "st = ''0x1''")
        case True
        with 3 answer Receipt have "andThen (set_tx (pjTx j) TX_COMPLETED (Some h) None (pjAttempt j + 1)) (\<lambda>_.
            andThen (note_step (pjTask j) ''tx.completed'' TS_IN_PROGRESS) (\<lambda>_. checkAndFinalizeTask X (pjTask j))) s = (r, s')"
          by (simp add: assoc)
        from completed_run [OF assms(2) noted this] Receipt True show ?thesis by blast
      next
        case False
        with 3 answer Receipt have "andThen (set_tx (pjTx j) TX_FAILED None (Some (reason_status st)) (pjAttempt j + 1)) (\<lambda>_.
            andThen (note_step (pjTask j) ''tx.failed'' TS_IN_PROGRESS) (\<lambda>_. checkAndFinalizeTask X (pjTask j))) s = (r, s')"
          by (simp add: assoc)
        from failed_run [OF assms(2) noted this, of a] show ?thesis by blast
      qed
    qed
  qed
qed

lemma processPoll_run:
  assumes "others_keep X" "row_ids s"
  shows "poll_frame j s (snd (processPoll X a j s)) \<and>
    (tracked_row (pjTx j) s \<noteq> None \<and> \<not> queueDown X \<and> pjNetwork j = exNetwork X \<longrightarrow>
      poll_outcome a j s (snd (processPoll X a j s)))"
proof (cases "pjNetwork j = exNetwork X")
  case True
  then have "snd (processPoll X a j s) = snd (poll X a j s)"
    by (simp add: processPoll_def andThen_def lift_def assertSelectedJobNetwork_def ensureR_def catching_def ok_def
        split: prod.splits sum.splits)
  then show ?thesis using poll_run [OF assms, of a j] by (metis prod.collapse)
next
  case False
  then have "snd (processPoll X a j s) = s"
    by (simp add: processPoll_def andThen_def lift_def assertSelectedJobNetwork_def ensureR_def)
  with False assms(2) show ?thesis by (simp add: poll_frame_def)
qed

section \<open>All polls\<close>

text \<open>
  The worker of the poll queue.  Each step delivers one of the queued polls, the one \<open>k\<close> says, with what
  the node answers about each transaction at that time.
\<close>

fun run_polls :: "exec_env \<Rightarrow> (nat \<times> (string \<Rightarrow> receipt_answer)) list \<Rightarrow> exec \<Rightarrow> exec" where
  "run_polls X [] s = s"
| "run_polls X ((k, a) # steps) s =
     (if exPolls s = [] then s
      else let n = k mod length (exPolls s); j = exPolls s ! n in
        run_polls X steps (snd (processPoll X (a (pjTx j)) j (s\<lparr>exPolls := take n (exPolls s) @ drop (Suc n) (exPolls s)\<rparr>))))"

text \<open>The number of deliveries after which no poll is left.\<close>

definition polls_left :: "exec \<Rightarrow> nat" where
  "polls_left s = sum_list (map (\<lambda>j. Suc (MAX_POLL_ATTEMPTS - pjAttempt j)) (exPolls s))"

definition take_poll :: "nat \<Rightarrow> exec \<Rightarrow> exec" where
  "take_poll n s = s\<lparr>exPolls := take n (exPolls s) @ drop (Suc n) (exPolls s)\<rparr>"

lemma taken_simps [simp]:
  "tracked_row tx (take_poll n s) = tracked_row tx s" "row_ids (take_poll n s) = row_ids s" "exDb (take_poll n s) = exDb s"
  by (simp_all add: take_poll_def tracked_row_def row_ids_def)

lemma taken_polls:
  assumes "n < length (exPolls s)"
  shows "polls_left s = Suc (MAX_POLL_ATTEMPTS - pjAttempt (exPolls s ! n)) + polls_left (take_poll n s)"
    "set (exPolls s) = insert (exPolls s ! n) (set (exPolls (take_poll n s)))"
proof -
  have split: "exPolls s = take n (exPolls s) @ exPolls s ! n # drop (Suc n) (exPolls s)"
    by (rule id_take_nth_drop [OF assms])
  show "set (exPolls s) = insert (exPolls s ! n) (set (exPolls (take_poll n s)))"
    using arg_cong [OF split, of set] by (simp add: take_poll_def)
  have "sum_list (map f (exPolls s)) = f (exPolls s ! n) + sum_list (map f (exPolls (take_poll n s)))" for f :: "poll_job \<Rightarrow> nat"
    using arg_cong [OF split, of "\<lambda>js. sum_list (map f js)"] by (simp add: take_poll_def)
  then show "polls_left s = Suc (MAX_POLL_ATTEMPTS - pjAttempt (exPolls s ! n)) + polls_left (take_poll n s)"
    unfolding polls_left_def .
qed

definition settling :: "exec_env \<Rightarrow> (string \<Rightarrow> receipt_answer) set \<Rightarrow> string \<Rightarrow> exec \<Rightarrow> bool" where
  "settling X seen tx s \<longleftrightarrow> (\<exists>r. tracked_row tx s = Some r \<and>
     (case txStatus r of
        TX_PENDING \<Rightarrow> \<exists>j\<in>set (exPolls s). pjTx j = tx \<and> pjNetwork j = exNetwork X
      | TX_COMPLETED \<Rightarrow> \<exists>a\<in>seen. \<exists>h. a tx = Receipt ''0x1'' h \<and> txHash r = Some h
      | TX_FAILED \<Rightarrow> txErrorReason r \<noteq> None))"

lemma settling_mono: "settling X seen tx s \<Longrightarrow> seen \<subseteq> seen' \<Longrightarrow> settling X seen' tx s"
  by (auto simp: settling_def split: tx_status.splits)

lemma settling_step:
  assumes X: "others_keep X" "\<not> queueDown X" and ids: "row_ids s" and n: "n < length (exPolls s)"
    and ok: "settling X seen tx s" and j: "j = exPolls s ! n"
    and s': "s' = snd (processPoll X (a (pjTx j)) j (take_poll n s))"
  shows "row_ids s' \<and> polls_left s' < polls_left s \<and> settling X (insert a seen) tx s'"
proof -
  let ?s0 = "take_poll n s"
  have run: "poll_frame j ?s0 s'" "tracked_row (pjTx j) s \<noteq> None \<and> pjNetwork j = exNetwork X \<longrightarrow> poll_outcome (a (pjTx j)) j ?s0 s'"
    using processPoll_run [OF X(1), of ?s0 j "a (pjTx j)"] ids X(2) s' by auto
  have "polls_left s' < polls_left s"
    using run(1) taken_polls(1) [OF n] j by (auto simp: poll_frame_def polls_left_def)
  moreover have "settling X (insert a seen) tx s'"
  proof (cases "pjTx j = tx \<and> pjNetwork j = exNetwork X")
    case True
    then have "poll_outcome (a tx) j ?s0 s'" using run(2) ok by (auto simp: settling_def)
    with True show ?thesis by (auto simp: poll_outcome_def settling_def split: tx_status.splits)
  next
    case other: False
    have "tracked_row tx s' = tracked_row tx s"
    proof (cases "pjTx j = tx")
      case True
      with other have "s' = ?s0"
        by (simp add: s' processPoll_def andThen_def lift_def assertSelectedJobNetwork_def ensureR_def)
      then show ?thesis by simp
    next
      case False
      with run(1) show ?thesis by (auto simp: poll_frame_def)
    qed
    moreover have "\<exists>i\<in>set (exPolls s'). pjTx i = tx \<and> pjNetwork i = exNetwork X"
      if "\<exists>i\<in>set (exPolls s). pjTx i = tx \<and> pjNetwork i = exNetwork X"
      using that other run(1) taken_polls(2) [OF n] j by (auto simp: poll_frame_def)
    ultimately show ?thesis using ok by (auto simp: settling_def split: tx_status.splits)
  qed
  ultimately show ?thesis using run(1) by (simp add: poll_frame_def)
qed

lemma run_polls_settle:
  assumes "others_keep X" "\<not> queueDown X" "row_ids s" "settling X seen tx s" "polls_left s \<le> length steps"
  shows "exPolls (run_polls X steps s) = [] \<and> settling X (seen \<union> snd ` set steps) tx (run_polls X steps s)"
  using assms(3-5)
proof (induction steps arbitrary: s seen)
  case Nil
  then show ?case by (auto simp: polls_left_def)
next
  case (Cons step steps)
  obtain k a where step: "step = (k, a)" by (cases step)
  show ?case
  proof (cases "exPolls s = []")
    case True
    with Cons.prems step show ?thesis by (auto intro: settling_mono)
  next
    case False
    let ?n = "k mod length (exPolls s)"
    let ?s' = "snd (processPoll X (a (pjTx (exPolls s ! ?n))) (exPolls s ! ?n) (take_poll ?n s))"
    have run: "run_polls X ((k, a) # steps) s = run_polls X steps ?s'"
      using False by (simp add: Let_def take_poll_def)
    have "row_ids ?s' \<and> polls_left ?s' < polls_left s \<and> settling X (insert a seen) tx ?s'"
      using False by (intro settling_step [OF assms(1,2) Cons.prems(1) _ Cons.prems(2) refl refl]) simp
    with Cons.prems(3) Cons.IH [of ?s' "insert a seen"] show ?thesis by (simp add: run step del: run_polls.simps)
  qed
qed

text \<open>
  C32: the polls of a transaction end and settle it.  Let any polls be queued, and let the worker deliver them
  in any order with any answers of the node: after as many deliveries as \<open>polls_left\<close> counts, which is 181 for
  a new poll, no poll is left.  A pending transaction that had a poll is then completed, by a receipt with
  status \<open>0x1\<close> whose hash it carries, or failed, with a reason.
\<close>

theorem polls_settle:
  assumes "\<not> queueDown X" "\<And>n d. transactions (exOthers X n d) = transactions d"
    and "distinct (map txRowId (transactions (exDb s)))" "tracked_row tx s = Some r" "txStatus r = TX_PENDING"
    and "j \<in> set (exPolls s)" "pjTx j = tx" "pjNetwork j = exNetwork X" "polls_left s \<le> length steps"
  shows "exPolls (run_polls X steps s) = [] \<and> (\<exists>r'. tracked_row tx (run_polls X steps s) = Some r' \<and>
    (txStatus r' = TX_COMPLETED \<and> (\<exists>(k, a)\<in>set steps. \<exists>h. a tx = Receipt ''0x1'' h \<and> txHash r' = Some h) \<or>
     txStatus r' = TX_FAILED \<and> txErrorReason r' \<noteq> None))"
proof -
  have "others_keep X" "row_ids s" "settling X {} tx s"
    using assms by (auto simp: others_keep_def row_ids_def settling_def)
  note end_ = run_polls_settle [OF this(1) assms(1) this(2,3) assms(9)]
  then obtain r' where r': "tracked_row tx (run_polls X steps s) = Some r'" by (auto simp: settling_def)
  with end_ show ?thesis by (cases "txStatus r'") (fastforce simp: settling_def)+
qed

section \<open>The end of a task\<close>

definition task_rows :: "string \<Rightarrow> exec \<Rightarrow> task_tx list" where
  "task_rows i s = filter (\<lambda>r. txTaskId r = i) (transactions (exDb s))"

definition settled_status :: "task_tx list \<Rightarrow> task_status" where
  "settled_status R = (if \<forall>r\<in>set R. txStatus r = TX_COMPLETED then TS_EXECUTED
     else if \<forall>r\<in>set R. txStatus r = TX_FAILED then TS_FAILED else TS_PARTIAL)"

lemma count_terminal:
  "\<forall>r\<in>set R. txStatus r \<noteq> TX_PENDING \<Longrightarrow>
   length R = length (filter (\<lambda>r. txStatus r = TX_COMPLETED) R) + length (filter (\<lambda>r. txStatus r = TX_FAILED) R)"
proof (induction R)
  case (Cons r R)
  then show ?case by (cases "txStatus r") auto
qed simp

lemma aggregate_terminal:
  assumes "R \<noteq> []" "\<forall>r\<in>set R. txStatus r \<noteq> TX_PENDING"
  shows "agAllTerminal (aggregate R)" "fst (final_status (aggregate R)) = settled_status R"
proof -
  have two: "txStatus r = TX_COMPLETED \<longleftrightarrow> txStatus r \<noteq> TX_FAILED" if "r \<in> set R" for r
    using that assms(2) by (cases "txStatus r") auto
  then show "fst (final_status (aggregate R)) = settled_status R"
    by (auto simp: final_status_def aggregate_def settled_status_def Let_def filter_empty_conv)
  show "agAllTerminal (aggregate R)"
    using assms(1) count_terminal [OF assms(2)] by (auto simp: aggregate_def Let_def)
qed

lemma finalize_run:
  assumes "exOthers X = (\<lambda>_. id)" "findTask i (exDb s) = Some t" "taskStatus t = TS_IN_PROGRESS"
    and "\<exists>l\<in>set (logs (exDb s)). logTaskId l = i \<and> logStepName l = ''task.submissions_complete''"
    and "task_rows i s \<noteq> []" "\<forall>r\<in>set (task_rows i s). txStatus r \<noteq> TX_PENDING"
  shows "checkAndFinalizeTask X i s = (Inr (), s\<lparr>exDb := moved_db i (settled_status (task_rows i s))
    (snd (final_status (aggregate (task_rows i s)))) (Some (poll_result (aggregate (task_rows i s)))) (exDb s)\<rparr>)"
proof -
  let ?a = "aggregate (task_rows i s)"
  note a = aggregate_terminal [OF assms(5,6)]
  have "setStatus X i (fst (final_status ?a)) (snd (final_status ?a)) (Some (poll_result ?a)) s =
    (Inr (mapTask (taskWithRelations (with_status (settled_status (task_rows i s)) (Some (poll_result ?a)) t)
       (moved_db i (settled_status (task_rows i s)) (snd (final_status ?a)) (Some (poll_result ?a)) (exDb s)))),
     s\<lparr>exDb := moved_db i (settled_status (task_rows i s)) (snd (final_status ?a)) (Some (poll_result ?a)) (exDb s)\<rparr>)"
    unfolding a(2) by (rule setStatus_moves [OF assms(2) _ _ assms(1)]) (use assms(3) in \<open>simp_all add: settled_status_def\<close>)
  moreover have "onDb (hasLogStep i ''task.submissions_complete'') s = (Inr True, s)"
    using assms(4) by (simp add: onDb_def hasLogStep_def query_def)
  moreover have "onDb (getTransactionAggregation i) s = (Inr ?a, s)"
    by (simp add: onDb_def getTransactionAggregation_def query_def task_rows_def)
  ultimately show ?thesis using a(1) by (simp add: checkAndFinalizeTask_def andThen_run(1) ok_def)
qed

text \<open>The rows of the task after the row of its last pending transaction was settled.\<close>

lemma rows_settled:
  assumes "tracked_row tx s = Some q" "txTaskId q = i" "upStatus x \<noteq> TX_PENDING"
    and "\<forall>r\<in>set (task_rows i s). r = q \<or> txStatus r \<noteq> TX_PENDING"
    and "s' = s\<lparr>exDb := (after_update tx x q (exDb s))\<lparr>logs := L\<rparr>\<rparr>"
  shows "task_rows i s' \<noteq> []" "\<forall>r\<in>set (task_rows i s'). txStatus r \<noteq> TX_PENDING"
proof -
  let ?f = "\<lambda>r. if txRowId r = txRowId q then apply_update x r else r"
  have rows: "task_rows i s' = map ?f (task_rows i s)"
    by (simp add: assms(5) task_rows_def after_update_def update_rows_def filter_map comp_def if_distrib cong: if_cong)
  have "q \<in> set (task_rows i s)"
    using find_row_Some [OF assms(1) [unfolded tracked_row_def]] assms(2) by (simp add: task_rows_def)
  with rows show "task_rows i s' \<noteq> []" by auto
  show "\<forall>r\<in>set (task_rows i s'). txStatus r \<noteq> TX_PENDING"
    using assms(3,4) by (auto simp: rows apply_update_def)
qed

text \<open>
  The receipt of the last pending transaction finishes the task.  The transaction is completed exactly
  when the receipt has status \<open>0x1\<close>, and the task, whose submissions were all made, is executed if all of
  its transactions are completed, failed if all of them failed, and partial otherwise; its result counts
  them.  No other request interferes.
\<close>

theorem last_receipt_finishes:
  assumes "exOthers X = (\<lambda>_. id)" "findTask (pjTask j) (exDb s) = Some t" "taskStatus t = TS_IN_PROGRESS"
    and "\<exists>l\<in>set (logs (exDb s)). logTaskId l = pjTask j \<and> logStepName l = ''task.submissions_complete''"
    and "tracked_row (pjTx j) s = Some q" "txTaskId q = pjTask j" "row_ids s"
    and "\<forall>r\<in>set (task_rows (pjTask j) s). r = q \<or> txStatus r \<noteq> TX_PENDING"
    and "pjNetwork j = ''arc-mainnet''" "exNetwork X = ''arc-mainnet''" "pjAttempt j < MAX_POLL_ATTEMPTS"
    and "processPoll X (Receipt st h) j s = (r, s')"
  shows "\<exists>t' q'. findTask (pjTask j) (exDb s') = Some t' \<and> taskStatus t' = settled_status (task_rows (pjTask j) s') \<and>
    taskResult t' = Some (poll_result (aggregate (task_rows (pjTask j) s'))) \<and>
    tracked_row (pjTx j) s' = Some q' \<and> txStatus q' = (if st = ''0x1'' then TX_COMPLETED else TX_FAILED)"
proof -
  let ?i = "pjTask j"
  define x where "x = (if st = ''0x1'' then poll_update TX_COMPLETED (Some h) None (pjAttempt j + 1)
      else poll_update TX_FAILED None (Some (reason_status st)) (pjAttempt j + 1))"
  define step where "step = (if st = ''0x1'' then ''tx.completed'' else ''tx.failed'')"
  let ?s1 = "s\<lparr>exDb := after_update (pjTx j) x q (exDb s)\<rparr>"
  define s2 where "s2 = ?s1\<lparr>exDb := (exDb ?s1)\<lparr>logs := logs (exDb ?s1) @ [info_log ?i step TS_IN_PROGRESS]\<rparr>\<rparr>"
  have "processPoll X (Receipt st h) j s = catching (checkAndFinalizeTask X ?i) (\<lambda>_. ok ()) s2"
    using assms(5,9-11)
    by (simp add: processPoll_def andThen_def lift_def assertSelectedJobNetwork_def ensureR_def catching_def poll_def Let_def
        set_tx_run note_run x_def step_def s2_def)
  moreover have t: "findTask ?i (exDb s2) = Some t" using assms(2) by (simp add: s2_def after_update_def findTask_def)
  moreover have "\<exists>l\<in>set (logs (exDb s2)). logTaskId l = ?i \<and> logStepName l = ''task.submissions_complete''"
    using assms(4) by (auto simp: s2_def after_update_def)
  moreover have "upStatus x \<noteq> TX_PENDING" by (simp add: x_def poll_update_def)
  then have rows: "task_rows ?i s2 \<noteq> []" "\<forall>r\<in>set (task_rows ?i s2). txStatus r \<noteq> TX_PENDING"
    using rows_settled [OF assms(5,6) _ assms(8), of x s2] by (simp_all add: s2_def)
  ultimately have s': "s' = s2\<lparr>exDb := moved_db ?i (settled_status (task_rows ?i s2))
      (snd (final_status (aggregate (task_rows ?i s2)))) (Some (poll_result (aggregate (task_rows ?i s2)))) (exDb s2)\<rparr>"
    using assms(12) finalize_run [OF assms(1) _ assms(3), of ?i s2] by (simp add: catching_def)
  have "task_rows ?i s' = task_rows ?i s2" "tracked_row (pjTx j) s' = tracked_row (pjTx j) ?s1"
    by (simp_all add: s' task_rows_def tracked_row_def s2_def)
  with find_moved_same [OF t] tracked_after [OF assms(5), of x] show ?thesis
    by (simp add: s' apply_update_def x_def poll_update_def)
qed

section \<open>One tracked transaction\<close>

definition sent_row :: task_tx where
  "sent_row = \<lparr>txRowId = ''r'', txTaskId = ''t'', txId = ''x'', txRecipient = ''p'', txAmount = ''1'', txCurrency = ''USDC'',
     txStatus = TX_PENDING, txHash = None, txErrorReason = None, batchIndex = 0, pollAttempts = 0\<rparr>"

definition sent_poll :: poll_job where
  "sent_poll = \<lparr>pjNetwork = ''arc-mainnet'', pjTask = ''t'', pjTx = ''x'', pjAttempt = 0\<rparr>"

definition sent :: exec where
  "sent = \<lparr>exDb = empty_db\<lparr>tasks := [newTask ''t'' ''payroll'' TS_IN_PROGRESS JNull],
       logs := [info_log ''t'' ''task.submissions_complete'' TS_IN_PROGRESS], transactions := [sent_row]\<rparr>,
     exJobs = [], exPolls = [sent_poll]\<rparr>"

lemma sent_facts:
  "tracked_row ''x'' sent = Some sent_row" "txStatus sent_row = TX_PENDING" "txTaskId sent_row = ''t''" "row_ids sent"
  "findTask ''t'' (exDb sent) = Some (newTask ''t'' ''payroll'' TS_IN_PROGRESS JNull)"
  "logs (exDb sent) = [info_log ''t'' ''task.submissions_complete'' TS_IN_PROGRESS]" "task_rows ''t'' sent = [sent_row]"
  "exPolls sent = [sent_poll]" "polls_left sent = 181" "\<not> queueDown swap_worker" "exNetwork swap_worker = ''arc-mainnet''"
  "pjTask sent_poll = ''t''" "pjTx sent_poll = ''x''" "pjNetwork sent_poll = ''arc-mainnet''" "pjAttempt sent_poll = 0"
  by (simp_all add: sent_def sent_row_def sent_poll_def tracked_row_def row_ids_def findTask_def newTask_def task_rows_def
      polls_left_def MAX_POLL_ATTEMPTS_def swap_worker_def ARC_MAINNET_def)

theorem polls_settle_witness:
  "\<exists>r. tracked_row ''x'' (run_polls swap_worker (replicate 181 (0, \<lambda>_. No_receipt)) sent) = Some r \<and>
     txStatus r = TX_FAILED \<and> exPolls (run_polls swap_worker (replicate 181 (0, \<lambda>_. No_receipt)) sent) = []"
  using polls_settle [of swap_worker sent "''x''" sent_row sent_poll "replicate 181 (0, \<lambda>_. No_receipt)"]
    sent_facts swap_worker_alone(1)
  by (auto simp: row_ids_def)

theorem last_receipt_finishes_witness:
  "\<exists>s' t. processPoll swap_worker (Receipt ''0x1'' ''h'') sent_poll sent = (Inr (), s') \<and>
     findTask ''t'' (exDb s') = Some t \<and> taskStatus t = settled_status (task_rows ''t'' s') \<and> taskResult t \<noteq> None"
proof -
  obtain r s' where run: "processPoll swap_worker (Receipt ''0x1'' ''h'') sent_poll sent = (r, s')" by fastforce
  then have "r = Inr ()"
    by (cases r) (auto simp: processPoll_def andThen_def lift_def assertSelectedJobNetwork_def ensureR_def catching_def ok_def
        sent_facts split: prod.splits sum.splits)
  with last_receipt_finishes [OF swap_worker_alone(1), of sent_poll sent _ sent_row "''0x1''" "''h''" r s'] run sent_facts
  show ?thesis by (auto simp: newTask_def info_log_def MAX_POLL_ATTEMPTS_def)
qed

end
