(* ===== verification/Activity.thy ===== *)
theory Activity
  imports PayrollPlan SwapService WalletAuth "HOL-Library.List_Lexorder" "HOL-Library.Product_Lexorder"
    "HOL-Library.Char_ord"
begin

text \<open>
  The activity feed (\<open>apps/backend/src/activity/activity.service.ts\<close> and its controller): what the backend has
  verified is projected into one table of activities per owner, which the owner reads in pages.  A sync is
  claimed by a lease on the owner's row of \<open>ActivitySyncState\<close> and throttled after it ends.  The columns
  \<open>createdAt\<close> and \<open>updatedAt\<close> of the rows that are read, and the id of an invoice payment, are not part of the
  records of Schema.thy; the projections take them from the environment.
\<close>

section \<open>Tables\<close>

datatype activity_type = AT_send | AT_receive | AT_payroll | AT_swap | AT_bridge | AT_fx | AT_invoice_payment

datatype activity_status =
  AS_pending | AS_submitted | AS_confirming | AS_completed | AS_failed | AS_expired | AS_cancelled | AS_recovery_required

text \<open>The optional columns; in a projection \<open>None\<close> is \<open>undefined\<close>, which an update leaves as it is.\<close>

record columns =
  coDirection :: "string option"
  coTaskId :: "string option"
  coOperationId :: "string option"
  coChallengeId :: "string option"
  coTransactionId :: "string option"
  coChainId :: "nat option"
  coTxHash :: "string option"
  coInSymbol :: "string option"
  coInAddress :: "string option"
  coInAmount :: "string option"
  coOutSymbol :: "string option"
  coOutAddress :: "string option"
  coOutAmount :: "string option"
  coFeeAmount :: "string option"
  coFeeSymbol :: "string option"
  coCounterparty :: "string option"
  coMetadata :: "js option"
  coOccurredAt :: "int option"

definition no_columns :: columns where
  "no_columns = \<lparr>coDirection = None, coTaskId = None, coOperationId = None, coChallengeId = None, coTransactionId = None,
     coChainId = None, coTxHash = None, coInSymbol = None, coInAddress = None, coInAmount = None, coOutSymbol = None,
     coOutAddress = None, coOutAmount = None, coFeeAmount = None, coFeeSymbol = None, coCounterparty = None,
     coMetadata = None, coOccurredAt = None\<rparr>"

record projection =
  pjOwner :: string
  pjWallet :: string
  pjType :: activity_type
  pjStatus :: activity_status
  pjSource :: string
  pjKey :: string
  pjRefType :: string
  pjRefId :: string
  pjColumns :: columns

record activity =
  acId :: string
  acOwner :: string
  acWallet :: string
  acType :: activity_type
  acStatus :: activity_status
  acSource :: string
  acKey :: string
  acRefType :: string
  acRefId :: string
  acColumns :: columns
  acCreatedAt :: int

record sync_state =
  ssId :: string
  ssOwner :: string
  ssWallet :: string
  ssLeaseId :: "string option"
  ssLeaseExpiresAt :: "int option"
  ssStartedAt :: "int option"
  ssCompletedAt :: "int option"
  ssNextAllowedAt :: "int option"

text \<open>\<open>idempotencyKey\<close> and the pair of the source reference are unique.\<close>

definition activities_unique :: "activity list \<Rightarrow> bool" where
  "activities_unique T \<longleftrightarrow> distinct (map acId T) \<and> distinct (map acKey T) \<and> distinct (map (\<lambda>a. (acRefType a, acRefId a)) T)"

text \<open>A sync state is unique by owner and source; the only source is \<open>external_wallet\<close>.\<close>

definition syncs_unique :: "sync_state list \<Rightarrow> bool" where
  "syncs_unique T \<longleftrightarrow> distinct (map ssId T) \<and> distinct (map ssOwner T)"

text \<open>The verified records the feed is made from, and the tables it writes.\<close>

record activity_db =
  adCore :: db
  adSwaps :: "swap_row list"
  activities :: "activity list"
  syncs :: "sync_state list"

definition onActivities :: "(activity list, 'a) op \<Rightarrow> (activity_db, 'a) op" where
  "onActivities m s = (case m (activities s) of (r, T) \<Rightarrow> (r, s\<lparr>activities := T\<rparr>))"

definition onSyncs :: "(sync_state list, 'a) op \<Rightarrow> (activity_db, 'a) op" where
  "onSyncs m s = (case m (syncs s) of (r, T) \<Rightarrow> (r, s\<lparr>syncs := T\<rparr>))"

text \<open>
  The environment: viem, the ids and times left out of Schema.thy (by invoice, intent, swap and bridge), and
  the runtime's text of a JSON value and of a date, with their inverses where they parse.
\<close>

record activity_env =
  avEvm :: evm
  paymentId :: "string \<Rightarrow> string"
  paymentCreatedAt :: "string \<Rightarrow> int"
  swapId :: "string \<Rightarrow> string"
  rowUpdatedAt :: "string \<Rightarrow> int"
  newActivityId :: "string \<Rightarrow> string"
  newCreatedAt :: "string \<Rightarrow> int"
  base64Json :: "js \<Rightarrow> string"
  parseBase64Json :: "string \<Rightarrow> js option"
  isoDate :: "int \<Rightarrow> string"
  parseDate :: "js \<Rightarrow> int option"

definition interleave :: "(activity_db \<Rightarrow> activity_db) \<Rightarrow> (activity_db, unit) op" where
  "interleave f s = (Inr (), f s)"

abbreviation INVALID_ADDRESS :: exn where
  "INVALID_ADDRESS \<equiv> PlainError ''InvalidAddressError''"

section \<open>Values\<close>

definition canonicalWallet :: "evm \<Rightarrow> string \<Rightarrow> string res" where
  "canonicalWallet E v = bindR (fromSome INVALID_ADDRESS (getAddress E v)) (\<lambda>a. Inr (toLowerCase a))"

definition sameWallet :: "evm \<Rightarrow> string \<Rightarrow> string \<Rightarrow> bool" where
  "sameWallet E l r \<longleftrightarrow> isAddress E l \<and> isAddress E r \<and>
     (case (getAddress E l, getAddress E r) of (Some a, Some b) \<Rightarrow> isAddressEqual E a b = Some True | _ \<Rightarrow> False)"

definition normalizedOptionalAddress :: "evm \<Rightarrow> string option \<Rightarrow> string option" where
  "normalizedOptionalAddress E v =
     (case v of None \<Rightarrow> None
      | Some a \<Rightarrow> if a \<noteq> [] \<and> isAddress E a then map_option toLowerCase (getAddress E a) else None)"

definition symbolOf :: "evm \<Rightarrow> string \<Rightarrow> string" where
  "symbolOf E a = (if sameWallet E a SWAP_USDC then ''USDC'' else if sameWallet E a SWAP_EURC then ''EURC'' else ''Token'')"

definition symbolText :: "token_symbol \<Rightarrow> string" where
  "symbolText t = (case t of USDC \<Rightarrow> ''USDC'' | EURC \<Rightarrow> ''EURC'')"

definition is_str :: "js \<Rightarrow> bool" where
  "is_str v = (case v of JStr _ \<Rightarrow> True | _ \<Rightarrow> False)"

definition safeItem :: "js \<Rightarrow> bool" where
  "safeItem v = (case v of
     JStr _ \<Rightarrow> True | JNum _ \<Rightarrow> True | JBool _ \<Rightarrow> True
   | JArr xs \<Rightarrow> list_all is_str xs | JObj es \<Rightarrow> list_all (\<lambda>(_, x). is_str x) es | _ \<Rightarrow> False)"

definition safeMetadata :: "js option \<Rightarrow> js option" where
  "safeMetadata v =
     (case v of None \<Rightarrow> None
      | Some m \<Rightarrow> Some (JObj (filter (\<lambda>(_, x). safeItem x) (map (\<lambda>k. (k, js_get k m))
          [''invoicePublicId'', ''transactionCount'', ''sourceChainId'', ''destinationChainId'', ''referenceId'',
           ''transactionHashes'', ''tokenTotals'']))))"

definition nonempty :: "string option \<Rightarrow> string option" where
  "nonempty v = (if truthy v then v else None)"

definition metadataNumber :: "js \<Rightarrow> string \<Rightarrow> nat" where
  "metadataNumber v k = (case js_get k v of JNum n \<Rightarrow> if n \<le> MAX_SAFE_INTEGER then n else 0 | _ \<Rightarrow> 0)"

definition metadataString :: "js \<Rightarrow> string \<Rightarrow> string option" where
  "metadataString v k = (case js_get k v of JStr s \<Rightarrow> if s = [] then None else Some s | _ \<Rightarrow> None)"

text \<open>The elements of a \<open>Set\<close>, in order of insertion.\<close>

definition js_set :: "'a list \<Rightarrow> 'a list" where
  "js_set xs = rev (remdups (rev xs))"

section \<open>One projection\<close>

text \<open>\<open>progressedStatus\<close>: a completed activity stays completed, and no activity goes back.\<close>

fun status_rank :: "activity_status \<Rightarrow> nat" where
  "status_rank AS_pending = 0"
| "status_rank AS_submitted = 1"
| "status_rank AS_confirming = 2"
| "status_rank AS_recovery_required = 3"
| "status_rank AS_failed = 4"
| "status_rank AS_expired = 4"
| "status_rank AS_cancelled = 4"
| "status_rank AS_completed = 5"

definition progressedStatus :: "activity_status option \<Rightarrow> activity_status \<Rightarrow> activity_status" where
  "progressedStatus current next =
     (case current of
        None \<Rightarrow> next
      | Some c \<Rightarrow>
          if c = next then next
          else if c = AS_completed then AS_completed
          else if c \<in> {AS_failed, AS_expired, AS_cancelled} \<and> next \<noteq> AS_completed then c
          else if status_rank c \<le> status_rank next then next else c)"

definition keep_old :: "'a option \<Rightarrow> 'a option \<Rightarrow> 'a option" where
  "keep_old new old = (case new of None \<Rightarrow> old | Some x \<Rightarrow> Some x)"

definition merge_columns :: "columns \<Rightarrow> columns \<Rightarrow> columns" where
  "merge_columns n c =
     \<lparr>coDirection = keep_old (coDirection n) (coDirection c), coTaskId = keep_old (coTaskId n) (coTaskId c),
      coOperationId = keep_old (coOperationId n) (coOperationId c), coChallengeId = keep_old (coChallengeId n) (coChallengeId c),
      coTransactionId = keep_old (coTransactionId n) (coTransactionId c), coChainId = keep_old (coChainId n) (coChainId c),
      coTxHash = keep_old (coTxHash n) (coTxHash c), coInSymbol = keep_old (coInSymbol n) (coInSymbol c),
      coInAddress = keep_old (coInAddress n) (coInAddress c), coInAmount = keep_old (coInAmount n) (coInAmount c),
      coOutSymbol = keep_old (coOutSymbol n) (coOutSymbol c), coOutAddress = keep_old (coOutAddress n) (coOutAddress c),
      coOutAmount = keep_old (coOutAmount n) (coOutAmount c), coFeeAmount = keep_old (coFeeAmount n) (coFeeAmount c),
      coFeeSymbol = keep_old (coFeeSymbol n) (coFeeSymbol c), coCounterparty = keep_old (coCounterparty n) (coCounterparty c),
      coMetadata = keep_old (coMetadata n) (coMetadata c), coOccurredAt = keep_old (coOccurredAt n) (coOccurredAt c)\<rparr>"

definition normal_columns :: "evm \<Rightarrow> columns \<Rightarrow> columns" where
  "normal_columns E c = c\<lparr>coTxHash := map_option toLowerCase (coTxHash c),
     coInAddress := normalizedOptionalAddress E (coInAddress c), coOutAddress := normalizedOptionalAddress E (coOutAddress c),
     coCounterparty := normalizedOptionalAddress E (coCounterparty c), coMetadata := safeMetadata (coMetadata c)\<rparr>"

definition create_activity :: "activity_env \<Rightarrow> string \<Rightarrow> activity_status \<Rightarrow> projection \<Rightarrow> activity" where
  "create_activity V wallet st p =
     \<lparr>acId = newActivityId V (pjKey p), acOwner = pjOwner p, acWallet = wallet, acType = pjType p, acStatus = st,
      acSource = pjSource p, acKey = pjKey p, acRefType = pjRefType p, acRefId = pjRefId p,
      acColumns = normal_columns (avEvm V) (pjColumns p), acCreatedAt = newCreatedAt V (pjKey p)\<rparr>"

definition update_activity :: "activity_env \<Rightarrow> activity_status \<Rightarrow> projection \<Rightarrow> activity \<Rightarrow> activity" where
  "update_activity V st p a = a\<lparr>acType := pjType p, acStatus := st, acSource := pjSource p,
     acColumns := merge_columns (normal_columns (avEvm V) (pjColumns p)) (acColumns a)\<rparr>"

text \<open>Prisma's \<open>upsert\<close> on the idempotency key.\<close>

definition upsertRow :: "activity_env \<Rightarrow> string \<Rightarrow> activity_status \<Rightarrow> projection \<Rightarrow> (activity list, unit) op" where
  "upsertRow V wallet st p T =
     (case find_row (\<lambda>a. acKey a = pjKey p) T of
        None \<Rightarrow> andThen (insertUnique activities_unique (create_activity V wallet st p)) (\<lambda>_. ok ()) T
      | Some _ \<Rightarrow> andThen (updateMany (\<lambda>a. acKey a = pjKey p) (update_activity V st p)) (\<lambda>_. ok ()) T)"

definition same_ownership :: "projection \<Rightarrow> string \<Rightarrow> activity \<Rightarrow> bool" where
  "same_ownership p wallet a \<longleftrightarrow> acOwner a = pjOwner p \<and> acWallet a = wallet \<and> acRefType a = pjRefType p \<and> acRefId a = pjRefId p"

definition upsertActivity ::
  "activity_env \<Rightarrow> (activity_db \<Rightarrow> activity_db) \<Rightarrow> projection \<Rightarrow> (activity_db, unit) op" where
  "upsertActivity V others p =
     andThen (lift (canonicalWallet (avEvm V) (pjWallet p))) (\<lambda>wallet.
     andThen (query (\<lambda>s. find_row (\<lambda>a. acKey a = pjKey p) (activities s))) (\<lambda>existing.
     andThen (ensure (case existing of None \<Rightarrow> True | Some a \<Rightarrow> same_ownership p wallet a) (PlainError ''ACTIVITY_OWNERSHIP'')) (\<lambda>_.
     andThen (interleave others) (\<lambda>_.
     onActivities (upsertRow V wallet (progressedStatus (map_option acStatus existing) (pjStatus p)) p)))))"

section \<open>The projections\<close>

definition base_projection ::
  "principal \<Rightarrow> string \<Rightarrow> activity_type \<Rightarrow> string \<Rightarrow> string \<Rightarrow> string \<Rightarrow> string \<Rightarrow> columns \<Rightarrow> projection" where
  "base_projection p wallet ty source key_prefix ref_type ref_id c =
     \<lparr>pjOwner = plUser p, pjWallet = wallet, pjType = ty, pjStatus = AS_completed, pjSource = source,
      pjKey = key_prefix @ ref_id, pjRefType = ref_type, pjRefId = ref_id, pjColumns = c\<rparr>"

text \<open>Verified payments of the owner's invoices.\<close>

definition verified_payments :: "string \<Rightarrow> db \<Rightarrow> (payment \<times> invoice) list" where
  "verified_payments user d = List.map_filter (\<lambda>y.
     if paymentStatus y = PAY_VERIFIED
     then (case find_row (\<lambda>v. invoiceId v = paymentInvoiceId y) (invoices d) of
         Some v \<Rightarrow> if merchantUserId v = user then Some (y, v) else None | None \<Rightarrow> None)
     else None) (payments d)"

definition payment_projection :: "activity_env \<Rightarrow> principal \<Rightarrow> payment \<times> invoice \<Rightarrow> projection" where
  "payment_projection V p yv = (case yv of (y, v) \<Rightarrow>
     base_projection p (plWallet p) AT_invoice_payment ''invoice_receipt'' ''invoice-payment:'' ''invoice_payment''
       (paymentId V (paymentInvoiceId y))
       (no_columns\<lparr>coDirection := Some ''incoming'', coTransactionId := Some (paymentId V (paymentInvoiceId y)),
          coChainId := Some (invoiceChainId v), coTxHash := Some (paymentHash y),
          coOutSymbol := Some (symbolText (tokenSymbol v)), coOutAddress := Some (tokenAddress v),
          coOutAmount := Some (invoiceAmountUnits v), coCounterparty := payerAddress y,
          coMetadata := Some (JObj [(''invoicePublicId'', JStr (publicId v))]),
          coOccurredAt := Some (case verifiedAt y of Some t \<Rightarrow> t | None \<Rightarrow> paymentCreatedAt V (paymentInvoiceId y))\<rparr>))"

definition own_payments :: "activity_env \<Rightarrow> principal \<Rightarrow> (payment \<times> invoice) list \<Rightarrow> (payment \<times> invoice) list" where
  "own_payments V p = filter (\<lambda>(y, v). sameWallet (avEvm V) (merchantWalletAddress v) (plWallet p) \<and>
     invoiceChainId v = ARC_MAINNET_CHAIN_ID)"

text \<open>Completed intents of direct transfers and payroll batches.\<close>

definition completed_intents :: "db \<Rightarrow> intent list" where
  "completed_intents d = filter (\<lambda>i. status i = COMPLETED \<and> intentNetwork i = ''arc-mainnet'' \<and> transactionHash i \<noteq> None \<and>
     operation i \<in> {OP_SEND, OP_PAYROLL}) (intents d)"

definition own_intents :: "activity_env \<Rightarrow> string \<Rightarrow> intent_operation \<Rightarrow> intent list \<Rightarrow> intent list" where
  "own_intents V wallet op = filter (\<lambda>i. intentNetwork i = ''arc-mainnet'' \<and> truthy (transactionHash i) \<and> operation i = op \<and>
     sameWallet (avEvm V) (sourceWallet i) wallet)"

definition intent_time :: "activity_env \<Rightarrow> intent \<Rightarrow> int" where
  "intent_time V i = (case completedAt i of Some t \<Rightarrow> t | None \<Rightarrow> rowUpdatedAt V (intentId i))"

definition send_projection :: "activity_env \<Rightarrow> principal \<Rightarrow> string \<Rightarrow> intent \<Rightarrow> projection" where
  "send_projection V p wallet i =
     base_projection p wallet AT_send ''verified_execution_intent'' ''execution-intent:'' ''execution_intent'' (intentId i)
       (no_columns\<lparr>coDirection := Some ''outgoing'', coOperationId := Some (intentId i),
          coChainId := Some ARC_MAINNET_CHAIN_ID, coTxHash := transactionHash i,
          coInSymbol := Some (symbolOf (avEvm V) (tokenOut i)), coInAddress := Some (tokenOut i),
          coInAmount := Some (amountUnits i), coCounterparty := recipient i,
          coMetadata := Some (JObj [(''referenceId'', JStr (externalReference i))]), coOccurredAt := Some (intent_time V i)\<rparr>)"

text \<open>
  The run a payroll batch belongs to: the reference of its task, or what is left of its own reference
  without the suffix of the token, when a batch in the other token is among the references, and of the batch.
\<close>

definition without_number :: "string \<Rightarrow> string" where
  "without_number s = (case dash_prefix s of None \<Rightarrow> s | Some b \<Rightarrow> b)"

definition one_line :: "string \<Rightarrow> bool" where
  "one_line s \<longleftrightarrow> list_all (\<lambda>c. (of_char c :: nat) \<noteq> 10 \<and> (of_char c :: nat) \<noteq> 13) s"

definition ends_with :: "string \<Rightarrow> string \<Rightarrow> bool" where
  "ends_with e s \<longleftrightarrow> length e \<le> length s \<and> drop (length s - length e) s = e"

text \<open>The match of \<open>/^(.*)-(USDC|EURC)(?:-\d+)?$/\<close>: the base and the other token.\<close>

definition token_base :: "string \<Rightarrow> (string \<times> string) option" where
  "token_base s =
     (let split = (\<lambda>x. if ends_with ''-USDC'' x \<and> one_line (take (length x - 5) x) then Some (take (length x - 5) x, ''EURC'')
                       else if ends_with ''-EURC'' x \<and> one_line (take (length x - 5) x) then Some (take (length x - 5) x, ''USDC'')
                       else None)
      in case split s of Some r \<Rightarrow> Some r | None \<Rightarrow> split (without_number s))"

definition payrollRunReference :: "string \<Rightarrow> string list \<Rightarrow> string" where
  "payrollRunReference reference all_refs =
     (case token_base reference of
        None \<Rightarrow> without_number reference
      | Some (base, other) \<Rightarrow>
          if \<exists>c\<in>set all_refs. c = base @ ''-'' @ other \<or> without_number c = base @ ''-'' @ other then base
          else without_number reference)"

definition task_of :: "task list \<Rightarrow> intent \<Rightarrow> task option" where
  "task_of T i = (if truthy (taskId i) then find_row (\<lambda>t. tId t = the (taskId i)) T else None)"

definition run_reference :: "task list \<Rightarrow> string list \<Rightarrow> intent \<Rightarrow> string" where
  "run_reference T refs i =
     (case (case task_of T i of None \<Rightarrow> None | Some t \<Rightarrow> metadataString (taskMetadata t) ''runReferenceId'') of
        Some r \<Rightarrow> r | None \<Rightarrow> payrollRunReference (externalReference i) refs)"

text \<open>A \<open>Map\<close> of groups, in order of first insertion.\<close>

fun group_add :: "'k \<Rightarrow> 'v \<Rightarrow> ('k \<times> 'v list) list \<Rightarrow> ('k \<times> 'v list) list" where
  "group_add k v [] = [(k, [v])]"
| "group_add k v ((l, vs) # gs) = (if k = l then (l, vs @ [v]) # gs else (l, vs) # group_add k v gs)"

definition payroll_runs :: "task list \<Rightarrow> intent list \<Rightarrow> (string \<times> intent list) list" where
  "payroll_runs T is = fold (\<lambda>i. group_add (run_reference T (map externalReference is) i) i) is []"

text \<open>\<open>tokenTotals\<close>: the address of the first intent and the sum of the amounts of each token.\<close>

fun total_add :: "string \<Rightarrow> string \<Rightarrow> int \<Rightarrow> (string \<times> string \<times> int) list \<Rightarrow> (string \<times> string \<times> int) list" where
  "total_add k a n [] = [(k, a, n)]"
| "total_add k a n ((l, b, m) # ts) = (if k = l then (l, b, m + n) # ts else (l, b, m) # total_add k a n ts)"

fun token_totals :: "evm \<Rightarrow> intent list \<Rightarrow> (string \<times> string \<times> int) list \<Rightarrow> (string \<times> string \<times> int) list res" where
  "token_totals E [] ts = Inr ts"
| "token_totals E (i # is) ts =
     bindR (toBigInt (amountUnits i)) (\<lambda>n. token_totals E is (total_add (symbolOf E (tokenOut i)) (tokenOut i) n ts))"

definition run_hashes :: "intent list \<Rightarrow> string list" where
  "run_hashes is = js_set (map toLowerCase (filter (\<lambda>h. h \<noteq> []) (List.map_filter transactionHash is)))"

definition recipient_count :: "task list \<Rightarrow> intent list \<Rightarrow> nat" where
  "recipient_count T is =
     sum_list (map (\<lambda>i. case find_row (\<lambda>t. tId t = i) T of None \<Rightarrow> 0 | Some t \<Rightarrow> metadataNumber (taskMetadata t) ''totalRecipients'')
       (js_set (map tId (List.map_filter (task_of T) is))))"

definition payroll_projection ::
  "activity_env \<Rightarrow> principal \<Rightarrow> string \<Rightarrow> task list \<Rightarrow> string \<times> intent list \<Rightarrow> projection res" where
  "payroll_projection V p wallet T run = (case run of (reference, is) \<Rightarrow>
     bindR (token_totals (avEvm V) is []) (\<lambda>totals.
     let single = (case totals of [x] \<Rightarrow> Some x | _ \<Rightarrow> None); hashes = run_hashes is in
     Inr (base_projection p wallet AT_payroll ''verified_payroll_intents'' ''payroll-run:'' ''payroll_run''
       (toLowerCase wallet @ '':'' @ reference)
       (no_columns\<lparr>coDirection := Some ''outgoing'', coTaskId := taskId (hd is), coChainId := Some ARC_MAINNET_CHAIN_ID,
          coTxHash := (case hashes of [] \<Rightarrow> None | h # _ \<Rightarrow> Some h),
          coInSymbol := map_option fst single, coInAddress := map_option (\<lambda>(_, a, _). a) single,
          coInAmount := map_option (\<lambda>(_, _, n). show_int n) single,
          coMetadata := Some (JObj [(''referenceId'', JStr reference), (''transactionCount'', JNum (recipient_count T is)),
            (''transactionHashes'', JArr (map JStr hashes)),
            (''tokenTotals'', JObj (map (\<lambda>(k, _, n). (k, JStr (show_int n))) totals))]),
          coOccurredAt := Some (Max (insert 0 (set (map (intent_time V) is))))\<rparr>))))"

definition swap_projection :: "activity_env \<Rightarrow> principal \<Rightarrow> string \<Rightarrow> swap_row \<Rightarrow> projection" where
  "swap_projection V p wallet w =
     base_projection p wallet AT_swap ''verified_swap_receipt'' ''verified-swap:'' ''verified_swap'' (swapId V (csHash w))
       (no_columns\<lparr>coDirection := Some ''outgoing'', coTransactionId := Some (swapId V (csHash w)),
          coChainId := Some (csChainId w), coTxHash := Some (csHash w), coInSymbol := Some (symbolOf (avEvm V) (csTokenIn w)),
          coInAddress := Some (csTokenIn w), coInAmount := Some (show_nat (csAmountIn w)),
          coOutSymbol := Some (symbolOf (avEvm V) (csTokenOut w)), coOutAddress := Some (csTokenOut w),
          coOutAmount := Some (show_nat (csAmountOut w)), coOccurredAt := Some (swCompletedAt w)\<rparr>)"

text \<open>A completed bridge transfer whose mint was verified by the service.\<close>

definition own_bridge :: "activity_env \<Rightarrow> string \<Rightarrow> bridge \<Rightarrow> bool" where
  "own_bridge V wallet b \<longleftrightarrow> (case bridgeResult b of None \<Rightarrow> False | Some r \<Rightarrow>
     destinationReceiptVerified r \<and> walletAddress (bridgePayload b) \<noteq> [] \<and> truthy (resDestinationHash r) \<and>
     sameWallet (avEvm V) (walletAddress (bridgePayload b)) wallet)"

definition bridge_projection :: "activity_env \<Rightarrow> principal \<Rightarrow> string \<Rightarrow> bridge \<Rightarrow> projection" where
  "bridge_projection V p wallet b = (let y = bridgePayload b; r = the (bridgeResult b) in
     base_projection p wallet AT_bridge ''completed_cctp_intent'' ''bridge:'' ''bridge_transaction'' (bridgeId b)
       (no_columns\<lparr>coDirection := Some ''outgoing'', coTaskId := Some (bridgeTaskId b), coOperationId := Some (bridgeId b),
          coChainId := Some (sourceChainId y), coTxHash := resDestinationHash r, coInSymbol := Some ''USDC'',
          coInAddress := nonempty (Some (sourceUsdcAddress y)), coInAmount := nonempty (Some (bridgeAmount y)),
          coOutSymbol := Some ''USDC'', coOutAddress := nonempty (Some (destinationUsdcAddress y)),
          coOutAmount := (if truthy (mintAmount r) then mintAmount r else nonempty (Some (bridgeAmount y))),
          coCounterparty := nonempty (Some (recipientAddress y)),
          coMetadata := Some (JObj [(''sourceChainId'', JNum (sourceChainId y)), (''destinationChainId'', JNum (destinationChainId y)),
            (''transactionHashes'', JArr (map JStr (List.map_filter nonempty [sourceTransactionHash r, resDestinationHash r])))]),
          coOccurredAt := Some (case bridgeCompletedAt r of Some t \<Rightarrow> t | None \<Rightarrow> rowUpdatedAt V (bridgeId b))\<rparr>))"

section \<open>Projecting what is persisted\<close>

text \<open>The loops: the next projection is computed, then written; the count is the number written.\<close>

fun upsertEach ::
  "activity_env \<Rightarrow> (nat \<Rightarrow> activity_db \<Rightarrow> activity_db) \<Rightarrow> nat \<Rightarrow> projection res list \<Rightarrow> (activity_db, nat) op" where
  "upsertEach V others n [] = ok n"
| "upsertEach V others n (r # rs) =
     andThen (lift r) (\<lambda>p. andThen (upsertActivity V (others n) p) (\<lambda>_. upsertEach V others (Suc n) rs))"

definition projectPersisted ::
  "activity_env \<Rightarrow> (nat \<Rightarrow> activity_db \<Rightarrow> activity_db) \<Rightarrow> principal \<Rightarrow> (activity_db, nat) op" where
  "projectPersisted V others p =
     andThen (lift (fromSome INVALID_ADDRESS (getAddress (avEvm V) (plWallet p)))) (\<lambda>wallet.
     andThen (query (\<lambda>s. (verified_payments (plUser p) (adCore s), completed_intents (adCore s),
       filter (\<lambda>b. bridgeStatus b = B_completed) (bridges (adCore s)),
       filter (\<lambda>w. csChainId w = ARC_MAINNET_CHAIN_ID) (adSwaps s)))) (\<lambda>(ys, is, bs, ws).
     andThen (upsertEach V others 0 (map (\<lambda>y. Inr (payment_projection V p y)) (own_payments V p ys))) (\<lambda>n.
     andThen (upsertEach V others n (map (\<lambda>i. Inr (send_projection V p wallet i)) (own_intents V wallet OP_SEND is))) (\<lambda>n.
     andThen (query (\<lambda>s. tasks (adCore s))) (\<lambda>T.
     andThen (upsertEach V others n (map (payroll_projection V p wallet T)
       (payroll_runs T (own_intents V wallet OP_PAYROLL is)))) (\<lambda>n.
     andThen (upsertEach V others n (map (\<lambda>w. Inr (swap_projection V p wallet w))
       (filter (\<lambda>w. sameWallet (avEvm V) (csWallet w) wallet) ws))) (\<lambda>n.
     upsertEach V others n (map (\<lambda>b. Inr (bridge_projection V p wallet b)) (filter (own_bridge V wallet) bs)))))))))"

section \<open>Synchronisation\<close>

datatype sync_status = SY_synced | SY_throttled | SY_in_flight | SY_failed

record sync_summary =
  syStatus :: sync_status
  syAccepted :: nat
  syRetryAfterMs :: int

definition SYNC_THROTTLE_MS :: int where
  "SYNC_THROTTLE_MS = 60000"

definition SYNC_LEASE_MS :: int where
  "SYNC_LEASE_MS = 120000"

definition sync_answer :: "sync_status \<Rightarrow> nat \<Rightarrow> int \<Rightarrow> sync_summary" where
  "sync_answer st n wait = \<lparr>syStatus = st, syAccepted = n, syRetryAfterMs = max 0 wait\<rparr>"

text \<open>The owner's sync state, created when it is missing.\<close>

definition ownSyncState :: "string \<Rightarrow> string \<Rightarrow> string \<Rightarrow> (sync_state list, sync_state) op" where
  "ownSyncState fresh owner wallet T =
     (case find_row (\<lambda>x. ssOwner x = owner) T of
        Some x \<Rightarrow> ok x T
      | None \<Rightarrow> insertUnique syncs_unique
          \<lparr>ssId = fresh, ssOwner = owner, ssWallet = wallet, ssLeaseId = None, ssLeaseExpiresAt = None, ssStartedAt = None,
           ssCompletedAt = None, ssNextAllowedAt = None\<rparr> T)"

definition claimable :: "int \<Rightarrow> sync_state \<Rightarrow> bool" where
  "claimable now x \<longleftrightarrow> (case ssLeaseExpiresAt x of None \<Rightarrow> True | Some t \<Rightarrow> t \<le> now) \<and>
     (case ssNextAllowedAt x of None \<Rightarrow> True | Some t \<Rightarrow> t \<le> now)"

definition claimSync :: "int \<Rightarrow> string \<Rightarrow> string \<Rightarrow> (sync_state list, nat) op" where
  "claimSync now lease i = updateMany (\<lambda>x. ssId x = i \<and> claimable now x)
     (\<lambda>x. x\<lparr>ssLeaseId := Some lease, ssLeaseExpiresAt := Some (now + SYNC_LEASE_MS), ssStartedAt := Some now\<rparr>)"

definition releaseSync :: "bool \<Rightarrow> int \<Rightarrow> string \<Rightarrow> string \<Rightarrow> (sync_state list, nat) op" where
  "releaseSync done_well now lease i = updateMany (\<lambda>x. ssId x = i \<and> ssLeaseId x = Some lease)
     (\<lambda>x. x\<lparr>ssLeaseId := None, ssLeaseExpiresAt := None, ssCompletedAt := (if done_well then Some now else ssCompletedAt x),
        ssNextAllowedAt := Some (now + SYNC_THROTTLE_MS)\<rparr>)"

definition lease_end :: "int \<Rightarrow> sync_state option \<Rightarrow> int" where
  "lease_end now current =
     (case (case current of None \<Rightarrow> None | Some x \<Rightarrow> ssLeaseExpiresAt x) of None \<Rightarrow> now + SYNC_LEASE_MS | Some t \<Rightarrow> t)"

text \<open>The answer when the claim did not hit the row.\<close>

definition refusedSync :: "int \<Rightarrow> string \<Rightarrow> (activity_db, sync_summary) op" where
  "refusedSync now i =
     andThen (query (\<lambda>s. find_row (\<lambda>x. ssId x = i) (syncs s))) (\<lambda>current.
     case (case current of None \<Rightarrow> None | Some x \<Rightarrow> ssNextAllowedAt x) of
       Some t \<Rightarrow> if now < t then ok (sync_answer SY_throttled 0 (t - now))
                 else ok (sync_answer SY_in_flight 0 (max 1000 (lease_end now current - now)))
     | None \<Rightarrow> ok (sync_answer SY_in_flight 0 (max 1000 (lease_end now current - now))))"

text \<open>The sync proper, for the owner's state \<open>i\<close>.\<close>

definition claimedSync ::
  "activity_env \<Rightarrow> (nat \<Rightarrow> activity_db \<Rightarrow> activity_db) \<Rightarrow> int \<Rightarrow> int \<Rightarrow> string \<Rightarrow> string \<Rightarrow> principal \<Rightarrow> (activity_db, sync_summary) op"
where
  "claimedSync V others now later lease i p =
     andThen (onSyncs (claimSync now lease i)) (\<lambda>hits.
     if hits \<noteq> 1 then refusedSync now i
     else catching
       (andThen (projectPersisted V others p) (\<lambda>n.
        andThen (onSyncs (releaseSync True later lease i)) (\<lambda>_. ok (sync_answer SY_synced n SYNC_THROTTLE_MS))))
       (\<lambda>_. andThen (onSyncs (releaseSync False later lease i)) (\<lambda>_. ok (sync_answer SY_failed 0 SYNC_THROTTLE_MS))))"

text \<open>
  \<open>runSync\<close>; \<open>now\<close> is the clock at its start and \<open>later\<close> the clock when the projection has ended.  What it
  throws while projecting is logged and answered as \<open>failed\<close>.
\<close>

definition runSync ::
  "activity_env \<Rightarrow> (nat \<Rightarrow> activity_db \<Rightarrow> activity_db) \<Rightarrow> int \<Rightarrow> int \<Rightarrow> string \<Rightarrow> string \<Rightarrow> principal \<Rightarrow> (activity_db, sync_summary) op"
where
  "runSync V others now later fresh lease p =
     andThen (lift (canonicalWallet (avEvm V) (plWallet p))) (\<lambda>wallet.
     andThen (onSyncs (ownSyncState fresh (plUser p) wallet)) (\<lambda>x.
     andThen (ensure (ssWallet x = wallet) (Unauthorized ''ACTIVITY_SYNC_OWNERSHIP'')) (\<lambda>_.
     case ssNextAllowedAt x of
       Some t \<Rightarrow> if now < t then andThen (projectPersisted V others p) (\<lambda>n. ok (sync_answer SY_throttled n (t - now)))
                 else claimedSync V others now later lease (ssId x) p
     | None \<Rightarrow> claimedSync V others now later lease (ssId x) p)))"

text \<open>Requests of one process for the same wallet share the sync that is running.\<close>

datatype 'a flight = Joined | Started 'a

definition flight_key :: "evm \<Rightarrow> principal \<Rightarrow> string res" where
  "flight_key E p = bindR (canonicalWallet E (plWallet p)) (\<lambda>w. Inr (plUser p @ '':'' @ w @ '':external_wallet''))"

definition syncActivities :: "evm \<Rightarrow> string set \<Rightarrow> (activity_db, 'a) op \<Rightarrow> principal \<Rightarrow> (activity_db, 'a flight) op" where
  "syncActivities E flights run p =
     andThen (lift (flight_key E p)) (\<lambda>k. if k \<in> flights then ok Joined else andThen run (\<lambda>x. ok (Started x)))"

section \<open>Reading\<close>

definition ACTIVITY_TYPES :: "(string \<times> activity_type) list" where
  "ACTIVITY_TYPES = [(''send'', AT_send), (''receive'', AT_receive), (''payroll'', AT_payroll), (''swap'', AT_swap),
     (''bridge'', AT_bridge), (''fx'', AT_fx), (''invoice_payment'', AT_invoice_payment)]"

definition ACTIVITY_STATUSES :: "(string \<times> activity_status) list" where
  "ACTIVITY_STATUSES = [(''pending'', AS_pending), (''submitted'', AS_submitted), (''confirming'', AS_confirming),
     (''completed'', AS_completed), (''failed'', AS_failed), (''expired'', AS_expired), (''cancelled'', AS_cancelled),
     (''recovery_required'', AS_recovery_required)]"

abbreviation INVALID_ACTIVITY :: exn where
  "INVALID_ACTIVITY \<equiv> PlainError ''INVALID_ACTIVITY''"

definition optionalChoice :: "(string \<times> 'a) list \<Rightarrow> string option \<Rightarrow> 'a option res" where
  "optionalChoice table v =
     (if \<not> truthy v then Inr None
      else bindR (fromSome INVALID_ACTIVITY (map_of table (the v))) (\<lambda>x. Inr (Some x)))"

text \<open>A cursor names the last row of a page by its time and its id.\<close>

definition encodeCursor :: "activity_env \<Rightarrow> activity \<Rightarrow> string" where
  "encodeCursor V a = base64Json V (JObj [(''createdAt'', JStr (isoDate V (acCreatedAt a))), (''id'', JStr (acId a))])"

definition decodeCursor :: "activity_env \<Rightarrow> string \<Rightarrow> (int \<times> js) res" where
  "decodeCursor V text =
     bindR (fromSome INVALID_ACTIVITY (parseBase64Json V text)) (\<lambda>v.
     bindR (ensureR (v \<noteq> JNull) INVALID_ACTIVITY) (\<lambda>_.
     let at = js_get ''createdAt'' v in
     bindR (ensureR (js_truthy (js_get ''id'' v)) INVALID_ACTIVITY) (\<lambda>_.
     bindR (fromSome INVALID_ACTIVITY (parseDate V (if at \<in> {JUndefined, JNull} then JStr [] else at))) (\<lambda>t.
     Inr (t, js_get ''id'' v)))))"

record list_input =
  liCursor :: "string option"
  liLimit :: "js_number option"
  liType :: "string option"
  liStatus :: "string option"

definition optionalCursor :: "activity_env \<Rightarrow> string option \<Rightarrow> (int \<times> js) option res" where
  "optionalCursor V c = (if \<not> truthy c then Inr None else bindR (decodeCursor V (the c)) (\<lambda>x. Inr (Some x)))"

definition validateListInput :: "activity_env \<Rightarrow> list_input \<Rightarrow> unit res" where
  "validateListInput V x =
     bindR (ensureR (case liLimit x of None \<Rightarrow> True | Some n \<Rightarrow> (case integer_of n of Some m \<Rightarrow> 1 \<le> m | None \<Rightarrow> False))
       INVALID_ACTIVITY) (\<lambda>_.
     bindR (optionalChoice ACTIVITY_TYPES (liType x)) (\<lambda>_.
     bindR (optionalChoice ACTIVITY_STATUSES (liStatus x)) (\<lambda>_.
     bindR (optionalCursor V (liCursor x)) (\<lambda>_. Inr ()))))"

text \<open>\<open>Math.min(Math.max(limit ?? 20, 1), 50)\<close>\<close>

definition pageSize :: "js_number option \<Rightarrow> nat" where
  "pageSize l = nat (min (max (case l of Some (Integer n) \<Rightarrow> n | _ \<Rightarrow> 20) 1) 50)"

text \<open>
  The rows of a filter, newest first.  Ids are UUIDs, whose order is that of their texts; the id of a forged cursor
  that is not one, which Postgres refuses, is compared as a text.
\<close>

definition activity_key :: "activity \<Rightarrow> int \<times> string" where
  "activity_key a = (acCreatedAt a, acId a)"

definition newest_first :: "activity list \<Rightarrow> activity list" where
  "newest_first T = rev (sort_key activity_key T)"

definition in_filter :: "string \<Rightarrow> string \<Rightarrow> activity_type option \<Rightarrow> activity_status option \<Rightarrow> activity \<Rightarrow> bool" where
  "in_filter owner wallet ty st a \<longleftrightarrow> acOwner a = owner \<and> acWallet a = wallet \<and>
     (case ty of None \<Rightarrow> True | Some t \<Rightarrow> acType a = t) \<and> (case st of None \<Rightarrow> True | Some t \<Rightarrow> acStatus a = t)"

definition before_cursor :: "(int \<times> js) option \<Rightarrow> activity \<Rightarrow> bool" where
  "before_cursor c a \<longleftrightarrow> (case c of None \<Rightarrow> True | Some (t, i) \<Rightarrow> acCreatedAt a < t \<or> acCreatedAt a = t \<and>
     (case i of JStr s \<Rightarrow> acId a < s | _ \<Rightarrow> False))"

text \<open>\<open>toPublic\<close>: what the client sees of a row, with the metadata filtered again.\<close>

record public_activity =
  puId :: string
  puType :: activity_type
  puStatus :: activity_status
  puSource :: string
  puRefType :: string
  puRefId :: string
  puColumns :: columns
  puCreatedAt :: int

definition toPublicActivity :: "activity \<Rightarrow> public_activity" where
  "toPublicActivity a =
     \<lparr>puId = acId a, puType = acType a, puStatus = acStatus a, puSource = acSource a, puRefType = acRefType a,
      puRefId = acRefId a, puColumns = (acColumns a)\<lparr>coMetadata :=
        safeMetadata (Some (case coMetadata (acColumns a) of Some (JObj es) \<Rightarrow> JObj es | _ \<Rightarrow> JObj []))\<rparr>,
      puCreatedAt = acCreatedAt a\<rparr>"

definition listActivities ::
  "activity_env \<Rightarrow> principal \<Rightarrow> list_input \<Rightarrow> (activity_db, public_activity list \<times> string option) op" where
  "listActivities V p x =
     andThen (lift (validateListInput V x)) (\<lambda>_.
     let limit = pageSize (liLimit x) in
     andThen (lift (optionalChoice ACTIVITY_TYPES (liType x))) (\<lambda>ty.
     andThen (lift (optionalChoice ACTIVITY_STATUSES (liStatus x))) (\<lambda>st.
     andThen (lift (optionalCursor V (liCursor x))) (\<lambda>cursor.
     andThen (lift (canonicalWallet (avEvm V) (plWallet p))) (\<lambda>wallet.
     andThen (ensure (case cursor of None \<Rightarrow> True | Some (_, i) \<Rightarrow> is_str i) (PlainError ''PrismaClientValidationError'')) (\<lambda>_.
     query (\<lambda>s.
       let rows = take (limit + 1) (filter (before_cursor cursor) (newest_first (filter (in_filter (plUser p) wallet ty st) (activities s))));
           items = take limit rows in
       (map toPublicActivity items,
        if limit < length rows \<and> items \<noteq> [] then Some (encodeCursor V (last items)) else None))))))))"

definition getOwnedActivity :: "activity_env \<Rightarrow> principal \<Rightarrow> string \<Rightarrow> (activity_db, public_activity) op" where
  "getOwnedActivity V p i =
     andThen (lift (canonicalWallet (avEvm V) (plWallet p))) (\<lambda>wallet.
     andThen (query (\<lambda>s. find_row (\<lambda>a. acId a = i \<and> acOwner a = plUser p \<and> acWallet a = wallet) (activities s))) (\<lambda>found.
     andThen (lift (fromSome (NotFound ''ACTIVITY'') found)) (\<lambda>a. ok (toPublicActivity a))))"

text \<open>The endpoint of the list: errors of its input are answered as bad requests.\<close>

definition listEndpoint ::
  "activity_env \<Rightarrow> principal res \<Rightarrow> list_input \<Rightarrow> (activity_db, public_activity list \<times> string option) op" where
  "listEndpoint V session x =
     andThen (lift session) (\<lambda>p.
     andThen (ensure (case liLimit x of None \<Rightarrow> True | Some n \<Rightarrow> (case integer_of n of Some m \<Rightarrow> 1 \<le> m | None \<Rightarrow> False))
       (BadRequest ''INVALID_ACTIVITY'')) (\<lambda>_.
     catching (andThen (lift (validateListInput V x)) (\<lambda>_. listActivities V p x))
       (\<lambda>e. throw (if e = INVALID_ACTIVITY then BadRequest ''INVALID_ACTIVITY'' else e))))"

section \<open>Backfill\<close>

text \<open>\<open>activity-backfill.service.ts\<close>: every owner with exactly one row for its address is projected.\<close>

record backfill_report =
  bfScanned :: nat
  bfProjected :: nat
  bfMalformed :: nat
  bfAmbiguous :: nat

definition wallet_groups :: "evm \<Rightarrow> user_wallet list \<Rightarrow> (string \<times> user_wallet list) list" where
  "wallet_groups E ws = fold (\<lambda>w. case getAddress E (uwAddress w) of None \<Rightarrow> id | Some a \<Rightarrow> group_add (toLowerCase a) w)
     (filter (\<lambda>w. isAddress E (uwAddress w)) ws) []"

fun backfillEach ::
  "activity_env \<Rightarrow> (nat \<Rightarrow> nat \<Rightarrow> activity_db \<Rightarrow> activity_db) \<Rightarrow> user_wallet list list \<Rightarrow> backfill_report \<Rightarrow>
   (activity_db, backfill_report) op" where
  "backfillEach V others [] x = ok x"
| "backfillEach V others (ms # rest) x =
     (if length (remdups (map uwUser ms)) \<noteq> 1 \<or> length ms \<noteq> 1
      then backfillEach V others rest (x\<lparr>bfAmbiguous := bfAmbiguous x + length ms\<rparr>)
      else
        andThen (lift (fromSome INVALID_ADDRESS (getAddress (avEvm V) (uwAddress (hd ms))))) (\<lambda>a.
        andThen (projectPersisted V (others (bfProjected x)) \<lparr>plUser = uwUser (hd ms), plWallet = a\<rparr>) (\<lambda>_.
        backfillEach V others rest (x\<lparr>bfProjected := bfProjected x + 1\<rparr>))))"

definition backfill ::
  "activity_env \<Rightarrow> (nat \<Rightarrow> nat \<Rightarrow> activity_db \<Rightarrow> activity_db) \<Rightarrow> user_wallet list \<Rightarrow> (activity_db, backfill_report) op" where
  "backfill V others table =
     (let ws = filter (\<lambda>w. uwBlockchain w = ''ARC-MAINNET'') table in
      backfillEach V others (map snd (wallet_groups (avEvm V) ws))
        \<lparr>bfScanned = length ws, bfProjected = 0,
         bfMalformed = length (filter (\<lambda>w. \<not> isAddress (avEvm V) (uwAddress w)) ws), bfAmbiguous = 0\<rparr>)"

end
