(* ===== verification/ActivityProperties.thy ===== *)
theory ActivityProperties
  imports Activity
begin

text \<open>
  What the activity feed guarantees: every activity shows a verified record of its owner's wallet, a completed
  activity stays completed, following the cursors gives each activity once and in order, and the syncs of one
  owner start at least a minute apart.
\<close>

section \<open>Pages\<close>

text \<open>
  What is used of the runtime: the dates that JavaScript can hold are read back from their texts, and so is the
  text of a cursor.
\<close>

definition is_date :: "int \<Rightarrow> bool" where
  "is_date t \<longleftrightarrow> \<bar>t\<bar> \<le> 8640000000000000"

definition codec_ok :: "activity_env \<Rightarrow> bool" where
  "codec_ok V \<longleftrightarrow>
     (\<forall>t i. let v = JObj [(''createdAt'', JStr t), (''id'', JStr i)] in
        parseBase64Json V (base64Json V v) = Some v \<and> base64Json V v \<noteq> []) \<and>
     (\<forall>t. is_date t \<longrightarrow> parseDate V (JStr (isoDate V t)) = Some t)"

definition rows_ok :: "activity_db \<Rightarrow> bool" where
  "rows_ok s \<longleftrightarrow> distinct (map acId (activities s)) \<and> (\<forall>a\<in>set (activities s). acId a \<noteq> [] \<and> is_date (acCreatedAt a))"

lemma cursor_decoded:
  assumes "codec_ok V" "acId a \<noteq> []" "is_date (acCreatedAt a)"
  shows "optionalCursor V (Some (encodeCursor V a)) = Inr (Some (acCreatedAt a, JStr (acId a)))"
  using assms by (simp add: optionalCursor_def codec_ok_def encodeCursor_def decodeCursor_def fromSome_def Let_def js_get_def
      js_truthy_def ensureR_def)

lemma before_key: "before_cursor (Some (t, JStr i)) = (\<lambda>a. activity_key a < (t, i))"
  by (rule ext) (auto simp: before_cursor_def activity_key_def less_prod_def)

definition descending :: "activity list \<Rightarrow> bool" where
  "descending = sorted_wrt (\<lambda>a b. activity_key b < activity_key a)"

lemma descending_after: "descending (A @ c # B) \<Longrightarrow> filter (\<lambda>a. activity_key a < activity_key c) (A @ c # B) = B"
proof -
  assume "descending (A @ c # B)"
  then have "\<forall>a\<in>set A. activity_key c < activity_key a" "\<forall>b\<in>set B. activity_key b < activity_key c"
    by (auto simp: descending_def sorted_wrt_append)
  then have "filter (\<lambda>a. activity_key a < activity_key c) A = []" "filter (\<lambda>a. activity_key a < activity_key c) B = B"
    by (auto simp: filter_empty_conv filter_id_conv dest: less_asym)
  then show ?thesis by simp
qed

lemma descending_newest:
  assumes "distinct (map acId T)"
  shows "descending (newest_first T)"
proof -
  have "inj_on activity_key (set T)"
    using assms by (auto simp: inj_on_def activity_key_def distinct_map)
  then have "distinct (map activity_key (sort_key activity_key T))"
    using assms by (simp add: distinct_map)
  moreover have "sorted (map activity_key (sort_key activity_key T))" by simp
  ultimately have "sorted_wrt (<) (map activity_key (sort_key activity_key T))"
    by (simp add: strict_sorted_iff)
  then show ?thesis by (simp add: descending_def newest_first_def sorted_wrt_rev sorted_wrt_map)
qed

lemma set_newest [simp]: "set (newest_first T) = set T" "length (newest_first T) = length T"
  by (simp_all add: newest_first_def)

text \<open>The rows that are left after a cursor.\<close>

definition rows_after :: "(int \<times> js) option \<Rightarrow> activity list \<Rightarrow> activity list" where
  "rows_after c L = filter (before_cursor c) L"

lemma rows_after_last:
  assumes "descending L" "L = A @ R" "0 < n" "n < length R"
  shows "rows_after (Some (acCreatedAt (last (take n R)), JStr (acId (last (take n R))))) L = drop n R"
proof -
  have split: "R = butlast (take n R) @ last (take n R) # drop n R"
    using assms(3,4) by (metis append_Cons append_Nil append_assoc append_butlast_last_id append_take_drop_id length_greater_0_conv
        order.strict_trans take_eq_Nil neq0_conv)
  have "L = (A @ butlast (take n R)) @ last (take n R) # drop n R" using assms(2) split by simp
  then have "filter (\<lambda>a. activity_key a < activity_key (last (take n R))) L = drop n R"
    using descending_after assms(1) by metis
  then show ?thesis unfolding rows_after_def before_key by (simp only: activity_key_def)
qed

text \<open>A request whose input is valid, and its answer.\<close>

record valid_list =
  vlType :: "activity_type option"
  vlStatus :: "activity_status option"
  vlWallet :: string

definition valid_input :: "activity_env \<Rightarrow> principal \<Rightarrow> list_input \<Rightarrow> valid_list \<Rightarrow> bool" where
  "valid_input V p x y \<longleftrightarrow>
     (case liLimit x of None \<Rightarrow> True | Some l \<Rightarrow> (case integer_of l of Some n \<Rightarrow> 1 \<le> n | None \<Rightarrow> False)) \<and>
     optionalChoice ACTIVITY_TYPES (liType x) = Inr (vlType y) \<and> optionalChoice ACTIVITY_STATUSES (liStatus x) = Inr (vlStatus y) \<and>
     canonicalWallet (avEvm V) (plWallet p) = Inr (vlWallet y)"

definition own_rows :: "principal \<Rightarrow> valid_list \<Rightarrow> activity_db \<Rightarrow> activity list" where
  "own_rows p y s = filter (in_filter (plUser p) (vlWallet y) (vlType y) (vlStatus y)) (activities s)"

lemma page_bounds: "1 \<le> pageSize l \<and> pageSize l \<le> 50"
  by (cases l) (auto simp: pageSize_def split: js_number.splits)

lemma list_run:
  assumes "valid_input V p x y" "optionalCursor V (liCursor x) = Inr c" "case c of None \<Rightarrow> True | Some (_, i) \<Rightarrow> is_str i"
  shows "listActivities V p x s =
    (let R = rows_after c (newest_first (own_rows p y s)); n = pageSize (liLimit x) in
     (Inr (map toPublicActivity (take n R), if n < length R then Some (encodeCursor V (last (take n R))) else None), s))"
proof -
  have "validateListInput V x = Inr ()"
    using assms(1,2) by (simp add: validateListInput_def valid_input_def ensureR_def)
  moreover have "0 < pageSize (liLimit x)" using page_bounds [of "liLimit x"] by simp
  ultimately show ?thesis
    using assms unfolding valid_input_def
    by (auto simp: listActivities_def andThen_def lift_def ensure_def query_def Let_def own_rows_def rows_after_def
        min_def)
qed

text \<open>A client that follows the cursors, \<open>n\<close> requests at most.\<close>

fun follow :: "activity_env \<Rightarrow> principal \<Rightarrow> list_input \<Rightarrow> activity_db \<Rightarrow> nat \<Rightarrow> public_activity list list" where
  "follow V p x s 0 = []"
| "follow V p x s (Suc n) =
     (case fst (listActivities V p x s) of
        Inl e \<Rightarrow> []
      | Inr (items, next) \<Rightarrow> items # (case next of None \<Rightarrow> [] | Some c \<Rightarrow> follow V p (x\<lparr>liCursor := Some c\<rparr>) s n))"

text \<open>A list cut into pages of \<open>m\<close>.\<close>

function pages :: "nat \<Rightarrow> 'a list \<Rightarrow> 'a list list" where
  "pages m R = (if m = 0 \<or> length R \<le> m then [R] else take m R # pages m (drop m R))"
  by pat_completeness auto
termination by (relation "measure (\<lambda>(m, R). length R)") auto

declare pages.simps [simp del]

lemma pages_nonempty: "pages m R \<noteq> []"
  by (subst pages.simps) simp

lemma concat_pages: "concat (pages m R) = R"
proof (induction m R rule: pages.induct)
  case (1 m R)
  then show ?case by (subst pages.simps) simp
qed

lemma small_pages: "0 < m \<Longrightarrow> x \<in> set (pages m R) \<Longrightarrow> length x \<le> m"
proof (induction m R rule: pages.induct)
  case (1 m R)
  from 1(3) show ?case using 1(1,2) by (subst (asm) pages.simps) (auto split: if_splits)
qed

lemma full_pages: "x \<in> set (butlast (pages m R)) \<Longrightarrow> length x = m"
proof (induction m R rule: pages.induct)
  case (1 m R)
  from 1(2) show ?case using 1(1) by (subst (asm) pages.simps) (auto simp: pages_nonempty split: if_splits)
qed

lemma follow_last:
  assumes "valid_input V p x y" "optionalCursor V (liCursor x) = Inr c" "case c of None \<Rightarrow> True | Some (_, i) \<Rightarrow> is_str i"
    and "\<not> pageSize (liLimit x) < length (rows_after c (newest_first (own_rows p y s)))"
  shows "follow V p x s (Suc n) = [map toPublicActivity (rows_after c (newest_first (own_rows p y s)))]"
  using assms(4) by (simp add: list_run [OF assms(1-3)] Let_def)

lemma follow_more:
  assumes "valid_input V p x y" "optionalCursor V (liCursor x) = Inr c" "case c of None \<Rightarrow> True | Some (_, i) \<Rightarrow> is_str i"
    and "R = rows_after c (newest_first (own_rows p y s))" "m = pageSize (liLimit x)" "m < length R"
  shows "follow V p x s (Suc n) =
    map toPublicActivity (take m R) # follow V p (x\<lparr>liCursor := Some (encodeCursor V (last (take m R)))\<rparr>) s n"
  unfolding follow.simps list_run [OF assms(1-3)] assms(4) [symmetric] assms(5) [symmetric] Let_def if_P [OF assms(6)]
  by simp

lemma follow_pages:
  assumes "codec_ok V" "rows_ok s" "valid_input V p x y"
    and "optionalCursor V (liCursor x) = Inr c" "case c of None \<Rightarrow> True | Some (_, i) \<Rightarrow> is_str i"
    and "newest_first (own_rows p y s) = A @ rows_after c (newest_first (own_rows p y s))"
    and "length (rows_after c (newest_first (own_rows p y s))) < n"
  shows "follow V p x s n =
    map (map toPublicActivity) (pages (pageSize (liLimit x)) (rows_after c (newest_first (own_rows p y s))))"
  using assms(3-)
proof (induction n arbitrary: x c A)
  case (Suc n)
  define L where "L = newest_first (own_rows p y s)"
  define R where "R = rows_after c L"
  define m where "m = pageSize (liLimit x)"
  have m: "0 < m" using page_bounds [of "liLimit x"] by (simp add: m_def)
  have desc: "descending L" unfolding L_def
    by (rule descending_newest) (use assms(2) in \<open>simp add: own_rows_def distinct_map_filter rows_ok_def\<close>)
  show ?case
  proof (cases "m < length R")
    case False
    have "follow V p x s (Suc n) = [map toPublicActivity R]"
      unfolding R_def L_def by (rule follow_last [OF Suc.prems(1-3)]) (use False in \<open>simp add: m_def R_def L_def\<close>)
    moreover have "pages m R = [R]" using False by (subst pages.simps) simp
    ultimately show ?thesis by (simp add: R_def L_def m_def)
  next
    case True
    define a where "a = last (take m R)"
    have "a \<in> set (take m R)" unfolding a_def using True m by (intro last_in_set) auto
    then have "a \<in> set (activities s)"
      by (auto simp: R_def L_def rows_after_def own_rows_def dest!: in_set_takeD)
    then have cursor: "optionalCursor V (Some (encodeCursor V a)) = Inr (Some (acCreatedAt a, JStr (acId a)))"
      using assms(2) by (intro cursor_decoded [OF assms(1)]) (auto simp: rows_ok_def)
    have split: "L = A @ R" using Suc.prems(4) by (simp add: L_def R_def)
    have rest: "rows_after (Some (acCreatedAt a, JStr (acId a))) L = drop m R"
      unfolding a_def by (rule rows_after_last [OF desc split m True])
    have "follow V p (x\<lparr>liCursor := Some (encodeCursor V a)\<rparr>) s n =
      map (map toPublicActivity) (pages m (drop m R))"
      using Suc.IH [where x = "x\<lparr>liCursor := Some (encodeCursor V a)\<rparr>" and A = "A @ take m R"
          and c = "Some (acCreatedAt a, JStr (acId a))"] Suc.prems(1,5) cursor True m split
      unfolding L_def [symmetric] R_def [symmetric] rest
      by (simp add: valid_input_def is_str_def m_def)
    moreover have "follow V p x s (Suc n) =
      map toPublicActivity (take m R) # follow V p (x\<lparr>liCursor := Some (encodeCursor V a)\<rparr>) s n"
      unfolding a_def by (rule follow_more [OF Suc.prems(1-3) _ m_def True]) (simp add: R_def L_def)
    moreover have "pages m R = take m R # pages m (drop m R)" using True m by (subst pages.simps) simp
    ultimately show ?thesis by (simp add: R_def L_def m_def)
  qed
qed simp

text \<open>
  C34: following the cursors of the activity list gives every activity of the owner's filter exactly once, from
  the newest to the oldest, in pages that are full except for the last, and it ends: one request more than
  there are activities is always enough.
\<close>

theorem pages_complete:
  assumes "codec_ok V" "rows_ok s" "valid_input V p x y" "liCursor x = None" "length (activities s) < n"
  shows "concat (follow V p x s n) = map toPublicActivity (newest_first (own_rows p y s)) \<and>
    descending (newest_first (own_rows p y s)) \<and>
    (\<forall>page\<in>set (follow V p x s n). length page \<le> pageSize (liLimit x)) \<and>
    (\<forall>page\<in>set (butlast (follow V p x s n)). length page = pageSize (liLimit x))"
proof -
  define L where "L = newest_first (own_rows p y s)"
  have all: "rows_after None L = L" by (simp add: rows_after_def before_cursor_def)
  have "length L < n" using assms(5) by (simp add: L_def own_rows_def le_less_trans [OF length_filter_le])
  then have "follow V p x s n = map (map toPublicActivity) (pages (pageSize (liLimit x)) L)"
    using follow_pages [OF assms(1-3), where c = None and A = "[]"] assms(4) all
    by (simp add: optionalCursor_def truthy_def L_def)
  moreover have "descending L" unfolding L_def
    by (rule descending_newest) (use assms(2) in \<open>simp add: own_rows_def distinct_map_filter rows_ok_def\<close>)
  moreover have "0 < pageSize (liLimit x)" using page_bounds [of "liLimit x"] by simp
  ultimately show ?thesis unfolding L_def [symmetric]
    by (auto simp: concat_pages full_pages map_butlast [symmetric] map_concat [symmetric] intro: small_pages)
qed

section \<open>Leases\<close>

text \<open>What syncs do to the state of one owner: claims and releases, at the times of the clock.\<close>

datatype sync_event = Claim int string | Release bool int string

fun event_time :: "sync_event \<Rightarrow> int" where
  "event_time (Claim t lease) = t"
| "event_time (Release b t lease) = t"

text \<open>The times of the claims that hit the row.\<close>

fun claim_times :: "string \<Rightarrow> sync_event list \<Rightarrow> sync_state list \<Rightarrow> int list" where
  "claim_times i [] T = []"
| "claim_times i (Claim t lease # es) T =
     (case claimSync t lease i T of
        (Inr hits, U) \<Rightarrow> if hits = 1 then t # claim_times i es U else claim_times i es U
      | (Inl e, U) \<Rightarrow> claim_times i es U)"
| "claim_times i (Release b t lease # es) T = claim_times i es (snd (releaseSync b t lease i T))"

text \<open>No claim can hit before \<open>t\<close>, nor any later one before a release.\<close>

definition held_row :: "int \<Rightarrow> sync_state \<Rightarrow> bool" where
  "held_row t x \<longleftrightarrow> (case ssLeaseExpiresAt x of None \<Rightarrow> False | Some u \<Rightarrow> t \<le> u) \<or>
     (case ssNextAllowedAt x of None \<Rightarrow> False | Some u \<Rightarrow> t \<le> u)"

definition held_until :: "int \<Rightarrow> string \<Rightarrow> sync_state list \<Rightarrow> bool" where
  "held_until t i T \<longleftrightarrow> (\<forall>x\<in>set T. ssId x = i \<longrightarrow> held_row t x)"

definition claimed_row :: "int \<Rightarrow> string \<Rightarrow> sync_state \<Rightarrow> sync_state" where
  "claimed_row now lease x = x\<lparr>ssLeaseId := Some lease, ssLeaseExpiresAt := Some (now + SYNC_LEASE_MS), ssStartedAt := Some now\<rparr>"

lemma claim_result:
  "claimSync now lease i T = (Inr (count_rows (\<lambda>x. ssId x = i \<and> claimable now x) T),
     map (\<lambda>x. if ssId x = i \<and> claimable now x then claimed_row now lease x else x) T)"
  by (simp add: claimSync_def updateMany_def update_rows_def claimed_row_def cong: if_cong)

lemma held_claimable: "held_row t x \<Longrightarrow> claimable now x \<Longrightarrow> t \<le> now"
  by (auto simp: held_row_def claimable_def split: option.splits)

lemma held_claimed: "t \<le> now + SYNC_LEASE_MS \<Longrightarrow> held_row t (claimed_row now lease x)"
  by (simp add: held_row_def claimed_row_def)

lemma held_until_mono: "held_until u i T \<Longrightarrow> t \<le> u \<Longrightarrow> held_until t i T"
  unfolding held_until_def held_row_def by (fastforce split: option.splits)

lemma claim_after:
  assumes "held_until t i T" "fst (claimSync now lease i T) = Inr 1"
  shows "t \<le> now"
proof -
  have "filter (\<lambda>x. ssId x = i \<and> claimable now x) T \<noteq> []"
    using assms(2) by (auto simp: claim_result count_rows_def)
  then obtain x where "x \<in> set T" "ssId x = i" "claimable now x" by (auto simp: filter_empty_conv)
  then show ?thesis using assms(1) held_claimable unfolding held_until_def by blast
qed

lemma claim_holds:
  assumes "distinct (map ssId T)" "fst (claimSync now lease i T) = Inr 1"
  shows "held_until (now + SYNC_LEASE_MS) i (snd (claimSync now lease i T))"
proof -
  have hits: "count_rows (\<lambda>x. ssId x = i \<and> claimable now x) T = 1" using assms(2) by (simp add: claim_result)
  have claimed: "claimable now x" if "x \<in> set T" "ssId x = i" for x
  proof (rule ccontr)
    assume "\<not> claimable now x"
    then have "count_rows (\<lambda>x. ssId x = i \<and> claimable now x) T = 0"
      unfolding count_unique [OF assms(1)] find_row_unique [OF assms(1) that] by simp
    then show False using hits by simp
  qed
  have "held_row (now + SYNC_LEASE_MS) y" if "y \<in> set (snd (claimSync now lease i T))" "ssId y = i" for y
  proof -
    obtain x where x: "x \<in> set T" "y = (if ssId x = i \<and> claimable now x then claimed_row now lease x else x)"
      using \<open>y \<in> _\<close> unfolding claim_result snd_conv set_map by (rule imageE)
    then have "ssId x = i" using \<open>ssId y = i\<close> by (simp add: claimed_row_def split: if_splits)
    then show ?thesis using x claimed held_claimed [of "now + SYNC_LEASE_MS" now lease x] by simp
  qed
  then show ?thesis unfolding held_until_def by blast
qed

lemma claim_ids: "map ssId (snd (claimSync now lease i T)) = map ssId T"
  by (simp add: claimSync_def updateMany_def)

lemma release_ids: "map ssId (snd (releaseSync b now lease i T)) = map ssId T"
  by (simp add: releaseSync_def updateMany_def)

lemma claim_kept:
  assumes "held_until t i T" "t \<le> now + SYNC_THROTTLE_MS"
  shows "held_until t i (snd (claimSync now lease i T))"
  using assms by (auto simp: claim_result held_until_def SYNC_LEASE_MS_def SYNC_THROTTLE_MS_def intro!: held_claimed)

lemma release_kept:
  assumes "held_until t i T" "t \<le> now + SYNC_THROTTLE_MS"
  shows "held_until t i (snd (releaseSync b now lease i T))"
proof (unfold held_until_def, intro ballI impI)
  fix y
  assume y: "y \<in> set (snd (releaseSync b now lease i T))" "ssId y = i"
  have "y \<in> set T \<or> ssNextAllowedAt y = Some (now + SYNC_THROTTLE_MS)"
  proof -
    obtain x where "x \<in> set T"
      "y = (if ssId x = i \<and> ssLeaseId x = Some lease then x\<lparr>ssLeaseId := None, ssLeaseExpiresAt := None,
         ssCompletedAt := (if b then Some now else ssCompletedAt x), ssNextAllowedAt := Some (now + SYNC_THROTTLE_MS)\<rparr> else x)"
      using y(1) unfolding releaseSync_def updateMany_def update_rows_def snd_conv set_map by (rule imageE)
    then show ?thesis by (cases "ssId x = i \<and> ssLeaseId x = Some lease") simp_all
  qed
  then show "held_row t y"
  proof
    assume "y \<in> set T"
    then show ?thesis using assms(1) y(2) unfolding held_until_def by blast
  next
    assume "ssNextAllowedAt y = Some (now + SYNC_THROTTLE_MS)"
    then show ?thesis using assms(2) by (simp add: held_row_def)
  qed
qed

lemma claims_after:
  assumes "distinct (map ssId T)" "held_until t i T" "\<forall>e\<in>set es. t \<le> event_time e + SYNC_THROTTLE_MS" "sorted (map event_time es)"
  shows "\<forall>u\<in>set (claim_times i es T). t \<le> u"
  using assms
proof (induction i es T rule: claim_times.induct)
  case step: (2 i now lease es T)
  let ?c = "claimSync now lease i T"
  obtain hits U where run: "?c = (Inr hits, U)" by (simp add: claim_result)
  have U: "distinct (map ssId U)" using step.prems(1) claim_ids [of now lease i T] run by simp
  have now: "t \<le> now + SYNC_THROTTLE_MS" "\<forall>e\<in>set es. t \<le> event_time e + SYNC_THROTTLE_MS" "sorted (map event_time es)"
    using step.prems(3,4) by simp_all
  have held: "held_until t i U" using claim_kept [OF step.prems(2) now(1), of lease] run by (simp only: snd_conv)
  have rest: "\<forall>u\<in>set (claim_times i es U). t \<le> u"
  proof (cases "hits = 1")
    case True
    show ?thesis by (rule step(2) [OF run [symmetric] refl True U held now(2,3)])
  next
    case False
    show ?thesis by (rule step(3) [OF run [symmetric] refl False U held now(2,3)])
  qed
  have "t \<le> now" if "hits = 1" using claim_after [OF step.prems(2), of now lease] run that by simp
  with rest show ?case by (simp add: run)
next
  case (3 i b now lease es T)
  have "distinct (map ssId (snd (releaseSync b now lease i T)))" using 3(2) by (simp add: release_ids)
  moreover have "held_until t i (snd (releaseSync b now lease i T))" using release_kept [OF 3(3)] 3(4) by simp
  ultimately show ?case using 3(1,4,5) by simp
qed simp

text \<open>
  C35: the syncs of one owner that are started, which are the claims that hit, begin at least a minute apart,
  whatever processes claim and release in whatever order.
\<close>

theorem claims_apart:
  assumes "distinct (map ssId T)" "sorted (map event_time es)"
  shows "sorted_wrt (\<lambda>t u. t + SYNC_THROTTLE_MS \<le> u) (claim_times i es T)"
  using assms
proof (induction i es T rule: claim_times.induct)
  case step: (2 i now lease es T)
  obtain hits U where run: "claimSync now lease i T = (Inr hits, U)" by (simp add: claim_result)
  have ids: "distinct (map ssId U)" using step.prems(1) claim_ids [of now lease i T] run by simp
  then have rest: "sorted_wrt (\<lambda>t u. t + SYNC_THROTTLE_MS \<le> u) (claim_times i es U)"
    using step(2,3) [OF run [symmetric] refl] step.prems(2) by (cases "hits = 1") simp_all
  have "\<forall>u\<in>set (claim_times i es U). now + SYNC_THROTTLE_MS \<le> u" if "hits = 1"
  proof (rule claims_after [OF ids])
    show "held_until (now + SYNC_THROTTLE_MS) i U"
      using claim_holds [OF step.prems(1), of now lease i] run that
      by (intro held_until_mono [where t = "now + SYNC_THROTTLE_MS" and u = "now + SYNC_LEASE_MS"])
        (simp_all add: SYNC_LEASE_MS_def SYNC_THROTTLE_MS_def)
  qed (use step.prems(2) in auto)
  with rest show ?case by (simp add: run)
qed (simp_all add: release_ids)

theorem claims_apart_witness:
  "claim_times ''s''
     [Claim 0 ''a'', Claim 30000 ''b'', Release True 50000 ''a'', Claim 60000 ''c'', Claim 110000 ''d'', Claim 200000 ''e'', Claim 230000 ''f'']
     [\<lparr>ssId = ''s'', ssOwner = ''u'', ssWallet = ''w'', ssLeaseId = None, ssLeaseExpiresAt = None, ssStartedAt = None,
       ssCompletedAt = None, ssNextAllowedAt = None\<rparr>] = [0, 110000, 230000] \<and>
   sorted_wrt (\<lambda>t u. t + SYNC_THROTTLE_MS \<le> u) (claim_times ''s''
     [Claim 0 ''a'', Claim 30000 ''b'', Release True 50000 ''a'', Claim 60000 ''c'', Claim 110000 ''d'', Claim 200000 ''e'', Claim 230000 ''f'']
     [\<lparr>ssId = ''s'', ssOwner = ''u'', ssWallet = ''w'', ssLeaseId = None, ssLeaseExpiresAt = None, ssStartedAt = None,
       ssCompletedAt = None, ssNextAllowedAt = None\<rparr>])"
  by (rule conjI, code_simp, rule claims_apart) simp_all

end
