(* ===== verification/ActivityEvidence.thy ===== *)
theory ActivityEvidence
  imports Activity Interference
begin

text \<open>
  The activity feed shows nothing that was not verified: whose row it is and what it shows come from verified
  records, whatever other requests do between the statements of a sync.
\<close>

section \<open>Evidence\<close>

text \<open>
  \<open>D\<close> are the contents that the core tables and the swap table have had.  \<open>row_owned\<close>: the record that
  the reference of a row names belongs to the owner's wallet; \<open>row_shown\<close>: the columns show that record.
\<close>

type_synonym history = "(db \<times> swap_row list) set"

definition key_prefix :: "activity_type \<Rightarrow> string" where
  "key_prefix ty = (case ty of AT_send \<Rightarrow> ''execution-intent:'' | AT_payroll \<Rightarrow> ''payroll-run:'' | AT_swap \<Rightarrow> ''verified-swap:''
     | AT_bridge \<Rightarrow> ''bridge:'' | AT_invoice_payment \<Rightarrow> ''invoice-payment:'' | _ \<Rightarrow> [])"

definition of_wallet :: "activity_env \<Rightarrow> string \<Rightarrow> string \<Rightarrow> bool" where
  "of_wallet V a wallet \<longleftrightarrow> (\<exists>w. sameWallet (avEvm V) a w \<and> canonicalWallet (avEvm V) w = Inr wallet)"

definition settled_payment :: "db \<Rightarrow> payment \<Rightarrow> invoice \<Rightarrow> bool" where
  "settled_payment d y v \<longleftrightarrow> y \<in> set (payments d) \<and> paymentStatus y = PAY_VERIFIED \<and> v \<in> set (invoices d) \<and>
     invoiceId v = paymentInvoiceId y \<and> invoiceChainId v = ARC_MAINNET_CHAIN_ID"

definition completed_intent :: "db \<Rightarrow> intent_operation \<Rightarrow> intent \<Rightarrow> bool" where
  "completed_intent d op i \<longleftrightarrow> i \<in> set (intents d) \<and> status i = COMPLETED \<and> operation i = op \<and>
     intentNetwork i = ''arc-mainnet'' \<and> truthy (transactionHash i)"

definition minted_bridge :: "db \<Rightarrow> bridge \<Rightarrow> bridge_result \<Rightarrow> bool" where
  "minted_bridge d b r \<longleftrightarrow> b \<in> set (bridges d) \<and> bridgeStatus b = B_completed \<and> bridgeResult b = Some r \<and>
     destinationReceiptVerified r \<and> truthy (resDestinationHash r)"

text \<open>
  A run: every completed payroll intent of the wallet that has the run's reference.
\<close>

definition complete_run :: "activity_env \<Rightarrow> history \<Rightarrow> string \<Rightarrow> string \<Rightarrow> intent list \<Rightarrow> bool" where
  "complete_run V D wallet reference is \<longleftrightarrow> is \<noteq> [] \<and> (\<exists>d ws d' ws'. (d, ws) \<in> D \<and> (d', ws') \<in> D \<and>
     (let mine = filter (\<lambda>i. completed_intent d OP_PAYROLL i \<and> sameWallet (avEvm V) (sourceWallet i) wallet) (intents d) in
      is = filter (\<lambda>i. run_reference (tasks d') (map externalReference mine) i = reference) mine))"

definition amount_of :: "intent \<Rightarrow> int" where
  "amount_of i = (case toBigInt (amountUnits i) of Inl e \<Rightarrow> 0 | Inr n \<Rightarrow> n)"

fun row_owned :: "activity_env \<Rightarrow> history \<Rightarrow> activity_type \<Rightarrow> string \<Rightarrow> string \<Rightarrow> string \<Rightarrow> bool" where
  "row_owned V D AT_invoice_payment ref owner wallet \<longleftrightarrow> (\<exists>(d, ws)\<in>D. \<exists>y v. settled_payment d y v \<and>
     ref = paymentId V (paymentInvoiceId y) \<and> merchantUserId v = owner \<and> of_wallet V (merchantWalletAddress v) wallet)"
| "row_owned V D AT_send ref owner wallet \<longleftrightarrow> (\<exists>(d, ws)\<in>D. \<exists>i. completed_intent d OP_SEND i \<and>
     ref = intentId i \<and> of_wallet V (sourceWallet i) wallet)"
| "row_owned V D AT_payroll ref owner wallet \<longleftrightarrow> (\<exists>w reference is. complete_run V D w reference is \<and>
     ref = toLowerCase w @ '':'' @ reference \<and> canonicalWallet (avEvm V) w = Inr wallet)"
| "row_owned V D AT_swap ref owner wallet \<longleftrightarrow> (\<exists>(d, ws)\<in>D. \<exists>w\<in>set ws. csChainId w = ARC_MAINNET_CHAIN_ID \<and>
     ref = swapId V (csHash w) \<and> of_wallet V (csWallet w) wallet)"
| "row_owned V D AT_bridge ref owner wallet \<longleftrightarrow> (\<exists>(d, ws)\<in>D. \<exists>b r. minted_bridge d b r \<and>
     ref = bridgeId b \<and> of_wallet V (walletAddress (bridgePayload b)) wallet)"
| "row_owned V D _ ref owner wallet \<longleftrightarrow> False"

fun row_shown :: "activity_env \<Rightarrow> history \<Rightarrow> activity_type \<Rightarrow> string \<Rightarrow> columns \<Rightarrow> bool" where
  "row_shown V D AT_invoice_payment ref c \<longleftrightarrow> (\<exists>(d, ws)\<in>D. \<exists>y v. settled_payment d y v \<and>
     ref = paymentId V (paymentInvoiceId y) \<and> coTxHash c = Some (toLowerCase (paymentHash y)) \<and>
     coOutSymbol c = Some (symbolText (tokenSymbol v)) \<and> coOutAmount c = Some (invoiceAmountUnits v))"
| "row_shown V D AT_send ref c \<longleftrightarrow> (\<exists>(d, ws)\<in>D. \<exists>i. completed_intent d OP_SEND i \<and> ref = intentId i \<and>
     coTxHash c = map_option toLowerCase (transactionHash i) \<and>
     coInSymbol c = Some (symbolOf (avEvm V) (tokenOut i)) \<and> coInAmount c = Some (amountUnits i))"
| "row_shown V D AT_payroll ref c \<longleftrightarrow> (\<exists>w reference is. complete_run V D w reference is \<and>
     ref = toLowerCase w @ '':'' @ reference \<and>
     (\<exists>i\<in>set is. coTxHash c = map_option (toLowerCase \<circ> toLowerCase) (transactionHash i)) \<and>
     (\<forall>k. (\<forall>i\<in>set is. symbolOf (avEvm V) (tokenOut i) = k) \<longrightarrow>
        coInSymbol c = Some k \<and> coInAmount c = Some (show_int (\<Sum>i\<leftarrow>is. amount_of i))))"
| "row_shown V D AT_swap ref c \<longleftrightarrow> (\<exists>(d, ws)\<in>D. \<exists>w\<in>set ws. csChainId w = ARC_MAINNET_CHAIN_ID \<and>
     ref = swapId V (csHash w) \<and> coTxHash c = Some (toLowerCase (csHash w)) \<and>
     coInSymbol c = Some (symbolOf (avEvm V) (csTokenIn w)) \<and> coInAmount c = Some (show_nat (csAmountIn w)) \<and>
     coOutSymbol c = Some (symbolOf (avEvm V) (csTokenOut w)) \<and> coOutAmount c = Some (show_nat (csAmountOut w)))"
| "row_shown V D AT_bridge ref c \<longleftrightarrow> (\<exists>(d, ws)\<in>D. \<exists>b r. minted_bridge d b r \<and> ref = bridgeId b \<and>
     coTxHash c = map_option toLowerCase (resDestinationHash r) \<and>
     (truthy (mintAmount r) \<longrightarrow> coOutAmount c = mintAmount r))"
| "row_shown V D _ ref c \<longleftrightarrow> False"

definition row_backed :: "activity_env \<Rightarrow> history \<Rightarrow> activity \<Rightarrow> bool" where
  "row_backed V D a \<longleftrightarrow> acStatus a = AS_completed \<and> acKey a = key_prefix (acType a) @ acRefId a \<and>
     row_owned V D (acType a) (acRefId a) (acOwner a) (acWallet a) \<and> row_shown V D (acType a) (acRefId a) (acColumns a)"

definition feed_ok :: "activity_env \<Rightarrow> history \<Rightarrow> activity_db \<Rightarrow> bool" where
  "feed_ok V D s \<longleftrightarrow> (adCore s, adSwaps s) \<in> D \<and> (\<forall>a\<in>set (activities s). row_backed V D a)"

text \<open>What a write may do to the feed, and the rules for methods under such writes.\<close>

definition feed_write :: "activity_env \<Rightarrow> history \<Rightarrow> activity_db \<Rightarrow> activity_db \<Rightarrow> bool" where
  "feed_write V D s t \<longleftrightarrow> feed_ok V D t"

interpretation feed: interference "feed_write V D" "feed_ok V D" for V D
  by unfold_locales (simp add: feed_write_def)

abbreviation feed_keeps :: "activity_env \<Rightarrow> history \<Rightarrow> (activity_db, 'a) op \<Rightarrow> bool" where
  "feed_keeps V D m \<equiv> guarded (feed_write V D) (feed_ok V D) (\<lambda>_. True) m (\<lambda>_ _. True)"

lemma feed_keepsI: "(\<And>s. feed_ok V D s \<Longrightarrow> feed_ok V D (snd (m s))) \<Longrightarrow> feed_keeps V D m"
  unfolding guarded_def feed_write_def by (auto intro: r_into_rtranclp)

lemma feed_keepsD: "feed_keeps V D m \<Longrightarrow> feed_ok V D s \<Longrightarrow> feed_ok V D (snd (m s))"
  using feed.good_run unfolding guarded_def by blast

section \<open>Writing one projection\<close>

definition genuine :: "activity_env \<Rightarrow> history \<Rightarrow> projection \<Rightarrow> bool" where
  "genuine V D p \<longleftrightarrow> pjStatus p = AS_completed \<and> pjKey p = key_prefix (pjType p) @ pjRefId p \<and>
     (\<forall>wallet. canonicalWallet (avEvm V) (pjWallet p) = Inr wallet \<longrightarrow> row_owned V D (pjType p) (pjRefId p) (pjOwner p) wallet) \<and>
     (\<forall>old. row_shown V D (pjType p) (pjRefId p) (merge_columns (normal_columns (avEvm V) (pjColumns p)) old))"

lemma keep_old_simps [simp]: "keep_old x None = x" "keep_old (Some y) x = Some y"
  by (cases x) (simp_all add: keep_old_def)

lemma merge_none: "merge_columns c no_columns = c"
  by (simp add: merge_columns_def no_columns_def)

lemma completed_progress: "progressedStatus c AS_completed = AS_completed"
proof (cases c)
  case (Some d)
  then show ?thesis by (cases d) (simp_all add: progressedStatus_def)
qed (simp add: progressedStatus_def)

text \<open>The prefix of a key tells the type, so that a key stands for one record.\<close>

lemma key_prefix_inj:
  assumes "key_prefix t @ i = key_prefix u @ j" "row_owned V D t i ow w" "row_shown V D u j c"
  shows "t = u" "i = j"
proof -
  show "t = u" using assms by (cases t; cases u) (simp_all add: key_prefix_def)
  then show "i = j" using assms(1) by simp
qed

lemma created_backed:
  "genuine V D p \<Longrightarrow> canonicalWallet (avEvm V) (pjWallet p) = Inr wallet \<Longrightarrow> row_backed V D (create_activity V wallet AS_completed p)"
  by (simp add: genuine_def row_backed_def create_activity_def) (metis merge_none)

lemma updated_backed:
  assumes "genuine V D p" "row_backed V D a" "acKey a = pjKey p"
  shows "row_backed V D (update_activity V AS_completed p a)"
proof -
  have own: "row_owned V D (acType a) (acRefId a) (acOwner a) (acWallet a)"
    and shown: "row_shown V D (pjType p) (pjRefId p) (merge_columns (normal_columns (avEvm V) (pjColumns p)) (acColumns a))"
    and keys: "key_prefix (acType a) @ acRefId a = key_prefix (pjType p) @ pjRefId p"
    using assms by (simp_all add: genuine_def row_backed_def)
  note same = key_prefix_inj [OF keys own shown]
  show ?thesis using assms own shown same by (simp add: row_backed_def update_activity_def genuine_def)
qed

lemma upsertRow_backed:
  assumes "genuine V D p" "canonicalWallet (avEvm V) (pjWallet p) = Inr wallet" "\<forall>a\<in>set T. row_backed V D a"
  shows "\<forall>a\<in>set (snd (upsertRow V wallet AS_completed p T)). row_backed V D a"
  using assms(3) created_backed [OF assms(1,2)] updated_backed [OF assms(1)]
  by (auto simp: upsertRow_def insertUnique_def updateMany_def update_rows_def andThen_def ok_def split: option.splits)

lemma feed_keeps_upsertRow:
  assumes "genuine V D p" "canonicalWallet (avEvm V) (pjWallet p) = Inr wallet"
  shows "feed_keeps V D (onActivities (upsertRow V wallet AS_completed p))"
proof (rule feed_keepsI)
  fix s
  assume "feed_ok V D s"
  then show "feed_ok V D (snd (onActivities (upsertRow V wallet AS_completed p) s))"
    using upsertRow_backed [OF assms, of "activities s"]
    by (cases "upsertRow V wallet AS_completed p (activities s)") (simp add: feed_ok_def onActivities_def)
qed

text \<open>What other requests do keeps the feed.\<close>

definition feed_bystander :: "activity_env \<Rightarrow> history \<Rightarrow> (activity_db \<Rightarrow> activity_db) \<Rightarrow> bool" where
  "feed_bystander V D f \<longleftrightarrow> (\<forall>s. feed_ok V D s \<longrightarrow> feed_ok V D (f s))"

lemma feed_keeps_interleave: "feed_bystander V D f \<Longrightarrow> feed_keeps V D (interleave f)"
  by (rule feed_keepsI) (simp add: interleave_def feed_bystander_def)

lemma feed_keeps_upsert:
  assumes "genuine V D p" "feed_bystander V D f"
  shows "feed_keeps V D (upsertActivity V f p)"
  unfolding upsertActivity_def
proof (rule feed.guarded_andThen [OF feed.guarded_lift])
  fix wallet
  show "guarded (feed_write V D) (feed_ok V D) (\<lambda>s. canonicalWallet (avEvm V) (pjWallet p) = Inr wallet \<and> True)
     (andThen (query (\<lambda>s. find_row (\<lambda>a. acKey a = pjKey p) (activities s))) (\<lambda>existing.
      andThen (ensure (case existing of None \<Rightarrow> True | Some a \<Rightarrow> same_ownership p wallet a) (PlainError ''ACTIVITY_OWNERSHIP'')) (\<lambda>_.
      andThen (interleave f) (\<lambda>_.
      onActivities (upsertRow V wallet (progressedStatus (map_option acStatus existing) (pjStatus p)) p))))) (\<lambda>_ _. True)"
  proof (rule feed.guarded_assume)
    assume wallet: "canonicalWallet (avEvm V) (pjWallet p) = Inr wallet"
    have "pjStatus p = AS_completed" using assms(1) by (simp add: genuine_def)
    then show "feed_keeps V D
       (andThen (query (\<lambda>s. find_row (\<lambda>a. acKey a = pjKey p) (activities s))) (\<lambda>existing.
        andThen (ensure (case existing of None \<Rightarrow> True | Some a \<Rightarrow> same_ownership p wallet a) (PlainError ''ACTIVITY_OWNERSHIP'')) (\<lambda>_.
        andThen (interleave f) (\<lambda>_.
        onActivities (upsertRow V wallet (progressedStatus (map_option acStatus existing) (pjStatus p)) p)))))"
      by (auto simp: completed_progress
          intro!: feed.keep_rules feed_keeps_interleave [OF assms(2)] feed_keeps_upsertRow [OF assms(1) wallet])
  qed
qed

lemma feed_keeps_upsertEach:
  assumes "\<And>n. feed_bystander V D (others n)" "\<And>p. Inr p \<in> set rs \<Longrightarrow> genuine V D p"
  shows "feed_keeps V D (upsertEach V others n rs)"
  using assms(2)
proof (induction rs arbitrary: n)
  case Nil
  then show ?case by (auto intro: feed.keep_rules)
next
  case (Cons r rs)
  have rest: "feed_keeps V D (upsertEach V others (Suc n) rs)" using Cons by simp
  show ?case
  proof (cases r)
    case (Inl e)
    then show ?thesis by (simp add: guarded_def andThen_def lift_def)
  next
    case (Inr p)
    have "feed_keeps V D (upsertActivity V (others n) p)"
      using Cons.prems Inr by (intro feed_keeps_upsert assms(1)) simp
    then have "feed_keeps V D (andThen (upsertActivity V (others n) p) (\<lambda>_. upsertEach V others (Suc n) rs))"
      using rest by (rule feed.keep_andThen)
    then show ?thesis by (simp add: Inr guarded_def andThen_def lift_def)
  qed
qed

section \<open>Every projection is genuine\<close>

lemmas projection_simps = genuine_def base_projection_def key_prefix_def merge_columns_def normal_columns_def no_columns_def

lemma payment_genuine:
  assumes "(d, ws) \<in> D" "yv \<in> set (own_payments V p (verified_payments (plUser p) d))"
  shows "genuine V D (payment_projection V p yv)"
proof -
  obtain y v where yv: "yv = (y, v)" by (cases yv)
  have pay: "settled_payment d y v" "merchantUserId v = plUser p" "sameWallet (avEvm V) (merchantWalletAddress v) (plWallet p)"
    using assms(2) unfolding yv
    by (auto simp: own_payments_def verified_payments_def map_filter_def settled_payment_def dest: find_row_Some
        split: if_splits option.splits)
  then have "\<exists>x\<in>D. case x of (d, ws) \<Rightarrow> \<exists>y' v'. settled_payment d y' v' \<and> paymentId V (paymentInvoiceId y) = paymentId V (paymentInvoiceId y') \<and>
      toLowerCase (paymentHash y) = toLowerCase (paymentHash y') \<and> symbolText (tokenSymbol v) = symbolText (tokenSymbol v') \<and>
      invoiceAmountUnits v = invoiceAmountUnits v'"
    using assms(1) by (intro bexI [OF _ assms(1)]) auto
  moreover have "canonicalWallet (avEvm V) (plWallet p) = Inr wallet \<Longrightarrow>
      row_owned V D AT_invoice_payment (paymentId V (paymentInvoiceId y)) (plUser p) wallet" for wallet
    using assms(1) pay by (auto simp: of_wallet_def intro!: bexI [OF _ assms(1)])
  ultimately show ?thesis
    unfolding yv payment_projection_def by (simp add: projection_simps)
qed

text \<open>What a projection needs: its owner's evidence, and columns that show it after any merge.\<close>

lemma genuineI:
  assumes "pjStatus p = AS_completed" "pjKey p = key_prefix (pjType p) @ pjRefId p"
    and "\<And>wallet. canonicalWallet (avEvm V) (pjWallet p) = Inr wallet \<Longrightarrow> row_owned V D (pjType p) (pjRefId p) (pjOwner p) wallet"
    and "\<And>old. row_shown V D (pjType p) (pjRefId p) (merge_columns (normal_columns (avEvm V) (pjColumns p)) old)"
  shows "genuine V D p"
  using assms by (simp add: genuine_def)

lemmas column_simps = base_projection_def key_prefix_def merge_columns_def normal_columns_def no_columns_def

lemma send_genuine:
  assumes "(d, ws) \<in> D" "i \<in> set (own_intents V wallet OP_SEND (completed_intents d))"
  shows "genuine V D (send_projection V p wallet i)"
proof -
  have i: "completed_intent d OP_SEND i" "sameWallet (avEvm V) (sourceWallet i) wallet"
    using assms(2) by (auto simp: own_intents_def completed_intents_def completed_intent_def)
  then obtain h where h: "transactionHash i = Some h" by (auto simp: completed_intent_def truthy_def split: option.splits)
  show ?thesis
  proof (rule genuineI)
    fix w
    assume "canonicalWallet (avEvm V) (pjWallet (send_projection V p wallet i)) = Inr w"
    then show "row_owned V D (pjType (send_projection V p wallet i)) (pjRefId (send_projection V p wallet i))
        (pjOwner (send_projection V p wallet i)) w"
      using i by (auto simp: send_projection_def base_projection_def of_wallet_def intro!: bexI [OF _ assms(1)])
  next
    fix old
    show "row_shown V D (pjType (send_projection V p wallet i)) (pjRefId (send_projection V p wallet i))
        (merge_columns (normal_columns (avEvm V) (pjColumns (send_projection V p wallet i))) old)"
      using i h by (auto simp: send_projection_def column_simps intro!: bexI [OF _ assms(1)])
  qed (simp_all add: send_projection_def base_projection_def key_prefix_def)
qed

lemma swap_genuine:
  assumes "(d, ws) \<in> D" "w \<in> set ws" "csChainId w = ARC_MAINNET_CHAIN_ID" "sameWallet (avEvm V) (csWallet w) wallet"
  shows "genuine V D (swap_projection V p wallet w)"
proof (rule genuineI)
  fix a
  assume "canonicalWallet (avEvm V) (pjWallet (swap_projection V p wallet w)) = Inr a"
  then show "row_owned V D (pjType (swap_projection V p wallet w)) (pjRefId (swap_projection V p wallet w))
      (pjOwner (swap_projection V p wallet w)) a"
    using assms(2-) by (auto simp: swap_projection_def base_projection_def of_wallet_def intro!: bexI [OF _ assms(1)])
next
  fix old
  show "row_shown V D (pjType (swap_projection V p wallet w)) (pjRefId (swap_projection V p wallet w))
      (merge_columns (normal_columns (avEvm V) (pjColumns (swap_projection V p wallet w))) old)"
    using assms(2,3) by (auto simp: swap_projection_def column_simps intro!: bexI [OF _ assms(1)])
qed (simp_all add: swap_projection_def base_projection_def key_prefix_def)

lemma bridge_genuine:
  assumes "(d, ws) \<in> D" "b \<in> set (bridges d)" "bridgeStatus b = B_completed" "own_bridge V wallet b"
  shows "genuine V D (bridge_projection V p wallet b)"
proof -
  obtain r where r: "bridgeResult b = Some r" using assms(4) by (auto simp: own_bridge_def split: option.splits)
  have b: "minted_bridge d b r" "sameWallet (avEvm V) (walletAddress (bridgePayload b)) wallet"
    using assms(2-) r by (auto simp: own_bridge_def minted_bridge_def)
  then obtain h where h: "resDestinationHash r = Some h" by (auto simp: minted_bridge_def truthy_def split: option.splits)
  show ?thesis
  proof (rule genuineI)
    fix w
    assume "canonicalWallet (avEvm V) (pjWallet (bridge_projection V p wallet b)) = Inr w"
    then show "row_owned V D (pjType (bridge_projection V p wallet b)) (pjRefId (bridge_projection V p wallet b))
        (pjOwner (bridge_projection V p wallet b)) w"
      using b by (auto simp: bridge_projection_def base_projection_def of_wallet_def Let_def intro!: bexI [OF _ assms(1)])
  next
    fix old
    have "row_shown V D AT_bridge (bridgeId b)
        (merge_columns (normal_columns (avEvm V) (pjColumns (bridge_projection V p wallet b))) old)"
      unfolding row_shown.simps
      by (intro bexI [OF _ assms(1)] case_prodI exI [where x = b] exI [where x = r])
        (use b h r in \<open>auto simp: bridge_projection_def column_simps Let_def truthy_def keep_old_def split: option.splits\<close>)
    then show "row_shown V D (pjType (bridge_projection V p wallet b)) (pjRefId (bridge_projection V p wallet b))
        (merge_columns (normal_columns (avEvm V) (pjColumns (bridge_projection V p wallet b))) old)"
      by (simp add: bridge_projection_def base_projection_def Let_def)
  qed (simp_all add: bridge_projection_def base_projection_def key_prefix_def Let_def)
qed

subsection \<open>Payroll runs\<close>

lemma group_add_map:
  "map_of (group_add k v gs) = (map_of gs)(k \<mapsto> (case map_of gs k of None \<Rightarrow> [v] | Some vs \<Rightarrow> vs @ [v]))"
  by (induction gs) (auto split: option.splits)

lemma group_add_keys: "set (map fst (group_add k v gs)) = insert k (set (map fst gs))"
  by (induction k v gs rule: group_add.induct) auto

lemma group_add_distinct: "distinct (map fst gs) \<Longrightarrow> distinct (map fst (group_add k v gs))"
proof (induction gs)
  case (Cons g gs)
  then show ?case using group_add_keys [of k v gs] by (cases g) auto
qed simp

lemma groups_map:
  "map_of (fold (\<lambda>i. group_add (f i) i) xs gs) r =
    (let ys = filter (\<lambda>i. f i = r) xs in
     case map_of gs r of None \<Rightarrow> if ys = [] then None else Some ys | Some vs \<Rightarrow> Some (vs @ ys))"
  by (induction xs arbitrary: gs) (auto simp: group_add_map Let_def split: option.splits)

lemma groups_distinct: "distinct (map fst gs) \<Longrightarrow> distinct (map fst (fold (\<lambda>i. group_add (f i) i) xs gs))"
  by (induction xs arbitrary: gs) (simp_all add: group_add_distinct)

lemma payroll_runs_group:
  assumes "(r, js) \<in> set (payroll_runs T xs)"
  shows "js \<noteq> [] \<and> js = filter (\<lambda>i. run_reference T (map externalReference xs) i = r) xs"
proof -
  let ?f = "run_reference T (map externalReference xs)"
  have "distinct (map fst (payroll_runs T xs))" unfolding payroll_runs_def by (rule groups_distinct) simp
  then have "map_of (payroll_runs T xs) r = Some js" using assms by simp
  then show ?thesis
    using groups_map [of ?f xs "[]" r] unfolding payroll_runs_def by (auto simp: Let_def split: if_splits)
qed

text \<open>The totals of a run in one token are one entry with the sum.\<close>

lemma token_totals_same:
  "token_totals E js [(k, a, n)] = Inr ts \<Longrightarrow> (\<forall>i\<in>set js. symbolOf E (tokenOut i) = k) \<Longrightarrow>
   ts = [(k, a, n + (\<Sum>i\<leftarrow>js. amount_of i))]"
proof (induction js arbitrary: n)
  case (Cons i js)
  then obtain m where m: "toBigInt (amountUnits i) = Inr m" "token_totals E js [(k, a, n + m)] = Inr ts"
    by (auto simp: bindR_def split: sum.splits)
  then show ?case using Cons.IH [OF m(2)] Cons.prems(2) by (simp add: amount_of_def)
qed simp

lemma token_totals_single:
  assumes "token_totals E js [] = Inr ts" "js \<noteq> []" "\<forall>i\<in>set js. symbolOf E (tokenOut i) = k"
  shows "\<exists>a. ts = [(k, a, \<Sum>i\<leftarrow>js. amount_of i)]"
proof (cases js)
  case (Cons i js2)
  from assms(1,3) Cons obtain n where "toBigInt (amountUnits i) = Inr n" "token_totals E js2 [(k, tokenOut i, n)] = Inr ts"
    by (auto simp: bindR_def split: sum.splits)
  then show ?thesis using token_totals_same [of E js2 k "tokenOut i" n ts] assms(3) Cons by (simp add: amount_of_def)
qed (use assms in simp)

lemma js_set_set [simp]: "set (js_set xs) = set xs"
  by (simp add: js_set_def)

lemma run_hash:
  assumes "\<forall>i\<in>set js. truthy (transactionHash i)" "js \<noteq> []"
  obtains h hs i where "run_hashes js = h # hs" "i \<in> set js" "transactionHash i \<noteq> None" "h = toLowerCase (the (transactionHash i))"
proof -
  obtain j where j: "j \<in> set js" using assms(2) by (cases js) auto
  then obtain x where "transactionHash j = Some x" "x \<noteq> []" using assms(1) by (auto simp: truthy_def split: option.splits)
  then have "toLowerCase x \<in> set (run_hashes js)" using j by (force simp: run_hashes_def List.map_filter_def)
  then obtain h hs where h: "run_hashes js = h # hs" by (cases "run_hashes js") auto
  then have "h \<in> set (run_hashes js)" by simp
  then obtain i where "i \<in> set js" "transactionHash i \<noteq> None" "h = toLowerCase (the (transactionHash i))"
    by (auto simp: run_hashes_def List.map_filter_def)
  then show thesis using that h by blast
qed

lemma payroll_genuine:
  assumes "(d, ws) \<in> D" "(d', ws') \<in> D"
    and "run \<in> set (payroll_runs (tasks d') (own_intents V wallet OP_PAYROLL (completed_intents d)))"
    and "payroll_projection V p wallet (tasks d') run = Inr pj"
  shows "genuine V D pj"
proof -
  obtain reference js where run: "run = (reference, js)" by (cases run)
  let ?mine = "own_intents V wallet OP_PAYROLL (completed_intents d)"
  have mine: "?mine = filter (\<lambda>i. completed_intent d OP_PAYROLL i \<and> sameWallet (avEvm V) (sourceWallet i) wallet) (intents d)"
    unfolding own_intents_def completed_intents_def filter_filter
    by (rule filter_cong) (auto simp: completed_intent_def truthy_def)
  note js = payroll_runs_group [OF assms(3) [unfolded run]]
  have complete: "complete_run V D wallet reference js"
    using js assms(1,2) unfolding complete_run_def Let_def mine by blast
  have "\<forall>i\<in>set js. truthy (transactionHash i)"
    using js mine by (auto simp: completed_intent_def)
  then obtain h hs i where h: "run_hashes js = h # hs" "i \<in> set js" "transactionHash i \<noteq> None"
      "h = toLowerCase (the (transactionHash i))" using js by (metis run_hash)
  obtain ts where ts: "token_totals (avEvm V) js [] = Inr ts"
    using assms(4) unfolding run payroll_projection_def by (auto simp: bindR_def split: sum.splits)
  have sums: "\<exists>a. ts = [(k, a, \<Sum>i\<leftarrow>js. amount_of i)]" if "\<forall>i\<in>set js. symbolOf (avEvm V) (tokenOut i) = k" for k
    using token_totals_single [OF ts _ that] js by blast
  have pj: "pjStatus pj = AS_completed" "pjKey pj = key_prefix (pjType pj) @ pjRefId pj" "pjType pj = AT_payroll"
    "pjRefId pj = toLowerCase wallet @ '':'' @ reference" "pjWallet pj = wallet"
    "coTxHash (pjColumns pj) = Some h"
    "\<And>k a n. ts = [(k, a, n)] \<Longrightarrow> coInSymbol (pjColumns pj) = Some k \<and> coInAmount (pjColumns pj) = Some (show_int n)"
    using assms(4) h(1) unfolding run payroll_projection_def
    by (auto simp: bindR_def ts base_projection_def key_prefix_def Let_def)
  show ?thesis
  proof (rule genuineI)
    fix w
    assume "canonicalWallet (avEvm V) (pjWallet pj) = Inr w"
    then show "row_owned V D (pjType pj) (pjRefId pj) (pjOwner pj) w"
      using complete by (simp add: pj) blast
  next
    fix old
    have hash: "\<exists>i\<in>set js. Some (toLowerCase h) = map_option (toLowerCase \<circ> toLowerCase) (transactionHash i)"
      using h by (intro bexI [where x = i]) (auto simp: comp_def)
    have amounts: "coInSymbol (pjColumns pj) = Some k \<and> coInAmount (pjColumns pj) = Some (show_int (\<Sum>i\<leftarrow>js. amount_of i))"
      if "\<forall>i\<in>set js. symbolOf (avEvm V) (tokenOut i) = k" for k
      using sums [OF that] pj(7) by blast
    have single: "coInSymbol (merge_columns (normal_columns (avEvm V) (pjColumns pj)) old) = Some k \<and>
        coInAmount (merge_columns (normal_columns (avEvm V) (pjColumns pj)) old) = Some (show_int (\<Sum>i\<leftarrow>js. amount_of i))"
      if "\<forall>i\<in>set js. symbolOf (avEvm V) (tokenOut i) = k" for k
      using amounts [OF that] by (simp add: merge_columns_def normal_columns_def)
    have tx: "coTxHash (merge_columns (normal_columns (avEvm V) (pjColumns pj)) old) = Some (toLowerCase h)"
      by (simp add: merge_columns_def normal_columns_def pj(6))
    have "row_shown V D AT_payroll (toLowerCase wallet @ '':'' @ reference)
        (merge_columns (normal_columns (avEvm V) (pjColumns pj)) old)"
      unfolding row_shown.simps using complete hash single by (simp only: tx) blast
    then show "row_shown V D (pjType pj) (pjRefId pj) (merge_columns (normal_columns (avEvm V) (pjColumns pj)) old)"
      by (simp add: pj)
  qed (simp_all add: pj)
qed

section \<open>Syncs keep the feed\<close>

text \<open>A read of the database gives what it says of contents that the tables have had.\<close>

lemma feed_read:
  assumes "\<And>s. feed_ok V D s \<Longrightarrow> feed_keeps V D (m (f s))"
  shows "feed_keeps V D (andThen (query f) m)"
proof (rule feed_keepsI)
  fix s
  assume ok: "feed_ok V D s"
  then have "feed_ok V D (snd (m (f s) s))" using assms [OF ok] by (rule feed_keepsD [rotated])
  then show "feed_ok V D (snd (andThen (query f) m s))" by (simp add: andThen_def query_def)
qed

lemma feed_keeps_project:
  assumes "\<And>n. feed_bystander V D (others n)"
  shows "feed_keeps V D (projectPersisted V others p)"
  unfolding projectPersisted_def
proof (rule feed.keep_andThen [OF feed.keep_lift], rule feed_read, unfold prod.case, goal_cases)
  case (1 wallet s)
  note read = 1 [unfolded feed_ok_def, THEN conjunct1]
  show ?case
  proof (rule feed.keep_andThen [OF feed_keeps_upsertEach [OF assms]], goal_cases)
    case (1 pj)
    then show ?case using payment_genuine [OF read] by auto
  next
    case (2 n)
    show ?case
    proof (rule feed.keep_andThen [OF feed_keeps_upsertEach [OF assms]], goal_cases)
      case (1 pj)
      then show ?case using send_genuine [OF read] by auto
    next
      case (2 n)
      show ?case
      proof (rule feed_read, goal_cases)
        case (1 t)
        note later = 1 [unfolded feed_ok_def, THEN conjunct1]
        show ?case
        proof (rule feed.keep_andThen [OF feed_keeps_upsertEach [OF assms]], goal_cases)
          case (1 pj)
          then show ?case using payroll_genuine [OF read later, of _ V wallet p pj] by auto
        next
          case (2 n)
          show ?case
          proof (rule feed.keep_andThen [OF feed_keeps_upsertEach [OF assms]], goal_cases)
            case (1 pj)
            then show ?case using swap_genuine [OF read] by auto
          next
            case (2 n)
            show ?case
              by (rule feed_keeps_upsertEach [OF assms]) (use bridge_genuine [OF read] in auto)
          qed
        qed
      qed
    qed
  qed
qed

lemma feed_keeps_syncs: "feed_keeps V D (onSyncs m)"
  by (rule feed_keepsI) (auto simp: onSyncs_def feed_ok_def split: prod.splits)

lemma feed_keeps_refused: "feed_keeps V D (refusedSync now i)"
  unfolding refusedSync_def by (intro feed.keep_rules)

lemma feed_keeps_claimed:
  assumes "\<And>n. feed_bystander V D (others n)"
  shows "feed_keeps V D (claimedSync V others now later lease i p)"
proof -
  have "feed_keeps V D (catching
       (andThen (projectPersisted V others p) (\<lambda>n.
        andThen (onSyncs (releaseSync True later lease i)) (\<lambda>_. ok (sync_answer SY_synced n SYNC_THROTTLE_MS))))
       (\<lambda>_. andThen (onSyncs (releaseSync False later lease i)) (\<lambda>_. ok (sync_answer SY_failed 0 SYNC_THROTTLE_MS))))"
    by (rule feed.guarded_catching)
      (intro feed.keep_rules feed_keeps_project assms feed_keeps_syncs feed.stable_const)+
  then show ?thesis unfolding claimedSync_def
    by (intro feed.keep_rules feed_keeps_syncs feed_keeps_refused)
qed

lemma feed_keeps_sync:
  assumes "\<And>n. feed_bystander V D (others n)"
  shows "feed_keeps V D (runSync V others now later fresh lease p)"
  unfolding runSync_def
  by (intro feed.keep_rules feed_keeps_syncs feed_keeps_project feed_keeps_claimed assms)

lemma feed_keeps_backfillEach:
  assumes "\<And>k n. feed_bystander V D (others k n)"
  shows "feed_keeps V D (backfillEach V others gs x)"
proof (induction gs arbitrary: x)
  case (Cons ms rest)
  show ?case unfolding backfillEach.simps
    by (intro feed.keep_rules feed_keeps_project assms Cons)
qed (simp add: feed.keep_ok)


end
