(* ===== verification/ActivityExamples.thy ===== *)
theory ActivityExamples
  imports ActivityProperties ActivityEvidence
begin

text \<open>
  The theorems on the activity feed at a concrete database: a wallet with one transfer and a payroll of two
  batches, and a run of the sync over it.
\<close>

definition owner_wallet :: string where
  "owner_wallet = ''0xb''"

definition feed_evm :: evm where
  "feed_evm = \<lparr>isAddress = (\<lambda>a. take 2 a = ''0x''), getAddress = Some, isAddressEqual = (\<lambda>a b. Some (a = b)),
     isHex = (\<lambda>_. True), keccak256 = id, sha256 = id\<rparr>"

text \<open>A text for dates and for cursors that can be read back.\<close>

definition unary_text :: "int \<Rightarrow> string" where
  "unary_text t = (if t < 0 then CHR ''m'' # replicate (nat (- t)) (CHR ''1'') else replicate (nat t) (CHR ''1''))"

definition untally :: "js \<Rightarrow> int option" where
  "untally v = (case v of JStr s \<Rightarrow> Some (if take 1 s = ''m'' then - int (length s - 1) else int (length s)) | _ \<Rightarrow> None)"

definition pair_text :: "js \<Rightarrow> string" where
  "pair_text v = (case v of JObj [(k, JStr t), (l, JStr i)] \<Rightarrow> replicate (length t) (CHR ''1'') @ ''0'' @ t @ i | _ \<Rightarrow> ''0'')"

definition text_pair :: "string \<Rightarrow> js option" where
  "text_pair s = (let n = length (takeWhile (\<lambda>c. c = CHR ''1'') s); r = drop (Suc n) s in
     Some (JObj [(''createdAt'', JStr (take n r)), (''id'', JStr (drop n r))]))"

definition feed_env :: activity_env where
  "feed_env = \<lparr>avEvm = feed_evm, paymentId = id, paymentCreatedAt = (\<lambda>_. 0), swapId = id, rowUpdatedAt = (\<lambda>_. 7),
     newActivityId = (\<lambda>k. ''a-'' @ k), newCreatedAt = (\<lambda>k. int (length k)), base64Json = pair_text,
     parseBase64Json = text_pair, isoDate = unary_text, parseDate = untally\<rparr>"

lemma untally_text: "untally (JStr (unary_text t)) = Some t"
proof (cases "t < 0")
  case True
  then show ?thesis by (simp add: untally_def unary_text_def)
next
  case False
  then show ?thesis by (cases "nat t") (simp_all add: untally_def unary_text_def)
qed

lemma text_pair_pair:
  "text_pair (pair_text (JObj [(''createdAt'', JStr t), (''id'', JStr i)])) =
   Some (JObj [(''createdAt'', JStr t), (''id'', JStr i)])"
proof -
  have "takeWhile (\<lambda>c. c = CHR ''1'') (replicate (length t) (CHR ''1'') @ ''0'' @ t @ i) = replicate (length t) (CHR ''1'')"
    by (simp add: takeWhile_append)
  then show ?thesis by (simp add: text_pair_def pair_text_def Let_def)
qed

lemma feed_env_codec: "codec_ok feed_env"
  unfolding codec_ok_def Let_def
  by (simp add: feed_env_def untally_text text_pair_pair) (simp add: pair_text_def)

definition paid_batch :: "string \<Rightarrow> intent_operation \<Rightarrow> string \<Rightarrow> string \<Rightarrow> string \<Rightarrow> intent" where
  "paid_batch i op ref amount h = \<lparr>intentNetwork = ''arc-mainnet'', operation = op, ownerId = Some ''u'',
     sourceWallet = owner_wallet, recipient = None, batchDigest = None,
     tokenIn = SWAP_USDC, tokenOut = SWAP_USDC, amountUnits = amount,
     externalReference = ref, logicalKey = i, requestFingerprint = i, idempotencyKey = i,
     route = DIRECT_TRANSFER, intentProvider = None, taskId = None, intentId = i, walletId = None,
     contractAddress = None, calldataHash = None, status = COMPLETED, circleChallengeId = None,
     circleTransactionId = None, transactionHash = Some h, leaseOwner = None, leaseExpiresAt = None,
     attemptCount = 1, failureCode = None, completedAt = Some 5\<rparr>"

definition feed_db :: activity_db where
  "feed_db = \<lparr>adCore = empty_db\<lparr>intents := [paid_batch ''i1'' OP_SEND ''gift'' ''250'' ''0xA1'',
       paid_batch ''i2'' OP_PAYROLL ''march-1'' ''40'' ''0xB2'', paid_batch ''i3'' OP_PAYROLL ''march-2'' ''2'' ''0xB3'']\<rparr>,
     adSwaps = [], activities = [], syncs = []\<rparr>"

abbreviation feed_owner :: principal where
  "feed_owner \<equiv> \<lparr>plUser = ''u'', plWallet = owner_wallet\<rparr>"

abbreviation feed_sync :: "sync_summary res \<times> activity_db" where
  "feed_sync \<equiv> runSync feed_env (\<lambda>_ s. s) 0 1 ''s1'' ''l1'' feed_owner feed_db"

lemma feed_synced:
  "map (\<lambda>a. (acKey a, coTxHash (acColumns a), coInSymbol (acColumns a), coInAmount (acColumns a))) (activities (snd feed_sync)) =
     [(''execution-intent:i1'', Some ''0xa1'', Some ''USDC'', Some ''250''),
      (''payroll-run:'' @ owner_wallet @ '':march'', Some ''0xb2'', Some ''USDC'', Some ''42'')]"
  by code_simp


text \<open>The list of that database after the sync, in pages of one.\<close>

definition small_pages_input :: list_input where
  "small_pages_input = \<lparr>liCursor = None, liLimit = Some (Integer 1), liType = None, liStatus = None\<rparr>"

definition any_row :: valid_list where
  "any_row = \<lparr>vlType = None, vlStatus = None, vlWallet = owner_wallet\<rparr>"

definition feed_rows :: activity_db where
  "feed_rows = feed_db\<lparr>activities := map (\<lambda>(i, t). \<lparr>acId = i, acOwner = ''u'', acWallet = owner_wallet, acType = AT_send,
     acStatus = AS_completed, acSource = ''x'', acKey = i, acRefType = ''r'', acRefId = i, acColumns = no_columns, acCreatedAt = t\<rparr>)
     [(''a'', 2), (''b'', 3), (''c'', 2)]\<rparr>"

lemma feed_rows_followed:
  "map (map puId) (follow feed_env feed_owner small_pages_input feed_rows 4) = [[''b''], [''c''], [''a'']]"
  by code_simp

lemma feed_rows_ok: "rows_ok feed_rows"
  by code_simp

theorem pages_complete_witness:
  "concat (follow feed_env feed_owner small_pages_input feed_rows 4) =
     map toPublicActivity (newest_first (own_rows feed_owner any_row feed_rows)) \<and>
   list_all (\<lambda>page. length page \<le> pageSize (liLimit small_pages_input)) (follow feed_env feed_owner small_pages_input feed_rows 4) \<and>
   map (map puId) (follow feed_env feed_owner small_pages_input feed_rows 4) = [[''b''], [''c''], [''a'']]"
proof -
  have "valid_input feed_env feed_owner small_pages_input any_row" by code_simp
  moreover have "liCursor small_pages_input = None" "length (activities feed_rows) < 4"
    by (simp_all add: small_pages_input_def feed_rows_def)
  ultimately show ?thesis
    using pages_complete [OF feed_env_codec feed_rows_ok] feed_rows_followed unfolding list_all_iff by blast
qed

end
