(* ===== verification/PayrollHistory.thy ===== *)
theory PayrollHistory
  imports Tasks Chain PayrollPlan
begin

text \<open>
  What a wallet has paid: the history read from the logs of the payroll contract
  (\<open>apps/backend/src/task/task-payroll-history.service.ts\<close>) and the payments of one task
  (\<open>task-employee-breakdown.service.ts\<close>).  The answers of the node are functions, \<open>None\<close> where the call
  throws; the columns \<open>updatedAt\<close> that dates are taken from are an argument.
\<close>

section \<open>The node\<close>

record history_log =
  hlLog :: chain_log
  hlBlock :: "string option"
  hlHash :: "string option"

record routed_batch =
  rbTokenIn :: string
  rbTokenOut :: string
  rbAmountIn :: nat
  rbAmountOut :: nat
  rbFees :: nat
  rbCount :: nat
  rbReference :: string

record history_env =
  hvEvm :: evm
  hvBlockNumber :: "int option"
  hvLogs :: "string list \<Rightarrow> string \<Rightarrow> int \<Rightarrow> int \<Rightarrow> history_log list option"
  hvTimestamp :: "int \<Rightarrow> string option"
  hvReceiptLogs :: "string \<Rightarrow> chain_log list option"
  hvRouted :: "chain_log \<Rightarrow> routed_batch option"
  hvTransfer :: "chain_log \<Rightarrow> (string \<times> string \<times> nat) option"

abbreviation RPC_ERROR :: exn where
  "RPC_ERROR \<equiv> PlainError ''RpcError''"

abbreviation DECODE_ERROR :: exn where
  "DECODE_ERROR \<equiv> PlainError ''DecodeLogError''"

section \<open>Answers\<close>

record history_event =
  heHash :: string
  heBlock :: int
  heTime :: int
  heTokenIn :: string
  heTokenOut :: string
  heAmountIn :: nat
  heAmountOut :: nat
  heFees :: nat
  heCount :: nat
  heReference :: string

record payment_item =
  piTask :: string
  piDate :: int
  piEmployee :: string
  piAmount :: int
  piSymbol :: string
  piDecimals :: nat
  piHash :: string

record history_answer =
  haWallet :: string
  haEvents :: "history_event list"
  haPayments :: "payment_item list"

section \<open>The logs\<close>

definition PAYROLL_HISTORY_FROM_BLOCK :: int where
  "PAYROLL_HISTORY_FROM_BLOCK = 35790000"

definition PAYROLL_HISTORY_CHUNK_SIZE :: int where
  "PAYROLL_HISTORY_CHUNK_SIZE = 9999"

definition DEFAULT_WIZPAY_ADDRESS :: string where
  "DEFAULT_WIZPAY_ADDRESS = ''0x77AC7Cb6507D404b5530fC03e3D39BAaEdE10C34''"

text \<open>The two environment variables, trimmed, or the default.\<close>

definition historyAddresses :: "evm \<Rightarrow> string option \<Rightarrow> string option \<Rightarrow> string list res" where
  "historyAddresses E contract wizpay =
     (let configured = (\<lambda>v. case v of None \<Rightarrow> [] | Some s \<Rightarrow> js_trim s);
          a = (if configured contract \<noteq> [] then configured contract
               else if configured wizpay \<noteq> [] then configured wizpay else DEFAULT_WIZPAY_ADDRESS)
      in bindR (checksum E a) (\<lambda>c. Inr [c]))"

definition historyWallet :: "evm \<Rightarrow> string option \<Rightarrow> string res" where
  "historyWallet E v =
     (case v of None \<Rightarrow> Inl (BadRequest ''WALLET'')
      | Some s \<Rightarrow> if js_trim s = [] then Inl (BadRequest ''WALLET'')
          else fromSome (BadRequest ''WALLET'') (getAddress E (js_trim s)))"

text \<open>The end of the chunk of blocks that starts at \<open>from\<close>.\<close>

definition chunk_end :: "int \<Rightarrow> int \<Rightarrow> int" where
  "chunk_end start current =
     (if current < start + PAYROLL_HISTORY_CHUNK_SIZE then current else start + PAYROLL_HISTORY_CHUNK_SIZE)"

lemma chunk_end_bounds: "start \<le> current \<Longrightarrow> start \<le> chunk_end start current \<and> chunk_end start current \<le> current"
  by (simp add: chunk_end_def PAYROLL_HISTORY_CHUNK_SIZE_def)

text \<open>The loop over the chunks, given the request for the logs of a range.\<close>

function fetchPayrollLogs :: "(int \<Rightarrow> int \<Rightarrow> 'a list option) \<Rightarrow> int \<Rightarrow> int \<Rightarrow> 'a list res" where
  "fetchPayrollLogs getLogs start current =
     (if start \<le> current
      then bindR (fromSome RPC_ERROR (getLogs start (chunk_end start current))) (\<lambda>entries.
           bindR (fetchPayrollLogs getLogs (chunk_end start current + 1) current) (\<lambda>rest. Inr (entries @ rest)))
      else Inr [])"
  by pat_completeness auto
termination
  by (relation "measure (\<lambda>(g, start, current). nat (current + 1 - start))") (use chunk_end_bounds in fastforce)+

declare fetchPayrollLogs.simps [simp del]

text \<open>The ranges that the loop asks for.\<close>

function history_chunks :: "int \<Rightarrow> int \<Rightarrow> (int \<times> int) list" where
  "history_chunks start current =
     (if start \<le> current then (start, chunk_end start current) # history_chunks (chunk_end start current + 1) current else [])"
  by pat_completeness auto
termination
  by (relation "measure (\<lambda>(start, current). nat (current + 1 - start))") (use chunk_end_bounds in fastforce)+

declare history_chunks.simps [simp del]

section \<open>Times\<close>

definition present :: "string option \<Rightarrow> string list" where
  "present v = (case v of None \<Rightarrow> [] | Some s \<Rightarrow> if s = [] then [] else [s])"

text \<open>Milliseconds of the block with that number.\<close>

definition blockTime :: "(int \<Rightarrow> string option) \<Rightarrow> string \<Rightarrow> int res" where
  "blockTime timestamp number =
     bindR (toBigInt number) (\<lambda>n.
     bindR (fromSome RPC_ERROR (timestamp n)) (\<lambda>t.
     bindR (toBigInt t) (\<lambda>seconds. Inr (seconds * 1000))))"

definition resolveBlockTimestamps :: "(int \<Rightarrow> string option) \<Rightarrow> history_log list \<Rightarrow> (string \<times> int) list res" where
  "resolveBlockTimestamps timestamp entries =
     mapR (\<lambda>b. bindR (blockTime timestamp b) (\<lambda>t. Inr (b, t))) (remdups (concat (map (present \<circ> hlBlock) entries)))"

section \<open>Payments of a log\<close>

definition HISTORY_EURC :: string where
  "HISTORY_EURC = ''0xbEf5f6d51CB62b58e6A8f77868681825C6fe21c1''"

definition HISTORY_USDC :: string where
  "HISTORY_USDC = ''0x3600000000000000000000000000000000000000''"

definition historySymbol :: "string \<Rightarrow> string" where
  "historySymbol token =
     (let t = toLowerCase (js_trim token) in
      if t = toLowerCase HISTORY_USDC then ''USDC'' else if t = toLowerCase HISTORY_EURC then ''EURC'' else ''???'')"

definition paid_item :: "string \<Rightarrow> int \<Rightarrow> string \<Rightarrow> nat \<Rightarrow> string \<Rightarrow> payment_item" where
  "paid_item hash time employee amount token =
     \<lparr>piTask = hash, piDate = time, piEmployee = employee, piAmount = int amount, piSymbol = historySymbol token,
      piDecimals = 6, piHash = hash\<rparr>"

text \<open>A transfer of the receipt that leaves the contract; what does not decode is skipped.\<close>

definition transferItem :: "history_env \<Rightarrow> string \<Rightarrow> string \<Rightarrow> int \<Rightarrow> chain_log \<Rightarrow> payment_item list" where
  "transferItem V contract hash time l =
     (case hvTransfer V l of None \<Rightarrow> []
      | Some (payer, payee, amount) \<Rightarrow>
          if toLowerCase payer \<noteq> contract then []
          else (case getAddress (hvEvm V) payee of None \<Rightarrow> [] | Some a \<Rightarrow> [paid_item hash time a amount (logAddress l)]))"

definition resolveEmployeePayments ::
  "history_env \<Rightarrow> string \<Rightarrow> string \<Rightarrow> int \<Rightarrow> string \<Rightarrow> nat \<Rightarrow> payment_item list" where
  "resolveEmployeePayments V address hash time token amountOut =
     (let items = (case hvReceiptLogs V hash of None \<Rightarrow> []
        | Some entries \<Rightarrow> concat (map (transferItem V (toLowerCase address) hash time) entries)) in
      if items \<noteq> [] then items else [paid_item hash time ''Multiple Recipients'' amountOut token])"

section \<open>The history\<close>

definition eventOf ::
  "history_env \<Rightarrow> (string \<times> int) list \<Rightarrow> history_log \<Rightarrow> string \<Rightarrow> string \<Rightarrow> (history_event \<times> payment_item list) res" where
  "eventOf V clock l block hash =
     bindR (fromSome DECODE_ERROR (hvRouted V (hlLog l))) (\<lambda>b.
     bindR (toBigInt block) (\<lambda>n.
     let time = (case map_of clock block of None \<Rightarrow> 0 | Some t \<Rightarrow> t) in
     bindR (checksum (hvEvm V) (rbTokenIn b)) (\<lambda>tin.
     bindR (checksum (hvEvm V) (rbTokenOut b)) (\<lambda>tout.
     Inr (\<lparr>heHash = hash, heBlock = n, heTime = time, heTokenIn = tin, heTokenOut = tout, heAmountIn = rbAmountIn b,
            heAmountOut = rbAmountOut b, heFees = rbFees b, heCount = rbCount b, heReference = rbReference b\<rparr>,
          resolveEmployeePayments V (logAddress (hlLog l)) hash time tin (rbAmountOut b))))))"

fun readLogs ::
  "history_env \<Rightarrow> (string \<times> int) list \<Rightarrow> history_log list \<Rightarrow> (history_event \<times> payment_item list) list res" where
  "readLogs V clock [] = Inr []"
| "readLogs V clock (l # entries) =
     (case (present (hlHash l), present (hlBlock l)) of
        ([hash], [block]) \<Rightarrow> bindR (eventOf V clock l block hash) (\<lambda>x. bindR (readLogs V clock entries) (\<lambda>xs. Inr (x # xs)))
      | _ \<Rightarrow> readLogs V clock entries)"

definition getWalletPayrollHistory ::
  "history_env \<Rightarrow> string option \<Rightarrow> string option \<Rightarrow> string option \<Rightarrow> history_answer res" where
  "getWalletPayrollHistory V contract wizpay wallet =
     bindR (historyWallet (hvEvm V) wallet) (\<lambda>w.
     bindR (historyAddresses (hvEvm V) contract wizpay) (\<lambda>addresses.
     bindR (fromSome RPC_ERROR (hvBlockNumber V)) (\<lambda>current.
     bindR (fetchPayrollLogs (hvLogs V addresses w) PAYROLL_HISTORY_FROM_BLOCK current) (\<lambda>entries.
     bindR (resolveBlockTimestamps (hvTimestamp V) entries) (\<lambda>clock.
     bindR (readLogs V clock entries) (\<lambda>xs.
     Inr \<lparr>haWallet = w, haEvents = sort_key (\<lambda>e. - heBlock e) (map fst xs),
          haPayments = sort_key (\<lambda>y. - piDate y) (concat (map snd xs))\<rparr>))))))"

section \<open>The payments of one task\<close>

text \<open>For the letters of Latin-1 whose capital is in Latin-1 as well.\<close>

definition upper_char :: "char \<Rightarrow> char" where
  "upper_char c = (let n = of_char c :: nat in if (97 \<le> n \<and> n \<le> 122) \<or> (224 \<le> n \<and> n \<le> 254 \<and> n \<noteq> 247) then char_of (n - 32) else c)"

definition toUpperCase :: "string \<Rightarrow> string" where
  "toUpperCase s = map upper_char s"

definition breakdownSymbol :: "string \<Rightarrow> string" where
  "breakdownSymbol v = (let s = toUpperCase (js_trim v) in if s = [] then ''USDC'' else s)"

text \<open>\<open>parseAmountToUnits\<close> of this service, with the six decimals that every symbol has.\<close>

definition breakdownUnits :: "string \<Rightarrow> int" where
  "breakdownUnits v =
     (let s = js_trim v; whole = before_dot s; fraction = after_dot s in
      if s = [] \<or> \<not> list_all is_digit whole \<or> \<not> list_all is_digit fraction then 0
      else int (read_nat ((if whole = [] then ''0'' else whole) @ take 6 (padEnd 6 fraction))))"

definition breakdownItem :: "(string \<Rightarrow> int) \<Rightarrow> string \<Rightarrow> task_tx \<Rightarrow> payment_item" where
  "breakdownItem updated task x =
     \<lparr>piTask = task, piDate = updated (txRowId x), piEmployee = txRecipient x, piAmount = breakdownUnits (txAmount x),
      piSymbol = breakdownSymbol (txCurrency x), piDecimals = 6, piHash = the (txHash x)\<rparr>"

definition confirmed_tx :: "task_tx \<Rightarrow> bool" where
  "confirmed_tx x \<longleftrightarrow> txStatus x = TX_COMPLETED \<and> (case txHash x of None \<Rightarrow> False | Some h \<Rightarrow> js_trim h \<noteq> [])"

definition getPayrollEmployeeBreakdown ::
  "(string \<Rightarrow> int) \<Rightarrow> string \<Rightarrow> string \<Rightarrow> (db, payment_item list) op" where
  "getPayrollEmployeeBreakdown updated i wallet =
     andThen (getOwnedTaskById i wallet) (\<lambda>d.
     andThen (ensure (taskType (dTask d) = ''payroll'') (BadRequest ''NOT_PAYROLL'')) (\<lambda>_.
     ok (sort_key (\<lambda>y. - piDate y) (map (breakdownItem updated (tId (dTask d))) (filter confirmed_tx (dTransactions d))))))"

end
