(* ===== verification/PayrollHistoryProperties.thy ===== *)
theory PayrollHistoryProperties
  imports PayrollHistory
begin

text \<open>
  The history of a wallet is complete: every log of the payroll contract up to the current block is one event of
  the answer, in the order of the blocks, at the time of its block, with the payments it made.
\<close>

section \<open>The chunks\<close>

lemma chunks_cover:
  "start \<le> current \<Longrightarrow> (n \<in> (\<Union>(a, b)\<in>set (history_chunks start current). {a..b})) = (start \<le> n \<and> n \<le> current)"
proof (induction start current rule: history_chunks.induct)
  case (1 start current)
  note bounds = chunk_end_bounds [OF 1(2)]
  show ?case
  proof (cases "chunk_end start current + 1 \<le> current")
    case True
    then show ?thesis using 1(1) [OF 1(2) True] bounds 1(2)
      by (subst history_chunks.simps) auto
  next
    case False
    then have "chunk_end start current = current" "history_chunks (chunk_end start current + 1) current = []"
      using bounds by (simp_all add: history_chunks.simps)
    then show ?thesis using 1(2) by (subst history_chunks.simps) auto
  qed
qed

lemma chunks_small:
  "(a, b) \<in> set (history_chunks start current) \<Longrightarrow> start \<le> a \<and> a \<le> b \<and> b \<le> current \<and> b - a < 10000"
proof (induction start current rule: history_chunks.induct)
  case (1 start current)
  show ?case
  proof (cases "start \<le> current")
    case True
    note bounds = chunk_end_bounds [OF True]
    have "(a, b) = (start, chunk_end start current) \<or> (a, b) \<in> set (history_chunks (chunk_end start current + 1) current)"
      using 1(2) True by (subst (asm) history_chunks.simps) simp
    then show ?thesis
    proof
      assume "(a, b) = (start, chunk_end start current)"
      then show ?thesis using bounds by (auto simp: chunk_end_def PAYROLL_HISTORY_CHUNK_SIZE_def)
    next
      assume "(a, b) \<in> set (history_chunks (chunk_end start current + 1) current)"
      then show ?thesis using 1(1) [OF True] bounds by auto
    qed
  next
    case False
    then show ?thesis using 1(2) by (subst (asm) history_chunks.simps) simp
  qed
qed

text \<open>A node that keeps one list of logs answers for a range with the part of the list that lies in it.\<close>

definition in_blocks :: "('a \<Rightarrow> int) \<Rightarrow> int \<Rightarrow> int \<Rightarrow> 'a list \<Rightarrow> 'a list" where
  "in_blocks block a b L = filter (\<lambda>l. a \<le> block l \<and> block l \<le> b) L"

lemma in_blocks_append:
  assumes "sorted (map block L)" "a \<le> b" "b \<le> c"
  shows "in_blocks block a b L @ in_blocks block (b + 1) c L = in_blocks block a c L"
  using assms
proof (induction L)
  case (Cons l L)
  have "block l \<le> block m" if "m \<in> set L" for m using Cons.prems(1) that by simp
  then have "in_blocks block a b L = []" if "b < block l"
    using that by (fastforce simp: in_blocks_def filter_empty_conv)
  then show ?case using Cons by (auto simp: in_blocks_def)
qed (simp add: in_blocks_def)

lemma fetchLogs_complete:
  assumes "sorted (map block L)"
    and "\<And>a b. start \<le> a \<Longrightarrow> a \<le> b \<Longrightarrow> b \<le> current \<Longrightarrow> b - a < 10000 \<Longrightarrow> getLogs a b = Some (in_blocks block a b L)"
  shows "fetchPayrollLogs getLogs start current = Inr (in_blocks block start current L)"
  using assms(2)
proof (induction getLogs start current rule: fetchPayrollLogs.induct)
  case (1 getLogs start current)
  show ?case
  proof (cases "start \<le> current")
    case True
    let ?e = "chunk_end start current"
    have e: "start \<le> ?e" "?e \<le> current" "?e - start < 10000"
      using True by (auto simp: chunk_end_def PAYROLL_HISTORY_CHUNK_SIZE_def)
    have head: "getLogs start ?e = Some (in_blocks block start ?e L)" using e by (intro 1(2)) simp_all
    have tail: "fetchPayrollLogs getLogs (?e + 1) current = Inr (in_blocks block (?e + 1) current L)"
      using e by (intro 1(1) [OF True] 1(2)) simp_all
    show ?thesis
      using True in_blocks_append [OF assms(1) e(1,2)]
      by (subst fetchPayrollLogs.simps) (simp add: head tail fromSome_def)
  next
    case False
    then show ?thesis by (subst fetchPayrollLogs.simps) (auto simp: in_blocks_def filter_empty_conv)
  qed
qed

section \<open>The answer\<close>

text \<open>A log of a mined transaction, and its block.\<close>

definition mined_log :: "history_log \<Rightarrow> bool" where
  "mined_log l \<longleftrightarrow> present (hlHash l) \<noteq> [] \<and> present (hlBlock l) \<noteq> []"

definition block_of :: "history_log \<Rightarrow> int" where
  "block_of l = (case toBigInt (the (hlBlock l)) of Inl e \<Rightarrow> 0 | Inr n \<Rightarrow> n)"

definition node_keeps :: "history_env \<Rightarrow> string list \<Rightarrow> string \<Rightarrow> int \<Rightarrow> history_log list \<Rightarrow> bool" where
  "node_keeps V addresses wallet current L \<longleftrightarrow> sorted (map block_of L) \<and> (\<forall>l\<in>set L. mined_log l) \<and>
     (\<forall>a b. a \<le> b \<and> b \<le> current \<and> b - a < 10000 \<longrightarrow> hvLogs V addresses wallet a b = Some (in_blocks block_of a b L))"

lemma present_iff: "present v = [s] \<longleftrightarrow> v = Some s \<and> s \<noteq> []" "present v \<noteq> [] \<longleftrightarrow> (\<exists>s. v = Some s \<and> s \<noteq> [])"
  by (auto simp: present_def split: option.splits)

lemma readLogs_Inr:
  assumes "readLogs V clock L = Inr xs" "\<forall>l\<in>set L. mined_log l"
  shows "list_all2 (\<lambda>l x. eventOf V clock l (the (hlBlock l)) (the (hlHash l)) = Inr x) L xs"
  using assms
proof (induction L arbitrary: xs)
  case (Cons l L)
  obtain h b where "hlHash l = Some h" "h \<noteq> []" "hlBlock l = Some b" "b \<noteq> []"
    using Cons.prems(2) by (auto simp: mined_log_def present_iff)
  then show ?case using Cons by (auto simp: present_def)
qed simp

lemma timestamps_Inr:
  assumes "resolveBlockTimestamps timestamp L = Inr clock" "l \<in> set L" "mined_log l"
  shows "\<exists>t. map_of clock (the (hlBlock l)) = Some t \<and> blockTime timestamp (the (hlBlock l)) = Inr t"
proof -
  let ?bs = "remdups (concat (map (present \<circ> hlBlock) L))"
  have "list_all2 (\<lambda>b y. fst y = b \<and> blockTime timestamp b = Inr (snd y)) ?bs clock"
    using assms(1) unfolding resolveBlockTimestamps_def mapR_Inr by (rule list_all2_mono) auto
  then have keys: "map fst clock = ?bs" and vals: "\<forall>y\<in>set clock. blockTime timestamp (fst y) = Inr (snd y)"
    by (induction rule: list_all2_induct) auto
  obtain b where b: "hlBlock l = Some b" "b \<noteq> []" using assms(3) by (auto simp: mined_log_def present_iff)
  then have "b \<in> set ?bs" using assms(2) by (force simp: present_def)
  then obtain t where t: "(b, t) \<in> set clock" by (auto simp: keys [symmetric])
  then have "map_of clock b = Some t" by (intro map_of_is_SomeI) (simp_all add: keys)
  then show ?thesis using b vals t by auto
qed

text \<open>What an event says of its log.\<close>

definition batch_facts :: "history_env \<Rightarrow> history_log \<Rightarrow> string \<times> int \<times> string \<times> nat \<times> nat \<times> nat \<times> nat" where
  "batch_facts V l = (let b = the (hvRouted V (hlLog l)) in
     (the (hlHash l), block_of l, rbReference b, rbAmountIn b, rbAmountOut b, rbFees b, rbCount b))"

definition event_facts :: "history_event \<Rightarrow> string \<times> int \<times> string \<times> nat \<times> nat \<times> nat \<times> nat" where
  "event_facts e = (heHash e, heBlock e, heReference e, heAmountIn e, heAmountOut e, heFees e, heCount e)"

text \<open>An event is dated by its block and has its payments: the transfers out of the contract, or their total.\<close>

definition event_paid :: "history_env \<Rightarrow> payment_item list \<Rightarrow> history_event \<Rightarrow> bool" where
  "event_paid V ys e \<longleftrightarrow>
     (\<exists>stamp s. hvTimestamp V (heBlock e) = Some stamp \<and> toBigInt stamp = Inr s \<and> heTime e = s * 1000) \<and>
     (\<exists>y\<in>set ys. piHash y = heHash e \<and> piDate y = heTime e)"

lemma payments_nonempty:
  "\<exists>y\<in>set (resolveEmployeePayments V address hash time token amount). piHash y = hash \<and> piDate y = time"
proof -
  have item: "piHash y = hash \<and> piDate y = time" if "y \<in> set (transferItem V c hash time l)" for y c l
    using that by (auto simp: transferItem_def paid_item_def split: option.splits if_splits)
  let ?items = "case hvReceiptLogs V hash of None \<Rightarrow> [] | Some ls \<Rightarrow> concat (map (transferItem V (toLowerCase address) hash time) ls)"
  show ?thesis
  proof (cases "?items = []")
    case True
    then show ?thesis by (simp add: resolveEmployeePayments_def paid_item_def)
  next
    case False
    then obtain y where "y \<in> set ?items" by (cases ?items) auto
    moreover have "piHash y = hash \<and> piDate y = time" using item calculation by (auto split: option.splits)
    ultimately show ?thesis using False by (auto simp: resolveEmployeePayments_def Let_def)
  qed
qed

lemma eventOf_Inr:
  assumes "eventOf V clock l b h = Inr x" "hlBlock l = Some b" "hlHash l = Some h"
    and "map_of clock b = Some t" "blockTime (hvTimestamp V) b = Inr t"
  shows "event_facts (fst x) = batch_facts V l \<and> event_paid V (snd x) (fst x)"
proof -
  obtain n stamp s where n: "toBigInt b = Inr n" "hvTimestamp V n = Some stamp" "toBigInt stamp = Inr s" "t = s * 1000"
    using assms(5) by (auto simp: blockTime_def bindR_def fromSome_def split: sum.splits option.splits)
  obtain r tin where x: "hvRouted V (hlLog l) = Some r" "heHash (fst x) = h" "heBlock (fst x) = n" "heTime (fst x) = t"
      "heReference (fst x) = rbReference r" "heAmountIn (fst x) = rbAmountIn r" "heAmountOut (fst x) = rbAmountOut r"
      "heFees (fst x) = rbFees r" "heCount (fst x) = rbCount r"
      "snd x = resolveEmployeePayments V (logAddress (hlLog l)) h t tin (rbAmountOut r)"
    using assms(1,4) n(1) by (auto simp: eventOf_def bindR_def fromSome_def Let_def split: sum.splits option.splits)
  have "event_facts (fst x) = batch_facts V l"
    using x n assms(2,3) by (simp add: event_facts_def batch_facts_def block_of_def Let_def)
  moreover have "event_paid V (snd x) (fst x)"
    unfolding event_paid_def x(10) using n x(2-4) payments_nonempty by auto
  ultimately show ?thesis by blast
qed

definition newest_events :: "history_event list \<Rightarrow> bool" where
  "newest_events = sorted_wrt (\<lambda>e f. heBlock f \<le> heBlock e)"

lemma sorted_descending: "sorted_wrt (\<lambda>x y. k y \<le> k x) (sort_key (\<lambda>x. - k x :: int) xs)"
proof -
  have "sorted (map (\<lambda>x. - k x) (sort_key (\<lambda>x. - k x) xs))" by simp
  then have "sorted_wrt (\<lambda>x y. - k x \<le> - k y) (sort_key (\<lambda>x. - k x) xs)" by (simp only: sorted_map)
  then show ?thesis by simp
qed


section \<open>Two batches\<close>

definition old_log :: history_log where
  "old_log = \<lparr>hlLog = \<lparr>logAddress = ''0xC0'', logTopics = [], logData = ''1''\<rparr>, hlBlock = Some ''0x2221cb5'', hlHash = Some ''0xaa''\<rparr>"

definition new_log :: history_log where
  "new_log = \<lparr>hlLog = \<lparr>logAddress = ''0xC0'', logTopics = [], logData = ''2''\<rparr>, hlBlock = Some ''0x22243f2'', hlHash = Some ''0xbb''\<rparr>"

definition history_node :: history_env where
  "history_node = \<lparr>hvEvm = \<lparr>isAddress = (\<lambda>_. True), getAddress = Some, isAddressEqual = (\<lambda>a b. Some (a = b)),
       isHex = (\<lambda>_. True), keccak256 = id, sha256 = id\<rparr>,
     hvBlockNumber = Some 35800100, hvLogs = (\<lambda>_ _ a b. Some (in_blocks block_of a b [old_log, new_log])),
     hvTimestamp = (\<lambda>n. Some ''0x10''), hvReceiptLogs = (\<lambda>h. if h = ''0xaa'' then Some [hlLog old_log] else None),
     hvRouted = (\<lambda>l. Some \<lparr>rbTokenIn = ''0x36'', rbTokenOut = ''0x36'', rbAmountIn = 7, rbAmountOut = 6, rbFees = 1,
       rbCount = 2, rbReference = logData l\<rparr>),
     hvTransfer = (\<lambda>l. Some (''0xc0'', ''0xd1'', 6))\<rparr>"

lemma history_numbers:
  "toBigInt ''0x2221cb5'' = Inr 35790005" "toBigInt ''0x22243f2'' = Inr 35800050" "toBigInt ''0x10'' = Inr 16"
  by (simp_all add: toBigInt_def js_trim_def Let_def is_space_def numeral_of_def is_hex_def is_digit_def read_base_def
      hex_val_def digit_val_def)

lemma history_blocks: "block_of old_log = 35790005" "block_of new_log = 35800050"
  by (simp_all add: block_of_def old_log_def new_log_def history_numbers)

lemma history_node_keeps: "node_keeps history_node addresses w 35800100 [old_log, new_log]"
  by (simp add: node_keeps_def history_blocks) (simp add: history_node_def mined_log_def present_def old_log_def new_log_def)

lemma history_node_logs:
  "fetchPayrollLogs (hvLogs history_node addresses w) PAYROLL_HISTORY_FROM_BLOCK 35800100 = Inr [old_log, new_log]"
proof -
  have "fetchPayrollLogs (hvLogs history_node addresses w) PAYROLL_HISTORY_FROM_BLOCK 35800100 =
    Inr (in_blocks block_of PAYROLL_HISTORY_FROM_BLOCK 35800100 [old_log, new_log])"
    by (rule fetchLogs_complete) (simp_all add: history_blocks history_node_def)
  then show ?thesis by (simp add: in_blocks_def history_blocks PAYROLL_HISTORY_FROM_BLOCK_def)
qed

lemma history_node_times:
  "resolveBlockTimestamps (hvTimestamp history_node) [old_log, new_log] = Inr [(''0x2221cb5'', 16000), (''0x22243f2'', 16000)]"
  by (simp add: resolveBlockTimestamps_def present_def old_log_def new_log_def blockTime_def history_numbers fromSome_def
      history_node_def)

lemma history_node_inputs:
  "historyWallet (hvEvm history_node) (Some ''0xw'') = Inr ''0xw''"
  "historyAddresses (hvEvm history_node) (Some ''0xC0'') None = Inr [''0xC0'']"
  by (simp_all add: historyWallet_def historyAddresses_def history_node_def js_trim_def is_space_def Let_def fromSome_def
      checksum_def)

lemma history_lower: "toLowerCase ''0xC0'' = ''0xc0''" "toLowerCase ''0xc0'' = ''0xc0''"
  by code_simp+

lemma history_node_read:
  "readLogs history_node [(''0x2221cb5'', 16000), (''0x22243f2'', 16000)] [old_log, new_log] = Inr
     [(\<lparr>heHash = ''0xaa'', heBlock = 35790005, heTime = 16000, heTokenIn = ''0x36'', heTokenOut = ''0x36'', heAmountIn = 7,
         heAmountOut = 6, heFees = 1, heCount = 2, heReference = ''1''\<rparr>,
       [\<lparr>piTask = ''0xaa'', piDate = 16000, piEmployee = ''0xd1'', piAmount = 6, piSymbol = historySymbol ''0xC0'',
         piDecimals = 6, piHash = ''0xaa''\<rparr>]),
      (\<lparr>heHash = ''0xbb'', heBlock = 35800050, heTime = 16000, heTokenIn = ''0x36'', heTokenOut = ''0x36'', heAmountIn = 7,
         heAmountOut = 6, heFees = 1, heCount = 2, heReference = ''2''\<rparr>,
       [\<lparr>piTask = ''0xbb'', piDate = 16000, piEmployee = ''Multiple Recipients'', piAmount = 6,
         piSymbol = historySymbol ''0x36'', piDecimals = 6, piHash = ''0xbb''\<rparr>])]"
  by (simp add: old_log_def new_log_def present_def eventOf_def history_numbers fromSome_def checksum_def Let_def
      resolveEmployeePayments_def transferItem_def paid_item_def history_lower history_node_def)

lemma history_node_answer:
  "\<exists>a. getWalletPayrollHistory history_node (Some ''0xC0'') None (Some ''0xw'') = Inr a \<and>
     map heReference (haEvents a) = [''2'', ''1''] \<and> map piEmployee (haPayments a) = [''0xd1'', ''Multiple Recipients'']"
proof -
  have block: "hvBlockNumber history_node = Some 35800100" by (simp add: history_node_def)
  show ?thesis
    by (simp add: getWalletPayrollHistory_def history_node_inputs block fromSome_def history_node_logs history_node_times
        history_node_read del: readLogs.simps)
qed


end
