(* ===== verification/ClientWallet.thy ===== *)
theory ClientWallet
  imports PayrollTask DirectTransfer
begin

text \<open>
  The part of the web client that spends: the calls of the intent API
  (\<open>apps/frontend/lib/execution-intent.ts\<close>), the policy for the chain of the wallet
  (\<open>lib/external-wallet-policy.ts\<close>) and the executor that has the wallet sign a call
  (\<open>hooks/useTransactionExecutor.ts\<close>).

  The state of the world as the client sees it is \<open>client\<close>: the database behind the backend, the requests
  the wallet was shown, and the local storage of the browser.  Every \<open>await\<close> is a \<open>moment\<close>: other clients
  and requests act (\<open>ceOthers\<close>), and what comes from outside is a function of the number of the moment.
  An HTTP call can be lost before it reaches the backend or after it was served_call.
\<close>

section \<open>What the wallet is shown\<close>

datatype signed_call =
    Approve_call string int
  | Transfer_call string int
  | Same_payroll_call string "string list" "int list" string
  | Cross_payroll_call string string "string list" "int list" int int int int string

record prompt =
  ptTo :: string
  ptCall :: signed_call
  ptValue :: int
  ptIntent :: "string option"

section \<open>The world\<close>

datatype batch_status = Batch_submitted | Batch_confirmed

record stored_batch =
  sbStatus :: batch_status
  sbHash :: "string option"

record send_recovery =
  svIntent :: string
  svKey :: string
  svLease :: string
  svOperation :: string
  svChain :: nat
  svSender :: string
  svToken :: string
  svTokenAddress :: string
  svRecipient :: string
  svUnits :: int
  svHash :: "string option"

record client =
  clDb :: db
  clPrompts :: "prompt list"
  clBatches :: "string \<Rightarrow> stored_batch option"
  clSends :: "string \<Rightarrow> send_recovery option"
  clTick :: nat

datatype delivery = Delivered | Request_lost | Answer_lost

datatype switch_answer = Switched | Switch_rejected | Switch_failed

record token_config =
  tkSymbol :: string
  tkAddress :: string
  tkDecimals :: nat

record funding_quote =
  pqGross :: string
  pqMinOut :: string
  pqMinHop :: string
  pqExpires :: "int option"

record client_env =
  ceBackend :: payroll_env
  ceVerify :: "nat \<Rightarrow> transfer_query \<Rightarrow> verified_receipt res"
  ceNow :: "nat \<Rightarrow> int"
  ceFresh :: "nat \<Rightarrow> nat \<Rightarrow> string"
  ceOthers :: "nat \<Rightarrow> client \<Rightarrow> client"
  ceMeanwhile :: "nat \<Rightarrow> db \<Rightarrow> db"
  ceDelivery :: "nat \<Rightarrow> delivery"
  ceWallet :: "nat \<Rightarrow> prompt \<Rightarrow> string res"
  ceAddress :: "string option"
  ceWalletChain :: "nat \<Rightarrow> nat option"
  ceSwitch :: "(nat \<Rightarrow> switch_answer) option"
  ceWalletClient :: "nat \<Rightarrow> bool"
  ceArc :: nat
  cePublicClient :: bool
  ceHead :: "nat \<Rightarrow> nat option"
  ceReceiptStatus :: "nat \<Rightarrow> string \<Rightarrow> bool option"
  ceAllowance :: "nat \<Rightarrow> string \<Rightarrow> string \<Rightarrow> string \<Rightarrow> int option"
  ceBalance :: "nat \<Rightarrow> string \<Rightarrow> string \<Rightarrow> int option"
  ceQuote :: "nat \<Rightarrow> string \<Rightarrow> string \<Rightarrow> int \<Rightarrow> funding_quote option"
  ceTokens :: "string \<Rightarrow> token_config option"
  ceContract :: "string option"
  ceFeeBps :: int

abbreviation ceEvm :: "client_env \<Rightarrow> evm" where
  "ceEvm V \<equiv> pyEvm (ceBackend V)"

abbreviation ceRouting :: "client_env \<Rightarrow> routing" where
  "ceRouting V \<equiv> pyRouting (ceBackend V)"

abbreviation FETCH_FAILED :: exn where
  "FETCH_FAILED \<equiv> PlainError ''TypeError: Failed to fetch''"

abbreviation READ_FAILED :: exn where
  "READ_FAILED \<equiv> PlainError ''RpcError''"

abbreviation CLIENT_ERROR :: "string \<Rightarrow> exn" where
  "CLIENT_ERROR s \<equiv> PlainError s"

section \<open>Moments\<close>

definition moment :: "client_env \<Rightarrow> (client, nat) op" where
  "moment V w = (Inr (clTick w), (ceOthers V (clTick w) w)\<lparr>clTick := Suc (clTick w)\<rparr>)"

text \<open>A value from outside, \<open>None\<close> where the call throws.\<close>

definition outside :: "client_env \<Rightarrow> (nat \<Rightarrow> 'a option) \<Rightarrow> (client, 'a) op" where
  "outside V f = andThen (moment V) (\<lambda>n. lift (fromSome READ_FAILED (f n)))"

definition onDatabase :: "(db, 'a) op \<Rightarrow> (client, 'a) op" where
  "onDatabase m w = (case m (clDb w) of (r, d) \<Rightarrow> (r, w\<lparr>clDb := d\<rparr>))"

text \<open>\<open>backendFetch\<close> of an endpoint: a failed request and an error of the backend are both exceptions.\<close>

definition backendFetch :: "client_env \<Rightarrow> (nat \<Rightarrow> (db, 'a) op) \<Rightarrow> (client, 'a) op" where
  "backendFetch V m =
     andThen (moment V) (\<lambda>n.
     case ceDelivery V n of
       Delivered \<Rightarrow> onDatabase (m n)
     | Request_lost \<Rightarrow> throw FETCH_FAILED
     | Answer_lost \<Rightarrow> (\<lambda>w. (Inl FETCH_FAILED, snd (onDatabase (m n) w))))"

text \<open>\<open>try\<close> and \<open>catch\<close> around a computation whose exception becomes part of its result.\<close>

definition attempting :: "('s, 'a) op \<Rightarrow> ('s, 'a res) op" where
  "attempting m w = (case m w of (r, w') \<Rightarrow> (Inr r, w'))"

section \<open>The intent API\<close>

definition acquireExecutionIntent :: "client_env \<Rightarrow> acquire_input \<Rightarrow> (client, intent) op" where
  "acquireExecutionIntent V x =
     backendFetch V (\<lambda>n. acquire (ceEvm V) (ceRouting V) (ceNow V n) (ceFresh V n 0) (\<lambda>_. undisturbed) x)"

definition bindExecutionIntentTransactionHash ::
  "client_env \<Rightarrow> string \<Rightarrow> string \<Rightarrow> string \<Rightarrow> string option \<Rightarrow> (client, intent) op" where
  "bindExecutionIntentTransactionHash V i h key owner =
     backendFetch V (\<lambda>n. bindHashEndpoint (ceRouting V) (ceNow V n) i key h (case owner of None \<Rightarrow> [] | Some l \<Rightarrow> l))"

definition prepareWalletExecutionIntent :: "client_env \<Rightarrow> string \<Rightarrow> string \<Rightarrow> string \<Rightarrow> (client, intent) op" where
  "prepareWalletExecutionIntent V i key owner =
     backendFetch V (\<lambda>n. prepareWalletSignature (ceRouting V) (ceNow V n) i key owner 300000)"

definition bindKnownExecutionIntentHash :: "client_env \<Rightarrow> string \<Rightarrow> string \<Rightarrow> string \<Rightarrow> (client, intent) op" where
  "bindKnownExecutionIntentHash V i key h =
     backendFetch V (\<lambda>n. bindKnownTransactionHash (ceRouting V) (ceNow V n) i key h)"

definition cancelExecutionIntent :: "client_env \<Rightarrow> string \<Rightarrow> string \<Rightarrow> (client, intent) op" where
  "cancelExecutionIntent V i key = backendFetch V (\<lambda>n. cancelUnsubmitted (ceRouting V) i key)"

definition verifyDirectExecutionIntent :: "client_env \<Rightarrow> string \<Rightarrow> string \<Rightarrow> (client, intent) op" where
  "verifyDirectExecutionIntent V i key =
     backendFetch V (\<lambda>n. verifyEndpoint (ceEvm V) (ceRouting V) (ceNow V n) (ceVerify V n) i key)"

section \<open>The chain of the wallet\<close>

definition assertSupportedExternalWalletChain :: "client_env \<Rightarrow> nat \<Rightarrow> unit res" where
  "assertSupportedExternalWalletChain V c = ensureR (c = ceArc V) (CLIENT_ERROR ''Unsupported wallet chain ID'')"

definition requestExternalWalletChain :: "client_env \<Rightarrow> nat \<Rightarrow> (client, unit) op" where
  "requestExternalWalletChain V target =
     andThen (lift (assertSupportedExternalWalletChain V target)) (\<lambda>_.
     andThen (moment V) (\<lambda>n.
     if ceWalletChain V n = Some target then ok ()
     else case ceSwitch V of
         None \<Rightarrow> throw (CLIENT_ERROR ''Switch your external wallet'')
       | Some switch \<Rightarrow>
           andThen (moment V) (\<lambda>n.
           case switch n of
             Switched \<Rightarrow> ok ()
           | Switch_rejected \<Rightarrow> throw (CLIENT_ERROR ''Network switch was rejected in your wallet.'')
           | Switch_failed \<Rightarrow> throw (CLIENT_ERROR ''Failed to switch the external wallet''))))"

definition getExternalWalletClient :: "client_env \<Rightarrow> nat \<Rightarrow> (client, unit) op" where
  "getExternalWalletClient V target =
     andThen (requestExternalWalletChain V target) (\<lambda>_.
     andThen (moment V) (\<lambda>n. ensure (ceWalletClient V n) (CLIENT_ERROR ''External wallet client is not ready.'')))"

section \<open>The executor\<close>

record execute_params =
  exTo :: string
  exCall :: signed_call
  exValue :: int
  exIntent :: "string option"
  exKey :: "string option"

record execute_result =
  erHash :: string
  erLease :: "string option"

text \<open>The request is on the screen of the wallet; the answer is the hash of what it broadcast.\<close>

definition writeContractTransaction :: "client_env \<Rightarrow> prompt \<Rightarrow> (client, string) op" where
  "writeContractTransaction V p =
     andThen (moment V) (\<lambda>n w. (ceWallet V n p, w\<lparr>clPrompts := clPrompts w @ [p]\<rparr>))"

definition prepareIntent ::
  "client_env \<Rightarrow> (string \<Rightarrow> (client, unit) op) \<Rightarrow> execute_params \<Rightarrow> (client, string option) op" where
  "prepareIntent V prepared x =
     (if truthy (exIntent x)
      then andThen (ensure (truthy (exKey x)) (CLIENT_ERROR ''Durable execution intent access key is missing.'')) (\<lambda>_.
           andThen (query (\<lambda>w. ceFresh V (clTick w) 1)) (\<lambda>owner.
           andThen (prepareWalletExecutionIntent V (the (exIntent x)) (the (exKey x)) owner) (\<lambda>_.
           andThen (prepared owner) (\<lambda>_. ok (Some owner)))))
      else ok None)"

definition executeTransaction ::
  "client_env \<Rightarrow> (string \<Rightarrow> (client, unit) op) \<Rightarrow> execute_params \<Rightarrow> (client, execute_result) op" where
  "executeTransaction V prepared x =
     andThen (ensure (cePublicClient V) (CLIENT_ERROR ''Chain is not configured'')) (\<lambda>_.
     andThen (ensure (truthy (ceAddress V)) (CLIENT_ERROR ''Connect an external wallet before sending a transaction.'')) (\<lambda>_.
     andThen (outside V (ceHead V)) (\<lambda>_.
     andThen (getExternalWalletClient V (ceArc V)) (\<lambda>_.
     andThen (prepareIntent V prepared x) (\<lambda>lease.
     andThen (writeContractTransaction V
        \<lparr>ptTo = exTo x, ptCall = exCall x, ptValue = exValue x, ptIntent = (if truthy (exIntent x) then exIntent x else None)\<rparr>) (\<lambda>h.
     ok \<lparr>erHash = h, erLease = lease\<rparr>))))))"

end
