(* ===== verification/ClientPayroll.thy ===== *)
theory ClientPayroll
  imports ClientWallet
begin

text \<open>
  Sending a payroll from the browser: the amounts (\<open>apps/frontend/lib/mainnet-payroll-protocol.ts\<close>), the
  route (\<open>lib/payroll-route-policy.ts\<close>), the submission of one batch (\<open>hooks/wizpay/useWizPayContract.ts\<close>),
  the local ledger of batches (\<open>hooks/wizpay/index.ts\<close>) and the run over groups and batches
  (\<open>hooks/wizpay/useBatchPayroll.ts\<close>).  What the hooks only show on the screen is left out.  A run is one
  call of \<open>execute\<close> under its lock; whatever else happens, in other tabs too, are the moments of
  ClientWallet.thy.
\<close>

section \<open>Amounts\<close>

definition CLIENT_USDC :: string where
  "CLIENT_USDC = ''0x3600000000000000000000000000000000000000''"

definition USDC_NATIVE_SCALE :: int where
  "USDC_NATIVE_SCALE = 1000000000000"

fun fundingSum :: "int \<Rightarrow> int \<Rightarrow> int list \<Rightarrow> int res" where
  "fundingSum feeBps batchTotal [] = Inr batchTotal"
| "fundingSum feeBps batchTotal (a # as) =
     (if a \<le> 0 then Inl (CLIENT_ERROR ''Payroll amounts must be positive.'')
      else fundingSum feeBps (batchTotal + a + a * feeBps div 10000) as)"

definition sameTokenFunding :: "int list \<Rightarrow> int \<Rightarrow> int res" where
  "sameTokenFunding amounts feeBps = fundingSum feeBps 0 amounts"

definition nativePayrollValue :: "evm \<Rightarrow> string \<Rightarrow> int \<Rightarrow> int res" where
  "nativePayrollValue E token amount =
     bindR (ensureR (0 < amount) (CLIENT_ERROR ''Payroll input must be positive.'')) (\<lambda>_.
     bindR (equalR E token CLIENT_USDC) (\<lambda>usdc. Inr (if usdc then amount * USDC_NATIVE_SCALE else 0)))"

text \<open>The spender is \<open>WIZPAY_PAYROLL_MAINNET_ADDRESS\<close> and not used by the caller.\<close>

definition payrollApprovalTarget :: "evm \<Rightarrow> string \<Rightarrow> string \<Rightarrow> int \<Rightarrow> (string \<times> int) option res" where
  "payrollApprovalTarget E tin tout funding =
     bindR (equalR E tin CLIENT_USDC) (\<lambda>usdc.
     if \<not> usdc then Inr (Some (tin, funding))
     else bindR (equalR E tin tout) (\<lambda>same. Inr (if same then Some (tin, funding) else None)))"

definition clientUnits :: "client_env \<Rightarrow> string \<Rightarrow> nat \<Rightarrow> int" where
  "clientUnits V value decimals =
     (if js_trim value = [] then 0
      else case parseUnits (ceBackend V) (js_trim value) decimals of None \<Rightarrow> 0 | Some n \<Rightarrow> n)"

record recipient_draft =
  rdAddress :: string
  rdAmount :: string
  rdToken :: string

definition groupFeeInclusiveAmount :: "client_env \<Rightarrow> recipient_draft list \<Rightarrow> nat \<Rightarrow> int \<Rightarrow> int" where
  "groupFeeInclusiveAmount V rs decimals feeBps =
     fold (\<lambda>r batchTotal. let n = clientUnits V (rdAmount r) decimals in
        if n \<le> 0 then batchTotal else batchTotal + (n + n * feeBps div 10000)) rs 0"

section \<open>Route\<close>

datatype payroll_route = Direct_route | Atomic_route | Cross_disabled_route

definition resolvePayrollRoutePolicy :: "string \<Rightarrow> string list \<Rightarrow> bool \<Rightarrow> payroll_route" where
  "resolvePayrollRoutePolicy source targets enabled =
     (if \<not> list_ex (\<lambda>t. toLowerCase t \<noteq> toLowerCase source) targets then Direct_route
      else if \<not> enabled then Cross_disabled_route else Atomic_route)"

text \<open>What the run asks of the route: whether cross-token payments are blocked, and whether a quote is needed and ready.\<close>

record payroll_gate =
  pgBlocked :: bool
  pgQuoteRequired :: bool
  pgQuoteReady :: bool

definition payrollGate :: "payroll_route \<Rightarrow> bool \<Rightarrow> bool \<Rightarrow> payroll_gate" where
  "payrollGate policy available executable =
     (let blocked = (policy = Cross_disabled_route \<or> policy = Atomic_route \<and> (\<not> available \<or> \<not> executable)) in
      \<lparr>pgBlocked = blocked, pgQuoteRequired = (policy = Atomic_route),
       pgQuoteReady = (policy \<noteq> Atomic_route \<or> \<not> blocked)\<rparr>)"

section \<open>Approvals\<close>

text \<open>The token the payroll is paid from and what the screen last read of it.\<close>

record payroll_view =
  vwToken :: token_config
  vwAllowance :: int
  vwBalance :: int
  vwFeeBps :: int

abbreviation vwTokenIn :: "payroll_view \<Rightarrow> string" where
  "vwTokenIn W \<equiv> tkAddress (vwToken W)"

definition MAX_CONFIRMATION_POLLS :: nat where
  "MAX_CONFIRMATION_POLLS = 20"

definition requireWizPayAddress :: "client_env \<Rightarrow> string res" where
  "requireWizPayAddress V = fromSome (CLIENT_ERROR ''WizPay is unavailable on the selected Arc network.'') (ceContract V)"

definition buildPayrollApprovalReference :: "string \<Rightarrow> string res" where
  "buildPayrollApprovalReference ref =
     bindR (ensureR (js_trim ref \<noteq> []) (CLIENT_ERROR ''Reference ID is required'')) (\<lambda>_.
     let r = js_trim ref @ '':approval'' in
     bindR (ensureR (length r \<le> 160) (CLIENT_ERROR ''Reference ID must be 160 characters or less.'')) (\<lambda>_. Inr r))"

definition readAllowance :: "client_env \<Rightarrow> payroll_view \<Rightarrow> string \<Rightarrow> (client, int) op" where
  "readAllowance V W spender = outside V (\<lambda>n. ceAllowance V n (vwTokenIn W) (the (ceAddress V)) spender)"

fun pollAllowance :: "client_env \<Rightarrow> payroll_view \<Rightarrow> string \<Rightarrow> int \<Rightarrow> nat \<Rightarrow> (client, unit) op" where
  "pollAllowance V W spender required 0 = throw (CLIENT_ERROR ''the allowance did not refresh'')"
| "pollAllowance V W spender required (Suc n) =
     andThen (readAllowance V W spender) (\<lambda>a.
     if required \<le> a then ok () else pollAllowance V W spender required n)"

definition waitForAllowanceUpdate :: "client_env \<Rightarrow> payroll_view \<Rightarrow> int \<Rightarrow> string \<Rightarrow> (client, unit) op" where
  "waitForAllowanceUpdate V W required hash =
     andThen (ensure (cePublicClient V) (CLIENT_ERROR ''Arc public client is not ready yet.'')) (\<lambda>_.
     andThen (ensure (truthy (ceAddress V) \<and> truthy (ceContract V)) (CLIENT_ERROR ''wallet and spender are required'')) (\<lambda>_.
     andThen (if hash \<noteq> [] then andThen (outside V (\<lambda>n. ceReceiptStatus V n hash)) (\<lambda>_. ok ()) else ok ()) (\<lambda>_.
     pollAllowance V W (the (ceContract V)) required MAX_CONFIRMATION_POLLS)))"

definition approvalInput :: "client_env \<Rightarrow> payroll_view \<Rightarrow> string \<Rightarrow> int \<Rightarrow> string \<Rightarrow> acquire_input" where
  "approvalInput V W contract amount reference =
     \<lparr>inNetwork = ''arc-mainnet'', inOperation = OP_TOKEN_APPROVAL, inOwnerId = None, inSourceWallet = the (ceAddress V),
      inRecipient = Some contract, inBatchDigest = None, inTokenIn = vwTokenIn W, inTokenOut = vwTokenIn W,
      inAmountUnits = show_int amount, inExternalReference = reference, inTaskId = None\<rparr>"

text \<open>Both places that approve do it in these steps.\<close>

definition approveSpender :: "client_env \<Rightarrow> payroll_view \<Rightarrow> int \<Rightarrow> string \<Rightarrow> (client, string) op" where
  "approveSpender V W amount reference =
     andThen (lift (requireWizPayAddress V)) (\<lambda>contract.
     andThen (acquireExecutionIntent V (approvalInput V W contract amount reference)) (\<lambda>r.
     andThen (executeTransaction V (\<lambda>_. ok ())
        \<lparr>exTo = vwTokenIn W, exCall = Approve_call contract amount, exValue = 0, exIntent = Some (intentId r),
         exKey = Some (idempotencyKey r)\<rparr>) (\<lambda>x.
     andThen (if erHash x \<noteq> [] \<and> truthy (erLease x)
        then andThen (bindExecutionIntentTransactionHash V (intentId r) (erHash x) (idempotencyKey r) (erLease x)) (\<lambda>_. ok ())
        else ok ()) (\<lambda>_.
     andThen (waitForAllowanceUpdate V W amount (erHash x)) (\<lambda>_.
     ok (erHash x))))))"

definition requestApproval :: "client_env \<Rightarrow> payroll_view \<Rightarrow> int \<Rightarrow> string \<Rightarrow> (client, string res) op" where
  "requestApproval V W amount reference =
     (if \<not> truthy (ceAddress V) then ok (Inl (CLIENT_ERROR ''Connect the active wallet before approving payroll.''))
      else if \<not> cePublicClient V then ok (Inl (CLIENT_ERROR ''Arc public client is not ready yet.''))
      else attempting
        (andThen (lift (buildPayrollApprovalReference reference)) (\<lambda>r. approveSpender V W amount r)))"

section \<open>One batch\<close>

record prepared_recipient =
  pcAddress :: string
  pcUnits :: int
  pcToken :: string
  pcValid :: bool

definition tokenOf :: "client_env \<Rightarrow> string \<Rightarrow> token_config res" where
  "tokenOf V symbol = fromSome (PlainError ''TypeError'') (ceTokens V symbol)"

definition prepareRecipient :: "client_env \<Rightarrow> recipient_draft \<Rightarrow> prepared_recipient res" where
  "prepareRecipient V r =
     (let trimmed = js_trim (rdAddress r); normalized = normalAddress (ceEvm V) (Some (rdAddress r)) in
      bindR (tokenOf V (rdToken r)) (\<lambda>t.
      Inr \<lparr>pcAddress = (case normalized of None \<Rightarrow> trimmed | Some a \<Rightarrow> a), pcUnits = clientUnits V (rdAmount r) (tkDecimals t),
           pcToken = rdToken r, pcValid = (normalized \<noteq> None)\<rparr>))"

definition prepareBatchRecipients :: "client_env \<Rightarrow> recipient_draft list \<Rightarrow> prepared_recipient list res" where
  "prepareBatchRecipients V rs = mapR (prepareRecipient V) rs"

text \<open>What the screen read is read again when it does not suffice; a read that fails leaves the old value.\<close>

definition latestFunds :: "client_env \<Rightarrow> payroll_view \<Rightarrow> int \<Rightarrow> (client, int \<times> int) op" where
  "latestFunds V W batchTotal =
     (if vwAllowance W < batchTotal \<or> vwBalance W < batchTotal
      then andThen (moment V) (\<lambda>n.
        let a = ceAllowance V n (vwTokenIn W) (the (ceAddress V)) (the (ceContract V));
            b = ceBalance V n (vwTokenIn W) (the (ceAddress V))
        in ok (case a of None \<Rightarrow> vwAllowance W | Some v \<Rightarrow> v, case b of None \<Rightarrow> vwBalance W | Some v \<Rightarrow> v))
      else ok (vwAllowance W, vwBalance W))"

record funding_terms =
  ftFunding :: int
  ftAllowance :: int
  ftMinOut :: int
  ftMinHop :: int
  ftDeadline :: int

definition tenMinutes :: "client_env \<Rightarrow> (client, int) op" where
  "tenMinutes V = query (\<lambda>w. ceNow V (clTick w) div 1000 + 600)"

text \<open>The approval of the input of a cross-token payroll in EURC.\<close>

definition crossAllowance :: "client_env \<Rightarrow> payroll_view \<Rightarrow> string \<Rightarrow> int \<Rightarrow> string \<Rightarrow> (client, int) op" where
  "crossAllowance V W spender funding reference =
     andThen (readAllowance V W spender) (\<lambda>a.
     if funding \<le> a then ok a
     else
       andThen (lift (buildPayrollApprovalReference reference)) (\<lambda>base.
       let r = base @ '':'' @ show_int funding in
       andThen (ensure (length r \<le> 160) (CLIENT_ERROR ''Reference ID must be 160 characters or less.'')) (\<lambda>_.
       andThen (approveSpender V W funding r) (\<lambda>_.
       andThen (readAllowance V W spender) (\<lambda>b.
       andThen (ensure (funding \<le> b) (CLIENT_ERROR ''Approval did not reach quoted funding'')) (\<lambda>_.
       ok b))))))"

definition crossFunding ::
  "client_env \<Rightarrow> payroll_view \<Rightarrow> string \<Rightarrow> string \<Rightarrow> int list \<Rightarrow> int \<Rightarrow> int \<Rightarrow> string \<Rightarrow> (client, funding_terms) op" where
  "crossFunding V W spender tout amounts allowance balance reference =
     andThen (outside V (\<lambda>n. ceQuote V n (vwTokenIn W) tout (sum_list amounts))) (\<lambda>q.
     andThen (query (\<lambda>w. ceNow V (clTick w))) (\<lambda>now.
     andThen (ensure (case pqExpires q of None \<Rightarrow> False | Some t \<Rightarrow> now \<le> t) (CLIENT_ERROR ''Cross-token payroll quote expired.'')) (\<lambda>_.
     andThen (lift (toBigInt (pqGross q))) (\<lambda>funding.
     andThen (lift (toBigInt (pqMinOut q))) (\<lambda>minOut.
     andThen (lift (toBigInt (pqMinHop q))) (\<lambda>minHop.
     andThen (tenMinutes V) (\<lambda>deadline.
     andThen (ensure (funding \<le> balance) (CLIENT_ERROR ''Insufficient balance'')) (\<lambda>_.
     andThen (lift (tokenOf V ''USDC'')) (\<lambda>usdc.
     andThen (lift (equalR (ceEvm V) (vwTokenIn W) (tkAddress usdc))) (\<lambda>native.
     andThen (if native then ok allowance else crossAllowance V W spender funding reference) (\<lambda>a.
     ok \<lparr>ftFunding = funding, ftAllowance = a, ftMinOut = minOut, ftMinHop = minHop, ftDeadline = deadline\<rparr>)))))))))))"

definition payrollCall ::
  "payroll_view \<Rightarrow> string \<Rightarrow> bool \<Rightarrow> prepared_recipient list \<Rightarrow> funding_terms \<Rightarrow> string \<Rightarrow> signed_call" where
  "payrollCall W tout same rs f reference =
     (if same then Same_payroll_call (vwTokenIn W) (map pcAddress rs) (map pcUnits rs) reference
      else Cross_payroll_call (vwTokenIn W) tout (map pcAddress rs) (map pcUnits rs) (ftFunding f) (ftMinOut f) (ftMinHop f)
        (ftDeadline f) reference)"

definition submitPayroll ::
  "client_env \<Rightarrow> payroll_view \<Rightarrow> string \<Rightarrow> prepared_recipient list \<Rightarrow> string \<Rightarrow> bool \<Rightarrow> int \<Rightarrow> int \<Rightarrow> string \<Rightarrow> string \<Rightarrow>
     string \<Rightarrow> (client, string) op" where
  "submitPayroll V W contract rs tout same allowance balance reference i key =
     andThen (if same
        then andThen (lift (sameTokenFunding (map pcUnits rs) (vwFeeBps W))) (\<lambda>funding.
          ok \<lparr>ftFunding = funding, ftAllowance = allowance, ftMinOut = 0, ftMinHop = 0, ftDeadline = 0\<rparr>)
        else crossFunding V W contract tout (map pcUnits rs) allowance balance reference) (\<lambda>f.
     andThen (lift (payrollApprovalTarget (ceEvm V) (vwTokenIn W) tout (ftFunding f))) (\<lambda>approval.
     andThen (ensure (case approval of None \<Rightarrow> True | Some (_, a) \<Rightarrow> a \<le> ftAllowance f)
        (CLIENT_ERROR ''Approve before submitting this payroll batch.'')) (\<lambda>_.
     andThen (lift (if same then Inr 0 else nativePayrollValue (ceEvm V) (vwTokenIn W) (ftFunding f))) (\<lambda>value.
     andThen (executeTransaction V (\<lambda>_. ok ())
        \<lparr>exTo = contract, exCall = payrollCall W tout same rs f reference, exValue = value, exIntent = Some i,
         exKey = Some key\<rparr>) (\<lambda>x.
     andThen (if i \<noteq> [] \<and> erHash x \<noteq> [] \<and> truthy (erLease x)
        then andThen (bindExecutionIntentTransactionHash V i (erHash x) key (erLease x)) (\<lambda>_. ok ())
        else ok ()) (\<lambda>_.
     ok (erHash x)))))))"

text \<open>The result is the hash or the reason why nothing is known to be sent.\<close>

definition handleSubmit ::
  "client_env \<Rightarrow> payroll_view \<Rightarrow> recipient_draft list \<Rightarrow> string \<Rightarrow> string \<Rightarrow> string \<Rightarrow> (client, string res) op" where
  "handleSubmit V W drafts ref i key =
     (if \<not> truthy (ceAddress V) then ok (Inl (CLIENT_ERROR ''Connect the active wallet before sending payroll.''))
      else if \<not> cePublicClient V then ok (Inl (CLIENT_ERROR ''Arc public client is not ready yet.''))
      else
        andThen (lift (requireWizPayAddress V)) (\<lambda>contract.
        andThen (lift (prepareBatchRecipients V drafts)) (\<lambda>rs.
        let batchTotal = sum_list (map pcUnits rs) in
        if rs = [] \<or> batchTotal = 0 \<or> \<not> list_all pcValid rs then ok (Inl (CLIENT_ERROR ''Review every payroll recipient''))
        else
          andThen (latestFunds V W batchTotal) (\<lambda>(allowance, balance).
          andThen (lift (mapR (\<lambda>r. bindR (tokenOf V (pcToken r)) (\<lambda>t. Inr (tkAddress t))) rs)) (\<lambda>outs.
          let same = (toLowerCase (hd outs) = toLowerCase (vwTokenIn W)) in
          if length (remdups (map toLowerCase outs)) \<noteq> 1 then ok (Inl (CLIENT_ERROR ''homogeneous destination token group''))
          else if same \<and> balance < batchTotal then ok (Inl (CLIENT_ERROR ''Insufficient balance''))
          else if same \<and> allowance < batchTotal then ok (Inl (CLIENT_ERROR ''Approve before submitting this payroll batch.''))
          else attempting
            (submitPayroll V W contract rs (hd outs) same allowance balance (js_trim ref) i key))))))"

section \<open>The ledger of batches\<close>

definition getRecoveredPayrollBatch :: "client_env \<Rightarrow> string \<Rightarrow> (client, string option) op" where
  "getRecoveredPayrollBatch V ref =
     andThen (query (\<lambda>w. clBatches w ref)) (\<lambda>stored.
     case stored of None \<Rightarrow> ok None
     | Some b \<Rightarrow> (case sbHash b of None \<Rightarrow> ok None
       | Some h \<Rightarrow>
           if \<not> is_hash h then ok None
           else
             andThen (ensure (cePublicClient V) (CLIENT_ERROR ''public client is not ready to verify payroll recovery'')) (\<lambda>_.
             andThen (outside V (\<lambda>n. ceReceiptStatus V n h)) (\<lambda>success.
             ok (if success then Some h else None)))))"

definition store_batch :: "string \<Rightarrow> stored_batch option \<Rightarrow> (client, unit) op" where
  "store_batch ref b w = (Inr (), w\<lparr>clBatches := (clBatches w)(ref := b)\<rparr>)"

definition recordPayrollBatchConfirmation :: "client_env \<Rightarrow> string \<Rightarrow> string \<Rightarrow> (client, unit) op" where
  "recordPayrollBatchConfirmation V ref h =
     andThen (ensure (is_hash h) (CLIENT_ERROR ''Payroll transaction hash is invalid.'')) (\<lambda>_.
     andThen (ensure (cePublicClient V) (CLIENT_ERROR ''public client is not ready to confirm payroll'')) (\<lambda>_.
     andThen (outside V (\<lambda>n. ceReceiptStatus V n h)) (\<lambda>success.
     andThen (ensure success (CLIENT_ERROR ''Payroll batch transaction reverted on Arc Mainnet.'')) (\<lambda>_.
     store_batch ref (Some \<lparr>sbStatus = Batch_confirmed, sbHash = Some h\<rparr>)))))"

definition beginPayrollBatchSubmission :: "string \<Rightarrow> (client, unit) op" where
  "beginPayrollBatchSubmission ref =
     andThen (query (\<lambda>w. clBatches w ref)) (\<lambda>stored.
     case stored of Some _ \<Rightarrow> ok () | None \<Rightarrow> store_batch ref (Some \<lparr>sbStatus = Batch_submitted, sbHash = None\<rparr>))"

definition clearPayrollBatchSubmission :: "string \<Rightarrow> (client, unit) op" where
  "clearPayrollBatchSubmission ref = store_batch ref None"

section \<open>A unit of the plan\<close>

text \<open>\<open>v ?? fallback\<close>.\<close>

definition nullish :: "js \<Rightarrow> string \<Rightarrow> string" where
  "nullish v fallback = (if v = JUndefined \<or> v = JNull then fallback else js_string v)"

definition executionContext :: "task_unit \<Rightarrow> payroll_result \<Rightarrow> (string \<times> string) res" where
  "executionContext u plan =
     (let i = nullish (js_get ''executionIntentId'' (unitPayload u)) (prIntentId plan);
          key = nullish (js_get ''idempotencyKey'' (unitPayload u)) (prIdempotencyKey plan) in
      bindR (ensureR (i \<noteq> [] \<and> key \<noteq> []) (CLIENT_ERROR ''Durable payroll execution intent is unavailable.'')) (\<lambda>_. Inr (i, key)))"

definition resumablePayrollUnit :: "payroll_result \<Rightarrow> task_unit option" where
  "resumablePayrollUnit plan =
     (case find (\<lambda>u. unitStatus u = UNIT_PENDING) (prUnits plan) of
        None \<Rightarrow> None
      | Some u \<Rightarrow>
          (let st = js_get ''executionIntentStatus'' (unitPayload u) in
           if \<not> js_truthy st \<or> st = JStr ''CREATED'' \<or> st = JStr ''FAILED_RETRYABLE'' then Some u else None))"

definition draftOf :: "js \<Rightarrow> recipient_draft res" where
  "draftOf r =
     (case (js_get ''address'' r, js_get ''amount'' r, js_get ''targetToken'' r) of
        (JStr a, JStr n, JStr t) \<Rightarrow> Inr \<lparr>rdAddress = a, rdAmount = n, rdToken = t\<rparr>
      | _ \<Rightarrow> Inl (PlainError ''TypeError''))"

definition toRecipientDraftBatch :: "task_unit \<Rightarrow> recipient_draft list res" where
  "toRecipientDraftBatch u = mapR draftOf (js_items (js_get ''recipients'' (unitPayload u)))"

definition unitReference :: "task_unit \<Rightarrow> payroll_result \<Rightarrow> string" where
  "unitReference u plan = (case js_get ''referenceId'' (unitPayload u) of JStr s \<Rightarrow> s | _ \<Rightarrow> prReference plan)"

definition sendUnit :: "client_env \<Rightarrow> payroll_view \<Rightarrow> task_unit \<Rightarrow> string \<Rightarrow> string \<Rightarrow> string \<Rightarrow> string option \<Rightarrow> (client, string res) op" where
  "sendUnit V W u ref i key recovered =
     (case recovered of Some h \<Rightarrow> ok (Inr h)
      | None \<Rightarrow>
          andThen (beginPayrollBatchSubmission ref) (\<lambda>_.
          andThen (lift (toRecipientDraftBatch u)) (\<lambda>drafts.
          handleSubmit V W drafts ref i key)))"

definition keepRecord :: "client_env \<Rightarrow> string \<Rightarrow> string option \<Rightarrow> string res \<Rightarrow> (client, unit) op" where
  "keepRecord V ref recovered result =
     (case (recovered, result) of
        (None, Inl _) \<Rightarrow> clearPayrollBatchSubmission ref
      | (None, Inr h) \<Rightarrow>
          andThen (ensure (h \<noteq> []) (CLIENT_ERROR ''Confirmed external wallet payroll batch is missing its transaction hash.'')) (\<lambda>_.
          recordPayrollBatchConfirmation V ref h)
      | _ \<Rightarrow> ok ())"

definition unitReport :: "client_env \<Rightarrow> string res \<Rightarrow> unit_report" where
  "unitReport V result =
     (case result of Inr h \<Rightarrow> report UNIT_SUCCESS (Some (Some h)) None
      | Inl e \<Rightarrow> report UNIT_FAILED None (Some (Some (message_of (ceBackend V) e))))"

definition runUnit ::
  "client_env \<Rightarrow> payroll_view \<Rightarrow> payroll_result \<Rightarrow> task_unit \<Rightarrow> (client, task_unit option \<times> string list) op" where
  "runUnit V W plan u =
     andThen (lift (executionContext u plan)) (\<lambda>(i, key).
     let ref = unitReference u plan in
     andThen (getRecoveredPayrollBatch V ref) (\<lambda>recovered.
     andThen (sendUnit V W u ref i key recovered) (\<lambda>result.
     andThen (case result of
         Inr h \<Rightarrow> if h \<noteq> [] then andThen (bindExecutionIntentTransactionHash V i h key None) (\<lambda>_. ok ()) else ok ()
       | Inl _ \<Rightarrow> ok ()) (\<lambda>_.
     andThen (keepRecord V ref recovered result) (\<lambda>_.
     andThen (backendFetch V (\<lambda>n. reportTaskUnit (ceBackend V) (ceNow V n) (prTaskId plan) (unitId u) (unitReport V result)
        (case result of Inr _ \<Rightarrow> Some i | Inl _ \<Rightarrow> None))) (\<lambda>y.
     ok (rrNext y, case result of Inr _ \<Rightarrow> [] | Inl _ \<Rightarrow> [ref])))))))"

text \<open>The loop over the units, with fuel: \<open>None\<close> when the fuel runs out.\<close>

fun runUnits ::
  "client_env \<Rightarrow> payroll_view \<Rightarrow> payroll_result \<Rightarrow> nat \<Rightarrow> task_unit option \<Rightarrow> string list \<Rightarrow> (client, string list option) op" where
  "runUnits V W plan n None failed = ok (Some failed)"
| "runUnits V W plan 0 (Some u) failed = ok None"
| "runUnits V W plan (Suc n) (Some u) failed =
     andThen (runUnit V W plan u) (\<lambda>(next, refs). runUnits V W plan n next (failed @ refs))"

section \<open>The run\<close>

datatype run_end = Run_blocked string | Run_not_approved exn | Run_finished "string list" | Run_out_of_fuel

definition initPayload ::
  "client_env \<Rightarrow> payroll_view \<Rightarrow> string \<Rightarrow> string \<Rightarrow> recipient_draft list \<Rightarrow> js res" where
  "initPayload V W groupRef ref rs =
     bindR (mapR (\<lambda>r. bindR (tokenOf V (rdToken r)) (\<lambda>t.
        Inr (JObj [(''address'', JStr (rdAddress r)), (''amount'', JStr (rdAmount r)), (''targetToken'', JStr (rdToken r)),
          (''targetTokenAddress'', JStr (tkAddress t))]))) rs) (\<lambda>items.
     Inr (JObj [(''sourceToken'', JStr (tkSymbol (vwToken W))), (''sourceTokenAddress'', JStr (vwTokenIn W)),
       (''referenceId'', JStr groupRef), (''runReferenceId'', JStr ref), (''walletAddress'', JStr (the (ceAddress V))),
       (''recipients'', JArr items)]))"

definition initPayroll :: "client_env \<Rightarrow> js \<Rightarrow> (client, payroll_result) op" where
  "initPayroll V payload =
     backendFetch V (\<lambda>n. createPayrollTask (ceBackend V) (ceNow V n) (\<lambda>k. ceFresh V n (2 * k)) (\<lambda>k. ceFresh V n (2 * k + 1))
       (ceMeanwhile V n) payload)"

definition requiredApproval :: "client_env \<Rightarrow> payroll_view \<Rightarrow> recipient_draft list \<Rightarrow> int \<Rightarrow> int" where
  "requiredApproval V W rs hint =
     (let own = groupFeeInclusiveAmount V rs (tkDecimals (vwToken W)) (vwFeeBps W) in if hint < own then own else hint)"

text \<open>One group: the plan, the approval of the whole group, the units.\<close>

definition runGroup ::
  "client_env \<Rightarrow> payroll_view \<Rightarrow> nat \<Rightarrow> string \<Rightarrow> string \<Rightarrow> string \<Rightarrow> recipient_draft list \<Rightarrow> (client, run_end) op" where
  "runGroup V W fuel ref groupRef token rs =
     andThen (lift (initPayload V W groupRef ref rs)) (\<lambda>payload.
     andThen (initPayroll V payload) (\<lambda>plan.
     andThen (lift (toBigInt (prApproval plan))) (\<lambda>hint.
     let required = requiredApproval V W rs hint in
     andThen (if token = tkSymbol (vwToken W) \<and> 0 < required \<and> vwAllowance W < required
        then requestApproval V W required groupRef else ok (Inr [])) (\<lambda>approved.
     case approved of
       Inl e \<Rightarrow> ok (Run_not_approved e)
     | Inr _ \<Rightarrow>
         andThen (runUnits V W plan fuel (resumablePayrollUnit plan) []) (\<lambda>done.
         ok (case done of None \<Rightarrow> Run_out_of_fuel | Some failed \<Rightarrow> Run_finished failed))))))"

fun runGroups ::
  "client_env \<Rightarrow> payroll_view \<Rightarrow> nat \<Rightarrow> string \<Rightarrow> (string \<times> string \<times> recipient_draft list) list \<Rightarrow> string list \<Rightarrow>
     (client, run_end) op" where
  "runGroups V W fuel ref [] failed = ok (Run_finished failed)"
| "runGroups V W fuel ref ((groupRef, token, rs) # gs) failed =
     andThen (runGroup V W fuel ref groupRef token rs) (\<lambda>done.
     case done of Run_finished refs \<Rightarrow> runGroups V W fuel ref gs (failed @ refs) | _ \<Rightarrow> ok done)"

text \<open>
  The groups by target token, the token of the wallet first.  \<open>TokenSymbol\<close> has two values, so that there is
  at most one other group and nothing is left for \<open>localeCompare\<close> to order.
\<close>

definition orderedGroups :: "string \<Rightarrow> recipient_draft list \<Rightarrow> (string \<times> recipient_draft list) list" where
  "orderedGroups active rs =
     map (\<lambda>t. (t, filter (\<lambda>r. rdToken r = t) rs))
       (filter (\<lambda>t. t \<in> rdToken ` set rs) [active] @ filter (\<lambda>t. t \<noteq> active) (rev (remdups (rev (map rdToken rs)))))"

definition namedGroups :: "string \<Rightarrow> (string \<times> recipient_draft list) list \<Rightarrow> (string \<times> string \<times> recipient_draft list) list" where
  "namedGroups ref gs = map (\<lambda>(t, rs). (if length gs = 1 then ref else ref @ ''-'' @ t, t, rs)) gs"

definition execute ::
  "client_env \<Rightarrow> payroll_view \<Rightarrow> payroll_gate \<Rightarrow> nat \<Rightarrow> string \<Rightarrow> recipient_draft list list \<Rightarrow> (client, run_end) op" where
  "execute V W G fuel ref batches =
     (let active = tkSymbol (vwToken W); rs = concat batches; cross = list_ex (\<lambda>r. rdToken r \<noteq> active) rs in
      if \<not> truthy (ceAddress V) then ok (Run_blocked ''Connect an external wallet'')
      else if js_trim ref = [] then ok (Run_blocked ''Reference ID is required'')
      else if cross \<and> pgBlocked G then ok (Run_blocked ''Cross-token payroll is unavailable on Arc Mainnet.'')
      else if cross \<and> pgQuoteRequired G \<and> \<not> pgQuoteReady G then ok (Run_blocked ''Official payroll route quote unavailable.'')
      else if rs = [] then ok (Run_blocked ''Add at least one payroll recipient before sending.'')
      else runGroups V W fuel ref (namedGroups ref (orderedGroups active rs)) [])"

end
