(* ===== verification/ClientFrame.thy ===== *)
theory ClientFrame
  imports ClientPayroll PayrollTaskProperties
begin

text \<open>
  What every step of a payroll run keeps, the run keeps: a relation between the states before and after that the
  moments, the calls of the backend, the signatures and the ledger respect holds of the whole run.
\<close>

lemma keeps_attempting: "keeps R m \<Longrightarrow> keeps R (attempting m)"
  by (auto simp: keeps_def attempting_def split: prod.splits) (metis snd_conv)

lemma keeps_if_holds: "keeps (\<lambda>w v. P \<longrightarrow> R w v) m \<longleftrightarrow> (P \<longrightarrow> keeps R m)"
  by (auto simp: keeps_def)

text \<open>A call of the backend keeps what the moment before it and the operation keep.\<close>

lemma keeps_fetch:
  assumes "reflp R" "transp R" "keeps R (moment V)" "\<And>n. keeps R (onDatabase (m n))"
  shows "keeps R (backendFetch V m)"
proof -
  have "keeps R (\<lambda>w. (Inl FETCH_FAILED, snd (onDatabase (m n) w)))" for n
    using assms(4) [of n] by (simp add: keeps_def)
  then show ?thesis
    unfolding backendFetch_def
    by (intro keeps_andThen [OF assms(2)] assms(3))
      (auto split: delivery.split intro!: keeps_throw [OF assms(1)] assms(4))
qed

lemma report_settled: "repStatus (unitReport V result) \<noteq> UNIT_PENDING"
  by (simp add: unitReport_def report_def split: sum.split)

locale client_frame =
  fixes R :: "client \<Rightarrow> client \<Rightarrow> bool" and V :: client_env
  assumes frame_refl: "reflp R" and frame_trans: "transp R"
    and frame_moment: "keeps R (moment V)"
    and frame_acquire: "keeps R (acquireExecutionIntent V x)"
    and frame_bind: "keeps R (bindExecutionIntentTransactionHash V i h key owner)"
    and frame_report: "repStatus y \<noteq> UNIT_PENDING \<Longrightarrow>
      keeps R (backendFetch V (\<lambda>n. reportTaskUnit (ceBackend V) (ceNow V n) t uid y iid))"
    and frame_sign: "keeps R (executeTransaction V (\<lambda>_. ok ()) z)"
    and frame_store: "keeps R (store_batch ref b)"
begin

lemmas rules =
  keeps_ok [OF frame_refl] keeps_throw [OF frame_refl] keeps_query [OF frame_refl] keeps_ensure [OF frame_refl]
  keeps_lift [OF frame_refl] keeps_andThen [OF frame_trans] keeps_split

lemma outside: "keeps R (outside V f)"
  unfolding outside_def by (intro rules frame_moment)

lemma poll: "keeps R (pollAllowance V W spender required n)"
  by (induction n) (auto simp: readAllowance_def intro!: rules outside)

lemma wait: "keeps R (waitForAllowanceUpdate V W required h)"
  unfolding waitForAllowanceUpdate_def by (intro rules outside poll)

lemma approve: "keeps R (approveSpender V W amount reference)"
  unfolding approveSpender_def by (intro rules frame_acquire frame_bind frame_sign wait)

lemma approval: "keeps R (requestApproval V W amount reference)"
  unfolding requestApproval_def by (intro rules keeps_attempting approve)

lemma crossFunding: "keeps R (crossFunding V W spender tout amounts allowance balance reference)"
  unfolding crossFunding_def crossAllowance_def readAllowance_def tenMinutes_def Let_def
  by (intro rules outside approve)

lemma submit: "keeps R (handleSubmit V W drafts ref i key)"
  unfolding handleSubmit_def latestFunds_def submitPayroll_def Let_def
  by (intro rules frame_moment keeps_attempting crossFunding frame_sign frame_bind)

text \<open>A unit: the ledger is read, the batch is sent, its hash is bound, the ledger is written.\<close>

lemma unit_steps:
  "keeps R (getRecoveredPayrollBatch V ref)" "keeps R (sendUnit V W u ref i key r)" "keeps R (keepRecord V ref r x)"
  "keeps R (case x of Inl e \<Rightarrow> ok () | Inr h \<Rightarrow>
      if h \<noteq> [] then andThen (bindExecutionIntentTransactionHash V i h key None) (\<lambda>_. ok ()) else ok ())"
proof -
  show "keeps R (getRecoveredPayrollBatch V ref)"
    unfolding getRecoveredPayrollBatch_def by (intro rules outside)
  show "keeps R (sendUnit V W u ref i key r)"
    unfolding sendUnit_def beginPayrollBatchSubmission_def by (intro rules frame_store submit)
  show "keeps R (keepRecord V ref r x)"
    unfolding keepRecord_def recordPayrollBatchConfirmation_def clearPayrollBatchSubmission_def
    by (auto split: option.split sum.split intro!: rules frame_store outside)
  show "keeps R (case x of Inl e \<Rightarrow> ok () | Inr h \<Rightarrow>
      if h \<noteq> [] then andThen (bindExecutionIntentTransactionHash V i h key None) (\<lambda>_. ok ()) else ok ())"
    by (auto split: sum.split intro!: rules frame_bind)
qed

lemma unit: "keeps R (runUnit V W plan u)"
  unfolding runUnit_def Let_def by (intro rules unit_steps frame_report report_settled)

lemma unit_reports:
  assumes "runUnit V W plan u w = (Inr (next, refs), v)"
  obtains s result iid y where "R w s" "backendFetch V (\<lambda>n. reportTaskUnit (ceBackend V) (ceNow V n) (prTaskId plan) (unitId u)
      (unitReport V result) iid) s = (Inr y, v)" "next = rrNext y"
proof -
  obtain i key recovered result a b c s y where steps: "getRecoveredPayrollBatch V (unitReference u plan) w = (Inr recovered, a)"
      "sendUnit V W u (unitReference u plan) i key recovered a = (Inr result, b)"
      "(case result of Inl e \<Rightarrow> ok () | Inr h \<Rightarrow>
          if h \<noteq> [] then andThen (bindExecutionIntentTransactionHash V i h key None) (\<lambda>_. ok ()) else ok ()) b = (Inr (), c)"
      "keepRecord V (unitReference u plan) recovered result c = (Inr (), s)"
      "backendFetch V (\<lambda>n. reportTaskUnit (ceBackend V) (ceNow V n) (prTaskId plan) (unitId u) (unitReport V result)
          (case result of Inr _ \<Rightarrow> Some i | Inl _ \<Rightarrow> None)) s = (Inr y, v)" "next = rrNext y"
    using assms by (auto simp: runUnit_def andThen_Inr_iff Let_def sum.case_eq_if split: prod.splits)
  have "R w a" by (rule keepsD [OF unit_steps(1) steps(1)])
  moreover have "R a b" by (rule keepsD [OF unit_steps(2) steps(2)])
  moreover have "R b c" by (rule keepsD [OF unit_steps(4) steps(3)])
  moreover have "R c s" by (rule keepsD [OF unit_steps(3) steps(4)])
  ultimately have "R w s" using transpD [OF frame_trans] by blast
  then show ?thesis using that steps(5,6) by blast
qed

lemma units: "keeps R (runUnits V W plan n u failed)"
  by (induction n arbitrary: u failed; case_tac u) (auto intro!: rules unit)

end

text \<open>A whole run creates its tasks too.\<close>

locale run_frame = client_frame +
  assumes frame_create: "keeps R (initPayroll V payload)"
begin

lemma group: "keeps R (runGroup V W fuel ref groupRef token rs)"
proof -
  have "keeps R (case x of Inl e \<Rightarrow> ok (Run_not_approved e) | Inr h \<Rightarrow>
      andThen (runUnits V W plan fuel u []) (\<lambda>y. ok (f y)))" for x :: "string res" and plan u f
    by (auto split: sum.split intro!: rules units)
  then show ?thesis
    unfolding runGroup_def Let_def by (intro rules approval frame_create)
qed

lemma groups: "keeps R (runGroups V W fuel ref gs failed)"
proof (induction gs arbitrary: failed)
  case (Cons g gs)
  then show ?case
    by (cases g) (auto intro!: rules group split: run_end.split)
qed (simp add: keeps_ok [OF frame_refl])

lemma run: "keeps R (execute V W G fuel ref batches)"
  unfolding execute_def Let_def by (intro rules groups)

end

end
