(* ===== verification/ClientSigning.thy ===== *)
theory ClientSigning
  imports ClientFrame
begin

text \<open>
  The wallet is asked to sign an intent at most once, whatever clients run at the same time.  An intent that was
  once handed to a wallet (\<open>asked\<close>) never becomes signable again: every statement of the backend keeps this
  (\<open>signing_safe\<close>).  A client shows the wallet only intents it made asked itself (\<open>fair\<close>), which is at once the
  guarantee of every client operation and what it relies on from the others.
\<close>

section \<open>Intents that were handed out\<close>

definition asked :: "intent \<Rightarrow> bool" where
  "asked r \<longleftrightarrow> status r \<noteq> CREATED \<and> status r \<noteq> FAILED_RETRYABLE"

definition stays_asked :: "intent \<Rightarrow> intent \<Rightarrow> bool" where
  "stays_asked r q \<longleftrightarrow> intentId q = intentId r \<and> (asked r \<longrightarrow> asked q)"

interpretation asked_rows: row_evolution intentId stays_asked
  by unfold_locales (auto simp: stays_asked_def)

definition signing_safe :: "db \<Rightarrow> db \<Rightarrow> bool" where
  "signing_safe s t \<longleftrightarrow> table_evolves stays_asked (intents s) (intents t) \<and>
     (intents_unique (intents s) \<longrightarrow> intents_unique (intents t))"

lemma kept_refl: "reflp signing_safe"
  using asked_rows.table_refl by (simp add: reflp_def signing_safe_def)

lemma kept_trans: "transp signing_safe"
  using asked_rows.table_trans unfolding transp_def signing_safe_def by blast

lemmas kept_rules =
  keeps_ok [OF kept_refl] keeps_throw [OF kept_refl] keeps_query [OF kept_refl] keeps_ensure [OF kept_refl]
  keeps_lift [OF kept_refl] keeps_andThen [OF kept_trans] keeps_catching [OF kept_trans]
  keeps_transaction [OF kept_refl] keeps_split

lemma kept_update: "(\<And>r. p r \<Longrightarrow> stays_asked r (f r)) \<Longrightarrow> keeps signing_safe (updateIntents p f)"
  by (rule keepsI) (auto simp: updateIntents_eq signing_safe_def intro: asked_rows.table_update
      reflpD [OF asked_rows.table_refl] split: if_splits)

lemma kept_create: "keeps signing_safe (onIntents (insertUnique intents_unique (newIntent i c)))"
  by (rule keepsI) (auto simp: onIntents_def insertUnique_def signing_safe_def intro: asked_rows.table_append
      reflpD [OF asked_rows.table_refl] split: if_splits)

lemma kept_same: "keeps same_intents m \<Longrightarrow> keeps signing_safe m"
  using reflpD [OF kept_refl] by (auto simp: keeps_def same_intents_def signing_safe_def)

section \<open>The backend\<close>

lemma kept_find: "keeps signing_safe (findIntent p)"
  unfolding findIntent_def by (intro kept_rules)

lemma kept_get: "keeps signing_safe (getIntent R i)" "keeps signing_safe (assertSelectedNetwork R r)"
  unfolding getIntent_def assertSelectedNetwork_def by (intro kept_rules kept_find)+

lemma kept_access: "keeps signing_safe (assertAccess R i key)"
  unfolding assertAccess_def by (intro kept_rules kept_get)

lemma kept_undisturbed: "keeps signing_safe (interfere id)" "keeps signing_safe (interfere (before undisturbed))"
    "keeps signing_safe (interfere (after undisturbed))"
  using reflpD [OF kept_refl] by (simp_all add: keeps_def interfere_def undisturbed_def)

lemma kept_acquire: "keeps signing_safe (acquire E R now fresh (\<lambda>_. undisturbed) x)"
proof -
  have "keeps signing_safe (acquireTx E R now fr c)" for fr c
    unfolding acquireTx_def by (intro kept_rules kept_find kept_create)
  then have "keeps signing_safe (acquireLoop E R now fr c (replicate n undisturbed))" for fr c n
    by (induction n) (auto intro!: kept_rules kept_find kept_undisturbed)
  from this [where n = 3] show ?thesis
    unfolding acquire_def by (intro kept_rules kept_get) (simp add: numeral_3_eq_3)
qed

lemma kept_transition:
  assumes "nxt \<noteq> CREATED" "nxt \<noteq> FAILED_RETRYABLE"
  shows "keeps signing_safe (transition R now i expected nxt d)"
  unfolding transition_def using assms
  by (intro kept_rules kept_get kept_update) (auto simp: stays_asked_def asked_def apply_data_def)

lemma kept_lease: "keeps signing_safe (acquireLease R now i owner ttl)" "keeps signing_safe (assertLease R now i l)"
    "keeps signing_safe (attachTask R i t)" "keeps signing_safe (cancelUnsubmitted R i key)"
  unfolding acquireLease_def assertLease_def attachTask_def cancelUnsubmitted_def
  by (intro kept_rules kept_get kept_access kept_update; simp add: stays_asked_def asked_def)+

lemma kept_begin: "keeps signing_safe (beginVerification R now i)"
  unfolding beginVerification_def by (intro kept_rules kept_get kept_transition) simp_all

lemma kept_prepare: "keeps signing_safe (prepareWalletSignature R now i key owner ttl)"
  unfolding prepareWalletSignature_def by (intro kept_rules kept_get kept_access kept_lease kept_transition) simp_all

lemma kept_bindAttempt: "keeps signing_safe (bindHashAttempt R now id i h owner recovery)"
  unfolding bindHashAttempt_def Let_def
  by (intro kept_rules kept_get kept_lease kept_undisturbed kept_update) (simp add: stays_asked_def asked_def)

lemma kept_bind:
  "bindTransactionHash R now (\<lambda>_. id) n i h owner recovery s = Some (r, t) \<Longrightarrow> signing_safe s t"
proof (induction n arbitrary: h s)
  case (Suc n)
  obtain a u where a: "bindHashAttempt R now id i h owner recovery s = (a, u)" by fastforce
  have "signing_safe s u" by (rule keepsD [OF kept_bindAttempt a])
  then show ?case using Suc a [unfolded id_def] transpD [OF kept_trans] by (auto simp: id_def split: sum.splits option.splits)
qed simp

lemma kept_bindOp: "keeps signing_safe (bindHashOp R now i h owner recovery)"
proof (rule keepsI)
  fix s r t
  assume "bindHashOp R now i h owner recovery s = (r, t)"
  then show "signing_safe s t"
    using kept_bind reflpD [OF kept_refl] by (auto simp: bindHashOp_def split: option.splits)
qed

lemma kept_binds: "keeps signing_safe (bindHashEndpoint R now i key h owner)"
    "keeps signing_safe (bindKnownTransactionHash R now i key h)"
  unfolding bindHashEndpoint_def bindKnownTransactionHash_def
  by (intro kept_rules kept_get kept_access kept_bindOp)+

lemma kept_complete: "keeps signing_safe (completeWithVerifiedReceipt E R now i rc)"
  unfolding completeWithVerifiedReceipt_def by (intro kept_rules kept_get kept_transition) simp_all

lemma kept_verify: "keeps signing_safe (verifyEndpoint E R now verify i key)"
  unfolding verifyEndpoint_def by (intro kept_rules kept_access kept_begin kept_complete)

lemma kept_confirm: "keeps signing_safe (confirmUnit V now i uid h iid)"
  unfolding confirmUnit_def Let_def getTaskById_def
  by (intro kept_rules kept_same [OF same_read(1)] kept_get kept_bindOp kept_begin kept_complete)

lemma kept_report: "keeps signing_safe (reportTaskUnit V now i uid x iid)"
  unfolding reportTaskUnit_def by (intro kept_rules kept_confirm kept_same [OF same_report])

lemma kept_branching:
  "keeps signing_safe m \<Longrightarrow> (\<And>e. keeps signing_safe (h e)) \<Longrightarrow> (\<And>x. keeps signing_safe (f x)) \<Longrightarrow>
   keeps signing_safe (branching m h f)"
  using transpD [OF kept_trans] by (auto simp: keeps_def branching_def split: prod.splits sum.splits) (metis snd_conv)+

lemma kept_each: "(\<And>m. m \<in> set ms \<Longrightarrow> keeps signing_safe m) \<Longrightarrow> keeps signing_safe (runEach ms)"
  by (induction ms) (auto intro!: kept_rules)

lemma kept_all: "(\<And>m. m \<in> set ms \<Longrightarrow> keeps signing_safe m) \<Longrightarrow> keeps signing_safe (runAll ms)"
proof (induction ms)
  case (Cons m ms)
  show ?case
  proof (rule keepsI)
    fix s r t
    assume run: "runAll (m # ms) s = (r, t)"
    obtain a u where a: "m s = (a, u)" by fastforce
    obtain as w where as: "runAll ms u = (as, w)" by fastforce
    have "signing_safe s u" "signing_safe u w" using Cons keepsD a as by fastforce+
    then show "signing_safe s t" using run a as transpD [OF kept_trans] by auto
  qed
qed (simp add: keeps_def reflpD [OF kept_refl])

lemma kept_fail: "keeps signing_safe (failUnit V now i uid r e)"
  unfolding failUnit_def by (intro kept_rules kept_transition kept_same [OF same_report]) simp_all

lemma kept_settle: "keeps signing_safe (settleUnit V now i uid b h r)"
  unfolding settleUnit_def by (intro kept_rules kept_complete kept_same [OF same_report] kept_fail)

lemma kept_reconcile: "keeps signing_safe (reconcilePayrollIntents V now d plans batches)"
proof -
  have unit: "keeps signing_safe (reconcileUnit V now i uid b plan)" for i uid b plan
    unfolding reconcileUnit_def Let_def
    by (intro kept_rules kept_branching kept_get kept_begin kept_settle kept_fail kept_same [OF same_report])
  show ?thesis
    unfolding reconcilePayrollIntents_def Let_def
    by (intro kept_rules kept_each kept_all kept_same [OF same_read(2)])
      (auto intro!: kept_rules unit kept_get kept_same [OF same_updates(2)])
qed

lemma kept_batches: "keeps signing_safe (acquireBatches V now fresh owner source ref bs)"
proof (rule keepsI)
  fix s r t
  assume "acquireBatches V now fresh owner source ref bs s = (r, t)"
  then show "signing_safe s t"
  proof (induction bs arbitrary: s r t)
    case (Cons b bs)
    show ?case
    proof (cases "digestOf (pyEvm V) b")
      case (Inr digest)
      obtain a u where a: "acquire (pyEvm V) (pyRouting V) now (fresh (bIndex b)) (\<lambda>_. undisturbed)
          (planInput V owner source ref b digest) s = (a, u)" by fastforce
      obtain as w where as: "acquireBatches V now fresh owner source ref bs u = (as, w)" by fastforce
      have "signing_safe s u" "signing_safe u w" using keepsD [OF kept_acquire a] Cons.IH [OF as] by blast+
      then show ?thesis using Cons.prems Inr a as transpD [OF kept_trans] by auto
    qed (use Cons.prems reflpD [OF kept_refl] in simp)
  qed (use reflpD [OF kept_refl] in simp)
qed

lemma kept_create_payroll:
  assumes "\<And>d. signing_safe d (others d)"
  shows "keeps signing_safe (createPayrollTask V now freshIntent freshUnit others payload)"
proof -
  have "keeps signing_safe (interfere others)" using assms by (simp add: keeps_def interfere_def)
  moreover have "keeps signing_safe (runAll (map (\<lambda>p. attachTask R (intentId p) i) ps))" for R i ps
    by (rule kept_all) (auto intro: kept_lease)
  ultimately show ?thesis
    unfolding createPayrollTask_def Let_def
    by (intro kept_rules kept_batches kept_reconcile kept_same [OF same_insertPayroll])
qed

text \<open>Any call of the backend; a bare transition back to a signable status is not one.\<close>

lemma kept_bindings: "keeps signing_safe (bindImmutableExecutionContext E R i x)"
    "keeps signing_safe (bindCircleCorrelation R i ch tx)"
  unfolding bindImmutableExecutionContext_def bindCircleCorrelation_def
  by (intro kept_rules kept_get kept_update; simp add: stays_asked_def asked_def)+

fun served_call :: "service_call \<Rightarrow> bool" where
  "served_call (On_intents now (Transition i a b d)) \<longleftrightarrow> b \<noteq> CREATED \<and> b \<noteq> FAILED_RETRYABLE"
| "served_call c \<longleftrightarrow> True"

lemma kept_intent_call: "served_call (On_intents now c) \<Longrightarrow> signing_safe s (call E R W (now, c) s)"
proof (cases c)
  case (Transition i a b d)
  moreover assume "served_call (On_intents now c)"
  ultimately show ?thesis
    using reflpD [OF kept_refl] by (cases "b = COMPLETED") (simp_all add: keeps_outcome kept_transition)
qed (auto intro!: keeps_outcome kept_acquire kept_begin kept_lease kept_prepare kept_bindings kept_binds kept_complete kept_verify)

lemma kept_service: "served_call c \<Longrightarrow> signing_safe s (run_payroll V W c s)"
proof (cases c)
  case (On_tasks k)
  then show ?thesis
    using reflpD [OF kept_refl] by (simp add: signing_safe_def run_task_intents)
next
  case (Create_payroll now fi fu p)
  have "keeps signing_safe (createPayrollTask V now fi fu id p)"
    by (rule kept_create_payroll) (use reflpD [OF kept_refl] in simp)
  then show ?thesis using Create_payroll by (simp add: keeps_def)
qed (use kept_intent_call kept_report in \<open>auto simp: keeps_def\<close>)

section \<open>Clients\<close>

definition handed_out :: "string \<Rightarrow> db \<Rightarrow> bool" where
  "handed_out i s \<longleftrightarrow> (\<exists>r. lookup i s = Some r \<and> asked r)"

definition prompted :: "prompt list \<Rightarrow> string list" where
  "prompted ps = List.map_filter ptIntent ps"

text \<open>
  The requests that were added are for distinct intents which nobody had handed out before, and which are
  handed out now.
\<close>

definition fair :: "client \<Rightarrow> client \<Rightarrow> bool" where
  "fair w v \<longleftrightarrow> (\<exists>new. clPrompts v = clPrompts w @ new \<and> signing_safe (clDb w) (clDb v) \<and>
     (intents_unique (intents (clDb w)) \<longrightarrow>
        distinct (prompted new) \<and> (\<forall>i\<in>set (prompted new). \<not> handed_out i (clDb w) \<and> handed_out i (clDb v))))"

definition fair_env :: "client_env \<Rightarrow> bool" where
  "fair_env V \<longleftrightarrow> (\<forall>n w. fair w (ceOthers V n w)) \<and> (\<forall>n d. signing_safe d (ceMeanwhile V n d))"

lemma prompted_simps [simp]: "prompted [] = []" "prompted (ps @ qs) = prompted ps @ prompted qs"
    "prompted [p] = (case ptIntent p of None \<Rightarrow> [] | Some i \<Rightarrow> [i])"
  by (simp_all add: prompted_def map_filter_def split: option.splits)

lemma kept_handed_out: "signing_safe s t \<Longrightarrow> handed_out i s \<Longrightarrow> handed_out i t"
  using asked_rows.table_find unfolding signing_safe_def handed_out_def by (meson stays_asked_def)

lemma fair_same: "clPrompts v = clPrompts w \<Longrightarrow> signing_safe (clDb w) (clDb v) \<Longrightarrow> fair w v"
  by (simp add: fair_def)

lemma fair_refl: "reflp fair"
  by (simp add: reflp_def fair_same reflpD [OF kept_refl])

lemma fair_transD:
  assumes "fair u v" "fair v w"
  shows "fair u w"
proof -
  obtain A B where A: "clPrompts v = clPrompts u @ A" "signing_safe (clDb u) (clDb v)"
      "intents_unique (intents (clDb u)) \<Longrightarrow> distinct (prompted A) \<and>
         (\<forall>i\<in>set (prompted A). \<not> handed_out i (clDb u) \<and> handed_out i (clDb v))"
    and B: "clPrompts w = clPrompts v @ B" "signing_safe (clDb v) (clDb w)"
      "intents_unique (intents (clDb v)) \<Longrightarrow> distinct (prompted B) \<and>
         (\<forall>i\<in>set (prompted B). \<not> handed_out i (clDb v) \<and> handed_out i (clDb w))"
    using assms unfolding fair_def by blast
  have safe: "signing_safe (clDb u) (clDb w)" using A(2) B(2) transpD [OF kept_trans] by blast
  have "distinct (prompted (A @ B)) \<and> (\<forall>i\<in>set (prompted (A @ B)). \<not> handed_out i (clDb u) \<and> handed_out i (clDb w))"
    if unique: "intents_unique (intents (clDb u))"
  proof -
    have "intents_unique (intents (clDb v))" using unique A(2) by (simp add: signing_safe_def)
    note B' = B(3) [OF this] and A' = A(3) [OF unique]
    have "set (prompted A) \<inter> set (prompted B) = {}" using A' B' by blast
    moreover have "handed_out i (clDb w)" if "i \<in> set (prompted A)" for i
      using that A' kept_handed_out [OF B(2)] by blast
    moreover have "\<not> handed_out i (clDb u)" if "i \<in> set (prompted B)" for i
      using that B' kept_handed_out [OF A(2)] by blast
    ultimately show ?thesis using A' B' by auto
  qed
  then show ?thesis unfolding fair_def using A(1) B(1) safe by (intro exI [where x = "A @ B"]) simp
qed

lemma fair_trans: "transp fair"
  using fair_transD by (rule transpI)

lemmas fair_rules =
  keeps_ok [OF fair_refl] keeps_throw [OF fair_refl] keeps_query [OF fair_refl] keeps_ensure [OF fair_refl]
  keeps_lift [OF fair_refl] keeps_andThen [OF fair_trans] keeps_split

lemma fair_tick: "fair w v \<Longrightarrow> fair w (v\<lparr>clTick := n\<rparr>)"
  by (simp add: fair_def)

lemma fair_moment: "fair_env V \<Longrightarrow> keeps fair (moment V)"
  by (simp add: keeps_def moment_def fair_env_def fair_tick)

lemma fair_external: "fair_env V \<Longrightarrow> keeps fair (outside V f)"
  unfolding outside_def by (intro fair_rules fair_moment)

lemma fair_onDatabase: "keeps signing_safe m \<Longrightarrow> keeps fair (onDatabase m)"
  by (rule keepsI) (auto simp: onDatabase_def intro!: fair_same dest: keepsD split: prod.splits)

lemma fair_fetch: "fair_env V \<Longrightarrow> (\<And>n. keeps signing_safe (m n)) \<Longrightarrow> keeps fair (backendFetch V m)"
  by (intro keeps_fetch fair_refl fair_trans fair_moment fair_onDatabase)

section \<open>The executor\<close>

lemma prepare_hands_out:
  assumes "prepareWalletSignature R now i key owner ttl s = (Inr r, t)" "intents_unique (intents s)"
  shows "\<not> handed_out i s" "handed_out i t"
proof -
  obtain u w a where lease: "acquireLease R now i owner ttl s = (Inr a, w)" "lookup i s = Some u"
      "status u = CREATED \<or> status u = FAILED_RETRYABLE"
      "transition R now i (status u) AWAITING_WALLET_SIGNATURE no_data w = (Inr r, t)"
    using assms(1)
    by (auto simp: prepareWalletSignature_def andThen_Inr_iff assertAccess_def getIntent_Inr split: if_splits)
  show "\<not> handed_out i s" using lease(2,3) by (auto simp: handed_out_def asked_def)
  have "intents_unique (intents w)" using keeps_unique [OF run_lease lease(1)] assms(2) by simp
  from transition_Inr [OF lease(4) this] show "handed_out i t" by (simp add: handed_out_def asked_def)
qed

lemma fair_prompt:
  assumes "clPrompts v = clPrompts u" "signing_safe (clDb u) (clDb v)" "fair v w" "ptIntent p = Some i"
    and "intents_unique (intents (clDb u)) \<Longrightarrow> \<not> handed_out i (clDb u) \<and> handed_out i (clDb v)"
  shows "fair u (w\<lparr>clPrompts := clPrompts w @ [p]\<rparr>)"
proof -
  obtain N where N: "clPrompts w = clPrompts v @ N" "signing_safe (clDb v) (clDb w)"
      "intents_unique (intents (clDb v)) \<Longrightarrow> distinct (prompted N) \<and>
         (\<forall>j\<in>set (prompted N). \<not> handed_out j (clDb v) \<and> handed_out j (clDb w))"
    using assms(3) unfolding fair_def by blast
  have safe: "signing_safe (clDb u) (clDb w)" using assms(2) N(2) transpD [OF kept_trans] by blast
  have "distinct (prompted (N @ [p])) \<and>
      (\<forall>j\<in>set (prompted (N @ [p])). \<not> handed_out j (clDb u) \<and> handed_out j (clDb w))"
    if unique: "intents_unique (intents (clDb u))"
  proof -
    have "intents_unique (intents (clDb v))" using unique assms(2) by (simp add: signing_safe_def)
    note N' = N(3) [OF this] and i = assms(5) [OF unique]
    have "\<not> handed_out j (clDb u)" if "j \<in> set (prompted N)" for j
      using that N' kept_handed_out [OF assms(2)] by blast
    moreover have "i \<notin> set (prompted N)" using N' i by blast
    moreover have "handed_out i (clDb w)" using i kept_handed_out [OF N(2)] by blast
    ultimately show ?thesis using N' i assms(4) by simp
  qed
  then show ?thesis
    unfolding fair_def using N(1) assms(1) safe by (intro exI [where x = "N @ [p]"]) simp
qed

lemma fair_free_prompt: "ptIntent p = None \<Longrightarrow> fair u w \<Longrightarrow> fair u (w\<lparr>clPrompts := clPrompts w @ [p]\<rparr>)"
proof -
  assume p: "ptIntent p = None" and "fair u w"
  then obtain N where "clPrompts w = clPrompts u @ N" "signing_safe (clDb u) (clDb w)"
      "intents_unique (intents (clDb u)) \<longrightarrow> distinct (prompted N) \<and>
         (\<forall>j\<in>set (prompted N). \<not> handed_out j (clDb u) \<and> handed_out j (clDb w))"
    unfolding fair_def by blast
  then show ?thesis unfolding fair_def using p by (intro exI [where x = "N @ [p]"]) simp
qed

text \<open>A call of the backend that was answered.\<close>

lemma fetch_Inr:
  assumes "backendFetch V m w = (Inr x, v)" "fair_env V"
  obtains n u where "fair w u" "m n (clDb u) = (Inr x, clDb v)" "clPrompts v = clPrompts u"
proof -
  obtain u where u: "moment V w = (Inr (clTick w), u)" by (simp add: moment_def)
  have "fair w u" by (rule keepsD [OF fair_moment [OF assms(2)] u])
  then show ?thesis
    using that [of u "clTick w"] assms(1) u
    by (auto simp: backendFetch_def andThen_def onDatabase_def throw_def split: delivery.splits prod.splits)
qed

lemma fair_prepareIntent:
  assumes "fair_env V" "\<And>l. keeps fair (prepared l)"
  shows "keeps fair (prepareIntent V prepared x)"
  unfolding prepareIntent_def prepareWalletExecutionIntent_def
  by (intro fair_rules fair_fetch kept_prepare assms)

lemma prepareIntent_Inr:
  assumes "prepareIntent V prepared x w = (Inr lease, v)" "truthy (exIntent x)" "fair_env V" "\<And>l. keeps fair (prepared l)"
  obtains u u' where "fair w u" "clPrompts u' = clPrompts u" "signing_safe (clDb u) (clDb u')" "fair u' v"
    "intents_unique (intents (clDb u)) \<Longrightarrow> \<not> handed_out (the (exIntent x)) (clDb u) \<and> handed_out (the (exIntent x)) (clDb u')"
proof -
  obtain r u' where steps: "prepareWalletExecutionIntent V (the (exIntent x)) (the (exKey x)) (ceFresh V (clTick w) 1) w = (Inr r, u')"
      "prepared (ceFresh V (clTick w) 1) u' = (Inr (), v)"
    using assms(1,2) by (auto simp: prepareIntent_def andThen_Inr_iff)
  from steps(1) [unfolded prepareWalletExecutionIntent_def] assms(3)
  obtain n u where u: "fair w u" "clPrompts u' = clPrompts u"
      "prepareWalletSignature (ceRouting V) (ceNow V n) (the (exIntent x)) (the (exKey x)) (ceFresh V (clTick w) 1) 300000 (clDb u) =
         (Inr r, clDb u')"
    by (rule fetch_Inr) blast
  show ?thesis
  proof (rule that [OF u(1,2)])
    show "signing_safe (clDb u) (clDb u')" by (rule keepsD [OF kept_prepare u(3)])
    show "fair u' v" by (rule keepsD [OF assms(4) steps(2)])
    show "\<not> handed_out (the (exIntent x)) (clDb u) \<and> handed_out (the (exIntent x)) (clDb u')"
      if "intents_unique (intents (clDb u))"
      using prepare_hands_out [OF u(3) that] by blast
  qed
qed

lemma write_run: "writeContractTransaction V p w =
    (let v = (ceOthers V (clTick w) w)\<lparr>clTick := Suc (clTick w)\<rparr> in (ceWallet V (clTick w) p, v\<lparr>clPrompts := clPrompts v @ [p]\<rparr>))"
  by (simp add: writeContractTransaction_def andThen_def moment_def Let_def)

lemma fair_prepared_prompt:
  assumes "fair_env V" "\<And>l. keeps fair (prepared l)" "ptIntent p = (if truthy (exIntent x) then exIntent x else None)"
  shows "keeps fair (andThen (prepareIntent V prepared x) (\<lambda>lease. andThen (writeContractTransaction V p) (\<lambda>h. ok (f lease h))))"
proof (rule keepsI)
  fix w r v
  assume run: "andThen (prepareIntent V prepared x) (\<lambda>lease. andThen (writeContractTransaction V p) (\<lambda>h. ok (f lease h))) w = (r, v)"
  obtain a w' where a: "prepareIntent V prepared x w = (a, w')" by fastforce
  have before: "fair w w'" by (rule keepsD [OF fair_prepareIntent [OF assms(1,2)] a])
  show "fair w v"
  proof (cases a)
    case (Inl e)
    then show ?thesis using run a before by (simp add: andThen_def)
  next
    case (Inr lease)
    define z where "z = (ceOthers V (clTick w') w')\<lparr>clTick := Suc (clTick w')\<rparr>"
    have z: "fair w' z" using assms(1) by (simp add: z_def fair_env_def fair_tick)
    have v: "v = z\<lparr>clPrompts := clPrompts z @ [p]\<rparr>"
      using run a Inr by (auto simp: andThen_def write_run z_def Let_def ok_def split: sum.splits)
    show ?thesis
    proof (cases "truthy (exIntent x)")
      case True
      then obtain i where i: "exIntent x = Some i" "i \<noteq> []" by (auto simp: truthy_def split: option.splits)
      obtain u u' where u: "fair w u" "clPrompts u' = clPrompts u" "signing_safe (clDb u) (clDb u')" "fair u' w'"
          "intents_unique (intents (clDb u)) \<Longrightarrow> \<not> handed_out i (clDb u) \<and> handed_out i (clDb u')"
        using prepareIntent_Inr [OF a [unfolded Inr] True assms(1,2)] i(1) by (metis option.sel)
      have "fair u v"
        unfolding v by (rule fair_prompt [OF u(2,3) fair_transD [OF u(4) z] _ u(5)]) (simp_all add: assms(3) True i)
      then show ?thesis by (rule fair_transD [OF u(1)])
    next
      case False
      then show ?thesis unfolding v by (intro fair_free_prompt fair_transD [OF before z]) (simp add: assms(3))
    qed
  qed
qed

lemma fair_execute:
  assumes "fair_env V" "\<And>l. keeps fair (prepared l)"
  shows "keeps fair (executeTransaction V prepared x)"
  unfolding executeTransaction_def getExternalWalletClient_def requestExternalWalletChain_def
  by (intro fair_rules fair_external fair_moment fair_prepared_prompt assms)
    (auto split: option.split switch_answer.split intro!: fair_rules fair_moment assms)

section \<open>A payroll\<close>

lemma fair_api:
  assumes "fair_env V"
  shows "keeps fair (acquireExecutionIntent V x)" "keeps fair (bindExecutionIntentTransactionHash V i h key owner)"
    "keeps fair (bindKnownExecutionIntentHash V i key h)" "keeps fair (cancelExecutionIntent V i key)"
    "keeps fair (verifyDirectExecutionIntent V i key)"
  unfolding acquireExecutionIntent_def bindExecutionIntentTransactionHash_def bindKnownExecutionIntentHash_def
    cancelExecutionIntent_def verifyDirectExecutionIntent_def
  by (intro fair_fetch assms kept_acquire kept_binds kept_lease kept_verify)+

lemma fair_plain: "fair_env V \<Longrightarrow> keeps fair (executeTransaction V (\<lambda>_. ok ()) x)"
  by (intro fair_execute keeps_ok fair_refl)

lemma fair_store: "keeps fair (store_batch ref b)"
  by (simp add: keeps_def store_batch_def fair_same reflpD [OF kept_refl])

lemma fair_create: "fair_env V \<Longrightarrow> keeps fair (initPayroll V payload)"
  unfolding initPayroll_def by (intro fair_fetch kept_create_payroll; simp add: fair_env_def)

interpretation signing: run_frame "\<lambda>w v. fair_env V \<longrightarrow> fair w v" V for V
proof (unfold_locales, unfold keeps_if_holds)
  show "reflp (\<lambda>w v. fair_env V \<longrightarrow> fair w v)" "transp (\<lambda>w v. fair_env V \<longrightarrow> fair w v)"
    using fair_refl fair_trans by (simp_all add: reflp_def transp_def) blast
  show "fair_env V \<longrightarrow> keeps fair (backendFetch V (\<lambda>n. reportTaskUnit (ceBackend V) (ceNow V n) t uid y iid))" for t uid y iid
    by (intro impI fair_fetch kept_report)
qed (simp_all add: fair_moment fair_api fair_plain fair_store fair_create)

lemmas fair_approval = signing.approval [unfolded keeps_if_holds, rule_format]
lemmas fair_submit = signing.submit [unfolded keeps_if_holds, rule_format]
lemmas fair_run = signing.run [unfolded keeps_if_holds, rule_format]

end
