(* ===== verification/ClientSend.thy ===== *)
theory ClientSend
  imports ClientWallet
begin

text \<open>
  Sending one transfer from the browser: the gas reserve (\<open>apps/frontend/lib/arc-gas-reserve.ts\<close>), the check of
  the confirmed transfer (\<open>lib/send-transaction.ts\<close>), the recovery record in the local storage
  (\<open>lib/send-operation.ts\<close>) and the send screen (\<open>app/send/page.tsx\<close>).  The stages the screen shows are left
  out; what a submission, a recovery and a cancellation do to the backend, the wallet and the storage is kept.
\<close>

section \<open>Gas\<close>

definition ARC_GAS_FALLBACK_UNITS :: int where
  "ARC_GAS_FALLBACK_UNITS = 100000"

definition ARC_GAS_SAFETY_MARGIN_UNITS :: int where
  "ARC_GAS_SAFETY_MARGIN_UNITS = 5000"

definition ARC_GAS_SAFETY_BPS :: int where
  "ARC_GAS_SAFETY_BPS = 2000"

definition ceilDiv :: "int \<Rightarrow> int \<Rightarrow> int" where
  "ceilDiv value divisor = (if value = 0 then 0 else (value + divisor - 1) div divisor)"

definition gasReserveFromFeeWei :: "int option \<Rightarrow> int" where
  "gasReserveFromFeeWei fee =
     (case fee of None \<Rightarrow> ARC_GAS_FALLBACK_UNITS
      | Some wei \<Rightarrow>
          if wei < 0 then ARC_GAS_FALLBACK_UNITS
          else let estimated = ceilDiv wei (10 ^ 12); margin = ceilDiv (estimated * ARC_GAS_SAFETY_BPS) 10000 in
            estimated + margin + ARC_GAS_SAFETY_MARGIN_UNITS)"

definition sumGasReserves :: "int option list \<Rightarrow> int" where
  "sumGasReserves fees =
     (if list_ex (\<lambda>fee. case fee of None \<Rightarrow> True | Some wei \<Rightarrow> wei < 0) fees then ARC_GAS_FALLBACK_UNITS
      else gasReserveFromFeeWei (Some (sum_list (map (case_option 0 id) fees))))"

definition calculateArcMaxAmount :: "int \<Rightarrow> int \<Rightarrow> int \<Rightarrow> bool \<Rightarrow> int" where
  "calculateArcMaxAmount inputBalance nativeBalance reserve usdc =
     (if reserve < 0 \<or> inputBalance \<le> 0 then 0
      else if usdc then (if reserve < inputBalance then inputBalance - reserve else 0)
      else (if reserve \<le> nativeBalance then inputBalance else 0))"

definition hasArcGasForAmount :: "int \<Rightarrow> int \<Rightarrow> int \<Rightarrow> int \<Rightarrow> bool \<Rightarrow> bool" where
  "hasArcGasForAmount amount inputBalance nativeBalance reserve usdc =
     (if amount \<le> 0 \<or> inputBalance < amount then False
      else if usdc then amount + reserve \<le> nativeBalance else reserve \<le> nativeBalance)"

section \<open>The confirmed transfer\<close>

text \<open>The chain the client reads, with the fields of \<open>chain\<close>; the functions of viem as in the backend.\<close>

definition transferMatched :: "evm \<Rightarrow> abi \<Rightarrow> string \<Rightarrow> string \<Rightarrow> string \<Rightarrow> int \<Rightarrow> chain_log \<Rightarrow> bool res" where
  "transferMatched E A token sender payee amount l =
     bindR (checksum E (logAddress l)) (\<lambda>a. bindR (checksum E token) (\<lambda>t.
     Inr (a = t \<and>
       (case decodeTransferEvent A l of
          None \<Rightarrow> False
        | Some (src, dst, v) \<Rightarrow>
            getAddress E src \<noteq> None \<and> getAddress E src = getAddress E sender \<and>
            getAddress E dst \<noteq> None \<and> getAddress E dst = getAddress E payee \<and> int v = amount))))"

text \<open>\<open>some\<close> stops at the first hit.\<close>

fun someR :: "('a \<Rightarrow> bool res) \<Rightarrow> 'a list \<Rightarrow> bool res" where
  "someR p [] = Inr False"
| "someR p (x # xs) = bindR (p x) (\<lambda>hit. if hit then Inr True else someR p xs)"

definition verifyErc20Transfer ::
  "evm \<Rightarrow> abi \<Rightarrow> chain \<Rightarrow> nat \<Rightarrow> string \<Rightarrow> string \<Rightarrow> string \<Rightarrow> string \<Rightarrow> int \<Rightarrow> unit res" where
  "verifyErc20Transfer E A C onChain hash sender payee token amount =
     bindR (fromSome READ_FAILED (getTransactionReceipt C hash)) (\<lambda>rcp.
     bindR (fromSome READ_FAILED (getTransaction C hash)) (\<lambda>tx.
     bindR (ensureR (crSuccess rcp) (CLIENT_ERROR ''Transfer transaction reverted.'')) (\<lambda>_.
     bindR (ensureR (ctChainId tx = Some onChain) (CLIENT_ERROR ''Confirmed transaction chain mismatch.'')) (\<lambda>_.
     bindR (checksum E (ctFrom tx)) (\<lambda>src. bindR (checksum E sender) (\<lambda>s.
     bindR (ensureR (src = s) (CLIENT_ERROR ''Confirmed transaction sender mismatch.'')) (\<lambda>_.
     bindR (if truthy (ctTo tx)
        then bindR (checksum E (the (ctTo tx))) (\<lambda>a. bindR (checksum E token) (\<lambda>t. Inr (a = t))) else Inr False) (\<lambda>ours.
     bindR (ensureR ours (CLIENT_ERROR ''Confirmed transaction token mismatch.'')) (\<lambda>_.
     bindR (fromSome (CLIENT_ERROR ''Confirmed transaction is not an ERC-20 transfer.'') (decodeTransferCall A (ctInput tx))) (\<lambda>(dst, v).
     bindR (checksum E dst) (\<lambda>d. bindR (checksum E payee) (\<lambda>p.
     bindR (ensureR (d = p \<and> int v = amount)
        (CLIENT_ERROR ''Confirmed transfer calldata does not match the reviewed recipient and amount.'')) (\<lambda>_.
     bindR (someR (transferMatched E A token sender payee amount) (crLogs rcp)) (\<lambda>matched.
     ensureR matched (CLIENT_ERROR ''Confirmed receipt is missing the exact ERC-20 Transfer evidence.'')))))))))))))))"

section \<open>The recovery record\<close>

definition externalSendRecoveryKey :: "string \<Rightarrow> nat \<Rightarrow> string" where
  "externalSendRecoveryKey sender onChain = ''wizpay.send.external.v1:'' @ toLowerCase sender @ '':'' @ show_nat onChain"

text \<open>What is stored by this client passes the checks of \<open>readExternalSendRecovery\<close> on types and formats.\<close>

definition readExternalSendRecovery :: "evm \<Rightarrow> client \<Rightarrow> string \<Rightarrow> nat \<Rightarrow> send_recovery option" where
  "readExternalSendRecovery E w sender onChain =
     (case clSends w (externalSendRecoveryKey sender onChain) of None \<Rightarrow> None
      | Some v \<Rightarrow>
          if svIntent v \<noteq> [] \<and> svKey v \<noteq> [] \<and> svLease v \<noteq> [] \<and> svOperation v \<noteq> [] \<and> svChain v = onChain \<and>
             isAddress E (svSender v) \<and> getAddress E (svSender v) = getAddress E sender \<and> isAddress E (svTokenAddress v) \<and>
             isAddress E (svRecipient v) \<and> svToken v \<in> {''USDC'', ''EURC''} \<and> 0 \<le> svUnits v \<and>
             (case svHash v of None \<Rightarrow> True | Some h \<Rightarrow> is_hash h)
          then (case (getAddress E (svSender v), getAddress E (svRecipient v), getAddress E (svTokenAddress v)) of
                  (Some s, Some r, Some t) \<Rightarrow> Some (v\<lparr>svSender := s, svRecipient := r, svTokenAddress := t\<rparr>)
                | _ \<Rightarrow> None)
          else None)"

definition store_send :: "string \<Rightarrow> send_recovery option \<Rightarrow> (client, unit) op" where
  "store_send k v w = (Inr (), w\<lparr>clSends := (clSends w)(k := v)\<rparr>)"

definition writeExternalSendRecovery :: "send_recovery \<Rightarrow> (client, unit) op" where
  "writeExternalSendRecovery v = store_send (externalSendRecoveryKey (svSender v) (svChain v)) (Some v)"

definition clearExternalSendRecovery :: "send_recovery \<Rightarrow> (client, unit) op" where
  "clearExternalSendRecovery v = store_send (externalSendRecoveryKey (svSender v) (svChain v)) None"

section \<open>A submission\<close>

text \<open>
  The form with the balances on the screen, the gas estimate, what the client reads of the chain, and whether
  the form and the wallet are still the same after the wallet has signed.
\<close>

record send_form =
  sfEnabled :: bool
  sfReady :: bool
  sfRecipient :: string
  sfToken :: token_config
  sfAmount :: string
  sfBalance :: int
  sfNative :: int
  sfFee :: "nat \<Rightarrow> int option"
  sfChain :: "nat \<Rightarrow> chain"
  sfAbi :: abi
  sfUnchanged :: "nat \<Rightarrow> bool"

text \<open>The regular expression \<open>/^\d+(?:\.\d+)?$/\<close>.\<close>

definition is_decimal :: "string \<Rightarrow> bool" where
  "is_decimal s \<longleftrightarrow> before_dot s \<noteq> [] \<and> list_all is_digit (before_dot s) \<and>
     (before_dot s = s \<or> after_dot s \<noteq> [] \<and> list_all is_digit (after_dot s))"

definition exactAmount :: "client_env \<Rightarrow> string \<Rightarrow> nat \<Rightarrow> int res" where
  "exactAmount V value decimals =
     (let s = js_trim value in
      bindR (ensureR (is_decimal s) (CLIENT_ERROR ''Enter a valid positive amount.'')) (\<lambda>_.
      bindR (ensureR (length (after_dot s) \<le> decimals) (CLIENT_ERROR ''too many decimal places'')) (\<lambda>_.
      bindR (fromSome (PlainError ''InvalidDecimalNumberError'') (parseUnits (ceBackend V) s decimals)) (\<lambda>n.
      bindR (ensureR (0 < n) (CLIENT_ERROR ''Amount must be greater than zero.'')) (\<lambda>_. Inr n)))))"

definition is_zero_address :: "string \<Rightarrow> bool" where
  "is_zero_address s \<longleftrightarrow> toLowerCase s = ''0x'' @ replicate 40 (CHR ''0'')"

text \<open>The checks before anything is asked for: the recipient in its canonical form and the amount.\<close>

definition checkedForm :: "client_env \<Rightarrow> send_form \<Rightarrow> (string \<times> int) res" where
  "checkedForm V F =
     bindR (ensureR (sfReady F) (CLIENT_ERROR ''The selected wallet is still loading.'')) (\<lambda>_.
     bindR (ensureR (truthy (ceAddress V)) (CLIENT_ERROR ''Connect the external wallet before sending.'')) (\<lambda>_.
     bindR (ensureR (cePublicClient V) (CLIENT_ERROR ''Arc Mainnet client is unavailable.'')) (\<lambda>_.
     bindR (ensureR (isAddress (ceEvm V) (sfRecipient F)) (CLIENT_ERROR ''Enter a valid EVM recipient address.'')) (\<lambda>_.
     bindR (checksum (ceEvm V) (sfRecipient F)) (\<lambda>payee.
     bindR (ensureR (\<not> is_zero_address payee) (CLIENT_ERROR ''The zero address cannot receive a payment.'')) (\<lambda>_.
     bindR (exactAmount V (sfAmount F) (tkDecimals (sfToken F))) (\<lambda>n.
     bindR (ensureR (n \<le> sfBalance F) (CLIENT_ERROR ''Insufficient balance'')) (\<lambda>_. Inr (payee, n)))))))))"

definition enoughGas :: "send_form \<Rightarrow> int \<Rightarrow> nat \<Rightarrow> bool" where
  "enoughGas F n at = hasArcGasForAmount n (sfBalance F) (sfNative F) (gasReserveFromFeeWei (sfFee F at)) (tkSymbol (sfToken F) = ''USDC'')"

definition switchToArc :: "client_env \<Rightarrow> (client, unit) op" where
  "switchToArc V =
     andThen (moment V) (\<lambda>n.
     if ceWalletChain V n = Some (ceArc V) then ok ()
     else andThen (moment V) (\<lambda>n.
       ensure (case ceSwitch V of None \<Rightarrow> False | Some switch \<Rightarrow> switch n = Switched) (CLIENT_ERROR ''switchChain'')))"

definition sendInput :: "client_env \<Rightarrow> send_form \<Rightarrow> string \<Rightarrow> int \<Rightarrow> string \<Rightarrow> acquire_input" where
  "sendInput V F payee n reference =
     \<lparr>inNetwork = ''arc-mainnet'', inOperation = OP_SEND, inOwnerId = None, inSourceWallet = the (ceAddress V),
      inRecipient = Some payee, inBatchDigest = None, inTokenIn = tkAddress (sfToken F), inTokenOut = tkAddress (sfToken F),
      inAmountUnits = show_int n, inExternalReference = reference, inTaskId = None\<rparr>"

definition preparedRecovery :: "client_env \<Rightarrow> send_form \<Rightarrow> intent \<Rightarrow> string \<Rightarrow> string \<Rightarrow> int \<Rightarrow> string \<Rightarrow> send_recovery res" where
  "preparedRecovery V F r reference payee n lease =
     bindR (checksum (ceEvm V) (the (ceAddress V))) (\<lambda>sender.
     Inr \<lparr>svIntent = intentId r, svKey = idempotencyKey r, svLease = lease, svOperation = reference, svChain = ceArc V,
          svSender = sender, svToken = tkSymbol (sfToken F), svTokenAddress = tkAddress (sfToken F), svRecipient = payee,
          svUnits = n, svHash = None\<rparr>)"

text \<open>What follows the signature, with the record that was written before it.\<close>

definition confirmSend :: "client_env \<Rightarrow> send_form \<Rightarrow> send_recovery \<Rightarrow> string \<Rightarrow> string option \<Rightarrow> (client, unit) op" where
  "confirmSend V F v h lease =
     andThen (bindExecutionIntentTransactionHash V (svIntent v) h (svKey v) lease) (\<lambda>_.
     andThen (outside V (\<lambda>n. getTransactionReceipt (sfChain F n) h)) (\<lambda>_.
     andThen (moment V) (\<lambda>n.
     andThen (lift (verifyErc20Transfer (ceEvm V) (sfAbi F) (sfChain F n) (ceArc V) h (the (ceAddress V)) (svRecipient v)
        (svTokenAddress v) (svUnits v))) (\<lambda>_.
     andThen (verifyDirectExecutionIntent V (svIntent v) (svKey v)) (\<lambda>_.
     clearExternalSendRecovery v)))))"

definition signAndConfirm ::
  "client_env \<Rightarrow> send_form \<Rightarrow> intent \<Rightarrow> string \<Rightarrow> string \<Rightarrow> int \<Rightarrow> (client, string) op" where
  "signAndConfirm V F r reference payee n =
     andThen (executeTransaction V
        (\<lambda>lease. andThen (lift (preparedRecovery V F r reference payee n lease)) writeExternalSendRecovery)
        \<lparr>exTo = tkAddress (sfToken F), exCall = Transfer_call payee n, exValue = 0, exIntent = Some (intentId r),
         exKey = Some (idempotencyKey r)\<rparr>) (\<lambda>x.
     andThen (query (\<lambda>w. sfUnchanged F (clTick w))) (\<lambda>unchanged.
     andThen (ensure unchanged (CLIENT_ERROR ''Wallet or form state changed while sending. Verification stopped.'')) (\<lambda>_.
     andThen (ensure (erHash x \<noteq> []) (CLIENT_ERROR ''The submitted transaction did not return an on-chain hash.'')) (\<lambda>_.
     andThen (lift (preparedRecovery V F r reference payee n (the (erLease x)))) (\<lambda>v.
     andThen (writeExternalSendRecovery (v\<lparr>svHash := Some (erHash x)\<rparr>)) (\<lambda>_.
     andThen (confirmSend V F v (erHash x) (erLease x)) (\<lambda>_.
     ok (erHash x))))))))"

text \<open>The result is the hash of the completed transfer, or the message that is shown.\<close>

definition submitSend :: "client_env \<Rightarrow> send_form \<Rightarrow> (client, string res) op" where
  "submitSend V F =
     andThen (ensure (sfEnabled F) (CLIENT_ERROR ''send is disabled'')) (\<lambda>_.
     attempting
       (andThen (lift (checkedForm V F)) (\<lambda>(payee, n).
        andThen (moment V) (\<lambda>at.
        andThen (ensure (enoughGas F n at) (CLIENT_ERROR ''Leave enough USDC available for network fees.'')) (\<lambda>_.
        andThen (switchToArc V) (\<lambda>_.
        andThen (query (\<lambda>w. ''SEND-'' @ ceFresh V (clTick w) 2)) (\<lambda>reference.
        andThen (acquireExecutionIntent V (sendInput V F payee n reference)) (\<lambda>r.
        signAndConfirm V F r reference payee n))))))))"

section \<open>Recovery\<close>

text \<open>What both ways to recover a transfer end with.\<close>

definition settleRecovered :: "client_env \<Rightarrow> send_form \<Rightarrow> send_recovery \<Rightarrow> string \<Rightarrow> (client, unit) op" where
  "settleRecovered V F v h =
     andThen (moment V) (\<lambda>n.
     andThen (lift (verifyErc20Transfer (ceEvm V) (sfAbi F) (sfChain F n) (ceArc V) h (svSender v) (svRecipient v)
        (svTokenAddress v) (svUnits v))) (\<lambda>_.
     andThen (verifyDirectExecutionIntent V (svIntent v) (svKey v)) (\<lambda>_.
     clearExternalSendRecovery v)))"

text \<open>When the screen opens with a record that has a hash.\<close>

definition resumeSend :: "client_env \<Rightarrow> send_form \<Rightarrow> (client, unit res) op" where
  "resumeSend V F =
     andThen (lift (checksum (ceEvm V) (the (ceAddress V)))) (\<lambda>sender.
     andThen (query (\<lambda>w. readExternalSendRecovery (ceEvm V) w sender (ceArc V))) (\<lambda>stored.
     case stored of None \<Rightarrow> ok (Inr ())
     | Some v \<Rightarrow> (case svHash v of None \<Rightarrow> ok (Inr ())
       | Some h \<Rightarrow>
           if \<not> cePublicClient V then ok (Inr ())
           else attempting
             (andThen (bindKnownExecutionIntentHash V (svIntent v) (svKey v) h) (\<lambda>_. settleRecovered V F v h)))))"

text \<open>The user supplies the hash of a transfer whose hash is unknown.\<close>

definition recoverExternalTransactionHash :: "client_env \<Rightarrow> send_form \<Rightarrow> send_recovery option \<Rightarrow> string \<Rightarrow> (client, unit res) op" where
  "recoverExternalTransactionHash V F stored typed =
     (case stored of None \<Rightarrow> ok (Inl (CLIENT_ERROR ''Enter a complete 32-byte transaction hash.''))
      | Some v \<Rightarrow>
          if \<not> is_hash (js_trim typed) \<or> \<not> cePublicClient V
          then ok (Inl (CLIENT_ERROR ''Enter a complete 32-byte transaction hash.''))
          else attempting
            (andThen (bindKnownExecutionIntentHash V (svIntent v) (svKey v) (js_trim typed)) (\<lambda>_.
             andThen (writeExternalSendRecovery (v\<lparr>svHash := Some (js_trim typed)\<rparr>)) (\<lambda>_.
             settleRecovered V F v (js_trim typed)))))"

definition cancelExternalIntent :: "client_env \<Rightarrow> send_recovery option \<Rightarrow> (client, unit res) op" where
  "cancelExternalIntent V stored =
     (case stored of None \<Rightarrow> ok (Inr ())
      | Some v \<Rightarrow>
          if truthy (svHash v) then ok (Inr ())
          else attempting
            (andThen (cancelExecutionIntent V (svIntent v) (svKey v)) (\<lambda>_. clearExternalSendRecovery v)))"

end
