(* ===== verification/ClientProperties.thy ===== *)
theory ClientProperties
  imports ClientSigning ClientSend
begin

text \<open>
  Clients together: any sequence of payrolls, approvals, transfers and recoveries by any clients, each with
  others acting in between, asks for at most one signature per intent.
\<close>

section \<open>A transfer\<close>

lemma fair_store_send: "keeps fair (store_send k v)"
  by (simp add: keeps_def store_send_def fair_same reflpD [OF kept_refl])

lemma fair_send_records: "keeps fair (writeExternalSendRecovery v)" "keeps fair (clearExternalSendRecovery v)"
  unfolding writeExternalSendRecovery_def clearExternalSendRecovery_def by (rule fair_store_send)+

lemma fair_settle_send: "fair_env V \<Longrightarrow> keeps fair (settleRecovered V F v h)" "fair_env V \<Longrightarrow> keeps fair (confirmSend V F v h lease)"
  unfolding settleRecovered_def confirmSend_def
  by (intro fair_rules fair_moment fair_external fair_api fair_send_records; assumption)+

lemma fair_send: "fair_env V \<Longrightarrow> keeps fair (submitSend V F)"
  unfolding submitSend_def signAndConfirm_def switchToArc_def
  by (intro fair_rules keeps_attempting fair_moment fair_api fair_execute fair_send_records fair_settle_send; assumption)

lemma fair_recovery:
  assumes "fair_env V"
  shows "keeps fair (resumeSend V F)" "keeps fair (recoverExternalTransactionHash V F stored h)"
    "keeps fair (cancelExternalIntent V stored)"
  unfolding resumeSend_def recoverExternalTransactionHash_def cancelExternalIntent_def
  by (intro fair_rules keeps_attempting fair_api fair_send_records fair_settle_send assms)+

section \<open>Any calls of any clients\<close>

datatype client_call =
    Run_payroll payroll_view payroll_gate nat string "recipient_draft list list"
  | Approve_payroll payroll_view int string
  | Submit_batch payroll_view "recipient_draft list" string string string
  | Sign_call execute_params
  | Send_transfer send_form
  | Resume_transfer send_form
  | Recover_transfer send_form "send_recovery option" string
  | Cancel_transfer "send_recovery option"
  | Serve service_call

fun run_client :: "client_env \<Rightarrow> client_call \<Rightarrow> client \<Rightarrow> client" where
  "run_client V (Run_payroll W G fuel ref batches) w = snd (execute V W G fuel ref batches w)"
| "run_client V (Approve_payroll W amount ref) w = snd (requestApproval V W amount ref w)"
| "run_client V (Submit_batch W drafts ref i key) w = snd (handleSubmit V W drafts ref i key w)"
| "run_client V (Sign_call x) w = snd (executeTransaction V (\<lambda>_. ok ()) x w)"
| "run_client V (Send_transfer F) w = snd (submitSend V F w)"
| "run_client V (Resume_transfer F) w = snd (resumeSend V F w)"
| "run_client V (Recover_transfer F stored h) w = snd (recoverExternalTransactionHash V F stored h w)"
| "run_client V (Cancel_transfer stored) w = snd (cancelExternalIntent V stored w)"
| "run_client V (Serve c) w = w\<lparr>clDb := run_payroll (ceBackend V) (ceVerify V (clTick w)) c (clDb w)\<rparr>"

text \<open>A call of a client, among others that are clients and calls of the backend too.\<close>

fun fair_call :: "client_env \<times> client_call \<Rightarrow> bool" where
  "fair_call (V, Serve c) \<longleftrightarrow> served_call c"
| "fair_call (V, c) \<longleftrightarrow> fair_env V"

definition run_clients :: "(client_env \<times> client_call) list \<Rightarrow> client \<Rightarrow> client" where
  "run_clients cs w = fold (\<lambda>(V, c). run_client V c) cs w"

lemma fair_client: "fair_call (V, c) \<Longrightarrow> fair w (run_client V c w)"
  using fair_run fair_approval fair_submit fair_plain fair_send fair_recovery fair_same kept_service
  by (cases c) (simp_all add: keeps_def)

lemma fair_clients: "list_all fair_call cs \<Longrightarrow> fair w (run_clients cs w)"
proof (induction cs arbitrary: w)
  case Nil
  then show ?case using reflpD [OF fair_refl] by (simp add: run_clients_def)
next
  case (Cons c cs)
  obtain V k where c: "c = (V, k)" by (cases c)
  have "fair w (run_client V k w)" using Cons.prems c by (simp add: fair_client)
  moreover have "fair (run_client V k w) (run_clients cs (run_client V k w))" using Cons by simp
  ultimately show ?case using fair_transD c by (simp add: run_clients_def)
qed


end
