(* ===== verification/ClientExamples.thy ===== *)
theory ClientExamples
  imports ClientProperties
begin

text \<open>A wallet that signs, and the properties of the clients on concrete runs.\<close>

section \<open>Signing twice\<close>

definition wallet_env :: client_env where
  "wallet_env = \<lparr>ceBackend = paying_env, ceVerify = (\<lambda>_ _. Inl READ_FAILED), ceNow = (\<lambda>_. 0), ceFresh = (\<lambda>_ _. ''w''),
     ceOthers = (\<lambda>_ w. w), ceMeanwhile = (\<lambda>_ d. d), ceDelivery = (\<lambda>_. Delivered),
     ceWallet = (\<lambda>_ _. Inr (hash_of (CHR ''c''))), ceAddress = Some (addr (CHR ''a'')), ceWalletChain = (\<lambda>_. Some 5042),
     ceSwitch = None, ceWalletClient = (\<lambda>_. True), ceArc = 5042, cePublicClient = True, ceHead = (\<lambda>_. Some 9),
     ceReceiptStatus = (\<lambda>_ _. Some True), ceAllowance = (\<lambda>_ _ _ _. Some 1000), ceBalance = (\<lambda>_ _ _. Some 1000),
     ceQuote = (\<lambda>_ _ _ _. None),
     ceTokens = (\<lambda>t. if t = ''USDC'' then Some \<lparr>tkSymbol = ''USDC'', tkAddress = CLIENT_USDC, tkDecimals = 6\<rparr> else None),
     ceContract = Some (addr (CHR ''c'')), ceFeeBps = 25\<rparr>"

definition browser :: "db \<Rightarrow> client" where
  "browser d = \<lparr>clDb = d, clPrompts = [], clBatches = (\<lambda>_. None), clSends = (\<lambda>_. None), clTick = 0\<rparr>"

definition sign_sent :: execute_params where
  "sign_sent = \<lparr>exTo = ''usdc'', exCall = Transfer_call ''bob'' 250, exValue = 0, exIntent = Some ''i'', exKey = Some ''k''\<rparr>"

definition signed_intent :: intent where
  "signed_intent = moved 0 AWAITING_WALLET_SIGNATURE (leased 0 ''w'' 300000 sent)"

lemma prepare_signed:
  "prepareWalletSignature arc 0 ''i'' ''k'' ''w'' 300000 (holding sent) = (Inr signed_intent, holding signed_intent)"
  "\<exists>e. prepareWalletSignature arc 0 ''i'' ''k'' ''w'' 300000 (holding signed_intent) = (Inl e, holding signed_intent)"
  by (simp_all add: prepareWalletSignature_def assertAccess_def acquireLease_def transition_def andThen_def ensure_def ok_def
      getIntent_eq updateIntents_eq update_rows_def count_rows_def holding_def signed_intent_def moved_def leased_def sent_def
      arc_def isTerminal_def js_trim_def is_space_def apply_no_data)

lemma wallet_fair: "fair_env wallet_env"
  by (simp add: fair_env_def wallet_env_def reflpD [OF fair_refl] reflpD [OF kept_refl])

lemma wallet_signs:
  "map ptIntent (clPrompts (run_clients [(wallet_env, Sign_call sign_sent), (wallet_env, Sign_call sign_sent)] (browser (holding sent))))
     = [Some ''i'']"
proof -
  obtain e where e: "prepareWalletSignature arc 0 ''i'' ''k'' ''w'' 300000 (holding signed_intent) = (Inl e, holding signed_intent)"
    using prepare_signed(2) by blast
  show ?thesis
    by (simp add: run_clients_def executeTransaction_def getExternalWalletClient_def requestExternalWalletChain_def
        prepareIntent_def prepareWalletExecutionIntent_def backendFetch_def onDatabase_def write_run outside_def moment_def
        assertSupportedExternalWalletChain_def andThen_def ensure_def ensureR_def lift_def fromSome_def query_def ok_def truthy_def
        wallet_env_def browser_def sign_sent_def paying_env_def prepare_signed(1) e addr_def)
qed


end
