(* ===== verification/ClientPayrollProperties.thy ===== *)
theory ClientPayrollProperties
  imports ClientSigning
begin

text \<open>
  A payroll from the plan of the backend to the wallet: what is signed for a unit is the batch that was planned,
  the approval of a group covers its batches, and the run over the units ends.
\<close>

section \<open>Planned batches\<close>

text \<open>What validation and planning make sure of every recipient of a batch.\<close>

definition planned_recipient :: "evm \<Rightarrow> recipient_plan \<Rightarrow> bool" where
  "planned_recipient E p \<longleftrightarrow> getAddress E (rpAddress p) = Some (rpAddress p) \<and> is_amount (rpAmount p) \<and>
     rpUnits p = parseAmountToUnits (rpAmount p) 6 \<and> 0 < rpUnits p"

lemma planned_recipients:
  assumes "evm_laws E" "validatePayroll E payload = ([], rs)"
  shows "list_all (planned_recipient E) rs"
    "\<exists>entries. js_get ''recipients'' payload = JArr entries \<and>
       list_all2 (\<lambda>r p. js_get ''amount'' r = JStr (rpAmount p)) entries rs"
proof -
  let ?sender = "normalAddress E (js_str (js_get ''walletAddress'' payload))"
  let ?v = "\<lambda>(i, r). validateRecipient E (js_get ''sourceToken'' payload) (js_get ''sourceTokenAddress'' payload) ?sender i r"
  obtain e es where entries: "js_get ''recipients'' payload = JArr (e # es)"
    using assms(2) by (auto simp: validatePayroll_def Let_def split: js.splits list.splits)
  have parts: "\<forall>x\<in>set (enumerate 0 (e # es)). fst (?v x) = []" "rs = concat (map (\<lambda>x. snd (?v x)) (enumerate 0 (e # es)))"
    using assms(2) entries by (auto simp: validatePayroll_def Let_def comp_def)
  have "\<forall>(i, r)\<in>set (enumerate 0 (e # es)). \<exists>p. snd (?v (i, r)) = [p] \<and> sound_entry E payload r p"
    using parts(1) validateRecipient_sound [OF assms(1)] by fastforce
  then have entry: "list_all2 (sound_entry E payload) (e # es) rs"
    unfolding parts(2) by (intro enumerated_entries) auto
  have planned: "planned_recipient E p" if "sound_entry E payload r p" for r p
    using that parse_amount by (auto simp: sound_entry_def planned_recipient_def)
  show "list_all (planned_recipient E) rs"
    using entry planned by (induction rule: list_all2_induct) auto
  have "list_all2 (\<lambda>r p. js_get ''amount'' r = JStr (rpAmount p)) (e # es) rs"
    using entry by (rule list.rel_mono_strong) (simp add: sound_entry_def)
  then show "\<exists>entries. js_get ''recipients'' payload = JArr entries \<and>
      list_all2 (\<lambda>r p. js_get ''amount'' r = JStr (rpAmount p)) entries rs"
    using entries by blast
qed

text \<open>\<open>parseUnits\<close> of viem on the amounts that pass validation.\<close>

definition units_law :: "client_env \<Rightarrow> bool" where
  "units_law V \<longleftrightarrow> (\<forall>s. is_amount s \<longrightarrow> parseUnits (ceBackend V) s 6 = Some (parseAmountToUnits s 6))"

lemma amount_trim: "is_amount s \<Longrightarrow> js_trim s = s \<and> s \<noteq> []"
proof -
  assume s: "is_amount s"
  have digits: "list_all (\<lambda>c. \<not> is_space c) d" if "list_all is_digit d" for d
    using that by (rule list.pred_mono_strong) (auto simp: is_digit_def is_space_def Let_def)
  have whole: "list_all is_digit (before_dot s)" "before_dot s \<noteq> []" using s canonical_digits by (auto simp: is_amount_def)
  have "list_all (\<lambda>c. \<not> is_space c) s"
  proof (cases "before_dot s = s")
    case True
    then show ?thesis using digits [OF whole(1)] by simp
  next
    case False
    then have "list_all is_digit (after_dot s)" using s by (auto simp: is_amount_def)
    then have "list_all (\<lambda>c. \<not> is_space c) (before_dot s @ CHR ''.'' # after_dot s)"
      using digits [OF whole(1)] digits by (simp add: is_space_def)
    moreover have "s = before_dot s @ CHR ''.'' # after_dot s" using dot_split [of s] False by simp
    ultimately show ?thesis by metis
  qed
  then show ?thesis using trim_no_space whole(2) by (auto simp: before_dot_def)
qed

lemma client_units: "units_law V \<Longrightarrow> is_amount s \<Longrightarrow> clientUnits V s 6 = parseAmountToUnits s 6"
  using amount_trim [of s] by (simp add: clientUnits_def units_law_def)

lemma address_trim: "evm_laws E \<Longrightarrow> getAddress E a = Some c \<Longrightarrow> js_trim a = a"
proof -
  assume "evm_laws E" "getAddress E a = Some c"
  then have a: "is_hex_address a" by (rule getAddress_Some(4))
  have hex: "is_hex c \<Longrightarrow> \<not> is_space c" for c by (auto simp: is_hex_def is_space_def Let_def)
  have "a = ''0x'' @ drop 2 a" using a append_take_drop_id [of 2 a] by (simp only: is_hex_string_def)
  moreover have "list_all (\<lambda>c. \<not> is_space c) ''0x''" by (simp add: is_space_def)
  moreover have "list_all (\<lambda>c. \<not> is_space c) (drop 2 a)"
    using a hex by (auto simp: is_hex_string_def elim: list.pred_mono_strong)
  ultimately have "list_all (\<lambda>c. \<not> is_space c) a" by (metis list_all_append)
  then show ?thesis by (rule trim_no_space)
qed

section \<open>The drafts of a unit\<close>

definition plan_draft :: "recipient_plan \<Rightarrow> recipient_draft" where
  "plan_draft p = \<lparr>rdAddress = rpAddress p, rdAmount = rpAmount p, rdToken = rpToken p\<rparr>"

lemma draft_of_plan: "draftOf (recipient_json p) = Inr (plan_draft p)"
  by (simp add: draftOf_def recipient_json_def js_get_def plan_draft_def)

lemma unit_drafts:
  assumes "unitPayload u = unit_json B ref source b r"
  shows "toRecipientDraftBatch u = Inr (map plan_draft (bRecipients b))"
    "unitReference u plan = getBatchReferenceId (rounded B) ref (bIndex b)"
proof -
  have "mapR draftOf (map recipient_json ps) = Inr (map plan_draft ps)" for ps
    by (induction ps) (simp_all add: draft_of_plan)
  then show "toRecipientDraftBatch u = Inr (map plan_draft (bRecipients b))"
    "unitReference u plan = getBatchReferenceId (rounded B) ref (bIndex b)"
    using assms by (simp_all add: toRecipientDraftBatch_def unitReference_def unit_json_def js_get_def js_items_def)
qed

lemma prepared_plan:
  assumes "evm_laws (ceEvm V)" "units_law V" "planned_recipient (ceEvm V) p"
    and "ceTokens V (rpToken p) = Some t" "tkDecimals t = 6"
  shows "prepareRecipient V (plan_draft p) =
    Inr \<lparr>pcAddress = rpAddress p, pcUnits = rpUnits p, pcToken = rpToken p, pcValid = True\<rparr>"
proof -
  have a: "getAddress (ceEvm V) (rpAddress p) = Some (rpAddress p)" using assms(3) by (simp add: planned_recipient_def)
  have "js_trim (rpAddress p) = rpAddress p" "isAddress (ceEvm V) (rpAddress p)"
    using address_trim [OF assms(1) a] getAddress_Some(2) [OF assms(1) a] by simp_all
  then show ?thesis
    using a assms(2-5) client_units [OF assms(2)]
    by (simp add: prepareRecipient_def plan_draft_def normalAddress_def tokenOf_def fromSome_def planned_recipient_def)
qed

section \<open>What the wallet was shown\<close>

text \<open>The hash of a run of the executor is the answer of the wallet to a request among those on record.\<close>

definition signed_for :: "client_env \<Rightarrow> execute_params \<Rightarrow> string \<Rightarrow> prompt \<Rightarrow> bool" where
  "signed_for V x h p \<longleftrightarrow> (\<exists>n. ceWallet V n p = Inr h) \<and> ptTo p = exTo x \<and> ptCall p = exCall x \<and> ptValue p = exValue x \<and>
     ptIntent p = (if truthy (exIntent x) then exIntent x else None)"

lemma execute_signed:
  assumes "executeTransaction V prepared x w = (Inr y, v)"
  shows "\<exists>p\<in>set (clPrompts v). signed_for V x (erHash y) p"
proof -
  obtain lease u where u: "writeContractTransaction V \<lparr>ptTo = exTo x, ptCall = exCall x, ptValue = exValue x,
       ptIntent = (if truthy (exIntent x) then exIntent x else None)\<rparr> u = (Inr (erHash y), v)"
    using assms by (auto simp: executeTransaction_def andThen_Inr_iff)
  show ?thesis
  proof (rule bexI)
    show "\<lparr>ptTo = exTo x, ptCall = exCall x, ptValue = exValue x,
       ptIntent = (if truthy (exIntent x) then exIntent x else None)\<rparr> \<in> set (clPrompts v)"
      using u by (auto simp: write_run Let_def)
    show "signed_for V x (erHash y) \<lparr>ptTo = exTo x, ptCall = exCall x, ptValue = exValue x,
       ptIntent = (if truthy (exIntent x) then exIntent x else None)\<rparr>"
      using u by (auto simp: signed_for_def write_run Let_def)
  qed
qed

lemma fair_prompts: "fair w v \<Longrightarrow> set (clPrompts w) \<subseteq> set (clPrompts v)"
  by (auto simp: fair_def)

text \<open>A submitted batch: the call that was signed and the value that went with it.\<close>

lemma submit_signed:
  assumes "submitPayroll V W contract rs tout same allowance balance reference i key w = (Inr h, v)" "fair_env V" "i \<noteq> []"
  obtains f worth p where "p \<in> set (clPrompts v)"
    "signed_for V \<lparr>exTo = contract, exCall = payrollCall W tout same rs f reference, exValue = worth, exIntent = Some i,
       exKey = Some key\<rparr> h p"
    "if same then worth = 0 \<and> sameTokenFunding (map pcUnits rs) (vwFeeBps W) = Inr (ftFunding f)
     else nativePayrollValue (ceEvm V) (vwTokenIn W) (ftFunding f) = Inr worth"
    "\<exists>approval. payrollApprovalTarget (ceEvm V) (vwTokenIn W) tout (ftFunding f) = Inr approval \<and>
       (\<forall>t a. approval = Some (t, a) \<longrightarrow> a \<le> ftAllowance f)"
proof -
  obtain f worth x u s where steps:
      "(if same then andThen (lift (sameTokenFunding (map pcUnits rs) (vwFeeBps W))) (\<lambda>funding.
          ok \<lparr>ftFunding = funding, ftAllowance = allowance, ftMinOut = 0, ftMinHop = 0, ftDeadline = 0\<rparr>)
        else crossFunding V W contract tout (map pcUnits rs) allowance balance reference) w = (Inr f, s)"
      "(if same then Inr 0 else nativePayrollValue (ceEvm V) (vwTokenIn W) (ftFunding f)) = Inr worth"
      "\<exists>approval. payrollApprovalTarget (ceEvm V) (vwTokenIn W) tout (ftFunding f) = Inr approval \<and>
         (\<forall>t a. approval = Some (t, a) \<longrightarrow> a \<le> ftAllowance f)"
      "executeTransaction V (\<lambda>_. ok ()) \<lparr>exTo = contract, exCall = payrollCall W tout same rs f reference, exValue = worth,
         exIntent = Some i, exKey = Some key\<rparr> s = (Inr x, u)"
      "(if i \<noteq> [] \<and> erHash x \<noteq> [] \<and> truthy (erLease x)
        then andThen (bindExecutionIntentTransactionHash V i (erHash x) key (erLease x)) (\<lambda>_. ok ()) else ok ()) u = (Inr (), v)"
      "erHash x = h"
    using assms(1) unfolding submitPayroll_def andThen_Inr_iff
    by (elim exE conjE) (fastforce split: option.splits)
  have keep: "keeps fair (if i \<noteq> [] \<and> erHash x \<noteq> [] \<and> truthy (erLease x)
        then andThen (bindExecutionIntentTransactionHash V i (erHash x) key (erLease x)) (\<lambda>_. ok ()) else ok ())"
    by (intro fair_rules fair_api assms(2))
  then have later: "set (clPrompts u) \<subseteq> set (clPrompts v)" using fair_prompts keepsD [OF keep steps(5)] by blast
  obtain p where p: "p \<in> set (clPrompts u)" "signed_for V \<lparr>exTo = contract, exCall = payrollCall W tout same rs f reference,
       exValue = worth, exIntent = Some i, exKey = Some key\<rparr> h p"
    using execute_signed [OF steps(4)] steps(6) by blast
  show ?thesis
  proof (rule that [OF _ p(2)])
    show "p \<in> set (clPrompts v)" using p(1) later by blast
    show "if same then worth = 0 \<and> sameTokenFunding (map pcUnits rs) (vwFeeBps W) = Inr (ftFunding f)
     else nativePayrollValue (ceEvm V) (vwTokenIn W) (ftFunding f) = Inr worth"
      using steps(1,2) by (auto simp: andThen_Inr_iff split: if_splits)
  qed (rule steps(3))
qed

lemma submit_run:
  assumes "handleSubmit V W drafts ref i key w = (Inr (Inr h), v)"
  obtains contract rs outs allowance balance u where "ceContract V = Some contract"
    "prepareBatchRecipients V drafts = Inr rs" "rs \<noteq> []" "list_all pcValid rs"
    "mapR (\<lambda>r. bindR (tokenOf V (pcToken r)) (\<lambda>t. Inr (tkAddress t))) rs = Inr outs"
    "submitPayroll V W contract rs (hd outs) (toLowerCase (hd outs) = toLowerCase (vwTokenIn W)) allowance balance (js_trim ref) i key u
       = (Inr h, v)"
  using assms unfolding handleSubmit_def Let_def
  by (auto simp: andThen_Inr_iff requireWizPayAddress_def attempting_def split: if_splits prod.splits)

section \<open>What is signed is what was planned\<close>

text \<open>The call of the contract as the verifier of the backend decodes it from the transaction.\<close>

fun decoded_call :: "signed_call \<Rightarrow> payroll_call option" where
  "decoded_call (Same_payroll_call t payees us ref) = Some (Same_token t payees (map nat us) ref)"
| "decoded_call (Cross_payroll_call tin tout payees us funding minOut minHop deadline ref) =
     Some (Cross_token tin tout payees (map nat us) (nat funding) ref)"
| "decoded_call _ = None"

lemma equal_addresses:
  "evm_laws E \<Longrightarrow> equalR E a b = Inr q \<longleftrightarrow> is_hex_address a \<and> is_hex_address b \<and> q = (toLowerCase a = toLowerCase b)"
  by (auto simp: equalR_def fromSome_def isAddressEqual_eq)

lemma checksum_hex: "evm_laws E \<Longrightarrow> is_hex_address a \<Longrightarrow> \<exists>c. checksum E a = Inr c \<and> is_hex_address c \<and> toLowerCase c = toLowerCase a"
  using getAddress_defined [of E a] getAddress_Some [of E a] by (auto simp: checksum_def fromSome_def split: option.splits)

text \<open>The recipients of a batch are of one token, and there are some.\<close>

lemma split_batch:
  assumes "b \<in> set (splitIntoBatches rs)"
  shows "bRecipients b \<noteq> []" "set (bRecipients b) \<subseteq> set rs" "\<exists>tok. \<forall>p\<in>set (bRecipients b). rpToken p = tok"
proof -
  obtain n where n: "n < length (splitIntoBatches rs)" "b = splitIntoBatches rs ! n"
    using assms by (metis in_set_conv_nth)
  obtain tok g where g: "(tok, g) \<in> set (groupByToken rs)" "bRecipients b \<in> set (chunks g)"
    using batch_nth(1) [OF n(1)] n(2) by blast
  have "g = of_token tok rs" using g(1) grouped_groups [of rs] by (auto simp: grouped_def)
  then have "set g \<subseteq> {p \<in> set rs. rpToken p = tok}" by auto
  then show "bRecipients b \<noteq> []" "set (bRecipients b) \<subseteq> set rs" "\<exists>tok. \<forall>p\<in>set (bRecipients b). rpToken p = tok"
    using chunk_bounds [OF g(2)] by (auto, blast)
qed

lemma planned_pays:
  assumes "evm_laws E" "list_all (planned_recipient E) ps" "equalR E t token = Inr True"
    "pqRecipients q = map (\<lambda>p. (rpAddress p, show_int (rpUnits p))) ps" "pqReference q = ref"
    "checksum E c = Inr t"
  shows "assertCallRecipients E c token (map rpAddress ps) (map nat (map rpUnits ps)) ref q = Inr ()"
    "mapR (checksum E) (map rpAddress ps) = Inr (map rpAddress ps)"
proof -
  have one: "samePay E ((rpAddress p, nat (rpUnits p)), rpAddress p, show_int (rpUnits p)) = Inr True" "checksum E (rpAddress p) = Inr (rpAddress p)"
    if "planned_recipient E p" for p
  proof -
    have a: "getAddress E (rpAddress p) = Some (rpAddress p)" "0 < rpUnits p" using that by (simp_all add: planned_recipient_def)
    show checksum: "checksum E (rpAddress p) = Inr (rpAddress p)" using a by (simp add: checksum_def)
    have "toBigInt (show_int (rpUnits p)) = Inr (rpUnits p)"
      using toBigInt_digits [OF show_nat_digits show_nat_nonempty] a(2) by (simp add: show_int_def)
    then show "samePay E ((rpAddress p, nat (rpUnits p)), rpAddress p, show_int (rpUnits p)) = Inr True"
      using a checksum getAddress_Some(3) [OF assms(1) a(1)] by (auto simp: samePay_def equal_addresses [OF assms(1)])
  qed
  have "list_all (\<lambda>x. samePay E x = Inr True) (zip (zip (map rpAddress ps) (map nat (map rpUnits ps))) (pqRecipients q))"
    using assms(2) one(1) unfolding assms(4) by (induction ps) simp_all
  then have "allR (map (samePay E) (zip (zip (map rpAddress ps) (map nat (map rpUnits ps))) (pqRecipients q))) = Inr True"
    by (simp add: allR_True list_all_iff)
  then show "assertCallRecipients E c token (map rpAddress ps) (map nat (map rpUnits ps)) ref q = Inr ()"
    using assms(3-6) by (simp add: assertCallRecipients_def)
  show "mapR (checksum E) (map rpAddress ps) = Inr (map rpAddress ps)"
    using assms(2) one(2) by (induction ps) simp_all
qed

lemma prepared_batch:
  assumes "evm_laws (ceEvm V)" "units_law V" "list_all (planned_recipient (ceEvm V)) ps"
    and "\<forall>p\<in>set ps. rpToken p = tok" "ceTokens V tok = Some t" "tkDecimals t = 6"
  shows "prepareBatchRecipients V (map plan_draft ps) =
    Inr (map (\<lambda>p. \<lparr>pcAddress = rpAddress p, pcUnits = rpUnits p, pcToken = tok, pcValid = True\<rparr>) ps)"
  using assms(3,4) prepared_plan [OF assms(1,2) _ _ assms(6)] assms(5)
  by (induction ps) (simp_all add: prepareBatchRecipients_def)

text \<open>What was paid in, which the wallet and the verifier compute each on its own.\<close>

lemma native_value:
  assumes "evm_laws E" "nativePayrollValue E tin amount = Inr worth" "toLowerCase cin = toLowerCase tin" "is_hex_address cin"
  obtains native where "equalR E cin CLIENT_USDC = Inr native" "nat worth = (if native then nat amount * 1000000000000 else 0)"
  using assms
  by (auto simp: nativePayrollValue_def equal_addresses [OF assms(1)] USDC_NATIVE_SCALE_def nat_mult_distrib)

lemma signed_call_verifies:
  assumes "evm_laws E" "list_all (planned_recipient E) ps" "getAddress E tout = Some token" "pnUsdc N = CLIENT_USDC"
    and q: "pqRecipients q = map (\<lambda>p. (rpAddress p, show_int (rpUnits p))) ps" "pqReference q = ref"
    and prepared: "rs = map (\<lambda>p. \<lparr>pcAddress = rpAddress p, pcUnits = rpUnits p, pcToken = tok, pcValid = True\<rparr>) ps"
    and target: "payrollApprovalTarget E (vwTokenIn W) tout (ftFunding f) = Inr approval"
    and sent: "if toLowerCase tout = toLowerCase (vwTokenIn W) then worth = 0 else nativePayrollValue E (vwTokenIn W) (ftFunding f) = Inr worth"
  shows "\<exists>call vc. decoded_call (payrollCall W tout (toLowerCase tout = toLowerCase (vwTokenIn W)) rs f ref) = Some call \<and>
    verifyMainnetCall E N call (nat worth) token q = Inr vc"
proof -
  have tin: "is_hex_address (vwTokenIn W)"
    using target by (auto simp: payrollApprovalTarget_def equal_addresses [OF assms(1)])
  have token: "is_hex_address token" "toLowerCase token = toLowerCase tout" "is_hex_address tout"
    using getAddress_Some [OF assms(1,3)] by simp_all
  obtain cin where cin: "checksum E (vwTokenIn W) = Inr cin" "is_hex_address cin" "toLowerCase cin = toLowerCase (vwTokenIn W)"
    using checksum_hex [OF assms(1) tin] by blast
  have out: "checksum E tout = Inr token" using assms(3) by (simp add: checksum_def)
  have rs: "map pcAddress rs = map rpAddress ps" "map pcUnits rs = map rpUnits ps" unfolding prepared by simp_all
  show ?thesis
  proof (cases "toLowerCase tout = toLowerCase (vwTokenIn W)")
    case True
    then have "equalR E cin token = Inr True" using cin token by (simp add: equal_addresses [OF assms(1)])
    from planned_pays [OF assms(1,2) this q cin(1)] cin(1) True sent show ?thesis
      by (simp add: payrollCall_def rs verifyMainnetCall_def)
  next
    case False
    then have worth: "nativePayrollValue E (vwTokenIn W) (ftFunding f) = Inr worth" using sent by simp
    obtain native where native: "equalR E cin CLIENT_USDC = Inr native"
        "nat worth = (if native then nat (ftFunding f) * 1000000000000 else 0)"
      by (rule native_value [OF assms(1) worth cin(3,2)])
    have "equalR E token token = Inr True" using token by (simp add: equal_addresses [OF assms(1)])
    from planned_pays [OF assms(1,2) this q out] cin(1) out native False assms(4) show ?thesis
      by (simp add: payrollCall_def rs verifyMainnetCall_def)
  qed
qed

text \<open>
  C38: what the wallet signs for a unit is the batch the backend planned, whatever else happens meanwhile.  When a unit
  of a validated plan ends with a hash that was not found in the ledger, the wallet answered a request with this
  hash that was made for the intent of the unit, to the configured contract, with a call and a value
  that the receipt verifier of the backend accepts for the batch and its intent: every planned recipient once, in order, with its exact
  amount of the planned token.
\<close>

theorem signed_as_planned:
  assumes "evm_laws (ceEvm V)" "units_law V" "fair_env V" "pnUsdc N = CLIENT_USDC"
    and "validatePayroll (ceEvm V) payload = ([], rs)" "b \<in> set (splitIntoBatches rs)"
    and "unitPayload u = unit_json (ceBackend V) ref source b r" "intentId r \<noteq> []"
    and "externalReference r = js_trim (unitReference u plan)"
    and "ceTokens V (rpToken (hd (bRecipients b))) = Some t" "tkDecimals t = 6" "getAddress (ceEvm V) (tkAddress t) = Some (tokenOut r)"
    and "sendUnit V W u (unitReference u plan) (intentId r) key None w = (Inr (Inr h), v)"
  shows "\<exists>p\<in>set (clPrompts v). (\<exists>n. ceWallet V n p = Inr h) \<and> ptIntent p = Some (intentId r) \<and>
    ceContract V = Some (ptTo p) \<and>
    (\<exists>call vc. decoded_call (ptCall p) = Some call \<and>
       verifyMainnetCall (ceEvm V) N call (nat (ptValue p)) (tokenOut r) (batchQuery h r b) = Inr vc)"
proof -
  let ?ps = "bRecipients b"
  note batch = split_batch [OF assms(6)]
  have ps: "list_all (planned_recipient (ceEvm V)) ?ps"
    using planned_recipients(1) [OF assms(1,5)] batch(2) by (auto simp: list_all_iff)
  have tokens: "\<forall>p\<in>set ?ps. rpToken p = rpToken (hd ?ps)" using batch(1,3) by (metis hd_in_set)
  obtain w' where run: "handleSubmit V W (map plan_draft ?ps) (unitReference u plan) (intentId r) key w' = (Inr (Inr h), v)"
    using assms(13) unit_drafts(1) [OF assms(7)] by (auto simp: sendUnit_def andThen_Inr_iff)
  obtain contract qs outs allowance balance s where steps: "ceContract V = Some contract"
      "prepareBatchRecipients V (map plan_draft ?ps) = Inr qs" "qs \<noteq> []"
      "mapR (\<lambda>r. bindR (tokenOf V (pcToken r)) (\<lambda>t. Inr (tkAddress t))) qs = Inr outs"
      "submitPayroll V W contract qs (hd outs) (toLowerCase (hd outs) = toLowerCase (vwTokenIn W)) allowance balance
         (js_trim (unitReference u plan)) (intentId r) key s = (Inr h, v)"
    by (rule submit_run [OF run])
  have qs: "qs = map (\<lambda>p. \<lparr>pcAddress = rpAddress p, pcUnits = rpUnits p, pcToken = rpToken (hd ?ps), pcValid = True\<rparr>) ?ps"
    using prepared_batch [OF assms(1,2) ps tokens assms(10,11)] steps(2) by simp
  have "hd outs = tkAddress t"
    using steps(3,4) assms(10) unfolding qs by (cases ?ps) (auto simp: tokenOf_def)
  then have token: "getAddress (ceEvm V) (hd outs) = Some (tokenOut r)" using assms(12) by simp
  show ?thesis
  proof (rule submit_signed [OF steps(5) assms(3,8)])
    fix f worth p
    assume p: "p \<in> set (clPrompts v)"
      "signed_for V \<lparr>exTo = contract,
         exCall = payrollCall W (hd outs) (toLowerCase (hd outs) = toLowerCase (vwTokenIn W)) qs f (js_trim (unitReference u plan)),
         exValue = worth, exIntent = Some (intentId r), exKey = Some key\<rparr> h p"
      and funds: "if toLowerCase (hd outs) = toLowerCase (vwTokenIn W)
         then worth = 0 \<and> sameTokenFunding (map pcUnits qs) (vwFeeBps W) = Inr (ftFunding f)
         else nativePayrollValue (ceEvm V) (vwTokenIn W) (ftFunding f) = Inr worth"
      and "\<exists>approval. payrollApprovalTarget (ceEvm V) (vwTokenIn W) (hd outs) (ftFunding f) = Inr approval \<and>
         (\<forall>t a. approval = Some (t, a) \<longrightarrow> a \<le> ftAllowance f)"
    then obtain approval where target: "payrollApprovalTarget (ceEvm V) (vwTokenIn W) (hd outs) (ftFunding f) = Inr approval" by blast
    have sent: "if toLowerCase (hd outs) = toLowerCase (vwTokenIn W) then worth = 0
       else nativePayrollValue (ceEvm V) (vwTokenIn W) (ftFunding f) = Inr worth"
      using funds by (simp split: if_splits)
    have "pqRecipients (batchQuery h r b) = map (\<lambda>p. (rpAddress p, show_int (rpUnits p))) ?ps"
      "pqReference (batchQuery h r b) = js_trim (unitReference u plan)"
      using assms(9) by (simp_all add: batchQuery_def)
    from signed_call_verifies [OF assms(1) ps token assms(4) this qs target sent] p steps(1) assms(8) show ?thesis
      by (intro bexI [OF _ p(1)]) (auto simp: signed_for_def)
  qed
qed

section \<open>The approval of a group\<close>

abbreviation with_fee :: "int \<Rightarrow> int \<Rightarrow> int" where
  "with_fee fee n \<equiv> n + n * fee div 10000"

lemma funding_sum: "list_all (\<lambda>n. 0 < n) ns \<Longrightarrow> fundingSum fee a ns = Inr (a + sum_list (map (with_fee fee) ns))"
  by (induction ns arbitrary: a) simp_all

lemma group_sum:
  "list_all (\<lambda>r. 0 < clientUnits V (rdAmount r) d) rs \<Longrightarrow>
   groupFeeInclusiveAmount V rs d fee = sum_list (map (\<lambda>r. with_fee fee (clientUnits V (rdAmount r) d)) rs)"
proof -
  assume "list_all (\<lambda>r. 0 < clientUnits V (rdAmount r) d) rs"
  then have "fold (\<lambda>r total. let n = clientUnits V (rdAmount r) d in if n \<le> 0 then total else total + with_fee fee n) rs a =
      a + sum_list (map (\<lambda>r. with_fee fee (clientUnits V (rdAmount r) d)) rs)" for a
    by (induction rs arbitrary: a) (simp_all add: Let_def)
  then show ?thesis by (simp add: groupFeeInclusiveAmount_def)
qed

text \<open>Splitting into batches does not change a sum over the recipients.\<close>

lemma split_sum: "sum_list (map f (concat (map bRecipients (splitIntoBatches rs)))) = sum_list (map f rs)" for f :: "recipient_plan \<Rightarrow> int"
proof -
  have "mset (concat (map bRecipients (splitIntoBatches rs))) = mset rs"
    by (rule mset_of_tokens) (simp add: concat_split of_token_concat [OF grouped_groups])
  then show ?thesis by (rule sum_list_mset_eq)
qed

lemma sum_batches:
  "sum_list (map (\<lambda>b. sum_list (map f (bRecipients b))) bs) = sum_list (map f (concat (map bRecipients bs)))" for f :: "recipient_plan \<Rightarrow> int"
  by (induction bs) simp_all

lemma init_amounts:
  assumes "initPayload V W groupRef ref drafts = Inr payload" "js_get ''recipients'' payload = JArr entries"
  shows "list_all2 (\<lambda>d e. js_get ''amount'' e = JStr (rdAmount d)) drafts entries"
proof -
  obtain items where items: "mapR (\<lambda>r. bindR (tokenOf V (rdToken r)) (\<lambda>t.
        Inr (JObj [(''address'', JStr (rdAddress r)), (''amount'', JStr (rdAmount r)), (''targetToken'', JStr (rdToken r)),
          (''targetTokenAddress'', JStr (tkAddress t))]))) drafts = Inr items"
      "payload = JObj [(''sourceToken'', JStr (tkSymbol (vwToken W))), (''sourceTokenAddress'', JStr (vwTokenIn W)),
       (''referenceId'', JStr groupRef), (''runReferenceId'', JStr ref), (''walletAddress'', JStr (the (ceAddress V))),
       (''recipients'', JArr items)]"
    using assms(1) by (auto simp: initPayload_def)
  have "entries = items" using assms(2) items(2) by (simp add: js_get_def)
  then show ?thesis
    using items(1) unfolding mapR_Inr by (auto elim!: list.rel_mono_strong simp: js_get_def)
qed

text \<open>An approval that went through was seen on the chain.\<close>

lemma poll_allowance:
  "pollAllowance V W spender required n w = (Inr (), v) \<Longrightarrow>
   \<exists>k a. ceAllowance V k (vwTokenIn W) (the (ceAddress V)) spender = Some a \<and> required \<le> a"
proof (induction n arbitrary: w)
  case (Suc n)
  then show ?case
    by (fastforce simp: andThen_Inr_iff readAllowance_def outside_def fromSome_def split: if_splits option.splits)
qed simp

lemma approved_allowance:
  assumes "requestApproval V W amount ref w = (Inr (Inr h), v)"
  shows "\<exists>k a. ceAllowance V k (vwTokenIn W) (the (ceAddress V)) (the (ceContract V)) = Some a \<and> amount \<le> a"
  using assms unfolding requestApproval_def approveSpender_def waitForAllowanceUpdate_def attempting_def
  by (auto simp: andThen_Inr_iff split: if_splits prod.splits dest!: poll_allowance)

lemma planned_amounts:
  assumes "evm_laws (ceEvm V)" "units_law V" "initPayload V W groupRef ref drafts = Inr payload"
    and "validatePayroll (ceEvm V) payload = ([], rs)"
  shows "map (\<lambda>d. clientUnits V (rdAmount d) 6) drafts = map rpUnits rs" "list_all (\<lambda>p. 0 < rpUnits p) rs"
proof -
  note plan = planned_recipients [OF assms(1,4)]
  obtain entries where e: "js_get ''recipients'' payload = JArr entries"
      "list_all2 (\<lambda>r p. js_get ''amount'' r = JStr (rpAmount p)) entries rs" using plan(2) by blast
  have "list_all2 (\<lambda>d p. rdAmount d = rpAmount p) drafts rs"
    using list_all2_trans [OF _ init_amounts [OF assms(3) e(1)] e(2)] by simp
  then show "map (\<lambda>d. clientUnits V (rdAmount d) 6) drafts = map rpUnits rs"
    using plan(1)
    by (induction rule: list_all2_induct) (simp_all add: client_units [OF assms(2)] planned_recipient_def)
  show "list_all (\<lambda>p. 0 < rpUnits p) rs" using plan(1) by (auto simp: planned_recipient_def elim: list.pred_mono_strong)
qed

text \<open>
  C39: the approval of a group pays for its batches.  For a group whose payload the backend validates, every batch
  it is split into has a funding in the client, the fundings of all batches add up to the amount the client computes
  for the group, and an approval that went through was seen on the chain with an allowance of at least
  that.
\<close>

theorem approval_covers_batches:
  assumes "evm_laws (ceEvm V)" "units_law V" "tkDecimals (vwToken W) = 6"
    and "initPayload V W groupRef ref drafts = Inr payload" "validatePayroll (ceEvm V) payload = ([], rs)"
    and "requestApproval V W (requiredApproval V W drafts hint) groupRef w = (Inr (Inr h), v)"
  shows "\<exists>fundings. list_all2 (\<lambda>b n. sameTokenFunding (map rpUnits (bRecipients b)) (vwFeeBps W) = Inr n) (splitIntoBatches rs) fundings \<and>
    sum_list fundings = groupFeeInclusiveAmount V drafts (tkDecimals (vwToken W)) (vwFeeBps W) \<and>
    (\<exists>n a. ceAllowance V n (vwTokenIn W) (the (ceAddress V)) (the (ceContract V)) = Some a \<and> sum_list fundings \<le> a)"
proof -
  let ?fee = "with_fee (vwFeeBps W)" and ?bs = "splitIntoBatches rs"
  let ?funds = "map (\<lambda>b. sum_list (map (?fee \<circ> rpUnits) (bRecipients b))) ?bs"
  note amounts = planned_amounts [OF assms(1,2,4,5)]
  have "sameTokenFunding (map rpUnits (bRecipients b)) (vwFeeBps W) = Inr (sum_list (map (?fee \<circ> rpUnits) (bRecipients b)))"
    if "b \<in> set ?bs" for b
  proof -
    have "list_all (\<lambda>n. 0 < n) (map rpUnits (bRecipients b))"
      using amounts(2) split_batch(2) [OF that] by (auto simp: list_all_iff)
    from funding_sum [OF this] show ?thesis by (simp add: sameTokenFunding_def comp_def)
  qed
  then have each: "list_all2 (\<lambda>b n. sameTokenFunding (map rpUnits (bRecipients b)) (vwFeeBps W) = Inr n) ?bs ?funds"
    unfolding list_all2_map2 list_all2_same by blast
  have "sum_list ?funds = sum_list (map (?fee \<circ> rpUnits) (concat (map bRecipients ?bs)))"
    by (simp add: sum_batches)
  also have "\<dots> = sum_list (map ?fee (map rpUnits rs))" by (simp add: split_sum)
  also have "\<dots> = sum_list (map (\<lambda>d. ?fee (clientUnits V (rdAmount d) 6)) drafts)"
    by (simp add: amounts(1) [symmetric] comp_def)
  also have "\<dots> = groupFeeInclusiveAmount V drafts 6 (vwFeeBps W)"
  proof (rule group_sum [symmetric])
    have "list_all (\<lambda>n. 0 < n) (map rpUnits rs)" using amounts(2) by (simp add: list_all_iff)
    then show "list_all (\<lambda>r. 0 < clientUnits V (rdAmount r) 6) drafts"
      unfolding amounts(1) [symmetric] by (simp add: list_all_iff)
  qed
  finally have total: "sum_list ?funds = groupFeeInclusiveAmount V drafts 6 (vwFeeBps W)" .
  then have "sum_list ?funds \<le> requiredApproval V W drafts hint" using assms(3) by (simp add: requiredApproval_def Let_def)
  then have "\<exists>n a. ceAllowance V n (vwTokenIn W) (the (ceAddress V)) (the (ceContract V)) = Some a \<and> sum_list ?funds \<le> a"
    using approved_allowance [OF assms(6)] order_trans by blast
  then show ?thesis using each total unfolding assms(3) by blast
qed

end
