(* ===== verification/ClientRuns.thy ===== *)
theory ClientRuns
  imports ClientFrame
begin

text \<open>
  The loop over the units of a plan ends: every unit that is reported leaves the pending units of its task, which
  nobody adds to, and the next unit is one of them.
\<close>

section \<open>Pending units\<close>

definition pending :: "string \<Rightarrow> db \<Rightarrow> string set" where
  "pending i s = unitId ` {u \<in> set (units s). unitTaskId u = i \<and> unitStatus u = UNIT_PENDING}"

definition settles_task :: "string \<Rightarrow> db \<Rightarrow> db \<Rightarrow> bool" where
  "settles_task i s t \<longleftrightarrow> (tasks_ok s \<longrightarrow> tasks_ok t \<and> pending i t \<subseteq> pending i s)"

lemma settles_refl: "reflp (settles_task i)"
  by (simp add: reflp_def settles_task_def)

lemma settles_trans: "transp (settles_task i)"
  by (auto simp: transp_def settles_task_def)

lemma settles_only: "keeps intents_only m \<Longrightarrow> keeps (settles_task i) m"
  unfolding keeps_def settles_task_def using only_tasks_ok by (auto simp: pending_def intents_only_def)

text \<open>What is left after a report, and the unit it names as the next one.\<close>

lemma report_pending:
  assumes "units t = update_rows (\<lambda>u. unitId u = uid) (reported x) (units s)" "repStatus x \<noteq> UNIT_PENDING"
  shows "pending i t \<subseteq> pending i s - {uid}"
proof
  fix i'
  assume "i' \<in> pending i t"
  then obtain v where v: "v \<in> set (units s)" "i' = unitId (if unitId v = uid then reported x v else v)"
      "unitTaskId (if unitId v = uid then reported x v else v) = i"
      "unitStatus (if unitId v = uid then reported x v else v) = UNIT_PENDING"
    unfolding pending_def assms(1) update_rows_def set_map by blast
  have "unitId v \<noteq> uid" using v(4) assms(2) by auto
  with v show "i' \<in> pending i s - {uid}" by (auto simp: pending_def)
qed

lemma find_member: "find P xs = Some x \<Longrightarrow> x \<in> set xs \<and> P x"
  by (induction xs) (auto split: if_splits)

lemma next_pending:
  "findNextPendingUnit (mapTask (taskWithRelations t s)) = Some u \<Longrightarrow> unitId u \<in> pending (tId t) s"
  unfolding findNextPendingUnit_def
  by (drule find_member) (auto simp: mapTask_def taskWithRelations_def mapUnit_def pending_def Let_def)

lemma settles_report:
  assumes "tasks_ok s" "repStatus x \<noteq> UNIT_PENDING" "reportUnit (\<lambda>_. id) i uid x s = (r, t)"
  shows "settles_task j s t" "r = Inr y \<Longrightarrow> uid \<notin> pending i t" "r = Inr y \<Longrightarrow> rrNext y = Some u \<Longrightarrow> unitId u \<in> pending i t"
proof -
  have ok: "tasks_ok t" using keepsD [OF keeps_report assms(3)] assms(1) by (simp add: keeps_tasks_def)
  have "settles_task j s t \<and> (r = Inr y \<longrightarrow> uid \<notin> pending i t \<and> (rrNext y = Some u \<longrightarrow> unitId u \<in> pending i t))"
  proof (cases "findUnit i uid s")
    case None
    then have "t = s" "r = Inl UNIT_NOT_FOUND"
      using assms(3) by (simp_all add: reportUnit_def transaction_def andThen_def query_def lift_def fromSome_def)
    then show ?thesis using reflpD [OF settles_refl] by simp
  next
    case (Some v)
    obtain k where k: "findTask i s = Some k" using unit_parent [OF assms(1) Some] by blast
    have tid: "tId k = i" using find_row_Some [OF k [unfolded findTask_def]] by simp
    note run = assms(3) [unfolded reportUnit_run [OF assms(1) Some k] Let_def]
    show ?thesis
    proof (cases "unitStatus v = UNIT_PENDING")
      case True
      then have t: "t = report_state i uid x k v s" using run by simp
      then have units: "units t = update_rows (\<lambda>u. unitId u = uid) (reported x) (units s)" by (simp add: report_state_def)
      have "pending j t \<subseteq> pending j s" "uid \<notin> pending i t" using report_pending [OF units assms(2)] by blast+
      moreover have "unitId u \<in> pending i t" if "r = Inr y" "rrNext y = Some u"
        using run True that next_pending [of "counted_report x k" t u] tid by auto
      ultimately show ?thesis using ok by (simp add: settles_task_def)
    next
      case False
      have "uid \<notin> pending i s"
      proof
        assume "uid \<in> pending i s"
        then obtain w where w: "w \<in> set (units s)" "unitId w = uid" "unitTaskId w = i" "unitStatus w = UNIT_PENDING"
          by (auto simp: pending_def)
        have "v = w"
          using w(1,2) findUnit_id [OF assms(1) Some] assms(1)
          by (auto simp: tasks_ok_def units_unique_def distinct_map dest: inj_onD)
        with w False show False by simp
      qed
      moreover have "unitId u \<in> pending i s" if "r = Inr y" "rrNext y = Some u"
        using run False that next_pending [of k s u] tid by auto
      ultimately show ?thesis using run False reflpD [OF settles_refl] by auto
    qed
  qed
  then show "settles_task j s t" "r = Inr y \<Longrightarrow> uid \<notin> pending i t" "r = Inr y \<Longrightarrow> rrNext y = Some u \<Longrightarrow> unitId u \<in> pending i t"
    by simp_all
qed

lemmas settles_rules =
  keeps_ok [OF settles_refl] keeps_throw [OF settles_refl] keeps_lift [OF settles_refl] keeps_andThen [OF settles_trans]
  keeps_split

lemma settles_unit: "repStatus x \<noteq> UNIT_PENDING \<Longrightarrow> keeps (settles_task j) (reportUnit (\<lambda>_. id) i uid x)"
  using settles_report(1) by (intro keepsI) (auto simp: settles_task_def)

lemma settles_endpoint: "repStatus x \<noteq> UNIT_PENDING \<Longrightarrow> keeps (settles_task j) (reportTaskUnit V now i uid x iid)"
  unfolding reportTaskUnit_def by (intro settles_rules settles_only [OF only_confirm] settles_unit)

lemma endpoint_Inr:
  assumes "reportTaskUnit V now i uid x iid s = (Inr y, t)" "tasks_ok s" "repStatus x \<noteq> UNIT_PENDING"
  shows "uid \<notin> pending i t" "rrNext y = Some u \<Longrightarrow> unitId u \<in> pending i t"
proof -
  obtain q where q: "(if repStatus x = UNIT_SUCCESS
        then andThen (confirmUnit V now i uid (case repTxHash x of Some h \<Rightarrow> h | None \<Rightarrow> None) iid) (\<lambda>_. ok ())
        else ok ()) s = (Inr (), q)" "reportUnit (\<lambda>_. id) i uid x q = (Inr y, t)"
    using assms(1) by (auto simp: reportTaskUnit_def andThen_Inr_iff)
  have "keeps (settles_task i) (if repStatus x = UNIT_SUCCESS
      then andThen (confirmUnit V now i uid (case repTxHash x of Some h \<Rightarrow> h | None \<Rightarrow> None) iid) (\<lambda>_. ok ()) else ok ())"
    by (intro settles_rules settles_only [OF only_confirm])
  from keepsD [OF this q(1)] have "settles_task i s q" .
  then have "tasks_ok q" using assms(2) by (simp add: settles_task_def)
  from settles_report(2,3) [OF this assms(3) q(2) refl]
  show "uid \<notin> pending i t" "rrNext y = Some u \<Longrightarrow> unitId u \<in> pending i t" by simp_all
qed

section \<open>The run of a client\<close>

definition task_settling :: "string \<Rightarrow> client \<Rightarrow> client \<Rightarrow> bool" where
  "task_settling i w v \<longleftrightarrow> settles_task i (clDb w) (clDb v)"

text \<open>The others add no unit to the task and keep its tables consistent.\<close>

definition steady_env :: "client_env \<Rightarrow> string \<Rightarrow> bool" where
  "steady_env V i \<longleftrightarrow> (\<forall>n w. task_settling i w (ceOthers V n w))"

lemma settling_refl: "reflp (task_settling i)"
  by (simp add: reflp_def task_settling_def settles_task_def)

lemma settling_trans: "transp (task_settling i)"
  by (auto simp: transp_def task_settling_def settles_task_def)

lemma settling_moment: "steady_env V i \<Longrightarrow> keeps (task_settling i) (moment V)"
  by (simp add: keeps_def moment_def steady_env_def task_settling_def)

lemma settling_fetch:
  assumes "steady_env V i" "\<And>n. keeps (settles_task i) (m n)"
  shows "keeps (task_settling i) (backendFetch V m)"
proof (rule keeps_fetch [OF settling_refl settling_trans settling_moment [OF assms(1)]])
  show "keeps (task_settling i) (onDatabase (m n))" for n
    using assms(2) [of n] by (auto simp: keeps_def task_settling_def onDatabase_def split: prod.splits) (metis snd_conv)
qed

lemmas settling_rules =
  keeps_ok [OF settling_refl] keeps_throw [OF settling_refl] keeps_query [OF settling_refl] keeps_ensure [OF settling_refl]
  keeps_lift [OF settling_refl] keeps_andThen [OF settling_trans] keeps_split

lemma settling_sign: "steady_env V i \<Longrightarrow> keeps (task_settling i) (executeTransaction V (\<lambda>_. ok ()) x)"
proof -
  assume env: "steady_env V i"
  have "keeps (task_settling i) (writeContractTransaction V p)" for p
    unfolding writeContractTransaction_def
    by (intro settling_rules settling_moment [OF env]) (simp add: keeps_def task_settling_def settles_task_def)
  then show ?thesis
    unfolding executeTransaction_def getExternalWalletClient_def requestExternalWalletChain_def prepareIntent_def
      prepareWalletExecutionIntent_def outside_def
    by (intro settling_rules settling_moment [OF env] settling_fetch [OF env] settles_only [OF only_prepare])
      (auto split: option.split switch_answer.split intro!: settling_rules settling_moment [OF env])
qed

lemma settling_api:
  assumes "steady_env V i"
  shows "keeps (task_settling i) (acquireExecutionIntent V x)" "keeps (task_settling i) (bindExecutionIntentTransactionHash V j h key owner)"
    "repStatus y \<noteq> UNIT_PENDING \<Longrightarrow> keeps (task_settling i) (backendFetch V (\<lambda>n. reportTaskUnit (ceBackend V) (ceNow V n) t uid y iid))"
  unfolding acquireExecutionIntent_def bindExecutionIntentTransactionHash_def
  by (intro settling_fetch [OF assms] settles_only only_acquire only_bindEndpoint settles_endpoint; assumption?)+

interpretation steady: client_frame "\<lambda>w v. steady_env V i \<longrightarrow> task_settling i w v" V for V i
proof (unfold_locales, unfold keeps_if_holds)
  show "reflp (\<lambda>w v. steady_env V i \<longrightarrow> task_settling i w v)" "transp (\<lambda>w v. steady_env V i \<longrightarrow> task_settling i w v)"
    using settling_refl settling_trans by (simp_all add: reflp_def transp_def) blast
  show "steady_env V i \<longrightarrow> keeps (task_settling i) (store_batch ref b)" for ref b
    by (simp add: keeps_def store_batch_def task_settling_def settles_task_def)
qed (simp_all add: settling_moment settling_api settling_sign)

text \<open>A unit that was run is settled, and the next one is still pending.\<close>

lemma unit_settles:
  assumes "runUnit V W plan u w = (Inr (nxt, refs), v)" "steady_env V (prTaskId plan)" "tasks_ok (clDb w)"
  shows "task_settling (prTaskId plan) w v" "unitId u \<notin> pending (prTaskId plan) (clDb v)"
    "nxt = Some u' \<Longrightarrow> unitId u' \<in> pending (prTaskId plan) (clDb v)"
proof -
  let ?i = "prTaskId plan"
  show "task_settling ?i w v" using keepsD [OF steady.unit assms(1), of ?i] assms(2) by blast
  obtain s result iid y where y: "steady_env V ?i \<longrightarrow> task_settling ?i w s"
      "backendFetch V (\<lambda>n. reportTaskUnit (ceBackend V) (ceNow V n) ?i (unitId u) (unitReport V result) iid) s = (Inr y, v)"
      "nxt = rrNext y"
    by (rule steady.unit_reports [OF assms(1), of ?i])
  obtain t where t: "moment V s = (Inr (clTick s), t)" by (simp add: moment_def)
  have "reportTaskUnit (ceBackend V) (ceNow V (clTick s)) ?i (unitId u) (unitReport V result) iid (clDb t) = (Inr y, clDb v)"
    using y(2) t by (auto simp: backendFetch_def andThen_def onDatabase_def throw_def split: delivery.splits prod.splits)
  moreover have "task_settling ?i w t"
    using y(1) keepsD [OF settling_moment t, of ?i] assms(2) transpD [OF settling_trans] by blast
  then have "tasks_ok (clDb t)" using assms(3) by (simp add: task_settling_def settles_task_def)
  ultimately show "unitId u \<notin> pending ?i (clDb v)" "nxt = Some u' \<Longrightarrow> unitId u' \<in> pending ?i (clDb v)"
    using endpoint_Inr [OF _ _ report_settled] y(3) by simp_all
qed

lemma finite_pending: "finite (pending i s)"
  by (simp add: pending_def)

lemma units_end:
  assumes "steady_env V (prTaskId plan)" "tasks_ok (clDb w)"
    "case u of None \<Rightarrow> True | Some x \<Rightarrow> unitId x \<in> pending (prTaskId plan) (clDb w)" "card (pending (prTaskId plan) (clDb w)) \<le> n"
  shows "fst (runUnits V W plan n u failed w) \<noteq> Inr None"
  using assms(2-)
proof (induction n arbitrary: u failed w)
  case 0
  then have "u = None" using finite_pending by (auto split: option.splits)
  then show ?case by (simp add: ok_def)
next
  case (Suc n)
  let ?i = "prTaskId plan"
  show ?case
  proof (cases u)
    case (Some x)
    obtain r v where r: "runUnit V W plan x w = (r, v)" by fastforce
    show ?thesis
    proof (cases r)
      case (Inr y)
      obtain nxt refs where y: "y = (nxt, refs)" by (cases y)
      note unit = unit_settles [OF r [unfolded Inr y] assms(1) Suc.prems(1)]
      have "pending ?i (clDb v) \<subset> pending ?i (clDb w)"
        using unit(1,2) Suc.prems(1,2) Some by (auto simp: task_settling_def settles_task_def)
      then have "card (pending ?i (clDb v)) < card (pending ?i (clDb w))" by (rule psubset_card_mono [OF finite_pending])
      then have "card (pending ?i (clDb v)) \<le> n" using Suc.prems(3) by simp
      moreover have "tasks_ok (clDb v)" using unit(1) Suc.prems(1) by (simp add: task_settling_def settles_task_def)
      moreover have "case nxt of None \<Rightarrow> True | Some x \<Rightarrow> unitId x \<in> pending ?i (clDb v)"
        using unit(3) by (simp split: option.split)
      ultimately show ?thesis using Suc.IH r Inr y Some by (simp add: andThen_def)
    qed (use r Some in \<open>simp add: andThen_def\<close>)
  qed (simp add: ok_def)
qed

text \<open>
  C40: the loop over the units of a plan ends.  Where the others add no unit to the task of the plan, one more
  round than the task has pending units is enough fuel, whatever unit the loop starts with and however requests,
  wallets and the chain answer.
\<close>

theorem run_ends:
  assumes "steady_env V (prTaskId plan)" "tasks_ok (clDb w)" "card (pending (prTaskId plan) (clDb w)) < n"
  shows "fst (runUnits V W plan n u failed w) \<noteq> Inr None"
proof (cases u)
  case (Some x)
  obtain m where m: "n = Suc m" using assms(3) by (cases n) simp_all
  obtain r v where r: "runUnit V W plan x w = (r, v)" by fastforce
  show ?thesis
  proof (cases r)
    case (Inr y)
    obtain nxt refs where y: "y = (nxt, refs)" by (cases y)
    note unit = unit_settles [OF r [unfolded Inr y] assms(1,2)]
    have later: "tasks_ok (clDb v)" "pending (prTaskId plan) (clDb v) \<subseteq> pending (prTaskId plan) (clDb w)"
      using unit(1) assms(2) by (simp_all add: task_settling_def settles_task_def)
    have "card (pending (prTaskId plan) (clDb v)) \<le> m"
      using card_mono [OF finite_pending later(2)] assms(3) m by simp
    then have "fst (runUnits V W plan m nxt (failed @ refs) v) \<noteq> Inr None"
      using unit(3) by (intro units_end [OF assms(1) later(1)]) (simp_all split: option.split)
    then show ?thesis using r Inr y Some m by (simp add: andThen_def)
  qed (use r Some m in \<open>simp add: andThen_def\<close>)
qed (use assms(3) in \<open>cases n; simp add: ok_def\<close>)

end
