(* ===== verification/ClientPayrollExamples.thy ===== *)
theory ClientPayrollExamples
  imports ClientExamples ClientPayrollProperties ClientRuns
begin

text \<open>The properties of a payroll run on a payroll of two recipients, paid in USDC and EURC.\<close>

section \<open>A wallet that pays\<close>

definition usdc_routing :: routing where
  "usdc_routing = arc\<lparr>tokens := (\<lambda>s. case s of USDC \<Rightarrow> Some (addr (CHR ''5'')) | EURC \<Rightarrow> None)\<rparr>"

definition payer_env :: client_env where
  "payer_env = wallet_env\<lparr>
     ceBackend := paying_env\<lparr>pyEvm := lower_evm, pyRouting := usdc_routing, parseUnits := (\<lambda>s d. Some (parseAmountToUnits s d))\<rparr>,
     ceAllowance := (\<lambda>_ _ _ _. Some 3000000), ceBalance := (\<lambda>_ _ _. Some 9000000),
     ceTokens := (\<lambda>_. Some \<lparr>tkSymbol = ''USDC'', tkAddress = addr (CHR ''5''), tkDecimals = 6\<rparr>)\<rparr>"

definition payer_view :: payroll_view where
  "payer_view = \<lparr>vwToken = \<lparr>tkSymbol = ''USDC'', tkAddress = addr (CHR ''5''), tkDecimals = 6\<rparr>,
     vwAllowance = 3000000, vwBalance = 9000000, vwFeeBps = 25\<rparr>"

lemma payer_facts [simp]:
  "ceEvm payer_env = lower_evm" "pyEvm (ceBackend payer_env) = lower_evm" "ceRouting payer_env = usdc_routing"
  "units_law payer_env" "fair_env payer_env" "steady_env payer_env i"
  by (simp_all add: payer_env_def units_law_def fair_env_def wallet_env_def reflpD [OF fair_refl] reflpD [OF kept_refl]
      steady_env_def reflpD [OF settling_refl])

lemma usdc_client: "is_hex_address CLIENT_USDC" "toLowerCase (addr (CHR ''5'')) \<noteq> toLowerCase CLIENT_USDC"
  by code_simp+

lemma hash_c: "is_hash (hash_of (CHR ''c''))" "toLowerCase (hash_of (CHR ''c'')) = hash_of (CHR ''c'')"
  by simp_all

section \<open>Signing and binding\<close>

definition asked_intent :: "intent \<Rightarrow> intent" where
  "asked_intent r = moved 0 AWAITING_WALLET_SIGNATURE (leased 0 ''w'' 300000 r)"

text \<open>An intent that is ready to be signed.\<close>

definition ready :: "intent \<Rightarrow> bool" where
  "ready r \<longleftrightarrow> status r = CREATED \<and> intentNetwork r = ARC_MAINNET \<and> leaseOwner r = None \<and> leaseExpiresAt r = None \<and>
     transactionHash r = None \<and> circleChallengeId r = None \<and> circleTransactionId r = None"

lemma ready_prepares:
  assumes "ready r"
  shows "prepareWalletSignature usdc_routing 0 (intentId r) (idempotencyKey r) ''w'' 300000 (holding r) =
    (Inr (asked_intent r), holding (asked_intent r))"
  using assms
  by (simp add: prepareWalletSignature_def assertAccess_def acquireLease_def transition_def andThen_def ensure_def ok_def
      getIntent_eq updateIntents_eq update_rows_def count_rows_def holding_def asked_intent_def moved_def leased_def ready_def
      usdc_routing_def arc_def isTerminal_def js_trim_def is_space_def apply_no_data)

lemma ready_binds:
  assumes "ready r"
  shows "\<exists>q d. bindHashEndpoint usdc_routing 0 (intentId r) (idempotencyKey r) (hash_of (CHR ''c'')) ''w''
    (holding (asked_intent r)) = (Inr q, d)"
  using assms
  by (simp add: bindHashEndpoint_def assertAccess_def bindHashOp_def numeral_2_eq_2 bindHashAttempt_def transactionHashOf_def
      assertLease_def andThen_def ensure_def ensureR_def lift_def ok_def catching_def interfere_def
      getIntent_eq updateIntents_eq update_rows_def count_rows_def holding_def asked_intent_def moved_def leased_def ready_def
      usdc_routing_def arc_def isTerminal_def truthy_def hash_c)

lemma payer_step:
  "moment payer_env w = (Inr (clTick w), w\<lparr>clTick := Suc (clTick w)\<rparr>)"
  "backendFetch payer_env m w = onDatabase (m (clTick w)) (w\<lparr>clTick := Suc (clTick w)\<rparr>)"
  by (simp_all add: backendFetch_def andThen_def moment_def payer_env_def wallet_env_def)

lemma ready_signs:
  assumes "ready r" "intentId r \<noteq> []" "idempotencyKey r \<noteq> []" "clDb w = holding r"
  shows "\<exists>v. executeTransaction payer_env (\<lambda>_. ok ())
      \<lparr>exTo = a, exCall = c, exValue = n, exIntent = Some (intentId r), exKey = Some (idempotencyKey r)\<rparr> w =
    (Inr \<lparr>erHash = hash_of (CHR ''c''), erLease = Some ''w''\<rparr>, v) \<and> clDb v = holding (asked_intent r)"
proof -
  have env: "cePublicClient payer_env" "ceAddress payer_env = Some (addr (CHR ''a''))" "ceHead payer_env n = Some 9"
      "ceArc payer_env = 5042" "ceWalletChain payer_env n = Some 5042" "ceWalletClient payer_env n"
      "ceFresh payer_env n k = ''w''" "ceNow payer_env n = 0" "ceWallet payer_env n p = Inr (hash_of (CHR ''c''))" for n k p
    by (simp_all add: payer_env_def wallet_env_def)
  show ?thesis
    using assms(2-4)
    by (simp add: executeTransaction_def getExternalWalletClient_def requestExternalWalletChain_def
        prepareIntent_def prepareWalletExecutionIntent_def payer_step onDatabase_def writeContractTransaction_def outside_def
        assertSupportedExternalWalletChain_def andThen_def ensure_def ensureR_def lift_def fromSome_def query_def ok_def truthy_def
        env ready_prepares [OF assms(1)])
qed

lemma ready_bound:
  assumes "ready r" "clDb w = holding (asked_intent r)"
  shows "\<exists>q v. bindExecutionIntentTransactionHash payer_env (intentId r) (hash_of (CHR ''c'')) (idempotencyKey r) (Some ''w'') w = (Inr q, v)"
proof -
  have now: "ceNow payer_env n = 0" for n by (simp add: payer_env_def wallet_env_def)
  obtain q d where "bindHashEndpoint usdc_routing 0 (intentId r) (idempotencyKey r) (hash_of (CHR ''c'')) ''w''
    (holding (asked_intent r)) = (Inr q, d)"
    using ready_binds [OF assms(1)] by blast
  then show ?thesis using assms(2) by (simp add: bindExecutionIntentTransactionHash_def payer_step onDatabase_def now)
qed

section \<open>The runs end\<close>

definition pair_run :: payroll_result where
  "pair_run = \<lparr>prTaskId = ''t'', prIntentId = ''i'', prIdempotencyKey = ''k'', prApproval = ''0'', prReference = ''PAY-1'',
     prTotalUnits = 1, prUnits = [pair_unit]\<rparr>"

theorem run_ends_witness:
  "fst (runUnits payer_env payer_view pair_run 2 (Some pair_unit) [] (browser one_unit)) \<noteq> Inr None"
proof (rule run_ends)
  show "steady_env payer_env (prTaskId pair_run)" by simp
  show "tasks_ok (clDb (browser one_unit))" using one_unit_ok by (simp add: browser_def)
  have "pending (prTaskId pair_run) (clDb (browser one_unit)) \<subseteq> {''u''}"
    by (auto simp: pending_def browser_def one_unit_def pair_unit_def newUnit_def)
  from card_mono [OF _ this] show "card (pending (prTaskId pair_run) (clDb (browser one_unit))) < 2" by simp
qed

section \<open>A unit is signed\<close>

definition usdc_batch :: batch where
  "usdc_batch = \<lparr>bIndex = 0, bRecipients = [pay_plan ''USDC''], bTotal = 2500000\<rparr>"

definition planned :: intent where
  "planned = sent\<lparr>tokenOut := addr (CHR ''5''), externalReference := ''PAY-1''\<rparr>"

definition planned_unit :: task_unit where
  "planned_unit = newUnit ''u'' ''t'' ''batch'' 0 (unit_json (ceBackend payer_env) ''PAY-1'' ''USDC'' usdc_batch planned)"

lemma usdc_batch_split: "usdc_batch \<in> set (splitIntoBatches [pay_plan ''USDC'', pay_plan ''EURC''])"
  by (simp add: splitIntoBatches_def groupByToken_def pay_plan_def chunks.simps MAX_BATCH_SIZE_def usdc_batch_def)

lemma planned_facts: "ready planned" "intentId planned = ''i''" "idempotencyKey planned = ''k''"
    "unitReference planned_unit plan = ''PAY-1''" "js_trim ''PAY-1'' = ''PAY-1''"
  by (simp_all add: ready_def planned_def sent_def unitReference_def planned_unit_def newUnit_def unit_json_def js_get_def
      getBatchReferenceId_def usdc_batch_def js_trim_def is_space_def)

lemma plan_prepared:
  "prepareBatchRecipients payer_env [plan_draft (pay_plan t)] =
     Inr [\<lparr>pcAddress = addr (CHR ''b''), pcUnits = 2500000, pcToken = t, pcValid = True\<rparr>]"
proof -
  have "planned_recipient lower_evm (pay_plan t)"
    by (simp add: planned_recipient_def pay_plan_def lower_evm_def half_amount)
  moreover have "ceTokens payer_env t = Some \<lparr>tkSymbol = ''USDC'', tkAddress = addr (CHR ''5''), tkDecimals = 6\<rparr>"
    by (simp add: payer_env_def)
  ultimately show ?thesis
    using prepared_batch [of payer_env "[pay_plan t]" t] by (simp add: lower_evm_laws) (simp add: pay_plan_def)
qed

lemma planned_sent:
  "\<exists>v. sendUnit payer_env payer_view planned_unit ''PAY-1'' ''i'' ''k'' None (browser (holding planned)) =
     (Inr (Inr (hash_of (CHR ''c''))), v)"
proof -
  let ?w = "(browser (holding planned))\<lparr>clBatches := (\<lambda>_. None)(''PAY-1'' := Some \<lparr>sbStatus = Batch_submitted, sbHash = None\<rparr>)\<rparr>"
  let ?p = "\<lparr>pcAddress = addr (CHR ''b''), pcUnits = 2500000, pcToken = ''USDC'', pcValid = True\<rparr>"
  have drafts: "toRecipientDraftBatch planned_unit = Inr [plan_draft (pay_plan ''USDC'')]"
    using unit_drafts(1) [of planned_unit "ceBackend payer_env" "''PAY-1''" "''USDC''" usdc_batch planned]
    by (simp add: planned_unit_def newUnit_def usdc_batch_def)
  have env: "cePublicClient payer_env" "ceAddress payer_env = Some (addr (CHR ''a''))" "ceContract payer_env = Some (addr (CHR ''c''))"
      "ceTokens payer_env t = Some \<lparr>tkSymbol = ''USDC'', tkAddress = addr (CHR ''5''), tkDecimals = 6\<rparr>" for t
    by (simp_all add: payer_env_def wallet_env_def)
  have target: "payrollApprovalTarget lower_evm (addr (CHR ''5'')) (addr (CHR ''5'')) n = Inr (Some (addr (CHR ''5''), n))" for n
    using usdc_client by (simp add: payrollApprovalTarget_def equalR_def lower_evm_def fromSome_def)
  obtain v where v: "executeTransaction payer_env (\<lambda>_. ok ()) \<lparr>exTo = addr (CHR ''c''),
      exCall = Same_payroll_call (addr (CHR ''5'')) [addr (CHR ''b'')] [2500000] ''PAY-1'', exValue = 0, exIntent = Some ''i'', exKey = Some ''k''\<rparr> ?w =
    (Inr \<lparr>erHash = hash_of (CHR ''c''), erLease = Some ''w''\<rparr>, v)" "clDb v = holding (asked_intent planned)"
    using ready_signs [OF planned_facts(1), of ?w "addr (CHR ''c'')"
        "Same_payroll_call (addr (CHR ''5'')) [addr (CHR ''b'')] [2500000] ''PAY-1''" 0] planned_facts(2,3)
    by (auto simp: browser_def)
  obtain q u where u: "bindExecutionIntentTransactionHash payer_env ''i'' (hash_of (CHR ''c'')) ''k'' (Some ''w'') v = (Inr q, u)"
    using ready_bound [OF planned_facts(1) v(2)] planned_facts(2,3) by auto
  have "submitPayroll payer_env payer_view (addr (CHR ''c'')) [?p] (addr (CHR ''5'')) True 3000000 9000000 ''PAY-1'' ''i'' ''k'' ?w =
     (Inr (hash_of (CHR ''c'')), u)"
    using v(1) u
    by (simp add: submitPayroll_def andThen_def lift_def ok_def ensure_def sameTokenFunding_def payer_view_def target payrollCall_def
        truthy_def)
  then show ?thesis
    by (simp add: sendUnit_def beginPayrollBatchSubmission_def browser_def store_batch_def andThen_def query_def lift_def ok_def
        drafts handleSubmit_def env truthy_def requireWizPayAddress_def fromSome_def plan_prepared latestFunds_def payer_view_def tokenOf_def Let_def
        attempting_def planned_facts)
qed

theorem signed_as_planned_witness:
  "\<exists>v p. sendUnit payer_env payer_view planned_unit ''PAY-1'' ''i'' ''k'' None (browser (holding planned)) =
       (Inr (Inr (hash_of (CHR ''c''))), v) \<and> p \<in> set (clPrompts v) \<and> ptIntent p = Some ''i'' \<and> ptTo p = addr (CHR ''c'') \<and>
     (\<exists>call vc. decoded_call (ptCall p) = Some call \<and>
        verifyMainnetCall lower_evm (pay_net\<lparr>pnUsdc := CLIENT_USDC\<rparr>) call (nat (ptValue p)) (addr (CHR ''5''))
          (batchQuery (hash_of (CHR ''c'')) planned usdc_batch) = Inr vc)"
proof -
  obtain v where v: "sendUnit payer_env payer_view planned_unit (unitReference planned_unit pair_run) (intentId planned) ''k'' None
      (browser (holding planned)) = (Inr (Inr (hash_of (CHR ''c''))), v)"
    using planned_sent planned_facts by auto
  have "\<exists>p\<in>set (clPrompts v). (\<exists>n. ceWallet payer_env n p = Inr (hash_of (CHR ''c''))) \<and> ptIntent p = Some (intentId planned) \<and>
    ceContract payer_env = Some (ptTo p) \<and>
    (\<exists>call vc. decoded_call (ptCall p) = Some call \<and>
       verifyMainnetCall (ceEvm payer_env) (pay_net\<lparr>pnUsdc := CLIENT_USDC\<rparr>) call (nat (ptValue p)) (tokenOut planned)
         (batchQuery (hash_of (CHR ''c'')) planned usdc_batch) = Inr vc)"
  proof (rule signed_as_planned [OF _ _ _ _ _ usdc_batch_split _ _ _ _ _ _ v])
    show "unitPayload planned_unit = unit_json (ceBackend payer_env) ''PAY-1'' ''USDC'' usdc_batch planned"
      by (simp add: planned_unit_def newUnit_def)
    show "validatePayroll (ceEvm payer_env) pay_payload = ([], [pay_plan ''USDC'', pay_plan ''EURC''])" by (simp add: valid_payload)
    show "externalReference planned = js_trim (unitReference planned_unit pair_run)"
      using planned_facts by (simp add: planned_def)
    show "ceTokens payer_env (rpToken (hd (bRecipients usdc_batch))) = Some \<lparr>tkSymbol = ''USDC'', tkAddress = addr (CHR ''5''), tkDecimals = 6\<rparr>"
      by (simp add: payer_env_def)
  qed (simp_all add: lower_evm_laws planned_facts, simp add: lower_evm_def planned_def)
  moreover have "tokenOut planned = addr (CHR ''5'')" "ceContract payer_env = Some (addr (CHR ''c''))"
    by (simp_all add: planned_def payer_env_def wallet_env_def)
  ultimately obtain p where "p \<in> set (clPrompts v)" "ptIntent p = Some ''i''" "ptTo p = addr (CHR ''c'')"
      "\<exists>call vc. decoded_call (ptCall p) = Some call \<and>
        verifyMainnetCall lower_evm (pay_net\<lparr>pnUsdc := CLIENT_USDC\<rparr>) call (nat (ptValue p)) (addr (CHR ''5''))
          (batchQuery (hash_of (CHR ''c'')) planned usdc_batch) = Inr vc"
    by (auto simp: planned_facts)
  then show ?thesis using v [unfolded planned_facts] by blast
qed

section \<open>An approval\<close>

definition approval_payload :: js where
  "approval_payload = (case initPayload payer_env payer_view ''PAY-1'' ''PAY-1'' [plan_draft (pay_plan ''USDC'')] of
     Inr p \<Rightarrow> p | Inl _ \<Rightarrow> JNull)"

definition approved_plan :: recipient_plan where
  "approved_plan = (pay_plan ''USDC'')\<lparr>rpTokenAddress := addr (CHR ''5'')\<rparr>"

lemma approval_payload:
  "initPayload payer_env payer_view ''PAY-1'' ''PAY-1'' [plan_draft (pay_plan ''USDC'')] = Inr approval_payload"
  "validatePayroll lower_evm approval_payload = ([], [approved_plan])"
proof -
  show init: "initPayload payer_env payer_view ''PAY-1'' ''PAY-1'' [plan_draft (pay_plan ''USDC'')] = Inr approval_payload"
    by (simp add: approval_payload_def initPayload_def tokenOf_def fromSome_def payer_env_def)
  have "ceTokens payer_env t = Some \<lparr>tkSymbol = ''USDC'', tkAddress = addr (CHR ''5''), tkDecimals = 6\<rparr>" for t
    by (simp add: payer_env_def)
  then show "validatePayroll lower_evm approval_payload = ([], [approved_plan])"
    by (simp add: approval_payload_def initPayload_def tokenOf_def fromSome_def
      validatePayroll_def validateRecipient_def addressErrors_def plan_draft_def payer_view_def
      amountErrors_def plannedRecipient_def targetOf_def supported_token_def getRecipientAddressValue_def
      normalAddress_def js_get_def js_str_def js_or_def js_length_def js_is_object_def blank_def Let_def
      trim_addr lower_evm_def half_amount pay_plan_def approved_plan_def payer_env_def wallet_env_def)
qed

definition approval_request :: acquire_input where
  "approval_request = approvalInput payer_env payer_view (addr (CHR ''c'')) 2506250 ''PAY-1:approval''"

definition approval_canonical :: canonical where
  "approval_canonical = (case canonicalize lower_evm usdc_routing approval_request of
     Inr c \<Rightarrow> c | Inl e \<Rightarrow> canonical.truncate sent)"

lemma trim_approval: "js_trim ''PAY-1:approval'' = ''PAY-1:approval''" "js_trim ''PAY-1'' = ''PAY-1''"
  by code_simp+

lemma zero_other: "toLowerCase zeroAddress \<noteq> addr (CHR ''5'')" "is_hex_address zeroAddress"
  by code_simp+

lemma canonical_approval:
  "canonicalize lower_evm usdc_routing approval_request = Inr approval_canonical"
  "intentNetwork approval_canonical = ARC_MAINNET" "operation approval_canonical = OP_TOKEN_APPROVAL"
  "idempotencyKey approval_canonical \<noteq> []"
proof -
  have units: "baseUnits (show_int 2506250) = Inr (show_nat 2506250)"
    by (simp add: baseUnits_def show_int_def positive_show)
  show "canonicalize lower_evm usdc_routing approval_request = Inr approval_canonical"
    "intentNetwork approval_canonical = ARC_MAINNET" "operation approval_canonical = OP_TOKEN_APPROVAL"
    "idempotencyKey approval_canonical \<noteq> []"
    using zero_other
    by (simp_all add: approval_canonical_def approval_request_def approvalInput_def canonicalize_def payer_env_def wallet_env_def payer_view_def Let_def
      ARC_MAINNET_def units trim_approval decide_def identifyToken_def parseAddressOr_def parseAddress_def trim_addr ensureR_def fromSome_def lower_evm_def
      assertExecutable_def decision_def routingOperation_def stableJson_request stableJson_logical immutable_request_def trim_or_null_def
      usdc_routing_def arc_def truthy_def request.defs canonical.defs uuidFromHash_def)
qed

abbreviation approval_intent :: intent where
  "approval_intent \<equiv> newIntent ''w'' approval_canonical"

lemma approval_acquired:
  "acquire lower_evm usdc_routing 0 ''w'' (\<lambda>_. undisturbed) approval_request empty_db = (Inr approval_intent, holding approval_intent)"
  using canonical_approval
  by (simp add: acquire_def undisturbed_def op_defs interfere_def acquireTx_def findIntent_def
      assertSelectedNetwork_def empty_db_def holding_def settlement_def arc_def usdc_routing_def)

lemma approval_ready: "ready approval_intent" "intentId approval_intent = ''w''" "idempotencyKey approval_intent \<noteq> []"
  using canonical_approval by (simp_all add: ready_def newIntent_def intent.defs canonical.defs)

lemma payer_approves: "\<exists>v. requestApproval payer_env payer_view 2506250 ''PAY-1'' (browser empty_db) = (Inr (Inr (hash_of (CHR ''c''))), v)"
proof -
  have env: "cePublicClient payer_env" "ceAddress payer_env = Some (addr (CHR ''a''))" "ceContract payer_env = Some (addr (CHR ''c''))"
      "ceFresh payer_env n k = ''w''" "ceNow payer_env n = 0" "ceReceiptStatus payer_env n h = Some True"
      "ceAllowance payer_env n t a b = Some 3000000" for n k h t a b
    by (simp_all add: payer_env_def wallet_env_def)
  have view: "vwTokenIn payer_view = addr (CHR ''5'')" by (simp add: payer_view_def)
  have reference: "buildPayrollApprovalReference ''PAY-1'' = Inr ''PAY-1:approval''"
    by (simp add: buildPayrollApprovalReference_def trim_approval ensureR_def Let_def)
  let ?w = "(browser (holding approval_intent))\<lparr>clTick := 1\<rparr>"
  have acquired: "acquireExecutionIntent payer_env approval_request (browser empty_db) = (Inr approval_intent, ?w)"
    by (simp add: acquireExecutionIntent_def payer_step onDatabase_def env approval_acquired browser_def)
  have "clDb ?w = holding approval_intent" by (simp add: browser_def)
  from ready_signs [OF approval_ready(1) _ approval_ready(3) this, where a = "addr (CHR ''5'')" and c = "Approve_call (addr (CHR ''c'')) 2506250"
      and n = 0, unfolded approval_ready(2)]
  obtain v where v: "executeTransaction payer_env (\<lambda>_. ok ())
      \<lparr>exTo = addr (CHR ''5''), exCall = Approve_call (addr (CHR ''c'')) 2506250, exValue = 0, exIntent = Some ''w'',
       exKey = Some (idempotencyKey approval_intent)\<rparr> ?w =
      (Inr \<lparr>erHash = hash_of (CHR ''c''), erLease = Some ''w''\<rparr>, v)" "clDb v = holding (asked_intent approval_intent)"
    by auto
  obtain q u where u: "bindExecutionIntentTransactionHash payer_env ''w'' (hash_of (CHR ''c'')) (idempotencyKey approval_intent) (Some ''w'') v = (Inr q, u)"
    using ready_bound [OF approval_ready(1) v(2)] approval_ready(2) by auto
  have wait: "\<exists>t. waitForAllowanceUpdate payer_env payer_view 2506250 (hash_of (CHR ''c'')) u = (Inr (), t)"
    by (simp add: waitForAllowanceUpdate_def MAX_CONFIRMATION_POLLS_def eval_nat_numeral readAllowance_def outside_def
        payer_step andThen_def ensure_def ok_def lift_def fromSome_def env truthy_def)
  have "\<exists>t. approveSpender payer_env payer_view 2506250 ''PAY-1:approval'' (browser empty_db) = (Inr (hash_of (CHR ''c'')), t)"
    using acquired v(1) u wait
    by (auto simp: approveSpender_def requireWizPayAddress_def env fromSome_def lift_def andThen_def ok_def truthy_def approval_ready(2)
        approval_request_def [symmetric] view)
  then show ?thesis
    by (auto simp: requestApproval_def env truthy_def attempting_def reference andThen_def lift_def)
qed

theorem approval_covers_batches_witness:
  "\<exists>fundings. list_all2 (\<lambda>b n. sameTokenFunding (map rpUnits (bRecipients b)) 25 = Inr n) (splitIntoBatches [approved_plan]) fundings \<and>
     sum_list fundings = 2506250"
proof -
  have amount: "groupFeeInclusiveAmount payer_env [plan_draft (pay_plan ''USDC'')] 6 25 = 2506250"
    using client_units [of payer_env "''2.5''"]
    by (simp add: groupFeeInclusiveAmount_def plan_draft_def pay_plan_def half_amount Let_def)
  then have required: "requiredApproval payer_env payer_view [plan_draft (pay_plan ''USDC'')] 0 = 2506250"
    by (simp add: requiredApproval_def payer_view_def Let_def)
  obtain v where v: "requestApproval payer_env payer_view (requiredApproval payer_env payer_view [plan_draft (pay_plan ''USDC'')] 0)
      ''PAY-1'' (browser empty_db) = (Inr (Inr (hash_of (CHR ''c''))), v)"
    using payer_approves required by auto
  have "evm_laws (ceEvm payer_env)" "tkDecimals (vwToken payer_view) = 6" "vwFeeBps payer_view = 25"
    "validatePayroll (ceEvm payer_env) approval_payload = ([], [approved_plan])"
    by (simp_all add: lower_evm_laws payer_view_def approval_payload)
  with approval_covers_batches [OF _ _ _ approval_payload(1) _ v, of "[approved_plan]"] amount show ?thesis by auto
qed

end
