(* ===== verification/Spec2Isabelle.thy ===== *)
theory Spec2Isabelle
  imports DirectTransfer BridgeExamples InvoiceCreation RateLimit PayrollPlanProperties PayrollTaskProperties
    SwapExamples WalletAuthProperties TaskPolls ActivityExamples PayrollHistoryProperties ClientPayrollExamples
begin

text \<open>
  WizPay Core: the payment core of the backend, and the part of the web client that spends, in Isabelle/HOL.

  The program.  WizPay prepares stablecoin payments on the Arc network that an external wallet signs, and
  records what the chain says about them.  The backend (\<open>apps/backend/src\<close>, NestJS over PostgreSQL) never
  holds funds: it plans a payment, writes down its immutable terms, and later proves from transaction
  receipts that exactly these terms were executed.  The parts modelled here and how they meet:

    \<^item> an \<^emph>\<open>execution intent\<close> is the durable record of one payment; a direct transfer, a payroll batch and
      the settlement of an invoice each own one, and each completes it through the same
      \<open>completeWithVerifiedReceipt\<close> with the evidence of its own verifier;
    \<^item> \<^emph>\<open>payment routing\<close> and the \<^emph>\<open>capability switches\<close> decide what may be paid at all, and are asked
      by the intents, the invoices and the payroll;
    \<^item> \<^emph>\<open>invoices\<close> and payment links settle through an intent per invoice; a public endpoint behind a
      rate limit submits the hash of the payment;
    \<^item> a \<^emph>\<open>payroll run\<close> is validated, split into batches, given an intent per batch and stored as a
      \<^emph>\<open>task\<close> with a unit per batch, which is reported after its receipt is verified;
    \<^item> a \<^emph>\<open>swap\<close> of USDC and EURC is quoted live behind a quorum of RPC nodes, planned with price floors,
      signed by the wallet, and recorded when its receipt is verified; a cross-token payroll is funded by
      such quotes;
    \<^item> a task can also be queued for the \<^emph>\<open>orchestrator\<close>, whose agents refuse to execute anything for the
      user; tracked transactions of a task are followed by a \<^emph>\<open>poller\<close>, which finishes the task;
    \<^item> \<^emph>\<open>wallet authentication\<close> turns a signature on a challenge into a session of the wallet's owner;
    \<^item> the \<^emph>\<open>activity feed\<close> projects what was verified (payments, transfers, payrolls, swaps, bridges) into a
      table that the owner of a wallet reads in pages;
    \<^item> a \<^emph>\<open>bridge transfer\<close> burns on one chain and mints on another, with Circle's attestation between;
    \<^item> the \<^emph>\<open>web client\<close> (\<open>apps/frontend\<close>) runs a payroll or a single transfer: it acquires the intents, has the
      wallet of the user sign the calls, binds the hashes and reports the units to the backend.

  How the code is modelled.  The database is the record \<open>db\<close> of Schema.thy, one list of rows per Prisma
  model in order of creation.  A service method is a function from the database to a result or an
  exception and the database it leaves behind (the type \<open>op\<close> of Prelude.thy): a statement that ran
  before an exception stays in force unless it ran in \<open>transaction\<close>.  Unique columns are checked by the
  inserts and updates of Table.thy.  What other requests do between two statements of a method is an
  argument (\<open>others\<close>, \<open>interfere\<close>) wherever the outcome depends on it.  Exceptions keep their class, their
  machine code and the flag \<open>retryable\<close>; the message texts are left out.  Code outside the repository
  enters as arguments: viem's address functions, hashes and ABI codecs (\<open>evm\<close>, \<open>abi\<close>, \<open>payroll_abi\<close>),
  the answers of the RPC nodes (\<open>chain\<close>, \<open>rpc\<close>) and of Circle (\<open>iris\<close>), fresh identifiers and the clock.
  What is used of them is stated as \<open>evm_laws\<close> and satisfied by concrete instances (\<open>lower_evm\<close>).

  The theories.
    \<^item> Prelude.thy: exceptions, operations, decimal numerals, strings, \<open>evm\<close>.  Table.thy: rows,
      updates with unique columns and the locales \<open>row_evolution\<close> and \<open>table_writes\<close>, which turn a
      relation between one row before and after a statement into facts on histories.  Json.thy:
      \<open>JSON.stringify\<close> and its injectivity.  Schema.thy: \<open>database/schema.prisma\<close>.
      Chain.thy: what a verifier reads, \<open>BigInt\<close> and throwing filters.
    \<^item> PaymentRouting.thy: \<open>routing/payment-routing.service.ts\<close>.  Capability.thy: the switches of
      \<open>packages/arc-network/index.js\<close> and \<open>capabilities/capability.service.ts\<close>.
    \<^item> ExecutionIntent.thy: \<open>execution-intent/execution-intent.service.ts\<close>, method by method.
      IntentWrites.thy abstracts every method to a run of the guarded statements \<open>intent_write\<close>;
      IntentProperties.thy and IntentTheorems.thy hold the invariant and the properties; IntentFrame.thy
      shows that intent methods touch no other table.
    \<^item> DirectTransfer.thy: \<open>direct-transfer-receipt-verifier.service.ts\<close> with the endpoint that
      verifies an intent, as an interpretation of the locale \<open>receipt_verifier\<close>.
    \<^item> InvoiceVerifier.thy: \<open>invoice/invoice-payment-verifier.service.ts\<close>.  Invoice.thy:
      \<open>invoice/invoice.service.ts\<close>.  Interference.thy states rely and guarantee of concurrent requests
      as a locale; InvoiceWrites.thy, InvoiceRuns.thy and InvoiceTheorems.thy interpret it for the
      settlement of invoices.  InvoiceCreation.thy: the bounds of new invoices.  RateLimit.thy:
      \<open>invoice/public-invoice.controller.ts\<close>.
    \<^item> Cctp.thy: \<open>bridge/bridge-message.ts\<close>.  BridgeRegistry.thy: \<open>packages/bridge-registry/index.js\<close> and
      \<open>bridge/bridge-quote.service.ts\<close>.  BridgeLifecycle.thy: \<open>bridge/bridge-lifecycle.service.ts\<close>, with
      its properties in BridgeProperties.thy and concrete runs in BridgeExamples.thy.
    \<^item> PayrollPlan.thy: \<open>agents/payroll\<close> and the planning helpers of \<open>task/task.service.ts\<close>.  Tasks.thy: the task
      service with its unit, transaction, log and mapper services.  PayrollReceipt.thy:
      \<open>task/payroll-receipt-verifier.service.ts\<close>.  PayrollTask.thy: creating, recovering and reporting payroll
      runs.  Their properties are in the theories named after them.
    \<^item> TaskExecution.thy: \<open>orchestrator/orchestrator.service.ts\<close>, \<open>queue/queue.service.ts\<close>,
      \<open>execution/execution-router.service.ts\<close>, the agents of \<open>agents\<close> and
      \<open>queue/processors/transaction-poller.service.ts\<close>; the state adds the jobs and polls that were queued to the
      database.  TaskExecutionProperties.thy holds what becomes of an accepted task, TaskPolls.thy the polls.
    \<^item> WalletAuth.thy: \<open>modules/wallet/wallet-auth.service.ts\<close> and the registry of external wallets in
      \<open>wallet.service.ts\<close>, over their own tables (\<open>auth_db\<close>); WalletAuthProperties.thy runs them as sequences of
      calls, each with any others between its statements.
    \<^item> SwapProtocol.thy: \<open>user-swap/mainnet-uniswap-v4-protocol.ts\<close>.  SwapService.thy: the readiness, quote and
      swap services of \<open>user-swap\<close> with their controller.  SwapProperties.thy and SwapServiceProperties.thy hold
      the properties, SwapExamples.thy one sale from quote to record.
    \<^item> Activity.thy: \<open>activity/activity.service.ts\<close>, the list endpoint of its controller and
      \<open>activity-backfill.service.ts\<close>, over the tables \<open>activity_db\<close>.  ActivityEvidence.thy holds what backs the
      rows of the feed, ActivityProperties.thy its pages and its leases, ActivityExamples.thy a concrete sync.
      PayrollHistory.thy: \<open>task/task-payroll-history.service.ts\<close> and \<open>task-employee-breakdown.service.ts\<close>, with
      their properties in PayrollHistoryProperties.thy.
    \<^item> ClientWallet.thy: \<open>lib/execution-intent.ts\<close>, \<open>lib/external-wallet-policy.ts\<close> and
      \<open>hooks/useTransactionExecutor.ts\<close> of the web client, over the state \<open>client\<close>: the database behind the
      backend, the requests the wallet was shown and the local storage; at every \<open>await\<close> the others act.
      ClientPayroll.thy: \<open>hooks/wizpay\<close> and \<open>lib/mainnet-payroll-protocol.ts\<close>.  ClientSend.thy:
      \<open>app/send/page.tsx\<close> with \<open>lib/send-operation.ts\<close>, \<open>lib/send-transaction.ts\<close> and \<open>lib/arc-gas-reserve.ts\<close>.
      ClientFrame.thy holds the locales \<open>client_frame\<close> and \<open>run_frame\<close>: what the steps of a run keep, the run
      keeps.  ClientSigning.thy interprets them for signatures, ClientRuns.thy for the pending units;
      ClientProperties.thy runs clients against each other and ClientPayrollProperties.thy follows a plan from
      the backend to the wallet.  ClientExamples.thy and ClientPayrollExamples.thy hold concrete runs.

  What is shown.  Of the intents: their table invariant, immutability, at-most-once evidence, idempotent
  acquisition, exclusive leases, termination of the retry loop, and that each completion is backed by
  evidence that agrees with every immutable field.  Of the verifiers: acceptance means payment on the
  selected chain (for invoices as an equivalence), and which failures are final.  Of the invoices: a paid
  invoice is backed by its own completed settlement under any interference of other requests.  Of the
  bridge: attestations and mints match the intent that was stored.  Of the payroll: plans are exact
  partitions of validated recipients, unit counters count units, a unit reported as a success is paid, and the
  history of a wallet is complete.
  Of the swaps: the gate opens on a recent agreement of the nodes, price floors are exact, funding covers its
  obligations, and what is recorded happened on the chain as it was prepared.  Of queued tasks: what was
  accepted is refused by its agent and leaves everything else alone; the polls of a transaction end, settle it
  and finish its task.  Of the sessions: each goes back to a signature on an own challenge, a challenge is worth
  one session, and an owner has one live session at a time.  Of the activity feed: each row is backed by verified
  records of its wallet, pages are complete, and syncs of one owner start a minute apart.  Of the clients: whatever several of them do at once, a
  wallet is asked to sign for an intent at most once; what is signed for a unit is the planned batch as the
  verifier of the backend accepts it; an approval covers the batches of its group; and the run over the units
  ends.

  Bounds and loops.  Loops of the code are structural recursion: over the list they run through, or over the
  list of worlds their attempts see (the three attempts of \<open>acquire\<close>, the four of a payroll quote).  Polls are
  delivered by \<open>run_polls\<close>, one per element of a list, and \<open>polls_settle\<close> says how long the list must be.  The
  loop of the client over the units of a plan has fuel, of which \<open>run_ends\<close> shows that the number of pending units
  and one more is enough.  The retry of \<open>bindTransactionHash\<close> has no bound in the code: it is a function with fuel that is \<open>None\<close> when
  the fuel runs out, and \<open>bind_terminates\<close> shows that two rounds are always enough.  BigInt values are
  \<open>int\<close> or \<open>nat\<close>; JavaScript numbers are kept as naturals where the code checks that they are, and the two
  places where precision is lost (\<open>parseInt\<close> of a reference suffix, \<open>Number\<close> of a fee) carry the bound.

  Not modelled.  Message texts, logging and timestamps of rows; the HTTP layer (routes, validation
  pipes, guards) except where a controller combines service calls; delays, retries and storage of BullMQ; the
  screens of the React frontend besides the payroll run and the send screen; services of the backend that nothing
  calls; Solidity contracts; generated ABIs; modules that only call third-party services.
\<close>

end
